(* ===== verification/Prelude.thy ===== *)
theory Prelude
  imports Complex_Main "HOL-Library.AList" "HOL-Library.Word"
begin

text \<open>
  Shared notions of the development.

  The program is written in Go. A Go \<^verbatim>\<open>map\<close> is an association list (\<open>gomap\<close>) with
  \<open>map_of\<close>, \<open>AList.update\<close> and \<open>AList.delete\<close>; the list order is the order in which a
  \<^verbatim>\<open>range\<close> loop of that run meets the keys, which Go leaves unspecified, so a theorem
  about all association lists covers every iteration order. Fixed-width signed integers are
  integers with the wrap-around written out (\<open>s64\<close>, \<open>s32\<close>).

  A Kubernetes \<^verbatim>\<open>resource.Quantity\<close> lives in a third-party module. A quantity is represented
  by the number it denotes (a rational; \<^verbatim>\<open>1500m\<close> is \<open>3/2\<close>), and its exact
  fixed-point operations \<^verbatim>\<open>Add\<close>, \<^verbatim>\<open>Sub\<close>, \<^verbatim>\<open>Cmp\<close>, \<^verbatim>\<open>IsZero\<close>,
  \<^verbatim>\<open>Mul\<close> by the arithmetic of that number. The operations that round or format
  (\<^verbatim>\<open>Value\<close>, \<^verbatim>\<open>AsApproximateFloat64\<close>, \<^verbatim>\<open>ParseQuantity\<close>) are arguments of
  the definitions that call them.
\<close>

type_synonym quantity = rat
type_synonym ('k, 'v) gomap = "('k \<times> 'v) list"

named_theorems go_defs \<open>unfoldings of the small operations shared by the components\<close>

section \<open>Informer events\<close>

text \<open>
  What a client-go informer hands to its callbacks: an object of the expected type, a tombstone
  (\<^verbatim>\<open>DeletedFinalStateUnknown\<close>) around an object, or something else.
\<close>

datatype 'a informer_obj = Typed 'a | Tombstone "'a informer_obj" | Unexpected

datatype 'a informer_event =
    AddFunc "'a informer_obj"
  | DeleteFunc "'a informer_obj"
  | UpdateFunc "'a informer_obj" "'a informer_obj"

section \<open>Signed machine integers\<close>

definition s64 :: "int \<Rightarrow> int" where
  "s64 x = (x + 2 ^ 63) mod 2 ^ 64 - 2 ^ 63"

definition s32 :: "int \<Rightarrow> int" where
  "s32 x = (x + 2 ^ 31) mod 2 ^ 32 - 2 ^ 31"

text \<open>Conversion of a signed \<^verbatim>\<open>int\<close> to \<^verbatim>\<open>uint\<close>.\<close>

definition to_uint :: "int \<Rightarrow> nat" where
  "to_uint x = nat (x mod 2 ^ 64)"

lemma s64_id: "- (2 ^ 63) \<le> x \<Longrightarrow> x < 2 ^ 63 \<Longrightarrow> s64 x = x"
  by (simp add: s64_def)

lemma s32_id: "- (2 ^ 31) \<le> x \<Longrightarrow> x < 2 ^ 31 \<Longrightarrow> s32 x = x"
  by (simp add: s32_def)

lemma s64_range: "- (2 ^ 63) \<le> s64 x \<and> s64 x < 2 ^ 63"
  by (simp add: s64_def)

lemma s32_range: "- (2 ^ 31) \<le> s32 x \<and> s32 x < 2 ^ 31"
  by (simp add: s32_def)

lemma to_uint_id: "0 \<le> x \<Longrightarrow> x < 2 ^ 64 \<Longrightarrow> to_uint x = nat x"
  by (simp add: to_uint_def)

section \<open>Truncated division, as Go divides integers\<close>

definition go_div :: "int \<Rightarrow> int \<Rightarrow> int" where
  "go_div a b = sgn a * sgn b * (\<bar>a\<bar> div \<bar>b\<bar>)"

definition go_mod :: "int \<Rightarrow> int \<Rightarrow> int" where
  "go_mod a b = a - b * go_div a b"

lemma go_div_nonneg: "0 \<le> a \<Longrightarrow> 0 < b \<Longrightarrow> go_div a b = a div b"
  by (cases "a = 0") (auto simp: go_div_def)

lemma go_mod_nonneg: "0 \<le> a \<Longrightarrow> 0 < b \<Longrightarrow> go_mod a b = a mod b"
  by (simp add: go_mod_def go_div_nonneg minus_mult_div_eq_mod)

end
