(* ===== verification/ApiTypes.thy ===== *)
theory ApiTypes
  imports Prelude
begin

text \<open>
  The API objects of \<^verbatim>\<open>api/v1\<close> the control plane computes on, as records with one field per
  Go field the modelled code reads or writes: \<^verbatim>\<open>Resource\<close> and \<^verbatim>\<open>Resources\<close>
  (\<open>tensorfusionconnection_types.go\<close>), \<^verbatim>\<open>GPU\<close> (\<open>gpu_types.go\<close>), quota and allocation
  request types (\<open>gpuresourcequota_types.go\<close>), and the object metadata of pods. A pointer field
  that may be nil is an \<open>option\<close>; a Go map read through a missing key gives the empty string
  (\<open>get_str\<close>), and a nil map reads as an empty one.
\<close>

section \<open>Strings used as keys (internal/constants)\<close>

definition KubernetesHostNameLabel :: string where
  "KubernetesHostNameLabel = ''kubernetes.io/hostname''"

definition GpuPoolKey :: string where
  "GpuPoolKey = ''tensor-fusion.ai/gpupool''"

definition LabelKeyOwner :: string where
  "LabelKeyOwner = ''tensor-fusion.ai/managed-by''"

definition LabelComponent :: string where
  "LabelComponent = ''tensor-fusion.ai/component''"

definition ComponentWorker :: string where
  "ComponentWorker = ''worker''"

definition WorkloadKey :: string where
  "WorkloadKey = ''tensor-fusion.ai/workload''"

definition Finalizer :: string where
  "Finalizer = ''tensor-fusion.ai/finalizer''"

definition TensorFusionGPUPhasePending :: string where
  "TensorFusionGPUPhasePending = ''Pending''"

definition TensorFusionGPUPhaseRunning :: string where
  "TensorFusionGPUPhaseRunning = ''Running''"

definition UsedByTensorFusion :: string where
  "UsedByTensorFusion = ''tensor-fusion''"

definition QoSMedium :: string where
  "QoSMedium = ''medium''"

lemmas key_defs = KubernetesHostNameLabel_def GpuPoolKey_def LabelKeyOwner_def LabelComponent_def
  ComponentWorker_def WorkloadKey_def Finalizer_def TensorFusionGPUPhasePending_def
  TensorFusionGPUPhaseRunning_def UsedByTensorFusion_def QoSMedium_def

definition get_str :: "(string, string) gomap \<Rightarrow> string \<Rightarrow> string" where
  "get_str m k = (case map_of m k of None \<Rightarrow> '''' | Some v \<Rightarrow> v)"

section \<open>Resources\<close>

record resource =
  Tflops :: quantity
  ComputePercent :: quantity
  Vram :: quantity

record resources =
  Requests :: resource
  Limits :: resource

definition zero_resource :: resource where
  "zero_resource = \<lparr>Tflops = 0, ComputePercent = 0, Vram = 0\<rparr>"

definition zero_resources :: resources where
  "zero_resources = \<lparr>Requests = zero_resource, Limits = zero_resource\<rparr>"

text \<open>\<^verbatim>\<open>Resources.Equal\<close> and \<^verbatim>\<open>Resources.IsZero\<close>; a nil argument is \<open>None\<close>.\<close>

definition Resources_Equal :: "resources \<Rightarrow> resources option \<Rightarrow> bool" where
  "Resources_Equal r t =
     (case t of None \<Rightarrow> False
      | Some t \<Rightarrow> Tflops (Requests r) = Tflops (Requests t) \<and> Vram (Requests r) = Vram (Requests t)
          \<and> Tflops (Limits r) = Tflops (Limits t) \<and> Vram (Limits r) = Vram (Limits t))"

definition Resources_IsZero :: "resources \<Rightarrow> bool" where
  "Resources_IsZero r \<longleftrightarrow>
     Tflops (Requests r) = 0 \<and> Vram (Requests r) = 0 \<and> Tflops (Limits r) = 0 \<and> Vram (Limits r) = 0"

section \<open>Objects\<close>

record name_namespace =
  nn_Name :: string
  nn_Namespace :: string

record object_meta =
  om_Name :: string
  om_Namespace :: string
  om_UID :: string
  om_Labels :: "(string, string) gomap"
  om_Annotations :: "(string, string) gomap"
  om_Deleting :: bool  \<comment> \<open>\<open>DeletionTimestamp\<close> is set\<close>
  om_Finalizers :: "string list"

record pod =
  pod_Meta :: object_meta
  pod_NodeName :: string

record pod_gpu_info =
  pgi_Name :: string
  pgi_Namespace :: string
  pgi_UID :: string
  pgi_Requests :: resource
  pgi_Limits :: resource
  pgi_QoS :: string

record running_app =
  ra_Name :: string
  ra_Namespace :: string
  ra_Count :: int
  ra_Pods :: "pod_gpu_info list"

record gpu =
  gpu_Name :: string
  gpu_Labels :: "(string, string) gomap"
  gpu_Annotations :: "(string, string) gomap"
  gpu_ResourceVersion :: string
  gpu_Generation :: int
  gpu_OwnerReferences :: "string list"
  gpu_Kind :: string
  gpu_APIVersion :: string
  gpu_Phase :: string
  gpu_Vendor :: string
  gpu_Capacity :: "resource option"
  gpu_Available :: "resource option"
  gpu_UUID :: string
  gpu_Index :: "int option"
  gpu_NUMANode :: "int option"
  gpu_NodeSelector :: "(string, string) gomap"
  gpu_GPUModel :: string
  gpu_UsedBy :: string
  gpu_Message :: string
  gpu_RunningApps :: "running_app list"

definition gpu_node :: "gpu \<Rightarrow> string" where
  "gpu_node g = get_str (gpu_NodeSelector g) KubernetesHostNameLabel"

section \<open>Quota objects\<close>

record gpu_resource_usage =
  u_Requests :: resource
  u_Limits :: resource
  u_Workers :: int

record quota_total =
  qt_Requests :: "resource option"
  qt_Limits :: "resource option"
  qt_MaxWorkers :: "int option"
  qt_AlertThresholdPercent :: "int option"

record quota_single =
  qs_MaxRequests :: "resource option"
  qs_MaxLimits :: "resource option"
  qs_MaxGPUCount :: "int option"
  qs_DefaultRequests :: "resource option"
  qs_DefaultLimits :: "resource option"

record available_percent =
  ap_RequestsTFlops :: string
  ap_RequestsVRAM :: string
  ap_LimitsTFlops :: string
  ap_LimitsVRAM :: string
  ap_Workers :: string

record condition =
  cond_Type :: string
  cond_Status :: bool
  cond_Reason :: string
  cond_Message :: string

record quota_status =
  qst_Used :: gpu_resource_usage
  qst_AvailablePercent :: available_percent
  qst_Conditions :: "condition list"

record gpu_resource_quota =
  grq_Name :: string
  grq_Namespace :: string
  grq_Total :: quota_total
  grq_Single :: quota_single
  grq_Status :: quota_status

section \<open>Allocation requests\<close>

text \<open>
  A node affinity belongs to the Kubernetes API module: the required node selector and each
  preferred scheduling term are opaque tokens, matched by a function that is an argument of the
  filter that uses it.
\<close>

type_synonym node_selector = string

record node_affinity =
  na_Required :: "node_selector option"
  na_Preferred :: "(int \<times> node_selector) list"

record alloc_request =
  ar_PoolName :: string
  ar_Workload :: name_namespace
  ar_Request :: resource
  ar_Limit :: resource
  ar_GPUIndices :: "int list"
  ar_Count :: nat
  ar_GPUModel :: string
  ar_GPUVendor :: string
  ar_NodeAffinity :: "node_affinity option"
  ar_GPUNames :: "string list"
  ar_PodMeta :: object_meta
  ar_QoS :: string

record adjust_request =
  adj_PodUID :: string
  adj_IsScaleUp :: bool
  adj_NewRequest :: resource
  adj_NewLimit :: resource

section \<open>Pod predicates (internal/utils/reconcile.go)\<close>

definition IsTensorFusionWorker :: "pod \<Rightarrow> bool" where
  "IsTensorFusionWorker p \<longleftrightarrow> get_str (om_Labels (pod_Meta p)) LabelComponent = ComponentWorker"

text \<open>An object reference as \<^verbatim>\<open>NamespacedName.String\<close> and \<^verbatim>\<open>namespace + "/" + name\<close> print it.\<close>

definition ns_name :: "string \<Rightarrow> string \<Rightarrow> string" where
  "ns_name namespace name = namespace @ ''/'' @ name"

end
