(* ===== verification/GoFloat.thy ===== *)
theory GoFloat
  imports Prelude "HOL-Library.Log_Nat"
begin

text \<open>
  The part of Go's \<^verbatim>\<open>float64\<close> the program uses: IEEE 754 binary64 values (finite values as
  the rational they denote; the two zeros are one value), the four operations rounded to nearest
  even with overflow to an infinity, comparison, \<^verbatim>\<open>math.Round\<close>, \<^verbatim>\<open>math.Min\<close>, and the
  conversion to a signed 64-bit integer. Go leaves the result of that conversion
  implementation-dependent when the value does not fit; it is then the value of the argument
  \<open>impl\<close>.
\<close>

datatype float64 = Fin rat | PInf | NInf | NaN

definition pow2 :: "int \<Rightarrow> rat" where
  "pow2 e = (if 0 \<le> e then 2 ^ nat e else 1 / 2 ^ nat (- e))"

text \<open>The exponent of the leading binary digit of a positive rational.\<close>

definition lead_exp :: "rat \<Rightarrow> int" where
  "lead_exp r =
     (case quotient_of r of (n, d) \<Rightarrow>
        let k = int (floorlog 2 (nat n)) - int (floorlog 2 (nat d))
        in if pow2 k \<le> r then k else k - 1)"

definition round_half_even :: "rat \<Rightarrow> int" where
  "round_half_even x =
     (let f = \<lfloor>x\<rfloor>; d = x - of_int f
      in if d < 1 / 2 then f
         else if 1 / 2 < d then f + 1
         else if even f then f else f + 1)"

text \<open>Rounding to binary64: 53 significant bits, no bit below \<open>2\<^sup>-\<^sup>1\<^sup>0\<^sup>7\<^sup>4\<close>.\<close>

definition grid :: "rat \<Rightarrow> rat" where
  "grid r = pow2 (max (lead_exp \<bar>r\<bar> - 52) (- 1074))"

definition round64 :: "rat \<Rightarrow> rat" where
  "round64 r = (if r = 0 then 0 else of_int (round_half_even (r / grid r)) * grid r)"

definition fl64 :: "rat \<Rightarrow> float64" where
  "fl64 r =
     (let q = round64 r
      in if 2 ^ 1024 \<le> q then PInf else if q \<le> - (2 ^ 1024) then NInf else Fin q)"

definition f64_of_int :: "int \<Rightarrow> float64" where
  "f64_of_int n = fl64 (of_int n)"

fun f64_neg :: "float64 \<Rightarrow> float64" where
  "f64_neg (Fin r) = Fin (- r)"
| "f64_neg PInf = NInf"
| "f64_neg NInf = PInf"
| "f64_neg NaN = NaN"

fun f64_add :: "float64 \<Rightarrow> float64 \<Rightarrow> float64" where
  "f64_add (Fin a) (Fin b) = fl64 (a + b)"
| "f64_add NaN _ = NaN"
| "f64_add _ NaN = NaN"
| "f64_add PInf NInf = NaN"
| "f64_add NInf PInf = NaN"
| "f64_add PInf _ = PInf"
| "f64_add NInf _ = NInf"
| "f64_add _ PInf = PInf"
| "f64_add _ NInf = NInf"

definition f64_sub :: "float64 \<Rightarrow> float64 \<Rightarrow> float64" where
  "f64_sub a b = f64_add a (f64_neg b)"

definition f64_inf_of_sign :: "rat \<Rightarrow> float64" where
  "f64_inf_of_sign r = (if r = 0 then NaN else if 0 < r then PInf else NInf)"

fun f64_mul :: "float64 \<Rightarrow> float64 \<Rightarrow> float64" where
  "f64_mul (Fin a) (Fin b) = fl64 (a * b)"
| "f64_mul NaN _ = NaN"
| "f64_mul _ NaN = NaN"
| "f64_mul (Fin a) PInf = f64_inf_of_sign a"
| "f64_mul (Fin a) NInf = f64_inf_of_sign (- a)"
| "f64_mul PInf (Fin b) = f64_inf_of_sign b"
| "f64_mul NInf (Fin b) = f64_inf_of_sign (- b)"
| "f64_mul PInf PInf = PInf"
| "f64_mul PInf NInf = NInf"
| "f64_mul NInf PInf = NInf"
| "f64_mul NInf NInf = PInf"

fun f64_div :: "float64 \<Rightarrow> float64 \<Rightarrow> float64" where
  "f64_div (Fin a) (Fin b) = (if b = 0 then f64_inf_of_sign a else fl64 (a / b))"
| "f64_div NaN _ = NaN"
| "f64_div _ NaN = NaN"
| "f64_div (Fin a) PInf = Fin 0"
| "f64_div (Fin a) NInf = Fin 0"
| "f64_div PInf (Fin b) = (if 0 \<le> b then PInf else NInf)"
| "f64_div NInf (Fin b) = (if 0 \<le> b then NInf else PInf)"
| "f64_div PInf PInf = NaN"
| "f64_div PInf NInf = NaN"
| "f64_div NInf PInf = NaN"
| "f64_div NInf NInf = NaN"

fun f64_less :: "float64 \<Rightarrow> float64 \<Rightarrow> bool" where
  "f64_less (Fin a) (Fin b) = (a < b)"
| "f64_less (Fin a) PInf = True"
| "f64_less NInf (Fin b) = True"
| "f64_less NInf PInf = True"
| "f64_less _ _ = False"

text \<open>\<^verbatim>\<open>math.Round\<close> rounds half away from zero; \<^verbatim>\<open>math.Min\<close> propagates NaN.\<close>

fun math_Round :: "float64 \<Rightarrow> float64" where
  "math_Round (Fin r) = Fin (of_int (if 0 \<le> r then \<lfloor>r + 1 / 2\<rfloor> else \<lceil>r - 1 / 2\<rceil>))"
| "math_Round x = x"

definition math_Min :: "float64 \<Rightarrow> float64 \<Rightarrow> float64" where
  "math_Min a b = (if a = NaN \<or> b = NaN then NaN else if f64_less b a then b else a)"

text \<open>\<^verbatim>\<open>math.Max\<close> looks at infinities before it looks at NaN.\<close>

definition math_Max :: "float64 \<Rightarrow> float64 \<Rightarrow> float64" where
  "math_Max a b =
     (if a = PInf \<or> b = PInf then PInf else if a = NaN \<or> b = NaN then NaN else if f64_less a b then b else a)"

fun math_Ceil :: "float64 \<Rightarrow> float64" where
  "math_Ceil (Fin r) = Fin (of_int \<lceil>r\<rceil>)"
| "math_Ceil x = x"

definition f64_le :: "float64 \<Rightarrow> float64 \<Rightarrow> bool" where
  "f64_le a b \<longleftrightarrow> a \<noteq> NaN \<and> b \<noteq> NaN \<and> \<not> f64_less b a"

definition trunc_rat :: "rat \<Rightarrow> int" where
  "trunc_rat r = (if 0 \<le> r then \<lfloor>r\<rfloor> else \<lceil>r\<rceil>)"

fun f64_to_int64 :: "(float64 \<Rightarrow> int) \<Rightarrow> float64 \<Rightarrow> int" where
  "f64_to_int64 impl (Fin r) =
     (let n = trunc_rat r in if - (2 ^ 63) \<le> n \<and> n < 2 ^ 63 then n else impl (Fin r))"
| "f64_to_int64 impl x = impl x"

section \<open>Rounding is monotone and exact on short integers\<close>

lemma pow2_pos [simp]: "0 < pow2 e"
  by (simp add: pow2_def)

lemma pow2_Suc: "pow2 (e + 1) = 2 * pow2 e"
proof (cases "0 \<le> e")
  case True
  then have "nat (e + 1) = Suc (nat e)" by simp
  with True show ?thesis by (simp add: pow2_def)
next
  case False
  show ?thesis
  proof (cases "e = -1")
    case True
    then show ?thesis by (simp add: pow2_def)
  next
    case neq: False
    with False have "nat (- e) = Suc (nat (- (e + 1)))" by simp
    with False neq show ?thesis by (simp add: pow2_def)
  qed
qed

lemma pow2_add_nat: "pow2 (e + int n) = 2 ^ n * pow2 e"
proof (induction n)
  case 0
  then show ?case by simp
next
  case (Suc n)
  have "pow2 (e + int (Suc n)) = pow2 ((e + int n) + 1)" by (simp add: algebra_simps)
  also have "\<dots> = 2 ^ Suc n * pow2 e" by (simp only: pow2_Suc Suc) simp
  finally show ?case .
qed

lemma pow2_mono: "a \<le> b \<Longrightarrow> pow2 a \<le> pow2 b"
  using pow2_add_nat [of a "nat (b - a)"] mult_right_mono [of 1 "2 ^ nat (b - a)" "pow2 a"]
  by (simp add: less_imp_le)

lemma pow2_less_cancel: "pow2 a < pow2 b \<Longrightarrow> a < b"
  using pow2_mono [of b a] by (meson leD leI)

lemma pow2_add: "pow2 (a + b) = pow2 a * pow2 b"
proof (cases "0 \<le> b")
  case True
  then show ?thesis using pow2_add_nat [of a "nat b"] by (simp add: pow2_def)
next
  case False
  then have "pow2 a = 2 ^ nat (- b) * pow2 (a + b)"
    using pow2_add_nat [of "a + b" "nat (- b)"] by simp
  with False show ?thesis by (simp add: pow2_def)
qed

lemma pow2_0 [simp]: "pow2 0 = 1"
  by (simp add: pow2_def)

lemma pow2_floorlog_bounds:
  assumes "0 < n"
  shows "pow2 (int (floorlog 2 n) - 1) \<le> of_nat n" and "of_nat n < pow2 (int (floorlog 2 n))"
proof -
  from assms have b: "2 ^ (floorlog 2 n - 1) \<le> n" "n < 2 ^ floorlog 2 n"
    using floorlog_bounds [of n 2] by auto
  have pos: "0 < floorlog 2 n" using assms by (simp add: floorlog_def)
  then have "pow2 (int (floorlog 2 n) - 1) = 2 ^ (floorlog 2 n - 1)"
    by (simp add: pow2_def nat_diff_distrib)
  also have "\<dots> \<le> of_nat n"
    using b(1) by (metis of_nat_le_iff of_nat_numeral of_nat_power)
  finally show "pow2 (int (floorlog 2 n) - 1) \<le> of_nat n" .
  have "of_nat n < (2 ^ floorlog 2 n :: rat)"
    using b(2) by (metis of_nat_less_iff of_nat_numeral of_nat_power)
  then show "of_nat n < pow2 (int (floorlog 2 n))" by (simp add: pow2_def)
qed

lemma lead_exp_bounds:
  assumes "0 < r"
  shows "pow2 (lead_exp r) \<le> r \<and> r < pow2 (lead_exp r + 1)"
proof -
  obtain n d where nd: "quotient_of r = (n, d)" by (cases "quotient_of r") auto
  have d: "0 < d" using quotient_of_denom_pos [OF nd] .
  have r: "r = of_int n / of_int d" using quotient_of_div [OF nd] .
  with assms d have n: "0 < n" by (simp add: zero_less_divide_iff)
  define a b where "a = int (floorlog 2 (nat n))" and "b = int (floorlog 2 (nat d))"
  have N: "pow2 (a - 1) \<le> of_int n" "of_int n < pow2 a"
    using pow2_floorlog_bounds [of "nat n"] n by (simp_all add: a_def)
  have D: "pow2 (b - 1) \<le> of_int d" "of_int d < pow2 b"
    using pow2_floorlog_bounds [of "nat d"] d by (simp_all add: b_def)
  have up: "r < pow2 (a - b + 1)"
  proof -
    have "of_int n < pow2 (a - b + 1) * of_int d"
    proof -
      have "pow2 a = pow2 (a - b + 1) * pow2 (b - 1)" by (simp flip: pow2_add)
      also have "\<dots> \<le> pow2 (a - b + 1) * of_int d" using D(1) by simp
      finally show ?thesis using N(2) by simp
    qed
    with d show ?thesis by (simp add: r pos_divide_less_eq)
  qed
  have lo: "pow2 (a - b - 1) \<le> r"
  proof -
    have "pow2 (a - b - 1) * of_int d \<le> pow2 (a - b - 1) * pow2 b" using D(2) by simp
    also have "\<dots> = pow2 (a - 1)" by (simp flip: pow2_add)
    finally have "pow2 (a - b - 1) * of_int d \<le> of_int n" using N(1) by simp
    with d show ?thesis by (simp add: r pos_le_divide_eq)
  qed
  have "lead_exp r = (if pow2 (a - b) \<le> r then a - b else a - b - 1)"
    by (simp add: lead_exp_def nd a_def b_def Let_def)
  with up lo show ?thesis by (simp add: not_le)
qed

lemma lead_exp_mono:
  assumes "0 < x" and "x \<le> y"
  shows "lead_exp x \<le> lead_exp y"
proof -
  from assms have "pow2 (lead_exp x) < pow2 (lead_exp y + 1)"
    using lead_exp_bounds [of x] lead_exp_bounds [of y] by linarith
  then show ?thesis using pow2_less_cancel by fastforce
qed

lemma round_half_even_floor: "\<lfloor>x\<rfloor> \<le> round_half_even x \<and> round_half_even x \<le> \<lfloor>x\<rfloor> + 1"
  by (simp add: round_half_even_def Let_def)

lemma round_half_even_mono:
  assumes "x \<le> y"
  shows "round_half_even x \<le> round_half_even y"
proof (cases "\<lfloor>x\<rfloor> = \<lfloor>y\<rfloor>")
  case True
  with assms show ?thesis by (auto simp: round_half_even_def Let_def)
next
  case False
  then have "\<lfloor>x\<rfloor> + 1 \<le> \<lfloor>y\<rfloor>" using floor_mono [OF assms] by linarith
  then show ?thesis using round_half_even_floor [of x] round_half_even_floor [of y] by linarith
qed

lemma round_half_even_int [simp]: "round_half_even (of_int n) = n"
  by (simp add: round_half_even_def)

lemma round_half_even_neg: "round_half_even (- x) = - round_half_even x"
proof (cases "x = of_int \<lfloor>x\<rfloor>")
  case True
  then show ?thesis by (metis of_int_minus round_half_even_int)
next
  case False
  then have "of_int \<lfloor>x\<rfloor> < x" by (metis antisym_conv2 of_int_floor_le)
  then have f: "\<lfloor>- x\<rfloor> = - \<lfloor>x\<rfloor> - 1"
    by (intro floor_unique) (auto simp: less_eq_rat_def floor_less_iff, linarith)
  show ?thesis by (auto simp: round_half_even_def Let_def f)
qed

lemma round64_0 [simp]: "round64 0 = 0"
  by (simp add: round64_def)

lemma round64_neg: "round64 (- x) = - round64 x"
  by (simp add: round64_def grid_def round_half_even_neg)

lemma grid_pos [simp]: "0 < grid x"
  by (simp add: grid_def)

lemma round64_pos_mono:
  assumes "0 < x" and "x \<le> y"
  shows "round64 x \<le> round64 y"
proof -
  define ex ey where "ex = max (lead_exp x - 52) (- 1074)" and "ey = max (lead_exp y - 52) (- 1074)"
  have g: "grid x = pow2 ex" "grid y = pow2 ey"
    using assms by (simp_all add: grid_def ex_def ey_def)
  have le: "ex \<le> ey"
    using lead_exp_mono [OF assms] by (auto simp: ex_def ey_def)
  show ?thesis
  proof (cases "ex = ey")
    case True
    have "x / pow2 ex \<le> y / pow2 ex" using assms(2) by (simp add: divide_right_mono less_imp_le)
    from round_half_even_mono [OF this]
    show ?thesis using True assms g by (simp add: round64_def)
  next
    case False
    with le have lt: "ex < ey" by simp
    then have ly: "ey = lead_exp y - 52" by (auto simp: ex_def ey_def)
    from lt ly have lxy: "lead_exp x + 1 \<le> lead_exp y" by (auto simp: ex_def)
    from lt ly have ex_le: "ex \<le> lead_exp y" by simp
    have "pow2 (lead_exp y) \<le> y" using lead_exp_bounds [of y] assms by simp
    then have "of_int (2 ^ 52) \<le> y / pow2 ey"
      using pow2_add_nat [of ey 52] ly by (simp add: pos_le_divide_eq)
    from round_half_even_mono [OF this]
    have "2 ^ 52 \<le> round_half_even (y / pow2 ey)" by (simp only: round_half_even_int)
    then have "2 ^ 52 * pow2 ey \<le> of_int (round_half_even (y / pow2 ey)) * pow2 ey"
      by (metis less_imp_le mult_right_mono of_int_le_iff of_int_numeral of_int_power pow2_pos)
    then have up: "pow2 (lead_exp y) \<le> round64 y"
      using pow2_add_nat [of ey 52] ly assms g by (simp add: round64_def)
    have "x \<le> pow2 (lead_exp y)"
      using lead_exp_bounds [of x] pow2_mono [OF lxy] assms by simp
    then have "x / pow2 ex \<le> of_int (2 ^ nat (lead_exp y - ex))"
      using pow2_add_nat [of ex "nat (lead_exp y - ex)"] ex_le by (simp add: pos_divide_le_eq)
    from round_half_even_mono [OF this]
    have "round_half_even (x / pow2 ex) \<le> 2 ^ nat (lead_exp y - ex)" by (simp only: round_half_even_int)
    then have "of_int (round_half_even (x / pow2 ex)) * pow2 ex \<le> 2 ^ nat (lead_exp y - ex) * pow2 ex"
      by (metis less_imp_le mult_right_mono of_int_le_iff of_int_numeral of_int_power pow2_pos)
    then have "round64 x \<le> pow2 (lead_exp y)"
      using pow2_add_nat [of ex "nat (lead_exp y - ex)"] ex_le assms g by (simp add: round64_def)
    with up show ?thesis by simp
  qed
qed

lemma round64_nonneg: "0 \<le> x \<Longrightarrow> 0 \<le> round64 x"
proof -
  assume "0 \<le> x"
  then have "0 \<le> round_half_even (x / grid x)"
    using round_half_even_mono [of 0 "x / grid x"] round_half_even_int [of 0]
    by (simp add: less_imp_le)
  then show ?thesis by (simp add: round64_def less_imp_le)
qed

lemma round64_mono:
  assumes "x \<le> y"
  shows "round64 x \<le> round64 y"
proof -
  consider "0 < x" | "x \<le> 0" "0 \<le> y" | "y < 0" by linarith
  then show ?thesis
  proof cases
    case 1
    then show ?thesis using assms by (rule round64_pos_mono)
  next
    case 2
    have "round64 x \<le> 0" using round64_nonneg [of "- x"] 2(1) by (simp add: round64_neg)
    also have "0 \<le> round64 y" using 2(2) by (rule round64_nonneg)
    finally show ?thesis .
  next
    case 3
    then have "round64 (- y) \<le> round64 (- x)" using assms by (intro round64_pos_mono) auto
    then show ?thesis by (simp add: round64_neg)
  qed
qed

lemma round64_int_pos:
  assumes "0 < n" and "n \<le> 2 ^ 53"
  shows "round64 (of_int n) = of_int n"
proof -
  let ?e = "lead_exp (of_int n :: rat)"
  have b: "pow2 ?e \<le> of_int n" "of_int n < pow2 (?e + 1)"
    using lead_exp_bounds [of "of_int n"] assms by auto
  have n53: "(of_int n :: rat) \<le> pow2 53"
  proof -
    have "(of_int n :: rat) \<le> of_int (2 ^ 53)" using assms(2) by (simp only: of_int_le_iff)
    then show ?thesis by (simp add: pow2_def)
  qed
  then have "pow2 ?e < pow2 54" using b(1) pow2_Suc [of 53, simplified] pow2_pos [of 53] by linarith
  then have e53: "?e \<le> 53" using pow2_less_cancel by fastforce
  have "\<exists>k. (of_int n :: rat) = of_int k * grid (of_int n)"
  proof (cases "?e = 53")
    case True
    with b(1) n53 have "(of_int n :: rat) = pow2 53" by simp
    then have "(of_int n :: rat) = of_int (2 ^ 52) * grid (of_int n)"
      using True assms by (simp add: grid_def pow2_def)
    then show ?thesis ..
  next
    case False
    define m where "m = nat (- max (?e - 52) (- 1074))"
    have "grid (of_int n) = 1 / 2 ^ m"
      using False e53 assms by (auto simp: grid_def pow2_def m_def)
    then have "(of_int n :: rat) = of_int (n * 2 ^ m) * grid (of_int n)" by simp
    then show ?thesis ..
  qed
  then obtain k where k: "(of_int n :: rat) = of_int k * grid (of_int n)" ..
  then have "(of_int n :: rat) / grid (of_int n) = of_int k"
    by (metis grid_pos less_irrefl nonzero_mult_div_cancel_right)
  then have "round64 (of_int n) = of_int k * grid (of_int n)"
    using assms(1) by (simp add: round64_def)
  with k show ?thesis by simp
qed

lemma round64_int:
  assumes "\<bar>n\<bar> \<le> 2 ^ 53"
  shows "round64 (of_int n) = of_int n"
proof -
  consider "0 < n" | "n = 0" | "n < 0" by linarith
  then show ?thesis
  proof cases
    case 3
    then have "round64 (of_int (- n)) = of_int (- n)" using assms by (intro round64_int_pos) auto
    then show ?thesis using round64_neg [of "of_int n"] by simp
  qed (use assms in \<open>auto intro: round64_int_pos\<close>)
qed

lemma fl64_small:
  assumes "\<bar>r\<bar> \<le> 2 ^ 53"
  shows "fl64 r = Fin (round64 r)" and "\<bar>round64 r\<bar> \<le> 2 ^ 53"
proof -
  have top: "round64 (2 ^ 53) = 2 ^ 53" using round64_int [of "2 ^ 53"] by simp
  have "round64 r \<le> 2 ^ 53" using round64_mono [of r "2 ^ 53"] assms top by simp
  moreover have "- (2 ^ 53) \<le> round64 r"
    using round64_mono [of "- (2 ^ 53)" r] round64_neg [of "2 ^ 53"] assms top by simp
  ultimately show b: "\<bar>round64 r\<bar> \<le> 2 ^ 53" by simp
  define big :: rat where "big = 2 ^ 1024"
  have "(2 :: rat) ^ 53 < big" unfolding big_def by (rule power_strict_increasing) simp_all
  then have "\<not> big \<le> round64 r" and "\<not> round64 r \<le> - big" using b by linarith+
  then show "fl64 r = Fin (round64 r)" by (simp only: fl64_def Let_def big_def if_False)
qed

lemma fl64_int: "\<bar>n\<bar> \<le> 2 ^ 53 \<Longrightarrow> fl64 (of_int n) = Fin (of_int n)"
proof -
  assume n: "\<bar>n\<bar> \<le> 2 ^ 53"
  then have "of_int \<bar>n\<bar> \<le> (of_int (2 ^ 53) :: rat)" by (simp only: of_int_le_iff)
  then show "fl64 (of_int n) = Fin (of_int n)" using fl64_small(1) [of "of_int n"] round64_int [OF n] by simp
qed

lemma f64_to_int64_range:
  assumes "\<And>x. lo \<le> impl x \<and> impl x \<le> hi" and "lo \<le> - (2 ^ 63)" and "2 ^ 63 \<le> hi"
  shows "lo \<le> f64_to_int64 impl x \<and> f64_to_int64 impl x \<le> hi"
  using assms by (cases x) (auto simp: Let_def)

text \<open>Numbers with few binary digits are their own rounding.\<close>

lemma round64_fixed: "r = of_int k * grid r \<Longrightarrow> round64 r = r"
  by (metis grid_pos less_irrefl nonzero_mult_div_cancel_right round64_def round_half_even_int)

lemma round64_dyadic:
  assumes "0 < m" "m < 2 ^ 52" "j \<le> 1000"
  shows "round64 (of_int m / 2 ^ j) = of_int m / 2 ^ j"
proof -
  let ?r = "of_int m / 2 ^ j :: rat"
  let ?e = "lead_exp ?r"
  have "of_int m < (of_int (2 ^ 52) :: rat)" using assms(2) by (simp only: of_int_less_iff)
  then have "?r < pow2 52 / 2 ^ j" by (simp add: pow2_def divide_strict_right_mono)
  also have "pow2 52 / 2 ^ j = pow2 (52 - int j)" using pow2_add_nat [of "52 - int j" j] by simp
  finally have "?r < pow2 (52 - int j)" .
  moreover have "pow2 ?e \<le> ?r" using lead_exp_bounds [of ?r] assms(1) by simp
  ultimately have e: "?e < 52 - int j" using pow2_less_cancel by (meson le_less_trans)
  define k where "k = nat (- max (?e - 52) (- 1074))"
  have "j \<le> k" using e assms(3) by (simp add: k_def)
  then have p: "(2 :: rat) ^ k = 2 ^ j * 2 ^ (k - j)" using power_add [of "2 :: rat" j "k - j"] by simp
  have "grid ?r = 1 / 2 ^ k" using e assms(1) by (auto simp: grid_def pow2_def k_def)
  then have "?r = of_int (m * 2 ^ (k - j)) * grid ?r" by (simp add: p)
  then show ?thesis by (rule round64_fixed)
qed

lemma power2_above:
  assumes "0 < (v :: int)"
  obtains j :: nat where "v \<le> 2 ^ j" "2 ^ j \<le> 2 * v"
proof -
  define j where "j = (LEAST j. v \<le> 2 ^ j)"
  have "v \<le> 2 ^ nat v" using assms of_nat_less_two_power [of "nat v", where ?'a = int] by simp
  then have up: "v \<le> 2 ^ j" unfolding j_def by (rule LeastI)
  have "2 ^ j \<le> 2 * v"
  proof (cases j)
    case (Suc i)
    then have "\<not> v \<le> 2 ^ i" using not_less_Least [of i "\<lambda>j. v \<le> 2 ^ j"] unfolding j_def by simp
    then show ?thesis using Suc by simp
  qed (use assms in simp)
  then show thesis using up that by blast
qed

text \<open>A quotient above an integer stays above it when it is rounded, with a dyadic number in between.\<close>

lemma round64_above_int:
  assumes "0 < v" "v < 2 ^ 62" "0 \<le> M" "M * v < g" "g < 2 ^ 51"
  obtains j :: nat where "j \<le> 63" "M * 2 ^ j + 1 < 2 ^ 52" "of_int (M * 2 ^ j + 1) / 2 ^ j \<le> round64 (of_int g / of_int v)"
proof -
  obtain j where j: "v \<le> 2 ^ j" "2 ^ j \<le> 2 * v" using power2_above [OF assms(1)] .
  have "(2 :: int) ^ j < 2 ^ 63" using j(2) assms(2) by simp
  then have j63: "j \<le> 63" using power_less_imp_less_exp [of "2 :: int" j 63] by simp
  have "M * 2 ^ j \<le> M * (2 * v)" using j(2) assms(3) by (rule mult_left_mono)
  then have num: "M * 2 ^ j + 1 < 2 ^ 52" using assms(4,5) by simp
  have "M * v + 1 \<le> g" using assms(4) by simp
  then have "(M * v + 1) * 2 ^ j \<le> g * 2 ^ j" by (rule mult_right_mono) simp
  moreover have "(M * 2 ^ j + 1) * v \<le> (M * v + 1) * 2 ^ j" using j(1) by (simp add: algebra_simps)
  ultimately have "of_int ((M * 2 ^ j + 1) * v) \<le> (of_int (g * 2 ^ j) :: rat)" by (simp only: of_int_le_iff)
  then have "of_int (M * 2 ^ j + 1) / 2 ^ j \<le> (of_int g / of_int v :: rat)"
    using assms(1) by (simp add: field_simps)
  then have "round64 (of_int (M * 2 ^ j + 1) / 2 ^ j) \<le> round64 (of_int g / of_int v)" by (rule round64_mono)
  moreover have "round64 (of_int (M * 2 ^ j + 1) / 2 ^ j) = of_int (M * 2 ^ j + 1) / (2 ^ j :: rat)"
    using num j63 assms(3) by (intro round64_dyadic) auto
  ultimately show thesis using that [OF j63 num] by metis
qed

lemma round64_quotient_le_int:
  assumes "0 \<le> g" "g < 2 ^ 51" "0 < v" "v < 2 ^ 62"
  shows "round64 (of_int g / of_int v) \<le> of_int M \<longleftrightarrow> g \<le> M * v"
proof
  assume le: "g \<le> M * v"
  have "of_int g / of_int v \<le> (of_int (min M g) :: rat)"
  proof -
    have "g \<le> min M g * v"
    proof (cases "M \<le> g")
      case False
      have "g * 1 \<le> g * v" using assms by (intro mult_left_mono) auto
      then show ?thesis using False by simp
    qed (use le in simp)
    then have "of_int g \<le> (of_int (min M g * v) :: rat)" by (simp only: of_int_le_iff)
    then show ?thesis using assms(3) by (simp add: pos_divide_le_eq)
  qed
  then have "round64 (of_int g / of_int v) \<le> round64 (of_int (min M g))" by (rule round64_mono)
  moreover have "0 \<le> M" using le assms(1,3) by (metis not_less order_trans zero_le_mult_iff)
  then have "round64 (of_int (min M g)) = of_int (min M g)" using assms(1,2) by (intro round64_int) auto
  ultimately show "round64 (of_int g / of_int v) \<le> of_int M" by linarith
next
  assume le: "round64 (of_int g / of_int v) \<le> of_int M"
  show "g \<le> M * v"
  proof (rule ccontr)
    assume "\<not> g \<le> M * v"
    moreover have "0 \<le> round64 (of_int g / of_int v)" using assms by (intro round64_nonneg) simp
    then have "0 \<le> M" using le by (metis of_int_0_le_iff order_trans)
    ultimately obtain j :: nat where "of_int (M * 2 ^ j + 1) / 2 ^ j \<le> round64 (of_int g / of_int v)"
      using round64_above_int [OF assms(3,4), of M g] assms(2) by auto
    then have "of_int (M * 2 ^ j + 1) / 2 ^ j \<le> (of_int M :: rat)" using le by (rule order_trans)
    then show False by (simp add: field_simps)
  qed
qed

lemma ceiling_round64_quotient:
  assumes "0 \<le> g" "g < 2 ^ 51" "0 < v" "v < 2 ^ 62"
  shows "\<lceil>round64 (of_int g / of_int v)\<rceil> = \<lceil>of_int g / (of_int v :: rat)\<rceil>"
proof -
  have "\<lceil>round64 (of_int g / of_int v)\<rceil> \<le> M \<longleftrightarrow> \<lceil>of_int g / (of_int v :: rat)\<rceil> \<le> M" for M
  proof -
    have "of_int g \<le> (of_int (M * v) :: rat) \<longleftrightarrow> g \<le> M * v" by (simp only: of_int_le_iff)
    then show ?thesis
      using assms(3) by (simp add: ceiling_le_iff round64_quotient_le_int [OF assms] pos_divide_le_eq)
  qed
  then show ?thesis by (meson order_antisym order_refl)
qed

text \<open>An equation that evaluates without the huge bound where the result is small.\<close>

lemma fl64_code [code]:
  "fl64 r = (let q = round64 r in
     if - 9007199254740992 < q \<and> q < 9007199254740992 then Fin q
     else if 2 ^ 1024 \<le> q then PInf else if q \<le> - (2 ^ 1024) then NInf else Fin q)"
  by (simp add: fl64_def Let_def)

end
