(* ===== verification/GoStrings.thy ===== *)
theory GoStrings
  imports GoFloat
begin

text \<open>
  The functions of Go's \<^verbatim>\<open>strconv\<close> and \<^verbatim>\<open>strings\<close> the program calls, on strings as byte
  lists: \<^verbatim>\<open>ParseInt\<close> and \<^verbatim>\<open>Atoi\<close> (a value and whether an error came with it: a syntax
  error gives 0, an out-of-range number the nearest bound), decimal printing,
  \<^verbatim>\<open>FormatFloat(x, 'f', 2, 64)\<close>, \<^verbatim>\<open>Split\<close>, \<^verbatim>\<open>Join\<close>, \<^verbatim>\<open>TrimSpace\<close> and
  \<^verbatim>\<open>EqualFold\<close> on ASCII.
\<close>

section \<open>Decimal numbers\<close>

definition is_digit :: "char \<Rightarrow> bool" where
  "is_digit c \<longleftrightarrow> 48 \<le> (of_char c :: nat) \<and> (of_char c :: nat) \<le> 57"

fun parse_digits :: "int \<Rightarrow> string \<Rightarrow> int option" where
  "parse_digits acc [] = Some acc"
| "parse_digits acc (c # cs) =
     (if is_digit c then parse_digits (acc * 10 + (of_char c - 48)) cs else None)"

definition clamp64 :: "int \<Rightarrow> int \<times> bool" where
  "clamp64 n =
     (if n < - (2 ^ 63) then (- (2 ^ 63), True)
      else if 2 ^ 63 - 1 < n then (2 ^ 63 - 1, True) else (n, False))"

definition ParseInt :: "string \<Rightarrow> int \<times> bool" where
  "ParseInt s =
     (let (neg, ds) = (case s of [] \<Rightarrow> (False, [])
                       | c # cs \<Rightarrow> if c = CHR ''-'' then (True, cs)
                                   else if c = CHR ''+'' then (False, cs) else (False, s))
      in if ds = [] then (0, True)
         else case parse_digits 0 ds of
                None \<Rightarrow> (0, True)
              | Some n \<Rightarrow> clamp64 (if neg then - n else n))"

definition Atoi :: "string \<Rightarrow> int \<times> bool" where
  "Atoi s = ParseInt s"

definition digit_char :: "nat \<Rightarrow> char" where
  "digit_char d = char_of (48 + d)"

fun show_nat :: "nat \<Rightarrow> string" where
  "show_nat n = (if n < 10 then [digit_char n] else show_nat (n div 10) @ [digit_char (n mod 10)])"

declare show_nat.simps [simp del]

definition show_int :: "int \<Rightarrow> string" where
  "show_int n = (if n < 0 then CHR ''-'' # show_nat (nat (- n)) else show_nat (nat n))"

definition show_bool :: "bool \<Rightarrow> string" where
  "show_bool b = (if b then ''true'' else ''false'')"

fun FormatFloat2 :: "float64 \<Rightarrow> string" where
  "FormatFloat2 (Fin r) =
     (let n = nat (round_half_even (\<bar>r\<bar> * 100))
      in (if r < 0 then ''-'' else '''') @ show_nat (n div 100) @ ''.''
         @ [digit_char (n mod 100 div 10), digit_char (n mod 10)])"
| "FormatFloat2 PInf = ''+Inf''"
| "FormatFloat2 NInf = ''-Inf''"
| "FormatFloat2 NaN = ''NaN''"

text \<open>Six decimals, as \<^verbatim>\<open>%f\<close> prints.\<close>

fun pad_left :: "nat \<Rightarrow> string \<Rightarrow> string" where
  "pad_left k s = replicate (k - length s) (CHR ''0'') @ s"

fun FormatFloat6 :: "float64 \<Rightarrow> string" where
  "FormatFloat6 (Fin r) =
     (let n = nat (round_half_even (\<bar>r\<bar> * 1000000))
      in (if r < 0 then ''-'' else '''') @ show_nat (n div 1000000) @ ''.'' @ pad_left 6 (show_nat (n mod 1000000)))"
| "FormatFloat6 PInf = ''+Inf''"
| "FormatFloat6 NInf = ''-Inf''"
| "FormatFloat6 NaN = ''NaN''"

section \<open>Splitting, joining, trimming\<close>

fun split_on :: "char \<Rightarrow> string \<Rightarrow> string list" where
  "split_on d [] = [[]]"
| "split_on d (c # cs) =
     (if c = d then [] # split_on d cs
      else case split_on d cs of [] \<Rightarrow> [[c]] | w # ws \<Rightarrow> (c # w) # ws)"

fun join_with :: "string \<Rightarrow> string list \<Rightarrow> string" where
  "join_with sep [] = []"
| "join_with sep [w] = w"
| "join_with sep (w # v # ws) = w @ sep @ join_with sep (v # ws)"

definition is_space :: "char \<Rightarrow> bool" where
  "is_space c \<longleftrightarrow> (of_char c :: nat) \<in> {9, 10, 11, 12, 13, 32}"

definition TrimSpace :: "string \<Rightarrow> string" where
  "TrimSpace s = rev (dropWhile is_space (rev (dropWhile is_space s)))"

definition to_lower :: "char \<Rightarrow> char" where
  "to_lower c = (let n = of_char c :: nat in if 65 \<le> n \<and> n \<le> 90 then char_of (n + 32) else c)"

definition EqualFold :: "string \<Rightarrow> string \<Rightarrow> bool" where
  "EqualFold s t \<longleftrightarrow> map to_lower s = map to_lower t"

fun HasPrefix :: "string \<Rightarrow> string \<Rightarrow> bool" where
  "HasPrefix s [] = True"
| "HasPrefix [] (p # ps) = False"
| "HasPrefix (c # cs) (p # ps) = (c = p \<and> HasPrefix cs ps)"

section \<open>Facts\<close>

lemma split_on_not_Nil [simp]: "split_on d s \<noteq> []"
  by (induction s) (auto split: list.splits)

lemma split_on_no_sep: "d \<notin> set w \<Longrightarrow> split_on d w = [w]"
  by (induction w) auto

lemma split_on_append: "d \<notin> set w \<Longrightarrow> split_on d (w @ d # s) = w # split_on d s"
  by (induction w) auto

text \<open>Splitting what was joined with a comma gives the parts back, if no part holds the separator.\<close>

lemma split_join:
  assumes "ws \<noteq> []" and "\<forall>w \<in> set ws. d \<notin> set w"
  shows "split_on d (join_with [d] ws) = ws"
  using assms by (induction "[d]" ws rule: join_with.induct) (auto simp: split_on_no_sep split_on_append)

lemma parse_digits_dot: "CHR ''.'' \<in> set s \<Longrightarrow> parse_digits acc s = None"
  by (induction acc s rule: parse_digits.induct) (auto simp: is_digit_def)

lemma parse_digits_digits:
  "\<forall>c \<in> set s. is_digit c \<Longrightarrow> \<exists>n. parse_digits acc s = Some n"
  by (induction acc s rule: parse_digits.induct) auto

lemma parse_digits_append:
  "parse_digits acc (s @ t) = (case parse_digits acc s of None \<Rightarrow> None | Some n \<Rightarrow> parse_digits n t)"
  by (induction acc s rule: parse_digits.induct) auto

lemma of_char_digit_char: "d < 10 \<Longrightarrow> (of_char (digit_char d) :: nat) = 48 + d"
  by (simp add: digit_char_def)

lemma of_char_int_digit_char: "d < 10 \<Longrightarrow> (of_char (digit_char d) :: int) = 48 + int d"
  by (metis of_char_digit_char of_nat_add of_nat_numeral of_nat_of_char)

lemma is_digit_digit_char: "d < 10 \<Longrightarrow> is_digit (digit_char d)"
  by (simp add: is_digit_def of_char_digit_char)

lemma show_nat_not_Nil: "show_nat n \<noteq> []"
  by (subst show_nat.simps) simp

lemma parse_show_nat: "parse_digits 0 (show_nat n) = Some (int n)"
proof (induction n rule: show_nat.induct)
  case (1 n)
  show ?case
  proof (cases "n < 10")
    case True
    then show ?thesis
      by (subst show_nat.simps) (simp add: is_digit_digit_char of_char_int_digit_char)
  next
    case False
    with 1 have "parse_digits 0 (show_nat (n div 10)) = Some (int (n div 10))" by simp
    with False show ?thesis
      by (subst show_nat.simps)
        (simp add: parse_digits_append is_digit_digit_char of_char_int_digit_char,
         metis div_mult_mod_eq int_ops(7) of_nat_add of_nat_numeral)
  qed
qed

lemma show_nat_digits: "c \<in> set (show_nat n) \<Longrightarrow> is_digit c"
proof (induction n rule: show_nat.induct)
  case (1 n)
  then show ?case
    by (cases "n < 10") (auto simp: show_nat.simps [of n] is_digit_digit_char)
qed

text \<open>A number with a decimal point, and the names of the infinities and of NaN, are no integers.\<close>

lemma ParseInt_FormatFloat2: "ParseInt (FormatFloat2 x) = (0, True)"
proof (cases x)
  case (Fin r)
  obtain a b c where f: "FormatFloat2 x = (if r < 0 then ''-'' else '''') @ a @ ''.'' @ [b, c]"
    and a: "a \<noteq> []" "\<forall>c \<in> set a. is_digit c"
    using Fin show_nat_not_Nil show_nat_digits by (auto simp: Let_def)
  from a have "hd a \<noteq> CHR ''-''" "hd a \<noteq> CHR ''+''" by (auto simp: is_digit_def neq_Nil_conv)
  with f a show ?thesis
    by (cases a) (auto simp: ParseInt_def parse_digits_dot)
qed (auto simp: ParseInt_def is_digit_def)

lemma Atoi_show_int:
  assumes "- (2 ^ 63) \<le> n" and "n < 2 ^ 63"
  shows "Atoi (show_int n) = (n, False)"
proof (cases "n < 0")
  case True
  then show ?thesis using assms
    by (simp add: Atoi_def ParseInt_def show_int_def show_nat_not_Nil parse_show_nat clamp64_def)
next
  case False
  obtain c cs where s: "show_nat (nat n) = c # cs"
    using show_nat_not_Nil by (cases "show_nat (nat n)") auto
  then have "is_digit c" using show_nat_digits [of c "nat n"] by simp
  then have "c \<noteq> CHR ''-''" "c \<noteq> CHR ''+''" by (auto simp: is_digit_def)
  with False s assms parse_show_nat [of "nat n"] show ?thesis
    by (simp add: Atoi_def ParseInt_def show_int_def clamp64_def)
qed

end
