(* ===== verification/Ledger.thy ===== *)
theory Ledger
  imports "HOL-Library.Multiset"
begin

text \<open>
  The contract of an accounting component: \<open>inc\<close> books an item, \<open>dec\<close> takes it back. A client
  may rely on the laws of the locale \<open>usage_ledger\<close>; the lemmas below are what follows for any
  sequence of bookings. The quota calculator provides the interface (theory \<open>Quota\<close>).
\<close>

locale usage_ledger =
  fixes inc :: "'u \<Rightarrow> 'a \<Rightarrow> 'u"
    and dec :: "'u \<Rightarrow> 'a \<Rightarrow> 'u"
    and good :: "'u \<Rightarrow> bool"
    and ok :: "'a \<Rightarrow> bool"
  assumes inc_good: "good u \<Longrightarrow> ok a \<Longrightarrow> good (inc u a)"
    and dec_inc: "good u \<Longrightarrow> ok a \<Longrightarrow> dec (inc u a) a = u"
    and inc_commute: "inc (inc u a) b = inc (inc u b) a"
begin

lemma foldl_good: "good u \<Longrightarrow> \<forall>a \<in> set as. ok a \<Longrightarrow> good (foldl inc u as)"
  by (induction as arbitrary: u) (auto simp: inc_good)

lemma foldl_inc_out: "foldl inc (inc u a) as = inc (foldl inc u as) a"
  by (induction as arbitrary: u) (auto simp: inc_commute [of _ a])

lemma foldl_remove1: "a \<in> set as \<Longrightarrow> foldl inc u as = inc (foldl inc u (remove1 a as)) a"
  by (induction as arbitrary: u) (auto simp add: foldl_inc_out intro: inc_commute)

text \<open>The order of bookings does not matter.\<close>

lemma foldl_perm: "mset as = mset bs \<Longrightarrow> foldl inc u as = foldl inc u bs"
proof (induction as arbitrary: u bs)
  case Nil
  then show ?case by simp
next
  case (Cons a as)
  then have a: "a \<in> set bs" by (metis list.set_intros(1) mset_eq_setD)
  from Cons.prems a have "mset as = mset (remove1 a bs)" by (metis add_mset_remove_trivial mset.simps(2) mset_remove1)
  from Cons.IH [OF this] have "foldl inc (inc u a) as = foldl inc (inc u a) (remove1 a bs)" .
  also have "\<dots> = foldl inc u bs" using a by (simp add: foldl_inc_out foldl_remove1)
  finally show ?case by simp
qed

text \<open>Taking one booked item back leaves the ledger of the others.\<close>

lemma dec_foldl:
  assumes "a \<in> set as" and "good u" and "\<forall>a \<in> set as. ok a"
  shows "dec (foldl inc u as) a = foldl inc u (remove1 a as)"
proof -
  have "good (foldl inc u (remove1 a as))"
    using assms by (intro foldl_good) (auto dest: notin_set_remove1)
  then show ?thesis using assms foldl_remove1 [OF assms(1), of u] by (simp add: dec_inc)
qed

end

end
