(* ===== verification/Quota.thy ===== *)
theory Quota
  imports ApiTypes GoStrings Ledger
begin

text \<open>
  \<^verbatim>\<open>internal/quota\<close>: the calculator (\<open>calculator.go\<close>) and the in-memory quota store
  (\<open>quota_store.go\<close>), one definition per function, in the order of the files. The mutexes only
  make each operation atomic, so a method is a function from the store to the new store.
  \<open>val\<close> stands for \<^verbatim>\<open>Quantity.Value\<close> and \<open>approx\<close> for
  \<^verbatim>\<open>Quantity.AsApproximateFloat64\<close>. A nil-pointer dereference is the error \<open>NilPointer\<close>.
\<close>

section \<open>Calculator\<close>

definition QuotaReadyAndCapacitySufficient :: string where
  "QuotaReadyAndCapacitySufficient = ''GPUResourceQuota is ready and capacity is sufficient''"

definition SafeAdd :: "quantity \<Rightarrow> quantity \<Rightarrow> int \<Rightarrow> quantity" where
  "SafeAdd a b cnt = a + b * of_int cnt"

definition SafeSub :: "quantity \<Rightarrow> quantity \<Rightarrow> int \<Rightarrow> quantity" where
  "SafeSub a b cnt = (let d = a - b * of_int cnt in if d < 0 then 0 else d)"

definition IncreaseUsage :: "gpu_resource_usage \<Rightarrow> alloc_request option \<Rightarrow> gpu_resource_usage" where
  "IncreaseUsage u alloc =
     (case alloc of None \<Rightarrow> u
      | Some a \<Rightarrow> let cnt = s64 (int (ar_Count a)) in
          u\<lparr>u_Requests := (u_Requests u)
              \<lparr>Tflops := SafeAdd (Tflops (u_Requests u)) (Tflops (ar_Request a)) cnt,
               Vram := SafeAdd (Vram (u_Requests u)) (Vram (ar_Request a)) cnt\<rparr>,
            u_Limits := (u_Limits u)
              \<lparr>Tflops := SafeAdd (Tflops (u_Limits u)) (Tflops (ar_Limit a)) cnt,
               Vram := SafeAdd (Vram (u_Limits u)) (Vram (ar_Limit a)) cnt\<rparr>,
            u_Workers := s32 (u_Workers u + 1)\<rparr>)"

definition DecreaseUsage :: "gpu_resource_usage \<Rightarrow> alloc_request \<Rightarrow> gpu_resource_usage" where
  "DecreaseUsage u a =
     (let cnt = s64 (int (ar_Count a)) in
          u\<lparr>u_Requests := (u_Requests u)
              \<lparr>Tflops := SafeSub (Tflops (u_Requests u)) (Tflops (ar_Request a)) cnt,
               Vram := SafeSub (Vram (u_Requests u)) (Vram (ar_Request a)) cnt\<rparr>,
            u_Limits := (u_Limits u)
              \<lparr>Tflops := SafeSub (Tflops (u_Limits u)) (Tflops (ar_Limit a)) cnt,
               Vram := SafeSub (Vram (u_Limits u)) (Vram (ar_Limit a)) cnt\<rparr>,
            u_Workers := s32 (u_Workers u - 1)\<rparr>)"

definition ApplyUsageOperation :: "gpu_resource_usage \<Rightarrow> alloc_request \<Rightarrow> bool \<Rightarrow> gpu_resource_usage" where
  "ApplyUsageOperation u a isIncrease =
     (if isIncrease then IncreaseUsage u (Some a) else DecreaseUsage u a)"

definition CreateZeroUsage :: gpu_resource_usage where
  "CreateZeroUsage = \<lparr>u_Requests = zero_resource, u_Limits = zero_resource, u_Workers = 0\<rparr>"

text \<open>Go's built-in \<^verbatim>\<open>max\<close> on floats gives NaN when an operand is NaN.\<close>

definition f64_max :: "float64 \<Rightarrow> float64 \<Rightarrow> float64" where
  "f64_max a b = (if a = NaN \<or> b = NaN then NaN else if f64_less a b then b else a)"

definition calculateResourcePercent ::
  "(quantity \<Rightarrow> int) \<Rightarrow> (quantity \<Rightarrow> float64) \<Rightarrow> quantity \<Rightarrow> quantity \<Rightarrow> string" where
  "calculateResourcePercent val approx tot used =
     (if val tot \<le> 0 then ''100''
      else let totalFloat = approx tot; usedFloat = approx used;
               available = f64_max (Fin 0)
                 (f64_mul (f64_div (f64_sub totalFloat usedFloat) totalFloat) (Fin 100))
           in FormatFloat2 available)"

definition CalculateAvailablePercent ::
  "(quantity \<Rightarrow> int) \<Rightarrow> (quantity \<Rightarrow> float64) \<Rightarrow> gpu_resource_quota option \<Rightarrow> gpu_resource_usage option
   \<Rightarrow> available_percent" where
  "CalculateAvailablePercent val approx quota usage =
     (let p0 = \<lparr>ap_RequestsTFlops = ''100'', ap_RequestsVRAM = ''100'', ap_LimitsTFlops = ''100'',
                ap_LimitsVRAM = ''100'', ap_Workers = ''100''\<rparr>
      in case (quota, usage) of
           (Some q, Some u) \<Rightarrow>
             let t = grq_Total q;
                 p1 = (case qt_Requests t of None \<Rightarrow> p0
                       | Some r \<Rightarrow> p0\<lparr>ap_RequestsTFlops := calculateResourcePercent val approx (Tflops r) (Tflops (u_Requests u)),
                                     ap_RequestsVRAM := calculateResourcePercent val approx (Vram r) (Vram (u_Requests u))\<rparr>);
                 p2 = (case qt_Limits t of None \<Rightarrow> p1
                       | Some r \<Rightarrow> p1\<lparr>ap_LimitsTFlops := calculateResourcePercent val approx (Tflops r) (Tflops (u_Limits u)),
                                     ap_LimitsVRAM := calculateResourcePercent val approx (Vram r) (Vram (u_Limits u))\<rparr>)
             in (case qt_MaxWorkers t of None \<Rightarrow> p2
                 | Some m \<Rightarrow>
                     let tot = f64_of_int m; used = f64_of_int (u_Workers u)
                     in if f64_less (Fin 0) tot
                        then p2\<lparr>ap_Workers := FormatFloat2
                               (f64_mul (f64_div (f64_sub tot used) tot) (Fin 100))\<rparr>
                        else p2)
         | _ \<Rightarrow> p0)"

definition IsAlertThresholdReached :: "string \<Rightarrow> int \<Rightarrow> bool" where
  "IsAlertThresholdReached availablePercent threshold =
     (let minAvailablePercent = s32 (100 - threshold)
      in if availablePercent = '''' then True
         else fst (ParseInt availablePercent) < minAvailablePercent)"

definition CalculateConditions :: "available_percent \<Rightarrow> int \<Rightarrow> string \<Rightarrow> condition list option" where
  "CalculateConditions p alertThreshold previousMsg =
     (let tf = IsAlertThresholdReached (ap_RequestsTFlops p) alertThreshold;
          vr = IsAlertThresholdReached (ap_RequestsVRAM p) alertThreshold;
          ltf = IsAlertThresholdReached (ap_LimitsTFlops p) alertThreshold;
          lvr = IsAlertThresholdReached (ap_LimitsVRAM p) alertThreshold;
          wk = IsAlertThresholdReached (ap_Workers p) alertThreshold
      in if tf \<or> vr \<or> ltf \<or> lvr \<or> wk
         then let msg = ''One of the following resources has reached alert threshold:''
                    @ '' tflops limits: '' @ show_bool ltf @ '', tflops requests: '' @ show_bool lvr
                    @ '', vram limits: '' @ show_bool tf @ '', vram requests: '' @ show_bool vr
                    @ '', workers: '' @ show_bool wk
              in if msg \<noteq> previousMsg
                 then Some [\<lparr>cond_Type = ''Ready'', cond_Status = False,
                             cond_Reason = ''AlertThresholdReached'', cond_Message = msg\<rparr>]
                 else None
         else if previousMsg \<noteq> QuotaReadyAndCapacitySufficient
              then Some [\<lparr>cond_Type = ''Ready'', cond_Status = False,
                          cond_Reason = ''CapacitySufficient'',
                          cond_Message = QuotaReadyAndCapacitySufficient\<rparr>]
              else None)"

section \<open>Quota store\<close>

record quota_error =
  qerr_Namespace :: string
  qerr_Resource :: string
  qerr_Requested :: quantity
  qerr_Limit :: quantity
  qerr_Unresolvable :: bool

record quota_entry =
  qe_Quota :: gpu_resource_quota
  qe_CurrentUsage :: gpu_resource_usage

record quota_store =
  QuotaStore :: "(string, quota_entry) gomap"
  dirtyQuotas :: "string list"  \<comment> \<open>\<open>map[string]struct{}\<close>: a set of namespaces\<close>

definition NewQuotaStore :: quota_store where
  "NewQuotaStore = \<lparr>QuotaStore = [], dirtyQuotas = []\<rparr>"

definition markQuotaDirty :: "string \<Rightarrow> quota_store \<Rightarrow> quota_store" where
  "markQuotaDirty ns qs = qs\<lparr>dirtyQuotas := List.insert ns (dirtyQuotas qs)\<rparr>"

definition clearQuotaDirty :: "string \<Rightarrow> quota_store \<Rightarrow> quota_store" where
  "clearQuotaDirty ns qs = qs\<lparr>dirtyQuotas := removeAll ns (dirtyQuotas qs)\<rparr>"

definition checkSingleQuotas :: "quota_entry \<Rightarrow> alloc_request \<Rightarrow> quota_error option" where
  "checkSingleQuotas entry req =
     (let single = grq_Single (qe_Quota entry); ns = grq_Namespace (qe_Quota entry)
      in case qs_MaxLimits single of None \<Rightarrow> None
         | Some ml \<Rightarrow>
             if Tflops ml \<noteq> 0 \<and> Tflops ml < Tflops (ar_Limit req)
             then Some \<lparr>qerr_Namespace = ns, qerr_Resource = ''single.max.tflops.limit'',
                        qerr_Requested = Tflops (ar_Limit req), qerr_Limit = Tflops ml,
                        qerr_Unresolvable = True\<rparr>
             else if Vram ml \<noteq> 0 \<and> Vram ml < Vram (ar_Request req)
             then Some \<lparr>qerr_Namespace = ns, qerr_Resource = ''single.max.vram.limit'',
                        qerr_Requested = Vram (ar_Request req), qerr_Limit = Vram ml,
                        qerr_Unresolvable = True\<rparr>
             else case qs_MaxGPUCount single of None \<Rightarrow> None
                  | Some m \<Rightarrow>
                      if m < s32 (int (ar_Count req))
                      then Some \<lparr>qerr_Namespace = ns, qerr_Resource = ''single.max.gpuCount.limit'',
                                 qerr_Requested = of_int (s64 (int (ar_Count req))), qerr_Limit = of_int m,
                                 qerr_Unresolvable = True\<rparr>
                      else None)"

definition checkTotalExceeded ::
  "(quantity \<Rightarrow> int) \<Rightarrow> alloc_request \<Rightarrow> resource \<Rightarrow> resource \<Rightarrow> string \<Rightarrow> bool \<Rightarrow> quota_error option" where
  "checkTotalExceeded val req totalQuota current quotaNs isRequest =
     (let reqGPUNum = s64 (int (ar_Count req));
          r = (if isRequest then ar_Request req else ar_Limit req);
          tflops = s64 (val (Tflops r) * reqGPUNum);
          vram = s64 (val (Vram r) * reqGPUNum)
      in if Tflops totalQuota \<noteq> 0 \<and> val (Tflops totalQuota) < s64 (val (Tflops current) + tflops)
         then Some \<lparr>qerr_Namespace = quotaNs,
                    qerr_Resource = (if isRequest then ''total.max.tflops.request'' else ''total.max.tflops.limit''),
                    qerr_Requested = of_int tflops, qerr_Limit = Tflops totalQuota,
                    qerr_Unresolvable = False\<rparr>
         else if Vram totalQuota \<noteq> 0 \<and> val (Vram totalQuota) < s64 (val (Vram current) + vram)
         then Some \<lparr>qerr_Namespace = quotaNs,
                    qerr_Resource = (if isRequest then ''total.max.vram.request'' else ''total.max.vram.limit''),
                    qerr_Requested = of_int vram, qerr_Limit = Vram totalQuota,
                    qerr_Unresolvable = False\<rparr>
         else None)"

text \<open>The usage a total check compares with: current usage, less what a preemption releases, plus what is pre-scheduled.\<close>

definition relaxed_usage :: "resource \<Rightarrow> resource option \<Rightarrow> resource option \<Rightarrow> resource" where
  "relaxed_usage cur toRelease toAdd =
     (let c1 = (case toRelease of None \<Rightarrow> cur
                | Some r \<Rightarrow> cur\<lparr>Tflops := Tflops cur - Tflops r, Vram := Vram cur - Vram r\<rparr>)
      in case toAdd of None \<Rightarrow> c1
         | Some r \<Rightarrow> c1\<lparr>Tflops := Tflops c1 + Tflops r, Vram := Vram c1 + Vram r\<rparr>)"

definition checkTotalQuotas ::
  "(quantity \<Rightarrow> int) \<Rightarrow> quota_entry \<Rightarrow> alloc_request \<Rightarrow> gpu_resource_usage option
   \<Rightarrow> gpu_resource_usage option \<Rightarrow> quota_error option" where
  "checkTotalQuotas val entry req toRelease toAdd =
     (let quotaNs = grq_Namespace (qe_Quota entry); t = grq_Total (qe_Quota entry);
          u = qe_CurrentUsage entry;
          reqErr = (case qt_Requests t of None \<Rightarrow> None
                    | Some tot \<Rightarrow> checkTotalExceeded val req tot
                        (relaxed_usage (u_Requests u) (map_option u_Requests toRelease) (map_option u_Requests toAdd))
                        quotaNs True);
          limErr = (case qt_Limits t of None \<Rightarrow> None
                    | Some tot \<Rightarrow> checkTotalExceeded val req tot
                        (relaxed_usage (u_Limits u) (map_option u_Limits toRelease) (map_option u_Limits toAdd))
                        quotaNs False);
          removeWorkers = (case toRelease of None \<Rightarrow> 0 | Some r \<Rightarrow> u_Workers r);
          addWorkers = (case toAdd of None \<Rightarrow> 0 | Some r \<Rightarrow> u_Workers r)
      in if reqErr \<noteq> None then reqErr
         else if limErr \<noteq> None then limErr
         else if addWorkers < removeWorkers then None
         else case qt_MaxWorkers t of None \<Rightarrow> None
              | Some m \<Rightarrow>
                  if m \<le> s32 (s32 (u_Workers u + addWorkers) - removeWorkers)
                  then Some \<lparr>qerr_Namespace = quotaNs, qerr_Resource = ''total.max.workers.limit'',
                             qerr_Requested = 1, qerr_Limit = of_int m, qerr_Unresolvable = False\<rparr>
                  else None)"

definition CheckQuotaAvailable ::
  "(quantity \<Rightarrow> int) \<Rightarrow> quota_store \<Rightarrow> alloc_request \<Rightarrow> quota_error option" where
  "CheckQuotaAvailable val qs req =
     (case map_of (QuotaStore qs) (nn_Namespace (ar_Workload req)) of
        None \<Rightarrow> None
      | Some entry \<Rightarrow>
          (case checkSingleQuotas entry req of
             Some e \<Rightarrow> Some e
           | None \<Rightarrow> checkTotalQuotas val entry req None None))"

definition CheckSingleQuotaAvailable :: "quota_store \<Rightarrow> alloc_request \<Rightarrow> quota_error option" where
  "CheckSingleQuotaAvailable qs req =
     (case map_of (QuotaStore qs) (nn_Namespace (ar_Workload req)) of
        None \<Rightarrow> None
      | Some entry \<Rightarrow> checkSingleQuotas entry req)"

definition CheckTotalQuotaRelaxed ::
  "(quantity \<Rightarrow> int) \<Rightarrow> quota_store \<Rightarrow> alloc_request \<Rightarrow> gpu_resource_usage \<Rightarrow> quota_error option" where
  "CheckTotalQuotaRelaxed val qs req toRelease =
     (case map_of (QuotaStore qs) (nn_Namespace (ar_Workload req)) of
        None \<Rightarrow> None
      | Some entry \<Rightarrow> checkTotalQuotas val entry req (Some toRelease) None)"

definition CheckTotalQuotaWithPreScheduled ::
  "(quantity \<Rightarrow> int) \<Rightarrow> quota_store \<Rightarrow> alloc_request \<Rightarrow> gpu_resource_usage \<Rightarrow> quota_error option" where
  "CheckTotalQuotaWithPreScheduled val qs req toSchedule =
     (case map_of (QuotaStore qs) (nn_Namespace (ar_Workload req)) of
        None \<Rightarrow> None
      | Some entry \<Rightarrow> checkTotalQuotas val entry req None (Some toSchedule))"

definition AdjustQuota :: "string \<Rightarrow> resource \<Rightarrow> resource \<Rightarrow> quota_store \<Rightarrow> quota_store" where
  "AdjustQuota ns reqDelta limitDelta qs =
     (case map_of (QuotaStore qs) ns of
        None \<Rightarrow> qs
      | Some entry \<Rightarrow>
          let u = qe_CurrentUsage entry;
              u' = u\<lparr>u_Requests := (u_Requests u)\<lparr>Tflops := Tflops (u_Requests u) + Tflops reqDelta,
                                                   Vram := Vram (u_Requests u) + Vram reqDelta\<rparr>,
                     u_Limits := (u_Limits u)\<lparr>Tflops := Tflops (u_Limits u) + Tflops limitDelta,
                                               Vram := Vram (u_Limits u) + Vram limitDelta\<rparr>\<rparr>
          in markQuotaDirty ns
               (qs\<lparr>QuotaStore := AList.update ns (entry\<lparr>qe_CurrentUsage := u'\<rparr>) (QuotaStore qs)\<rparr>))"

text \<open>\<^verbatim>\<open>AllocateQuota\<close> and \<^verbatim>\<open>DeallocateQuota\<close> apply the calculator to the entry of a namespace.\<close>

definition apply_usage_at :: "string \<Rightarrow> alloc_request \<Rightarrow> bool \<Rightarrow> quota_store \<Rightarrow> quota_store" where
  "apply_usage_at ns req isIncrease qs =
     (case map_of (QuotaStore qs) ns of
        None \<Rightarrow> qs
      | Some entry \<Rightarrow>
          markQuotaDirty ns
            (qs\<lparr>QuotaStore := AList.update ns
                  (entry\<lparr>qe_CurrentUsage := ApplyUsageOperation (qe_CurrentUsage entry) req isIncrease\<rparr>)
                  (QuotaStore qs)\<rparr>))"

definition AllocateQuota :: "string \<Rightarrow> alloc_request \<Rightarrow> quota_store \<Rightarrow> quota_store" where
  "AllocateQuota ns req qs = apply_usage_at ns req True qs"

definition DeallocateQuota :: "string \<Rightarrow> alloc_request \<Rightarrow> quota_store \<Rightarrow> quota_store" where
  "DeallocateQuota ns req qs = apply_usage_at ns req False qs"

datatype quota_failure = NilPointer | ListFailed

datatype validation = Valid | Invalid string

text \<open>\<^verbatim>\<open>validateQuotaConfig\<close> reads \<^verbatim>\<open>Total.Requests\<close> and \<^verbatim>\<open>Total.Limits\<close> without a nil check.\<close>

definition validateQuotaConfig :: "gpu_resource_quota \<Rightarrow> quota_failure + validation" where
  "validateQuotaConfig quota =
     (let t = grq_Total quota in
      case qt_Requests t of None \<Rightarrow> Inl NilPointer
      | Some r \<Rightarrow>
          if Tflops r \<noteq> 0 \<and> Tflops r < 0 then Inr (Invalid ''requests.tflops cannot be negative'')
          else if Vram r \<noteq> 0 \<and> Vram r < 0 then Inr (Invalid ''requests.vram cannot be negative'')
          else case qt_Limits t of None \<Rightarrow> Inl NilPointer
          | Some l \<Rightarrow>
              if Tflops l \<noteq> 0 \<and> Tflops l < 0 then Inr (Invalid ''limits.tflops cannot be negative'')
              else if Vram l \<noteq> 0 \<and> Vram l < 0 then Inr (Invalid ''limits.vram cannot be negative'')
              else if (case qt_MaxWorkers t of None \<Rightarrow> False | Some m \<Rightarrow> m < 0)
              then Inr (Invalid ''workers cannot be negative'')
              else if Tflops r \<noteq> 0 \<and> Tflops l \<noteq> 0 \<and> Tflops l < Tflops r
              then Inr (Invalid ''limits.tflops cannot be less than requests.tflops'')
              else if Vram r \<noteq> 0 \<and> Vram l \<noteq> 0 \<and> Vram l < Vram r
              then Inr (Invalid ''limits.vram cannot be less than requests.vram'')
              else if (case qt_AlertThresholdPercent t of None \<Rightarrow> False | Some a \<Rightarrow> a < 0 \<or> 100 < a)
              then Inr (Invalid ''alertThresholdPercent must be between 0 and 100'')
              else Inr Valid)"

fun init_quotas ::
  "gpu_resource_quota list \<Rightarrow> (string, quota_entry) gomap \<Rightarrow> quota_failure + (string, quota_entry) gomap" where
  "init_quotas [] m = Inr m"
| "init_quotas (quota # quotas) m =
     (case validateQuotaConfig quota of
        Inl e \<Rightarrow> Inl e
      | Inr (Invalid _) \<Rightarrow> init_quotas quotas m
      | Inr Valid \<Rightarrow> init_quotas quotas
          (AList.update (grq_Namespace quota) \<lparr>qe_Quota = quota, qe_CurrentUsage = CreateZeroUsage\<rparr> m))"

text \<open>The argument is the result of listing the quota objects, \<open>None\<close> when the list call fails.\<close>

definition InitQuotaStore :: "gpu_resource_quota list option \<Rightarrow> quota_store \<Rightarrow> quota_failure + quota_store" where
  "InitQuotaStore listed qs =
     (case listed of None \<Rightarrow> Inl ListFailed
      | Some [] \<Rightarrow> Inr qs
      | Some quotas \<Rightarrow>
          (case init_quotas quotas [] of
             Inl e \<Rightarrow> Inl e
           | Inr m \<Rightarrow> Inr (qs\<lparr>QuotaStore := m\<rparr>)))"

fun apply_allocations :: "(string, quota_entry) gomap \<Rightarrow> alloc_request list \<Rightarrow> (string, quota_entry) gomap" where
  "apply_allocations m [] = m"
| "apply_allocations m (a # as) =
     (let ns = nn_Namespace (ar_Workload a) in
      case map_of m ns of
        None \<Rightarrow> apply_allocations m as
      | Some entry \<Rightarrow> apply_allocations
          (AList.update ns (entry\<lparr>qe_CurrentUsage := ApplyUsageOperation (qe_CurrentUsage entry) a True\<rparr>) m) as)"

definition ReconcileQuotaStore :: "(string, alloc_request) gomap \<Rightarrow> quota_store \<Rightarrow> quota_store" where
  "ReconcileQuotaStore allocations qs =
     (if QuotaStore qs = [] then qs
      else qs\<lparr>QuotaStore := apply_allocations
               (map (\<lambda>(ns, e). (ns, e\<lparr>qe_CurrentUsage := CreateZeroUsage\<rparr>)) (QuotaStore qs))
               (map snd allocations)\<rparr>)"

definition GetQuotaStatus :: "quota_store \<Rightarrow> string \<Rightarrow> gpu_resource_usage option" where
  "GetQuotaStatus qs ns = map_option qe_CurrentUsage (map_of (QuotaStore qs) ns)"

text \<open>
  The status patch sent for one dirty namespace. Conditions are set only when the calculator
  returns some.
\<close>

definition quota_status_patch ::
  "(quantity \<Rightarrow> int) \<Rightarrow> (quantity \<Rightarrow> float64) \<Rightarrow> quota_entry \<Rightarrow> quota_status" where
  "quota_status_patch val approx entry =
     (let quota = qe_Quota entry;
          p = CalculateAvailablePercent val approx (Some quota) (Some (qe_CurrentUsage entry));
          alertThreshold = (case qt_AlertThresholdPercent (grq_Total quota) of None \<Rightarrow> 95 | Some a \<Rightarrow> a);
          previousMsg = (case qst_Conditions (grq_Status quota) of [] \<Rightarrow> '''' | c # _ \<Rightarrow> cond_Message c)
      in \<lparr>qst_Used = qe_CurrentUsage entry, qst_AvailablePercent = p,
          qst_Conditions = (case CalculateConditions p alertThreshold previousMsg of None \<Rightarrow> [] | Some cs \<Rightarrow> cs)\<rparr>)"

text \<open>\<open>patchOk\<close> says whether the API server accepts the patch of a namespace.\<close>

fun sync_quotas ::
  "(quantity \<Rightarrow> int) \<Rightarrow> (quantity \<Rightarrow> float64) \<Rightarrow> (string \<Rightarrow> quota_status \<Rightarrow> bool) \<Rightarrow> string list \<Rightarrow> quota_store
   \<Rightarrow> (string \<times> quota_status) list \<times> quota_store" where
  "sync_quotas val approx patchOk [] qs = ([], qs)"
| "sync_quotas val approx patchOk (ns # nss) qs =
     (case map_of (QuotaStore qs) ns of
        None \<Rightarrow> sync_quotas val approx patchOk nss qs
      | Some entry \<Rightarrow>
          let st = quota_status_patch val approx entry;
              qs' = (if patchOk ns st then clearQuotaDirty ns qs else qs);
              (sent, qs'') = sync_quotas val approx patchOk nss qs'
          in ((ns, st) # sent, qs''))"

definition SyncQuotasToK8s ::
  "(quantity \<Rightarrow> int) \<Rightarrow> (quantity \<Rightarrow> float64) \<Rightarrow> (string \<Rightarrow> quota_status \<Rightarrow> bool) \<Rightarrow> quota_store
   \<Rightarrow> (string \<times> quota_status) list \<times> quota_store" where
  "SyncQuotasToK8s val approx patchOk qs = sync_quotas val approx patchOk (dirtyQuotas qs) qs"

section \<open>Informer handlers\<close>

text \<open>Create and update write through \<^verbatim>\<open>qs.QuotaStore[key].Quota\<close>: a missing entry is a nil pointer.\<close>

definition set_quota :: "gpu_resource_quota \<Rightarrow> quota_store \<Rightarrow> quota_failure + quota_store" where
  "set_quota quota qs =
     (case map_of (QuotaStore qs) (grq_Namespace quota) of
        None \<Rightarrow> Inl NilPointer
      | Some entry \<Rightarrow> Inr (qs\<lparr>QuotaStore :=
          AList.update (grq_Namespace quota) (entry\<lparr>qe_Quota := quota\<rparr>) (QuotaStore qs)\<rparr>))"

definition handleGPUQuotaCreate :: "gpu_resource_quota \<Rightarrow> quota_store \<Rightarrow> quota_failure + quota_store" where
  "handleGPUQuotaCreate quota qs = set_quota quota qs"

definition handleGPUQuotaUpdate :: "gpu_resource_quota \<Rightarrow> quota_store \<Rightarrow> quota_failure + quota_store" where
  "handleGPUQuotaUpdate quota qs = set_quota quota qs"

definition handleGPUQuotaDelete :: "gpu_resource_quota \<Rightarrow> quota_store \<Rightarrow> quota_store" where
  "handleGPUQuotaDelete quota qs = qs\<lparr>QuotaStore := AList.delete (grq_Namespace quota) (QuotaStore qs)\<rparr>"

text \<open>
  The event handlers registered by \<^verbatim>\<open>StartInformerForGPUQuota\<close>: an object of an unexpected type
  is only logged; a delete may carry a tombstone around the last known object.
\<close>

fun quota_informer :: "gpu_resource_quota informer_event \<Rightarrow> quota_store \<Rightarrow> quota_failure + quota_store" where
  "quota_informer (AddFunc (Typed q)) qs = handleGPUQuotaCreate q qs"
| "quota_informer (DeleteFunc (Typed q)) qs = Inr (handleGPUQuotaDelete q qs)"
| "quota_informer (DeleteFunc (Tombstone (Typed q))) qs = Inr (handleGPUQuotaDelete q qs)"
| "quota_informer (UpdateFunc _ (Typed q)) qs = handleGPUQuotaUpdate q qs"
| "quota_informer _ qs = Inr qs"

section \<open>Usage accounting\<close>

definition usage_ok :: "gpu_resource_usage \<Rightarrow> bool" where
  "usage_ok u \<longleftrightarrow> 0 \<le> Tflops (u_Requests u) \<and> 0 \<le> Vram (u_Requests u)
     \<and> 0 \<le> Tflops (u_Limits u) \<and> 0 \<le> Vram (u_Limits u)
     \<and> - (2 ^ 31) \<le> u_Workers u \<and> u_Workers u < 2 ^ 31"

definition alloc_ok :: "alloc_request \<Rightarrow> bool" where
  "alloc_ok a \<longleftrightarrow> 0 \<le> Tflops (ar_Request a) \<and> 0 \<le> Vram (ar_Request a)
     \<and> 0 \<le> Tflops (ar_Limit a) \<and> 0 \<le> Vram (ar_Limit a) \<and> ar_Count a < 2 ^ 63"

lemma s64_count: "n < 2 ^ 63 \<Longrightarrow> s64 (int n) = int n"
  by (intro s64_id) auto

lemma SafeSub_SafeAdd: "0 \<le> a \<Longrightarrow> SafeSub (SafeAdd a b n) b n = a"
  by (simp add: SafeSub_def SafeAdd_def)

lemma SafeAdd_nonneg: "0 \<le> a \<Longrightarrow> 0 \<le> b \<Longrightarrow> 0 \<le> n \<Longrightarrow> 0 \<le> SafeAdd a b n"
  by (simp add: SafeAdd_def)

lemma SafeSub_nonneg: "0 \<le> SafeSub a b n"
  by (simp add: SafeSub_def Let_def)

lemma SafeAdd_commute: "SafeAdd (SafeAdd a b n) c m = SafeAdd (SafeAdd a c m) b n"
  by (simp add: SafeAdd_def)

lemma s32_back: "- (2 ^ 31) \<le> w \<Longrightarrow> w < 2 ^ 31 \<Longrightarrow> s32 (s32 (w + 1) - 1) = w"
  by (simp add: s32_def mod_simps)

lemma ApplyUsage_inc_ok: "usage_ok u \<Longrightarrow> alloc_ok a \<Longrightarrow> usage_ok (ApplyUsageOperation u a True)"
  using s32_range [of "u_Workers u + 1"]
  by (simp add: ApplyUsageOperation_def IncreaseUsage_def usage_ok_def alloc_ok_def s64_count
      SafeAdd_nonneg Let_def)

lemma ApplyUsage_dec_ok: "usage_ok u \<Longrightarrow> usage_ok (ApplyUsageOperation u a False)"
  using s32_range [of "u_Workers u - 1"]
  by (simp add: ApplyUsageOperation_def DecreaseUsage_def usage_ok_def SafeSub_nonneg Let_def)

interpretation calc: usage_ledger
  "\<lambda>u a. ApplyUsageOperation u a True" "\<lambda>u a. ApplyUsageOperation u a False" usage_ok alloc_ok
proof
  fix u a b
  show "usage_ok u \<Longrightarrow> alloc_ok a \<Longrightarrow> usage_ok (ApplyUsageOperation u a True)"
    by (rule ApplyUsage_inc_ok)
  show "usage_ok u \<Longrightarrow> alloc_ok a \<Longrightarrow>
      ApplyUsageOperation (ApplyUsageOperation u a True) a False = u"
    by (simp add: ApplyUsageOperation_def IncreaseUsage_def DecreaseUsage_def usage_ok_def
        SafeSub_SafeAdd s32_back Let_def)
  show "ApplyUsageOperation (ApplyUsageOperation u a True) b True =
      ApplyUsageOperation (ApplyUsageOperation u b True) a True"
    by (simp add: ApplyUsageOperation_def IncreaseUsage_def Let_def)
      (simp add: SafeAdd_def)
qed

lemma CreateZeroUsage_ok [simp]: "usage_ok CreateZeroUsage"
  by (simp add: CreateZeroUsage_def zero_resource_def usage_ok_def)

subsection \<open>The store as a map from namespaces to usage\<close>

lemma GetQuotaStatus_apply_usage_at:
  "GetQuotaStatus (apply_usage_at ns a b qs) n =
     (if n = ns then map_option (\<lambda>u. ApplyUsageOperation u a b) (GetQuotaStatus qs ns)
      else GetQuotaStatus qs n)"
  by (auto simp: GetQuotaStatus_def apply_usage_at_def markQuotaDirty_def update_conv'
      split: option.splits)

lemma map_of_zeroed:
  "map_of (map (\<lambda>(ns, e). (ns, e\<lparr>qe_CurrentUsage := CreateZeroUsage\<rparr>)) m) n
     = map_option (\<lambda>e. e\<lparr>qe_CurrentUsage := CreateZeroUsage\<rparr>) (map_of m n)"
  by (induction m) auto

lemma apply_allocations_usage:
  "map_option qe_CurrentUsage (map_of (apply_allocations m as) n) =
     map_option (\<lambda>e. foldl (\<lambda>u a. ApplyUsageOperation u a True) (qe_CurrentUsage e)
        (filter (\<lambda>a. nn_Namespace (ar_Workload a) = n) as)) (map_of m n)"
  by (induction m as rule: apply_allocations.induct)
    (auto simp: update_conv' Let_def split: option.splits)

lemma apply_allocations_dom: "map_of (apply_allocations m as) n = None \<longleftrightarrow> map_of m n = None"
  by (metis apply_allocations_usage option.map_disc_iff)

text \<open>Rebuilding the store books, per namespace, exactly the allocations of that namespace.\<close>

lemma ReconcileQuotaStore_usage:
  "GetQuotaStatus (ReconcileQuotaStore allocs qs) n =
     map_option (\<lambda>_. foldl (\<lambda>u a. ApplyUsageOperation u a True) CreateZeroUsage
        (filter (\<lambda>a. nn_Namespace (ar_Workload a) = n) (map snd allocs))) (map_of (QuotaStore qs) n)"
  by (auto simp: GetQuotaStatus_def ReconcileQuotaStore_def apply_allocations_usage map_of_zeroed
      option.map_comp comp_def)


lemma GetQuotaStatus_allocate:
  "GetQuotaStatus (AllocateQuota ns a qs) n =
     (if n = ns then map_option (\<lambda>u. ApplyUsageOperation u a True) (GetQuotaStatus qs ns)
      else GetQuotaStatus qs n)"
  by (simp add: AllocateQuota_def GetQuotaStatus_apply_usage_at)

lemma GetQuotaStatus_deallocate:
  "GetQuotaStatus (DeallocateQuota ns a qs) n =
     (if n = ns then map_option (\<lambda>u. ApplyUsageOperation u a False) (GetQuotaStatus qs ns)
      else GetQuotaStatus qs n)"
  by (simp add: DeallocateQuota_def GetQuotaStatus_apply_usage_at)

lemma update_update_same: "AList.update k v (AList.update k w m) = AList.update k v m"
  by (induction m) auto

lemma update_current: "map_of m k = Some v \<Longrightarrow> AList.update k v m = m"
  by (induction m) (auto split: if_splits)

lemma allocate_deallocate_store:
  assumes "alloc_ok a"
    and "\<And>u. GetQuotaStatus qs ns = Some u \<Longrightarrow> usage_ok u"
  shows "QuotaStore (DeallocateQuota ns a (AllocateQuota ns a qs)) = QuotaStore qs"
proof (cases "map_of (QuotaStore qs) ns")
  case None
  then show ?thesis by (simp add: AllocateQuota_def DeallocateQuota_def apply_usage_at_def)
next
  case (Some e)
  have "usage_ok (qe_CurrentUsage e)" using assms(2) Some by (simp add: GetQuotaStatus_def)
  then have "ApplyUsageOperation (ApplyUsageOperation (qe_CurrentUsage e) a True) a False = qe_CurrentUsage e"
    using assms(1) by (rule calc.dec_inc)
  then show ?thesis using Some
    by (simp add: AllocateQuota_def DeallocateQuota_def apply_usage_at_def markQuotaDirty_def
        update_conv' update_update_same update_current)
qed

subsection \<open>The admission check bounds the usage\<close>

text \<open>
  The documented meaning of \<^verbatim>\<open>Quantity.Value\<close>: the quantity rounded away from zero to an integer.
\<close>

definition value_rounds_up :: "(quantity \<Rightarrow> int) \<Rightarrow> bool" where
  "value_rounds_up val \<longleftrightarrow> (\<forall>q. val q = (if 0 \<le> q then \<lceil>q\<rceil> else \<lfloor>q\<rfloor>))"

text \<open>The sums of a total check stay below the range of \<^verbatim>\<open>int64\<close>.\<close>

definition sums_fit :: "(quantity \<Rightarrow> int) \<Rightarrow> resource \<Rightarrow> resource \<Rightarrow> nat \<Rightarrow> bool" where
  "sums_fit val used r n \<longleftrightarrow>
     val (Tflops used) + val (Tflops r) * int n < 2 ^ 63 \<and> val (Vram used) + val (Vram r) * int n < 2 ^ 63"

definition within_total :: "(quantity \<Rightarrow> int) \<Rightarrow> quota_total \<Rightarrow> gpu_resource_usage \<Rightarrow> bool" where
  "within_total val t u \<longleftrightarrow>
     (\<forall>r. qt_Requests t = Some r \<longrightarrow>
        (Tflops r \<noteq> 0 \<longrightarrow> Tflops (u_Requests u) \<le> of_int (val (Tflops r)))
        \<and> (Vram r \<noteq> 0 \<longrightarrow> Vram (u_Requests u) \<le> of_int (val (Vram r))))
     \<and> (\<forall>r. qt_Limits t = Some r \<longrightarrow>
        (Tflops r \<noteq> 0 \<longrightarrow> Tflops (u_Limits u) \<le> of_int (val (Tflops r)))
        \<and> (Vram r \<noteq> 0 \<longrightarrow> Vram (u_Limits u) \<le> of_int (val (Vram r))))
     \<and> (\<forall>m. qt_MaxWorkers t = Some m \<longrightarrow> u_Workers u \<le> m)"

lemma val_upper: "value_rounds_up val \<Longrightarrow> 0 \<le> q \<Longrightarrow> q \<le> of_int (val q) \<and> 0 \<le> val q"
  by (simp add: value_rounds_up_def)

lemma no_wrap_sum:
  assumes "value_rounds_up val" "0 \<le> used" "0 \<le> r" "val used + val r * int n < 2 ^ 63"
  shows "s64 (val used + s64 (val r * int n)) = val used + val r * int n"
    and "used + r * of_nat n \<le> of_int (val used + val r * int n)"
proof -
  have u: "0 \<le> val used" "used \<le> of_int (val used)" and r: "0 \<le> val r" "r \<le> of_int (val r)"
    using assms val_upper by blast+
  then have "0 \<le> val r * int n" by simp
  with u assms(4) show "s64 (val used + s64 (val r * int n)) = val used + val r * int n"
    by (simp add: s64_id)
  from r have "r * of_nat n \<le> of_int (val r) * of_nat n" by (simp add: mult_right_mono)
  with u show "used + r * of_nat n \<le> of_int (val used + val r * int n)" by simp
qed

lemma checkTotalExceeded_bound:
  assumes "value_rounds_up val"
    and "checkTotalExceeded val req tot current ns isReq = None"
    and "r = (if isReq then ar_Request req else ar_Limit req)"
    and "0 \<le> Tflops current" "0 \<le> Vram current" "0 \<le> Tflops r" "0 \<le> Vram r"
    and "ar_Count req < 2 ^ 63" and "sums_fit val current r (ar_Count req)"
  shows "(Tflops tot \<noteq> 0 \<longrightarrow> SafeAdd (Tflops current) (Tflops r) (int (ar_Count req)) \<le> of_int (val (Tflops tot)))
    \<and> (Vram tot \<noteq> 0 \<longrightarrow> SafeAdd (Vram current) (Vram r) (int (ar_Count req)) \<le> of_int (val (Vram tot)))"
proof -
  let ?n = "ar_Count req"
  have c: "s64 (int ?n) = int ?n" using assms(8) by (rule s64_count)
  have f: "val (Tflops current) + val (Tflops r) * int ?n < 2 ^ 63"
    "val (Vram current) + val (Vram r) * int ?n < 2 ^ 63" using assms(9) by (simp_all add: sums_fit_def)
  note t = no_wrap_sum [OF assms(1,4,6) f(1)]
  note v = no_wrap_sum [OF assms(1,5,7) f(2)]
  have none: "\<not> (Tflops tot \<noteq> 0 \<and> val (Tflops tot) < val (Tflops current) + val (Tflops r) * int ?n)"
    "\<not> (Vram tot \<noteq> 0 \<and> val (Vram tot) < val (Vram current) + val (Vram r) * int ?n)"
    using assms(2) unfolding checkTotalExceeded_def Let_def c assms(3) [symmetric] t(1) v(1)
    by (auto split: if_splits)
  have le: "x \<le> of_int k \<Longrightarrow> k \<le> m \<Longrightarrow> x \<le> of_int m" for x :: rat and k m :: int
    using of_int_le_iff order_trans by blast
  from none show ?thesis using le [OF t(2)] le [OF v(2)] by (auto simp: SafeAdd_def not_less)
qed

lemma checkTotalQuotas_admits:
  assumes "value_rounds_up val" "checkTotalQuotas val e a None None = None"
    and "usage_ok (qe_CurrentUsage e)" "alloc_ok a"
    and "sums_fit val (u_Requests (qe_CurrentUsage e)) (ar_Request a) (ar_Count a)"
    and "sums_fit val (u_Limits (qe_CurrentUsage e)) (ar_Limit a) (ar_Count a)"
    and "u_Workers (qe_CurrentUsage e) < 2 ^ 31 - 1"
  shows "within_total val (grq_Total (qe_Quota e)) (ApplyUsageOperation (qe_CurrentUsage e) a True)"
proof -
  let ?u = "qe_CurrentUsage e" and ?t = "grq_Total (qe_Quota e)"
  have u: "0 \<le> Tflops (u_Requests ?u)" "0 \<le> Vram (u_Requests ?u)" "0 \<le> Tflops (u_Limits ?u)"
      "0 \<le> Vram (u_Limits ?u)" and w: "- (2 ^ 31) \<le> u_Workers ?u"
    using assms(3) by (auto simp: usage_ok_def)
  have a: "0 \<le> Tflops (ar_Request a)" "0 \<le> Vram (ar_Request a)" "0 \<le> Tflops (ar_Limit a)"
      "0 \<le> Vram (ar_Limit a)" and n: "ar_Count a < 2 ^ 63" using assms(4) by (auto simp: alloc_ok_def)
  have wk: "s32 (s32 (u_Workers ?u + 0) - 0) = u_Workers ?u" "s32 (u_Workers ?u + 1) = u_Workers ?u + 1"
    using w assms(7) by (simp_all add: s32_id)
  have R: "checkTotalExceeded val a r (u_Requests ?u) (grq_Namespace (qe_Quota e)) True = None"
    if "qt_Requests ?t = Some r" for r
    using assms(2) that
    by (simp add: checkTotalQuotas_def relaxed_usage_def Let_def split: if_splits)
  have L: "checkTotalExceeded val a r (u_Limits ?u) (grq_Namespace (qe_Quota e)) False = None"
    if "qt_Limits ?t = Some r" for r
    using assms(2) that
    by (simp add: checkTotalQuotas_def relaxed_usage_def Let_def split: if_splits)
  have W: "u_Workers ?u + 1 \<le> m" if "qt_MaxWorkers ?t = Some m" for m
    using assms(2) that wk
    by (auto simp: checkTotalQuotas_def relaxed_usage_def Let_def split: if_splits)
  show ?thesis
    using checkTotalExceeded_bound [OF assms(1) R refl] checkTotalExceeded_bound [OF assms(1) L refl]
      u a n assms(5,6) W wk(2)
    by (simp add: within_total_def ApplyUsageOperation_def IncreaseUsage_def s64_count Let_def)
qed

end
