(* ===== verification/QuotaProps.thy ===== *)
theory QuotaProps
  imports Quota
begin

text \<open>
  The properties of the quota store: what the admission check guarantees, that the incrementally
  kept usage agrees with a rebuild from the allocations, the invariant of every reachable store,
  what a sync round leaves dirty, and how the alert threshold behaves.
\<close>

section \<open>Auxiliary lemmas\<close>

lemma mset_delete_key:
  assumes "distinct (map fst m)" "map_of m k = Some a"
  shows "mset (map snd (AList.delete k m)) = mset (remove1 a (map snd m))"
  using assms
proof (induction m)
  case Nil
  then show ?case by simp
next
  case (Cons p m)
  obtain k' b where p: "p = (k', b)" by (cases p)
  show ?case
  proof (cases "k' = k")
    case True
    with Cons.prems p have "AList.delete k m = m"
      by (auto simp: AList.delete_eq filter_id_conv) (metis fst_conv image_eqI)
    with True Cons.prems p show ?thesis by (simp add: AList.delete_eq)
  next
    case False
    with Cons p have IH: "mset (map snd (AList.delete k m)) = mset (map snd m) - {#a#}"
      and a: "a \<in> set (map snd m)" by (force dest: map_of_SomeD)+
    from a have "add_mset a (mset (map snd m) - {#a#}) = mset (map snd m)" by (simp add: insert_DiffM)
    then show ?thesis using False p IH by (auto simp: AList.delete_eq)
  qed
qed

lemma mset_remove1_filter: "P a \<Longrightarrow> mset (filter P (remove1 a xs)) = mset (remove1 a (filter P xs))"
  by (simp add: filter_remove1)

definition booked :: "string \<Rightarrow> (string, alloc_request) gomap \<Rightarrow> alloc_request list" where
  "booked n allocs = filter (\<lambda>a. nn_Namespace (ar_Workload a) = n) (map snd allocs)"

lemma reconciled_usage:
  "GetQuotaStatus (ReconcileQuotaStore allocs qs) n =
     map_option (\<lambda>_. foldl (\<lambda>u a. ApplyUsageOperation u a True) CreateZeroUsage (booked n allocs))
       (map_of (QuotaStore qs) n)"
  by (simp add: ReconcileQuotaStore_usage booked_def)

lemma booked_delete:
  assumes "distinct (map fst m)" "map_of m k = Some a"
  shows "mset (booked n (AList.delete k m)) =
    (if nn_Namespace (ar_Workload a) = n then mset (remove1 a (booked n m)) else mset (booked n m))"
proof -
  have "mset (booked n (AList.delete k m)) = mset (filter (\<lambda>a. nn_Namespace (ar_Workload a) = n) (remove1 a (map snd m)))"
    unfolding booked_def by (metis mset_delete_key [OF assms] mset_filter)
  then show ?thesis by (auto simp: booked_def filter_remove1 remove1_idem)
qed

lemma rebuild_deallocate:
  assumes "distinct (map fst allocs)" "map_of allocs k = Some a" "\<forall>b \<in> set (map snd allocs). alloc_ok b"
  shows "GetQuotaStatus (DeallocateQuota (nn_Namespace (ar_Workload a)) a (ReconcileQuotaStore allocs qs)) n
       = GetQuotaStatus (ReconcileQuotaStore (AList.delete k allocs) qs) n"
proof -
  let ?inc = "\<lambda>u a. ApplyUsageOperation u a True"
  let ?ns = "nn_Namespace (ar_Workload a)"
  have ok: "\<forall>b \<in> set (booked n allocs). alloc_ok b" using assms(3) by (auto simp: booked_def)
  have bk: "foldl ?inc CreateZeroUsage (booked n (AList.delete k allocs)) =
      foldl ?inc CreateZeroUsage (if ?ns = n then remove1 a (booked n allocs) else booked n allocs)"
    using booked_delete [OF assms(1,2), of n] by (intro calc.foldl_perm) auto
  show ?thesis
  proof (cases "?ns = n")
    case True
    then have "a \<in> set (booked n allocs)"
      using map_of_SomeD [OF assms(2)] by (force simp: booked_def)
    then have "ApplyUsageOperation (foldl ?inc CreateZeroUsage (booked n allocs)) a False
        = foldl ?inc CreateZeroUsage (remove1 a (booked n allocs))"
      using ok by (intro calc.dec_foldl) simp_all
    then show ?thesis using bk True
      by (simp add: GetQuotaStatus_deallocate reconciled_usage option.map_comp comp_def)
  next
    case False
    then show ?thesis using bk by (simp add: GetQuotaStatus_deallocate reconciled_usage)
  qed
qed

lemma rebuild_order:
  assumes "mset allocs = mset allocs'"
  shows "GetQuotaStatus (ReconcileQuotaStore allocs qs) n = GetQuotaStatus (ReconcileQuotaStore allocs' qs) n"
proof -
  from assms have "mset (map snd allocs) = mset (map snd allocs')" by (metis mset_map)
  then have "mset (booked n allocs) = mset (booked n allocs')" unfolding booked_def by (metis mset_filter)
  from calc.foldl_perm [OF this, of CreateZeroUsage] show ?thesis by (simp add: reconciled_usage)
qed

section \<open>Reachable stores\<close>

datatype quota_op =
    QInit "gpu_resource_quota list option"
  | QReconcile "(string, alloc_request) gomap"
  | QAllocate string alloc_request
  | QDeallocate string alloc_request
  | QEvent "gpu_resource_quota informer_event"
  | QSync "string \<Rightarrow> quota_status \<Rightarrow> bool"

inductive quota_step ::
  "(quantity \<Rightarrow> int) \<Rightarrow> (quantity \<Rightarrow> float64) \<Rightarrow> quota_store \<Rightarrow> quota_op \<Rightarrow> quota_store \<Rightarrow> bool"
  for val approx where
  init: "InitQuotaStore l s = Inr s' \<Longrightarrow> quota_step val approx s (QInit l) s'"
| reconcile: "\<forall>a \<in> set (map snd m). alloc_ok a
     \<Longrightarrow> quota_step val approx s (QReconcile m) (ReconcileQuotaStore m s)"
| allocate: "alloc_ok a \<Longrightarrow> quota_step val approx s (QAllocate ns a) (AllocateQuota ns a s)"
| deallocate: "quota_step val approx s (QDeallocate ns a) (DeallocateQuota ns a s)"
| event: "quota_informer ev s = Inr s' \<Longrightarrow> quota_step val approx s (QEvent ev) s'"
| sync: "quota_step val approx s (QSync ok) (snd (SyncQuotasToK8s val approx ok s))"

inductive_cases quota_stepE: "quota_step val approx s op s'"

inductive quota_reachable :: "(quantity \<Rightarrow> int) \<Rightarrow> (quantity \<Rightarrow> float64) \<Rightarrow> quota_store \<Rightarrow> bool"
  for val approx where
  start: "quota_reachable val approx NewQuotaStore"
| step: "quota_reachable val approx s \<Longrightarrow> quota_step val approx s op s' \<Longrightarrow> quota_reachable val approx s'"

definition entries_ok :: "(string, quota_entry) gomap \<Rightarrow> bool" where
  "entries_ok m \<longleftrightarrow> distinct (map fst m) \<and> (\<forall>p \<in> set m. usage_ok (qe_CurrentUsage (snd p)))"

definition quota_inv :: "quota_store \<Rightarrow> bool" where
  "quota_inv s \<longleftrightarrow> entries_ok (QuotaStore s) \<and> distinct (dirtyQuotas s)"

lemma entries_ok_usage: "entries_ok m \<Longrightarrow> map_of m ns = Some e \<Longrightarrow> usage_ok (qe_CurrentUsage e)"
  by (force simp: entries_ok_def dest: map_of_SomeD)

lemma entries_ok_update:
  "entries_ok m \<Longrightarrow> usage_ok (qe_CurrentUsage e) \<Longrightarrow> entries_ok (AList.update k e m)"
proof -
  have "p \<in> set (AList.update k e m) \<Longrightarrow> p = (k, e) \<or> p \<in> set m" for p
    by (induction m) (auto split: if_splits)
  then show "entries_ok m \<Longrightarrow> usage_ok (qe_CurrentUsage e) \<Longrightarrow> entries_ok (AList.update k e m)"
    unfolding entries_ok_def by (metis distinct_update snd_conv)
qed

lemma entries_ok_zeroed:
  "entries_ok m \<Longrightarrow> entries_ok (map (\<lambda>(ns, e). (ns, e\<lparr>qe_CurrentUsage := CreateZeroUsage\<rparr>)) m)"
  by (auto simp: entries_ok_def comp_def case_prod_unfold)

lemma quota_inv_apply_usage:
  assumes "quota_inv s" "b \<Longrightarrow> alloc_ok a"
  shows "quota_inv (apply_usage_at ns a b s)"
proof (cases "map_of (QuotaStore s) ns")
  case None
  then show ?thesis using assms(1) by (simp add: apply_usage_at_def)
next
  case (Some e)
  then have "usage_ok (ApplyUsageOperation (qe_CurrentUsage e) a b)"
    using assms ApplyUsage_inc_ok ApplyUsage_dec_ok by (cases b) (auto simp: quota_inv_def dest: entries_ok_usage)
  then show ?thesis using assms(1) Some
    by (simp add: quota_inv_def apply_usage_at_def markQuotaDirty_def entries_ok_update)
qed

lemma init_quotas_inv: "init_quotas qs m = Inr m' \<Longrightarrow> entries_ok m \<Longrightarrow> entries_ok m'"
proof (induction qs m rule: init_quotas.induct)
  case (2 quota quotas m)
  then show ?case by (simp add: entries_ok_update split: sum.splits validation.splits)
qed simp

lemma apply_allocations_inv:
  "\<forall>a \<in> set as. alloc_ok a \<Longrightarrow> entries_ok m \<Longrightarrow> entries_ok (apply_allocations m as)"
proof (induction m as rule: apply_allocations.induct)
  case (2 m a as)
  show ?case
  proof (cases "map_of m (nn_Namespace (ar_Workload a))")
    case None
    then show ?thesis using 2 by (simp add: Let_def)
  next
    case (Some e)
    then have "usage_ok (ApplyUsageOperation (qe_CurrentUsage e) a True)"
      using "2.prems" by (auto intro: ApplyUsage_inc_ok dest: entries_ok_usage)
    then show ?thesis using 2 Some by (simp add: Let_def entries_ok_update)
  qed
qed simp

lemma quota_inv_reconcile:
  "quota_inv s \<Longrightarrow> \<forall>a \<in> set (map snd m). alloc_ok a \<Longrightarrow> quota_inv (ReconcileQuotaStore m s)"
  unfolding quota_inv_def ReconcileQuotaStore_def
  by (auto intro!: apply_allocations_inv entries_ok_zeroed)

lemma quota_inv_set_quota: "quota_inv s \<Longrightarrow> set_quota q s = Inr s' \<Longrightarrow> quota_inv s'"
  using entries_ok_usage [of "QuotaStore s" "grq_Namespace q"]
  by (auto simp: set_quota_def quota_inv_def intro!: entries_ok_update split: option.splits)

lemma quota_inv_delete: "quota_inv s \<Longrightarrow> quota_inv (handleGPUQuotaDelete q s)"
  by (auto simp: handleGPUQuotaDelete_def quota_inv_def entries_ok_def AList.delete_eq distinct_map_filter)

lemma quota_inv_informer: "quota_inv s \<Longrightarrow> quota_informer ev s = Inr s' \<Longrightarrow> quota_inv s'"
  by (induction ev s rule: quota_informer.induct)
    (auto simp: handleGPUQuotaCreate_def handleGPUQuotaUpdate_def quota_inv_set_quota quota_inv_delete)

section \<open>A sync round\<close>

definition still_dirty ::
  "(quantity \<Rightarrow> int) \<Rightarrow> (quantity \<Rightarrow> float64) \<Rightarrow> (string \<Rightarrow> quota_status \<Rightarrow> bool) \<Rightarrow> quota_store \<Rightarrow> string \<Rightarrow> bool" where
  "still_dirty val approx patchOk qs ns =
     (case map_of (QuotaStore qs) ns of None \<Rightarrow> True
      | Some e \<Rightarrow> \<not> patchOk ns (quota_status_patch val approx e))"

lemma sync_quotas_store [simp]: "QuotaStore (snd (sync_quotas val approx ok nss qs)) = QuotaStore qs"
  by (induction val approx ok nss qs rule: sync_quotas.induct)
    (simp_all add: clearQuotaDirty_def Let_def case_prod_unfold split: option.split)

lemma still_dirty_clear [simp]: "still_dirty val approx ok (clearQuotaDirty n qs) = still_dirty val approx ok qs"
  by (simp add: still_dirty_def clearQuotaDirty_def fun_eq_iff)

lemma sync_quotas_dirty:
  "dirtyQuotas (snd (sync_quotas val approx ok nss qs)) =
     filter (\<lambda>n. n \<in> set nss \<longrightarrow> still_dirty val approx ok qs n) (dirtyQuotas qs)"
proof (induction val approx ok nss qs rule: sync_quotas.induct)
  case (2 val approx ok ns nss qs)
  show ?case
  proof (cases "map_of (QuotaStore qs) ns")
    case None
    then have "still_dirty val approx ok qs ns" by (simp add: still_dirty_def)
    with None 2(1) show ?thesis by (auto intro!: filter_cong)
  next
    case (Some e)
    let ?st = "quota_status_patch val approx e"
    let ?qs = "if ok ns ?st then clearQuotaDirty ns qs else qs"
    have IH: "dirtyQuotas (snd (sync_quotas val approx ok nss ?qs))
        = filter (\<lambda>n. n \<in> set nss \<longrightarrow> still_dirty val approx ok qs n) (dirtyQuotas ?qs)"
      using 2(2) [OF Some refl refl] by (cases "ok ns ?st") auto
    have sd: "still_dirty val approx ok qs ns = (\<not> ok ns ?st)" using Some by (simp add: still_dirty_def)
    have "dirtyQuotas (snd (sync_quotas val approx ok (ns # nss) qs))
        = dirtyQuotas (snd (sync_quotas val approx ok nss ?qs))"
      using Some by (simp add: Let_def split: prod.split)
    also have "\<dots> = filter (\<lambda>n. n \<in> set (ns # nss) \<longrightarrow> still_dirty val approx ok qs n) (dirtyQuotas qs)"
      unfolding IH using sd
      by (auto simp: clearQuotaDirty_def removeAll_filter_not_eq intro!: filter_cong)
    finally show ?thesis .
  qed
qed simp

lemma quota_inv_sync: "quota_inv s \<Longrightarrow> quota_inv (snd (SyncQuotasToK8s val approx ok s))"
  by (simp add: quota_inv_def SyncQuotasToK8s_def sync_quotas_dirty)

lemma quota_inv_step: "quota_step val approx s op s' \<Longrightarrow> quota_inv s \<Longrightarrow> quota_inv s'"
proof (induction rule: quota_step.induct)
  case (init l s s')
  then show ?case using init_quotas_inv [of "the l" "[]"]
    by (auto simp: InitQuotaStore_def quota_inv_def entries_ok_def [of "[]"]
        split: option.splits list.splits sum.splits)
qed (auto simp: quota_inv_reconcile AllocateQuota_def DeallocateQuota_def quota_inv_apply_usage
    quota_inv_informer quota_inv_sync)

section \<open>Sample data\<close>

definition ex_resource :: "quantity \<Rightarrow> quantity \<Rightarrow> resource" where
  "ex_resource t v = \<lparr>Tflops = t, ComputePercent = 0, Vram = v\<rparr>"

definition ex_meta :: "string \<Rightarrow> object_meta" where
  "ex_meta name = \<lparr>om_Name = name, om_Namespace = ''ns'', om_UID = name, om_Labels = [],
     om_Annotations = [], om_Deleting = False, om_Finalizers = []\<rparr>"

definition ex_alloc :: "string \<Rightarrow> nat \<Rightarrow> alloc_request" where
  "ex_alloc name n = \<lparr>ar_PoolName = ''pool'', ar_Workload = \<lparr>nn_Name = ''wl'', nn_Namespace = ''ns''\<rparr>,
     ar_Request = ex_resource 2 4, ar_Limit = ex_resource 3 4, ar_GPUIndices = [], ar_Count = n,
     ar_GPUModel = '''', ar_GPUVendor = '''', ar_NodeAffinity = None, ar_GPUNames = [],
     ar_PodMeta = ex_meta name, ar_QoS = QoSMedium\<rparr>"

definition ex_quota :: gpu_resource_quota where
  "ex_quota = \<lparr>grq_Name = ''q'', grq_Namespace = ''ns'',
     grq_Total = \<lparr>qt_Requests = Some (ex_resource 10 20), qt_Limits = Some (ex_resource 20 20),
        qt_MaxWorkers = Some 3, qt_AlertThresholdPercent = Some 80\<rparr>,
     grq_Single = \<lparr>qs_MaxRequests = None, qs_MaxLimits = None, qs_MaxGPUCount = None,
        qs_DefaultRequests = None, qs_DefaultLimits = None\<rparr>,
     grq_Status = \<lparr>qst_Used = CreateZeroUsage,
        qst_AvailablePercent = \<lparr>ap_RequestsTFlops = '''', ap_RequestsVRAM = '''', ap_LimitsTFlops = '''',
          ap_LimitsVRAM = '''', ap_Workers = ''''\<rparr>, qst_Conditions = []\<rparr>\<rparr>"

definition ex_store :: quota_store where
  "ex_store = \<lparr>QuotaStore = [(''ns'', \<lparr>qe_Quota = ex_quota, qe_CurrentUsage = CreateZeroUsage\<rparr>)], dirtyQuotas = []\<rparr>"

definition ex_val :: "quantity \<Rightarrow> int" where
  "ex_val q = (if 0 \<le> q then \<lceil>q\<rceil> else \<lfloor>q\<rfloor>)"

lemmas ex_defs = ex_resource_def ex_meta_def ex_alloc_def ex_quota_def ex_store_def

lemma ex_alloc_ok [simp]: "n < 2 ^ 63 \<Longrightarrow> alloc_ok (ex_alloc m n)"
  by (simp add: alloc_ok_def ex_defs)

lemma ex_val_rounds [simp]: "value_rounds_up ex_val"
  by (simp add: value_rounds_up_def ex_val_def)

section \<open>Properties\<close>

text \<open>
  C3: Admission is sound. When \<^verbatim>\<open>CheckQuotaAvailable\<close> returns no error for a request whose
  namespace has a quota, then booking the request with \<^verbatim>\<open>AllocateQuota\<close> leaves the usage of that
  namespace within every total the quota sets (requests and limits, tflops and vram, each total
  rounded up to a whole unit, and the number of workers), provided the 64-bit sums of the check do
  not overflow.
\<close>
theorem quota_admission_sound:
  assumes "value_rounds_up val"
    and "map_of (QuotaStore qs) (nn_Namespace (ar_Workload a)) = Some e"
    and "CheckQuotaAvailable val qs a = None"
    and "usage_ok (qe_CurrentUsage e)" "alloc_ok a"
    and "sums_fit val (u_Requests (qe_CurrentUsage e)) (ar_Request a) (ar_Count a)"
    and "sums_fit val (u_Limits (qe_CurrentUsage e)) (ar_Limit a) (ar_Count a)"
    and "u_Workers (qe_CurrentUsage e) < 2 ^ 31 - 1"
  shows "\<exists>u. GetQuotaStatus (AllocateQuota (nn_Namespace (ar_Workload a)) a qs) (nn_Namespace (ar_Workload a)) = Some u
    \<and> within_total val (grq_Total (qe_Quota e)) u"
proof -
  have "checkTotalQuotas val e a None None = None"
    using assms(2,3) by (simp add: CheckQuotaAvailable_def split: option.splits)
  from checkTotalQuotas_admits [OF assms(1) this assms(4-8)] show ?thesis
    using assms(2) by (simp add: GetQuotaStatus_allocate) (simp add: GetQuotaStatus_def)
qed

theorem quota_admission_sound_witness:
  "CheckQuotaAvailable ex_val ex_store (ex_alloc ''p'' 2) = None
   \<and> (\<exists>u. GetQuotaStatus (AllocateQuota ''ns'' (ex_alloc ''p'' 2) ex_store) ''ns'' = Some u
      \<and> within_total ex_val (grq_Total ex_quota) u)"
proof -
  let ?e = "\<lparr>qe_Quota = ex_quota, qe_CurrentUsage = CreateZeroUsage\<rparr>"
  have chk: "CheckQuotaAvailable ex_val ex_store (ex_alloc ''p'' 2) = None"
    by (simp add: CheckQuotaAvailable_def checkSingleQuotas_def checkTotalQuotas_def relaxed_usage_def
        checkTotalExceeded_def ex_defs ex_val_def CreateZeroUsage_def zero_resource_def s64_def s32_def)
  show ?thesis
    using quota_admission_sound [of ex_val ex_store "ex_alloc ''p'' 2" ?e] chk
    by (simp add: ex_defs sums_fit_def ex_val_def CreateZeroUsage_def zero_resource_def
        usage_ok_def alloc_ok_def value_rounds_up_def)
qed

text \<open>
  Booking a request and releasing it again with \<^verbatim>\<open>AllocateQuota\<close> and
  \<^verbatim>\<open>DeallocateQuota\<close> restores the quota store exactly (the clamping at zero of
  \<^verbatim>\<open>SafeSub\<close> and the 32-bit worker counter included).
\<close>
theorem quota_alloc_dealloc_roundtrip:
  assumes "quota_inv qs" "alloc_ok a"
  shows "QuotaStore (DeallocateQuota ns a (AllocateQuota ns a qs)) = QuotaStore qs"
  using assms by (intro allocate_deallocate_store)
    (auto simp: GetQuotaStatus_def quota_inv_def dest: entries_ok_usage)

theorem quota_alloc_dealloc_roundtrip_witness:
  "QuotaStore (DeallocateQuota ''ns'' (ex_alloc ''p'' 2) (AllocateQuota ''ns'' (ex_alloc ''p'' 2) ex_store))
     = QuotaStore ex_store
   \<and> QuotaStore (AllocateQuota ''ns'' (ex_alloc ''p'' 2) ex_store) \<noteq> QuotaStore ex_store"
proof
  show "QuotaStore (DeallocateQuota ''ns'' (ex_alloc ''p'' 2) (AllocateQuota ''ns'' (ex_alloc ''p'' 2) ex_store))
     = QuotaStore ex_store"
    by (rule quota_alloc_dealloc_roundtrip) (simp_all add: quota_inv_def entries_ok_def ex_store_def)
  show "QuotaStore (AllocateQuota ''ns'' (ex_alloc ''p'' 2) ex_store) \<noteq> QuotaStore ex_store"
    by (simp add: AllocateQuota_def apply_usage_at_def markQuotaDirty_def ApplyUsageOperation_def
        IncreaseUsage_def ex_defs CreateZeroUsage_def s32_def Let_def)
qed

text \<open>
  C7: Incremental accounting agrees with a rebuild. From a store rebuilt by
  \<^verbatim>\<open>ReconcileQuotaStore\<close> out of a set of allocations, releasing one of them with
  \<^verbatim>\<open>DeallocateQuota\<close> gives, for every namespace, the usage a rebuild without that allocation
  gives; and the rebuild does not depend on the order in which the allocation map is iterated.
\<close>
theorem quota_incremental_refines_rebuild:
  assumes "distinct (map fst allocs)" "map_of allocs k = Some a" "\<forall>b \<in> set (map snd allocs). alloc_ok b"
  shows "GetQuotaStatus (DeallocateQuota (nn_Namespace (ar_Workload a)) a (ReconcileQuotaStore allocs qs)) n
       = GetQuotaStatus (ReconcileQuotaStore (AList.delete k allocs) qs) n
    \<and> (mset allocs = mset allocs' \<longrightarrow>
       GetQuotaStatus (ReconcileQuotaStore allocs qs) n = GetQuotaStatus (ReconcileQuotaStore allocs' qs) n)"
  using rebuild_deallocate [OF assms] rebuild_order [of allocs allocs'] by blast

theorem quota_incremental_refines_rebuild_witness:
  "GetQuotaStatus (DeallocateQuota ''ns'' (ex_alloc ''p'' 2)
       (ReconcileQuotaStore [(''p'', ex_alloc ''p'' 2), (''q'', ex_alloc ''q'' 1)] ex_store)) ''ns''
     = GetQuotaStatus (ReconcileQuotaStore [(''q'', ex_alloc ''q'' 1)] ex_store) ''ns''
   \<and> GetQuotaStatus (ReconcileQuotaStore [(''p'', ex_alloc ''p'' 2), (''q'', ex_alloc ''q'' 1)] ex_store) ''ns''
     = GetQuotaStatus (ReconcileQuotaStore [(''q'', ex_alloc ''q'' 1), (''p'', ex_alloc ''p'' 2)] ex_store) ''ns''"
proof -
  have "nn_Namespace (ar_Workload (ex_alloc ''p'' 2)) = ''ns''" by (simp add: ex_alloc_def)
  then show ?thesis
    using quota_incremental_refines_rebuild
      [of "[(''p'', ex_alloc ''p'' 2), (''q'', ex_alloc ''q'' 1)]" "''p''" "ex_alloc ''p'' 2" ex_store "''ns''"
          "[(''q'', ex_alloc ''q'' 1), (''p'', ex_alloc ''p'' 2)]"]
    by simp
qed



text \<open>
  One round of \<^verbatim>\<open>SyncQuotasToK8s\<close> does not change the quota entries and leaves dirty
  exactly the namespaces that have no entry any more or whose status patch the API server refused.
\<close>
theorem quota_sync_leaves_failed_dirty:
  "QuotaStore (snd (SyncQuotasToK8s val approx patchOk qs)) = QuotaStore qs
   \<and> dirtyQuotas (snd (SyncQuotasToK8s val approx patchOk qs)) =
       filter (\<lambda>ns. case map_of (QuotaStore qs) ns of None \<Rightarrow> True
                    | Some e \<Rightarrow> \<not> patchOk ns (quota_status_patch val approx e)) (dirtyQuotas qs)"
  by (auto simp: SyncQuotasToK8s_def sync_quotas_dirty still_dirty_def intro!: filter_cong)

text \<open>
  The alert condition does not depend on the usage. The percentage that
  \<^verbatim>\<open>CalculateAvailablePercent\<close> prints has two decimals, which the integer parser of
  \<^verbatim>\<open>IsAlertThresholdReached\<close> rejects and the code then reads as 0; so with a positive tflops
  total and a threshold from 0 to 99 every status patch reports \<^verbatim>\<open>AlertThresholdReached\<close>,
  or no condition at all.
\<close>
theorem quota_alert_always_reached:
  assumes "qt_Requests (grq_Total (qe_Quota e)) = Some r" and "0 < val (Tflops r)"
    and "qt_AlertThresholdPercent (grq_Total (qe_Quota e)) = Some t" and "0 \<le> t" "t < 100"
  shows "IsAlertThresholdReached (ap_RequestsTFlops (qst_AvailablePercent (quota_status_patch val approx e))) t
    \<and> (\<forall>c \<in> set (qst_Conditions (quota_status_patch val approx e)). cond_Reason c = ''AlertThresholdReached'')"
proof -
  let ?p = "CalculateAvailablePercent val approx (Some (qe_Quota e)) (Some (qe_CurrentUsage e))"
  have "ap_RequestsTFlops ?p = calculateResourcePercent val approx (Tflops r) (Tflops (u_Requests (qe_CurrentUsage e)))"
    using assms(1) by (simp add: CalculateAvailablePercent_def Let_def split: option.split)
  then obtain x where x: "ap_RequestsTFlops ?p = FormatFloat2 x"
    using assms(2) by (simp add: calculateResourcePercent_def Let_def)
  have "IsAlertThresholdReached (FormatFloat2 x) t"
    using assms(4,5) by (simp add: IsAlertThresholdReached_def ParseInt_FormatFloat2 s32_id)
  then show ?thesis using x assms(3)
    by (auto simp: quota_status_patch_def CalculateConditions_def Let_def split: option.splits if_splits)
qed

theorem quota_alert_always_reached_witness:
  "IsAlertThresholdReached (ap_RequestsTFlops (qst_AvailablePercent
     (quota_status_patch ex_val (\<lambda>q. fl64 q) \<lparr>qe_Quota = ex_quota, qe_CurrentUsage = CreateZeroUsage\<rparr>))) 80"
  using quota_alert_always_reached
    [of "\<lparr>qe_Quota = ex_quota, qe_CurrentUsage = CreateZeroUsage\<rparr>" "ex_resource 10 20" ex_val 80 fl64]
  by (simp add: ex_defs ex_val_def)

end
