(* ===== verification/ResourceUtils.thy ===== *)
theory ResourceUtils
  imports ApiTypes GoStrings "HOL-Library.Multiset"
begin

text \<open>
  The record \<open>ext\<close> collects the code the control plane calls but does not contain: the rounding
  conversions of \<^verbatim>\<open>resource.Quantity\<close>, the processor's conversion of a float that does not
  fit \<^verbatim>\<open>int64\<close>, the API server's answer to a node lookup, the Kubernetes node-selector matcher,
  the process environment, and the choices Go leaves open (the order of a \<^verbatim>\<open>range\<close> over a map
  built during a call, the order of equal elements in \<^verbatim>\<open>sort.Slice\<close>). Definitions take it as
  their first argument. The second part translates \<open>internal/utils/resource.go\<close> and
  \<^verbatim>\<open>GetGPUResource\<close> of \<open>internal/utils/config.go\<close>.
\<close>

section \<open>The environment\<close>

datatype 'a get_result = Found 'a | NotFound | GetFailed

type_synonym k8s_node = object_meta

record ext =
  x_val :: "quantity \<Rightarrow> int"
  x_approx :: "quantity \<Rightarrow> float64"
  x_impl :: "float64 \<Rightarrow> int"
  x_parse :: "string \<Rightarrow> quantity option"
  x_getNode :: "string \<Rightarrow> k8s_node get_result"
  x_match :: "k8s_node \<Rightarrow> node_selector \<Rightarrow> bool option"  \<comment> \<open>\<open>None\<close>: the matcher returns an error\<close>
  x_getPool :: "string \<Rightarrow> string option get_result"  \<comment> \<open>a pool, by its scheduling template name\<close>
  x_getTemplate :: "string \<Rightarrow> string get_result"  \<comment> \<open>a scheduling template, by its placement mode\<close>
  x_progressive :: bool  \<comment> \<open>\<^verbatim>\<open>IsProgressiveMigration\<close>\<close>
  x_rank :: "string \<Rightarrow> nat"
  x_tie :: "gpu \<times> int \<Rightarrow> nat"

text \<open>
  The keys of a map in the order a \<^verbatim>\<open>range\<close> visits them, and the order in which
  \<^verbatim>\<open>sort.Slice\<close> meets elements that compare equal: sorting by an arbitrary rank yields any
  permutation.
\<close>

definition range_keys :: "ext \<Rightarrow> string list \<Rightarrow> string list" where
  "range_keys x ks = sort_key (x_rank x) ks"

definition sort_Slice_desc :: "ext \<Rightarrow> (gpu \<times> int) list \<Rightarrow> (gpu \<times> int) list" where
  "sort_Slice_desc x ss = sort_key (\<lambda>p. - snd p) (sort_key (x_tie x) ss)"

section \<open>Annotations\<close>

definition TFLOPSRequestAnnotation :: string where
  "TFLOPSRequestAnnotation = ''tensor-fusion.ai/tflops-request''"

definition VRAMRequestAnnotation :: string where
  "VRAMRequestAnnotation = ''tensor-fusion.ai/vram-request''"

definition TFLOPSLimitAnnotation :: string where
  "TFLOPSLimitAnnotation = ''tensor-fusion.ai/tflops-limit''"

definition VRAMLimitAnnotation :: string where
  "VRAMLimitAnnotation = ''tensor-fusion.ai/vram-limit''"

definition ComputeRequestAnnotation :: string where
  "ComputeRequestAnnotation = ''tensor-fusion.ai/compute-percent-request''"

definition ComputeLimitAnnotation :: string where
  "ComputeLimitAnnotation = ''tensor-fusion.ai/compute-percent-limit''"

lemmas annotation_defs = TFLOPSRequestAnnotation_def VRAMRequestAnnotation_def TFLOPSLimitAnnotation_def
  VRAMLimitAnnotation_def ComputeRequestAnnotation_def ComputeLimitAnnotation_def

datatype annotation_error = MissingAnnotation string | ParseFailed string | MutuallyExclusive

definition read_quantity ::
  "(string \<Rightarrow> quantity option) \<Rightarrow> (string, string) gomap \<Rightarrow> string \<Rightarrow> annotation_error + quantity" where
  "read_quantity parse ann key =
     (case map_of ann key of None \<Rightarrow> Inl (MissingAnnotation key)
      | Some s \<Rightarrow> (case parse s of None \<Rightarrow> Inl (ParseFailed key) | Some q \<Rightarrow> Inr q))"

definition GPUResourcesFromAnnotations ::
  "(string \<Rightarrow> quantity option) \<Rightarrow> (string, string) gomap \<Rightarrow> annotation_error + resources" where
  "GPUResourcesFromAnnotations parse ann =
     (case read_quantity parse ann TFLOPSRequestAnnotation of Inl e \<Rightarrow> Inl e
      | Inr rt \<Rightarrow> (case read_quantity parse ann TFLOPSLimitAnnotation of Inl e \<Rightarrow> Inl e
      | Inr lt \<Rightarrow> (case read_quantity parse ann VRAMRequestAnnotation of Inl e \<Rightarrow> Inl e
      | Inr rv \<Rightarrow> (case read_quantity parse ann VRAMLimitAnnotation of Inl e \<Rightarrow> Inl e
      | Inr lv \<Rightarrow> Inr \<lparr>Requests = \<lparr>Tflops = rt, ComputePercent = 0, Vram = rv\<rparr>,
                       Limits = \<lparr>Tflops = lt, ComputePercent = 0, Vram = lv\<rparr>\<rparr>))))"

definition GPUResourcesToAnnotations :: "(quantity \<Rightarrow> string) \<Rightarrow> resources \<Rightarrow> (string, string) gomap" where
  "GPUResourcesToAnnotations print r =
     [(TFLOPSRequestAnnotation, print (Tflops (Requests r))),
      (TFLOPSLimitAnnotation, print (Tflops (Limits r))),
      (VRAMRequestAnnotation, print (Vram (Requests r))),
      (VRAMLimitAnnotation, print (Vram (Limits r)))]"

definition ComputePercentToTflops :: "ext \<Rightarrow> quantity \<Rightarrow> resource \<Rightarrow> quantity" where
  "ComputePercentToTflops x gpuCapacity gpuResRequest =
     of_int (f64_to_int64 (x_impl x)
       (f64_div (f64_mul (x_approx x (ComputePercent gpuResRequest)) (x_approx x gpuCapacity)) (Fin 100)))"

text \<open>The second result is always false.\<close>

definition ParseIndicesAnnotation :: "string \<Rightarrow> int list \<times> bool" where
  "ParseIndicesAnnotation s =
     (if s = '''' then ([], False)
      else (map (\<lambda>index. let (i, err) = Atoi (TrimSpace index)
                         in if err then 0
                            else if i < - (2 ^ 31) \<or> 2 ^ 31 - 1 < i then 0
                            else s32 i) (split_on (CHR '','') s), False))"

definition GetGPUResource :: "(string \<Rightarrow> quantity option) \<Rightarrow> pod \<Rightarrow> bool \<Rightarrow> annotation_error + resource" where
  "GetGPUResource parse p isRequest =
     (let ann = om_Annotations (pod_Meta p);
          tflopsKey = (if isRequest then TFLOPSRequestAnnotation else TFLOPSLimitAnnotation);
          vramKey = (if isRequest then VRAMRequestAnnotation else VRAMLimitAnnotation);
          computePercentKey = (if isRequest then ComputeRequestAnnotation else ComputeLimitAnnotation);
          tflops = parse (get_str ann tflopsKey);
          computePercent = parse (get_str ann computePercentKey);
          vram = parse (get_str ann vramKey);
          q0 = (\<lambda>q. case q of None \<Rightarrow> 0 | Some v \<Rightarrow> v)
      in if tflops \<noteq> None \<and> computePercent \<noteq> None then Inl MutuallyExclusive
         else Inr \<lparr>Tflops = q0 tflops, ComputePercent = q0 computePercent, Vram = q0 vram\<rparr>)"

section \<open>Round trips\<close>

lemma annotations_roundtrip:
  assumes "\<And>q. parse (print q) = Some q"
  shows "\<exists>r'. GPUResourcesFromAnnotations parse (GPUResourcesToAnnotations print r) = Inr r'
    \<and> Resources_Equal r (Some r')"
  using assms
  by (simp add: GPUResourcesFromAnnotations_def GPUResourcesToAnnotations_def read_quantity_def
      annotation_defs Resources_Equal_def)

lemma TrimSpace_digits: "\<forall>c \<in> set s. \<not> is_space c \<Longrightarrow> TrimSpace s = s"
proof -
  have dw: "\<forall>c \<in> set t. \<not> is_space c \<Longrightarrow> dropWhile is_space t = t" for t by (cases t) auto
  assume "\<forall>c \<in> set s. \<not> is_space c"
  then show "TrimSpace s = s" using dw [of s] dw [of "rev s"] by (simp add: TrimSpace_def)
qed

lemma show_int_chars: "c \<in> set (show_int n) \<Longrightarrow> is_digit c \<or> c = CHR ''-''"
  by (auto simp: show_int_def split: if_splits dest: show_nat_digits)

lemma show_int_no_sep: "CHR '','' \<notin> set (show_int n)"
  using show_int_chars [of "CHR '',''" n] by (auto simp: is_digit_def)

lemma show_int_no_space: "\<forall>c \<in> set (show_int n). \<not> is_space c"
  using show_int_chars by (fastforce simp: is_digit_def is_space_def)

lemma show_int_not_Nil: "show_int n \<noteq> []"
  by (simp add: show_int_def show_nat_not_Nil)

text \<open>A printed, comma-separated list of 32-bit indices is read back unchanged.\<close>

lemma ParseIndices_join:
  assumes "is \<noteq> []" "\<forall>i \<in> set is. - (2 ^ 31) \<le> i \<and> i < 2 ^ 31"
  shows "ParseIndicesAnnotation (join_with '','' (map show_int is)) = (is, False)"
proof -
  have sp: "split_on (CHR '','') (join_with '','' (map show_int is)) = map show_int is"
    using assms(1) show_int_no_sep by (intro split_join) auto
  have ne: "join_with '','' (map show_int is) \<noteq> []"
    using assms(1) show_int_not_Nil by (cases "is" rule: remdups_adj.cases) auto
  have "(let (i, err) = Atoi (TrimSpace (show_int i))
         in if err then 0 else if i < - (2 ^ 31) \<or> 2 ^ 31 - 1 < i then 0 else s32 i) = i"
    if "i \<in> set is" for i
    using that assms(2) by (auto simp: TrimSpace_digits show_int_no_space Atoi_show_int s32_id)
  then show ?thesis unfolding ParseIndicesAnnotation_def sp using ne
    by (simp add: comp_def map_idI)
qed

end
