(* ===== verification/Filters.thy ===== *)
theory Filters
  imports ResourceUtils
begin

text \<open>
  \<^verbatim>\<open>internal/gpuallocator/filter\<close>: the five GPU filters and the filter registry. The interface
  \<^verbatim>\<open>GPUFilter\<close> is the datatype \<open>gpu_filter\<close> with one constructor per implementation;
  \<open>Filter_run\<close> dispatches to the \<^verbatim>\<open>Filter\<close> method. A registry is a chain of parents. The
  locale \<open>filter_chain\<close> is the contract a chain of filters relies on; it is interpreted on the
  filters of the code at the end.
\<close>

section \<open>The filters\<close>

datatype filter_error =
    NoNodeWithEnoughGPUs nat
  | GetNodeFailed string
  | MatchFailed
  | NilCapacity  \<comment> \<open>nil-pointer dereference of \<^verbatim>\<open>gpu.Status.Capacity\<close>\<close>

text \<open>\<open>lo.Filter\<close> with a predicate that may panic.\<close>

fun filter_err :: "('a \<Rightarrow> 'e + bool) \<Rightarrow> 'a list \<Rightarrow> 'e + 'a list" where
  "filter_err P [] = Inr []"
| "filter_err P (a # as) =
     (case P a of Inl e \<Rightarrow> Inl e
      | Inr b \<Rightarrow> (case filter_err P as of Inl e \<Rightarrow> Inl e
                 | Inr bs \<Rightarrow> Inr (if b then a # bs else bs)))"

definition PhaseFilter_Filter :: "ext \<Rightarrow> string list \<Rightarrow> gpu list \<Rightarrow> gpu list" where
  "PhaseFilter_Filter x allowedPhases gpus =
     filter (\<lambda>g. if x_progressive x \<and> gpu_UsedBy g \<noteq> UsedByTensorFusion then False
                 else gpu_Phase g \<in> set allowedPhases) gpus"

definition has_resource :: "ext \<Rightarrow> resource \<Rightarrow> int list \<Rightarrow> gpu \<Rightarrow> filter_error + bool" where
  "has_resource x req requiredIndices g =
     (case gpu_Available g of None \<Rightarrow> Inr False
      | Some av \<Rightarrow>
          if requiredIndices \<noteq> [] \<and> (case gpu_Index g of None \<Rightarrow> False | Some i \<Rightarrow> i \<notin> set requiredIndices)
          then Inr False
          else let hasVram = Vram req \<le> Vram av in
            if ComputePercent req \<noteq> 0
            then (case gpu_Capacity g of None \<Rightarrow> Inl NilCapacity
                  | Some cap \<Rightarrow> Inr (ComputePercentToTflops x (Tflops cap) req \<le> Tflops av \<and> hasVram))
            else Inr (Tflops req \<le> Tflops av \<and> hasVram))"

definition ResourceFilter_Filter :: "ext \<Rightarrow> resource \<Rightarrow> int list \<Rightarrow> gpu list \<Rightarrow> filter_error + gpu list" where
  "ResourceFilter_Filter x req requiredIndices gpus = filter_err (has_resource x req requiredIndices) gpus"

definition GPUModelAndVendorFilter_Filter :: "string \<Rightarrow> string \<Rightarrow> gpu list \<Rightarrow> gpu list" where
  "GPUModelAndVendorFilter_Filter requiredModel requiredVendor gpus =
     (if requiredModel = '''' \<and> requiredVendor = '''' then gpus
      else (if requiredModel \<noteq> '''' then filter (\<lambda>g. gpu_GPUModel g = requiredModel) gpus else [])
         @ (if requiredVendor \<noteq> '''' then filter (\<lambda>g. gpu_Vendor g = requiredVendor) gpus else []))"

definition gpus_by_node :: "gpu list \<Rightarrow> string \<Rightarrow> gpu list" where
  "gpus_by_node gpus n = filter (\<lambda>g. map_of (gpu_NodeSelector g) KubernetesHostNameLabel = Some n) gpus"

definition node_names :: "gpu list \<Rightarrow> string list" where
  "node_names gpus = remdups (List.map_filter (\<lambda>g. map_of (gpu_NodeSelector g) KubernetesHostNameLabel) gpus)"

definition SameNodeFilter_Filter :: "ext \<Rightarrow> nat \<Rightarrow> gpu list \<Rightarrow> filter_error + gpu list" where
  "SameNodeFilter_Filter x cnt gpus =
     (if cnt \<le> 1 then Inr gpus
      else let result = concat (map (\<lambda>n. if cnt \<le> length (gpus_by_node gpus n) then gpus_by_node gpus n else [])
                                 (range_keys x (node_names gpus)))
           in if result = [] then Inl (NoNodeWithEnoughGPUs cnt) else Inr result)"

text \<open>The node a GPU belongs to, by its owner label: \<open>Inr None\<close> when the GPU is skipped.\<close>

definition owner_node :: "ext \<Rightarrow> gpu \<Rightarrow> filter_error + k8s_node option" where
  "owner_node x g =
     (case map_of (gpu_Labels g) LabelKeyOwner of None \<Rightarrow> Inr None
      | Some nodeName \<Rightarrow>
          (case x_getNode x nodeName of
             NotFound \<Rightarrow> Inr None
           | GetFailed \<Rightarrow> Inl (GetNodeFailed nodeName)
           | Found node \<Rightarrow> Inr (Some node)))"

definition required_match :: "ext \<Rightarrow> node_selector \<Rightarrow> gpu \<Rightarrow> filter_error + bool" where
  "required_match x sel g =
     (case owner_node x g of Inl e \<Rightarrow> Inl e
      | Inr None \<Rightarrow> Inr False
      | Inr (Some node) \<Rightarrow> (case x_match x node sel of None \<Rightarrow> Inl MatchFailed | Some b \<Rightarrow> Inr b))"

definition filterRequired :: "ext \<Rightarrow> node_selector \<Rightarrow> gpu list \<Rightarrow> filter_error + gpu list" where
  "filterRequired x sel gpus = filter_err (required_match x sel) gpus"

fun preferred_score :: "ext \<Rightarrow> k8s_node \<Rightarrow> (int \<times> node_selector) list \<Rightarrow> int \<Rightarrow> filter_error + int" where
  "preferred_score x node [] acc = Inr acc"
| "preferred_score x node ((weight, term) # ts) acc =
     (case x_match x node term of None \<Rightarrow> Inl MatchFailed
      | Some b \<Rightarrow> preferred_score x node ts (if b then s32 (acc + weight) else acc))"

fun gpu_scores :: "ext \<Rightarrow> (int \<times> node_selector) list \<Rightarrow> gpu list \<Rightarrow> filter_error + (gpu \<times> int) list" where
  "gpu_scores x preferred [] = Inr []"
| "gpu_scores x preferred (g # gs) =
     (case owner_node x g of Inl e \<Rightarrow> Inl e
      | Inr None \<Rightarrow> gpu_scores x preferred gs
      | Inr (Some node) \<Rightarrow>
          (case preferred_score x node preferred 0 of Inl e \<Rightarrow> Inl e
           | Inr s \<Rightarrow> (case gpu_scores x preferred gs of Inl e \<Rightarrow> Inl e
                      | Inr ss \<Rightarrow> Inr ((g, s) # ss))))"

definition filterPreferred :: "ext \<Rightarrow> (int \<times> node_selector) list \<Rightarrow> gpu list \<Rightarrow> filter_error + gpu list" where
  "filterPreferred x preferred gpus =
     (case gpu_scores x preferred gpus of Inl e \<Rightarrow> Inl e
      | Inr ss \<Rightarrow> Inr (map fst (sort_Slice_desc x ss)))"

definition NodeAffinityFilter_Filter ::
  "ext \<Rightarrow> node_selector option \<Rightarrow> (int \<times> node_selector) list \<Rightarrow> gpu list \<Rightarrow> filter_error + gpu list" where
  "NodeAffinityFilter_Filter x nodeSelector preferred gpus =
     (if nodeSelector = None \<and> preferred = [] then Inr gpus
      else case (case nodeSelector of None \<Rightarrow> Inr gpus | Some sel \<Rightarrow> filterRequired x sel gpus) of
             Inl e \<Rightarrow> Inl e
           | Inr gs \<Rightarrow> if preferred \<noteq> [] then filterPreferred x preferred gs else Inr gs)"

datatype gpu_filter =
    PhaseFilter "string list"
  | ResourceFilter resource "int list"
  | GPUModelAndVendorFilter string string
  | SameNodeFilter nat
  | NodeAffinityFilter "node_selector option" "(int \<times> node_selector) list"

fun filter_Name :: "gpu_filter \<Rightarrow> string" where
  "filter_Name (PhaseFilter _) = ''PhaseFilter''"
| "filter_Name (ResourceFilter _ _) = ''GPUResourceFilter''"
| "filter_Name (GPUModelAndVendorFilter _ _) = ''GPUModelAndVendorFilter''"
| "filter_Name (SameNodeFilter _) = ''SameNodeFilter''"
| "filter_Name (NodeAffinityFilter _ _) = ''NodeAffinityFilter''"

fun Filter_run :: "ext \<Rightarrow> gpu_filter \<Rightarrow> gpu list \<Rightarrow> filter_error + gpu list" where
  "Filter_run x (PhaseFilter ps) gpus = Inr (PhaseFilter_Filter x ps gpus)"
| "Filter_run x (ResourceFilter r is) gpus = ResourceFilter_Filter x r is gpus"
| "Filter_run x (GPUModelAndVendorFilter m v) gpus = Inr (GPUModelAndVendorFilter_Filter m v gpus)"
| "Filter_run x (SameNodeFilter n) gpus = SameNodeFilter_Filter x n gpus"
| "Filter_run x (NodeAffinityFilter sel pref) gpus = NodeAffinityFilter_Filter x sel pref gpus"

section \<open>The registry\<close>

record filter_detail =
  fd_FilterName :: string
  fd_Before :: "string list"
  fd_After :: "string list"
  fd_Diff :: int

datatype filter_registry = FilterRegistry "filter_registry option" "gpu_filter list"

definition NewFilterRegistry :: filter_registry where
  "NewFilterRegistry = FilterRegistry None []"

definition With :: "filter_registry \<Rightarrow> gpu_filter list \<Rightarrow> filter_registry" where
  "With fr filters = (if filters = [] then fr else FilterRegistry (Some fr) filters)"

text \<open>The loop over the filters of one level, with its early return on an empty list.\<close>

fun apply_level ::
  "ext \<Rightarrow> bool \<Rightarrow> gpu_filter list \<Rightarrow> gpu list \<Rightarrow> filter_detail list
   \<Rightarrow> filter_error + (gpu list \<times> filter_detail list)" where
  "apply_level x sim [] gpus ds = Inr (gpus, ds)"
| "apply_level x sim (f # fs) gpus ds =
     (case Filter_run x f gpus of Inl e \<Rightarrow> Inl e
      | Inr after \<Rightarrow>
          let ds' = (if sim then ds @ [\<lparr>fd_FilterName = filter_Name f, fd_Before = map gpu_Name gpus,
                       fd_After = map gpu_Name after, fd_Diff = int (length gpus) - int (length after)\<rparr>] else ds)
          in if after = [] then Inr ([], ds') else apply_level x sim fs after ds')"

fun Registry_Apply ::
  "ext \<Rightarrow> filter_registry \<Rightarrow> gpu list \<Rightarrow> bool \<Rightarrow> filter_error + (gpu list \<times> filter_detail list)" where
  "Registry_Apply x (FilterRegistry parent filters) gpus sim =
     (if gpus = [] then Inr ([], [])
      else case (case parent of None \<Rightarrow> Inr (gpus, []) | Some p \<Rightarrow> Registry_Apply x p gpus sim) of
             Inl e \<Rightarrow> Inl e
           | Inr (gs, ds) \<Rightarrow> if gs = [] then Inr ([], ds) else apply_level x sim filters gs ds)"

text \<open>The filters of a registry in the order they are applied.\<close>

fun registry_filters :: "filter_registry \<Rightarrow> gpu_filter list" where
  "registry_filters (FilterRegistry parent filters) =
     (case parent of None \<Rightarrow> [] | Some p \<Rightarrow> registry_filters p) @ filters"

section \<open>The contract of a chain of filters\<close>

fun run_chain :: "('f \<Rightarrow> 'g list \<Rightarrow> 'e + 'g list) \<Rightarrow> 'f list \<Rightarrow> 'g list \<Rightarrow> 'e + 'g list" where
  "run_chain run [] gs = Inr gs"
| "run_chain run (f # fs) gs =
     (if gs = [] then Inr []
      else case run f gs of Inl e \<Rightarrow> Inl e | Inr hs \<Rightarrow> run_chain run fs hs)"

text \<open>
  \<open>ok f\<close> is what a filter promises of each element it lets through; a filter with \<open>pointwise f\<close>
  lets every such element through.
\<close>

locale filter_chain =
  fixes run :: "'f \<Rightarrow> 'g list \<Rightarrow> 'e + 'g list"
    and ok :: "'f \<Rightarrow> 'g \<Rightarrow> bool"
    and pointwise :: "'f \<Rightarrow> bool"
  assumes run_subset: "run f gs = Inr hs \<Longrightarrow> g \<in> set hs \<Longrightarrow> g \<in> set gs"
    and run_ok: "run f gs = Inr hs \<Longrightarrow> g \<in> set hs \<Longrightarrow> ok f g"
    and run_complete: "pointwise f \<Longrightarrow> run f gs = Inr hs \<Longrightarrow> g \<in> set gs \<Longrightarrow> ok f g \<Longrightarrow> g \<in> set hs"
begin

lemma chain_subset: "run_chain run fs gs = Inr hs \<Longrightarrow> g \<in> set hs \<Longrightarrow> g \<in> set gs"
  by (induction fs arbitrary: gs) (auto split: if_splits sum.splits dest: run_subset)

lemma chain_ok: "run_chain run fs gs = Inr hs \<Longrightarrow> g \<in> set hs \<Longrightarrow> f \<in> set fs \<Longrightarrow> ok f g"
proof (induction fs arbitrary: gs)
  case (Cons f' fs)
  from Cons.prems(1,2) obtain hs' where r: "run f' gs = Inr hs'" "run_chain run fs hs' = Inr hs"
    by (auto split: if_splits sum.splits)
  then have "g \<in> set hs'" using chain_subset Cons.prems(2) by blast
  then show ?case using Cons r run_ok by auto
qed simp

lemma chain_exact:
  "run_chain run fs gs = Inr hs \<Longrightarrow> \<forall>f \<in> set fs. pointwise f \<Longrightarrow>
   set hs = {g \<in> set gs. \<forall>f \<in> set fs. ok f g}"
proof (intro set_eqI iffI)
  fix g assume "run_chain run fs gs = Inr hs" "\<forall>f \<in> set fs. pointwise f" "g \<in> set hs"
  then show "g \<in> {g \<in> set gs. \<forall>f \<in> set fs. ok f g}" using chain_subset chain_ok by blast
next
  fix g
  show "run_chain run fs gs = Inr hs \<Longrightarrow> \<forall>f \<in> set fs. pointwise f \<Longrightarrow>
      g \<in> {g \<in> set gs. \<forall>f \<in> set fs. ok f g} \<Longrightarrow> g \<in> set hs"
    by (induction fs arbitrary: gs) (auto split: if_splits sum.splits dest: run_complete)
qed

end

section \<open>The filters of the code satisfy the contract\<close>

definition filter_ok :: "ext \<Rightarrow> gpu_filter \<Rightarrow> gpu \<Rightarrow> bool" where
  "filter_ok x f g = (case f of
       PhaseFilter ps \<Rightarrow> gpu_Phase g \<in> set ps \<and> (x_progressive x \<longrightarrow> gpu_UsedBy g = UsedByTensorFusion)
     | ResourceFilter r is \<Rightarrow>
         (\<exists>av. gpu_Available g = Some av \<and> Vram r \<le> Vram av
            \<and> (if ComputePercent r = 0 then Tflops r \<le> Tflops av
               else \<exists>cap. gpu_Capacity g = Some cap \<and> ComputePercentToTflops x (Tflops cap) r \<le> Tflops av))
         \<and> (is \<noteq> [] \<longrightarrow> (\<forall>i. gpu_Index g = Some i \<longrightarrow> i \<in> set is))
     | GPUModelAndVendorFilter m v \<Rightarrow>
         (m = '''' \<and> v = '''') \<or> (m \<noteq> '''' \<and> gpu_GPUModel g = m) \<or> (v \<noteq> '''' \<and> gpu_Vendor g = v)
     | SameNodeFilter n \<Rightarrow> n \<le> 1 \<or> map_of (gpu_NodeSelector g) KubernetesHostNameLabel \<noteq> None
     | NodeAffinityFilter sel pref \<Rightarrow>
         (\<forall>s. sel = Some s \<longrightarrow> required_match x s g = Inr True)
         \<and> (pref \<noteq> [] \<longrightarrow> (\<exists>node. owner_node x g = Inr (Some node))))"

fun pointwise_filter :: "gpu_filter \<Rightarrow> bool" where
  "pointwise_filter (SameNodeFilter n) = (n \<le> 1)"
| "pointwise_filter _ = True"

lemma filter_err_eq: "filter_err P as = Inr bs \<Longrightarrow> bs = filter (\<lambda>a. P a = Inr True) as"
proof (induction as arbitrary: bs)
  case (Cons a as)
  then show ?case by (cases "P a"; cases "filter_err P as") (auto split: if_splits)
qed simp

lemma filter_err_set: "filter_err P as = Inr bs \<Longrightarrow> set bs = {a \<in> set as. P a = Inr True}"
  using filter_err_eq [of P as bs] by simp

lemma gpu_scores_set:
  "gpu_scores x pref gs = Inr ss \<Longrightarrow> fst ` set ss = {g \<in> set gs. \<exists>node. owner_node x g = Inr (Some node)}"
proof (induction gs arbitrary: ss)
  case (Cons g gs)
  show ?case
  proof (cases "owner_node x g")
    case (Inr n)
    show ?thesis
    proof (cases n)
      case (Some node)
      then obtain s ss' where "gpu_scores x pref gs = Inr ss'" "ss = (g, s) # ss'"
        using Cons.prems Inr by (auto split: sum.splits)
      moreover have "{h \<in> set (g # gs). \<exists>node. owner_node x h = Inr (Some node)}
          = insert g {h \<in> set gs. \<exists>node. owner_node x h = Inr (Some node)}" using Inr Some by auto
      ultimately show ?thesis using Cons.IH by simp
    qed (use Cons Inr in auto)
  qed (use Cons.prems in auto)
qed simp

lemma has_resource_ok: "has_resource x r is g = Inr True \<longleftrightarrow> filter_ok x (ResourceFilter r is) g"
  by (cases "gpu_Available g"; cases "gpu_Capacity g"; cases "gpu_Index g")
    (simp_all add: has_resource_def filter_ok_def Let_def conj_comms)

lemma filterPreferred_set:
  "filterPreferred x pref gs = Inr hs \<Longrightarrow> set hs = {g \<in> set gs. \<exists>node. owner_node x g = Inr (Some node)}"
  using gpu_scores_set [of x pref gs]
  by (cases "gpu_scores x pref gs") (auto simp: filterPreferred_def sort_Slice_desc_def)

lemma NodeAffinity_set:
  assumes "NodeAffinityFilter_Filter x sel pref gs = Inr hs"
  shows "set hs = {g \<in> set gs. filter_ok x (NodeAffinityFilter sel pref) g}"
proof -
  obtain ms where ms: "(case sel of None \<Rightarrow> Inr gs | Some s \<Rightarrow> filterRequired x s gs) = Inr ms"
    and hs: "(if pref \<noteq> [] then filterPreferred x pref ms else Inr ms) = Inr hs"
    using assms by (cases "sel = None \<and> pref = []")
      (auto simp: NodeAffinityFilter_Filter_def split: sum.splits)
  have "set ms = {g \<in> set gs. \<forall>s. sel = Some s \<longrightarrow> required_match x s g = Inr True}"
  proof (cases sel)
    case (Some s)
    then have "filter_err (required_match x s) gs = Inr ms" using ms by (simp add: filterRequired_def)
    from filter_err_set [OF this] Some show ?thesis by simp
  qed (use ms in simp)
  moreover have "set hs = {g \<in> set ms. pref \<noteq> [] \<longrightarrow> (\<exists>node. owner_node x g = Inr (Some node))}"
    using hs filterPreferred_set [of x pref ms hs] by (cases "pref = []") simp_all
  ultimately show ?thesis by (auto simp: filter_ok_def)
qed

lemma concat_at:
  "distinct ks \<Longrightarrow> concat (map (\<lambda>k. if k = n then xs else []) ks) = (if n \<in> set ks then xs else [])"
  by (induction ks) auto

lemma in_node_names: "gpus_by_node gpus n \<noteq> [] \<Longrightarrow> n \<in> set (node_names gpus)"
  by (auto simp: gpus_by_node_def node_names_def filter_empty_conv map_filter_def)
    (metis (mono_tags, lifting) image_eqI mem_Collect_eq option.distinct(1) option.sel)

text \<open>For every node the multi-GPU filter keeps all of its candidates or none, by the required count.\<close>

lemma SameNode_by_node:
  assumes "2 \<le> cnt" "SameNodeFilter_Filter x cnt gpus = Inr hs"
  shows "gpus_by_node hs n = (if cnt \<le> length (gpus_by_node gpus n) then gpus_by_node gpus n else [])"
proof -
  let ?F = "\<lambda>k. if cnt \<le> length (gpus_by_node gpus k) then gpus_by_node gpus k else []"
  let ?ks = "range_keys x (node_names gpus)"
  have hs: "hs = concat (map ?F ?ks)"
    using assms by (auto simp: SameNodeFilter_Filter_def Let_def split: if_splits)
  have ks: "distinct ?ks" "set ?ks = set (node_names gpus)"
    by (simp_all add: range_keys_def node_names_def)
  have "gpus_by_node (?F k) n = (if k = n then ?F n else [])" for k
    by (auto simp: gpus_by_node_def filter_empty_conv intro: filter_True filter_False)
  then have "gpus_by_node hs n = concat (map (\<lambda>k. if k = n then ?F n else []) ?ks)"
    unfolding hs gpus_by_node_def [of "concat _"] filter_concat
    by (simp add: gpus_by_node_def [symmetric] comp_def cong: map_cong)
  also have "\<dots> = (if n \<in> set (node_names gpus) then ?F n else [])" using ks by (simp add: concat_at)
  also have "\<dots> = ?F n" using in_node_names [of gpus n] by (cases "gpus_by_node gpus n = []") simp_all
  finally show ?thesis .
qed

lemma SameNode_member:
  assumes "SameNodeFilter_Filter x cnt gpus = Inr hs" "g \<in> set hs"
  shows "g \<in> set gpus" and "filter_ok x (SameNodeFilter cnt) g"
  using assms
  by (auto simp: SameNodeFilter_Filter_def Let_def filter_ok_def gpus_by_node_def split: if_splits)

lemma NodeAffinity_member:
  "NodeAffinityFilter_Filter x sel pref gs = Inr hs \<Longrightarrow>
   g \<in> set hs \<longleftrightarrow> g \<in> set gs \<and> filter_ok x (NodeAffinityFilter sel pref) g"
  by (drule NodeAffinity_set) simp

lemma Resource_member:
  "ResourceFilter_Filter x r is gs = Inr hs \<Longrightarrow>
   g \<in> set hs \<longleftrightarrow> g \<in> set gs \<and> filter_ok x (ResourceFilter r is) g"
  by (simp add: ResourceFilter_Filter_def filter_err_set has_resource_ok)

lemma Phase_member:
  "g \<in> set (PhaseFilter_Filter x ps gs) \<longleftrightarrow> g \<in> set gs \<and> filter_ok x (PhaseFilter ps) g"
  by (auto simp: PhaseFilter_Filter_def filter_ok_def)

lemma ModelVendor_member:
  "g \<in> set (GPUModelAndVendorFilter_Filter m v gs) \<longleftrightarrow>
   g \<in> set gs \<and> filter_ok x (GPUModelAndVendorFilter m v) g"
  by (auto simp: GPUModelAndVendorFilter_Filter_def filter_ok_def)

lemma Filter_run_member:
  assumes "Filter_run x f gs = Inr hs" "pointwise_filter f"
  shows "g \<in> set hs \<longleftrightarrow> g \<in> set gs \<and> filter_ok x f g"
proof (cases f)
  case (SameNodeFilter n)
  then show ?thesis using assms by (auto simp: SameNodeFilter_Filter_def filter_ok_def)
qed (use assms in \<open>auto simp: Phase_member Resource_member ModelVendor_member [of _ _ _ _ x] NodeAffinity_member\<close>)

lemma Filter_run_sound:
  assumes "Filter_run x f gs = Inr hs" "g \<in> set hs"
  shows "g \<in> set gs \<and> filter_ok x f g"
proof (cases "pointwise_filter f")
  case True
  then show ?thesis using assms Filter_run_member by blast
next
  case False
  then obtain n where "f = SameNodeFilter n" by (cases f) auto
  then show ?thesis using assms SameNode_member by simp
qed

interpretation code_filters: filter_chain "Filter_run x" "filter_ok x" pointwise_filter for x
  by unfold_locales (use Filter_run_sound Filter_run_member in blast)+

section \<open>A registry runs its filters in order\<close>

definition passed :: "'e + ('g \<times> 'd) \<Rightarrow> 'e + 'g" where
  "passed r = (case r of Inl e \<Rightarrow> Inl e | Inr (gs, ds) \<Rightarrow> Inr gs)"

lemma passed_simps [simp]: "passed (Inl e) = Inl e" "passed (Inr (gs, ds)) = Inr gs"
  by (simp_all add: passed_def)

lemma apply_level_chain:
  "gpus \<noteq> [] \<Longrightarrow> passed (apply_level x sim fs gpus ds) = run_chain (Filter_run x) fs gpus"
proof (induction fs arbitrary: gpus ds)
  case (Cons f fs)
  have "run_chain (Filter_run x) fs [] = Inr []" by (cases fs) auto
  then show ?case using Cons by (auto simp: Let_def split: sum.splits)
qed simp

lemma run_chain_append:
  "run_chain run (fs @ fs') gs = (case run_chain run fs gs of Inl e \<Rightarrow> Inl e | Inr hs \<Rightarrow> run_chain run fs' hs)"
proof (induction fs arbitrary: gs)
  case (Cons f fs)
  have "run_chain run fs' [] = Inr []" by (cases fs') auto
  then show ?case using Cons by (auto split: sum.splits)
qed simp

lemma Registry_Apply_chain:
  "passed (Registry_Apply x fr gpus sim) = run_chain (Filter_run x) (registry_filters fr) gpus"
proof (induction x fr gpus sim rule: Registry_Apply.induct)
  case (1 x parent filters gpus sim)
  have nil: "run_chain (Filter_run x) fs [] = Inr []" for fs by (cases fs) auto
  show ?case
  proof (cases parent)
    case None
    then show ?thesis by (simp add: apply_level_chain nil)
  next
    case (Some p)
    show ?thesis
    proof (cases "gpus = []")
      case False
      from 1 [OF False Some] have IH: "passed (Registry_Apply x p gpus sim) =
          run_chain (Filter_run x) (registry_filters p) gpus" by simp
      show ?thesis
      proof (cases "Registry_Apply x p gpus sim")
        case (Inl e)
        then have "run_chain (Filter_run x) (registry_filters p) gpus = Inl e" using IH by simp
        then show ?thesis using Inl False Some by (simp add: run_chain_append)
      next
        case (Inr r)
        then obtain gs ds where r: "Registry_Apply x p gpus sim = Inr (gs, ds)" by (cases r) auto
        then have "run_chain (Filter_run x) (registry_filters p) gpus = Inr gs" using IH by simp
        then show ?thesis using r False Some
          by (simp add: run_chain_append apply_level_chain nil)
      qed
    qed (simp add: nil)
  qed
qed

text \<open>Each recorded step starts where the step before it ended.\<close>

fun details_link :: "string list \<Rightarrow> filter_detail list \<Rightarrow> string list \<Rightarrow> bool" where
  "details_link before [] after = (before = after)"
| "details_link before (d # ds) after =
     (fd_Before d = before \<and> fd_Diff d = int (length (fd_Before d)) - int (length (fd_After d))
      \<and> details_link (fd_After d) ds after)"

lemma details_link_append:
  "details_link a (ds @ es) c \<longleftrightarrow> (\<exists>b. details_link a ds b \<and> details_link b es c)"
  by (induction a ds c rule: details_link.induct) auto

lemma apply_level_details:
  "apply_level x True fs gpus ds = Inr (hs, ds') \<Longrightarrow> details_link names ds (map gpu_Name gpus)
   \<Longrightarrow> details_link names ds' (map gpu_Name hs)"
proof (induction fs arbitrary: gpus ds)
  case (Cons f fs)
  then show ?case
    by (auto simp: Let_def details_link_append split: sum.splits if_splits)
qed simp

lemma Registry_Apply_details:
  "Registry_Apply x fr gpus sim = Inr (hs, ds) \<Longrightarrow> sim \<Longrightarrow> details_link (map gpu_Name gpus) ds (map gpu_Name hs)"
proof (induction x fr gpus sim arbitrary: hs ds rule: Registry_Apply.induct)
  case (1 x parent filters gpus sim)
  show ?case
  proof (cases "gpus = []")
    case True
    then show ?thesis using 1 by simp
  next
    case False
    then obtain gs es where p: "(case parent of None \<Rightarrow> Inr (gpus, []) | Some p \<Rightarrow> Registry_Apply x p gpus sim) = Inr (gs, es)"
      and l: "(if gs = [] then Inr ([], es) else apply_level x sim filters gs es) = Inr (hs, ds)"
      using "1.prems"(1) by (auto split: sum.splits)
    have "details_link (map gpu_Name gpus) es (map gpu_Name gs)"
      using p 1(1) [OF False] "1.prems"(2) by (cases parent) auto
    then show ?thesis using l "1.prems"(2) apply_level_details by (auto split: if_splits)
  qed
qed

end
