(* ===== verification/FilterProps.thy ===== *)
theory FilterProps
  imports Filters
begin

text \<open>
  Properties of the filter chain and of the annotation parsers: what passes a registry, in which
  order its filters run, what the multi-GPU filter keeps, and that printed resources and index lists
  are read back.
\<close>

section \<open>Sample data\<close>

definition ex_gpu :: "string \<Rightarrow> string \<Rightarrow> quantity \<Rightarrow> gpu" where
  "ex_gpu name node t = \<lparr>gpu_Name = name, gpu_Labels = [(GpuPoolKey, ''pool''), (LabelKeyOwner, node)],
     gpu_Annotations = [], gpu_ResourceVersion = ''1'', gpu_Generation = 1, gpu_OwnerReferences = [],
     gpu_Kind = ''GPU'', gpu_APIVersion = ''v1'', gpu_Phase = TensorFusionGPUPhaseRunning,
     gpu_Vendor = ''NVIDIA'', gpu_Capacity = Some \<lparr>Tflops = 100, ComputePercent = 0, Vram = 80\<rparr>,
     gpu_Available = Some \<lparr>Tflops = t, ComputePercent = 0, Vram = 80\<rparr>, gpu_UUID = name,
     gpu_Index = Some 0, gpu_NUMANode = None, gpu_NodeSelector = [(KubernetesHostNameLabel, node)],
     gpu_GPUModel = ''A100'', gpu_UsedBy = UsedByTensorFusion, gpu_Message = '''', gpu_RunningApps = []\<rparr>"

definition ex_ext :: ext where
  "ex_ext = \<lparr>x_val = (\<lambda>q. if 0 \<le> q then \<lceil>q\<rceil> else \<lfloor>q\<rfloor>), x_approx = fl64, x_impl = (\<lambda>_. - (2 ^ 63)),
     x_parse = (\<lambda>s. if s = '''' then None else Some 0), x_getNode = (\<lambda>_. NotFound), x_match = (\<lambda>_ _. None),
     x_getPool = (\<lambda>_. Found None), x_getTemplate = (\<lambda>_. NotFound),
     x_progressive = False, x_rank = length, x_tie = (\<lambda>_. 0)\<rparr>"

definition ex_registry :: filter_registry where
  "ex_registry = With (With NewFilterRegistry [PhaseFilter [TensorFusionGPUPhaseRunning]])
     [ResourceFilter \<lparr>Tflops = 10, ComputePercent = 0, Vram = 8\<rparr> []]"

definition ex_gpus :: "gpu list" where
  "ex_gpus = [ex_gpu ''g1'' ''n1'' 50, ex_gpu ''g2'' ''n1'' 5, ex_gpu ''g3'' ''n2'' 20]"

lemma ex_registry_run:
  "Registry_Apply ex_ext ex_registry ex_gpus True =
     Inr ([ex_gpu ''g1'' ''n1'' 50, ex_gpu ''g3'' ''n2'' 20],
       [\<lparr>fd_FilterName = ''PhaseFilter'', fd_Before = [''g1'', ''g2'', ''g3''],
          fd_After = [''g1'', ''g2'', ''g3''], fd_Diff = 0\<rparr>,
        \<lparr>fd_FilterName = ''GPUResourceFilter'', fd_Before = [''g1'', ''g2'', ''g3''],
          fd_After = [''g1'', ''g3''], fd_Diff = 1\<rparr>])"
  by (simp add: ex_registry_def ex_gpus_def With_def NewFilterRegistry_def PhaseFilter_Filter_def
      ResourceFilter_Filter_def has_resource_def ex_gpu_def ex_ext_def)

section \<open>Properties\<close>

text \<open>
  C5: What a filter registry lets through. When \<^verbatim>\<open>Apply\<close> returns GPUs, each of them was a
  candidate and meets the criterion of every filter of the registry and of its parents (phase and
  migration mode, enough available compute and memory on the requested indices, model or vendor,
  required node affinity); and if no filter of the chain is the multi-GPU one, every candidate that
  meets all the criteria is returned.
\<close>
theorem filter_registry_sound_complete:
  assumes "Registry_Apply x fr gpus sim = Inr (gs, ds)"
  shows "(\<forall>g \<in> set gs. g \<in> set gpus \<and> (\<forall>f \<in> set (registry_filters fr). filter_ok x f g))
    \<and> ((\<forall>f \<in> set (registry_filters fr). pointwise_filter f) \<longrightarrow>
        set gs = {g \<in> set gpus. \<forall>f \<in> set (registry_filters fr). filter_ok x f g})"
proof -
  have r: "run_chain (Filter_run x) (registry_filters fr) gpus = Inr gs"
    using Registry_Apply_chain [of x fr gpus sim] assms by simp
  show ?thesis
    using code_filters.chain_subset [OF r] code_filters.chain_ok [OF r] code_filters.chain_exact [OF r] by blast
qed

theorem filter_registry_sound_complete_witness:
  "set [ex_gpu ''g1'' ''n1'' 50, ex_gpu ''g3'' ''n2'' 20] =
     {g \<in> set ex_gpus. \<forall>f \<in> set (registry_filters ex_registry). filter_ok ex_ext f g}"
proof -
  have "\<forall>f \<in> set (registry_filters ex_registry). pointwise_filter f"
    by (simp add: ex_registry_def With_def NewFilterRegistry_def)
  then show ?thesis using filter_registry_sound_complete [OF ex_registry_run] by blast
qed

text \<open>
  A registry built by nested \<^verbatim>\<open>With\<close> calls is the sequential composition of its filters,
  oldest first, that stops at the first error and at the first empty result; simulating a schedule
  does not change the outcome.
\<close>
theorem filter_registry_is_sequence:
  "passed (Registry_Apply x (With fr fs) gpus sim) =
     (case run_chain (Filter_run x) (registry_filters fr) gpus of
        Inl e \<Rightarrow> Inl e | Inr gs \<Rightarrow> run_chain (Filter_run x) fs gs)
   \<and> passed (Registry_Apply x fr gpus True) = passed (Registry_Apply x fr gpus False)"
proof -
  have "registry_filters (With fr fs) = registry_filters fr @ fs" by (simp add: With_def)
  then show ?thesis by (simp add: Registry_Apply_chain run_chain_append)
qed

text \<open>
  The trace a simulated schedule records is connected: its first entry starts from the
  candidates, every entry starts where the one before ended and records the number of GPUs
  dropped, and the last one ends with the GPUs returned.
\<close>
theorem filter_details_connected:
  assumes "Registry_Apply x fr gpus True = Inr (gs, ds)"
  shows "details_link (map gpu_Name gpus) ds (map gpu_Name gs)"
  using Registry_Apply_details [OF assms] by simp

theorem filter_details_connected_witness:
  "details_link (map gpu_Name ex_gpus)
       [\<lparr>fd_FilterName = ''PhaseFilter'', fd_Before = [''g1'', ''g2'', ''g3''],
          fd_After = [''g1'', ''g2'', ''g3''], fd_Diff = 0\<rparr>,
        \<lparr>fd_FilterName = ''GPUResourceFilter'', fd_Before = [''g1'', ''g2'', ''g3''],
          fd_After = [''g1'', ''g3''], fd_Diff = 1\<rparr>]
     (map gpu_Name [ex_gpu ''g1'' ''n1'' 50, ex_gpu ''g3'' ''n2'' 20])"
  by (rule filter_details_connected [OF ex_registry_run])

text \<open>
  For a request of two or more GPUs the same-node filter keeps, for every node, all of the
  candidates of that node in their order when there are at least as many as requested, and none
  otherwise, whatever the iteration order of its map; it fails exactly when no node has enough.
\<close>
theorem same_node_filter_exact:
  assumes "2 \<le> cnt"
  shows "case SameNodeFilter_Filter x cnt gpus of
      Inl e \<Rightarrow> e = NoNodeWithEnoughGPUs cnt \<and> (\<forall>n. length (gpus_by_node gpus n) < cnt)
    | Inr hs \<Rightarrow> hs \<noteq> [] \<and> (\<forall>n. gpus_by_node hs n =
        (if cnt \<le> length (gpus_by_node gpus n) then gpus_by_node gpus n else []))"
proof (cases "SameNodeFilter_Filter x cnt gpus")
  case (Inl e)
  then have e: "e = NoNodeWithEnoughGPUs cnt"
    and none: "\<forall>n \<in> set (node_names gpus). cnt \<le> length (gpus_by_node gpus n) \<longrightarrow> gpus_by_node gpus n = []"
    using assms by (auto simp: SameNodeFilter_Filter_def Let_def range_keys_def split: if_splits)
  have "length (gpus_by_node gpus n) < cnt" for n
    using none in_node_names [of gpus n] assms by (cases "gpus_by_node gpus n = []") force+
  then show ?thesis using Inl e by simp
next
  case (Inr hs)
  then have "hs \<noteq> []" using assms by (auto simp: SameNodeFilter_Filter_def Let_def split: if_splits)
  then show ?thesis using Inr SameNode_by_node [OF assms Inr] by simp
qed

theorem same_node_filter_exact_witness:
  "case SameNodeFilter_Filter ex_ext 2 ex_gpus of
      Inl e \<Rightarrow> e = NoNodeWithEnoughGPUs 2 \<and> (\<forall>n. length (gpus_by_node ex_gpus n) < 2)
    | Inr hs \<Rightarrow> hs \<noteq> [] \<and> (\<forall>n. gpus_by_node hs n =
        (if 2 \<le> length (gpus_by_node ex_gpus n) then gpus_by_node ex_gpus n else []))"
  by (rule same_node_filter_exact) simp

text \<open>
  The model-and-vendor filter is a disjunction that repeats: with both a model and a vendor
  required, a GPU passes when either matches, and a GPU that matches both appears in the result
  twice as often as among the candidates.
\<close>
theorem model_vendor_filter_repeats:
  assumes "m \<noteq> ''''" "v \<noteq> ''''"
  shows "count_list (GPUModelAndVendorFilter_Filter m v gpus) g =
    ((if gpu_GPUModel g = m then 1 else 0) + (if gpu_Vendor g = v then 1 else 0)) * count_list gpus g"
proof -
  have "count_list (filter P gpus) g = (if P g then count_list gpus g else 0)" for P
    by (induction gpus) auto
  then show ?thesis using assms by (simp add: GPUModelAndVendorFilter_Filter_def count_list_append)
qed

theorem model_vendor_filter_repeats_witness:
  "count_list (GPUModelAndVendorFilter_Filter ''A100'' ''NVIDIA'' [ex_gpu ''g1'' ''n1'' 50])
     (ex_gpu ''g1'' ''n1'' 50) = 2"
  using model_vendor_filter_repeats [of "''A100''" "''NVIDIA''" "[ex_gpu ''g1'' ''n1'' 50]" "ex_gpu ''g1'' ''n1'' 50"]
  by (simp add: ex_gpu_def)

text \<open>
  Resources written as annotations by \<^verbatim>\<open>GPUResourcesToAnnotations\<close> are read back equal by
  \<^verbatim>\<open>GPUResourcesFromAnnotations\<close>, when the quantity parser inverts the printer, and a
  comma-separated list of 32-bit GPU indices is read back unchanged by
  \<^verbatim>\<open>ParseIndicesAnnotation\<close>.
\<close>
theorem annotations_read_back:
  assumes "\<And>q. parse (print q) = Some q"
    and "is \<noteq> []" "\<forall>i \<in> set is. - (2 ^ 31) \<le> i \<and> i < 2 ^ 31"
  shows "(\<exists>r'. GPUResourcesFromAnnotations parse (GPUResourcesToAnnotations print r) = Inr r'
      \<and> Resources_Equal r (Some r'))
    \<and> ParseIndicesAnnotation (join_with '','' (map show_int is)) = (is, False)"
  using annotations_roundtrip [OF assms(1)] ParseIndices_join [OF assms(2,3)] by blast

text \<open>A toy quantity syntax: the sign, numerator and denominator in decimal, separated by commas.\<close>

definition ex_print :: "quantity \<Rightarrow> string" where
  "ex_print q = join_with '','' [show_int (fst (quotient_of q)), show_int (snd (quotient_of q))]"

definition ex_parse :: "string \<Rightarrow> quantity option" where
  "ex_parse s = (case split_on (CHR '','') s of
       [n, d] \<Rightarrow> Some (of_int (if n \<noteq> [] \<and> hd n = CHR ''-'' then - the (parse_digits 0 (tl n)) else the (parse_digits 0 n))
                  / of_int (the (parse_digits 0 d)))
     | _ \<Rightarrow> None)"

lemma ex_parse_print: "ex_parse (ex_print q) = Some q"
proof -
  obtain n d where nd: "quotient_of q = (n, d)" by (cases "quotient_of q")
  have sp: "split_on (CHR '','') (ex_print q) = [show_int n, show_int d]"
    unfolding ex_print_def nd using show_int_no_sep by (subst split_join) auto
  have d: "0 < d" "q = of_int n / of_int d" using nd quotient_of_denom_pos quotient_of_div by auto
  have hd: "hd (show_nat k) \<noteq> CHR ''-''" for k
    using show_nat_digits [of "hd (show_nat k)" k] show_nat_not_Nil by (auto simp: is_digit_def)
  have "(if show_int n \<noteq> [] \<and> hd (show_int n) = CHR ''-'' then - the (parse_digits 0 (tl (show_int n)))
      else the (parse_digits 0 (show_int n))) = n"
    using hd by (auto simp: show_int_def parse_show_nat show_nat_not_Nil)
  moreover have "the (parse_digits 0 (show_int d)) = d" using d by (simp add: show_int_def parse_show_nat)
  ultimately show ?thesis unfolding ex_parse_def sp using d(2) by simp
qed

theorem annotations_read_back_witness:
  "(\<exists>r'. GPUResourcesFromAnnotations ex_parse (GPUResourcesToAnnotations ex_print zero_resources) = Inr r'
      \<and> Resources_Equal zero_resources (Some r'))
    \<and> ParseIndicesAnnotation (join_with '','' (map show_int [0, 7])) = ([0, 7], False)"
  by (rule annotations_read_back) (simp_all add: ex_parse_print)

end
