(* ===== verification/Strategy.thy ===== *)
theory Strategy
  imports Filters
begin

text \<open>
  The placement strategies of \<^verbatim>\<open>internal/gpuallocator\<close> (\<open>strategy_compact_first.go\<close>,
  \<open>strategy_low_load.go\<close>, \<open>strategy_default.go\<close>) with \<^verbatim>\<open>normalizeScore\<close> and
  \<^verbatim>\<open>NewStrategy\<close> of \<open>gpuallocator.go\<close>. Floating-point operations round one by one. A nil
  pointer is the value \<open>None\<close> of a score. The locale \<open>scoring\<close> is the contract of the
  \<^verbatim>\<open>Strategy\<close> interface the selector relies on.
\<close>

section \<open>Scores\<close>

record fit_config =
  MaxWorkerPerNode :: int
  VramWeight :: float64
  TflopsWeight :: float64

definition normalizeScore :: "ext \<Rightarrow> fit_config \<Rightarrow> float64 \<Rightarrow> float64 \<Rightarrow> int" where
  "normalizeScore x cfg vramScore tflopsScore =
     (let score = f64_to_int64 (x_impl x) (math_Round
            (f64_add (f64_mul vramScore (VramWeight cfg)) (f64_mul tflopsScore (TflopsWeight cfg))))
      in if score < 0 then 0 else if 100 < score then 100 else score)"

text \<open>The percentages of a resource that are available and used.\<close>

definition available_percentage :: "ext \<Rightarrow> quantity \<Rightarrow> quantity \<Rightarrow> float64" where
  "available_percentage x av cap = f64_mul (f64_div (x_approx x av) (x_approx x cap)) (Fin 100)"

definition used_percentage :: "ext \<Rightarrow> quantity \<Rightarrow> quantity \<Rightarrow> float64" where
  "used_percentage x av cap = f64_sub (Fin 100) (available_percentage x av cap)"

definition score_with ::
  "ext \<Rightarrow> (ext \<Rightarrow> quantity \<Rightarrow> quantity \<Rightarrow> float64) \<Rightarrow> fit_config \<Rightarrow> gpu \<Rightarrow> int option" where
  "score_with x percentage cfg g =
     (case (gpu_Available g, gpu_Capacity g) of
        (Some av, Some cap) \<Rightarrow> Some (normalizeScore x cfg
           (percentage x (Vram av) (Vram cap)) (percentage x (Tflops av) (Tflops cap)))
      | _ \<Rightarrow> None)"

datatype strategy =
    CompactFirst fit_config
  | LowLoadFirst fit_config
  | NodeCompactGPULowLoad fit_config

definition CompactFirst_Score :: "ext \<Rightarrow> fit_config \<Rightarrow> gpu \<Rightarrow> int option" where
  "CompactFirst_Score x cfg g = score_with x used_percentage cfg g"

definition LowLoadFirst_Score :: "ext \<Rightarrow> fit_config \<Rightarrow> gpu \<Rightarrow> int option" where
  "LowLoadFirst_Score x cfg g = score_with x available_percentage cfg g"

definition NodeCompactGPULowLoad_Score :: "ext \<Rightarrow> fit_config \<Rightarrow> gpu \<Rightarrow> bool \<Rightarrow> int option" where
  "NodeCompactGPULowLoad_Score x cfg g isForNode =
     (if isForNode then score_with x used_percentage cfg g else score_with x available_percentage cfg g)"

fun strategy_Score :: "ext \<Rightarrow> strategy \<Rightarrow> gpu \<Rightarrow> bool \<Rightarrow> int option" where
  "strategy_Score x (CompactFirst cfg) g b = CompactFirst_Score x cfg g"
| "strategy_Score x (LowLoadFirst cfg) g b = LowLoadFirst_Score x cfg g"
| "strategy_Score x (NodeCompactGPULowLoad cfg) g b = NodeCompactGPULowLoad_Score x cfg g b"

definition PlacementModeCompactFirst :: string where
  "PlacementModeCompactFirst = ''CompactFirst''"

definition PlacementModeLowLoadFirst :: string where
  "PlacementModeLowLoadFirst = ''LowLoadFirst''"

definition PlacementModeNodeCompactGPULowLoad :: string where
  "PlacementModeNodeCompactGPULowLoad = ''NodeCompactGPULowLoad''"

definition NewStrategy :: "string \<Rightarrow> fit_config \<Rightarrow> strategy" where
  "NewStrategy placementMode cfg =
     (if placementMode = PlacementModeLowLoadFirst then LowLoadFirst cfg
      else if placementMode = PlacementModeCompactFirst then CompactFirst cfg
      else NodeCompactGPULowLoad cfg)"

section \<open>The selector\<close>

datatype select_error = NoGPUsAvailable | UnexpectedGPUState | NotEnoughGPUs | SelectPanic

text \<open>Sums and lists of scores, \<open>None\<close> when one of them is.\<close>

fun sum_scores :: "('g \<Rightarrow> int option) \<Rightarrow> 'g list \<Rightarrow> int option" where
  "sum_scores score [] = Some 0"
| "sum_scores score (g # gs) =
     (case score g of None \<Rightarrow> None
      | Some s \<Rightarrow> (case sum_scores score gs of None \<Rightarrow> None | Some t \<Rightarrow> Some (s + t)))"

fun all_scores :: "('g \<Rightarrow> int option) \<Rightarrow> 'g list \<Rightarrow> ('g \<times> int) list option" where
  "all_scores score [] = Some []"
| "all_scores score (g # gs) =
     (case score g of None \<Rightarrow> None
      | Some s \<Rightarrow> (case all_scores score gs of None \<Rightarrow> None | Some ss \<Rightarrow> Some ((g, s) # ss)))"

text \<open>
  Step 4: the first node, by descending score, with enough valid GPUs. The comparison is on
  \<^verbatim>\<open>int(count)\<close>, the slice expression on \<^verbatim>\<open>count\<close>. Scoring a single GPU happens only
  inside the sort, which compares nothing when there are fewer than two GPUs.
\<close>

fun pick_node ::
  "ext \<Rightarrow> (gpu \<Rightarrow> int option) \<Rightarrow> (string \<Rightarrow> gpu list) \<Rightarrow> nat \<Rightarrow> string list \<Rightarrow> select_error + gpu list" where
  "pick_node x score gpuMap cnt [] = Inl NotEnoughGPUs"
| "pick_node x score gpuMap cnt (n # ns) =
     (let gpus = gpuMap n in
      if s64 (int cnt) \<le> int (length gpus)
      then (case (if length gpus < 2 then Some (map (\<lambda>g. (g, 0)) gpus) else all_scores score gpus) of
              None \<Rightarrow> Inl SelectPanic
            | Some ss \<Rightarrow> if length gpus < cnt then Inl SelectPanic
                        else Inr (take cnt (map fst (sort_Slice_desc x ss))))
      else pick_node x score gpuMap cnt ns)"

definition group_of :: "gpu list \<Rightarrow> string \<Rightarrow> gpu list" where
  "group_of gpus n = filter (\<lambda>g. gpu_node g = n) gpus"

definition node_score :: "(gpu \<Rightarrow> int option) \<Rightarrow> (string, (string, gpu) gomap) gomap \<Rightarrow> string \<Rightarrow> int option" where
  "node_score score nodeGPUMap n =
     (case map_of nodeGPUMap n of None \<Rightarrow> Some 0 | Some gs \<Rightarrow> sum_scores score (map snd gs))"

definition DefaultGPUSelector ::
  "ext \<Rightarrow> (gpu \<Rightarrow> bool \<Rightarrow> int option) \<Rightarrow> (string, (string, gpu) gomap) gomap \<Rightarrow> gpu list \<Rightarrow> nat
   \<Rightarrow> select_error + gpu list" where
  "DefaultGPUSelector x score nodeGPUMap validGPUs cnt =
     (if validGPUs = [] then Inl NoGPUsAvailable
      else let nodes = range_keys x (remdups (map gpu_node validGPUs)) in
        case all_scores (node_score (\<lambda>g. score g True) nodeGPUMap) nodes of
          None \<Rightarrow> Inl UnexpectedGPUState
        | Some nodeScores \<Rightarrow>
            pick_node x (\<lambda>g. score g False) (group_of validGPUs) cnt
              (map fst (sort_key (\<lambda>p. - snd p) nodeScores)))"

definition SelectGPUs ::
  "ext \<Rightarrow> strategy \<Rightarrow> (string, (string, gpu) gomap) gomap \<Rightarrow> gpu list \<Rightarrow> nat \<Rightarrow> select_error + gpu list" where
  "SelectGPUs x st nodeGPUMap gpus cnt = DefaultGPUSelector x (strategy_Score x st) nodeGPUMap gpus cnt"

section \<open>The contract of a strategy\<close>

locale scoring =
  fixes score :: "gpu \<Rightarrow> bool \<Rightarrow> int option"
  assumes score_bounds: "score g b = Some s \<Longrightarrow> 0 \<le> s \<and> s \<le> 100"
    and score_defined: "score g b \<noteq> None \<longleftrightarrow> gpu_Available g \<noteq> None \<and> gpu_Capacity g \<noteq> None"
begin

lemma node_sum_bounds:
  "sum_scores (\<lambda>g. score g b) gs = Some t \<Longrightarrow> 0 \<le> t \<and> t \<le> 100 * int (length gs)"
  by (induction gs arbitrary: t) (auto split: option.splits dest!: score_bounds)

lemma sum_defined:
  "sum_scores (\<lambda>g. score g b) gs = None \<longleftrightarrow> (\<exists>g \<in> set gs. gpu_Available g = None \<or> gpu_Capacity g = None)"
proof (induction gs)
  case (Cons g gs)
  then show ?case using score_defined [of g b] by (cases "score g b") (auto split: option.splits)
qed simp

lemma all_scores_eq:
  assumes "\<forall>g \<in> set gs. gpu_Available g \<noteq> None \<and> gpu_Capacity g \<noteq> None"
  shows "all_scores (\<lambda>g. score g b) gs = Some (map (\<lambda>g. (g, the (score g b))) gs)"
  using assms
proof (induction gs)
  case (Cons g gs)
  then show ?case using score_defined [of g b] by (cases "score g b") auto
qed simp

end

lemma score_with_bounds: "score_with x p cfg g = Some s \<Longrightarrow> 0 \<le> s \<and> s \<le> 100"
  by (auto simp: score_with_def normalizeScore_def Let_def split: option.splits if_splits)

lemma score_with_defined: "score_with x p cfg g \<noteq> None \<longleftrightarrow> gpu_Available g \<noteq> None \<and> gpu_Capacity g \<noteq> None"
  by (auto simp: score_with_def split: option.splits)

lemmas strategy_defs = CompactFirst_Score_def LowLoadFirst_Score_def NodeCompactGPULowLoad_Score_def

interpretation code_scores: scoring "strategy_Score x st" for x st
proof unfold_locales
  show "strategy_Score x st g b = Some s \<Longrightarrow> 0 \<le> s \<and> s \<le> 100" for g b s
    by (cases st) (auto simp: strategy_defs split: if_splits dest: score_with_bounds)
  show "strategy_Score x st g b \<noteq> None \<longleftrightarrow> gpu_Available g \<noteq> None \<and> gpu_Capacity g \<noteq> None" for g b
    using score_with_defined by (cases st) (simp_all add: strategy_defs)
qed

end
