(* ===== verification/StrategyProps.thy ===== *)
theory StrategyProps
  imports Strategy FilterProps
begin

text \<open>
  What the selector guarantees: the GPUs it returns are on one node, the best-scored node that has
  enough of them, and are the best-scored candidates there.
\<close>

section \<open>Lemmas on the selector\<close>

lemma pick_node_split:
  assumes "pick_node x score gpuMap cnt ns = Inr sel" "cnt < 2 ^ 63"
  obtains pre n post ss where "ns = pre @ n # post" "\<forall>m \<in> set pre. length (gpuMap m) < cnt"
    "cnt \<le> length (gpuMap n)"
    "(if length (gpuMap n) < 2 then Some (map (\<lambda>g. (g, 0)) (gpuMap n)) else all_scores score (gpuMap n)) = Some ss"
    "sel = take cnt (map fst (sort_Slice_desc x ss))"
proof -
  have c: "s64 (int cnt) = int cnt" using assms(2) by (intro s64_id) auto
  have "\<exists>pre n post ss. ns = pre @ n # post \<and> (\<forall>m \<in> set pre. length (gpuMap m) < cnt)
      \<and> cnt \<le> length (gpuMap n)
      \<and> (if length (gpuMap n) < 2 then Some (map (\<lambda>g. (g, 0)) (gpuMap n)) else all_scores score (gpuMap n)) = Some ss
      \<and> sel = take cnt (map fst (sort_Slice_desc x ss))"
    using assms(1)
  proof (induction ns)
    case (Cons n ns)
    show ?case
    proof (cases "cnt \<le> length (gpuMap n)")
      case True
      then obtain ss where "(if length (gpuMap n) < 2 then Some (map (\<lambda>g. (g, 0)) (gpuMap n)) else all_scores score (gpuMap n)) = Some ss"
          "sel = take cnt (map fst (sort_Slice_desc x ss))"
        using Cons.prems c by (auto simp: Let_def split: option.splits if_splits)
      with True have "n # ns = [] @ n # ns \<and> (\<forall>m \<in> set []. length (gpuMap m) < cnt)
        \<and> cnt \<le> length (gpuMap n)
        \<and> (if length (gpuMap n) < 2 then Some (map (\<lambda>g. (g, 0)) (gpuMap n)) else all_scores score (gpuMap n)) = Some ss
        \<and> sel = take cnt (map fst (sort_Slice_desc x ss))" by simp
      then show ?thesis by blast
    next
      case False
      then have "pick_node x score gpuMap cnt ns = Inr sel" using Cons.prems c by (simp add: Let_def)
      from Cons.IH [OF this] obtain pre n' post ss where "ns = pre @ n' # post"
        "\<forall>m \<in> set pre. length (gpuMap m) < cnt" "cnt \<le> length (gpuMap n')"
        "(if length (gpuMap n') < 2 then Some (map (\<lambda>g. (g, 0)) (gpuMap n')) else all_scores score (gpuMap n')) = Some ss"
        "sel = take cnt (map fst (sort_Slice_desc x ss))" by blast
      moreover from this False have "\<forall>m \<in> set (n # pre). length (gpuMap m) < cnt" "n # ns = (n # pre) @ n' # post"
        by simp_all
      ultimately show ?thesis by blast
    qed
  qed simp
  then show ?thesis using that by blast
qed

lemma all_scores_fst: "all_scores score gs = Some ss \<Longrightarrow> map fst ss = gs \<and> (\<forall>(g, s) \<in> set ss. score g = Some s)"
  by (induction gs arbitrary: ss) (auto split: option.splits)

lemma sort_Slice_mset: "mset (sort_Slice_desc x ss) = mset ss"
  by (simp add: sort_Slice_desc_def)

text \<open>A prefix of a list sorted by descending score dominates the rest.\<close>

lemma prefix_dominates:
  assumes "a \<in> set (take n (sort_Slice_desc x ss))" "b \<in> set (drop n (sort_Slice_desc x ss))"
  shows "snd b \<le> snd a"
proof -
  let ?k = "\<lambda>p. - snd p" and ?s = "sort_Slice_desc x ss"
  have "sorted (map ?k (take n ?s @ drop n ?s))" by (simp add: sort_Slice_desc_def)
  then have "\<forall>u \<in> set (map ?k (take n ?s)). \<forall>v \<in> set (map ?k (drop n ?s)). u \<le> v"
    unfolding map_append sorted_append by blast
  then show ?thesis using assms by auto
qed

definition top_scored :: "(gpu \<Rightarrow> int option) \<Rightarrow> gpu list \<Rightarrow> gpu list \<Rightarrow> bool" where
  "top_scored score sel gpus \<longleftrightarrow>
     (\<exists>rest. mset gpus = mset sel + mset rest
        \<and> (\<forall>g \<in> set sel. \<forall>h \<in> set rest. the (score h) \<le> the (score g)))"

lemma take_top_scored:
  assumes "(if length gpus < 2 then Some (map (\<lambda>g. (g, 0)) gpus) else all_scores score gpus) = Some ss"
    and "cnt \<le> length gpus"
  shows "top_scored score (take cnt (map fst (sort_Slice_desc x ss))) gpus"
proof -
  let ?s = "sort_Slice_desc x ss"
  let ?sel = "take cnt (map fst ?s)" and ?rest = "drop cnt (map fst ?s)"
  have fst: "map fst ss = gpus" using assms(1) all_scores_fst [of score gpus ss]
    by (auto simp: comp_def split: if_splits)
  have "mset (map fst ?s) = mset gpus" using sort_Slice_mset [of x ss] fst by (metis mset_map)
  then have m: "mset gpus = mset ?sel + mset ?rest" by (metis append_take_drop_id mset_append)
  have "the (score h) \<le> the (score g)" if gh: "g \<in> set ?sel" "h \<in> set ?rest" for g h
  proof (cases "length gpus < 2")
    case True
    have "length ?s = length gpus" using fst sort_Slice_mset by (metis length_map mset_eq_length)
    then have "length ?sel + length ?rest < 2" using True by simp
    moreover have "?sel \<noteq> []" "?rest \<noteq> []" using that by (metis empty_iff list.set(1))+
    ultimately show ?thesis by (cases ?sel; cases ?rest) simp_all
  next
    case False
    then have sc: "\<forall>(g, s) \<in> set ss. score g = Some s" using assms(1) all_scores_fst [of score gpus ss] by simp
    obtain p q where "p \<in> set (take cnt ?s)" "g = fst p" "q \<in> set (drop cnt ?s)" "h = fst q"
      using gh unfolding take_map drop_map set_map by blast
    moreover from this have "p \<in> set ss" "q \<in> set ss"
      using sort_Slice_mset [of x ss] by (metis in_set_takeD in_set_dropD mset_eq_setD)+
    moreover have "score (fst r) = Some (snd r)" if "r \<in> set ss" for r using sc that by (auto simp: case_prod_unfold)
    ultimately show ?thesis using prefix_dominates [of p cnt x ss q] by simp
  qed
  then show ?thesis using m unfolding top_scored_def by blast
qed

lemma in_map_fst: "m \<in> set (map fst ps) \<Longrightarrow> \<exists>s. (m, s) \<in> set ps"
  by auto

lemma sorted_nodes_max:
  assumes "sorted (map (\<lambda>p. - snd p) ps)" "map fst ps = pre @ n # post" "(n', s') \<in> set ps"
    and "n' \<notin> set pre" "distinct (map fst ps)" "(n, s) \<in> set ps"
  shows "s' \<le> (s :: int)"
proof -
  obtain ps1 p ps2 where ps: "ps = ps1 @ p # ps2" "map fst ps1 = pre" "fst p = n" "map fst ps2 = post"
    using assms(2) by (auto simp: map_eq_append_conv map_eq_Cons_conv)
  have "(n, snd p) \<in> set ps" using ps(1,3) by auto
  then have "p = (n, s)" using eq_key_imp_eq_value [OF assms(5) _ assms(6)] ps(3) by (metis prod.collapse)
  moreover have "(n', s') = p \<or> (n', s') \<in> set ps2" using assms(3,4) ps by force
  ultimately show ?thesis using assms(1) ps by (auto simp: sorted_append)
qed

lemma selector_best_node:
  assumes "SelectGPUs x st store gpus cnt = Inr sel" "cnt < 2 ^ 63"
  shows "\<exists>n. n \<in> gpu_node ` set gpus \<and> length sel = cnt \<and> cnt \<le> length (group_of gpus n)
    \<and> top_scored (\<lambda>g. strategy_Score x st g False) sel (group_of gpus n)
    \<and> (\<forall>m \<in> gpu_node ` set gpus. cnt \<le> length (group_of gpus m) \<longrightarrow>
         the (node_score (\<lambda>g. strategy_Score x st g True) store m)
           \<le> the (node_score (\<lambda>g. strategy_Score x st g True) store n))"
proof -
  let ?nodes = "range_keys x (remdups (map gpu_node gpus))"
  let ?ns = "node_score (\<lambda>g. strategy_Score x st g True) store"
  obtain nss where nss: "all_scores ?ns ?nodes = Some nss"
    and pick: "pick_node x (\<lambda>g. strategy_Score x st g False) (group_of gpus) cnt
        (map fst (sort_key (\<lambda>p. - snd p) nss)) = Inr sel"
    using assms(1) by (auto simp: SelectGPUs_def DefaultGPUSelector_def Let_def split: if_splits option.splits)
  let ?ps = "sort_key (\<lambda>p. - snd p) nss"
  note fst = all_scores_fst [OF nss]
  obtain pre n post ss where split: "map fst ?ps = pre @ n # post"
    and pre: "\<forall>m \<in> set pre. length (group_of gpus m) < cnt" and enough: "cnt \<le> length (group_of gpus n)"
    and ss: "(if length (group_of gpus n) < 2 then Some (map (\<lambda>g. (g, 0)) (group_of gpus n))
        else all_scores (\<lambda>g. strategy_Score x st g False) (group_of gpus n)) = Some ss"
    and sel: "sel = take cnt (map fst (sort_Slice_desc x ss))"
    using pick_node_split [OF pick assms(2)] by metis
  have "set (map fst ?ps) = set (map fst nss)" by simp
  then have nodes: "set (map fst ?ps) = gpu_node ` set gpus" using fst by (simp add: range_keys_def)
  have "mset (map fst ?ps) = mset ?nodes" using fst by (metis mset_map mset_sort)
  then have dist: "distinct (map fst ?ps)"
    by (metis distinct_remdups distinct_sort mset_eq_imp_distinct_iff range_keys_def)
  have top: "top_scored (\<lambda>g. strategy_Score x st g False) sel (group_of gpus n)"
    using take_top_scored [OF ss enough] sel by simp
  have "map fst ss = group_of gpus n" using ss all_scores_fst by (auto simp: comp_def split: if_splits)
  then have "length (sort_Slice_desc x ss) = length (group_of gpus n)"
    by (metis length_map mset_eq_length sort_Slice_mset)
  then have len: "length sel = cnt" using sel enough by simp
  have sc: "?ns m = Some s" if "(m, s) \<in> set ?ps" for m s using that fst by auto
  have n: "n \<in> set (map fst ?ps)" using split by simp
  then obtain s where s: "(n, s) \<in> set ?ps" using in_map_fst by metis
  have best: "the (?ns m) \<le> the (?ns n)" if m: "m \<in> gpu_node ` set gpus" "cnt \<le> length (group_of gpus m)" for m
  proof -
    obtain s' where s': "(m, s') \<in> set ?ps" using m nodes in_map_fst by metis
    have "m \<notin> set pre" using pre m by auto
    then have "s' \<le> s" using sorted_nodes_max [OF _ split s' _ dist s] by simp
    then show ?thesis using sc s s' by simp
  qed
  from n nodes have "n \<in> gpu_node ` set gpus" by simp
  then show ?thesis using len enough top best by (intro exI [of _ n] conjI ballI impI) assumption+
qed

section \<open>Properties\<close>


text \<open>
  C28: The selector is correct. When \<^verbatim>\<open>SelectGPUs\<close> succeeds, there is a node such that exactly
  \<^verbatim>\<open>count\<close> GPUs are returned, all of them valid candidates of that node, no candidate left on
  that node has a higher GPU score than a returned one, and no other node with enough candidates
  has a higher total score.
\<close>
theorem selector_picks_best_node:
  assumes "SelectGPUs x st store gpus cnt = Inr sel" "cnt < 2 ^ 63"
  shows "\<exists>n. n \<in> gpu_node ` set gpus \<and> length sel = cnt \<and> cnt \<le> length (group_of gpus n)
    \<and> top_scored (\<lambda>g. strategy_Score x st g False) sel (group_of gpus n)
    \<and> (\<forall>m \<in> gpu_node ` set gpus. cnt \<le> length (group_of gpus m) \<longrightarrow>
         the (node_score (\<lambda>g. strategy_Score x st g True) store m)
           \<le> the (node_score (\<lambda>g. strategy_Score x st g True) store n))"
  using selector_best_node [OF assms] .

theorem selector_picks_best_node_witness:
  "\<exists>n. n \<in> gpu_node ` set [ex_gpu ''g1'' ''n1'' 50, ex_gpu ''g3'' ''n2'' 20] \<and> length [ex_gpu ''g1'' ''n1'' 50] = 1 \<and> 1 \<le> length (group_of [ex_gpu ''g1'' ''n1'' 50, ex_gpu ''g3'' ''n2'' 20] n)
    \<and> top_scored (\<lambda>g. strategy_Score ex_ext (LowLoadFirst \<lparr>MaxWorkerPerNode = 0, VramWeight = Fin 0, TflopsWeight = Fin 0\<rparr>) g False)
        [ex_gpu ''g1'' ''n1'' 50] (group_of [ex_gpu ''g1'' ''n1'' 50, ex_gpu ''g3'' ''n2'' 20] n)
    \<and> (\<forall>m \<in> gpu_node ` set [ex_gpu ''g1'' ''n1'' 50, ex_gpu ''g3'' ''n2'' 20]. 1 \<le> length (group_of [ex_gpu ''g1'' ''n1'' 50, ex_gpu ''g3'' ''n2'' 20] m) \<longrightarrow>
         the (node_score (\<lambda>g. strategy_Score ex_ext (LowLoadFirst \<lparr>MaxWorkerPerNode = 0, VramWeight = Fin 0, TflopsWeight = Fin 0\<rparr>) g True) [] m)
           \<le> the (node_score (\<lambda>g. strategy_Score ex_ext (LowLoadFirst \<lparr>MaxWorkerPerNode = 0, VramWeight = Fin 0, TflopsWeight = Fin 0\<rparr>) g True) [] n))"
proof (rule selector_picks_best_node)
  show "SelectGPUs ex_ext (LowLoadFirst \<lparr>MaxWorkerPerNode = 0, VramWeight = Fin 0, TflopsWeight = Fin 0\<rparr>)
      [] [ex_gpu ''g1'' ''n1'' 50, ex_gpu ''g3'' ''n2'' 20] 1 = Inr [ex_gpu ''g1'' ''n1'' 50]"
    by (simp add: SelectGPUs_def DefaultGPUSelector_def range_keys_def node_score_def group_of_def
        ex_gpu_def gpu_node_def get_str_def ex_ext_def sort_Slice_desc_def s64_def key_defs
        LowLoadFirst_Score_def score_with_def normalizeScore_def)
qed simp

end
