(* ===== verification/Allocator.thy ===== *)
theory Allocator
  imports Strategy Quota
begin

text \<open>
  The GPU allocator, \<^verbatim>\<open>internal/gpuallocator/gpuallocator.go\<close>: its state and the operations that
  allocate, release and resize. GPU objects are shared by pointer between the three stores of the
  allocator, so the state has an explicit heap: \<open>al_heap\<close> is the list of GPU objects created so
  far, a pointer is an index into it, and \<open>gpuStore\<close>, \<open>nodeGpuStore\<close> and \<open>poolGpuStore\<close>
  map names to pointers. An operation that can fail half-way returns the state it leaves behind
  beside the error. The mutexes make each operation atomic; \<^verbatim>\<open><-s.initializedCh\<close> only delays
  an operation until the start-up is done. A key \<^verbatim>\<open>types.NamespacedName{Name: n}\<close> of a
  cluster-scoped GPU is its name.
\<close>

section \<open>State\<close>

record allocator =
  filterRegistry :: filter_registry
  quotaStore :: quota_store
  al_heap :: "gpu list"
  gpuStore :: "(string, nat) gomap"
  nodeGpuStore :: "(string, (string, nat) gomap) gomap"
  poolGpuStore :: "(string, (string, nat) gomap) gomap"
  nodeWorkerStore :: "(string, name_namespace list) gomap"
  dirtyQueue :: "string list"
  uniqueAllocation :: "(string, alloc_request) gomap"
  uniqueDeallocation :: "string list"
  podNamespaceNsToPodUID :: "(string, string) gomap"
  maxWorkerPerNode :: int
  GPUCapacityMap :: "(string, resource) gomap"

datatype alloc_error =
    NoGPUsProvided
  | AlreadyAllocated string
  | GPUNotFound string
  | NilAvailable string
  | InsufficientTFLOPs string
  | InsufficientVRAM string
  | QuotaExceeded quota_error
  | PoolNameEmpty
  | NoGPUsInPool string
  | FilterFailed filter_error
  | NoGPUsAfterFiltering string "filter_detail list"
  | GetPoolFailed string
  | GetTemplateFailed string
  | SelectFailed select_error
  | NotAllocated string
  | ScalingQuotaExceeded
  | ListGPUsFailed
  | QuotaInitFailed
  | NilDereference
  | IndexOutOfRange

definition NewGpuAllocator :: allocator where
  "NewGpuAllocator =
     \<lparr>filterRegistry = With NewFilterRegistry
        [PhaseFilter [TensorFusionGPUPhaseRunning, TensorFusionGPUPhasePending]],
      quotaStore = NewQuotaStore, al_heap = [], gpuStore = [], nodeGpuStore = [], poolGpuStore = [],
      nodeWorkerStore = [], dirtyQueue = [], uniqueAllocation = [], uniqueDeallocation = [],
      podNamespaceNsToPodUID = [], maxWorkerPerNode = 0, GPUCapacityMap = []\<rparr>"

definition SetMaxWorkerPerNode :: "int \<Rightarrow> allocator \<Rightarrow> allocator" where
  "SetMaxWorkerPerNode n s = s\<lparr>maxWorkerPerNode := n\<rparr>"

definition gpu_at :: "allocator \<Rightarrow> nat \<Rightarrow> gpu" where
  "gpu_at s a = al_heap s ! a"

definition set_gpu :: "nat \<Rightarrow> gpu \<Rightarrow> allocator \<Rightarrow> allocator" where
  "set_gpu a g s = s\<lparr>al_heap := (al_heap s)[a := g]\<rparr>"

definition markGPUDirty :: "string \<Rightarrow> allocator \<Rightarrow> allocator" where
  "markGPUDirty key s = s\<lparr>dirtyQueue := List.insert key (dirtyQueue s)\<rparr>"

definition addAllocationMap :: "string \<Rightarrow> object_meta \<Rightarrow> allocator \<Rightarrow> allocator" where
  "addAllocationMap gpuNodeName podMeta s =
     (let ws = (case map_of (nodeWorkerStore s) gpuNodeName of None \<Rightarrow> [] | Some ws \<Rightarrow> ws)
      in s\<lparr>nodeWorkerStore := AList.update gpuNodeName
             (List.insert \<lparr>nn_Name = om_Name podMeta, nn_Namespace = om_Namespace podMeta\<rparr> ws)
             (nodeWorkerStore s)\<rparr>)"

section \<open>Running applications of a GPU\<close>

fun update_first :: "('a \<Rightarrow> bool) \<Rightarrow> ('a \<Rightarrow> 'a) \<Rightarrow> 'a list \<Rightarrow> 'a list" where
  "update_first P f [] = []"
| "update_first P f (a # as) = (if P a then f a # as else a # update_first P f as)"

definition same_app :: "name_namespace \<Rightarrow> running_app \<Rightarrow> bool" where
  "same_app w app \<longleftrightarrow> ra_Name app = nn_Name w \<and> ra_Namespace app = nn_Namespace w"

definition pod_info :: "alloc_request \<Rightarrow> string \<Rightarrow> pod_gpu_info" where
  "pod_info req qos =
     \<lparr>pgi_Name = om_Name (ar_PodMeta req), pgi_Namespace = om_Namespace (ar_PodMeta req),
      pgi_UID = om_UID (ar_PodMeta req), pgi_Requests = ar_Request req, pgi_Limits = ar_Limit req,
      pgi_QoS = qos\<rparr>"

definition addRunningApp :: "gpu \<Rightarrow> alloc_request \<Rightarrow> gpu" where
  "addRunningApp g req =
     (let w = ar_Workload req; apps = gpu_RunningApps g in
      if find (same_app w) apps \<noteq> None
      then g\<lparr>gpu_RunningApps := update_first (same_app w)
               (\<lambda>app. app\<lparr>ra_Count := ra_Count app + 1, ra_Pods := ra_Pods app @ [pod_info req (ar_QoS req)]\<rparr>) apps\<rparr>
      else g\<lparr>gpu_RunningApps := apps @ [\<lparr>ra_Name = nn_Name w, ra_Namespace = nn_Namespace w,
               ra_Count = 1, ra_Pods = [pod_info req '''']\<rparr>]\<rparr>)"

definition removeRunningApp :: "gpu \<Rightarrow> alloc_request \<Rightarrow> gpu" where
  "removeRunningApp g req =
     (let w = ar_Workload req; apps = gpu_RunningApps g in
      case find (same_app w) apps of
        None \<Rightarrow> g
      | Some item \<Rightarrow>
          if ra_Count item - 1 = 0
          then g\<lparr>gpu_RunningApps := filter (\<lambda>app. ra_Name app \<noteq> nn_Name w \<and> ra_Namespace app \<noteq> nn_Namespace w) apps\<rparr>
          else g\<lparr>gpu_RunningApps := update_first (same_app w)
                   (\<lambda>app. app\<lparr>ra_Count := ra_Count app - 1,
                              ra_Pods := filter (\<lambda>p. pgi_UID p \<noteq> om_UID (ar_PodMeta req)) (ra_Pods app)\<rparr>) apps\<rparr>)"

section \<open>Filtering and selecting\<close>

text \<open>The registry a request is filtered with, up to the node-affinity and same-node stages.\<close>

definition request_registry :: "filter_registry \<Rightarrow> alloc_request \<Rightarrow> filter_registry" where
  "request_registry fr req =
     (let fr1 = With fr [ResourceFilter (ar_Request req) (ar_GPUIndices req)]
      in if ar_GPUModel req \<noteq> '''' then With fr1 [GPUModelAndVendorFilter (ar_GPUModel req) (ar_GPUVendor req)]
         else fr1)"

definition full_registry :: "filter_registry \<Rightarrow> alloc_request \<Rightarrow> filter_registry" where
  "full_registry fr req =
     (let fr1 = request_registry fr req;
          fr2 = (case ar_NodeAffinity req of None \<Rightarrow> fr1
                 | Some na \<Rightarrow> With fr1 [NodeAffinityFilter (na_Required na) (na_Preferred na)])
      in if 1 < ar_Count req then With fr2 [SameNodeFilter (ar_Count req)] else fr2)"

definition Allocator_Filter ::
  "ext \<Rightarrow> alloc_request \<Rightarrow> gpu list \<Rightarrow> bool \<Rightarrow> allocator \<Rightarrow> alloc_error + (gpu list \<times> filter_detail list)" where
  "Allocator_Filter x req toFilterGPUs sim s =
     (case Registry_Apply x (full_registry (filterRegistry s) req) toFilterGPUs sim of
        Inl e \<Rightarrow> Inl (FilterFailed e) | Inr r \<Rightarrow> Inr r)"

fun preempted_gpus :: "allocator \<Rightarrow> alloc_request \<Rightarrow> string list \<Rightarrow> alloc_error + gpu list" where
  "preempted_gpus s pre [] = Inr []"
| "preempted_gpus s pre (n # ns) =
     (case map_of (gpuStore s) n of None \<Rightarrow> Inl (GPUNotFound n)
      | Some a \<Rightarrow>
          (case gpu_Available (gpu_at s a) of None \<Rightarrow> Inl NilDereference
           | Some av \<Rightarrow>
               (case preempted_gpus s pre ns of Inl e \<Rightarrow> Inl e
                | Inr gs \<Rightarrow> Inr ((gpu_at s a)\<lparr>gpu_Available :=
                    Some (av\<lparr>Tflops := Tflops av + Tflops (ar_Request pre), Vram := Vram av + Vram (ar_Request pre)\<rparr>)\<rparr> # gs))))"

fun preempted_all :: "allocator \<Rightarrow> alloc_request list \<Rightarrow> alloc_error + gpu list" where
  "preempted_all s [] = Inr []"
| "preempted_all s (p # ps) =
     (case preempted_gpus s p (ar_GPUNames p) of Inl e \<Rightarrow> Inl e
      | Inr gs \<Rightarrow> (case preempted_all s ps of Inl e \<Rightarrow> Inl e | Inr hs \<Rightarrow> Inr (gs @ hs)))"

definition FilterWithPreempt ::
  "ext \<Rightarrow> alloc_request \<Rightarrow> alloc_request list \<Rightarrow> allocator \<Rightarrow> alloc_error + (gpu list \<times> filter_detail list)" where
  "FilterWithPreempt x req preemptAllocRequests s =
     (case preempted_all s preemptAllocRequests of Inl e \<Rightarrow> Inl e
      | Inr gs \<Rightarrow>
          (case Registry_Apply x (request_registry (filterRegistry s) req) gs False of
             Inl e \<Rightarrow> Inl (FilterFailed e) | Inr r \<Rightarrow> Inr r))"

text \<open>The node store with its pointers followed.\<close>

definition node_gpus :: "allocator \<Rightarrow> (string, (string, gpu) gomap) gomap" where
  "node_gpus s = map (\<lambda>(n, m). (n, map (\<lambda>(g, a). (g, gpu_at s a)) m)) (nodeGpuStore s)"

definition Allocator_Select :: "ext \<Rightarrow> alloc_request \<Rightarrow> gpu list \<Rightarrow> allocator \<Rightarrow> alloc_error + gpu list" where
  "Allocator_Select x req filteredGPUs s =
     (case x_getPool x (ar_PoolName req) of
        Found template \<Rightarrow>
          (case (case template of None \<Rightarrow> Inr ''''
                 | Some t \<Rightarrow> (case x_getTemplate x t of Found mode \<Rightarrow> Inr mode | _ \<Rightarrow> Inl (GetTemplateFailed t))) of
             Inl e \<Rightarrow> Inl e
           | Inr mode \<Rightarrow>
               let cfg = \<lparr>MaxWorkerPerNode = maxWorkerPerNode s, VramWeight = Fin 0, TflopsWeight = Fin 0\<rparr>
               in (case SelectGPUs x (NewStrategy mode cfg) (node_gpus s) filteredGPUs (ar_Count req) of
                     Inl e \<Rightarrow> Inl (SelectFailed e) | Inr gs \<Rightarrow> Inr gs))
      | _ \<Rightarrow> Inl (GetPoolFailed (ar_PoolName req)))"

section \<open>Bind\<close>

text \<open>The compute a request takes from a GPU: a share of its capacity, or the tflops asked for.\<close>

definition request_tflops :: "ext \<Rightarrow> resource \<Rightarrow> gpu \<Rightarrow> quantity option" where
  "request_tflops x r g =
     (if ComputePercent r \<noteq> 0 then map_option (\<lambda>cap. ComputePercentToTflops x (Tflops cap) r) (gpu_Capacity g)
      else Some (Tflops r))"

fun bind_gpus ::
  "ext \<Rightarrow> alloc_request \<Rightarrow> string list \<Rightarrow> string \<Rightarrow> allocator \<Rightarrow> allocator \<times> (alloc_error + string)" where
  "bind_gpus x req [] node s = (s, Inr node)"
| "bind_gpus x req (n # ns) node s =
     (case map_of (gpuStore s) n of
        None \<Rightarrow> (s, Inl (GPUNotFound n))
      | Some a \<Rightarrow>
          let g = gpu_at s a; node' = (if node = '''' then gpu_node g else node) in
          (case gpu_Available g of
             None \<Rightarrow> (s, Inl (NilAvailable n))
           | Some av \<Rightarrow>
               if Tflops av < Tflops (ar_Request req) then (s, Inl (InsufficientTFLOPs n))
               else if Vram av < Vram (ar_Request req) then (s, Inl (InsufficientVRAM n))
               else (case request_tflops x (ar_Request req) g of
                       None \<Rightarrow> (s, Inl NilDereference)
                     | Some t \<Rightarrow>
                         let g' = g\<lparr>gpu_Available :=
                               Some (av\<lparr>Tflops := Tflops av - t, Vram := Vram av - Vram (ar_Request req)\<rparr>)\<rparr>
                         in bind_gpus x req ns node' (markGPUDirty n (set_gpu a (addRunningApp g' req) s)))))"

text \<open>
  The result holds one slot per requested GPU; the slots beyond the bound names stay nil. The
  request is returned as the bind handlers see it.
\<close>

definition Bind ::
  "ext \<Rightarrow> string list \<Rightarrow> alloc_request \<Rightarrow> allocator \<Rightarrow> allocator \<times> (alloc_error + gpu option list \<times> alloc_request)" where
  "Bind x gpuNames req s =
     (let uid = om_UID (ar_PodMeta req) in
      if gpuNames = [] then (s, Inl NoGPUsProvided)
      else if map_of (uniqueAllocation s) uid \<noteq> None then (s, Inl (AlreadyAllocated uid))
      else case bind_gpus x req gpuNames '''' s of
             (s1, Inl e) \<Rightarrow> (s1, Inl e)
           | (s1, Inr node) \<Rightarrow>
               let s2 = addAllocationMap node (ar_PodMeta req)
                     (s1\<lparr>quotaStore := AllocateQuota (nn_Namespace (ar_Workload req)) req (quotaStore s1)\<rparr>)
               in if ar_Count req < length gpuNames then (s2, Inl IndexOutOfRange)
                  else let result = map (\<lambda>n. Some (gpu_at s2 (the (map_of (gpuStore s2) n)))) gpuNames
                             @ replicate (ar_Count req - length gpuNames) None;
                           req' = req\<lparr>ar_GPUNames := gpuNames\<rparr>;
                           s3 = s2\<lparr>uniqueAllocation := AList.update uid req' (uniqueAllocation s2),
                                   podNamespaceNsToPodUID := AList.update
                                     (ns_name (om_Namespace (ar_PodMeta req)) (om_Name (ar_PodMeta req))) uid
                                     (podNamespaceNsToPodUID s2)\<rparr>
                       in (s3, Inr (result, req')))"

section \<open>Alloc\<close>

definition listGPUsFromPool :: "allocator \<Rightarrow> string \<Rightarrow> gpu list" where
  "listGPUsFromPool s pool =
     (case map_of (poolGpuStore s) pool of None \<Rightarrow> [] | Some m \<Rightarrow> map (\<lambda>(n, a). gpu_at s a) m)"

definition worker_count :: "allocator \<Rightarrow> string \<Rightarrow> nat" where
  "worker_count s node = (case map_of (nodeWorkerStore s) node of None \<Rightarrow> 0 | Some ws \<Rightarrow> length ws)"

definition CheckQuotaAndFilter ::
  "ext \<Rightarrow> alloc_request \<Rightarrow> bool \<Rightarrow> allocator \<Rightarrow> alloc_error + (gpu list \<times> filter_detail list)" where
  "CheckQuotaAndFilter x req sim s =
     (case CheckQuotaAvailable (x_val x) (quotaStore s) req of
        Some e \<Rightarrow> Inl (QuotaExceeded e)
      | None \<Rightarrow>
          if ar_PoolName req = '''' then Inl PoolNameEmpty
          else let poolGPUs = listGPUsFromPool s (ar_PoolName req) in
            if poolGPUs = [] then Inl (NoGPUsInPool (ar_PoolName req))
            else case Allocator_Filter x req poolGPUs sim s of
                   Inl e \<Rightarrow> Inl e
                 | Inr (gs, ds) \<Rightarrow>
                     if gs = [] then Inl (NoGPUsAfterFiltering (ar_PoolName req) ds)
                     else if 0 < maxWorkerPerNode s
                          \<and> (\<exists>g \<in> set gs. maxWorkerPerNode s < int (worker_count s (gpu_node g)))
                     then Inr (filter (\<lambda>g. int (worker_count s (gpu_node g)) \<le> maxWorkerPerNode s) gs, ds)
                     else Inr (gs, ds))"

definition Alloc ::
  "ext \<Rightarrow> alloc_request \<Rightarrow> allocator \<Rightarrow> allocator \<times> (alloc_error + gpu option list \<times> alloc_request)" where
  "Alloc x req s =
     (case CheckQuotaAndFilter x req False s of
        Inl e \<Rightarrow> (s, Inl e)
      | Inr (gs, ds) \<Rightarrow>
          (case Allocator_Select x req gs s of
             Inl e \<Rightarrow> (s, Inl e)
           | Inr sel \<Rightarrow> Bind x (map gpu_Name sel) req s))"

section \<open>Dealloc\<close>

datatype dealloc_outcome = PodNotAllocated | PodAlreadyDeallocated | Deallocated | DeallocPanic

fun dealloc_gpus ::
  "ext \<Rightarrow> alloc_request \<Rightarrow> string list \<Rightarrow> string \<Rightarrow> allocator \<Rightarrow> allocator \<times> string option" where
  "dealloc_gpus x req [] node s = (s, Some node)"
| "dealloc_gpus x req (n # ns) node s =
     (case map_of (gpuStore s) n of
        None \<Rightarrow> dealloc_gpus x req ns node s
      | Some a \<Rightarrow>
          let g = gpu_at s a; node' = (if node = '''' then gpu_node g else node) in
          (case (request_tflops x (ar_Request req) g, gpu_Available g) of
             (Some t, Some av) \<Rightarrow>
               let g' = g\<lparr>gpu_Available :=
                     Some (av\<lparr>Tflops := Tflops av + t, Vram := Vram av + Vram (ar_Request req)\<rparr>)\<rparr>
               in dealloc_gpus x req ns node' (markGPUDirty n (set_gpu a (removeRunningApp g' req) s))
           | _ \<Rightarrow> (s, None)))"

definition Dealloc ::
  "ext \<Rightarrow> name_namespace \<Rightarrow> string list \<Rightarrow> object_meta \<Rightarrow> allocator \<Rightarrow> allocator \<times> dealloc_outcome" where
  "Dealloc x workload gpus podMeta s =
     (let podUID = om_UID podMeta in
      case map_of (uniqueAllocation s) podUID of
        None \<Rightarrow> (s, PodNotAllocated)
      | Some request \<Rightarrow>
          if podUID \<in> set (uniqueDeallocation s) then (s, PodAlreadyDeallocated)
          else case dealloc_gpus x request gpus '''' s of
                 (s1, None) \<Rightarrow> (s1, DeallocPanic)
               | (s1, Some node) \<Rightarrow>
                   (s1\<lparr>nodeWorkerStore :=
                        (case map_of (nodeWorkerStore s1) node of None \<Rightarrow> nodeWorkerStore s1
                         | Some ws \<Rightarrow> AList.update node
                             (removeAll \<lparr>nn_Name = om_Name podMeta, nn_Namespace = om_Namespace podMeta\<rparr> ws)
                             (nodeWorkerStore s1)),
                      uniqueAllocation := AList.delete podUID (uniqueAllocation s1),
                      podNamespaceNsToPodUID := AList.delete (ns_name (om_Namespace podMeta) (om_Name podMeta))
                        (podNamespaceNsToPodUID s1),
                      uniqueDeallocation := List.insert podUID (uniqueDeallocation s1),
                      quotaStore := DeallocateQuota (nn_Namespace workload) request (quotaStore s1)\<rparr>,
                    Deallocated))"

text \<open>
  \<^verbatim>\<open>DeallocAsync\<close> polls the API server and releases when the pod is gone; the list holds the
  answers of the successive polls, and \<open>None\<close> means the loop is still polling after the last.
\<close>

fun DeallocAsync ::
  "ext \<Rightarrow> unit get_result list \<Rightarrow> name_namespace \<Rightarrow> string list \<Rightarrow> object_meta \<Rightarrow> allocator
   \<Rightarrow> (allocator \<times> dealloc_outcome) option" where
  "DeallocAsync x [] workload gpus podMeta s = None"
| "DeallocAsync x (NotFound # rs) workload gpus podMeta s = Some (Dealloc x workload gpus podMeta s)"
| "DeallocAsync x (r # rs) workload gpus podMeta s = DeallocAsync x rs workload gpus podMeta s"

definition DeallocByPodIdentifier :: "ext \<Rightarrow> name_namespace \<Rightarrow> allocator \<Rightarrow> allocator" where
  "DeallocByPodIdentifier x podIdentifier s =
     (let podUID = get_str (podNamespaceNsToPodUID s) (ns_name (nn_Namespace podIdentifier) (nn_Name podIdentifier)) in
      case map_of (uniqueAllocation s) podUID of
        None \<Rightarrow> s
      | Some request \<Rightarrow> fst (Dealloc x (ar_Workload request) (ar_GPUNames request) (ar_PodMeta request) s))"

text \<open>One tick of the clean-up checker; \<open>podGone\<close> is the API server's answer per pod.\<close>

fun cleanup_allocations :: "ext \<Rightarrow> (string \<Rightarrow> string \<Rightarrow> bool) \<Rightarrow> alloc_request list \<Rightarrow> allocator \<Rightarrow> allocator" where
  "cleanup_allocations x podGone [] s = s"
| "cleanup_allocations x podGone (r # rs) s =
     (if om_Name (ar_PodMeta r) \<noteq> '''' \<and> podGone (om_Namespace (ar_PodMeta r)) (om_Name (ar_PodMeta r))
      then cleanup_allocations x podGone rs (fst (Dealloc x (ar_Workload r) (ar_GPUNames r) (ar_PodMeta r) s))
      else cleanup_allocations x podGone rs s)"

definition startWorkerCleanUpChecker_tick :: "ext \<Rightarrow> (string \<Rightarrow> string \<Rightarrow> bool) \<Rightarrow> allocator \<Rightarrow> allocator" where
  "startWorkerCleanUpChecker_tick x podGone s = cleanup_allocations x podGone (map snd (uniqueAllocation s)) s"

end
