(* ===== verification/AllocatorOps.thy ===== *)
theory AllocatorOps
  imports Allocator
begin

text \<open>
  The rest of the allocator's request-time operations (\<open>gpuallocator.go\<close>): resizing an
  allocation for the autoscaler, the preemption check, scoring for the scheduler framework, and the
  read-only queries; and the node capacity summary of \<open>node_capacity.go\<close>.
\<close>

section \<open>Adjusting an allocation\<close>

definition checkGPUCapacityAndQuota :: "gpu \<Rightarrow> resource \<Rightarrow> resource \<Rightarrow> resource \<times> alloc_error option" where
  "checkGPUCapacityAndQuota g oldRes newRes =
     (case gpu_Available g of
        None \<Rightarrow> (zero_resource, Some (NilAvailable (gpu_Name g)))
      | Some av \<Rightarrow>
          let remainRes = \<lparr>Tflops = Tflops av, ComputePercent = 0, Vram = Vram av\<rparr>
          in if Tflops av + Tflops oldRes - Tflops newRes < 0 then (remainRes, Some ScalingQuotaExceeded)
             else if Vram av + Vram oldRes - Vram newRes < 0 then (remainRes, Some ScalingQuotaExceeded)
             else (remainRes, None))"

fun check_scale_up :: "allocator \<Rightarrow> resource \<Rightarrow> resource \<Rightarrow> string list \<Rightarrow> (resource \<times> alloc_error) option" where
  "check_scale_up s oldRes newRes [] = None"
| "check_scale_up s oldRes newRes (n # ns) =
     (case map_of (gpuStore s) n of
        None \<Rightarrow> Some (zero_resource, GPUNotFound n)
      | Some a \<Rightarrow>
          (case checkGPUCapacityAndQuota (gpu_at s a) oldRes newRes of
             (remain, Some e) \<Rightarrow> Some (remain, e)
           | (remain, None) \<Rightarrow> check_scale_up s oldRes newRes ns))"

fun adjust_gpus :: "quantity \<Rightarrow> quantity \<Rightarrow> string list \<Rightarrow> allocator \<Rightarrow> allocator \<times> bool" where
  "adjust_gpus dT dV [] s = (s, True)"
| "adjust_gpus dT dV (n # ns) s =
     (case map_of (gpuStore s) n of
        None \<Rightarrow> (s, False)
      | Some a \<Rightarrow>
          (case gpu_Available (gpu_at s a) of
             None \<Rightarrow> (s, False)
           | Some av \<Rightarrow> adjust_gpus dT dV ns (markGPUDirty n (set_gpu a
               ((gpu_at s a)\<lparr>gpu_Available := Some (av\<lparr>Tflops := Tflops av - dT, Vram := Vram av - dV\<rparr>)\<rparr>) s))))"

definition AdjustAllocation ::
  "ext \<Rightarrow> adjust_request \<Rightarrow> bool \<Rightarrow> allocator \<Rightarrow> allocator \<times> resource \<times> alloc_error option" where
  "AdjustAllocation x adj dryRun s =
     (case map_of (uniqueAllocation s) (adj_PodUID adj) of
        None \<Rightarrow> (s, zero_resource, Some (NotAllocated (adj_PodUID adj)))
      | Some request \<Rightarrow>
          let dTReq = Tflops (adj_NewRequest adj) - Tflops (ar_Request request);
              dVReq = Vram (adj_NewRequest adj) - Vram (ar_Request request);
              dTLim = Tflops (adj_NewLimit adj) - Tflops (ar_Request request);
              dVLim = Vram (adj_NewLimit adj) - Vram (ar_Request request);
              deltaReq = \<lparr>Tflops = dTReq, ComputePercent = 0, Vram = dVReq\<rparr>;
              deltaLim = \<lparr>Tflops = dTLim, ComputePercent = 0, Vram = dVLim\<rparr>;
              names = ar_GPUNames request;
              probe = \<lparr>ar_PoolName = '''', ar_Workload = ar_Workload request, ar_Request = deltaReq,
                       ar_Limit = deltaLim, ar_GPUIndices = [], ar_Count = length names, ar_GPUModel = '''',
                       ar_GPUVendor = '''', ar_NodeAffinity = None, ar_GPUNames = names,
                       ar_PodMeta = ar_PodMeta request, ar_QoS = ''''\<rparr>;
              failure = (if adj_IsScaleUp adj
                 then (case check_scale_up s (ar_Request request) (adj_NewRequest adj) names of
                         Some f \<Rightarrow> Some f
                       | None \<Rightarrow> map_option (\<lambda>e. (zero_resource, QuotaExceeded e))
                                   (CheckQuotaAvailable (x_val x) (quotaStore s) probe))
                 else None)
          in case failure of
               Some (remain, e) \<Rightarrow> (s, remain, Some e)
             | None \<Rightarrow>
                 if dryRun then (s, zero_resource, None)
                 else (case adjust_gpus dTReq dVReq names s of
                         (s1, False) \<Rightarrow> (s1, zero_resource, Some NilDereference)
                       | (s1, True) \<Rightarrow>
                           (s1\<lparr>quotaStore := AdjustQuota (om_Namespace (ar_PodMeta request)) deltaReq deltaLim (quotaStore s1),
                               uniqueAllocation := AList.update (adj_PodUID adj)
                                 (request\<lparr>ar_Request := adj_NewRequest adj, ar_Limit := adj_NewLimit adj\<rparr>)
                                 (uniqueAllocation s1)\<rparr>, zero_resource, None)))"

section \<open>Queries\<close>

definition ListNonUsingNodes :: "allocator \<Rightarrow> string list" where
  "ListNonUsingNodes s = map fst (filter (\<lambda>(n, ws). ws = []) (nodeWorkerStore s))"

definition GetAllocationReqByNodeName :: "string \<Rightarrow> allocator \<Rightarrow> alloc_request list" where
  "GetAllocationReqByNodeName nodeName s =
     (case map_of (nodeWorkerStore s) nodeName of None \<Rightarrow> []
      | Some workers \<Rightarrow> List.map_filter (\<lambda>w.
          let podUID = get_str (podNamespaceNsToPodUID s) (ns_name (nn_Namespace w) (nn_Name w))
          in if podUID = '''' then None else map_of (uniqueAllocation s) podUID) workers)"

definition getPlacementMode :: "ext \<Rightarrow> string \<Rightarrow> string" where
  "getPlacementMode x poolName =
     (case x_getPool x poolName of
        Found (Some t) \<Rightarrow>
          if t = '''' then PlacementModeNodeCompactGPULowLoad
          else (case x_getTemplate x t of Found mode \<Rightarrow> mode | _ \<Rightarrow> PlacementModeNodeCompactGPULowLoad)
      | _ \<Rightarrow> PlacementModeNodeCompactGPULowLoad)"

definition GetScoringStrategy :: "ext \<Rightarrow> fit_config \<Rightarrow> alloc_request \<Rightarrow> strategy" where
  "GetScoringStrategy x cfg req = NewStrategy (getPlacementMode x (ar_PoolName req)) cfg"

text \<open>The scores of the candidates per node and GPU name; \<open>None\<close> stands for a nil-pointer panic.\<close>

definition gpu_score :: "(gpu \<Rightarrow> bool \<Rightarrow> int option) \<Rightarrow> gpu \<Rightarrow> int option" where
  "gpu_score score g =
     (case score g True of None \<Rightarrow> None
      | Some r \<Rightarrow> Some (if gpu_Phase g = TensorFusionGPUPhasePending then go_div r 4 else r))"

fun score_node :: "(gpu \<Rightarrow> int option) \<Rightarrow> gpu list \<Rightarrow> (string, int) gomap \<Rightarrow> (string, int) gomap option" where
  "score_node score [] m = Some m"
| "score_node score (g # gs) m =
     (case score g of None \<Rightarrow> None | Some r \<Rightarrow> score_node score gs (AList.update (gpu_Name g) r m))"

fun Allocator_Score ::
  "ext \<Rightarrow> strategy \<Rightarrow> (string, gpu list) gomap \<Rightarrow> (string, (string, int) gomap) gomap option" where
  "Allocator_Score x st [] = Some []"
| "Allocator_Score x st ((node, gs) # rest) =
     (case score_node (gpu_score (strategy_Score x st)) gs [] of None \<Rightarrow> None
      | Some m \<Rightarrow> (case Allocator_Score x st rest of None \<Rightarrow> None
                  | Some r \<Rightarrow> Some (if gs = [] then r else (node, m) # r)))"

definition topScoreItems :: "((string \<times> string \<times> int) \<Rightarrow> nat) \<Rightarrow> (string \<times> string \<times> int) list \<Rightarrow> string list" where
  "topScoreItems tie allScores =
     map (\<lambda>(node, g, s). node @ ''/'' @ g @ '':'' @ show_int s)
       (take (min (length allScores) 10) (sort_key (\<lambda>(node, g, s). - s) (sort_key tie allScores)))"

section \<open>Preemption\<close>

definition add_preempt_usage :: "gpu_resource_usage \<Rightarrow> alloc_request \<Rightarrow> gpu_resource_usage" where
  "add_preempt_usage u a =
     u\<lparr>u_Requests := (u_Requests u)\<lparr>Tflops := Tflops (u_Requests u) + Tflops (ar_Request a),
                                     Vram := Vram (u_Requests u) + Vram (ar_Request a)\<rparr>,
       u_Limits := (u_Limits u)\<lparr>Tflops := Tflops (u_Limits u) + Tflops (ar_Limit a),
                                 Vram := Vram (u_Limits u) + Vram (ar_Limit a)\<rparr>\<rparr>"

definition preempted_requests :: "string \<Rightarrow> name_namespace list \<Rightarrow> allocator \<Rightarrow> alloc_request list" where
  "preempted_requests nodeName toPreemptPods s =
     (case map_of (nodeWorkerStore s) nodeName of None \<Rightarrow> []
      | Some workers \<Rightarrow> List.map_filter (\<lambda>w.
          if w \<notin> set toPreemptPods then None
          else let podUID = get_str (podNamespaceNsToPodUID s) (ns_name (nn_Namespace w) (nn_Name w))
               in if podUID = '''' then None else map_of (uniqueAllocation s) podUID) workers)"

definition CheckQuotaAndFilterSingleNodePreempt ::
  "ext \<Rightarrow> string \<Rightarrow> alloc_request \<Rightarrow> name_namespace list \<Rightarrow> allocator \<Rightarrow> alloc_error option" where
  "CheckQuotaAndFilterSingleNodePreempt x nodeName allocReq toPreemptPods s =
     (let preempted = preempted_requests nodeName toPreemptPods s;
          toPreemptUsage = foldl add_preempt_usage
            \<lparr>u_Requests = zero_resource, u_Limits = zero_resource, u_Workers = 0\<rparr> preempted
      in case CheckTotalQuotaRelaxed (x_val x) (quotaStore s) allocReq toPreemptUsage of
           Some e \<Rightarrow> Some (QuotaExceeded e)
         | None \<Rightarrow>
             if ar_PoolName allocReq = '''' then Some PoolNameEmpty
             else case FilterWithPreempt x allocReq preempted s of
                    Inl e \<Rightarrow> Some e
                  | Inr (gs, ds) \<Rightarrow>
                      if int (length gs) < s64 (int (ar_Count allocReq))
                      then Some (NoGPUsAfterFiltering (ar_PoolName allocReq) [])
                      else None)"

section \<open>Node capacity (node_capacity.go)\<close>

record node_status =
  ns_TotalTFlops :: quantity
  ns_TotalVRAM :: quantity
  ns_AvailableTFlops :: quantity
  ns_AvailableVRAM :: quantity
  ns_VirtualTFlops :: quantity
  ns_VirtualVRAM :: quantity
  ns_VirtualAvailableTFlops :: "quantity option"
  ns_VirtualAvailableVRAM :: "quantity option"
  ns_AllocatedPods :: "(string, pod_gpu_info list) gomap"
  ns_TotalGPUPods :: int
  ns_Phase :: string
  ns_DataDiskSize :: quantity
  ns_RAMSize :: quantity

record oversubscription =
  os_VRAMExpandToHostMem :: int
  os_VRAMExpandToHostDisk :: int
  os_TFlopsOversellRatio :: int

definition percent_of :: "ext \<Rightarrow> int \<Rightarrow> int \<Rightarrow> quantity" where
  "percent_of x sz percent =
     of_int (f64_to_int64 (x_impl x) (f64_div (f64_mul (f64_of_int sz) (f64_of_int percent)) (Fin 100)))"

definition calculateVirtualCapacity ::
  "ext \<Rightarrow> node_status \<Rightarrow> oversubscription option \<Rightarrow> quantity \<times> quantity" where
  "calculateVirtualCapacity x st cfg =
     (case cfg of None \<Rightarrow> (ns_TotalVRAM st, ns_TotalTFlops st)
      | Some os \<Rightarrow>
          let vTFlops = f64_mul (x_approx x (ns_TotalTFlops st))
                          (f64_div (f64_of_int (os_TFlopsOversellRatio os)) (Fin 100))
          in (ns_TotalVRAM st + percent_of x (x_val x (ns_DataDiskSize st)) (os_VRAMExpandToHostDisk os)
                + percent_of x (x_val x (ns_RAMSize st)) (os_VRAMExpandToHostMem os),
              of_int (f64_to_int64 (x_impl x) vTFlops)))"

definition gpu_pods :: "gpu \<Rightarrow> pod_gpu_info list" where
  "gpu_pods g = concat (map ra_Pods (gpu_RunningApps g))"

text \<open>One step of the loop over the node's GPUs: the summed status, the pods seen, the models.\<close>

definition capacity_step ::
  "node_status \<times> string list \<times> string list \<Rightarrow> gpu \<Rightarrow> node_status \<times> string list \<times> string list" where
  "capacity_step acc g =
     (case acc of (st, pods, models) \<Rightarrow>
        (case (gpu_Available g, gpu_Capacity g) of
           (Some av, Some cap) \<Rightarrow>
             (st\<lparr>ns_AvailableVRAM := ns_AvailableVRAM st + Vram av,
                 ns_AvailableTFlops := ns_AvailableTFlops st + Tflops av,
                 ns_TotalVRAM := ns_TotalVRAM st + Vram cap,
                 ns_TotalTFlops := ns_TotalTFlops st + Tflops cap,
                 ns_AllocatedPods := AList.update (gpu_Name g)
                   ((case map_of (ns_AllocatedPods st) (gpu_Name g) of None \<Rightarrow> [] | Some ps \<Rightarrow> ps) @ gpu_pods g)
                   (ns_AllocatedPods st)\<rparr>,
              foldl (\<lambda>ps p. List.insert (pgi_UID p) ps) pods (gpu_pods g),
              models @ [gpu_GPUModel g])
         | _ \<Rightarrow> acc))"

text \<open>What the progressive-migration mode does to the taint that keeps other schedulers off the node.\<close>

datatype taint_action = KeepTaint | RemoveTaint | AddTaint

definition node_taint_action :: "bool \<Rightarrow> bool option \<Rightarrow> node_status \<Rightarrow> taint_action" where
  "node_taint_action progressive coreTaint st =
     (case coreTaint of None \<Rightarrow> KeepTaint
      | Some tainted \<Rightarrow>
          if \<not> progressive then KeepTaint
          else if ns_AvailableVRAM st = ns_TotalVRAM st \<and> ns_AvailableTFlops st = ns_TotalTFlops st then RemoveTaint
          else if \<not> tainted then AddTaint else KeepTaint)"

text \<open>
  The status \<^verbatim>\<open>RefreshGPUNodeCapacity\<close> computes from the listed GPUs of a node and the
  allocator's requests there, the GPU models and the taint action; \<open>None\<close> when the list is empty
  and nothing is touched. \<open>coreTaint\<close> is whether the Kubernetes node, if given, has the taint.
  The status is always written back: the code compares it with a pointer to its old copy, which
  never is equal.
\<close>

definition RefreshGPUNodeCapacity ::
  "ext \<Rightarrow> string \<Rightarrow> gpu list \<Rightarrow> oversubscription option \<Rightarrow> allocator \<Rightarrow> bool option \<Rightarrow> node_status
   \<Rightarrow> (node_status \<times> string list \<times> taint_action) option" where
  "RefreshGPUNodeCapacity x nodeName gpus cfg s coreTaint st0 =
     (if gpus = [] then None
      else let st1 = st0\<lparr>ns_AvailableVRAM := 0, ns_AvailableTFlops := 0, ns_TotalTFlops := 0,
                         ns_TotalVRAM := 0, ns_AllocatedPods := []\<rparr>;
               (st2, pods, models) = foldl capacity_step (st1, [], []) gpus;
               (virtualVRAM, virtualTFlops) = calculateVirtualCapacity x st2 cfg;
               reqs = GetAllocationReqByNodeName nodeName s;
               st3 = st2\<lparr>ns_VirtualTFlops := virtualTFlops, ns_VirtualVRAM := virtualVRAM,
                        ns_TotalGPUPods := s32 (int (length pods)),
                        ns_VirtualAvailableVRAM :=
                          Some (foldl (\<lambda>v a. v - Vram (ar_Limit a)) virtualVRAM reqs),
                        ns_VirtualAvailableTFlops :=
                          Some (foldl (\<lambda>v a. v - Tflops (ar_Limit a)) virtualTFlops reqs),
                        ns_Phase := TensorFusionGPUPhaseRunning\<rparr>
           in Some (st3, models, node_taint_action (x_progressive x) coreTaint st3))"

end
