(* ===== verification/AllocatorSync.thy ===== *)
theory AllocatorSync
  imports AllocatorOps
begin

text \<open>
  How the allocator's memory follows the cluster (\<open>gpuallocator.go\<close>): composing the request of
  an existing pod, initialisation from a listing, the GPU informer handlers, rebuilding the
  accounting from the running workers, and writing GPU status back. Handlers that can hit a nil
  pointer return the state they leave and whether they panicked; a panic in a handler ends the
  process, so the state beside it is never used again.
\<close>

section \<open>Requests from pod annotations\<close>

definition MaxGPUCounterPerAllocation :: int where
  "MaxGPUCounterPerAllocation = 128"

definition GpuCountAnnotation :: string where
  "GpuCountAnnotation = ''tensor-fusion.ai/gpu-count''"

definition GpuIndicesAnnotation :: string where
  "GpuIndicesAnnotation = ''tensor-fusion.ai/gpu-indices''"

definition GpuVendorAnnotation :: string where
  "GpuVendorAnnotation = ''tensor-fusion.ai/vendor''"

definition QoSLevelAnnotation :: string where
  "QoSLevelAnnotation = ''tensor-fusion.ai/qos''"

definition GPUModelAnnotation :: string where
  "GPUModelAnnotation = ''tensor-fusion.ai/gpu-model''"

definition GPUDeviceIDsAnnotation :: string where
  "GPUDeviceIDsAnnotation = ''tensor-fusion.ai/gpu-ids''"

definition zero_alloc_request :: alloc_request where
  "zero_alloc_request = \<lparr>ar_PoolName = '''', ar_Workload = \<lparr>nn_Name = '''', nn_Namespace = ''''\<rparr>,
     ar_Request = zero_resource, ar_Limit = zero_resource, ar_GPUIndices = [], ar_Count = 0,
     ar_GPUModel = '''', ar_GPUVendor = '''', ar_NodeAffinity = None, ar_GPUNames = [],
     ar_PodMeta = \<lparr>om_Name = '''', om_Namespace = '''', om_UID = '''', om_Labels = [], om_Annotations = [],
       om_Deleting = False, om_Finalizers = []\<rparr>, ar_QoS = ''''\<rparr>"

text \<open>The three results of the Go function: the request, a message, and whether an error comes with them.\<close>

definition ComposeAllocationRequest ::
  "(string \<Rightarrow> quantity option) \<Rightarrow> pod \<Rightarrow> alloc_request \<times> string \<times> bool" where
  "ComposeAllocationRequest parse p =
     (let meta = pod_Meta p; ann = om_Annotations meta;
          res = (\<lambda>b. case GetGPUResource parse p b of Inl _ \<Rightarrow> zero_resource | Inr r \<Rightarrow> r);
          (cnt, countErr) = (case map_of ann GpuCountAnnotation of None \<Rightarrow> (1, False) | Some c \<Rightarrow> Atoi c)
      in if countErr then (zero_alloc_request, ''invalid gpu count annotation'', True)
         else if MaxGPUCounterPerAllocation < cnt
         then (zero_alloc_request, ''gpu count annotation is too large'', False)
         else let qos = get_str ann QoSLevelAnnotation;
                  (indices, hasError) = ParseIndicesAnnotation (get_str ann GpuIndicesAnnotation)
              in if hasError then (zero_alloc_request, ''invalid gpu-indices annotation'', True)
                 else (\<lparr>ar_PoolName = get_str ann GpuPoolKey,
                        ar_Workload = \<lparr>nn_Name = get_str (om_Labels meta) WorkloadKey, nn_Namespace = om_Namespace meta\<rparr>,
                        ar_Request = res True, ar_Limit = res False, ar_GPUIndices = indices,
                        ar_Count = to_uint cnt, ar_GPUModel = get_str ann GPUModelAnnotation,
                        ar_GPUVendor = get_str ann GpuVendorAnnotation, ar_NodeAffinity = None,
                        ar_GPUNames = (case map_of ann GPUDeviceIDsAnnotation of None \<Rightarrow> []
                                       | Some ids \<Rightarrow> split_on (CHR '','') ids),
                        ar_PodMeta = meta, ar_QoS = (if qos = '''' then QoSMedium else qos)\<rparr>, '''', False))"

section \<open>Maps of GPUs by node and pool\<close>

definition put2 :: "string \<Rightarrow> string \<Rightarrow> nat \<Rightarrow> (string, (string, nat) gomap) gomap \<Rightarrow> (string, (string, nat) gomap) gomap" where
  "put2 k n a m = AList.update k (AList.update n a (case map_of m k of None \<Rightarrow> [] | Some i \<Rightarrow> i)) m"

definition del2 :: "string \<Rightarrow> string \<Rightarrow> (string, (string, nat) gomap) gomap \<Rightarrow> (string, (string, nat) gomap) gomap" where
  "del2 k n m = (case map_of m k of None \<Rightarrow> m | Some i \<Rightarrow> AList.update k (AList.delete n i) m)"

definition ensure_node_workers :: "string \<Rightarrow> allocator \<Rightarrow> allocator" where
  "ensure_node_workers node s =
     (if map_of (nodeWorkerStore s) node = None
      then s\<lparr>nodeWorkerStore := AList.update node [] (nodeWorkerStore s)\<rparr> else s)"

text \<open>A new object on the heap; its pointer is the old length.\<close>

definition new_gpu :: "gpu \<Rightarrow> allocator \<Rightarrow> allocator \<times> nat" where
  "new_gpu g s = (s\<lparr>al_heap := al_heap s @ [g]\<rparr>, length (al_heap s))"

definition store_gpu :: "string \<Rightarrow> nat \<Rightarrow> allocator \<Rightarrow> allocator" where
  "store_gpu n a s = s\<lparr>gpuStore := AList.update n a (gpuStore s)\<rparr>"

definition put_node_gpu :: "string \<Rightarrow> string \<Rightarrow> nat \<Rightarrow> allocator \<Rightarrow> allocator" where
  "put_node_gpu node n a s = s\<lparr>nodeGpuStore := put2 node n a (nodeGpuStore s)\<rparr>"

definition put_pool_gpu :: "string \<Rightarrow> string \<Rightarrow> nat \<Rightarrow> allocator \<Rightarrow> allocator" where
  "put_pool_gpu pool n a s = s\<lparr>poolGpuStore := put2 pool n a (poolGpuStore s)\<rparr>"

section \<open>Initialisation\<close>

definition init_gpu :: "gpu \<Rightarrow> allocator \<Rightarrow> allocator" where
  "init_gpu g s =
     (case gpu_Capacity g of
        None \<Rightarrow> (let (s1, a) = new_gpu g s in store_gpu (gpu_Name g) a s1)
      | Some cap \<Rightarrow>
          let g' = (if gpu_Available g = None then g\<lparr>gpu_Available := Some cap\<rparr> else g);
              (s1, a) = new_gpu g' s;
              s2 = store_gpu (gpu_Name g) a s1;
              s3 = (if gpu_node g \<noteq> '''' then put_node_gpu (gpu_node g) (gpu_Name g) a s2 else s2);
              pool = get_str (gpu_Labels g) GpuPoolKey
          in if pool \<noteq> '''' then put_pool_gpu pool (gpu_Name g) a s3 else s3)"

definition initGPUAndQuotaStore ::
  "gpu list option \<Rightarrow> gpu_resource_quota list option \<Rightarrow> allocator \<Rightarrow> allocator \<times> alloc_error option" where
  "initGPUAndQuotaStore gpus quotas s =
     (case gpus of None \<Rightarrow> (s, Some ListGPUsFailed)
      | Some gs \<Rightarrow>
          let s1 = foldl (\<lambda>s g. init_gpu g s) (s\<lparr>gpuStore := [], nodeGpuStore := []\<rparr>) gs
          in (case InitQuotaStore quotas (quotaStore s1) of
                Inl NilPointer \<Rightarrow> (s1, Some NilDereference)
              | Inl ListFailed \<Rightarrow> (s1, Some QuotaInitFailed)
              | Inr q \<Rightarrow> (s1\<lparr>quotaStore := q\<rparr>, None)))"

section \<open>Informer handlers\<close>

definition syncGPUMetadataAndStatusFromCluster :: "gpu \<Rightarrow> gpu \<Rightarrow> gpu" where
  "syncGPUMetadataAndStatusFromCluster old g =
     old\<lparr>gpu_Annotations := gpu_Annotations g, gpu_Labels := gpu_Labels g,
         gpu_ResourceVersion := gpu_ResourceVersion g, gpu_Generation := gpu_Generation g,
         gpu_OwnerReferences := gpu_OwnerReferences g, gpu_Kind := gpu_Kind g,
         gpu_APIVersion := gpu_APIVersion g, gpu_Phase := gpu_Phase g, gpu_Message := gpu_Message g,
         gpu_UUID := gpu_UUID g, gpu_NodeSelector := gpu_NodeSelector g, gpu_GPUModel := gpu_GPUModel g,
         gpu_UsedBy := gpu_UsedBy g, gpu_Vendor := gpu_Vendor g, gpu_NUMANode := gpu_NUMANode g,
         gpu_Index := gpu_Index g\<rparr>"

definition addOrUpdateGPUMaps :: "nat \<Rightarrow> allocator \<Rightarrow> allocator \<times> bool" where
  "addOrUpdateGPUMaps a s =
     (let g = gpu_at s a; node = gpu_node g; pool = get_str (gpu_Labels g) GpuPoolKey;
          s1 = (if node \<noteq> '''' then ensure_node_workers node (put_node_gpu node (gpu_Name g) a s) else s);
          s2 = (if pool \<noteq> '''' then put_pool_gpu pool (gpu_Name g) a s1 else s1)
      in if gpu_GPUModel g = '''' then (s2, False)
         else case gpu_Capacity g of None \<Rightarrow> (s2, True)
              | Some cap \<Rightarrow> (s2\<lparr>GPUCapacityMap := AList.update (gpu_GPUModel g) cap (GPUCapacityMap s2)\<rparr>, False))"

definition handleGPUCreate :: "gpu \<Rightarrow> allocator \<Rightarrow> allocator \<times> bool" where
  "handleGPUCreate g s =
     (case map_of (gpuStore s) (gpu_Name g) of
        Some a \<Rightarrow>
          let unknown = gpu_GPUModel g \<noteq> '''' \<and> map_of (GPUCapacityMap s) (gpu_GPUModel g) = None in
          if unknown \<and> gpu_Capacity g = None then (s, True)
          else let s1 = (if unknown
                 then s\<lparr>GPUCapacityMap := AList.update (gpu_GPUModel g) (the (gpu_Capacity g)) (GPUCapacityMap s)\<rparr> else s)
               in (set_gpu a (syncGPUMetadataAndStatusFromCluster (gpu_at s1 a) g) s1, False)
      | None \<Rightarrow>
          let cap = (case gpu_Capacity g of None \<Rightarrow> zero_resource | Some c \<Rightarrow> c);
              av = (case gpu_Available g of None \<Rightarrow> cap | Some v \<Rightarrow> v);
              (s1, a) = new_gpu (g\<lparr>gpu_Capacity := Some cap, gpu_Available := Some av\<rparr>) s
          in addOrUpdateGPUMaps a (store_gpu (gpu_Name g) a s1))"

definition handleGPUDelete :: "gpu \<Rightarrow> allocator \<Rightarrow> allocator" where
  "handleGPUDelete g s =
     (let pool = get_str (gpu_Labels g) GpuPoolKey in
      s\<lparr>gpuStore := AList.delete (gpu_Name g) (gpuStore s),
        nodeGpuStore := del2 (gpu_node g) (gpu_Name g) (nodeGpuStore s),
        poolGpuStore := (if pool \<noteq> '''' then del2 pool (gpu_Name g) (poolGpuStore s) else poolGpuStore s)\<rparr>)"

text \<open>\<open>None\<close> is a nil-pointer dereference of \<^verbatim>\<open>old.Status.Available\<close>.\<close>

definition apply_diff :: "(quantity \<Rightarrow> int) \<Rightarrow> (resource \<Rightarrow> quantity) \<Rightarrow> ((quantity \<Rightarrow> quantity) \<Rightarrow> resource \<Rightarrow> resource)
   \<Rightarrow> resource \<Rightarrow> resource \<times> resource option \<Rightarrow> (resource \<times> resource option) option" where
  "apply_diff val sel upd newCap old =
     (case old of (cap, av) \<Rightarrow>
        let diff = sel newCap - sel cap in
        if val diff = 0 then Some old
        else (case av of None \<Rightarrow> None
              | Some v \<Rightarrow> Some (upd (\<lambda>q. q + diff) cap, Some (upd (\<lambda>q. q + diff) v))))"

definition handleGPUUpdateCapacityDiff :: "(quantity \<Rightarrow> int) \<Rightarrow> gpu \<Rightarrow> gpu \<Rightarrow> gpu option" where
  "handleGPUUpdateCapacityDiff val old g =
     (case gpu_Capacity g of None \<Rightarrow> Some old
      | Some newCap \<Rightarrow>
          let start = (case gpu_Capacity old of None \<Rightarrow> (newCap, Some newCap)
                       | Some c \<Rightarrow> (c, gpu_Available old))
          in case apply_diff val Tflops Tflops_update newCap start of None \<Rightarrow> None
             | Some r1 \<Rightarrow>
                 (case apply_diff val Vram Vram_update newCap r1 of None \<Rightarrow> None
                  | Some (cap, av) \<Rightarrow> Some (old\<lparr>gpu_Capacity := Some cap, gpu_Available := av\<rparr>)))"

definition handleGPUUpdate :: "ext \<Rightarrow> gpu \<Rightarrow> allocator \<Rightarrow> allocator \<times> bool" where
  "handleGPUUpdate x g s =
     (case map_of (gpuStore s) (gpu_Name g) of
        Some a \<Rightarrow>
          (case handleGPUUpdateCapacityDiff (x_val x) (gpu_at s a) g of
             None \<Rightarrow> (s, True)
           | Some old \<Rightarrow> addOrUpdateGPUMaps a (set_gpu a (syncGPUMetadataAndStatusFromCluster old g) s))
      | None \<Rightarrow> (let (s1, a) = new_gpu g s in addOrUpdateGPUMaps a (store_gpu (gpu_Name g) a s1)))"

fun gpu_informer :: "ext \<Rightarrow> gpu informer_event \<Rightarrow> allocator \<Rightarrow> allocator \<times> bool" where
  "gpu_informer x (AddFunc (Typed g)) s = handleGPUCreate g s"
| "gpu_informer x (DeleteFunc (Typed g)) s = (handleGPUDelete g s, False)"
| "gpu_informer x (DeleteFunc (Tombstone (Typed g))) s = (handleGPUDelete g s, False)"
| "gpu_informer x (UpdateFunc _ (Typed g)) s = handleGPUUpdate x g s"
| "gpu_informer x _ s = (s, False)"

section \<open>Writing GPU status back\<close>

text \<open>The outcome of the retried status update of one GPU; a missing GPU is skipped.\<close>

datatype update_outcome = Updated | Gone | UpdateFailed

record gpu_status_update =
  gsu_Name :: string
  gsu_Available :: "resource option"
  gsu_RunningApps :: "running_app list"

fun sync_gpus ::
  "(string \<Rightarrow> update_outcome) \<Rightarrow> string list \<Rightarrow> allocator
   \<Rightarrow> gpu_status_update list \<times> string list \<times> allocator" where
  "sync_gpus outcome [] s = ([], [], s)"
| "sync_gpus outcome (key # keys) s =
     (case map_of (gpuStore s) key of
        None \<Rightarrow> sync_gpus outcome keys s
      | Some a \<Rightarrow>
          let g = gpu_at s a;
              s1 = (if outcome key = UpdateFailed then markGPUDirty key s else s);
              (sent, nodes, s2) = sync_gpus outcome keys s1
          in ((if outcome key = Updated
               then \<lparr>gsu_Name = key, gsu_Available = gpu_Available g, gsu_RunningApps = gpu_RunningApps g\<rparr> # sent
               else sent),
              List.insert (get_str (gpu_Labels g) LabelKeyOwner) nodes, s2))"

text \<open>The updates accepted, the owner nodes whose sync time is then patched, and the new state.\<close>

definition SyncGPUsToK8s ::
  "(string \<Rightarrow> update_outcome) \<Rightarrow> allocator \<Rightarrow> gpu_status_update list \<times> string list \<times> allocator" where
  "SyncGPUsToK8s outcome s = sync_gpus outcome (dirtyQueue s) (s\<lparr>dirtyQueue := []\<rparr>)"

definition syncToK8s ::
  "ext \<Rightarrow> (string \<Rightarrow> update_outcome) \<Rightarrow> (string \<Rightarrow> quota_status \<Rightarrow> bool) \<Rightarrow> allocator \<Rightarrow> allocator" where
  "syncToK8s x outcome patchOk s =
     (case SyncGPUsToK8s outcome s of (sent, nodes, s1) \<Rightarrow>
        s1\<lparr>quotaStore := snd (SyncQuotasToK8s (x_val x) (x_approx x) patchOk (quotaStore s1))\<rparr>)"

section \<open>Rebuilding the accounting\<close>

text \<open>
  The filter over the listed worker pods: scheduled pods are registered (also those already being
  released), and kept unless they are deleted and their finalizer is gone.
\<close>

fun register_workers :: "(string \<Rightarrow> quantity option) \<Rightarrow> pod list \<Rightarrow> allocator \<Rightarrow> allocator \<times> pod list" where
  "register_workers parse [] s = (s, [])"
| "register_workers parse (p # ps) s =
     (let meta = pod_Meta p in
      if pod_NodeName p = '''' then register_workers parse ps s
      else case ComposeAllocationRequest parse p of
             (req, msg, True) \<Rightarrow> register_workers parse ps s
           | (req, msg, False) \<Rightarrow>
               let s1 = addAllocationMap (pod_NodeName p) meta
                     (s\<lparr>uniqueAllocation := AList.update (om_UID meta) req (uniqueAllocation s),
                        podNamespaceNsToPodUID := AList.update (ns_name (om_Namespace meta) (om_Name meta))
                          (om_UID meta) (podNamespaceNsToPodUID s)\<rparr>);
                   (s2, kept) = register_workers parse ps s1
               in (s2, if om_Deleting meta \<and> Finalizer \<notin> set (om_Finalizers meta) then kept else p # kept))"

fun clear_running_apps :: "string list \<Rightarrow> allocator \<Rightarrow> allocator" where
  "clear_running_apps [] s = s"
| "clear_running_apps (n # ns) s =
     (case map_of (gpuStore s) n of
        None \<Rightarrow> clear_running_apps ns s
      | Some a \<Rightarrow>
          let g = gpu_at s a;
              s1 = (if gpu_Capacity g \<noteq> None then set_gpu a (g\<lparr>gpu_RunningApps := []\<rparr>) s else s)
          in clear_running_apps ns (ensure_node_workers (gpu_node g) s1))"

definition capacity_map :: "allocator \<Rightarrow> (string, resource) gomap" where
  "capacity_map s = List.map_filter (\<lambda>(n, a). map_option (Pair n) (gpu_Capacity (gpu_at s a))) (gpuStore s)"

fun replay_gpu_ids ::
  "alloc_request \<Rightarrow> string list \<Rightarrow> (string, resource) gomap \<Rightarrow> allocator \<Rightarrow> (string, resource) gomap \<times> allocator" where
  "replay_gpu_ids req [] m s = (m, s)"
| "replay_gpu_ids req (n # ns) m s =
     (let m1 = (case map_of m n of None \<Rightarrow> m
                | Some r \<Rightarrow> AList.update n (r\<lparr>Tflops := Tflops r - Tflops (ar_Request req),
                                                Vram := Vram r - Vram (ar_Request req)\<rparr>) m);
          s1 = (case map_of (gpuStore s) n of None \<Rightarrow> s
                | Some a \<Rightarrow> set_gpu a (addRunningApp (gpu_at s a) req) s)
      in replay_gpu_ids req ns m1 s1)"

fun replay_workers :: "pod list \<Rightarrow> (string, resource) gomap \<Rightarrow> allocator \<Rightarrow> (string, resource) gomap \<times> allocator" where
  "replay_workers [] m s = (m, s)"
| "replay_workers (p # ps) m s =
     (case map_of (uniqueAllocation s) (om_UID (pod_Meta p)) of
        None \<Rightarrow> replay_workers ps m s
      | Some req \<Rightarrow>
          (case replay_gpu_ids req
              (split_on (CHR '','') (get_str (om_Annotations (pod_Meta p)) GPUDeviceIDsAnnotation)) m s of
             (m1, s1) \<Rightarrow> replay_workers ps m1 s1))"

fun correct_gpus ::
  "(string, resource) gomap \<Rightarrow> (string, running_app list) gomap \<Rightarrow> string list \<Rightarrow> allocator \<Rightarrow> allocator \<times> bool" where
  "correct_gpus m apps [] s = (s, False)"
| "correct_gpus m apps (n # ns) s =
     (case map_of (gpuStore s) n of
        None \<Rightarrow> correct_gpus m apps ns s
      | Some a \<Rightarrow>
          let g = gpu_at s a in
          (case gpu_Capacity g of
             None \<Rightarrow> correct_gpus m apps ns s
           | Some _ \<Rightarrow>
               (case (gpu_Available g, map_of m n) of
                  (Some av, Some act) \<Rightarrow>
                    let same = (Tflops av = Tflops act \<and> Vram av = Vram act);
                        s1 = (if same then s
                              else markGPUDirty n (set_gpu a (g\<lparr>gpu_Available :=
                                Some (av\<lparr>Tflops := Tflops act, Vram := Vram act\<rparr>)\<rparr>) s));
                        old = (case map_of apps n of None \<Rightarrow> [] | Some l \<Rightarrow> l);
                        s2 = (if gpu_RunningApps g \<noteq> old then markGPUDirty n s1 else s1)
                    in correct_gpus m apps ns s2
                | _ \<Rightarrow> (s, True))))"

text \<open>\<open>listed\<close> is the answer to listing the worker pods; the flag is a nil-pointer panic.\<close>

definition reconcileAllocationState ::
  "ext \<Rightarrow> pod list option \<Rightarrow> allocator \<Rightarrow> allocator \<times> bool" where
  "reconcileAllocationState x listed s =
     (case listed of None \<Rightarrow> (s, False)
      | Some pods \<Rightarrow>
          let (s1, workers) = register_workers (x_parse x) pods s;
              names = map fst (gpuStore s1);
              m0 = capacity_map s1;
              apps = map (\<lambda>(n, a). (n, gpu_RunningApps (gpu_at s1 a))) (gpuStore s1);
              s2 = clear_running_apps names s1;
              (m1, s3) = replay_workers workers m0 s2;
              (s4, panicked) = correct_gpus m1 apps names s3
          in if panicked then (s4, True)
             else (s4\<lparr>quotaStore := ReconcileQuotaStore (uniqueAllocation s4) (quotaStore s4)\<rparr>, False))"

end
