(* ===== verification/AllocatorInv.thy ===== *)
theory AllocatorInv
  imports AllocatorSync
begin

text \<open>
  The accounting of the allocator. \<open>al_wf\<close> says that the pointers of the GPU store are valid and
  named after their keys; \<open>store_shift\<close> is the effect all the loops over GPU names share (the
  availability of each named GPU moves by an amount per occurrence, nothing else of the resources
  changes); \<open>accounting\<close> is the balance between capacity, availability and recorded requests.
\<close>

section \<open>Well-formed stores\<close>

definition al_wf :: "allocator \<Rightarrow> bool" where
  "al_wf s \<longleftrightarrow> distinct (map fst (gpuStore s)) \<and> distinct (map fst (uniqueAllocation s))
     \<and> (\<forall>n a. map_of (gpuStore s) n = Some a \<longrightarrow> a < length (al_heap s) \<and> gpu_Name (gpu_at s a) = n)"

lemma al_wf_at: "al_wf s \<Longrightarrow> map_of (gpuStore s) n = Some a \<Longrightarrow> a < length (al_heap s) \<and> gpu_Name (gpu_at s a) = n"
  by (simp add: al_wf_def)

lemma al_wf_inj: "al_wf s \<Longrightarrow> map_of (gpuStore s) n = Some a \<Longrightarrow> map_of (gpuStore s) m = Some a \<Longrightarrow> n = m"
  using al_wf_at by metis

section \<open>Moving availability\<close>

definition shift_res :: "quantity \<Rightarrow> quantity \<Rightarrow> resource \<Rightarrow> resource" where
  "shift_res dT dV r = r\<lparr>Tflops := Tflops r + dT, Vram := Vram r + dV\<rparr>"

lemma shift_res_simps [simp]:
  "Tflops (shift_res dT dV r) = Tflops r + dT" "Vram (shift_res dT dV r) = Vram r + dV"
  "shift_res dT dV (shift_res eT eV r) = shift_res (eT + dT) (eV + dV) r"
  "shift_res 0 0 r = r"
  by (simp_all add: shift_res_def)

definition gpu_shift :: "quantity \<Rightarrow> quantity \<Rightarrow> gpu \<Rightarrow> gpu \<Rightarrow> bool" where
  "gpu_shift dT dV g g' \<longleftrightarrow>
     g' = g\<lparr>gpu_Available := map_option (shift_res dT dV) (gpu_Available g), gpu_RunningApps := gpu_RunningApps g'\<rparr>"

lemma gpu_shift_fields:
  assumes "gpu_shift dT dV g g'"
  shows "gpu_Name g' = gpu_Name g" "gpu_Capacity g' = gpu_Capacity g" "gpu_NodeSelector g' = gpu_NodeSelector g"
    "gpu_Available g' = map_option (shift_res dT dV) (gpu_Available g)"
proof -
  define apps where "apps = gpu_RunningApps g'"
  have g': "g' = g\<lparr>gpu_Available := map_option (shift_res dT dV) (gpu_Available g), gpu_RunningApps := apps\<rparr>"
    using assms unfolding gpu_shift_def apps_def .
  show "gpu_Name g' = gpu_Name g" "gpu_Capacity g' = gpu_Capacity g" "gpu_NodeSelector g' = gpu_NodeSelector g"
    "gpu_Available g' = map_option (shift_res dT dV) (gpu_Available g)"
    by (simp_all add: g')
qed

lemma gpu_shift_refl: "gpu_shift 0 0 g g"
  by (simp add: gpu_shift_def option.map_ident map_option_idI)

lemma gpu_shift_trans: "gpu_shift dT dV g h \<Longrightarrow> gpu_shift eT eV h k \<Longrightarrow> gpu_shift (dT + eT) (dV + eV) g k"
  unfolding gpu_shift_def by (cases g; cases h; cases k) (auto simp: option.map_comp comp_def)

text \<open>The shift per GPU name; the compute part may depend on the capacity of the GPU.\<close>

definition store_shift ::
  "(string \<Rightarrow> resource option \<Rightarrow> quantity) \<Rightarrow> (string \<Rightarrow> quantity) \<Rightarrow> allocator \<Rightarrow> allocator \<Rightarrow> bool" where
  "store_shift dT dV s s' \<longleftrightarrow>
     s' = s\<lparr>al_heap := al_heap s', dirtyQueue := dirtyQueue s'\<rparr> \<and> length (al_heap s') = length (al_heap s)
     \<and> (\<forall>n a. map_of (gpuStore s) n = Some a \<longrightarrow>
          gpu_shift (dT n (gpu_Capacity (gpu_at s a))) (dV n) (gpu_at s a) (gpu_at s' a))"

lemma store_shift_frame:
  assumes "store_shift dT dV s s'"
  shows "gpuStore s' = gpuStore s" "uniqueAllocation s' = uniqueAllocation s" "quotaStore s' = quotaStore s"
    "nodeWorkerStore s' = nodeWorkerStore s" "uniqueDeallocation s' = uniqueDeallocation s"
    "podNamespaceNsToPodUID s' = podNamespaceNsToPodUID s" "length (al_heap s') = length (al_heap s)"
    "nodeGpuStore s' = nodeGpuStore s" "poolGpuStore s' = poolGpuStore s" "filterRegistry s' = filterRegistry s"
    "maxWorkerPerNode s' = maxWorkerPerNode s" "GPUCapacityMap s' = GPUCapacityMap s"
proof -
  define h d where "h = al_heap s'" and "d = dirtyQueue s'"
  have s': "s' = s\<lparr>al_heap := h, dirtyQueue := d\<rparr>" using assms unfolding store_shift_def h_def d_def by simp
  show "length (al_heap s') = length (al_heap s)" using assms by (simp add: store_shift_def)
  show "gpuStore s' = gpuStore s" "uniqueAllocation s' = uniqueAllocation s" "quotaStore s' = quotaStore s"
    "nodeWorkerStore s' = nodeWorkerStore s" "uniqueDeallocation s' = uniqueDeallocation s"
    "podNamespaceNsToPodUID s' = podNamespaceNsToPodUID s"
    "nodeGpuStore s' = nodeGpuStore s" "poolGpuStore s' = poolGpuStore s" "filterRegistry s' = filterRegistry s"
    "maxWorkerPerNode s' = maxWorkerPerNode s" "GPUCapacityMap s' = GPUCapacityMap s"
    by (simp_all add: s')
qed

lemma store_shift_at:
  "store_shift dT dV s s' \<Longrightarrow> map_of (gpuStore s) n = Some a \<Longrightarrow>
   gpu_shift (dT n (gpu_Capacity (gpu_at s a))) (dV n) (gpu_at s a) (gpu_at s' a)"
  by (simp add: store_shift_def)

lemma store_shift_wf: "store_shift dT dV s s' \<Longrightarrow> al_wf s \<Longrightarrow> al_wf s'"
  using store_shift_frame [of dT dV s s'] store_shift_at [of dT dV s s'] gpu_shift_fields(1)
  unfolding al_wf_def by metis

lemma store_shift_refl: "store_shift (\<lambda>_ _. 0) (\<lambda>_. 0) s s"
  by (simp add: store_shift_def gpu_shift_refl)

lemma store_shift_trans:
  assumes "store_shift dT dV s s1" "store_shift eT eV s1 s2"
  shows "store_shift (\<lambda>n c. dT n c + eT n c) (\<lambda>n. dV n + eV n) s s2"
proof -
  note f = store_shift_frame [OF assms(1)] store_shift_frame [OF assms(2)]
  have "s2 = s\<lparr>al_heap := al_heap s2, dirtyQueue := dirtyQueue s2\<rparr>"
    using assms unfolding store_shift_def by (cases s; cases s1; cases s2) auto
  moreover have "gpu_shift (dT n (gpu_Capacity (gpu_at s a)) + eT n (gpu_Capacity (gpu_at s a))) (dV n + eV n)
      (gpu_at s a) (gpu_at s2 a)" if "map_of (gpuStore s) n = Some a" for n a
  proof -
    have 1: "gpu_shift (dT n (gpu_Capacity (gpu_at s a))) (dV n) (gpu_at s a) (gpu_at s1 a)"
      using store_shift_at [OF assms(1) that] .
    have 2: "gpu_shift (eT n (gpu_Capacity (gpu_at s1 a))) (eV n) (gpu_at s1 a) (gpu_at s2 a)"
      using store_shift_at [OF assms(2)] that f(1) by simp
    show ?thesis using gpu_shift_trans [OF 1 2] gpu_shift_fields(2) [OF 1] by simp
  qed
  ultimately show ?thesis using f unfolding store_shift_def by simp
qed

lemma store_shift_one:
  assumes "al_wf s" "map_of (gpuStore s) n = Some a" "gpu_shift dT dV (gpu_at s a) g'"
  shows "store_shift (\<lambda>m c. if m = n then dT else 0) (\<lambda>m. if m = n then dV else 0) s (markGPUDirty n (set_gpu a g' s))"
proof -
  have a: "a < length (al_heap s)" using al_wf_at assms by blast
  have "gpu_shift (if m = n then dT else 0) (if m = n then dV else 0) (gpu_at s b)
      (gpu_at (markGPUDirty n (set_gpu a g' s)) b)" if "map_of (gpuStore s) m = Some b" for m b
  proof (cases "m = n")
    case True
    then show ?thesis using assms that a by (simp add: gpu_at_def markGPUDirty_def set_gpu_def)
  next
    case False
    then have "b \<noteq> a" using al_wf_inj assms that by blast
    then show ?thesis using False by (simp add: gpu_at_def markGPUDirty_def set_gpu_def gpu_shift_refl)
  qed
  then show ?thesis by (simp add: store_shift_def markGPUDirty_def set_gpu_def)
qed

lemma addRunningApp_shift: "gpu_shift dT dV g g' \<Longrightarrow> gpu_shift dT dV g (addRunningApp g' req)"
  by (cases g; cases g') (simp add: gpu_shift_def addRunningApp_def Let_def)

lemma removeRunningApp_shift: "gpu_shift dT dV g g' \<Longrightarrow> gpu_shift dT dV g (removeRunningApp g' req)"
  by (cases g; cases g') (simp add: gpu_shift_def removeRunningApp_def Let_def split: option.split)

text \<open>How often a loop over names touches a GPU, as a quantity.\<close>

definition occ :: "string list \<Rightarrow> string \<Rightarrow> quantity" where
  "occ ns n = of_nat (count_list ns n)"

lemma occ_simps [simp]: "occ [] n = 0" "occ (m # ns) n = (if m = n then 1 else 0) + occ ns n"
  by (simp_all add: occ_def)

lemma occ_nonneg [simp]: "0 \<le> occ ns n"
  by (simp add: occ_def)

definition req_tflops :: "ext \<Rightarrow> resource \<Rightarrow> resource option \<Rightarrow> quantity" where
  "req_tflops x r cap =
     (if ComputePercent r \<noteq> 0 then (case cap of None \<Rightarrow> 0 | Some c \<Rightarrow> ComputePercentToTflops x (Tflops c) r)
      else Tflops r)"

lemma request_tflops_Some: "request_tflops x r g = Some t \<Longrightarrow> t = req_tflops x r (gpu_Capacity g)"
  by (auto simp: request_tflops_def req_tflops_def split: if_splits option.splits)

lemma req_tflops_plain [simp]: "ComputePercent r = 0 \<Longrightarrow> req_tflops x r c = Tflops r"
  by (simp add: req_tflops_def)

lemma shift_available:
  "gpu_Available g = Some av \<Longrightarrow>
   gpu_shift dT dV g (g\<lparr>gpu_Available := Some (av\<lparr>Tflops := Tflops av + dT, Vram := Vram av + dV\<rparr>)\<rparr>)"
  by (simp add: gpu_shift_def shift_res_def)

section \<open>The three loops\<close>

text \<open>One step of a loop that moves the availability of \<open>n\<close>, followed by the rest of the loop.\<close>

lemma loop_step:
  assumes "al_wf s" "map_of (gpuStore s) n = Some a"
    and "gpu_shift (f (gpu_Capacity (gpu_at s a))) v (gpu_at s a) g'"
    and "al_wf (markGPUDirty n (set_gpu a g' s)) \<Longrightarrow>
      store_shift (\<lambda>m c. occ ns m * f c) (\<lambda>m. occ ns m * v) (markGPUDirty n (set_gpu a g' s)) s'"
  shows "store_shift (\<lambda>m c. occ (n # ns) m * f c) (\<lambda>m. occ (n # ns) m * v) s s'"
proof -
  let ?s1 = "markGPUDirty n (set_gpu a g' s)"
  let ?c = "gpu_Capacity (gpu_at s a)"
  note one = store_shift_one [OF assms(1,2,3)]
  note tr = store_shift_trans [OF one assms(4) [OF store_shift_wf [OF one assms(1)]]]
  show ?thesis unfolding store_shift_def
  proof (intro conjI allI impI)
    show "s' = s\<lparr>al_heap := al_heap s', dirtyQueue := dirtyQueue s'\<rparr>" "length (al_heap s') = length (al_heap s)"
      using tr by (simp_all add: store_shift_def)
    fix m b assume m: "map_of (gpuStore s) m = Some b"
    then have "m = n \<Longrightarrow> b = a" using assms(2) by simp
    then have eq: "(if m = n then f ?c else 0) + occ ns m * f (gpu_Capacity (gpu_at s b))
        = occ (n # ns) m * f (gpu_Capacity (gpu_at s b))"
      "(if m = n then v else 0) + occ ns m * v = occ (n # ns) m * v" by (auto simp: algebra_simps)
    show "gpu_shift (occ (n # ns) m * f (gpu_Capacity (gpu_at s b))) (occ (n # ns) m * v) (gpu_at s b) (gpu_at s' b)"
      using store_shift_at [OF tr m] unfolding eq .
  qed
qed

lemma bind_gpus_shift:
  "al_wf s \<Longrightarrow> bind_gpus x req ns node s = (s', Inr node') \<Longrightarrow>
   store_shift (\<lambda>m c. occ ns m * - req_tflops x (ar_Request req) c) (\<lambda>m. occ ns m * - Vram (ar_Request req)) s s'"
proof (induction x req ns node s arbitrary: s' node' rule: bind_gpus.induct)
  case (2 x req n ns node s)
  then obtain a av t where a: "map_of (gpuStore s) n = Some a" and av: "gpu_Available (gpu_at s a) = Some av"
    and t: "request_tflops x (ar_Request req) (gpu_at s a) = Some t"
    and le: "\<not> Tflops av < Tflops (ar_Request req)" "\<not> Vram av < Vram (ar_Request req)"
    by (auto simp: Let_def split: option.splits if_splits)
  let ?node = "if node = '''' then gpu_node (gpu_at s a) else node"
  let ?g = "(gpu_at s a)\<lparr>gpu_Available := Some (av\<lparr>Tflops := Tflops av - t, Vram := Vram av - Vram (ar_Request req)\<rparr>)\<rparr>"
  let ?s1 = "markGPUDirty n (set_gpu a (addRunningApp ?g req) s)"
  have r: "bind_gpus x req ns ?node ?s1 = (s', Inr node')"
    using "2.prems"(2) a av t le by (simp add: Let_def)
  have sh: "gpu_shift (- req_tflops x (ar_Request req) (gpu_Capacity (gpu_at s a))) (- Vram (ar_Request req))
      (gpu_at s a) (addRunningApp ?g req)"
    using addRunningApp_shift [OF shift_available [OF av, of "- t" "- Vram (ar_Request req)"]]
      request_tflops_Some [OF t] by simp
  show ?case
    by (rule loop_step [where f = "\<lambda>c. - req_tflops x (ar_Request req) c", OF "2.prems"(1) a sh])
      (rule "2.IH" [OF a refl refl av le t refl _ r])
qed (simp add: store_shift_refl)

lemma dealloc_gpus_shift:
  "al_wf s \<Longrightarrow> dealloc_gpus x req ns node s = (s', Some node') \<Longrightarrow>
   store_shift (\<lambda>m c. occ ns m * req_tflops x (ar_Request req) c) (\<lambda>m. occ ns m * Vram (ar_Request req)) s s'"
proof (induction x req ns node s arbitrary: s' node' rule: dealloc_gpus.induct)
  case (2 x req n ns node s)
  show ?case
  proof (cases "map_of (gpuStore s) n")
    case None
    then have "dealloc_gpus x req ns node s = (s', Some node')" using "2.prems"(2) by simp
    from "2.IH"(1) [OF None "2.prems"(1) this] None show ?thesis
      by (auto simp: store_shift_def)
  next
    case (Some a)
    then obtain av t where av: "gpu_Available (gpu_at s a) = Some av"
      and t: "request_tflops x (ar_Request req) (gpu_at s a) = Some t"
      using "2.prems"(2) by (auto simp: Let_def split: option.splits)
    let ?node = "if node = '''' then gpu_node (gpu_at s a) else node"
    let ?g = "(gpu_at s a)\<lparr>gpu_Available := Some (av\<lparr>Tflops := Tflops av + t, Vram := Vram av + Vram (ar_Request req)\<rparr>)\<rparr>"
    let ?s1 = "markGPUDirty n (set_gpu a (removeRunningApp ?g req) s)"
    have r: "dealloc_gpus x req ns ?node ?s1 = (s', Some node')"
      using "2.prems"(2) Some av t by (simp add: Let_def)
    have sh: "gpu_shift (req_tflops x (ar_Request req) (gpu_Capacity (gpu_at s a))) (Vram (ar_Request req))
        (gpu_at s a) (removeRunningApp ?g req)"
      using removeRunningApp_shift [OF shift_available [OF av, of t "Vram (ar_Request req)"]]
        request_tflops_Some [OF t] by simp
    show ?thesis
      by (rule loop_step [where f = "req_tflops x (ar_Request req)", OF "2.prems"(1) Some sh])
        (rule "2.IH"(2) [OF Some refl refl _ t av refl _ r], simp_all add: t av)
  qed
qed (simp add: store_shift_refl)

lemma adjust_gpus_shift:
  "al_wf s \<Longrightarrow> adjust_gpus dT dV ns s = (s', True) \<Longrightarrow>
   store_shift (\<lambda>m c. occ ns m * - dT) (\<lambda>m. occ ns m * - dV) s s'"
proof (induction dT dV ns s arbitrary: s' rule: adjust_gpus.induct)
  case (2 dT dV n ns s)
  then obtain a av where a: "map_of (gpuStore s) n = Some a" and av: "gpu_Available (gpu_at s a) = Some av"
    by (auto split: option.splits)
  let ?g = "(gpu_at s a)\<lparr>gpu_Available := Some (av\<lparr>Tflops := Tflops av - dT, Vram := Vram av - dV\<rparr>)\<rparr>"
  have r: "adjust_gpus dT dV ns (markGPUDirty n (set_gpu a ?g s)) = (s', True)" using "2.prems"(2) a av by simp
  have sh: "gpu_shift (- dT) (- dV) (gpu_at s a) ?g" using shift_available [OF av, of "- dT" "- dV"] by simp
  show ?case
    by (rule loop_step [where f = "\<lambda>_. - dT", OF "2.prems"(1) a sh]) (rule "2.IH" [OF a av _ r])
qed (simp add: store_shift_refl)

section \<open>The balance\<close>

text \<open>What the recorded requests take from a GPU of a given capacity.\<close>

definition held_tflops :: "ext \<Rightarrow> (string, alloc_request) gomap \<Rightarrow> resource option \<Rightarrow> string \<Rightarrow> quantity" where
  "held_tflops x m cap n = sum_list (map (\<lambda>(u, r). occ (ar_GPUNames r) n * req_tflops x (ar_Request r) cap) m)"

definition held_vram :: "(string, alloc_request) gomap \<Rightarrow> string \<Rightarrow> quantity" where
  "held_vram m n = sum_list (map (\<lambda>(u, r). occ (ar_GPUNames r) n * Vram (ar_Request r)) m)"

definition accounting :: "ext \<Rightarrow> allocator \<Rightarrow> bool" where
  "accounting x s \<longleftrightarrow>
     (\<forall>n a cap av. map_of (gpuStore s) n = Some a \<longrightarrow> gpu_Capacity (gpu_at s a) = Some cap \<longrightarrow>
        gpu_Available (gpu_at s a) = Some av \<longrightarrow>
        Tflops av = Tflops cap - held_tflops x (uniqueAllocation s) (Some cap) n
        \<and> Vram av = Vram cap - held_vram (uniqueAllocation s) n)"

lemma accounting_at:
  "accounting x s \<Longrightarrow> map_of (gpuStore s) n = Some a \<Longrightarrow> gpu_Capacity (gpu_at s a) = Some cap \<Longrightarrow>
   gpu_Available (gpu_at s a) = Some av \<Longrightarrow>
   Tflops av = Tflops cap - held_tflops x (uniqueAllocation s) (Some cap) n
   \<and> Vram av = Vram cap - held_vram (uniqueAllocation s) n"
  unfolding accounting_def by blast

lemma sum_list_update_new:
  "map_of m u = None \<Longrightarrow> sum_list (map f (AList.update u r m)) = sum_list (map f m) + (f (u, r) :: quantity)"
  by (induction m) (auto split: if_splits)

lemma sum_list_update_old:
  "map_of m u = Some q \<Longrightarrow> sum_list (map f (AList.update u r m)) = sum_list (map f m) - f (u, q) + (f (u, r) :: quantity)"
  by (induction m) (auto split: if_splits)

lemma sum_list_delete:
  "distinct (map fst m) \<Longrightarrow> map_of m u = Some q \<Longrightarrow>
   sum_list (map f (AList.delete u m)) = sum_list (map f m) - (f (u, q) :: quantity)"
proof (induction m)
  case (Cons p m)
  obtain k v where p: "p = (k, v)" by (cases p)
  show ?case
  proof (cases "k = u")
    case True
    then have "u \<notin> fst ` set m" using Cons.prems p by auto
    then have "AList.delete u m = m" by (induction m) (auto simp: AList.delete_eq)
    then show ?thesis using True Cons.prems p by (simp add: AList.delete_eq)
  next
    case False
    then show ?thesis using Cons p by (simp add: AList.delete_eq)
  qed
qed simp

text \<open>
  Moving the availability by the negated change of what the requests hold keeps the balance.
\<close>

lemma accounting_shift:
  assumes "accounting x s" "store_shift dT dV s s1" "gpuStore s' = gpuStore s1" "al_heap s' = al_heap s1"
    and "\<And>n cap. held_tflops x (uniqueAllocation s') (Some cap) n
           = held_tflops x (uniqueAllocation s) (Some cap) n - dT n (Some cap)"
    and "\<And>n. held_vram (uniqueAllocation s') n = held_vram (uniqueAllocation s) n - dV n"
  shows "accounting x s'"
  unfolding accounting_def
proof (intro allI impI)
  fix n a cap av
  assume *: "map_of (gpuStore s') n = Some a" "gpu_Capacity (gpu_at s' a) = Some cap" "gpu_Available (gpu_at s' a) = Some av"
  have at: "gpu_at s' a = gpu_at s1 a" using assms(4) by (simp add: gpu_at_def)
  have n: "map_of (gpuStore s) n = Some a" using * assms(3) store_shift_frame(1) [OF assms(2)] by simp
  note sh = store_shift_at [OF assms(2) n]
  have cap: "gpu_Capacity (gpu_at s a) = Some cap" using gpu_shift_fields(2) [OF sh] * at by simp
  obtain av0 where av0: "gpu_Available (gpu_at s a) = Some av0" "av = shift_res (dT n (Some cap)) (dV n) av0"
    using gpu_shift_fields(4) [OF sh] * at cap by auto
  have "Tflops av0 = Tflops cap - held_tflops x (uniqueAllocation s) (Some cap) n
      \<and> Vram av0 = Vram cap - held_vram (uniqueAllocation s) n"
    using assms(1) n cap av0(1) unfolding accounting_def by blast
  then show "Tflops av = Tflops cap - held_tflops x (uniqueAllocation s') (Some cap) n
      \<and> Vram av = Vram cap - held_vram (uniqueAllocation s') n"
    using av0(2) assms(5,6) by simp
qed

section \<open>Bind, Dealloc and AdjustAllocation as transitions\<close>

abbreviation "uid_of req \<equiv> om_UID (ar_PodMeta req)"
abbreviation "pod_key meta \<equiv> ns_name (om_Namespace meta) (om_Name meta)"

lemma Bind_success:
  assumes "Bind x names req s = (s', Inr (res, req'))" "al_wf s"
  obtains s1 node where "names \<noteq> []" "map_of (uniqueAllocation s) (uid_of req) = None" "length names \<le> ar_Count req"
    "bind_gpus x req names '''' s = (s1, Inr node)"
    "store_shift (\<lambda>m c. occ names m * - req_tflops x (ar_Request req) c) (\<lambda>m. occ names m * - Vram (ar_Request req)) s s1"
    "req' = req\<lparr>ar_GPUNames := names\<rparr>"
    "s' = (addAllocationMap node (ar_PodMeta req)
         (s1\<lparr>quotaStore := AllocateQuota (nn_Namespace (ar_Workload req)) req (quotaStore s1)\<rparr>))
       \<lparr>uniqueAllocation := AList.update (uid_of req) req' (uniqueAllocation s1),
        podNamespaceNsToPodUID := AList.update (pod_key (ar_PodMeta req)) (uid_of req) (podNamespaceNsToPodUID s1)\<rparr>"
    "res = map (\<lambda>n. Some (gpu_at s1 (the (map_of (gpuStore s1) n)))) names @ replicate (ar_Count req - length names) None"
proof -
  obtain s1 node where b: "bind_gpus x req names '''' s = (s1, Inr node)"
    and ne: "names \<noteq> []" "map_of (uniqueAllocation s) (uid_of req) = None"
    using assms(1) by (auto simp: Bind_def Let_def split: if_splits prod.splits sum.splits)
  then have len: "length names \<le> ar_Count req"
    using assms(1) by (auto simp: Bind_def Let_def split: if_splits)
  show thesis
    by (rule that [OF ne len b bind_gpus_shift [OF assms(2) b]])
      (use assms(1) b ne len in \<open>auto simp: Bind_def Let_def addAllocationMap_def gpu_at_def\<close>)
qed

lemma Dealloc_success:
  assumes "Dealloc x w gpus meta s = (s', Deallocated)" "al_wf s"
  obtains s1 node request where "map_of (uniqueAllocation s) (om_UID meta) = Some request"
    "om_UID meta \<notin> set (uniqueDeallocation s)" "dealloc_gpus x request gpus '''' s = (s1, Some node)"
    "store_shift (\<lambda>m c. occ gpus m * req_tflops x (ar_Request request) c) (\<lambda>m. occ gpus m * Vram (ar_Request request)) s s1"
    "gpuStore s' = gpuStore s1" "al_heap s' = al_heap s1"
    "uniqueAllocation s' = AList.delete (om_UID meta) (uniqueAllocation s)"
    "podNamespaceNsToPodUID s' = AList.delete (pod_key meta) (podNamespaceNsToPodUID s)"
    "uniqueDeallocation s' = List.insert (om_UID meta) (uniqueDeallocation s)"
    "quotaStore s' = DeallocateQuota (nn_Namespace w) request (quotaStore s)"
proof -
  obtain request s1 node where r: "map_of (uniqueAllocation s) (om_UID meta) = Some request"
      "om_UID meta \<notin> set (uniqueDeallocation s)" and d: "dealloc_gpus x request gpus '''' s = (s1, Some node)"
    using assms(1) by (auto simp: Dealloc_def Let_def split: if_splits prod.splits option.splits)
  note sh = dealloc_gpus_shift [OF assms(2) d]
  note f = store_shift_frame [OF sh]
  show thesis
    by (rule that [OF r d sh]) (use assms(1) r d f in \<open>auto simp: Dealloc_def Let_def\<close>)
qed

lemma wf_updateI:
  assumes "al_wf s1" "gpuStore s' = gpuStore s1" "al_heap s' = al_heap s1" "distinct (map fst (uniqueAllocation s'))"
  shows "al_wf s'"
  using assms by (simp add: al_wf_def gpu_at_def)

lemma Bind_wf: "Bind x names req s = (s', Inr r) \<Longrightarrow> al_wf s \<Longrightarrow> al_wf s'"
proof -
  assume b: "Bind x names req s = (s', Inr r)" and wf: "al_wf s"
  obtain res req' where r: "r = (res, req')" by (cases r)
  from b [unfolded r] wf obtain s1 node where sh: "store_shift (\<lambda>m c. occ names m * - req_tflops x (ar_Request req) c)
        (\<lambda>m. occ names m * - Vram (ar_Request req)) s s1"
    and s': "s' = (addAllocationMap node (ar_PodMeta req)
         (s1\<lparr>quotaStore := AllocateQuota (nn_Namespace (ar_Workload req)) req (quotaStore s1)\<rparr>))
       \<lparr>uniqueAllocation := AList.update (uid_of req) req' (uniqueAllocation s1),
        podNamespaceNsToPodUID := AList.update (pod_key (ar_PodMeta req)) (uid_of req) (podNamespaceNsToPodUID s1)\<rparr>"
    by (rule Bind_success)
  from store_shift_wf [OF sh wf] show "al_wf s'"
    by (rule wf_updateI) (simp_all add: s' addAllocationMap_def Let_def distinct_update,
        use store_shift_wf [OF sh wf] in \<open>simp add: al_wf_def distinct_update\<close>)
qed

lemma Bind_accounting:
  assumes "Bind x names req s = (s', Inr r)" "al_wf s" "accounting x s"
  shows "accounting x s'"
proof -
  obtain res req' where r: "r = (res, req')" by (cases r)
  from assms(1) [unfolded r] assms(2) obtain s1 node where
    fresh: "map_of (uniqueAllocation s) (uid_of req) = None"
    and sh: "store_shift (\<lambda>m c. occ names m * - req_tflops x (ar_Request req) c)
        (\<lambda>m. occ names m * - Vram (ar_Request req)) s s1"
    and q: "req' = req\<lparr>ar_GPUNames := names\<rparr>"
    and s': "s' = (addAllocationMap node (ar_PodMeta req)
         (s1\<lparr>quotaStore := AllocateQuota (nn_Namespace (ar_Workload req)) req (quotaStore s1)\<rparr>))
       \<lparr>uniqueAllocation := AList.update (uid_of req) req' (uniqueAllocation s1),
        podNamespaceNsToPodUID := AList.update (pod_key (ar_PodMeta req)) (uid_of req) (podNamespaceNsToPodUID s1)\<rparr>"
    by (rule Bind_success)
  have u: "uniqueAllocation s' = AList.update (uid_of req) req' (uniqueAllocation s)"
    using s' store_shift_frame(2) [OF sh] by simp
  show ?thesis
    by (rule accounting_shift [OF assms(3) sh])
      (simp_all add: s' addAllocationMap_def Let_def u [unfolded s'] held_tflops_def held_vram_def
        sum_list_update_new [OF fresh] store_shift_frame(2) [OF sh] q)
qed

lemma Dealloc_accounting:
  assumes "Dealloc x w gpus meta s = (s', Deallocated)" "al_wf s" "accounting x s"
    and "\<And>request. map_of (uniqueAllocation s) (om_UID meta) = Some request \<Longrightarrow> gpus = ar_GPUNames request"
  shows "al_wf s' \<and> accounting x s'"
proof -
  from assms(1,2) obtain s1 node request where
    m: "map_of (uniqueAllocation s) (om_UID meta) = Some request"
    and sh: "store_shift (\<lambda>m c. occ gpus m * req_tflops x (ar_Request request) c)
        (\<lambda>m. occ gpus m * Vram (ar_Request request)) s s1"
    and f: "gpuStore s' = gpuStore s1" "al_heap s' = al_heap s1"
    and u: "uniqueAllocation s' = AList.delete (om_UID meta) (uniqueAllocation s)"
    by (rule Dealloc_success)
  have d: "distinct (map fst (uniqueAllocation s))" using assms(2) by (simp add: al_wf_def)
  have "al_wf s'"
    using store_shift_wf [OF sh assms(2)] f by (rule wf_updateI) (use d in \<open>simp add: u distinct_delete\<close>)
  moreover have "accounting x s'"
    by (rule accounting_shift [OF assms(3) sh f])
      (simp_all add: u held_tflops_def held_vram_def sum_list_delete [OF d m] assms(4) [OF m])
  ultimately show ?thesis ..
qed

lemma Adjust_success:
  assumes "AdjustAllocation x adj False s = (s', res, None)" "al_wf s"
  obtains s1 request where "map_of (uniqueAllocation s) (adj_PodUID adj) = Some request"
    "store_shift (\<lambda>m c. occ (ar_GPUNames request) m * - (Tflops (adj_NewRequest adj) - Tflops (ar_Request request)))
       (\<lambda>m. occ (ar_GPUNames request) m * - (Vram (adj_NewRequest adj) - Vram (ar_Request request))) s s1"
    "gpuStore s' = gpuStore s1" "al_heap s' = al_heap s1"
    "uniqueAllocation s' = AList.update (adj_PodUID adj)
       (request\<lparr>ar_Request := adj_NewRequest adj, ar_Limit := adj_NewLimit adj\<rparr>) (uniqueAllocation s)"
    "adj_IsScaleUp adj \<Longrightarrow> check_scale_up s (ar_Request request) (adj_NewRequest adj) (ar_GPUNames request) = None"
proof -
  obtain request where r: "map_of (uniqueAllocation s) (adj_PodUID adj) = Some request"
    using assms(1) by (auto simp: AdjustAllocation_def split: option.splits)
  let ?dT = "Tflops (adj_NewRequest adj) - Tflops (ar_Request request)"
  let ?dV = "Vram (adj_NewRequest adj) - Vram (ar_Request request)"
  have up: "check_scale_up s (ar_Request request) (adj_NewRequest adj) (ar_GPUNames request) = None" if "adj_IsScaleUp adj"
    using assms(1) r that by (auto simp: AdjustAllocation_def Let_def split: option.splits)
  obtain s1 where a: "adjust_gpus ?dT ?dV (ar_GPUNames request) s = (s1, True)"
    and s': "gpuStore s' = gpuStore s1" "al_heap s' = al_heap s1"
      "uniqueAllocation s' = AList.update (adj_PodUID adj)
       (request\<lparr>ar_Request := adj_NewRequest adj, ar_Limit := adj_NewLimit adj\<rparr>) (uniqueAllocation s1)"
    using assms(1) r by (cases "adjust_gpus ?dT ?dV (ar_GPUNames request) s")
      (auto simp: AdjustAllocation_def Let_def split: option.splits bool.splits prod.splits)
  note sh = adjust_gpus_shift [OF assms(2) a]
  show thesis using that [OF r sh s'(1,2) _ up] s'(3) store_shift_frame(2) [OF sh] by simp
qed

lemma Adjust_accounting:
  assumes "AdjustAllocation x adj False s = (s', res, None)" "al_wf s" "accounting x s"
    and "ComputePercent (adj_NewRequest adj) = 0"
    and "\<And>request. map_of (uniqueAllocation s) (adj_PodUID adj) = Some request \<Longrightarrow> ComputePercent (ar_Request request) = 0"
  shows "al_wf s' \<and> accounting x s'"
proof -
  from assms(1,2) obtain s1 request where
    m: "map_of (uniqueAllocation s) (adj_PodUID adj) = Some request"
    and sh: "store_shift (\<lambda>m c. occ (ar_GPUNames request) m * - (Tflops (adj_NewRequest adj) - Tflops (ar_Request request)))
       (\<lambda>m. occ (ar_GPUNames request) m * - (Vram (adj_NewRequest adj) - Vram (ar_Request request))) s s1"
    and f: "gpuStore s' = gpuStore s1" "al_heap s' = al_heap s1"
    and u: "uniqueAllocation s' = AList.update (adj_PodUID adj)
       (request\<lparr>ar_Request := adj_NewRequest adj, ar_Limit := adj_NewLimit adj\<rparr>) (uniqueAllocation s)"
    by (rule Adjust_success)
  have d: "distinct (map fst (uniqueAllocation s))" using assms(2) by (simp add: al_wf_def)
  have "al_wf s'"
    using store_shift_wf [OF sh assms(2)] f by (rule wf_updateI) (use d in \<open>simp add: u distinct_update\<close>)
  moreover have "accounting x s'"
    by (rule accounting_shift [OF assms(3) sh f])
      (simp_all add: u held_tflops_def held_vram_def sum_list_update_old [OF m] assms(4) assms(5) [OF m] algebra_simps)
  ultimately show ?thesis ..
qed

end
