(* ===== verification/AllocatorSteps.thy ===== *)
theory AllocatorSteps
  imports AllocatorInv QuotaProps
begin

text \<open>
  More transitions of the allocator: no bind makes an availability negative, a bind followed by the
  release of the same pod restores the store, the informer keeps the balance, and the step relation
  whose reachable states the invariant is about.
\<close>

section \<open>No over-allocation\<close>

definition avail_ok :: "allocator \<Rightarrow> bool" where
  "avail_ok s \<longleftrightarrow> (\<forall>n a av. map_of (gpuStore s) n = Some a \<longrightarrow> gpu_Available (gpu_at s a) = Some av \<longrightarrow>
     0 \<le> Tflops av \<and> 0 \<le> Vram av)"

lemma avail_ok_shift:
  assumes "store_shift dT dV s s1" "avail_ok s"
    and "\<And>n a av. map_of (gpuStore s) n = Some a \<Longrightarrow> gpu_Available (gpu_at s a) = Some av \<Longrightarrow>
      0 \<le> Tflops av + dT n (gpu_Capacity (gpu_at s a)) \<and> 0 \<le> Vram av + dV n"
  shows "avail_ok s1"
  unfolding avail_ok_def
proof (intro allI impI)
  fix n a av
  assume n: "map_of (gpuStore s1) n = Some a" and av: "gpu_Available (gpu_at s1 a) = Some av"
  have n0: "map_of (gpuStore s) n = Some a" using n store_shift_frame(1) [OF assms(1)] by simp
  from gpu_shift_fields(4) [OF store_shift_at [OF assms(1) n0]] av obtain av0 where
    "gpu_Available (gpu_at s a) = Some av0" "av = shift_res (dT n (gpu_Capacity (gpu_at s a))) (dV n) av0"
    by (metis map_option_eq_Some)
  then show "0 \<le> Tflops av \<and> 0 \<le> Vram av" using assms(3) [OF n0] by simp
qed

lemma bind_gpus_avail_ok:
  "al_wf s \<Longrightarrow> avail_ok s \<Longrightarrow> ComputePercent (ar_Request req) = 0 \<Longrightarrow> bind_gpus x req ns node s = (s', r) \<Longrightarrow>
   al_wf s' \<and> avail_ok s'"
proof (induction x req ns node s arbitrary: s' r rule: bind_gpus.induct)
  case (2 x req n ns node s)
  show ?case
  proof (cases "map_of (gpuStore s) n")
    case (Some a)
    show ?thesis
    proof (cases "gpu_Available (gpu_at s a)")
      case None
      then show ?thesis using "2.prems" Some by (simp add: Let_def)
    next
      case av: (Some av)
      show ?thesis
      proof (cases "Tflops av < Tflops (ar_Request req) \<or> Vram av < Vram (ar_Request req)")
        case True
        then show ?thesis using "2.prems" Some av by (auto simp: Let_def split: if_splits)
      next
        case False
        then have le: "\<not> Tflops av < Tflops (ar_Request req)" "\<not> Vram av < Vram (ar_Request req)" by auto
        let ?t = "Tflops (ar_Request req)" and ?v = "Vram (ar_Request req)"
        let ?node = "if node = '''' then gpu_node (gpu_at s a) else node"
        let ?g = "(gpu_at s a)\<lparr>gpu_Available := Some (av\<lparr>Tflops := Tflops av - ?t, Vram := Vram av - ?v\<rparr>)\<rparr>"
        let ?s1 = "markGPUDirty n (set_gpu a (addRunningApp ?g req) s)"
        have t: "request_tflops x (ar_Request req) (gpu_at s a) = Some ?t"
          using "2.prems"(3) by (simp add: request_tflops_def)
        have r: "bind_gpus x req ns ?node ?s1 = (s', r)"
          using "2.prems"(4) Some av le t by (simp add: Let_def)
        have sh: "gpu_shift (- ?t) (- ?v) (gpu_at s a) (addRunningApp ?g req)"
          using addRunningApp_shift [OF shift_available [OF av, of "- ?t" "- ?v"]] by simp
        note one = store_shift_one [OF "2.prems"(1) Some sh]
        have "avail_ok ?s1"
          using av le Some by (intro avail_ok_shift [OF one "2.prems"(2)])
            (use "2.prems"(2) in \<open>auto simp: avail_ok_def\<close>)
        then show ?thesis
          using "2.IH" [OF Some refl refl av le t refl store_shift_wf [OF one "2.prems"(1)] _ "2.prems"(3) r] by simp
      qed
    qed
  qed (use "2.prems" in simp)
qed simp

section \<open>Releasing what was bound\<close>

definition releasable :: "ext \<Rightarrow> alloc_request \<Rightarrow> string \<Rightarrow> allocator \<Rightarrow> bool" where
  "releasable x req n s \<longleftrightarrow> (\<forall>a. map_of (gpuStore s) n = Some a \<longrightarrow>
     request_tflops x (ar_Request req) (gpu_at s a) \<noteq> None \<and> gpu_Available (gpu_at s a) \<noteq> None)"

lemma releasable_shift: "store_shift dT dV s s1 \<Longrightarrow> releasable x req n s1 \<longleftrightarrow> releasable x req n s"
proof -
  assume sh: "store_shift dT dV s s1"
  have "request_tflops x (ar_Request req) (gpu_at s1 a) = request_tflops x (ar_Request req) (gpu_at s a)
      \<and> (gpu_Available (gpu_at s1 a) = None \<longleftrightarrow> gpu_Available (gpu_at s a) = None)"
    if "map_of (gpuStore s) n = Some a" for a
    using gpu_shift_fields [OF store_shift_at [OF sh that]] by (simp add: request_tflops_def)
  then show ?thesis unfolding releasable_def store_shift_frame(1) [OF sh] by auto
qed

lemma bind_gpus_releasable:
  "al_wf s \<Longrightarrow> bind_gpus x req ns node s = (s', Inr node') \<Longrightarrow> m \<in> set ns \<Longrightarrow> releasable x req m s"
proof (induction x req ns node s arbitrary: s' node' rule: bind_gpus.induct)
  case (2 x req n ns node s)
  then obtain a av t where a: "map_of (gpuStore s) n = Some a" and av: "gpu_Available (gpu_at s a) = Some av"
    and t: "request_tflops x (ar_Request req) (gpu_at s a) = Some t"
    and le: "\<not> Tflops av < Tflops (ar_Request req)" "\<not> Vram av < Vram (ar_Request req)"
    by (auto simp: Let_def split: option.splits if_splits)
  show ?case
  proof (cases "m = n")
    case True
    then show ?thesis using a av t by (simp add: releasable_def)
  next
    case False
    let ?g = "(gpu_at s a)\<lparr>gpu_Available := Some (av\<lparr>Tflops := Tflops av - t, Vram := Vram av - Vram (ar_Request req)\<rparr>)\<rparr>"
    have sh: "gpu_shift (- t) (- Vram (ar_Request req)) (gpu_at s a) (addRunningApp ?g req)"
      using addRunningApp_shift [OF shift_available [OF av, of "- t" "- Vram (ar_Request req)"]] by simp
    note one = store_shift_one [OF "2.prems"(1) a sh]
    have "bind_gpus x req ns (if node = '''' then gpu_node (gpu_at s a) else node)
        (markGPUDirty n (set_gpu a (addRunningApp ?g req) s)) = (s', Inr node')"
      using "2.prems"(2) a av t le by (simp add: Let_def)
    then have "releasable x req m (markGPUDirty n (set_gpu a (addRunningApp ?g req) s))"
      using "2.IH" [OF a refl refl av le t refl store_shift_wf [OF one "2.prems"(1)]] "2.prems"(3) False by simp
    then show ?thesis using releasable_shift [OF one] by simp
  qed
qed simp

lemma dealloc_gpus_total:
  "al_wf s \<Longrightarrow> \<forall>n \<in> set ns. releasable x req n s \<Longrightarrow> \<exists>s' node'. dealloc_gpus x req ns node s = (s', Some node')"
proof (induction x req ns node s rule: dealloc_gpus.induct)
  case (2 x req n ns node s)
  show ?case
  proof (cases "map_of (gpuStore s) n")
    case None
    then show ?thesis using "2.IH"(1) [OF None] "2.prems" by simp
  next
    case (Some a)
    then obtain t av where t: "request_tflops x (ar_Request req) (gpu_at s a) = Some t"
      and av: "gpu_Available (gpu_at s a) = Some av" using "2.prems"(2) by (auto simp: releasable_def)
    let ?g = "(gpu_at s a)\<lparr>gpu_Available := Some (av\<lparr>Tflops := Tflops av + t, Vram := Vram av + Vram (ar_Request req)\<rparr>)\<rparr>"
    have sh: "gpu_shift t (Vram (ar_Request req)) (gpu_at s a) (removeRunningApp ?g req)"
      using removeRunningApp_shift [OF shift_available [OF av]] by blast
    note one = store_shift_one [OF "2.prems"(1) Some sh]
    have "\<exists>s' node'. dealloc_gpus x req ns (if node = '''' then gpu_node (gpu_at s a) else node)
        (markGPUDirty n (set_gpu a (removeRunningApp ?g req) s)) = (s', Some node')"
      by (rule "2.IH"(2) [OF Some refl refl _ t av refl store_shift_wf [OF one "2.prems"(1)]])
        (use "2.prems"(2) releasable_shift [OF one] t av in auto)
    then show ?thesis using Some t av by (simp add: Let_def)
  qed
qed simp

lemma ApplyUsage_names [simp]:
  "ApplyUsageOperation u (req\<lparr>ar_GPUNames := ns\<rparr>) b = ApplyUsageOperation u req b"
  by (simp add: ApplyUsageOperation_def IncreaseUsage_def DecreaseUsage_def)

lemma DeallocateQuota_names [simp]: "DeallocateQuota n (req\<lparr>ar_GPUNames := ns\<rparr>) q = DeallocateQuota n req q"
  by (simp add: DeallocateQuota_def apply_usage_at_def split: option.split)

lemma delete_update_fresh: "map_of m k = None \<Longrightarrow> AList.delete k (AList.update k v m) = m"
proof (induction m)
  case (Cons p m)
  then show ?case by (cases p) (auto simp: AList.delete_eq split: if_splits)
qed (simp add: AList.delete_eq)

text \<open>A release of exactly what a bind took brings every GPU of the store back to its availability.\<close>

lemma bind_dealloc_restores:
  assumes "al_wf s" "Bind x names req s = (s1, Inr (res, req'))" "uid_of req \<notin> set (uniqueDeallocation s)"
  shows "\<exists>s2. Dealloc x (ar_Workload req) names (ar_PodMeta req) s1 = (s2, Deallocated)
    \<and> gpuStore s2 = gpuStore s \<and> uniqueAllocation s2 = uniqueAllocation s
    \<and> quotaStore s2 = DeallocateQuota (nn_Namespace (ar_Workload req)) req
        (AllocateQuota (nn_Namespace (ar_Workload req)) req (quotaStore s))
    \<and> uid_of req \<in> set (uniqueDeallocation s2)
    \<and> (\<forall>n a. map_of (gpuStore s) n = Some a \<longrightarrow>
         gpu_Available (gpu_at s2 a) = gpu_Available (gpu_at s a) \<and> gpu_Capacity (gpu_at s2 a) = gpu_Capacity (gpu_at s a))"
proof -
  from assms(2,1) obtain s0 node where fresh: "map_of (uniqueAllocation s) (uid_of req) = None"
    and b: "bind_gpus x req names '''' s = (s0, Inr node)"
    and sh: "store_shift (\<lambda>m c. occ names m * - req_tflops x (ar_Request req) c)
        (\<lambda>m. occ names m * - Vram (ar_Request req)) s s0"
    and q: "req' = req\<lparr>ar_GPUNames := names\<rparr>"
    and s1: "s1 = (addAllocationMap node (ar_PodMeta req)
         (s0\<lparr>quotaStore := AllocateQuota (nn_Namespace (ar_Workload req)) req (quotaStore s0)\<rparr>))
       \<lparr>uniqueAllocation := AList.update (uid_of req) req' (uniqueAllocation s0),
        podNamespaceNsToPodUID := AList.update (pod_key (ar_PodMeta req)) (uid_of req) (podNamespaceNsToPodUID s0)\<rparr>"
    by (rule Bind_success)
  note f = store_shift_frame [OF sh]
  have wf1: "al_wf s1" using Bind_wf [OF assms(2,1)] .
  have eq: "gpuStore s1 = gpuStore s" "al_heap s1 = al_heap s0"
      "uniqueAllocation s1 = AList.update (uid_of req) req' (uniqueAllocation s)"
      "quotaStore s1 = AllocateQuota (nn_Namespace (ar_Workload req)) req (quotaStore s)"
      "uniqueDeallocation s1 = uniqueDeallocation s"
    using s1 f by (simp_all add: addAllocationMap_def Let_def)
  then have m1: "map_of (uniqueAllocation s1) (uid_of req) = Some req'" by (simp add: update_conv')
  have "releasable x req' n s1" if "n \<in> set names" for n
    using bind_gpus_releasable [OF assms(1) b that] releasable_shift [OF sh] eq(1,2) f(1) q
    by (simp add: releasable_def gpu_at_def)
  then obtain s2' node' where d: "dealloc_gpus x req' names '''' s1 = (s2', Some node')"
    using dealloc_gpus_total [OF wf1, of names x req'] by blast
  then obtain s2 where D: "Dealloc x (ar_Workload req) names (ar_PodMeta req) s1 = (s2, Deallocated)"
    using m1 assms(3) eq(5) by (simp add: Dealloc_def Let_def)
  from D wf1 obtain s3 node3 where
    sh2: "store_shift (\<lambda>m c. occ names m * req_tflops x (ar_Request req') c) (\<lambda>m. occ names m * Vram (ar_Request req')) s1 s3"
    and e: "gpuStore s2 = gpuStore s3" "al_heap s2 = al_heap s3"
      "uniqueAllocation s2 = AList.delete (uid_of req) (uniqueAllocation s1)"
      "uniqueDeallocation s2 = List.insert (uid_of req) (uniqueDeallocation s1)"
      "quotaStore s2 = DeallocateQuota (nn_Namespace (ar_Workload req)) req' (quotaStore s1)"
    by (rule Dealloc_success) (use m1 in simp)
  have "gpu_Available (gpu_at s2 a) = gpu_Available (gpu_at s a) \<and> gpu_Capacity (gpu_at s2 a) = gpu_Capacity (gpu_at s a)"
    if n: "map_of (gpuStore s) n = Some a" for n a
  proof -
    have at: "gpu_at s1 a = gpu_at s0 a" "gpu_at s2 a = gpu_at s3 a" using eq(2) e(2) by (simp_all add: gpu_at_def)
    have "map_of (gpuStore s1) n = Some a" using n eq(1) by simp
    from gpu_shift_trans [OF store_shift_at [OF sh n] store_shift_at [OF sh2 this, unfolded at(1)]]
    have "gpu_shift 0 0 (gpu_at s a) (gpu_at s3 a)"
      using gpu_shift_fields(2) [OF store_shift_at [OF sh n]] at q by simp
    from gpu_shift_fields [OF this] show ?thesis using at by (simp add: option.map_ident map_option_idI)
  qed
  then show ?thesis
    using D e eq store_shift_frame(1) [OF sh2] delete_update_fresh [OF fresh] q by auto
qed

section \<open>The informer keeps the balance\<close>

text \<open>The part of the state the invariant is about.\<close>

definition same_core :: "allocator \<Rightarrow> allocator \<Rightarrow> bool" where
  "same_core s s' \<longleftrightarrow> gpuStore s' = gpuStore s \<and> al_heap s' = al_heap s \<and> uniqueAllocation s' = uniqueAllocation s"

lemma same_core_inv: "same_core s s' \<Longrightarrow> al_wf s' = al_wf s \<and> accounting x s' = accounting x s"
  by (simp add: same_core_def al_wf_def accounting_def gpu_at_def)

lemma addOrUpdateGPUMaps_core: "addOrUpdateGPUMaps a s = (s', b) \<Longrightarrow> same_core s s'"
  by (auto simp: addOrUpdateGPUMaps_def Let_def same_core_def ensure_node_workers_def put_node_gpu_def
      put_pool_gpu_def split: if_splits option.splits)

text \<open>Replacing an object that keeps its name and moves capacity and availability together.\<close>

lemma inv_set_gpu:
  assumes "al_wf s" "accounting x s" "map_of (gpuStore s) n = Some a" "gpu_Name g = n"
    and "\<And>r cap cap'. r \<in> snd ` set (uniqueAllocation s) \<Longrightarrow> n \<in> set (ar_GPUNames r) \<Longrightarrow>
      gpu_Capacity (gpu_at s a) = Some cap \<Longrightarrow> gpu_Capacity g = Some cap' \<Longrightarrow>
      req_tflops x (ar_Request r) (Some cap') = req_tflops x (ar_Request r) (Some cap)"
    and "\<And>cap' av'. gpu_Capacity g = Some cap' \<Longrightarrow> gpu_Available g = Some av' \<Longrightarrow>
      \<exists>cap av. gpu_Capacity (gpu_at s a) = Some cap \<and> gpu_Available (gpu_at s a) = Some av
        \<and> Tflops cap' - Tflops av' = Tflops cap - Tflops av \<and> Vram cap' - Vram av' = Vram cap - Vram av"
  shows "al_wf (set_gpu a g s) \<and> accounting x (set_gpu a g s)"
proof -
  have a: "a < length (al_heap s)" using al_wf_at assms by blast
  have at: "gpu_at (set_gpu a g s) b = (if b = a then g else gpu_at s b)" for b
    using a by (simp add: gpu_at_def set_gpu_def nth_list_update)
  have st: "gpuStore (set_gpu a g s) = gpuStore s" "uniqueAllocation (set_gpu a g s) = uniqueAllocation s"
      "length (al_heap (set_gpu a g s)) = length (al_heap s)" by (simp_all add: set_gpu_def)
  have "al_wf (set_gpu a g s)"
    using assms(1,3,4) al_wf_inj [OF assms(1)] unfolding al_wf_def st at by auto
  moreover have "accounting x (set_gpu a g s)" unfolding accounting_def st at
  proof (intro allI impI)
    fix m b cap' av'
    assume m: "map_of (gpuStore s) m = Some b" "gpu_Capacity (if b = a then g else gpu_at s b) = Some cap'"
      "gpu_Available (if b = a then g else gpu_at s b) = Some av'"
    show "Tflops av' = Tflops cap' - held_tflops x (uniqueAllocation s) (Some cap') m
        \<and> Vram av' = Vram cap' - held_vram (uniqueAllocation s) m"
    proof (cases "b = a")
      case True
      then have mn: "m = n" using al_wf_inj [OF assms(1)] assms(3) m by blast
      from m True obtain cap av where c: "gpu_Capacity (gpu_at s a) = Some cap"
        "gpu_Available (gpu_at s a) = Some av" "Tflops cap' - Tflops av' = Tflops cap - Tflops av"
        "Vram cap' - Vram av' = Vram cap - Vram av" using assms(6) [of cap' av'] by auto
      have "held_tflops x (uniqueAllocation s) (Some cap') n = held_tflops x (uniqueAllocation s) (Some cap) n"
        unfolding held_tflops_def
      proof (rule arg_cong [of _ _ sum_list], rule map_cong [OF refl])
        fix p assume p: "p \<in> set (uniqueAllocation s)"
        obtain u r where ur: "p = (u, r)" by (cases p)
        show "(case p of (u, r) \<Rightarrow> occ (ar_GPUNames r) n * req_tflops x (ar_Request r) (Some cap'))
            = (case p of (u, r) \<Rightarrow> occ (ar_GPUNames r) n * req_tflops x (ar_Request r) (Some cap))"
        proof (cases "n \<in> set (ar_GPUNames r)")
          case True
          have "r \<in> snd ` set (uniqueAllocation s)" using p ur by force
          then show ?thesis using assms(5) [OF _ True c(1)] m \<open>b = a\<close> ur by simp
        next
          case False
          then have "occ (ar_GPUNames r) n = 0" by (simp add: occ_def count_list_0_iff)
          then show ?thesis using ur by simp
        qed
      qed
      moreover have "Tflops av = Tflops cap - held_tflops x (uniqueAllocation s) (Some cap) n
          \<and> Vram av = Vram cap - held_vram (uniqueAllocation s) n"
        using assms(2,3) c unfolding accounting_def by blast
      ultimately show ?thesis using c(3,4) mn by (simp add: algebra_simps)
    next
      case False
      with m show ?thesis by (intro accounting_at [OF assms(2) m(1)]) simp_all
    qed
  qed
  ultimately show ?thesis ..
qed

lemma sum_list_zero: "\<forall>p \<in> set m. f p = 0 \<Longrightarrow> sum_list (map f m) = (0 :: quantity)"
  by (induction m) auto

text \<open>Adding an object under a new name, idle or with unknown availability.\<close>

lemma inv_new_gpu:
  assumes "al_wf s" "accounting x s" "map_of (gpuStore s) n = None" "gpu_Name g = n"
    and "\<And>r. r \<in> snd ` set (uniqueAllocation s) \<Longrightarrow> n \<notin> set (ar_GPUNames r)"
    and "gpu_Available g = None \<or> gpu_Available g = gpu_Capacity g"
  shows "al_wf (store_gpu n (length (al_heap s)) (s\<lparr>al_heap := al_heap s @ [g]\<rparr>))
    \<and> accounting x (store_gpu n (length (al_heap s)) (s\<lparr>al_heap := al_heap s @ [g]\<rparr>))"
proof -
  let ?s = "store_gpu n (length (al_heap s)) (s\<lparr>al_heap := al_heap s @ [g]\<rparr>)"
  have at: "gpu_at ?s b = (if b = length (al_heap s) then g else gpu_at s b)" if "b \<le> length (al_heap s)" for b
    using that by (auto simp: gpu_at_def store_gpu_def nth_append)
  have st: "map_of (gpuStore ?s) m = (if m = n then Some (length (al_heap s)) else map_of (gpuStore s) m)" for m
    by (simp add: store_gpu_def update_conv')
  have u: "uniqueAllocation ?s = uniqueAllocation s" by (simp add: store_gpu_def)
  have old: "b < length (al_heap s)" if "map_of (gpuStore s) m = Some b" for m b using al_wf_at [OF assms(1) that] by simp
  have "occ (ar_GPUNames r) n = 0" if "(w, r) \<in> set (uniqueAllocation s)" for w r
    using assms(5) [of r] that by (force simp: occ_def count_list_0_iff)
  then have held: "held_tflops x (uniqueAllocation s) c n = 0" "held_vram (uniqueAllocation s) n = 0" for c
    by (auto simp: held_tflops_def held_vram_def intro!: sum_list_zero)
  have wf: "al_wf ?s"
    unfolding al_wf_def u st
  proof (intro conjI allI impI)
    show "distinct (map fst (gpuStore ?s))" using assms(1) by (simp add: al_wf_def store_gpu_def distinct_update)
    show "distinct (map fst (uniqueAllocation s))" using assms(1) by (simp add: al_wf_def)
    fix m b assume m: "(if m = n then Some (length (al_heap s)) else map_of (gpuStore s) m) = Some b"
    then have b: "b \<le> length (al_heap s)" using old [of m b] by (auto split: if_splits)
    then show "b < length (al_heap ?s)" by (simp add: store_gpu_def)
    show "gpu_Name (gpu_at ?s b) = m"
      using m assms(4) at [OF b] al_wf_at [OF assms(1), of m b] by (auto split: if_splits)
  qed
  moreover have "accounting x ?s"
    unfolding accounting_def u st
  proof (intro allI impI)
    fix m b cap av
    assume m: "(if m = n then Some (length (al_heap s)) else map_of (gpuStore s) m) = Some b"
      and g: "gpu_Capacity (gpu_at ?s b) = Some cap" "gpu_Available (gpu_at ?s b) = Some av"
    have b: "b \<le> length (al_heap s)" using m old [of m b] by (auto split: if_splits)
    show "Tflops av = Tflops cap - held_tflops x (uniqueAllocation s) (Some cap) m
        \<and> Vram av = Vram cap - held_vram (uniqueAllocation s) m"
    proof (cases "m = n")
      case True
      then show ?thesis using m g at [OF b] assms(6) held by auto
    next
      case False
      then have "map_of (gpuStore s) m = Some b" "b < length (al_heap s)" using m old by auto
      then show ?thesis using g at [OF b] accounting_at [OF assms(2), of m b cap av] by simp
    qed
  qed
  ultimately show ?thesis ..
qed

section \<open>Reachable allocator states\<close>

definition plain_requests :: "allocator \<Rightarrow> bool" where
  "plain_requests s \<longleftrightarrow> (\<forall>u r. map_of (uniqueAllocation s) u = Some r \<longrightarrow>
     ComputePercent (ar_Request r) = 0 \<and> uid_of r = u)"

definition alloc_inv :: "ext \<Rightarrow> allocator \<Rightarrow> bool" where
  "alloc_inv x s \<longleftrightarrow> al_wf s \<and> accounting x s \<and> plain_requests s"

text \<open>
  What the invariant needs of a GPU event: a GPU that is already in the store has a known capacity,
  and one that is new is idle and not named by any recorded request.
\<close>

definition gpu_event_ok :: "allocator \<Rightarrow> gpu \<Rightarrow> bool" where
  "gpu_event_ok s g = (case map_of (gpuStore s) (gpu_Name g) of
       Some a \<Rightarrow> gpu_Capacity (gpu_at s a) \<noteq> None
     | None \<Rightarrow> (gpu_Available g = None \<or> gpu_Available g = gpu_Capacity g)
         \<and> (\<forall>r \<in> snd ` set (uniqueAllocation s). gpu_Name g \<notin> set (ar_GPUNames r)))"

fun event_ok :: "allocator \<Rightarrow> gpu informer_event \<Rightarrow> bool" where
  "event_ok s (AddFunc (Typed g)) = gpu_event_ok s g"
| "event_ok s (UpdateFunc _ (Typed g)) = gpu_event_ok s g"
| "event_ok s _ = True"

datatype alloc_op =
    OpBind "string list" alloc_request
  | OpDealloc string
  | OpAdjust adjust_request
  | OpEvent "gpu informer_event"
  | OpSync "string \<Rightarrow> update_outcome"

inductive alloc_step :: "ext \<Rightarrow> allocator \<Rightarrow> alloc_op \<Rightarrow> allocator \<Rightarrow> bool" for x where
  bind: "Bind x names req s = (s', Inr r) \<Longrightarrow> ComputePercent (ar_Request req) = 0
     \<Longrightarrow> alloc_step x s (OpBind names req) s'"
| dealloc: "map_of (uniqueAllocation s) uid = Some r \<Longrightarrow>
     Dealloc x (ar_Workload r) (ar_GPUNames r) (ar_PodMeta r) s = (s', Deallocated)
     \<Longrightarrow> alloc_step x s (OpDealloc uid) s'"
| adjust: "AdjustAllocation x adj False s = (s', res, None) \<Longrightarrow> ComputePercent (adj_NewRequest adj) = 0
     \<Longrightarrow> alloc_step x s (OpAdjust adj) s'"
| event: "event_ok s ev \<Longrightarrow> gpu_informer x ev s = (s', False) \<Longrightarrow> alloc_step x s (OpEvent ev) s'"
| sync: "SyncGPUsToK8s outcome s = (sent, nodes, s') \<Longrightarrow> alloc_step x s (OpSync outcome) s'"

inductive_cases alloc_stepE: "alloc_step x s op s'"

inductive alloc_reachable :: "ext \<Rightarrow> allocator \<Rightarrow> bool" for x where
  start: "alloc_reachable x NewGpuAllocator"
| step: "alloc_reachable x s \<Longrightarrow> alloc_step x s op s' \<Longrightarrow> alloc_reachable x s'"

lemma plain_snd: "plain_requests s \<Longrightarrow> al_wf s \<Longrightarrow> r \<in> snd ` set (uniqueAllocation s) \<Longrightarrow> ComputePercent (ar_Request r) = 0"
  by (auto simp: plain_requests_def al_wf_def map_of_eq_Some_iff)

lemma plain_same: "uniqueAllocation s' = uniqueAllocation s \<Longrightarrow> plain_requests s' = plain_requests s"
  by (simp add: plain_requests_def)

lemma inv_core: "same_core s s' \<Longrightarrow> alloc_inv x s \<Longrightarrow> alloc_inv x s'"
  using same_core_inv [of s s' x] plain_same [of s' s] by (simp add: alloc_inv_def same_core_def)

lemma inv_Bind:
  assumes "alloc_inv x s" "Bind x names req s = (s', Inr r)" "ComputePercent (ar_Request req) = 0"
  shows "alloc_inv x s'"
proof -
  obtain res req' where r: "r = (res, req')" by (cases r)
  have wf: "al_wf s" using assms(1) by (simp add: alloc_inv_def)
  from assms(2) [unfolded r] wf obtain s1 node where
    sh: "store_shift (\<lambda>m c. occ names m * - req_tflops x (ar_Request req) c)
        (\<lambda>m. occ names m * - Vram (ar_Request req)) s s1"
    and q: "req' = req\<lparr>ar_GPUNames := names\<rparr>"
    and s': "s' = (addAllocationMap node (ar_PodMeta req)
         (s1\<lparr>quotaStore := AllocateQuota (nn_Namespace (ar_Workload req)) req (quotaStore s1)\<rparr>))
       \<lparr>uniqueAllocation := AList.update (uid_of req) req' (uniqueAllocation s1),
        podNamespaceNsToPodUID := AList.update (pod_key (ar_PodMeta req)) (uid_of req) (podNamespaceNsToPodUID s1)\<rparr>"
    by (rule Bind_success)
  have "uniqueAllocation s' = AList.update (uid_of req) req' (uniqueAllocation s)"
    using s' store_shift_frame(2) [OF sh] by simp
  then have "plain_requests s'"
    using assms(1,3) q by (auto simp: alloc_inv_def plain_requests_def update_conv' split: if_splits)
  then show ?thesis using Bind_wf [OF assms(2) wf] Bind_accounting [OF assms(2) wf] assms(1)
    by (simp add: alloc_inv_def)
qed

lemma inv_Dealloc:
  assumes "alloc_inv x s" "map_of (uniqueAllocation s) u = Some r"
    and "Dealloc x (ar_Workload r) (ar_GPUNames r) (ar_PodMeta r) s = (s', Deallocated)"
  shows "alloc_inv x s'"
proof -
  have inv: "al_wf s" "accounting x s" "plain_requests s" using assms(1) by (simp_all add: alloc_inv_def)
  have u: "uid_of r = u" using inv(3) assms(2) by (simp add: plain_requests_def)
  have "al_wf s' \<and> accounting x s'"
    by (rule Dealloc_accounting [OF assms(3) inv(1,2)]) (use u assms(2) in simp)
  moreover have "uniqueAllocation s' = AList.delete (uid_of r) (uniqueAllocation s)"
    using Dealloc_success [OF assms(3) inv(1)] by metis
  then have "plain_requests s'" using inv(3) by (auto simp: plain_requests_def delete_conv' split: if_splits)
  ultimately show ?thesis by (simp add: alloc_inv_def)
qed

lemma inv_Adjust:
  assumes "alloc_inv x s" "AdjustAllocation x adj False s = (s', res, None)" "ComputePercent (adj_NewRequest adj) = 0"
  shows "alloc_inv x s'"
proof -
  have inv: "al_wf s" "accounting x s" "plain_requests s" using assms(1) by (simp_all add: alloc_inv_def)
  from Adjust_success [OF assms(2) inv(1)] obtain request where
    m: "map_of (uniqueAllocation s) (adj_PodUID adj) = Some request"
    and u: "uniqueAllocation s' = AList.update (adj_PodUID adj)
       (request\<lparr>ar_Request := adj_NewRequest adj, ar_Limit := adj_NewLimit adj\<rparr>) (uniqueAllocation s)" by metis
  have "plain_requests s'"
    using inv(3) m assms(3) by (auto simp: plain_requests_def u update_conv' split: if_splits)
  moreover have "al_wf s' \<and> accounting x s'"
    by (rule Adjust_accounting [OF assms(2) inv(1,2) assms(3)]) (use inv(3) in \<open>simp add: plain_requests_def\<close>)
  ultimately show ?thesis by (simp add: alloc_inv_def)
qed

lemma inv_set_known:
  assumes "alloc_inv x s" "map_of (gpuStore s) n = Some a" "gpu_Name g = n"
    and "\<And>cap' av'. gpu_Capacity g = Some cap' \<Longrightarrow> gpu_Available g = Some av' \<Longrightarrow>
      \<exists>cap av. gpu_Capacity (gpu_at s a) = Some cap \<and> gpu_Available (gpu_at s a) = Some av
        \<and> Tflops cap' - Tflops av' = Tflops cap - Tflops av \<and> Vram cap' - Vram av' = Vram cap - Vram av"
  shows "alloc_inv x (set_gpu a g s)"
proof -
  have inv: "al_wf s" "accounting x s" "plain_requests s" using assms(1) by (simp_all add: alloc_inv_def)
  have "al_wf (set_gpu a g s) \<and> accounting x (set_gpu a g s)"
    by (rule inv_set_gpu [OF inv(1,2) assms(2,3) _ assms(4)]) (use plain_snd [OF inv(3,1)] in simp_all)
  then show ?thesis using inv(3) by (simp add: alloc_inv_def plain_requests_def set_gpu_def)
qed

lemma inv_store_new:
  assumes "alloc_inv x s" "map_of (gpuStore s) (gpu_Name g) = None" "gpu_event_ok s g"
    and "gpu_Name g' = gpu_Name g" "gpu_Available g' = None \<or> gpu_Available g' = gpu_Capacity g'"
  shows "alloc_inv x (store_gpu (gpu_Name g) (length (al_heap s)) (s\<lparr>al_heap := al_heap s @ [g']\<rparr>))"
proof -
  have inv: "al_wf s" "accounting x s" "plain_requests s" using assms(1) by (simp_all add: alloc_inv_def)
  note n = inv_new_gpu [OF inv(1,2) assms(2,4) _ assms(5)]
  have "al_wf (store_gpu (gpu_Name g) (length (al_heap s)) (s\<lparr>al_heap := al_heap s @ [g']\<rparr>))
      \<and> accounting x (store_gpu (gpu_Name g) (length (al_heap s)) (s\<lparr>al_heap := al_heap s @ [g']\<rparr>))"
    by (rule n) (use assms(2,3) in \<open>auto simp: gpu_event_ok_def\<close>)
  then show ?thesis using inv(3) by (simp add: alloc_inv_def plain_requests_def store_gpu_def)
qed

lemma sync_fields [simp]:
  "gpu_Name (syncGPUMetadataAndStatusFromCluster old g) = gpu_Name old"
  "gpu_Capacity (syncGPUMetadataAndStatusFromCluster old g) = gpu_Capacity old"
  "gpu_Available (syncGPUMetadataAndStatusFromCluster old g) = gpu_Available old"
  by (simp_all add: syncGPUMetadataAndStatusFromCluster_def)

lemma capacity_diff_balance:
  assumes "handleGPUUpdateCapacityDiff val old g = Some new" "gpu_Capacity old \<noteq> None"
    and "gpu_Capacity new = Some cap'" "gpu_Available new = Some av'"
  shows "\<exists>cap av. gpu_Capacity old = Some cap \<and> gpu_Available old = Some av
    \<and> Tflops cap' - Tflops av' = Tflops cap - Tflops av \<and> Vram cap' - Vram av' = Vram cap - Vram av"
  using assms
  by (auto simp: handleGPUUpdateCapacityDiff_def apply_diff_def Let_def split: option.splits if_splits)

lemma capacity_diff_name: "handleGPUUpdateCapacityDiff val old g = Some new \<Longrightarrow> gpu_Name new = gpu_Name old"
  by (auto simp: handleGPUUpdateCapacityDiff_def Let_def split: option.splits)

lemma inv_handleGPUCreate:
  assumes "alloc_inv x s" "gpu_event_ok s g" "handleGPUCreate g s = (s', False)"
  shows "alloc_inv x s'"
proof (cases "map_of (gpuStore s) (gpu_Name g)")
  case None
  let ?cap = "case gpu_Capacity g of None \<Rightarrow> zero_resource | Some c \<Rightarrow> c"
  let ?av = "case gpu_Available g of None \<Rightarrow> ?cap | Some v \<Rightarrow> v"
  let ?g = "g\<lparr>gpu_Capacity := Some ?cap, gpu_Available := Some ?av\<rparr>"
  let ?s = "store_gpu (gpu_Name g) (length (al_heap s)) (s\<lparr>al_heap := al_heap s @ [?g]\<rparr>)"
  have "addOrUpdateGPUMaps (length (al_heap s)) ?s = (s', False)"
    using assms(3) None by (simp add: handleGPUCreate_def new_gpu_def Let_def)
  then have "same_core ?s s'" by (rule addOrUpdateGPUMaps_core)
  moreover have "alloc_inv x ?s"
    by (rule inv_store_new [OF assms(1) None assms(2)])
      (use assms(2) None in \<open>auto simp: gpu_event_ok_def split: option.splits\<close>)
  ultimately show ?thesis by (rule inv_core)
next
  case (Some a)
  have nm: "gpu_Name (gpu_at s a) = gpu_Name g" using al_wf_at Some assms(1) by (simp add: alloc_inv_def)
  define s1 where "s1 = (if gpu_GPUModel g \<noteq> '''' \<and> map_of (GPUCapacityMap s) (gpu_GPUModel g) = None
      then s\<lparr>GPUCapacityMap := AList.update (gpu_GPUModel g) (the (gpu_Capacity g)) (GPUCapacityMap s)\<rparr> else s)"
  have s1: "same_core s s1" "s' = set_gpu a (syncGPUMetadataAndStatusFromCluster (gpu_at s1 a) g) s1"
    using assms(3) Some unfolding s1_def by (auto simp: handleGPUCreate_def Let_def same_core_def split: if_splits)
  have st: "map_of (gpuStore s1) (gpu_Name g) = Some a" "gpu_at s1 a = gpu_at s a"
    using s1(1) Some by (simp_all add: same_core_def gpu_at_def)
  show ?thesis unfolding s1(2)
    by (rule inv_set_known [OF inv_core [OF s1(1) assms(1)] st(1)]) (use st nm in auto)
qed

lemma inv_handleGPUUpdate:
  assumes "alloc_inv x s" "gpu_event_ok s g" "handleGPUUpdate x g s = (s', False)"
  shows "alloc_inv x s'"
proof (cases "map_of (gpuStore s) (gpu_Name g)")
  case None
  let ?s = "store_gpu (gpu_Name g) (length (al_heap s)) (s\<lparr>al_heap := al_heap s @ [g]\<rparr>)"
  have "same_core ?s s'"
    using assms(3) None by (auto simp: handleGPUUpdate_def new_gpu_def intro: addOrUpdateGPUMaps_core)
  moreover have "alloc_inv x ?s"
    by (rule inv_store_new [OF assms(1) None assms(2)])
      (use assms(2) None in \<open>auto simp: gpu_event_ok_def\<close>)
  ultimately show ?thesis by (rule inv_core)
next
  case (Some a)
  have nm: "gpu_Name (gpu_at s a) = gpu_Name g" using al_wf_at Some assms(1) by (simp add: alloc_inv_def)
  obtain old where old: "handleGPUUpdateCapacityDiff (x_val x) (gpu_at s a) g = Some old"
    and u: "addOrUpdateGPUMaps a (set_gpu a (syncGPUMetadataAndStatusFromCluster old g) s) = (s', False)"
    using assms(3) Some by (auto simp: handleGPUUpdate_def split: option.splits)
  have "alloc_inv x (set_gpu a (syncGPUMetadataAndStatusFromCluster old g) s)"
    by (rule inv_set_known [OF assms(1) Some])
      (use capacity_diff_name [OF old] nm capacity_diff_balance [OF old] assms(2) Some in
        \<open>simp_all add: gpu_event_ok_def\<close>)
  then show ?thesis using inv_core addOrUpdateGPUMaps_core [OF u] by blast
qed

lemma map_of_delete_le: "map_of (AList.delete k m) n = Some a \<Longrightarrow> map_of m n = Some a"
  by (auto simp: delete_conv' split: if_splits)

lemma inv_handleGPUDelete:
  assumes "alloc_inv x s"
  shows "alloc_inv x (handleGPUDelete g s)"
proof -
  let ?s = "handleGPUDelete g s"
  have f: "gpuStore ?s = AList.delete (gpu_Name g) (gpuStore s)" "al_heap ?s = al_heap s"
      "uniqueAllocation ?s = uniqueAllocation s" by (simp_all add: handleGPUDelete_def Let_def)
  have inv: "al_wf s" "accounting x s" "plain_requests s" using assms by (simp_all add: alloc_inv_def)
  have "al_wf ?s"
    using inv(1) unfolding al_wf_def f gpu_at_def by (metis distinct_delete map_of_delete_le)
  moreover have "accounting x ?s"
    unfolding accounting_def f
    by (intro allI impI, rule accounting_at [OF inv(2)]) (auto simp: gpu_at_def f dest: map_of_delete_le)
  ultimately show ?thesis using inv(3) plain_same [OF f(3)] by (simp add: alloc_inv_def)
qed

lemma inv_informer:
  "gpu_informer x ev s = (s', False) \<Longrightarrow> event_ok s ev \<Longrightarrow> alloc_inv x s \<Longrightarrow> alloc_inv x s'"
proof (induction x ev s rule: gpu_informer.induct)
  case (1 x g s)
  then show ?case using inv_handleGPUCreate [of x s g s'] by simp
next
  case (2 x g s)
  then show ?case using inv_handleGPUDelete [of x s g] by simp
next
  case (3 x g s)
  then show ?case using inv_handleGPUDelete [of x s g] by simp
next
  case (4 x old g s)
  then show ?case using inv_handleGPUUpdate [of x s g s'] by simp
qed simp_all

lemma sync_gpus_core: "sync_gpus outcome keys s = (sent, nodes, s') \<Longrightarrow> same_core s s'"
proof (induction outcome keys s arbitrary: sent nodes s' rule: sync_gpus.induct)
  case (2 outcome key keys s)
  show ?case
  proof (cases "map_of (gpuStore s) key")
    case None
    then show ?thesis using 2 by simp
  next
    case (Some a)
    let ?s1 = "if outcome key = UpdateFailed then markGPUDirty key s else s"
    obtain sent1 nodes1 s2 where r: "sync_gpus outcome keys ?s1 = (sent1, nodes1, s2)"
      by (cases "sync_gpus outcome keys ?s1")
    then have "s2 = s'" using "2.prems" Some by (simp add: Let_def)
    then have "same_core ?s1 s'" using "2.IH"(2) [OF Some refl refl] r by blast
    then show ?thesis by (simp add: same_core_def markGPUDirty_def split: if_splits)
  qed
qed (simp add: same_core_def)

lemma inv_sync: "SyncGPUsToK8s outcome s = (sent, nodes, s') \<Longrightarrow> alloc_inv x s \<Longrightarrow> alloc_inv x s'"
  unfolding SyncGPUsToK8s_def
  by (drule sync_gpus_core, rule inv_core) (auto simp: same_core_def)

lemma inv_step: "alloc_step x s op s' \<Longrightarrow> alloc_inv x s \<Longrightarrow> alloc_inv x s'"
  by (induction rule: alloc_step.induct)
    (blast intro: inv_Bind inv_Dealloc inv_Adjust inv_informer inv_sync)+

lemma inv_start: "alloc_inv x NewGpuAllocator"
  by (simp add: alloc_inv_def NewGpuAllocator_def al_wf_def accounting_def plain_requests_def)

end
