(* ===== verification/PodUtils.thy ===== *)
theory PodUtils
  imports ResourceUtils
begin

unbundle bit_operations_syntax

text \<open>
  Helpers on Kubernetes objects, \<^verbatim>\<open>internal/utils/reconcile.go\<close> and
  \<^verbatim>\<open>internal/utils/owner_ref_utils.go\<close>: finalizer handling, the retry delay, the content hash,
  pod predicates and the owner-reference walks. Answers of the API server and of the deletion hook,
  the random number and the JSON encoder's output are arguments. A walk up the owner references
  follows whatever objects the API server returns and so need not end: it is a partial function with
  the value \<open>None\<close> for a run that does not return.
\<close>

section \<open>Finalizers\<close>

text \<open>
  The object after the call (as the API server has it), and the two results. \<open>hook\<close> is the result of
  \<^verbatim>\<open>deleteHook\<close> (\<open>None\<close>: it failed), \<open>updateOK\<close> whether the update is accepted.
\<close>

datatype finalizer_error = HookFailed | UpdateFailed

definition HandleFinalizer ::
  "bool option \<Rightarrow> bool \<Rightarrow> object_meta \<Rightarrow> object_meta \<times> bool \<times> finalizer_error option" where
  "HandleFinalizer hook updateOK obj =
     (if om_Deleting obj
      then if Finalizer \<in> set (om_Finalizers obj)
           then (case hook of
                   None \<Rightarrow> (obj, True, Some HookFailed)
                 | Some True \<Rightarrow>
                     if updateOK then (obj\<lparr>om_Finalizers := removeAll Finalizer (om_Finalizers obj)\<rparr>, True, None)
                     else (obj, False, Some UpdateFailed)
                 | Some False \<Rightarrow> (obj, False, None))
           else (obj, False, None)
      else if Finalizer \<in> set (om_Finalizers obj) then (obj, False, None)
      else if updateOK then (obj\<lparr>om_Finalizers := om_Finalizers obj @ [Finalizer]\<rparr>, True, None)
      else (obj, False, Some UpdateFailed))"

section \<open>Retry delay\<close>

text \<open>Durations are nanoseconds; \<open>u\<close> is the result of \<^verbatim>\<open>rand.Float64\<close>.\<close>

definition CalculateExponentialBackoffWithJitter :: "(float64 \<Rightarrow> int) \<Rightarrow> rat \<Rightarrow> int \<Rightarrow> int" where
  "CalculateExponentialBackoffWithJitter impl u retryCount =
     (let baseDelay = 3 * 10 ^ 9; maxDelay = 60 * 10 ^ 9;
          n = (if 10 < retryCount then 10 else retryCount);
          backoff = f64_mul (f64_of_int baseDelay) (fl64 (pow2 n));
          jitter = f64_mul (Fin u) backoff
      in min (max (f64_to_int64 impl jitter) baseDelay) maxDelay)"

section \<open>Content hash\<close>

text \<open>
  FNV-1a over the bytes of the arguments: a string as it is, anything else as its JSON encoding, both
  given here as byte strings. Printed as the eight bytes of the sum in lower-case hexadecimal.
\<close>

definition fnv_step :: "64 word \<Rightarrow> char \<Rightarrow> 64 word" where
  "fnv_step h c = (h XOR of_nat (of_char c)) * 1099511628211"

definition fnv64a :: "string \<Rightarrow> 64 word" where
  "fnv64a bs = foldl fnv_step 14695981039346656037 bs"

definition hex_digit :: "nat \<Rightarrow> char" where
  "hex_digit d = (if d < 10 then char_of (48 + d) else char_of (87 + d))"

definition hex16 :: "64 word \<Rightarrow> string" where
  "hex16 w = map (\<lambda>i. hex_digit (unat (drop_bit (60 - 4 * i) w AND 15))) [0..<16]"

definition GetObjectHash :: "string list \<Rightarrow> string" where
  "GetObjectHash objs = hex16 (foldl (foldl fnv_step) 14695981039346656037 objs)"

definition CompareAndGetObjectHash :: "string \<Rightarrow> string list \<Rightarrow> bool \<times> string" where
  "CompareAndGetObjectHash hash objs = (let newHash = GetObjectHash objs in (hash \<noteq> newHash, newHash))"

section \<open>Pod predicates\<close>

text \<open>
  The parts of a pod's spec and status the predicates read. A required node-affinity term is its list
  of \<^verbatim>\<open>MatchFields\<close> and its list of \<^verbatim>\<open>MatchExpressions\<close>, each a key and whether the operator
  is \<^verbatim>\<open>In\<close>.
\<close>

record container =
  ctr_Requests :: "string list option"  \<comment> \<open>names of the requested resources; \<open>None\<close> for nil\<close>
  ctr_Limits :: "string list"

record pod_spec =
  ps_Containers :: "container list"
  ps_NodeSelector :: "(string, string) gomap"
  ps_RequiredTerms :: "((string \<times> bool) list \<times> (string \<times> bool) list) list"
  ps_SchedulerName :: string

definition TensorFusionEnabledLabelKey :: string where
  "TensorFusionEnabledLabelKey = ''tensor-fusion.ai/enabled''"

definition TrueStringValue :: string where
  "TrueStringValue = ''true''"

definition ResourceNameFieldRef :: string where
  "ResourceNameFieldRef = ''metadata.name''"

definition GPUResourceNames :: "string list" where
  "GPUResourceNames = [''nvidia.com/gpu'', ''amd.com/gpu'']"

definition containsGPUResources :: "string list \<Rightarrow> bool" where
  "containsGPUResources res \<longleftrightarrow> list_ex (\<lambda>n. List.member res n) GPUResourceNames"

definition HasGPUResourceRequest :: "pod_spec \<Rightarrow> bool" where
  "HasGPUResourceRequest spec \<longleftrightarrow>
     list_ex (\<lambda>c. case ctr_Requests c of None \<Rightarrow> False
                  | Some r \<Rightarrow> containsGPUResources r \<or> containsGPUResources (ctr_Limits c)) (ps_Containers spec)"

definition IsTensorFusionPod :: "pod \<Rightarrow> bool" where
  "IsTensorFusionPod p \<longleftrightarrow> get_str (om_Labels (pod_Meta p)) TensorFusionEnabledLabelKey = TrueStringValue"

definition IsDesignatedNodePod :: "pod \<Rightarrow> pod_spec \<Rightarrow> bool" where
  "IsDesignatedNodePod p spec \<longleftrightarrow>
     pod_NodeName p \<noteq> ''''
     \<or> get_str (ps_NodeSelector spec) KubernetesHostNameLabel \<noteq> ''''
     \<or> list_ex (\<lambda>(fields, exprs).
         list_ex (\<lambda>(k, isIn). k = ResourceNameFieldRef \<and> isIn) fields
         \<or> list_ex (\<lambda>(k, isIn). k = KubernetesHostNameLabel \<and> isIn) exprs) (ps_RequiredTerms spec)"

fun IsPodConditionTrue :: "(string \<times> string) list \<Rightarrow> string \<Rightarrow> bool" where
  "IsPodConditionTrue [] t = False"
| "IsPodConditionTrue ((ty, status) # cs) t = (if ty = t then status = ''True'' else IsPodConditionTrue cs t)"

definition IsPodStopped :: "string \<Rightarrow> bool" where
  "IsPodStopped phase \<longleftrightarrow> phase = ''Failed'' \<or> phase = ''Succeeded''"

definition EqualConditionsDisregardTransitionTime :: "condition list \<Rightarrow> condition list \<Rightarrow> bool" where
  "EqualConditionsDisregardTransitionTime a b \<longleftrightarrow>
     length a = length b \<and> list_all2 (\<lambda>c d. cond_Type c = cond_Type d \<and> cond_Status c = cond_Status d
       \<and> cond_Reason c = cond_Reason d \<and> cond_Message c = cond_Message d) a b"

definition GPUNodePoolIdentifierLabelPrefix :: string where
  "GPUNodePoolIdentifierLabelPrefix = ''tensor-fusion.ai/pool-''"

fun ExtractPoolNameFromNodeLabel :: "(string, string) gomap \<Rightarrow> string" where
  "ExtractPoolNameFromNodeLabel [] = ''''"
| "ExtractPoolNameFromNodeLabel ((k, v) # ls) =
     (if HasPrefix k GPUNodePoolIdentifierLabelPrefix then drop (length GPUNodePoolIdentifierLabelPrefix) k
      else ExtractPoolNameFromNodeLabel ls)"

section \<open>Owner references\<close>

record owner_ref =
  or_APIVersion :: string
  or_Kind :: string
  or_Name :: string
  or_UID :: string
  or_Controller :: bool

record owned =
  ow_APIVersion :: string
  ow_Kind :: string
  ow_Name :: string
  ow_UID :: string
  ow_Owners :: "owner_ref list"

datatype owner_result = NoOwner | OwnerIs owner_ref | OwnerLookupFailed

definition self_ref :: "bool \<Rightarrow> owned \<Rightarrow> owner_ref" where
  "self_ref ctl o' = \<lparr>or_APIVersion = ow_APIVersion o', or_Kind = ow_Kind o', or_Name = ow_Name o',
     or_UID = ow_UID o', or_Controller = ctl\<rparr>"

definition controllerOf :: "owned \<Rightarrow> owner_ref option" where
  "controllerOf o' = find or_Controller (ow_Owners o')"

definition preferred_owner :: "owned \<Rightarrow> owner_ref" where
  "preferred_owner o' = (case controllerOf o' of Some r \<Rightarrow> r | None \<Rightarrow> hd (ow_Owners o'))"

text \<open>\<open>get\<close> is the API server: the object an owner reference names.\<close>

partial_function (option) root_owner :: "(owner_ref \<Rightarrow> owned get_result) \<Rightarrow> owned \<Rightarrow> owner_result option" where
  "root_owner get cur =
     (if ow_Owners cur = [] then Some (OwnerIs (self_ref False cur))
      else case get (preferred_owner cur) of
             NotFound \<Rightarrow> Some (OwnerIs (preferred_owner cur))
           | GetFailed \<Rightarrow> Some OwnerLookupFailed
           | Found nxt \<Rightarrow> root_owner get nxt)"

definition FindRootOwnerReference :: "(owner_ref \<Rightarrow> owned get_result) \<Rightarrow> owned \<Rightarrow> owner_result option" where
  "FindRootOwnerReference get obj = (if ow_Owners obj = [] then Some NoOwner else root_owner get obj)"

definition FindFirstLevelOwnerReference :: "owned \<Rightarrow> owner_ref option" where
  "FindFirstLevelOwnerReference obj =
     (case ow_Owners obj of
        [] \<Rightarrow> if ow_UID obj = '''' then None
             else Some \<lparr>or_APIVersion = ''v1'', or_Kind = ''Pod'', or_Name = ow_Name obj, or_UID = ow_UID obj,
                        or_Controller = True\<rparr>
      | r # rs \<Rightarrow> if or_UID r = '''' then None else Some r)"

partial_function (option) root_controller :: "(owner_ref \<Rightarrow> owned get_result) \<Rightarrow> owned \<Rightarrow> owner_result option" where
  "root_controller get cur =
     (case controllerOf cur of
        None \<Rightarrow> Some (OwnerIs (self_ref True cur))
      | Some r \<Rightarrow> (case get r of
            NotFound \<Rightarrow> Some (OwnerIs r)
          | GetFailed \<Rightarrow> Some OwnerLookupFailed
          | Found nxt \<Rightarrow> root_controller get nxt))"

definition FindRootControllerRef :: "(owner_ref \<Rightarrow> owned get_result) \<Rightarrow> owned \<Rightarrow> owner_result option" where
  "FindRootControllerRef get obj = (if controllerOf obj = None then Some NoOwner else root_controller get obj)"

definition GetPodControllerRef :: "(owner_ref \<Rightarrow> owned get_result) \<Rightarrow> owned \<Rightarrow> owner_result" where
  "GetPodControllerRef get p =
     (case controllerOf p of
        None \<Rightarrow> NoOwner
      | Some r \<Rightarrow>
          let parent = (case get r of NotFound \<Rightarrow> Inr (Some r) | GetFailed \<Rightarrow> Inl () | Found o' \<Rightarrow> Inr (controllerOf o'));
              indirect = (\<lambda>kind. case parent of Inl _ \<Rightarrow> OwnerLookupFailed
                                 | Inr (Some q) \<Rightarrow> OwnerIs (if or_Kind q = kind then q else r)
                                 | Inr None \<Rightarrow> OwnerIs r)
          in if or_Kind r = ''ReplicaSet'' then indirect ''Deployment''
             else if or_Kind r = ''Job'' then indirect ''CronJob''
             else OwnerIs r)"

section \<open>Facts\<close>

text \<open>The owner chain of an object ends: the walk meets an object without owner or a failing lookup.\<close>

inductive chain_ends :: "(owner_ref \<Rightarrow> owned get_result) \<Rightarrow> owned \<Rightarrow> bool" for get where
  root: "ow_Owners cur = [] \<Longrightarrow> chain_ends get cur"
| gone: "ow_Owners cur \<noteq> [] \<Longrightarrow> get (preferred_owner cur) \<in> {NotFound, GetFailed} \<Longrightarrow> chain_ends get cur"
| up: "ow_Owners cur \<noteq> [] \<Longrightarrow> get (preferred_owner cur) = Found nxt \<Longrightarrow> chain_ends get nxt \<Longrightarrow> chain_ends get cur"

inductive_simps chain_ends_simps: "chain_ends get cur"

lemma root_owner_returns: "chain_ends get cur \<Longrightarrow> \<exists>r. root_owner get cur = Some r"
proof (induction rule: chain_ends.induct)
  case (root cur)
  then show ?case by (subst root_owner.simps) simp
next
  case (gone cur)
  then show ?case by (subst root_owner.simps) auto
next
  case (up cur nxt)
  then show ?case by (subst root_owner.simps) simp
qed

lemma root_owner_chain: "root_owner get cur = Some r \<Longrightarrow> chain_ends get cur"
proof (rule root_owner.raw_induct [where P = "\<lambda>get cur r. chain_ends get cur"], goal_cases)
  case (1 f get cur r)
  then show ?case
    by (cases "ow_Owners cur = []"; cases "get (preferred_owner cur)") (auto intro: chain_ends.intros)
qed simp

lemma foldl_concat: "foldl (foldl f) a xss = foldl f a (concat xss)"
  by (induction xss arbitrary: a) auto

lemma hex_digit_range: "d < 16 \<Longrightarrow> hex_digit d \<in> set ''0123456789abcdef''"
proof -
  have "\<forall>d \<in> set [0..<16]. hex_digit d \<in> set ''0123456789abcdef''" by code_simp
  then show "d < 16 \<Longrightarrow> hex_digit d \<in> set ''0123456789abcdef''" by simp
qed

lemma nibble_range: "unat ((w :: 64 word) AND 15) < 16"
proof -
  have "w AND 15 = take_bit 4 w" by (simp add: take_bit_eq_mask mask_eq_exp_minus_1)
  then show ?thesis unfolding unsigned_take_bit_eq [of 4 w, folded \<open>w AND 15 = take_bit 4 w\<close>] by (simp add: take_bit_eq_mod)
qed

section \<open>Properties\<close>


text \<open>
  The finalizer protocol. An object that is not being deleted gets the finalizer on the first call
  whose update succeeds and is left alone from then on; the finalizer of an object being deleted is
  removed only after the deletion hook has allowed it; and the caller is told to stop exactly when the
  object was written or the hook failed.
\<close>

theorem finalizer_protocol:
  "(case HandleFinalizer hook ok obj of (obj', stop, err) \<Rightarrow>
      (\<not> om_Deleting obj \<longrightarrow> err = None \<longrightarrow> Finalizer \<in> set (om_Finalizers obj') \<and> (\<forall>hook' ok'. HandleFinalizer hook' ok' obj' = (obj', False, None)))
    \<and> (Finalizer \<in> set (om_Finalizers obj) \<longrightarrow> Finalizer \<notin> set (om_Finalizers obj') \<longrightarrow>
         om_Deleting obj \<and> hook = Some True \<and> ok)
    \<and> (stop \<longleftrightarrow> obj' \<noteq> obj \<or> err = Some HookFailed)
    \<and> obj'\<lparr>om_Finalizers := om_Finalizers obj\<rparr> = obj)"
proof -
  have upd: "o'\<lparr>om_Finalizers := fs\<rparr> \<noteq> o'" if "fs \<noteq> om_Finalizers o'" for o' :: object_meta and fs
    using that by (metis object_meta.select_convs(7) object_meta.surjective object_meta.update_convs(7))
  have rm: "removeAll Finalizer fs \<noteq> fs" if "Finalizer \<in> set fs" for fs
    using that by (metis DiffE insertI1 set_removeAll)
  show ?thesis
    by (cases "hook = Some True"; cases ok; cases "om_Deleting obj")
      (auto simp: HandleFinalizer_def upd rm split: option.splits bool.splits)
qed

theorem finalizer_protocol_witness:
  "(let obj = \<lparr>om_Name = ''a'', om_Namespace = ''b'', om_UID = ''u'', om_Labels = [], om_Annotations = [],
      om_Deleting = False, om_Finalizers = []\<rparr>; (obj', stop, err) = HandleFinalizer None True obj
    in err = None \<and> Finalizer \<in> set (om_Finalizers obj') \<and> HandleFinalizer (Some True) False obj' = (obj', False, None))"
proof -
  define obj :: object_meta where "obj = \<lparr>om_Name = ''a'', om_Namespace = ''b'', om_UID = ''u'', om_Labels = [],
      om_Annotations = [], om_Deleting = False, om_Finalizers = []\<rparr>"
  have "\<not> om_Deleting obj" "snd (snd (HandleFinalizer None True obj)) = None"
    by (simp_all add: obj_def HandleFinalizer_def)
  then show ?thesis using finalizer_protocol [where hook = None and ok = True and obj = obj]
    by (simp add: Let_def obj_def split: prod.splits)
qed

text \<open>
  A content hash is sixteen lower-case hexadecimal digits, and it depends only on the
  concatenation of its arguments: arguments split differently but with the same bytes hash alike.
\<close>

theorem object_hash_of_concatenation:
  "GetObjectHash objs = GetObjectHash [concat objs] \<and> length (GetObjectHash objs) = 16
   \<and> set (GetObjectHash objs) \<subseteq> set ''0123456789abcdef''"
proof (intro conjI)
  show "GetObjectHash objs = GetObjectHash [concat objs]" by (simp add: GetObjectHash_def foldl_concat)
  show "length (GetObjectHash objs) = 16" by (simp add: GetObjectHash_def hex16_def)
  show "set (GetObjectHash objs) \<subseteq> set ''0123456789abcdef''"
    unfolding GetObjectHash_def hex16_def using hex_digit_range nibble_range by fastforce
qed

end
