(* ===== verification/SchedulerPlugin.thy ===== *)
theory SchedulerPlugin
  imports AllocatorSync PodUtils
begin

text \<open>
  The scheduler plugin \<^verbatim>\<open>GPUFit\<close>, \<^verbatim>\<open>internal/scheduler/gpuresources/gpuresources.go\<close>: the
  callbacks the Kubernetes scheduler framework makes while it places one pod, over the framework's
  cycle state. A status is its code. GPU objects the plugin keeps in the cycle state are pointers;
  they are kept here by value and read again from the allocator, by name, where the code dereferences
  them in a later callback. A nil dereference or a failed type assertion is the code \<open>FwPanic\<close>.
\<close>

section \<open>State\<close>

datatype fw_code = FwSuccess | FwError | FwUnschedulable | FwUnschedulableAndUnresolvable | FwSkip | FwPanic

record scheduling_state =
  sd_NodeGPUs :: "(string, gpu list) gomap"
  sd_ValidNodeGPUScore :: "(string, (string, int) gomap) gomap"
  sd_ValidNodeNotMatchingGPUScore :: "(string, (string, int) gomap) gomap"
  sd_FinalGPUs :: "string list"
  sd_PreemptPods :: "(string, name_namespace list) gomap"
  sd_IsPreemption :: bool
  sd_ScoringStrategy :: "strategy option"

record cycle_state =
  cs_AllocateRequest :: "alloc_request option"
  cs_SchedulingResult :: "scheduling_state option"
  cs_Simulation :: "filter_detail list option"

definition NewWithDeps :: "fit_config option \<Rightarrow> allocator \<Rightarrow> (fit_config \<times> allocator) option" where
  "NewWithDeps parsed s =
     map_option (\<lambda>target. (target, SetMaxWorkerPerNode (MaxWorkerPerNode target) s)) parsed"

section \<open>PreFilter\<close>

definition GroupBy_node :: "gpu list \<Rightarrow> (string, gpu list) gomap" where
  "GroupBy_node gpus = map (\<lambda>n. (n, group_of gpus n)) (remdups (map gpu_node gpus))"

text \<open>For a node of which some GPU passed the filters, those that did not.\<close>

definition non_matching :: "(string, (string, gpu) gomap) gomap \<Rightarrow> (string, gpu list) gomap \<Rightarrow> (string, gpu list) gomap" where
  "non_matching nodeGPUs valid =
     List.map_filter (\<lambda>(k, matched).
       let allGPUs = (case map_of nodeGPUs k of None \<Rightarrow> [] | Some m \<Rightarrow> m)
       in if length allGPUs = length matched then None
          else Some (k, map snd (filter (\<lambda>(gpuName, g). gpuName \<notin> gpu_Name ` set matched) allGPUs))) valid"

definition PreFilter ::
  "ext \<Rightarrow> fit_config \<Rightarrow> pod \<Rightarrow> pod_spec \<Rightarrow> allocator \<Rightarrow> cycle_state \<Rightarrow> cycle_state \<times> string list option \<times> fw_code" where
  "PreFilter x cfg p spec s c =
     (if x_progressive x \<and> HasGPUResourceRequest spec then (c, Some (ListNonUsingNodes s), FwSuccess)
      else if \<not> IsTensorFusionWorker p then (c, None, FwSkip)
      else case ComposeAllocationRequest (x_parse x) p of
        (allocRequest, reason, True) \<Rightarrow> (c, None, FwError)
      | (allocRequest, reason, False) \<Rightarrow>
          let c1 = c\<lparr>cs_AllocateRequest := Some allocRequest\<rparr>;
              sim = (cs_Simulation c \<noteq> None);
              res = CheckQuotaAndFilter x allocRequest sim s;
              details = (case res of Inr (gs, ds) \<Rightarrow> ds | Inl (NoGPUsAfterFiltering pool ds) \<Rightarrow> ds | Inl _ \<Rightarrow> []);
              c2 = (if sim then c1\<lparr>cs_Simulation := Some details\<rparr> else c1)
          in (case res of
                Inl (QuotaExceeded e) \<Rightarrow>
                  (c2, None, if qerr_Unresolvable e then FwUnschedulableAndUnresolvable else FwUnschedulable)
              | Inl _ \<Rightarrow> (c2, None, FwUnschedulable)
              | Inr (filteredGPUs, ds) \<Rightarrow>
                  let valid = GroupBy_node filteredGPUs;
                      other = non_matching (node_gpus s) valid;
                      st = GetScoringStrategy x cfg allocRequest
                  in (case (Allocator_Score x st valid, Allocator_Score x st other) of
                        (Some score, Some notMatchingGPUScore) \<Rightarrow>
                          (c2\<lparr>cs_SchedulingResult := Some \<lparr>sd_NodeGPUs = valid, sd_ValidNodeGPUScore = score,
                              sd_ValidNodeNotMatchingGPUScore = notMatchingGPUScore, sd_FinalGPUs = [],
                              sd_PreemptPods = [], sd_IsPreemption = False, sd_ScoringStrategy = Some st\<rparr>\<rparr>,
                           Some (map fst (nodeGpuStore s)), FwSuccess)
                      | _ \<Rightarrow> (c2, None, FwPanic))))"

section \<open>Preemption callbacks\<close>

definition AddPod :: "pod \<Rightarrow> string \<Rightarrow> cycle_state \<Rightarrow> cycle_state \<times> fw_code" where
  "AddPod podToAdd node c =
     (case cs_SchedulingResult c of
        None \<Rightarrow> (c, FwError)
      | Some d \<Rightarrow>
          (case map_of (sd_PreemptPods d) node of
             None \<Rightarrow> (c, FwSuccess)
           | Some pods \<Rightarrow>
               let nameNs = \<lparr>nn_Name = om_Name (pod_Meta podToAdd), nn_Namespace = om_Namespace (pod_Meta podToAdd)\<rparr>
               in (c\<lparr>cs_SchedulingResult := Some (d\<lparr>sd_PreemptPods :=
                     AList.update node (removeAll nameNs pods) (sd_PreemptPods d)\<rparr>)\<rparr>, FwSuccess)))"

definition empty_scheduling_state :: scheduling_state where
  "empty_scheduling_state = \<lparr>sd_NodeGPUs = [], sd_ValidNodeGPUScore = [], sd_ValidNodeNotMatchingGPUScore = [],
     sd_FinalGPUs = [], sd_PreemptPods = [], sd_IsPreemption = False, sd_ScoringStrategy = None\<rparr>"

definition RemovePod :: "pod \<Rightarrow> string \<Rightarrow> cycle_state \<Rightarrow> cycle_state \<times> fw_code" where
  "RemovePod podToRemove node c =
     (let d = (case cs_SchedulingResult c of None \<Rightarrow> empty_scheduling_state | Some d \<Rightarrow> d);
          nameNs = \<lparr>nn_Name = om_Name (pod_Meta podToRemove), nn_Namespace = om_Namespace (pod_Meta podToRemove)\<rparr>;
          pods = (case map_of (sd_PreemptPods d) node of None \<Rightarrow> [] | Some pods \<Rightarrow> pods)
      in (c\<lparr>cs_SchedulingResult := Some (d\<lparr>sd_IsPreemption := True,
            sd_PreemptPods := AList.update node (List.insert nameNs pods) (sd_PreemptPods d)\<rparr>)\<rparr>, FwSuccess))"

section \<open>Filter and Score\<close>

definition Plugin_Filter :: "ext \<Rightarrow> pod \<Rightarrow> string \<Rightarrow> allocator \<Rightarrow> cycle_state \<Rightarrow> fw_code" where
  "Plugin_Filter x p node s c =
     (if \<not> IsTensorFusionWorker p then FwSuccess
      else case cs_SchedulingResult c of
        None \<Rightarrow> FwError
      | Some d \<Rightarrow>
          if sd_IsPreemption d
          then (case cs_AllocateRequest c of
                  None \<Rightarrow> FwPanic
                | Some req \<Rightarrow>
                    (case map_of (sd_PreemptPods d) node of
                       None \<Rightarrow> FwUnschedulable
                     | Some pods \<Rightarrow>
                         (case CheckQuotaAndFilterSingleNodePreempt x node req pods s of
                            Some e \<Rightarrow> FwUnschedulable | None \<Rightarrow> FwSuccess)))
          else if map_of (sd_NodeGPUs d) node = None then FwUnschedulable else FwSuccess)"

definition Plugin_Score :: "pod \<Rightarrow> string \<Rightarrow> cycle_state option \<Rightarrow> int \<times> fw_code" where
  "Plugin_Score p node state =
     (if \<not> IsTensorFusionWorker p then (0, FwSuccess)
      else case state of
        None \<Rightarrow> (0, FwError)
      | Some c \<Rightarrow>
          (case cs_SchedulingResult c of
             None \<Rightarrow> (0, FwError)
           | Some d \<Rightarrow>
               (case map_of (sd_ValidNodeGPUScore d) node of
                  None \<Rightarrow> (0, FwUnschedulable)
                | Some gpuScoreMap \<Rightarrow>
                    let other = (case map_of (sd_ValidNodeNotMatchingGPUScore d) node of None \<Rightarrow> [] | Some m \<Rightarrow> m);
                        total' = sum_list (map snd gpuScoreMap) + sum_list (map snd other);
                        num = length gpuScoreMap + length other
                    in if num = 0 then (0, FwPanic) else (go_div total' (int num), FwSuccess))))"

section \<open>Reserve, Unreserve, PostBind\<close>

definition reload_gpu :: "allocator \<Rightarrow> gpu \<Rightarrow> gpu" where
  "reload_gpu s g = (case map_of (gpuStore s) (gpu_Name g) of None \<Rightarrow> g | Some a \<Rightarrow> gpu_at s a)"

definition choose_gpus :: "ext \<Rightarrow> strategy option \<Rightarrow> nat \<Rightarrow> gpu list \<Rightarrow> fw_code + string list" where
  "choose_gpus x st needed validGPUs =
     (if needed = length validGPUs then Inr (map gpu_Name validGPUs)
      else if needed < length validGPUs
      then (case st of None \<Rightarrow> Inl FwPanic
            | Some st \<Rightarrow>
                (case all_scores (\<lambda>g. strategy_Score x st g False) validGPUs of
                   None \<Rightarrow> Inl FwPanic
                 | Some entries \<Rightarrow> Inr (map (\<lambda>(g, s). gpu_Name g) (take needed (sort_Slice_desc x entries)))))
      else Inl FwError)"

definition Reserve ::
  "ext \<Rightarrow> pod \<Rightarrow> string \<Rightarrow> allocator \<times> cycle_state \<Rightarrow> (allocator \<times> cycle_state) \<times> fw_code" where
  "Reserve x p node sc =
     (case sc of (s, c) \<Rightarrow>
        if \<not> IsTensorFusionWorker p then (sc, FwSuccess)
        else case cs_AllocateRequest c of
          None \<Rightarrow> (sc, FwError)
        | Some req \<Rightarrow>
            (case cs_SchedulingResult c of
               None \<Rightarrow> (sc, FwError)
             | Some d \<Rightarrow>
                 (case map_of (sd_NodeGPUs d) node of
                    None \<Rightarrow> (sc, FwUnschedulable)
                  | Some validGPUs \<Rightarrow>
                      (case choose_gpus x (sd_ScoringStrategy d) (ar_Count req) (map (reload_gpu s) validGPUs) of
                         Inl code \<Rightarrow> (sc, code)
                       | Inr names \<Rightarrow>
                           let c1 = c\<lparr>cs_SchedulingResult := Some (d\<lparr>sd_FinalGPUs := names\<rparr>)\<rparr>
                           in (case Bind x names req s of
                                 (s1, Inl e) \<Rightarrow> ((s1, c1), FwError)
                               | (s1, Inr (gpus, req')) \<Rightarrow>
                                   ((s1, c1\<lparr>cs_AllocateRequest := Some req'\<rparr>), FwSuccess))))))"

definition Unreserve :: "ext \<Rightarrow> pod \<Rightarrow> allocator \<times> cycle_state \<Rightarrow> allocator" where
  "Unreserve x p sc =
     (case sc of (s, c) \<Rightarrow>
        if \<not> IsTensorFusionWorker p then s
        else case cs_SchedulingResult c of
          None \<Rightarrow> s
        | Some d \<Rightarrow>
            fst (Dealloc x \<lparr>nn_Name = get_str (om_Labels (pod_Meta p)) WorkloadKey, nn_Namespace = om_Namespace (pod_Meta p)\<rparr>
              (sd_FinalGPUs d) (pod_Meta p) s))"

text \<open>The annotation the pod is patched with, if any.\<close>

definition PostBind :: "pod \<Rightarrow> cycle_state \<Rightarrow> (string \<times> string) option" where
  "PostBind p c =
     (if \<not> IsTensorFusionWorker p then None
      else map_option (\<lambda>d. (GPUDeviceIDsAnnotation, join_with '','' (sd_FinalGPUs d))) (cs_SchedulingResult c))"

section \<open>Queueing hint\<close>

text \<open>
  What an informer event hands over: nil, a GPU, an unstructured object (with the converter's result)
  or something else.
\<close>

datatype event_obj = ObjNil | ObjGPU gpu | ObjUnstructured "gpu option" | ObjOther

fun convertToGPU :: "event_obj \<Rightarrow> unit + gpu option" where
  "convertToGPU ObjNil = Inr None"
| "convertToGPU (ObjGPU g) = Inr (Some g)"
| "convertToGPU (ObjUnstructured (Some g)) = Inr (Some g)"
| "convertToGPU (ObjUnstructured None) = Inl ()"
| "convertToGPU ObjOther = Inl ()"

definition gpu_increase :: "gpu option \<Rightarrow> gpu option \<Rightarrow> quantity \<times> quantity" where
  "gpu_increase oldGPU newGPU =
     (case (oldGPU, newGPU) of
        (None, Some new) \<Rightarrow> (case gpu_Available new of None \<Rightarrow> (0, 0) | Some av \<Rightarrow> (Tflops av, Vram av))
      | (Some old, Some new) \<Rightarrow>
          (case (gpu_Available old, gpu_Available new) of
             (Some o', Some n) \<Rightarrow> (Tflops n - Tflops o', Vram n - Vram o') | _ \<Rightarrow> (0, 0))
      | _ \<Rightarrow> (0, 0))"

definition queueingHint :: "(string \<Rightarrow> quantity option) \<Rightarrow> pod \<Rightarrow> event_obj \<Rightarrow> event_obj \<Rightarrow> bool" where
  "queueingHint parse p oldObj newObj =
     (if \<not> IsTensorFusionWorker p then False
      else case (convertToGPU oldObj, convertToGPU newObj) of
        (Inr oldGPU, Inr newGPU) \<Rightarrow>
          (case gpu_increase oldGPU newGPU of (dT, dV) \<Rightarrow>
             if dT \<le> 0 \<and> dV \<le> 0 then False
             else case ComposeAllocationRequest parse p of
                    (req, reason, True) \<Rightarrow> False
                  | (req, reason, False) \<Rightarrow> Tflops (ar_Request req) \<le> dT \<and> Vram (ar_Request req) \<le> dV)
      | _ \<Rightarrow> False)"

end
