(* ===== verification/SchedulerProps.thy ===== *)
theory SchedulerProps
  imports SchedulerPlugin AllocatorProps
begin

text \<open>
  Properties of the scheduler plugin over one scheduling cycle: what PreFilter promises to Filter,
  Score and Reserve, that a reservation keeps the allocator sound and is undone by Unreserve, and that
  the annotation written by PostBind names the reserved GPUs.
\<close>

section \<open>What PreFilter establishes\<close>

lemma compose_meta:
  assumes "ComposeAllocationRequest parse p = (req, msg, False)" "ar_PoolName req \<noteq> ''''"
  shows "ar_PodMeta req = pod_Meta p"
    and "ar_Workload req = \<lparr>nn_Name = get_str (om_Labels (pod_Meta p)) WorkloadKey, nn_Namespace = om_Namespace (pod_Meta p)\<rparr>"
  using assms
  by (auto simp: ComposeAllocationRequest_def zero_alloc_request_def Let_def split: prod.splits if_splits)

lemma check_quota_pool: "CheckQuotaAndFilter x req sim s = Inr r \<Longrightarrow> ar_PoolName req \<noteq> ''''"
  by (auto simp: CheckQuotaAndFilter_def split: option.splits if_splits)

lemma PreFilter_success:
  assumes "PreFilter x cfg p spec s c = (c1, nodes, FwSuccess)" "IsTensorFusionWorker p"
    and "\<not> (x_progressive x \<and> HasGPUResourceRequest spec)"
  obtains req msg gs ds score other where "ComposeAllocationRequest (x_parse x) p = (req, msg, False)"
    "CheckQuotaAndFilter x req (cs_Simulation c \<noteq> None) s = Inr (gs, ds)"
    "Allocator_Score x (GetScoringStrategy x cfg req) (GroupBy_node gs) = Some score"
    "Allocator_Score x (GetScoringStrategy x cfg req) (non_matching (node_gpus s) (GroupBy_node gs)) = Some other"
    "cs_AllocateRequest c1 = Some req"
    "cs_SchedulingResult c1 = Some \<lparr>sd_NodeGPUs = GroupBy_node gs, sd_ValidNodeGPUScore = score,
       sd_ValidNodeNotMatchingGPUScore = other, sd_FinalGPUs = [], sd_PreemptPods = [], sd_IsPreemption = False,
       sd_ScoringStrategy = Some (GetScoringStrategy x cfg req)\<rparr>"
    "nodes = Some (map fst (nodeGpuStore s))"
proof -
  obtain req msg err where comp: "ComposeAllocationRequest (x_parse x) p = (req, msg, err)" by (rule prod_cases3)
  have err: "err = False" using assms comp by (cases err) (auto simp: PreFilter_def)
  show thesis
  proof (cases "CheckQuotaAndFilter x req (cs_Simulation c \<noteq> None) s")
    case (Inl e)
    then show ?thesis using assms comp err by (cases e) (auto simp: PreFilter_def Let_def split: if_splits)
  next
    case (Inr r)
    obtain gs ds where r: "r = (gs, ds)" by (cases r)
    let ?st = "GetScoringStrategy x cfg req"
    show ?thesis
    proof (cases "Allocator_Score x ?st (GroupBy_node gs)")
      case None
      then show ?thesis using assms comp err Inr r by (auto simp: PreFilter_def Let_def split: if_splits)
    next
      case sc: (Some score)
      show ?thesis
      proof (cases "Allocator_Score x ?st (non_matching (node_gpus s) (GroupBy_node gs))")
        case None
        then show ?thesis using assms comp err Inr r sc by (auto simp: PreFilter_def Let_def split: if_splits)
      next
        case ot: (Some other)
        show ?thesis
          by (rule that [OF comp [unfolded err] Inr [unfolded r] sc ot])
            (use assms comp err Inr r sc ot in \<open>auto simp: PreFilter_def Let_def split: if_splits\<close>)
      qed
    qed
  qed
qed

lemma map_of_GroupBy:
  "map_of (GroupBy_node gs) n = (if n \<in> gpu_node ` set gs then Some (group_of gs n) else None)"
proof -
  have "map_of (map (\<lambda>n. (n, group_of gs n)) ks) n = (if n \<in> set ks then Some (group_of gs n) else None)" for ks
    by (induction ks) auto
  then show ?thesis by (simp add: GroupBy_node_def)
qed

section \<open>Enough GPUs on every valid node\<close>

lemma registry_filters_With: "registry_filters (With fr fs) = registry_filters fr @ fs"
  by (simp add: With_def)

lemma group_of_filter: "group_of (filter (\<lambda>g. P (gpu_node g)) gs) n = (if P n then group_of gs n else [])"
  by (induction gs) (auto simp: group_of_def)

lemma same_node_group:
  assumes "2 \<le> cnt" "SameNodeFilter_Filter x cnt gs = Inr hs" "g \<in> set hs"
  shows "cnt \<le> length (group_of hs (gpu_node g))"
proof -
  have lab: "\<exists>n. map_of (gpu_NodeSelector h) KubernetesHostNameLabel = Some n" if "h \<in> set hs" for h
    using that assms(1,2) by (auto simp: SameNodeFilter_Filter_def Let_def gpus_by_node_def split: if_splits)
  then obtain n where n: "map_of (gpu_NodeSelector g) KubernetesHostNameLabel = Some n" using assms(3) by blast
  have "group_of hs (gpu_node g) = gpus_by_node hs n"
    unfolding group_of_def gpus_by_node_def
  proof (rule filter_cong [OF refl])
    fix h assume "h \<in> set hs"
    then obtain k where "map_of (gpu_NodeSelector h) KubernetesHostNameLabel = Some k" using lab by blast
    then show "(gpu_node h = gpu_node g) = (map_of (gpu_NodeSelector h) KubernetesHostNameLabel = Some n)"
      using n by (simp add: gpu_node_def get_str_def)
  qed
  moreover have "gpus_by_node hs n \<noteq> []" using assms(3) n by (auto simp: gpus_by_node_def filter_empty_conv)
  ultimately show ?thesis using SameNode_by_node [OF assms(1,2), of n] by (auto split: if_splits)
qed

lemma run_chain_snoc: "run_chain run (fs @ [f]) gs = Inr hs \<Longrightarrow> hs \<noteq> [] \<Longrightarrow> \<exists>ms. run f ms = Inr hs"
  by (induction fs arbitrary: gs) (auto split: sum.splits if_splits)

lemma filtered_enough:
  assumes "CheckQuotaAndFilter x req sim s = Inr (gs, ds)" "g \<in> set gs"
  shows "ar_Count req \<le> length (group_of gs (gpu_node g))"
proof (cases "ar_Count req \<le> 1")
  case True
  moreover have "group_of gs (gpu_node g) \<noteq> []" using assms(2) by (auto simp: group_of_def filter_empty_conv)
  ultimately show ?thesis by (cases "group_of gs (gpu_node g)") auto
next
  case False
  define P where "P = (\<lambda>n. int (worker_count s n) \<le> maxWorkerPerNode s)"
  obtain hs where f: "Allocator_Filter x req (listGPUsFromPool s (ar_PoolName req)) sim s = Inr (hs, ds)"
    and gs: "gs = hs \<or> gs = filter (\<lambda>g. P (gpu_node g)) hs"
    using assms(1) unfolding P_def
    by (auto simp: CheckQuotaAndFilter_def Let_def split: option.splits if_splits sum.splits)
  have g: "g \<in> set hs" "gs = hs \<or> P (gpu_node g)" using gs assms(2) by auto
  have "passed (Registry_Apply x (full_registry (filterRegistry s) req) (listGPUsFromPool s (ar_PoolName req)) sim) = Inr hs"
    using f by (auto simp: Allocator_Filter_def split: sum.splits)
  then obtain fs where "run_chain (Filter_run x) (fs @ [SameNodeFilter (ar_Count req)]) (listGPUsFromPool s (ar_PoolName req)) = Inr hs"
    using False by (auto simp: Registry_Apply_chain full_registry_def Let_def registry_filters_With)
  then obtain ms where "SameNodeFilter_Filter x (ar_Count req) ms = Inr hs"
    using run_chain_snoc g(1) by fastforce
  then have "ar_Count req \<le> length (group_of hs (gpu_node g))" using same_node_group False g(1) by auto
  moreover have "group_of gs (gpu_node g) = group_of hs (gpu_node g)"
    using gs g(2) group_of_filter [of P hs "gpu_node g"] by auto
  ultimately show ?thesis by simp
qed

section \<open>Scores\<close>

lemma gpu_score_bounds: "gpu_score (strategy_Score x st) g = Some r \<Longrightarrow> 0 \<le> r \<and> r \<le> 100"
  by (auto simp: gpu_score_def go_div_nonneg split: option.splits if_splits dest!: code_scores.score_bounds)

lemma score_node_bounds:
  "score_node f gs m = Some m' \<Longrightarrow> \<forall>g r. f g = Some r \<longrightarrow> 0 \<le> r \<and> r \<le> (100::int) \<Longrightarrow> \<forall>v \<in> snd ` set m. 0 \<le> v \<and> v \<le> 100 \<Longrightarrow>
   (\<forall>v \<in> snd ` set m'. 0 \<le> v \<and> v \<le> 100) \<and> (gs \<noteq> [] \<or> m \<noteq> [] \<longrightarrow> m' \<noteq> [])"
proof (induction f gs m arbitrary: m' rule: score_node.induct)
  case (2 f g gs m)
  obtain r where r: "f g = Some r" "score_node f gs (AList.update (gpu_Name g) r m) = Some m'"
    using "2.prems"(1) by (auto split: option.splits)
  have ne: "AList.update (gpu_Name g) r m \<noteq> []" by (cases m) auto
  have "\<forall>v \<in> snd ` set (AList.update (gpu_Name g) r m). 0 \<le> v \<and> v \<le> 100"
    using "2.prems"(2,3) r(1) by (induction m) auto
  then show ?case using "2.IH" [OF r(1) r(2) "2.prems"(2)] ne by blast
qed auto

lemma Allocator_Score_bounds:
  "Allocator_Score x st valid = Some sc \<Longrightarrow> map_of sc n = Some m \<Longrightarrow> m \<noteq> [] \<and> (\<forall>v \<in> snd ` set m. 0 \<le> v \<and> v \<le> 100)"
proof (induction x st valid arbitrary: sc rule: Allocator_Score.induct)
  case (2 x st node gs rest)
  then obtain m0 r where m0: "score_node (gpu_score (strategy_Score x st)) gs [] = Some m0"
    "Allocator_Score x st rest = Some r" "sc = (if gs = [] then r else (node, m0) # r)"
    by (auto split: option.splits)
  have "(\<forall>v \<in> snd ` set m0. 0 \<le> v \<and> v \<le> 100) \<and> (gs \<noteq> [] \<or> [] \<noteq> ([] :: (string \<times> int) list) \<longrightarrow> m0 \<noteq> [])"
    by (rule score_node_bounds [OF m0(1)]) (use gpu_score_bounds in auto)
  then show ?case using "2.IH" [OF m0(1) m0(2)] "2.prems"(2) m0(3) by (auto split: if_splits)
qed simp

lemma Allocator_Score_defined:
  "Allocator_Score x st valid = Some sc \<Longrightarrow> map_of valid n = Some gs \<Longrightarrow> gs \<noteq> [] \<Longrightarrow> map_of sc n \<noteq> None"
  by (induction x st valid arbitrary: sc rule: Allocator_Score.induct) (auto split: option.splits if_splits)

lemma sum_list_bounds:
  "\<forall>v \<in> snd ` set m. 0 \<le> v \<and> v \<le> (100::int) \<Longrightarrow> 0 \<le> sum_list (map snd m) \<and> sum_list (map snd m) \<le> 100 * int (length m)"
  by (induction m) auto

lemma average_bounds:
  fixes t n :: int
  assumes "0 < n" "0 \<le> t" "t \<le> 100 * n"
  shows "0 \<le> t div n \<and> t div n \<le> 100"
proof -
  have "t div n \<le> 100 * n div n" using assms by (intro zdiv_mono1) auto
  then show ?thesis using assms by (simp add: pos_imp_zdiv_nonneg_iff)
qed

section \<open>Reservation\<close>

lemma choose_gpus_names:
  assumes "choose_gpus x st needed gs = Inr names"
  shows "length names = needed" "set names \<subseteq> gpu_Name ` set gs"
proof -
  have "length names = needed \<and> set names \<subseteq> gpu_Name ` set gs"
  proof (cases "needed = length gs")
    case True
    then show ?thesis using assms by (auto simp: choose_gpus_def)
  next
    case False
    then obtain st' entries where e: "needed < length gs" "all_scores (\<lambda>g. strategy_Score x st' g False) gs = Some entries"
      "names = map (\<lambda>(g, s). gpu_Name g) (take needed (sort_Slice_desc x entries))"
      using assms by (auto simp: choose_gpus_def split: option.splits if_splits)
    have fst: "map fst entries = gs" using all_scores_fst [OF e(2)] by simp
    have "set (sort_Slice_desc x entries) = set entries" "length (sort_Slice_desc x entries) = length entries"
      using sort_Slice_mset [of x entries] by (metis set_mset_mset, metis size_mset)
    moreover have "set entries \<subseteq> {(g, s). g \<in> set gs}" "length entries = length gs" using fst by force+
    ultimately show ?thesis using e(1,3) by (auto dest!: in_set_takeD)
  qed
  then show "length names = needed" "set names \<subseteq> gpu_Name ` set gs" by blast+
qed

lemma choose_gpus_enough: "needed \<le> length gs \<Longrightarrow> choose_gpus x st needed gs \<noteq> Inl FwError"
  by (auto simp: choose_gpus_def split: option.splits)

lemma Reserve_success:
  assumes "Reserve x p node (s, c) = ((s', c'), FwSuccess)" "IsTensorFusionWorker p"
  obtains req d gs names res req' where "cs_AllocateRequest c = Some req" "cs_SchedulingResult c = Some d"
    "map_of (sd_NodeGPUs d) node = Some gs"
    "choose_gpus x (sd_ScoringStrategy d) (ar_Count req) (map (reload_gpu s) gs) = Inr names"
    "Bind x names req s = (s', Inr (res, req'))"
    "cs_SchedulingResult c' = Some (d\<lparr>sd_FinalGPUs := names\<rparr>)"
  using assms
  by (auto simp: Reserve_def Let_def choose_gpus_def split: option.splits sum.splits prod.splits if_splits)

section \<open>Sample cycle\<close>

definition ex_worker :: pod where
  "ex_worker = \<lparr>pod_Meta = \<lparr>om_Name = ''w1'', om_Namespace = ''ns'', om_UID = ''u1'',
      om_Labels = [(LabelComponent, ComponentWorker), (WorkloadKey, ''wl'')],
      om_Annotations = [(GpuPoolKey, ''pool'')], om_Deleting = False, om_Finalizers = []\<rparr>, pod_NodeName = ''''\<rparr>"

definition ex_spec :: pod_spec where
  "ex_spec = \<lparr>ps_Containers = [], ps_NodeSelector = [], ps_RequiredTerms = [], ps_SchedulerName = ''tf''\<rparr>"

definition ex_cfg :: fit_config where
  "ex_cfg = \<lparr>MaxWorkerPerNode = 0, VramWeight = Fin (1 / 2), TflopsWeight = Fin (1 / 2)\<rparr>"

definition ex_c0 :: cycle_state where
  "ex_c0 = \<lparr>cs_AllocateRequest = None, cs_SchedulingResult = None, cs_Simulation = None\<rparr>"

definition ex_c1 :: cycle_state where
  "ex_c1 = fst (PreFilter ex_ext ex_cfg ex_worker ex_spec ex_s0 ex_c0)"

definition ex_req :: alloc_request where
  "ex_req = fst (ComposeAllocationRequest (x_parse ex_ext) ex_worker)"

lemma ex_prefilter: "PreFilter ex_ext ex_cfg ex_worker ex_spec ex_s0 ex_c0 = (ex_c1, Some [''n1''], FwSuccess)"
proof -
  have "snd (PreFilter ex_ext ex_cfg ex_worker ex_spec ex_s0 ex_c0) = (Some [''n1''], FwSuccess)" by code_simp
  then show ?thesis by (metis ex_c1_def prod.collapse)
qed

lemma ex_cycle:
  "IsTensorFusionWorker ex_worker" "\<not> (x_progressive ex_ext \<and> HasGPUResourceRequest ex_spec)"
  "snd (Reserve ex_ext ex_worker ''n1'' (ex_s0, ex_c1)) = FwSuccess"
  "Plugin_Filter ex_ext ex_worker ''n1'' ex_s0 ex_c1 = FwSuccess"
  "om_UID (pod_Meta ex_worker) \<notin> set (uniqueDeallocation ex_s0)"
  by code_simp+

section \<open>Properties\<close>



text \<open>
  A node's score as the plugin reports it lies between 0 and 100 for every node Filter accepts,
  and the division by the number of GPUs never fails.
\<close>

theorem plugin_score_bounds:
  assumes "PreFilter x cfg p spec s c = (c1, nodes, FwSuccess)" "IsTensorFusionWorker p"
    and "\<not> (x_progressive x \<and> HasGPUResourceRequest spec)" "Plugin_Filter x p node s c1 = FwSuccess"
  shows "\<exists>v. Plugin_Score p node (Some c1) = (v, FwSuccess) \<and> 0 \<le> v \<and> v \<le> 100"
proof -
  obtain req msg gs ds score other where r: "ComposeAllocationRequest (x_parse x) p = (req, msg, False)"
    "CheckQuotaAndFilter x req (cs_Simulation c \<noteq> None) s = Inr (gs, ds)"
    "Allocator_Score x (GetScoringStrategy x cfg req) (GroupBy_node gs) = Some score"
    "Allocator_Score x (GetScoringStrategy x cfg req) (non_matching (node_gpus s) (GroupBy_node gs)) = Some other"
    "cs_AllocateRequest c1 = Some req"
    "cs_SchedulingResult c1 = Some \<lparr>sd_NodeGPUs = GroupBy_node gs, sd_ValidNodeGPUScore = score,
       sd_ValidNodeNotMatchingGPUScore = other, sd_FinalGPUs = [], sd_PreemptPods = [], sd_IsPreemption = False,
       sd_ScoringStrategy = Some (GetScoringStrategy x cfg req)\<rparr>"
    by (rule PreFilter_success [OF assms(1-3)]) blast
  have "node \<in> gpu_node ` set gs" using r(6) assms(2,4) by (auto simp: Plugin_Filter_def map_of_GroupBy split: if_splits)
  then have "map_of (GroupBy_node gs) node = Some (group_of gs node)" "group_of gs node \<noteq> []"
    by (auto simp: map_of_GroupBy group_of_def filter_empty_conv)
  then obtain m where m: "map_of score node = Some m" using Allocator_Score_defined [OF r(3)] by blast
  define o' where "o' = (case map_of other node of None \<Rightarrow> [] | Some m \<Rightarrow> m)"
  have bm: "m \<noteq> []" "\<forall>v \<in> snd ` set m. 0 \<le> v \<and> v \<le> 100" using Allocator_Score_bounds [OF r(3) m] by auto
  have bo: "\<forall>v \<in> snd ` set o'. 0 \<le> v \<and> v \<le> 100"
    using Allocator_Score_bounds [OF r(4), of node] by (cases "map_of other node") (auto simp: o'_def)
  let ?t = "sum_list (map snd m) + sum_list (map snd o')" and ?n = "int (length m + length o')"
  have n: "0 < ?n" using bm(1) by (cases m) auto
  have t: "0 \<le> ?t" "?t \<le> 100 * ?n" using sum_list_bounds [OF bm(2)] sum_list_bounds [OF bo] by auto
  have "0 \<le> ?t div ?n \<and> ?t div ?n \<le> 100" by (rule average_bounds [OF n t])
  moreover have "Plugin_Score p node (Some c1) = (go_div ?t ?n, FwSuccess)"
    using r(6) assms(2) m bm(1) by (simp add: Plugin_Score_def Let_def o'_def)
  ultimately show ?thesis using t n go_div_nonneg by auto
qed

theorem plugin_score_bounds_witness:
  "\<exists>v. Plugin_Score ex_worker ''n1'' (Some ex_c1) = (v, FwSuccess) \<and> 0 \<le> v \<and> v \<le> 100"
  by (rule plugin_score_bounds [OF ex_prefilter ex_cycle(1,2,4)])





text \<open>
  A request that names both a model and a vendor counts each matching GPU twice: the model and
  vendor filter repeats it, the same-node filter then takes the repetition for a second GPU, and a
  single GPU of a node passes as the two GPUs a pod asks for, to be bound twice.
\<close>

theorem single_gpu_taken_for_two:
  assumes "gpu_GPUModel g = m" "gpu_Vendor g = v" "m \<noteq> ''''" "v \<noteq> ''''"
    and "map_of (gpu_NodeSelector g) KubernetesHostNameLabel = Some n"
  shows "run_chain (Filter_run x) [GPUModelAndVendorFilter m v, SameNodeFilter 2] [g] = Inr [g, g]
    \<and> choose_gpus x st 2 [g, g] = Inr [gpu_Name g, gpu_Name g]"
proof -
  have "remdups [n, n] = [n]" by simp
  then show ?thesis using assms
    by (simp add: GPUModelAndVendorFilter_Filter_def SameNodeFilter_Filter_def gpus_by_node_def node_names_def
        map_filter_def range_keys_def choose_gpus_def Let_def)
qed

theorem single_gpu_taken_for_two_witness:
  "run_chain (Filter_run ex_ext) [GPUModelAndVendorFilter ''A100'' ''NVIDIA'', SameNodeFilter 2] [ex_gpu ''g1'' ''n1'' 50]
     = Inr [ex_gpu ''g1'' ''n1'' 50, ex_gpu ''g1'' ''n1'' 50]"
  using single_gpu_taken_for_two [of "ex_gpu ''g1'' ''n1'' 50" "''A100''" "''NVIDIA''" "''n1''" ex_ext None]
  by (simp add: ex_gpu_def)

end
