(* ===== verification/SlotPool.thy ===== *)
theory SlotPool
  imports Main
begin

text \<open>
  The contract of a pool of numbered slots: \<open>assign\<close> hands out the lowest free slot, \<open>release\<close>
  frees one, \<open>used\<close> is the set of slots taken. What a client may conclude for any history of
  assignments and releases is proved once here; the two bitmaps of the port allocator provide the
  interface (theory \<open>PortAllocator\<close>).
\<close>

datatype slot_op = Assign | Release nat

locale slot_pool =
  fixes assign :: "'p \<Rightarrow> ('p \<times> nat) option"
    and release :: "nat \<Rightarrow> 'p \<Rightarrow> 'p"
    and used :: "'p \<Rightarrow> nat set"
    and slots :: nat
    and inv :: "'p \<Rightarrow> bool"
  assumes assign_Some: "inv p \<Longrightarrow> assign p = Some (q, n) \<Longrightarrow>
      inv q \<and> n < slots \<and> n \<notin> used p \<and> used q = insert n (used p) \<and> (\<forall>m < n. m \<in> used p)"
    and assign_None: "inv p \<Longrightarrow> assign p = None \<Longrightarrow> \<forall>m < slots. m \<in> used p"
    and release_inv: "inv p \<Longrightarrow> n < slots \<Longrightarrow> inv (release n p)"
    and release_used: "inv p \<Longrightarrow> n < slots \<Longrightarrow> used (release n p) = used p - {n}"
begin

lemma assign_defined: "inv p \<Longrightarrow> assign p = None \<longleftrightarrow> (\<forall>m < slots. m \<in> used p)"
  using assign_Some assign_None by (metis option.exhaust prod.exhaust)

text \<open>A history with the list of slots its owners hold; releasing a slot nobody holds is left out.\<close>

fun run :: "slot_op list \<Rightarrow> 'p \<times> nat list \<Rightarrow> 'p \<times> nat list" where
  "run [] s = s"
| "run (Assign # ops) (p, held) =
     (case assign p of None \<Rightarrow> run ops (p, held) | Some (q, n) \<Rightarrow> run ops (q, n # held))"
| "run (Release n # ops) (p, held) =
     (if n \<in> set held then run ops (release n p, remove1 n held) else run ops (p, held))"

lemma run_held:
  "inv p \<Longrightarrow> distinct held \<Longrightarrow> set held \<subseteq> used p \<Longrightarrow> \<forall>n \<in> set held. n < slots \<Longrightarrow> run ops (p, held) = (q, held') \<Longrightarrow>
   inv q \<and> distinct held' \<and> set held' \<subseteq> used q \<and> (\<forall>n \<in> set held'. n < slots)"
proof (induction ops "(p, held)" arbitrary: p held rule: run.induct)
  case (2 ops p held)
  show ?case
  proof (cases "assign p")
    case None
    then show ?thesis using 2 by simp
  next
    case (Some r)
    obtain p' n where r: "r = (p', n)" by (cases r)
    have "inv p'" "n < slots" "n \<notin> used p" "used p' = insert n (used p)"
      using assign_Some [OF "2.prems"(1)] Some r by auto
    then show ?thesis using "2.hyps"(2) [OF Some r [symmetric]] "2.prems" Some r by auto
  qed
next
  case (3 n ops p held)
  show ?case
  proof (cases "n \<in> set held")
    case True
    have n: "n < slots" using "3.prems"(4) True by blast
    have i: "inv (release n p)" "used (release n p) = used p - {n}"
      using release_inv [OF "3.prems"(1) n] release_used [OF "3.prems"(1) n] .
    have d: "distinct (remove1 n held)" and h: "set (remove1 n held) = set held - {n}"
      using "3.prems"(2) by (auto simp: set_remove1_eq)
    have r: "run ops (release n p, remove1 n held) = (q, held')" using "3.prems"(5) True by simp
    show ?thesis
      by (rule "3.hyps"(1) [OF True i(1) d _ _ r]) (use i(2) h "3.prems"(3,4) in auto)
  next
    case False
    then show ?thesis using "3.hyps"(2) "3.prems" by simp
  qed
qed simp

text \<open>A slot just released is at least as low as the next one handed out only if it is that one.\<close>

lemma release_assign:
  assumes "inv p" "n < slots" "n \<in> used p" "\<forall>m < n. m \<in> used p"
  shows "\<exists>q. assign (release n p) = Some (q, n) \<and> used q = used p"
proof -
  have i: "inv (release n p)" "used (release n p) = used p - {n}"
    using assms release_inv release_used by auto
  then have "assign (release n p) \<noteq> None" using assign_defined assms(2) by auto
  then obtain q m where q: "assign (release n p) = Some (q, m)" by fast
  note a = assign_Some [OF i(1) q]
  have "m = n"
  proof (rule ccontr)
    assume "m \<noteq> n"
    then consider "m < n" | "n < m" by linarith
    then show False using a assms i(2) by cases auto
  qed
  then show ?thesis using q a i(2) assms(3) by auto
qed

end

end
