(* ===== verification/PortAllocator.thy ===== *)
theory PortAllocator
  imports SlotPool ResourceUtils
begin

unbundle bit_operations_syntax

text \<open>
  Host-port allocation, \<^verbatim>\<open>internal/portallocator/portallocator.go\<close>: bitmaps of 64-bit words, one
  for the cluster and one per node, in which bit \<open>k\<close> of word \<open>i\<close> stands for the port
  \<open>start + 64 i + k\<close>. A release either clears the bit at once or waits in a queue until the API
  server answers that the pod is gone; \<open>polls\<close> are its answers to the attempts of
  \<^verbatim>\<open>retry.OnError\<close>, true for a NotFound. Index and shift panics of Go are error values. The
  mutexes make every operation atomic. Both bitmaps are shown to be slot pools (theory \<open>SlotPool\<close>).
\<close>

section \<open>State\<close>

datatype port_error =
    ClientNil
  | NodeNameEmpty
  | NoAvailablePortOnNode string
  | NoAvailablePortOnCluster
  | PortZero
  | NodeNotInBitmap string
  | PanicIndexOutOfRange
  | PanicNegativeShift
  | PanicMakeSlice

type_synonym bitmap = "64 word list"

record port_allocator =
  PortRangeStartNode :: int
  PortRangeEndNode :: int
  PortRangeStartCluster :: int
  PortRangeEndCluster :: int
  IsLeader :: bool
  BitmapPerNode :: "(string, bitmap) gomap"
  BitmapCluster :: bitmap
  clusterLevelPortReleaseQueue :: "(string \<times> int) list"  \<comment> \<open>pod, port\<close>
  nodeLevelPortReleaseQueue :: "(string \<times> string \<times> int) list"  \<comment> \<open>node, pod, port\<close>

definition GenPortNumberAnnotation :: string where
  "GenPortNumberAnnotation = ''tensor-fusion.ai/port-number''"

definition RETRY_STEPS :: nat where
  "RETRY_STEPS = 100"

definition make_bitmap :: "int \<Rightarrow> port_error + bitmap" where
  "make_bitmap n = (if n < 0 then Inl PanicMakeSlice else Inr (replicate (nat n) 0))"

definition NewPortAllocator :: "bool \<Rightarrow> string \<Rightarrow> string \<Rightarrow> port_error + port_allocator" where
  "NewPortAllocator clientNil nodeLevelPortRange clusterLevelPortRange =
     (if clientNil then Inl ClientNil
      else let nodeRange = split_on (CHR ''-'') nodeLevelPortRange;
               clusterRange = split_on (CHR ''-'') clusterLevelPortRange in
        if length nodeRange < 2 \<or> length clusterRange < 2 then Inl PanicIndexOutOfRange
        else let startN = fst (Atoi (nodeRange ! 0)); endN = fst (Atoi (nodeRange ! 1));
                 startC = fst (Atoi (clusterRange ! 0)); endC = fst (Atoi (clusterRange ! 1)) in
          case make_bitmap (s64 (go_div (s64 (endC - startC)) 64 + 1)) of
            Inl e \<Rightarrow> Inl e
          | Inr bm \<Rightarrow> Inr \<lparr>PortRangeStartNode = startN, PortRangeEndNode = endN,
              PortRangeStartCluster = startC, PortRangeEndCluster = endC, IsLeader = False,
              BitmapPerNode = [], BitmapCluster = bm,
              clusterLevelPortReleaseQueue = [], nodeLevelPortReleaseQueue = []\<rparr>)"

section \<open>Bit operations\<close>

definition TrailingZeros64 :: "64 word \<Rightarrow> nat" where
  "TrailingZeros64 w = length (takeWhile (\<lambda>i. \<not> bit w i) [0..<64])"

text \<open>\<^verbatim>\<open>bitmap[off/64] |= 1 << (off%64)\<close> and \<^verbatim>\<open>bitmap[off/64] &^= 1 << (off%64)\<close>.\<close>

definition set_offset :: "int \<Rightarrow> bitmap \<Rightarrow> port_error + bitmap" where
  "set_offset off bm =
     (let i = go_div off 64; k = go_mod off 64 in
      if i < 0 \<or> int (length bm) \<le> i then Inl PanicIndexOutOfRange
      else if k < 0 then Inl PanicNegativeShift
      else Inr (bm[nat i := bm ! nat i OR push_bit (nat k) 1]))"

definition clear_offset :: "int \<Rightarrow> bitmap \<Rightarrow> port_error + bitmap" where
  "clear_offset off bm =
     (let i = go_div off 64; k = go_mod off 64 in
      if i < 0 \<or> int (length bm) \<le> i then Inl PanicIndexOutOfRange
      else if k < 0 then Inl PanicNegativeShift
      else Inr (bm[nat i := bm ! nat i AND NOT (push_bit (nat k) 1)]))"

section \<open>Node level\<close>

text \<open>The loop of \<^verbatim>\<open>AssignHostPort\<close> stops at the first word with a free bit.\<close>

fun scan_node :: "int \<Rightarrow> int \<Rightarrow> nat \<Rightarrow> bitmap \<Rightarrow> (bitmap \<times> int) option" where
  "scan_node start en i [] = None"
| "scan_node start en i (subMap # rest) =
     (let bitPos = TrailingZeros64 (NOT subMap); portOffset = int (i * 64 + bitPos) in
      if subMap \<noteq> 0xFFFFFFFFFFFFFFFF
      then let assignedPort = s64 (portOffset + start) in
           if assignedPort < en then Some ((subMap OR push_bit bitPos 1) # rest, assignedPort) else None
      else map_option (\<lambda>(bm, p). (subMap # bm, p)) (scan_node start en (Suc i) rest))"

definition AssignHostPort :: "string \<Rightarrow> port_allocator \<Rightarrow> port_allocator \<times> (port_error + int)" where
  "AssignHostPort nodeName s =
     (if nodeName = '''' then (s, Inl NodeNameEmpty)
      else case (case map_of (BitmapPerNode s) nodeName of
                   Some bm \<Rightarrow> Inr (s, bm)
                 | None \<Rightarrow> map_sum id (\<lambda>bm. (s\<lparr>BitmapPerNode := AList.update nodeName bm (BitmapPerNode s)\<rparr>, bm))
                     (make_bitmap (go_div (s64 (PortRangeEndNode s - PortRangeStartNode s + 63)) 64))) of
             Inl e \<Rightarrow> (s, Inl e)
           | Inr (s1, bm) \<Rightarrow>
               (case scan_node (PortRangeStartNode s) (PortRangeEndNode s) 0 bm of
                  None \<Rightarrow> (s1, Inl (NoAvailablePortOnNode nodeName))
                | Some (bm', port) \<Rightarrow>
                    (s1\<lparr>BitmapPerNode := AList.update nodeName bm' (BitmapPerNode s1)\<rparr>, Inr port)))"

definition clear_node_port :: "string \<Rightarrow> int \<Rightarrow> port_allocator \<Rightarrow> port_allocator \<times> port_error option" where
  "clear_node_port nodeName port s =
     (let bm = (case map_of (BitmapPerNode s) nodeName of None \<Rightarrow> [] | Some bm \<Rightarrow> bm) in
      case clear_offset (s64 (port - PortRangeStartNode s)) bm of
        Inl e \<Rightarrow> (s, Some e)
      | Inr bm' \<Rightarrow> (s\<lparr>BitmapPerNode := AList.update nodeName bm' (BitmapPerNode s)\<rparr>, None))"

definition ReleaseHostPort ::
  "string \<Rightarrow> string \<Rightarrow> int \<Rightarrow> bool \<Rightarrow> port_allocator \<Rightarrow> port_allocator \<times> port_error option" where
  "ReleaseHostPort nodeName podName port immediateRelease s =
     (if port = 0 then (s, Some PortZero)
      else if map_of (BitmapPerNode s) nodeName = None then (s, Some (NodeNotInBitmap nodeName))
      else if immediateRelease then clear_node_port nodeName port s
      else (s\<lparr>nodeLevelPortReleaseQueue := nodeLevelPortReleaseQueue s @ [(nodeName, podName, port)]\<rparr>, None))"

text \<open>
  One item taken from the queue: up to \<open>RETRY_STEPS\<close> polls, the bit cleared at the first NotFound.
\<close>

definition pod_gone :: "(nat \<Rightarrow> bool) \<Rightarrow> bool" where
  "pod_gone polls \<longleftrightarrow> list_ex polls [0..<RETRY_STEPS]"

definition releaseNodePortUntilPodDeleted ::
  "(nat \<Rightarrow> bool) \<Rightarrow> port_allocator \<Rightarrow> port_allocator \<times> port_error option" where
  "releaseNodePortUntilPodDeleted polls s =
     (case nodeLevelPortReleaseQueue s of [] \<Rightarrow> (s, None)
      | (nodeName, podName, port) # rest \<Rightarrow>
          let s1 = s\<lparr>nodeLevelPortReleaseQueue := rest\<rparr> in
          if pod_gone polls then clear_node_port nodeName port s1 else (s1, None))"

section \<open>Cluster level\<close>

fun scan_cluster :: "int \<Rightarrow> int \<Rightarrow> nat \<Rightarrow> bitmap \<Rightarrow> (bitmap \<times> int) option" where
  "scan_cluster start en i [] = None"
| "scan_cluster start en i (subMap # rest) =
     (let bitPos = TrailingZeros64 (NOT subMap); portOffset = int (i * 64 + bitPos);
          assignedPort = s64 (portOffset + start) in
      if subMap \<noteq> 0xFFFFFFFFFFFFFFFF \<and> assignedPort < en
      then Some ((subMap OR push_bit bitPos 1) # rest, assignedPort)
      else map_option (\<lambda>(bm, p). (subMap # bm, p)) (scan_cluster start en (Suc i) rest))"

definition AssignClusterLevelHostPort :: "string \<Rightarrow> port_allocator \<Rightarrow> port_allocator \<times> (port_error + int)" where
  "AssignClusterLevelHostPort podName s =
     (case scan_cluster (PortRangeStartCluster s) (PortRangeEndCluster s) 0 (BitmapCluster s) of
        None \<Rightarrow> (s, Inl NoAvailablePortOnCluster)
      | Some (bm, port) \<Rightarrow> (s\<lparr>BitmapCluster := bm\<rparr>, Inr port))"

definition clear_cluster_port :: "int \<Rightarrow> port_allocator \<Rightarrow> port_allocator \<times> port_error option" where
  "clear_cluster_port port s =
     (case clear_offset (s64 (port - PortRangeStartCluster s)) (BitmapCluster s) of
        Inl e \<Rightarrow> (s, Some e)
      | Inr bm \<Rightarrow> (s\<lparr>BitmapCluster := bm\<rparr>, None))"

definition ReleaseClusterLevelHostPort ::
  "string \<Rightarrow> int \<Rightarrow> bool \<Rightarrow> port_allocator \<Rightarrow> port_allocator \<times> port_error option" where
  "ReleaseClusterLevelHostPort podName port immediateRelease s =
     (if port = 0 then (s, Some PortZero)
      else if immediateRelease then clear_cluster_port port s
      else (s\<lparr>clusterLevelPortReleaseQueue := clusterLevelPortReleaseQueue s @ [(podName, port)]\<rparr>, None))"

definition releaseClusterPortUntilPodDeleted ::
  "(nat \<Rightarrow> bool) \<Rightarrow> port_allocator \<Rightarrow> port_allocator \<times> port_error option" where
  "releaseClusterPortUntilPodDeleted polls s =
     (case clusterLevelPortReleaseQueue s of [] \<Rightarrow> (s, None)
      | (podName, port) # rest \<Rightarrow>
          let s1 = s\<lparr>clusterLevelPortReleaseQueue := rest\<rparr> in
          if pod_gone polls then clear_cluster_port port s1 else (s1, None))"

section \<open>Start-up\<close>

text \<open>
  The ports of existing pods, from their annotations; a pod without annotations has an empty map.
  The list call may fail (\<open>None\<close>). The cluster scan ignores a parse error, so an unreadable
  annotation counts as port 0, and narrows the offset to 16 bits.
\<close>

definition usedPorts :: "int \<Rightarrow> int \<Rightarrow> pod list \<Rightarrow> int list" where
  "usedPorts start en pods =
     concat (map (\<lambda>p. let ann = om_Annotations (pod_Meta p);
                          port = fst (Atoi (get_str ann GenPortNumberAnnotation)) in
                      if ann = [] \<or> en < port \<or> port < start then []
                      else [s64 (port - start) mod 2 ^ 16]) pods)"

fun set_offsets :: "int list \<Rightarrow> bitmap \<Rightarrow> port_error + bitmap" where
  "set_offsets [] bm = Inr bm"
| "set_offsets (off # offs) bm =
     (case set_offset off bm of Inl e \<Rightarrow> Inl e | Inr bm' \<Rightarrow> set_offsets offs bm')"

definition initBitMapForClusterLevelPortAssign ::
  "pod list option \<Rightarrow> port_allocator \<Rightarrow> port_error + port_allocator" where
  "initBitMapForClusterLevelPortAssign podList s =
     (case podList of None \<Rightarrow> Inr s
      | Some pods \<Rightarrow> map_sum id (\<lambda>bm. s\<lparr>BitmapCluster := bm\<rparr>)
          (set_offsets (usedPorts (PortRangeStartCluster s) (PortRangeEndCluster s) pods) (BitmapCluster s)))"

fun init_nodes :: "pod list \<Rightarrow> port_allocator \<Rightarrow> port_error + port_allocator" where
  "init_nodes [] s = Inr s"
| "init_nodes (p # ps) s =
     (let ann = get_str (om_Annotations (pod_Meta p)) GenPortNumberAnnotation; (port, err) = Atoi ann in
      if ann = '''' \<or> err \<or> PortRangeEndNode s < port \<or> port < PortRangeStartNode s then init_nodes ps s
      else case (case map_of (BitmapPerNode s) (pod_NodeName p) of Some bm \<Rightarrow> Inr bm
                 | None \<Rightarrow> make_bitmap (s64 (go_div (s64 (PortRangeEndNode s - PortRangeStartNode s)) 64 + 1))) of
             Inl e \<Rightarrow> Inl e
           | Inr bm \<Rightarrow>
               (case set_offset (s64 (port - PortRangeStartNode s)) bm of Inl e \<Rightarrow> Inl e
                | Inr bm' \<Rightarrow> init_nodes ps
                    (s\<lparr>BitmapPerNode := AList.update (pod_NodeName p) bm' (BitmapPerNode s)\<rparr>)))"

definition initBitMapForNodeLevelPortAssign ::
  "pod list option \<Rightarrow> port_allocator \<Rightarrow> port_error + port_allocator" where
  "initBitMapForNodeLevelPortAssign podList s = (case podList of None \<Rightarrow> Inr s | Some pods \<Rightarrow> init_nodes pods s)"

text \<open>The election callback: become leader, then rebuild both bitmaps.\<close>

definition port_leader_elected ::
  "pod list option \<Rightarrow> pod list option \<Rightarrow> port_allocator \<Rightarrow> port_error + port_allocator" where
  "port_leader_elected clusterPods workerPods s =
     (case initBitMapForClusterLevelPortAssign clusterPods (s\<lparr>IsLeader := True\<rparr>) of
        Inl e \<Rightarrow> Inl e
      | Inr s1 \<Rightarrow> initBitMapForNodeLevelPortAssign workerPods s1)"

end
