(* ===== verification/PortProps.thy ===== *)
theory PortProps
  imports PortAllocator
begin

unbundle bit_operations_syntax

text \<open>
  Properties of the port allocator. A bitmap denotes the set of offsets whose bit is set; both scans
  find the lowest clear offset, so both levels satisfy the contract of theory \<open>SlotPool\<close>, and
  what that theory proves of any history of assignments and releases holds of the allocator.
\<close>

section \<open>Bitmaps as sets of offsets\<close>

definition used_offsets :: "bitmap \<Rightarrow> nat set" where
  "used_offsets bm = {n. n div 64 < length bm \<and> bit (bm ! (n div 64)) (n mod 64)}"

lemma used_offsets_iff: "n \<in> used_offsets bm \<longleftrightarrow> n div 64 < length bm \<and> bit (bm ! (n div 64)) (n mod 64)"
  by (simp add: used_offsets_def)

lemma used_offsets_Nil [simp]: "used_offsets [] = {}"
  by (simp add: used_offsets_def)

lemma used_offsets_Cons_low: "n < 64 \<Longrightarrow> n \<in> used_offsets (w # bm) \<longleftrightarrow> bit w n"
  by (simp add: used_offsets_iff)

lemma used_offsets_Cons_high: "64 + n \<in> used_offsets (w # bm) \<longleftrightarrow> n \<in> used_offsets bm"
  by (simp add: used_offsets_iff)

lemma nat_low_high: obtains "(n::nat) < 64" | m where "n = 64 + m"
  using le_Suc_ex not_less by metis

lemma used_offsets_replicate [simp]: "used_offsets (replicate k 0) = {}"
  by (auto simp: used_offsets_iff)

lemma bit_or_push: "bit (w OR 2 ^ k) j \<longleftrightarrow> bit w j \<or> j = k \<and> j < LENGTH('a)" for w :: "'a::len word"
  by (auto simp: bit_simps dest: bit_imp_le_length)

lemma bit_andnot_push: "bit (w AND NOT (2 ^ k)) j \<longleftrightarrow> bit w j \<and> j \<noteq> k" for w :: "'a::len word"
  by (auto simp: bit_simps dest: bit_imp_le_length)

lemma offset_split: "k < 64 \<Longrightarrow> n = 64 * i + k \<longleftrightarrow> n div 64 = i \<and> n mod 64 = k" for n :: nat
  by auto

lemma used_offsets_set:
  "i < length bm \<Longrightarrow> k < 64 \<Longrightarrow> used_offsets (bm[i := bm ! i OR 2 ^ k]) = insert (64 * i + k) (used_offsets bm)"
  by (auto simp: used_offsets_iff offset_split nth_list_update bit_or_push split: if_splits)

lemma used_offsets_clear:
  "i < length bm \<Longrightarrow> k < 64 \<Longrightarrow> used_offsets (bm[i := bm ! i AND NOT (2 ^ k)]) = used_offsets bm - {64 * i + k}"
  by (auto simp: used_offsets_iff offset_split nth_list_update bit_andnot_push split: if_splits)

lemma trailing_zeros_not:
  "TrailingZeros64 (NOT w) = 64 \<and> (\<forall>i < 64. bit w i)
   \<or> TrailingZeros64 (NOT w) < 64 \<and> \<not> bit w (TrailingZeros64 (NOT w)) \<and> (\<forall>i < TrailingZeros64 (NOT w). bit w i)"
proof -
  let ?P = "\<lambda>i. \<not> bit (NOT w) i" and ?n = "TrailingZeros64 (NOT w)"
  have b: "bit (NOT w) i \<longleftrightarrow> \<not> bit w i" if "i < 64" for i using that by (simp add: bit_simps)
  have le: "?n \<le> 64" unfolding TrailingZeros64_def using length_takeWhile_le [of ?P "[0..<64]"] by simp
  have pre: "bit w i" if i: "i < ?n" for i
  proof -
    have "?P (takeWhile ?P [0..<64] ! i)"
      using nth_mem [of i "takeWhile ?P [0..<64]"] i set_takeWhileD unfolding TrailingZeros64_def by fastforce
    moreover have "takeWhile ?P [0..<64] ! i = i"
      using i le takeWhile_nth [of i ?P "[0..<64]"] unfolding TrailingZeros64_def by simp
    ultimately show ?thesis using b i le by auto
  qed
  show ?thesis
  proof (cases "?n = 64")
    case True
    then show ?thesis using pre by simp
  next
    case False
    then have lt: "?n < 64" using le by simp
    then have "\<not> ?P ([0..<64] ! ?n)"
      unfolding TrailingZeros64_def by (intro nth_length_takeWhile) simp
    then show ?thesis using pre lt b by simp
  qed
qed

lemma word_full: "(w :: 64 word) = 0xFFFFFFFFFFFFFFFF \<longleftrightarrow> (\<forall>i < 64. bit w i)"
proof -
  have "(0xFFFFFFFFFFFFFFFF :: 64 word) = - 1" by simp
  moreover have "w = - 1 \<longleftrightarrow> (\<forall>i < 64. bit w i)"
    by (auto simp: bit_eq_iff bit_simps)
  ultimately show ?thesis by metis
qed

lemma offset_recompose: "0 \<le> off \<Longrightarrow> 64 * nat (off div 64) + nat (off mod 64) = nat off"
  by (simp add: nat_div_distrib nat_mod_distrib)

lemma offset_index: "0 \<le> off \<Longrightarrow> off < 64 * int l \<Longrightarrow> 0 \<le> off div 64 \<and> off div 64 < int l \<and> 0 \<le> off mod 64"
  for off :: int by linarith

lemma set_offset_ok:
  assumes "0 \<le> off" "off < 64 * int (length bm)"
  shows "\<exists>bm'. set_offset off bm = Inr bm' \<and> length bm' = length bm
    \<and> used_offsets bm' = insert (nat off) (used_offsets bm)"
proof -
  have i: "nat (off div 64) < length bm" "nat (off mod 64) < 64" using assms by auto
  have "set_offset off bm = Inr (bm[nat (off div 64) := bm ! nat (off div 64) OR 2 ^ nat (off mod 64)])"
    using assms i offset_index [OF assms] by (simp add: set_offset_def go_div_nonneg go_mod_nonneg Let_def)
  then show ?thesis using used_offsets_set [OF i] offset_recompose [OF assms(1)] by simp
qed

lemma clear_offset_ok:
  assumes "0 \<le> off" "off < 64 * int (length bm)"
  shows "\<exists>bm'. clear_offset off bm = Inr bm' \<and> length bm' = length bm
    \<and> used_offsets bm' = used_offsets bm - {nat off}"
proof -
  have i: "nat (off div 64) < length bm" "nat (off mod 64) < 64" using assms by auto
  have "clear_offset off bm = Inr (bm[nat (off div 64) := bm ! nat (off div 64) AND NOT (2 ^ nat (off mod 64))])"
    using assms i offset_index [OF assms] by (simp add: clear_offset_def go_div_nonneg go_mod_nonneg Let_def)
  then show ?thesis using used_offsets_clear [OF i] offset_recompose [OF assms(1)] by simp
qed

section \<open>The scans\<close>

text \<open>
  \<open>first_free\<close> is what a scan is for: the lowest offset whose bit is clear, and the port it stands for.
\<close>

definition first_free :: "bitmap \<Rightarrow> nat \<Rightarrow> bool" where
  "first_free bm n \<longleftrightarrow> n < 64 * length bm \<and> n \<notin> used_offsets bm \<and> (\<forall>m < n. m \<in> used_offsets bm)"

lemma first_free_low:
  "w \<noteq> 0xFFFFFFFFFFFFFFFF \<Longrightarrow> first_free (w # bm) (TrailingZeros64 (NOT w)) \<and> TrailingZeros64 (NOT w) < 64"
  using trailing_zeros_not [of w] word_full [of w]
  by (auto simp: first_free_def used_offsets_Cons_low)

lemma first_free_full:
  assumes "w = 0xFFFFFFFFFFFFFFFF"
  shows "first_free (w # bm) (64 + n) \<longleftrightarrow> first_free bm n"
proof -
  have f: "m < 64 \<Longrightarrow> m \<in> used_offsets (w # bm)" for m
    using assms word_full [of w] by (simp add: used_offsets_Cons_low)
  have "(\<forall>m < 64 + n. m \<in> used_offsets (w # bm)) \<longleftrightarrow> (\<forall>m < n. m \<in> used_offsets bm)"
  proof (intro iffI allI impI)
    fix m assume "\<forall>m < 64 + n. m \<in> used_offsets (w # bm)" "m < n"
    then show "m \<in> used_offsets bm" using used_offsets_Cons_high [of m w bm] by simp
  next
    fix m assume "\<forall>m < n. m \<in> used_offsets bm" "m < 64 + n"
    then show "m \<in> used_offsets (w # bm)"
      by (cases m rule: nat_low_high) (auto simp: used_offsets_Cons_high f)
  qed
  then show ?thesis by (simp add: first_free_def used_offsets_Cons_high)
qed

lemma first_free_unique: "first_free bm m \<Longrightarrow> first_free bm n \<Longrightarrow> m = n"
  unfolding first_free_def by (metis linorder_less_linear)

lemma first_free_ex: "first_free bm n \<or> (\<forall>m \<le> n. m \<in> used_offsets bm) \<or> (\<exists>m < n. first_free bm m) \<or> 64 * length bm \<le> n"
proof (cases "\<exists>m \<le> n. m \<notin> used_offsets bm")
  case True
  define k where "k = (LEAST m. m \<notin> used_offsets bm)"
  have k: "k \<notin> used_offsets bm" "k \<le> n" "\<forall>m < k. m \<in> used_offsets bm"
    unfolding k_def using True LeastI_ex not_less_Least Least_le order_trans by metis+
  then show ?thesis
    by (cases "k < 64 * length bm") (auto simp: first_free_def le_less)
qed blast

lemma used_offsets_Cons_cong:
  "used_offsets bm' = insert n (used_offsets bm) \<Longrightarrow> used_offsets (w # bm') = insert (64 + n) (used_offsets (w # bm))"
  by (rule set_eqI, rule_tac n = x in nat_low_high)
    (auto simp: used_offsets_Cons_low used_offsets_Cons_high)

lemma scan_assigned:
  assumes "0 \<le> start" "start + 64 * int (i + length (w # bm)) < 2 ^ 63" "k < 64"
  shows "s64 (int (i * 64 + k) + start) = start + 64 * int i + int k"
  using assms by (simp add: s64_id)

lemma scan_cluster_beyond:
  "0 \<le> start \<Longrightarrow> start + 64 * int (i + length bm) < 2 ^ 63 \<Longrightarrow> en \<le> start + 64 * int i \<Longrightarrow> scan_cluster start en i bm = None"
proof (induction start en i bm rule: scan_cluster.induct)
  case (2 start en i w bm)
  have "w = 0xFFFFFFFFFFFFFFFF \<or> en \<le> s64 (int (i * 64 + TrailingZeros64 (NOT w)) + start)"
    using scan_assigned [OF "2.prems"(1), of i w bm "TrailingZeros64 (NOT w)"] "2.prems" first_free_low [of w bm]
    by (cases "w = 0xFFFFFFFFFFFFFFFF") auto
  moreover have "scan_cluster start en (Suc i) bm = None"
    by (rule "2.IH" [OF refl refl refl]) (use calculation "2.prems" in auto)
  ultimately show ?case by (auto simp: Let_def)
qed simp

lemma scan_cluster_node:
  "0 \<le> start \<Longrightarrow> start + 64 * int (i + length bm) < 2 ^ 63 \<Longrightarrow> scan_cluster start en i bm = scan_node start en i bm"
proof (induction start en i bm rule: scan_node.induct)
  case (2 start en i w bm)
  show ?case
  proof (cases "w = 0xFFFFFFFFFFFFFFFF")
    case True
    then have "scan_cluster start en (Suc i) bm = scan_node start en (Suc i) bm"
      using "2.prems" by (intro "2.IH" [OF refl refl]) auto
    with True show ?thesis by (simp add: Let_def)
  next
    case False
    have eq: "s64 (int (i * 64 + TrailingZeros64 (NOT w)) + start) = start + 64 * int i + int (TrailingZeros64 (NOT w))"
      using scan_assigned [OF "2.prems"] first_free_low [OF False] by blast
    have "scan_cluster start en (Suc i) bm = None" if "en \<le> start + 64 * int i + int (TrailingZeros64 (NOT w))"
      by (rule scan_cluster_beyond) (use that "2.prems" first_free_low [OF False, of bm] in auto)
    with False eq show ?thesis by (auto simp: Let_def simp del: of_nat_add of_nat_mult)
  qed
qed simp

lemma scan_node_free:
  "0 \<le> start \<Longrightarrow> start + 64 * int (i + length bm) < 2 ^ 63 \<Longrightarrow> first_free bm n \<Longrightarrow>
   if start + 64 * int i + int n < en
   then \<exists>bm'. scan_node start en i bm = Some (bm', start + 64 * int i + int n)
     \<and> length bm' = length bm \<and> used_offsets bm' = insert n (used_offsets bm)
   else scan_node start en i bm = None"
proof (induction start en i bm arbitrary: n rule: scan_node.induct)
  case (1 start en i)
  then show ?case by (simp add: first_free_def)
next
  case (2 start en i w bm)
  show ?case
  proof (cases "w = 0xFFFFFFFFFFFFFFFF")
    case True
    have "\<not> n < 64" using "2.prems"(3) True word_full [of w] by (auto simp: first_free_def used_offsets_Cons_low)
    then obtain m where n: "n = 64 + m" using le_Suc_ex not_less by blast
    then have "first_free bm m" using "2.prems"(3) first_free_full [OF True] by simp
    then have ih: "if start + 64 * int (Suc i) + int m < en
       then \<exists>bm'. scan_node start en (Suc i) bm = Some (bm', start + 64 * int (Suc i) + int m)
         \<and> length bm' = length bm \<and> used_offsets bm' = insert m (used_offsets bm)
       else scan_node start en (Suc i) bm = None"
      using "2.IH" [OF refl refl, of m] "2.prems" True by simp
    have p: "start + 64 * int i + int n = start + 64 * int (Suc i) + int m" using n by simp
    show ?thesis unfolding p
    proof (cases "start + 64 * int (Suc i) + int m < en")
      case lt: True
      then obtain bm' where b: "scan_node start en (Suc i) bm = Some (bm', start + 64 * int (Suc i) + int m)"
        "length bm' = length bm" "used_offsets bm' = insert m (used_offsets bm)"
        using ih by auto
      then show "if start + 64 * int (Suc i) + int m < en
        then \<exists>bm'. scan_node start en i (w # bm) = Some (bm', start + 64 * int (Suc i) + int m)
         \<and> length bm' = length (w # bm) \<and> used_offsets bm' = insert n (used_offsets (w # bm))
        else scan_node start en i (w # bm) = None"
        using used_offsets_Cons_cong [OF b(3), of w] lt True n by (simp add: Let_def)
    qed (use ih True in \<open>simp add: Let_def\<close>)
  next
    case False
    define k where "k = TrailingZeros64 (NOT w)"
    have k: "k < 64" "n = k"
      using first_free_low [OF False, of bm] first_free_unique [OF "2.prems"(3)] by (simp_all add: k_def)
    have eq: "s64 (int (i * 64 + k) + start) = start + 64 * int i + int k"
      by (rule scan_assigned [OF "2.prems"(1,2) k(1)])
    have u: "used_offsets ((w OR 2 ^ k) # bm) = insert k (used_offsets (w # bm))"
      using used_offsets_set [of 0 "w # bm" k] k(1) by simp
    show ?thesis using False eq u k(2)
      by (simp add: Let_def flip: k_def del: of_nat_add of_nat_mult)
  qed
qed

lemma scan_node_full:
  "\<forall>n < 64 * length bm. n \<in> used_offsets bm \<Longrightarrow> scan_node start en i bm = None"
proof (induction start en i bm rule: scan_node.induct)
  case (2 start en i w bm)
  have w: "w = 0xFFFFFFFFFFFFFFFF" using "2.prems" by (subst word_full) (auto simp flip: used_offsets_Cons_low [of _ w bm])
  have "\<forall>n < 64 * length bm. n \<in> used_offsets bm"
    using "2.prems" used_offsets_Cons_high [of _ w bm] by (metis length_Cons mult_Suc_right nat_add_left_cancel_less)
  then show ?case using "2.IH" [OF refl refl] w by (simp add: Let_def)
qed simp

section \<open>Both levels are slot pools\<close>

text \<open>
  A configured range is one of real ports; the bitmap of a level covers it and is of moderate size,
  so that no port computation wraps.
\<close>

definition range_ok :: "int \<Rightarrow> int \<Rightarrow> bitmap \<Rightarrow> bool" where
  "range_ok start en bm \<longleftrightarrow> 0 < start \<and> start \<le> en \<and> en \<le> 65536 \<and> en - start \<le> 64 * int (length bm) \<and> int (length bm) \<le> 2 ^ 20"

definition node_bitmap :: "string \<Rightarrow> port_allocator \<Rightarrow> bitmap" where
  "node_bitmap node s =
     (case map_of (BitmapPerNode s) node of Some bm \<Rightarrow> bm
      | None \<Rightarrow> replicate (nat (go_div (s64 (PortRangeEndNode s - PortRangeStartNode s + 63)) 64)) 0)"

definition node_ports_ok :: "string \<Rightarrow> int \<Rightarrow> int \<Rightarrow> port_allocator \<Rightarrow> bool" where
  "node_ports_ok node start en s \<longleftrightarrow>
     node \<noteq> '''' \<and> PortRangeStartNode s = start \<and> PortRangeEndNode s = en \<and> range_ok start en (node_bitmap node s)"

definition cluster_ports_ok :: "int \<Rightarrow> int \<Rightarrow> port_allocator \<Rightarrow> bool" where
  "cluster_ports_ok start en s \<longleftrightarrow>
     PortRangeStartCluster s = start \<and> PortRangeEndCluster s = en \<and> range_ok start en (BitmapCluster s)"

text \<open>The operations at the types of a slot pool: a slot is the offset of a port in the range.\<close>

definition node_assign :: "string \<Rightarrow> int \<Rightarrow> port_allocator \<Rightarrow> (port_allocator \<times> nat) option" where
  "node_assign node start s =
     (case AssignHostPort node s of (s', Inl e) \<Rightarrow> None | (s', Inr port) \<Rightarrow> Some (s', nat (port - start)))"

definition node_release :: "string \<Rightarrow> string \<Rightarrow> int \<Rightarrow> nat \<Rightarrow> port_allocator \<Rightarrow> port_allocator" where
  "node_release node podName start n s = fst (ReleaseHostPort node podName (start + int n) True s)"

definition cluster_assign :: "string \<Rightarrow> int \<Rightarrow> port_allocator \<Rightarrow> (port_allocator \<times> nat) option" where
  "cluster_assign podName start s =
     (case AssignClusterLevelHostPort podName s of
        (s', Inl e) \<Rightarrow> None | (s', Inr port) \<Rightarrow> Some (s', nat (port - start)))"

definition cluster_release :: "string \<Rightarrow> int \<Rightarrow> nat \<Rightarrow> port_allocator \<Rightarrow> port_allocator" where
  "cluster_release podName start n s = fst (ReleaseClusterLevelHostPort podName (start + int n) True s)"

lemma scan_node_total:
  assumes "range_ok start en bm"
  shows "(case scan_node start en 0 bm of
      None \<Rightarrow> \<forall>n < nat (en - start). n \<in> used_offsets bm
    | Some (bm', port) \<Rightarrow> start \<le> port \<and> port < en \<and> length bm' = length bm \<and> first_free bm (nat (port - start))
        \<and> used_offsets bm' = insert (nat (port - start)) (used_offsets bm))"
proof (cases "\<exists>n. first_free bm n")
  case True
  then obtain n where n: "first_free bm n" ..
  have "n < 64 * length bm" "\<forall>m < n. m \<in> used_offsets bm" using n by (auto simp: first_free_def)
  then show ?thesis
    using scan_node_free [of start 0 bm n en] n assms
    by (cases "start + int n < en") (auto simp: range_ok_def split: option.split)
next
  case False
  then have "\<forall>n < 64 * length bm. n \<in> used_offsets bm" using first_free_ex [of bm] by (metis not_less order_refl)
  then show ?thesis using scan_node_full [of bm start en 0] assms by (auto simp: range_ok_def)
qed

lemma range_offset:
  assumes "range_ok start en bm" "n < nat (en - start)"
  shows "s64 (start + int n - start) = int n" "int n < 64 * int (length bm)"
  using assms by (auto simp: range_ok_def s64_id)

lemma AssignHostPort_bitmap:
  assumes "node_ports_ok node start en s"
  obtains s1 where "node_bitmap node s1 = node_bitmap node s" "node_ports_ok node start en s1"
    "AssignHostPort node s = (case scan_node start en 0 (node_bitmap node s) of
       None \<Rightarrow> (s1, Inl (NoAvailablePortOnNode node))
     | Some (bm, port) \<Rightarrow> (s1\<lparr>BitmapPerNode := AList.update node bm (BitmapPerNode s1)\<rparr>, Inr port))"
proof (cases "map_of (BitmapPerNode s) node")
  case None
  let ?n = "go_div (s64 (PortRangeEndNode s - PortRangeStartNode s + 63)) 64"
  let ?e = "PortRangeEndNode s - PortRangeStartNode s + 63"
  define bm0 :: bitmap where "bm0 = replicate (nat ?n) 0"
  define s1 where "s1 = s\<lparr>BitmapPerNode := AList.update node bm0 (BitmapPerNode s)\<rparr>"
  have e: "0 \<le> ?e" "?e < 2 ^ 63" using assms by (auto simp: node_ports_ok_def range_ok_def)
  then have n: "0 \<le> ?n" by (simp add: s64_id go_div_nonneg pos_imp_zdiv_nonneg_iff)
  have bm: "node_bitmap node s = bm0" using None by (simp add: node_bitmap_def bm0_def)
  have bm1: "node_bitmap node s1 = bm0" by (simp add: node_bitmap_def s1_def update_conv)
  have ok1: "node_ports_ok node start en s1" using assms bm bm1 by (simp add: node_ports_ok_def s1_def)
  have mk: "make_bitmap ?n = Inr bm0" using n by (simp add: make_bitmap_def bm0_def)
  show ?thesis
    by (rule that [of s1])
      (use assms None bm bm1 ok1 mk in \<open>simp_all add: AssignHostPort_def node_ports_ok_def s1_def [symmetric]\<close>)
next
  case (Some bm)
  then show ?thesis using assms that [of s]
    by (simp add: AssignHostPort_def node_ports_ok_def node_bitmap_def)
qed

interpretation node_ports: slot_pool "node_assign node start" "node_release node podName start"
  "\<lambda>s. used_offsets (node_bitmap node s)" "nat (en - start)" "node_ports_ok node start en"
  for node podName start en
proof
  fix s q n assume ok: "node_ports_ok node start en s" and a: "node_assign node start s = Some (q, n)"
  obtain s1 where s1: "node_bitmap node s1 = node_bitmap node s" "node_ports_ok node start en s1"
    "AssignHostPort node s = (case scan_node start en 0 (node_bitmap node s) of
       None \<Rightarrow> (s1, Inl (NoAvailablePortOnNode node))
     | Some (bm, port) \<Rightarrow> (s1\<lparr>BitmapPerNode := AList.update node bm (BitmapPerNode s1)\<rparr>, Inr port))"
    using AssignHostPort_bitmap [OF ok] .
  then obtain bm port where b: "scan_node start en 0 (node_bitmap node s) = Some (bm, port)"
    "q = s1\<lparr>BitmapPerNode := AList.update node bm (BitmapPerNode s1)\<rparr>" "n = nat (port - start)"
    using a by (auto simp: node_assign_def split: option.splits)
  have r: "range_ok start en (node_bitmap node s)" using ok by (simp add: node_ports_ok_def)
  have "node_bitmap node q = bm" using b(2) by (simp add: node_bitmap_def update_conv)
  then show "node_ports_ok node start en q \<and> n < nat (en - start) \<and> n \<notin> used_offsets (node_bitmap node s) \<and>
      used_offsets (node_bitmap node q) = insert n (used_offsets (node_bitmap node s)) \<and>
      (\<forall>m<n. m \<in> used_offsets (node_bitmap node s))"
    using scan_node_total [OF r] b s1 by (simp add: node_ports_ok_def range_ok_def first_free_def)
next
  fix s assume ok: "node_ports_ok node start en s" and a: "node_assign node start s = None"
  have r: "range_ok start en (node_bitmap node s)" using ok by (simp add: node_ports_ok_def)
  show "\<forall>m<nat (en - start). m \<in> used_offsets (node_bitmap node s)"
  proof (cases "scan_node start en 0 (node_bitmap node s)")
    case None
    then show ?thesis using scan_node_total [OF r] by simp
  next
    case (Some bp)
    obtain s1 where "AssignHostPort node s = (case scan_node start en 0 (node_bitmap node s) of
       None \<Rightarrow> (s1, Inl (NoAvailablePortOnNode node))
     | Some (bm, port) \<Rightarrow> (s1\<lparr>BitmapPerNode := AList.update node bm (BitmapPerNode s1)\<rparr>, Inr port))"
      using AssignHostPort_bitmap [OF ok] .
    then have False using Some a by (cases bp) (simp add: node_assign_def)
    then show ?thesis ..
  qed
next
  fix s n assume ok: "node_ports_ok node start en s" and n: "n < nat (en - start)"
  have r: "range_ok start en (node_bitmap node s)" using ok by (simp add: node_ports_ok_def)
  have z: "start + int n \<noteq> 0" using r by (simp add: range_ok_def)
  obtain bm where bm: "clear_offset (int n) (node_bitmap node s) = Inr bm" "length bm = length (node_bitmap node s)"
    "used_offsets bm = used_offsets (node_bitmap node s) - {n}"
    using clear_offset_ok [of "int n" "node_bitmap node s"] range_offset(2) [OF r n] by auto
  have "node_ports_ok node start en (node_release node podName start n s)
    \<and> used_offsets (node_bitmap node (node_release node podName start n s)) = used_offsets (node_bitmap node s) - {n}"
  proof (cases "map_of (BitmapPerNode s) node")
    case None
    then show ?thesis using ok z by (auto simp: node_release_def ReleaseHostPort_def node_bitmap_def)
  next
    case (Some b)
    have rel: "node_release node podName start n s = s\<lparr>BitmapPerNode := AList.update node bm (BitmapPerNode s)\<rparr>"
      using Some bm(1) ok z range_offset(1) [OF r n]
      by (simp add: node_release_def ReleaseHostPort_def clear_node_port_def node_bitmap_def node_ports_ok_def)
    then show ?thesis using bm ok
      by (simp add: rel node_ports_ok_def range_ok_def node_bitmap_def update_conv)
  qed
  then show "node_ports_ok node start en (node_release node podName start n s)"
    and "used_offsets (node_bitmap node (node_release node podName start n s)) = used_offsets (node_bitmap node s) - {n}"
    by blast+
qed

interpretation cluster_ports: slot_pool "cluster_assign podName start" "cluster_release podName' start"
  "\<lambda>s. used_offsets (BitmapCluster s)" "nat (en - start)" "cluster_ports_ok start en"
  for podName podName' start en
proof
  fix s q n assume ok: "cluster_ports_ok start en s" and a: "cluster_assign podName start s = Some (q, n)"
  then have r: "range_ok start en (BitmapCluster s)" and st: "PortRangeStartCluster s = start" "PortRangeEndCluster s = en"
    by (auto simp: cluster_ports_ok_def)
  have "scan_cluster start en 0 (BitmapCluster s) = scan_node start en 0 (BitmapCluster s)"
    using r by (intro scan_cluster_node) (auto simp: range_ok_def)
  then obtain bm port where b: "scan_node start en 0 (BitmapCluster s) = Some (bm, port)"
    "q = s\<lparr>BitmapCluster := bm\<rparr>" "n = nat (port - start)"
    using a st by (auto simp: cluster_assign_def AssignClusterLevelHostPort_def split: option.splits)
  then show "cluster_ports_ok start en q \<and> n < nat (en - start) \<and> n \<notin> used_offsets (BitmapCluster s) \<and>
      used_offsets (BitmapCluster q) = insert n (used_offsets (BitmapCluster s)) \<and>
      (\<forall>m<n. m \<in> used_offsets (BitmapCluster s))"
    using scan_node_total [OF r] ok by (simp add: cluster_ports_ok_def range_ok_def first_free_def)
next
  fix s assume ok: "cluster_ports_ok start en s" and a: "cluster_assign podName start s = None"
  then have r: "range_ok start en (BitmapCluster s)" and st: "PortRangeStartCluster s = start" "PortRangeEndCluster s = en"
    by (auto simp: cluster_ports_ok_def)
  have "scan_cluster start en 0 (BitmapCluster s) = scan_node start en 0 (BitmapCluster s)"
    using r by (intro scan_cluster_node) (auto simp: range_ok_def)
  then show "\<forall>m<nat (en - start). m \<in> used_offsets (BitmapCluster s)"
    using a st scan_node_total [OF r]
    by (cases "scan_node start en 0 (BitmapCluster s)") (auto simp: cluster_assign_def AssignClusterLevelHostPort_def)
next
  fix s n assume ok: "cluster_ports_ok start en s" and n: "n < nat (en - start)"
  then have r: "range_ok start en (BitmapCluster s)" by (simp add: cluster_ports_ok_def)
  have z: "start + int n \<noteq> 0" using r by (simp add: range_ok_def)
  obtain bm where bm: "clear_offset (int n) (BitmapCluster s) = Inr bm" "length bm = length (BitmapCluster s)"
    "used_offsets bm = used_offsets (BitmapCluster s) - {n}"
    using clear_offset_ok [of "int n" "BitmapCluster s"] range_offset(2) [OF r n] by auto
  have rel: "cluster_release podName' start n s = s\<lparr>BitmapCluster := bm\<rparr>"
    using bm(1) ok z range_offset(1) [OF r n]
    by (simp add: cluster_release_def ReleaseClusterLevelHostPort_def clear_cluster_port_def cluster_ports_ok_def)
  show "cluster_ports_ok start en (cluster_release podName' start n s)"
    using bm(2) ok by (simp add: rel cluster_ports_ok_def range_ok_def)
  show "used_offsets (BitmapCluster (cluster_release podName' start n s)) = used_offsets (BitmapCluster s) - {n}"
    using bm(3) by (simp add: rel)
qed

section \<open>Start-up\<close>

lemma set_offsets_ok:
  "\<forall>off \<in> set offs. 0 \<le> off \<and> off < 64 * int (length bm) \<Longrightarrow>
   \<exists>bm'. set_offsets offs bm = Inr bm' \<and> length bm' = length bm \<and> used_offsets bm' = used_offsets bm \<union> nat ` set offs"
proof (induction offs bm rule: set_offsets.induct)
  case (2 off offs bm)
  then obtain b where b: "set_offset off bm = Inr b" "length b = length bm" "used_offsets b = insert (nat off) (used_offsets bm)"
    using set_offset_ok [of off bm] by auto
  then show ?case using "2.IH" [OF b(1)] "2.prems" by auto
qed simp

text \<open>The port a pod's annotation names, where it is one of the range \<open>start\<close> to \<open>en\<close>, both included.\<close>

definition pod_port :: "int \<Rightarrow> int \<Rightarrow> pod \<Rightarrow> int option" where
  "pod_port start en p =
     (let a = get_str (om_Annotations (pod_Meta p)) GenPortNumberAnnotation; (port, err) = Atoi a in
      if a = '''' \<or> err \<or> en < port \<or> port < start then None else Some port)"

lemma usedPorts_pod:
  assumes "0 < start" "en \<le> 65536" "p \<in> set pods" "pod_port start en p = Some port"
  shows "port - start \<in> set (usedPorts start en pods)" "start \<le> port" "port \<le> en"
proof -
  let ?a = "get_str (om_Annotations (pod_Meta p)) GenPortNumberAnnotation"
  have a: "?a \<noteq> ''''" "fst (Atoi ?a) = port" and r: "start \<le> port" "port \<le> en"
    using assms(4) by (auto simp: pod_port_def Let_def split: prod.splits if_splits)
  then show "start \<le> port" "port \<le> en" by auto
  have "om_Annotations (pod_Meta p) \<noteq> []" using a(1) by (auto simp: get_str_def)
  moreover have "s64 (port - start) mod 2 ^ 16 = port - start"
    using assms(1,2) r by (simp add: s64_id)
  ultimately show "port - start \<in> set (usedPorts start en pods)"
    using a(2) r assms(3) unfolding usedPorts_def by (force simp: Let_def)
qed

lemma usedPorts_range:
  assumes "0 < start" "en \<le> 65536" "off \<in> set (usedPorts start en pods)"
  shows "0 \<le> off \<and> off \<le> en - start"
proof -
  obtain port where "off = s64 (port - start) mod 2 ^ 16" "start \<le> port" "port \<le> en"
    using assms(3) by (auto simp: usedPorts_def Let_def split: if_splits)
  then show ?thesis using assms(1,2) by (simp add: s64_id)
qed

text \<open>What \<open>init_nodes\<close> keeps: the configured range, and bitmaps that reach the last port of it.\<close>

definition nodes_ready :: "int \<Rightarrow> int \<Rightarrow> port_allocator \<Rightarrow> bool" where
  "nodes_ready start en s \<longleftrightarrow> 0 < start \<and> start \<le> en \<and> en \<le> 65536 \<and> PortRangeStartNode s = start \<and> PortRangeEndNode s = en
     \<and> (\<forall>n bm. map_of (BitmapPerNode s) n = Some bm \<longrightarrow> length bm = nat ((en - start) div 64 + 1))"

lemma make_node_bitmap:
  assumes "0 < start" "start \<le> en" "en \<le> 65536"
  shows "make_bitmap (s64 (go_div (s64 (en - start)) 64 + 1)) = Inr (replicate (nat ((en - start) div 64 + 1)) 0)"
proof -
  have "0 \<le> (en - start) div 64" "(en - start) div 64 \<le> 65536" using assms by linarith+
  then show ?thesis using assms by (simp add: make_bitmap_def s64_id go_div_nonneg)
qed

lemma init_nodes_step:
  assumes "nodes_ready start en s" "pod_port start en p = Some port"
  obtains s' where "init_nodes (p # ps) s = init_nodes ps s'" "nodes_ready start en s'"
    "nat (port - start) \<in> used_offsets (node_bitmap (pod_NodeName p) s')"
    "\<forall>n. used_offsets (node_bitmap n s) \<subseteq> used_offsets (node_bitmap n s')"
    "BitmapCluster s' = BitmapCluster s" "PortRangeStartCluster s' = PortRangeStartCluster s"
    "PortRangeEndCluster s' = PortRangeEndCluster s" "IsLeader s' = IsLeader s"
proof -
  let ?a = "get_str (om_Annotations (pod_Meta p)) GenPortNumberAnnotation" and ?L = "nat ((en - start) div 64 + 1)"
  have port: "?a \<noteq> ''''" "Atoi ?a = (port, False)" "start \<le> port" "port \<le> en"
    using assms(2) by (auto simp: pod_port_def Let_def split: prod.splits if_splits)
  have r: "0 < start" "start \<le> en" "en \<le> 65536" "PortRangeStartNode s = start" "PortRangeEndNode s = en"
    and len: "map_of (BitmapPerNode s) n = Some bm \<Longrightarrow> length bm = ?L" for n bm
    using assms(1) by (auto simp: nodes_ready_def)
  define bm where "bm = (case map_of (BitmapPerNode s) (pod_NodeName p) of Some bm \<Rightarrow> bm | None \<Rightarrow> replicate ?L 0)"
  have lbm: "length bm = ?L" by (auto simp: bm_def split: option.splits dest: len)
  have old: "used_offsets (node_bitmap (pod_NodeName p) s) = used_offsets bm"
    by (auto simp: node_bitmap_def bm_def split: option.splits)
  have off: "s64 (port - start) = port - start" using port r by (simp add: s64_id)
  have "port - start < 64 * int (length bm)" using lbm port r by simp
  then obtain bm' where bm': "set_offset (port - start) bm = Inr bm'" "length bm' = ?L"
    "used_offsets bm' = insert (nat (port - start)) (used_offsets bm)"
    using set_offset_ok [of "port - start" bm] port(3) lbm by auto
  define s' where "s' = s\<lparr>BitmapPerNode := AList.update (pod_NodeName p) bm' (BitmapPerNode s)\<rparr>"
  have nb: "node_bitmap n s' = (if n = pod_NodeName p then bm' else node_bitmap n s)" for n
    by (auto simp: node_bitmap_def s'_def update_conv split: option.split)
  show ?thesis
  proof (rule that [of s'])
    show "init_nodes (p # ps) s = init_nodes ps s'"
      using port r off make_node_bitmap [OF r(1-3)] bm'(1)
      by (auto simp: bm_def s'_def split: option.splits)
    show "nodes_ready start en s'" using r len bm'(2) by (auto simp: nodes_ready_def s'_def update_conv)
  qed (use nb bm'(3) old in \<open>auto simp: s'_def\<close>)
qed

lemma init_nodes_ok:
  "nodes_ready start en s \<Longrightarrow> \<exists>s'. init_nodes pods s = Inr s' \<and> nodes_ready start en s'
    \<and> (\<forall>n. used_offsets (node_bitmap n s) \<subseteq> used_offsets (node_bitmap n s'))
    \<and> (\<forall>p \<in> set pods. \<forall>port. pod_port start en p = Some port \<longrightarrow>
        nat (port - start) \<in> used_offsets (node_bitmap (pod_NodeName p) s'))
    \<and> BitmapCluster s' = BitmapCluster s \<and> PortRangeStartCluster s' = PortRangeStartCluster s
    \<and> PortRangeEndCluster s' = PortRangeEndCluster s \<and> IsLeader s' = IsLeader s"
proof (induction pods arbitrary: s)
  case (Cons p pods)
  show ?case
  proof (cases "pod_port start en p")
    case None
    then have "init_nodes (p # pods) s = init_nodes pods s"
      using Cons.prems by (auto simp: pod_port_def nodes_ready_def Let_def split: prod.splits if_splits)
    then show ?thesis using Cons None by auto
  next
    case (Some port)
    obtain s1 where s1: "init_nodes (p # pods) s = init_nodes pods s1" "nodes_ready start en s1"
      "nat (port - start) \<in> used_offsets (node_bitmap (pod_NodeName p) s1)"
      "\<forall>n. used_offsets (node_bitmap n s) \<subseteq> used_offsets (node_bitmap n s1)"
      "BitmapCluster s1 = BitmapCluster s" "PortRangeStartCluster s1 = PortRangeStartCluster s"
      "PortRangeEndCluster s1 = PortRangeEndCluster s" "IsLeader s1 = IsLeader s"
      using init_nodes_step [OF Cons.prems Some, of pods] .
    show ?thesis using Cons.IH [OF s1(2)] s1 Some by (auto; blast)
  qed
qed simp

lemma nodes_ready_ok: "nodes_ready start en s \<Longrightarrow> node \<noteq> '''' \<Longrightarrow> node_ports_ok node start en s"
proof -
  assume a: "nodes_ready start en s" "node \<noteq> ''''"
  let ?b = "node_bitmap node s"
  have "length ?b = nat ((en - start) div 64 + 1) \<or> length ?b = nat ((en - start + 63) div 64)"
    using a by (auto simp: nodes_ready_def node_bitmap_def s64_id go_div_nonneg split: option.splits)
  then have "en - start \<le> 64 * int (length ?b) \<and> int (length ?b) \<le> 2 ^ 20" using a(1) unfolding nodes_ready_def by auto
  then show ?thesis using a by (simp add: nodes_ready_def node_ports_ok_def range_ok_def)
qed

section \<open>Properties\<close>

definition ex_ports :: port_allocator where
  "ex_ports = (case NewPortAllocator False ''40000-40100'' ''42000-42100'' of Inr s \<Rightarrow> s)"

definition ex_port_pod :: pod where
  "ex_port_pod = \<lparr>pod_Meta = \<lparr>om_Name = ''p'', om_Namespace = ''ns'', om_UID = ''u'', om_Labels = [],
     om_Annotations = [(GenPortNumberAnnotation, ''40003'')], om_Deleting = False, om_Finalizers = []\<rparr>,
     pod_NodeName = ''n1''\<rparr>"

lemma ex_ports_eval:
  "NewPortAllocator False ''40000-40100'' ''42000-42100'' = Inr ex_ports"
  "PortRangeStartNode ex_ports = 40000" "PortRangeEndNode ex_ports = 40100"
  "PortRangeStartCluster ex_ports = 42000" "PortRangeEndCluster ex_ports = 42100"
  "node_ports_ok ''n1'' 40000 40100 ex_ports" "cluster_ports_ok 42000 42100 ex_ports"
  by code_simp+

text \<open>
  A node-level assignment returns a port of the configured range, the lowest one that is free on
  that node, marks it and nothing else, and leaves other nodes and the cluster bitmap alone; it
  fails only when every port of the range is taken on that node.
\<close>

theorem node_port_lowest_free:
  assumes "node_ports_ok node start en s"
  shows "(case AssignHostPort node s of
      (s', Inr port) \<Rightarrow> start \<le> port \<and> port < en \<and> nat (port - start) \<notin> used_offsets (node_bitmap node s)
        \<and> (\<forall>q. start \<le> q \<and> q < port \<longrightarrow> nat (q - start) \<in> used_offsets (node_bitmap node s))
        \<and> used_offsets (node_bitmap node s') = insert (nat (port - start)) (used_offsets (node_bitmap node s))
    | (s', Inl e) \<Rightarrow> e = NoAvailablePortOnNode node
        \<and> (\<forall>q. start \<le> q \<and> q < en \<longrightarrow> nat (q - start) \<in> used_offsets (node_bitmap node s)))
    \<and> (\<forall>node'. node' \<noteq> node \<longrightarrow> node_bitmap node' (fst (AssignHostPort node s)) = node_bitmap node' s)
    \<and> BitmapCluster (fst (AssignHostPort node s)) = BitmapCluster s"
proof (intro conjI)
  have r: "range_ok start en (node_bitmap node s)" using assms by (simp add: node_ports_ok_def)
  obtain s1 where a: "AssignHostPort node s = (case scan_node start en 0 (node_bitmap node s) of
       None \<Rightarrow> (s1, Inl (NoAvailablePortOnNode node))
     | Some (bm, port) \<Rightarrow> (s1\<lparr>BitmapPerNode := AList.update node bm (BitmapPerNode s1)\<rparr>, Inr port))"
    using AssignHostPort_bitmap [OF assms] .
  show "case AssignHostPort node s of
      (s', Inr port) \<Rightarrow> start \<le> port \<and> port < en \<and> nat (port - start) \<notin> used_offsets (node_bitmap node s)
        \<and> (\<forall>q. start \<le> q \<and> q < port \<longrightarrow> nat (q - start) \<in> used_offsets (node_bitmap node s))
        \<and> used_offsets (node_bitmap node s') = insert (nat (port - start)) (used_offsets (node_bitmap node s))
    | (s', Inl e) \<Rightarrow> e = NoAvailablePortOnNode node
        \<and> (\<forall>q. start \<le> q \<and> q < en \<longrightarrow> nat (q - start) \<in> used_offsets (node_bitmap node s))"
  proof (cases "scan_node start en 0 (node_bitmap node s)")
    case None
    then show ?thesis using scan_node_total [OF r] unfolding a by (auto simp: nat_less_iff)
  next
    case (Some bp)
    obtain bm port where bp: "bp = (bm, port)" by (cases bp)
    have nb: "node_bitmap node (s1\<lparr>BitmapPerNode := AList.update node bm (BitmapPerNode s1)\<rparr>) = bm"
      by (simp add: node_bitmap_def update_conv)
    show ?thesis using scan_node_total [OF r] unfolding a Some bp
      by (auto simp: nb first_free_def nat_less_iff)
  qed
  show "\<forall>node'. node' \<noteq> node \<longrightarrow> node_bitmap node' (fst (AssignHostPort node s)) = node_bitmap node' s"
    and "BitmapCluster (fst (AssignHostPort node s)) = BitmapCluster s"
    by (auto simp: AssignHostPort_def make_bitmap_def node_bitmap_def update_conv split: option.splits)
qed

theorem node_port_lowest_free_witness:
  "node_ports_ok ''n1'' 40000 40100 ex_ports \<and> snd (AssignHostPort ''n1'' ex_ports) = Inr 40000
   \<and> node_bitmap ''n2'' (fst (AssignHostPort ''n1'' ex_ports)) = node_bitmap ''n2'' ex_ports"
proof (intro conjI)
  show "snd (AssignHostPort ''n1'' ex_ports) = Inr 40000" by code_simp
qed (use node_port_lowest_free [OF ex_ports_eval(6)] ex_ports_eval(6) in simp_all)

text \<open>
  C26: Whatever the sequence of assignments and immediate releases, the ports held at any time on one
  node are pairwise distinct, lie in the range and are marked in the bitmap; the same holds of the
  ports held at cluster level.
\<close>

theorem held_ports_distinct:
  assumes "node_ports_ok node start en s" "cluster_ports_ok cstart cen s"
  shows "(let (s', held) = slot_pool.run (node_assign node start) (node_release node podName start) ops (s, [])
     in distinct held \<and> (\<forall>n \<in> set held. start + int n < en \<and> n \<in> used_offsets (node_bitmap node s')))
   \<and> (let (s', held) = slot_pool.run (cluster_assign podName cstart) (cluster_release podName' cstart) ops (s, [])
     in distinct held \<and> (\<forall>n \<in> set held. cstart + int n < cen \<and> n \<in> used_offsets (BitmapCluster s')))"
proof -
  obtain s1 h1 where r1: "slot_pool.run (node_assign node start) (node_release node podName start) ops (s, []) = (s1, h1)"
    by (rule prod.exhaust)
  obtain s2 h2 where r2: "slot_pool.run (cluster_assign podName cstart) (cluster_release podName' cstart) ops (s, []) = (s2, h2)"
    by (rule prod.exhaust)
  have "distinct h1 \<and> set h1 \<subseteq> used_offsets (node_bitmap node s1) \<and> (\<forall>n \<in> set h1. n < nat (en - start))"
    using node_ports.run_held [OF assms(1) _ _ _ r1] by simp
  moreover have "distinct h2 \<and> set h2 \<subseteq> used_offsets (BitmapCluster s2) \<and> (\<forall>n \<in> set h2. n < nat (cen - cstart))"
    using cluster_ports.run_held [OF assms(2) _ _ _ r2] by simp
  ultimately show ?thesis unfolding r1 r2 by auto
qed

theorem held_ports_distinct_witness:
  "node_ports_ok ''n1'' 40000 40100 ex_ports \<and> cluster_ports_ok 42000 42100 ex_ports \<and>
   (let (s', held) = slot_pool.run (node_assign ''n1'' 40000) (node_release ''n1'' ''p'' 40000)
       [Assign, Assign, Release 0, Assign] (ex_ports, [])
    in distinct held)"
  using held_ports_distinct [OF ex_ports_eval(6,7), of "''p''" "[Assign, Assign, Release 0, Assign]"] ex_ports_eval(6,7)
  by (auto simp: Let_def)

text \<open>
  The two scans differ in what they do at a word whose first free port is beyond the range (one
  gives up, the other goes on), yet they return the same port and bitmap for every bitmap whose
  ports fit the machine integers.
\<close>

theorem cluster_scan_equals_node_scan:
  assumes "0 \<le> start" "start + 64 * int (length bm) < 2 ^ 63"
  shows "scan_cluster start en 0 bm = scan_node start en 0 bm"
  using scan_cluster_node [of start 0 bm en] assms by simp

theorem cluster_scan_equals_node_scan_witness:
  "scan_cluster 40000 40003 0 [7, 0] = (None :: (bitmap \<times> int) option) \<and> scan_node 40000 40003 0 [7, 0] = None"
proof -
  have "scan_node 40000 40003 0 [7, 0] = (None :: (bitmap \<times> int) option)" by code_simp
  moreover have "scan_cluster 40000 40003 0 [7, 0] = scan_node 40000 40003 0 [7, 0]"
    by (rule cluster_scan_equals_node_scan) simp_all
  ultimately show ?thesis by simp
qed

text \<open>
  A new leader never hands out a port that an existing pod holds: started from any configuration
  of real ports and any list of pods, the election callback does not panic, and afterwards neither
  a cluster-level nor a node-level assignment returns the port of a listed pod (of that node).
\<close>

theorem restart_keeps_existing_ports:
  assumes "NewPortAllocator False nodeRange clusterRange = Inr s"
    and "PortRangeStartNode s = start" "PortRangeEndNode s = en" "0 < start" "start \<le> en" "en \<le> 65536"
    and "PortRangeStartCluster s = cstart" "PortRangeEndCluster s = cen" "0 < cstart" "cstart \<le> cen" "cen \<le> 65536"
  shows "\<exists>s'. port_leader_elected (Some clusterPods) (Some workerPods) s = Inr s' \<and> IsLeader s'
    \<and> (\<forall>p \<in> set clusterPods. \<forall>port. pod_port cstart cen p = Some port \<longrightarrow>
         snd (AssignClusterLevelHostPort podName s') \<noteq> Inr port)
    \<and> (\<forall>p \<in> set workerPods. \<forall>port. pod_port start en p = Some port \<longrightarrow>
         snd (AssignHostPort (pod_NodeName p) s') \<noteq> Inr port)"
proof -
  have new: "BitmapPerNode s = []" "make_bitmap (s64 (go_div (s64 (cen - cstart)) 64 + 1)) = Inr (BitmapCluster s)"
    using assms by (auto simp: NewPortAllocator_def Let_def split: if_splits sum.splits)
  let ?L = "nat ((cen - cstart) div 64 + 1)"
  have bc: "length (BitmapCluster s) = ?L" using new(2) make_node_bitmap [OF assms(9-11)]
    by (metis length_replicate sum.inject(2))
  let ?u = "usedPorts cstart cen clusterPods"
  have "\<forall>off \<in> set ?u. 0 \<le> off \<and> off < 64 * int (length (BitmapCluster s))"
    using usedPorts_range [OF assms(9,11)] bc assms(10) by fastforce
  then obtain bm where bm: "set_offsets ?u (BitmapCluster s) = Inr bm" "length bm = ?L"
    "used_offsets bm = used_offsets (BitmapCluster s) \<union> nat ` set ?u"
    using set_offsets_ok bc by metis
  define s1 where "s1 = s\<lparr>IsLeader := True, BitmapCluster := bm\<rparr>"
  have "nodes_ready start en s1" using assms new(1) by (simp add: nodes_ready_def s1_def)
  then obtain s2 where s2: "init_nodes workerPods s1 = Inr s2" "nodes_ready start en s2"
    "\<forall>p \<in> set workerPods. \<forall>port. pod_port start en p = Some port \<longrightarrow>
        nat (port - start) \<in> used_offsets (node_bitmap (pod_NodeName p) s2)"
    "BitmapCluster s2 = bm" "PortRangeStartCluster s2 = cstart" "PortRangeEndCluster s2 = cen" "IsLeader s2"
    using init_nodes_ok [of start en s1 workerPods] assms by (auto simp: s1_def)
  have run: "port_leader_elected (Some clusterPods) (Some workerPods) s = Inr s2"
    using bm(1) s2(1) assms by (simp add: port_leader_elected_def initBitMapForClusterLevelPortAssign_def
        initBitMapForNodeLevelPortAssign_def s1_def)
  have "cen - cstart \<le> 64 * int ?L" "int ?L \<le> 2 ^ 20" using assms(9-11) by auto
  then have ok: "cluster_ports_ok cstart cen s2" using s2 bm(2) assms by (simp add: cluster_ports_ok_def range_ok_def)
  have "snd (AssignClusterLevelHostPort podName s2) \<noteq> Inr port"
    if "p \<in> set clusterPods" "pod_port cstart cen p = Some port" for p port
  proof
    assume "snd (AssignClusterLevelHostPort podName s2) = Inr port"
    then have "\<exists>q. cluster_assign podName cstart s2 = Some (q, nat (port - cstart))"
      by (cases "AssignClusterLevelHostPort podName s2") (auto simp: cluster_assign_def)
    then show False using cluster_ports.assign_Some [OF ok] bm(3) s2(4) usedPorts_pod [OF assms(9,11) that] by blast
  qed
  moreover have "snd (AssignHostPort (pod_NodeName p) s2) \<noteq> Inr port"
    if "p \<in> set workerPods" "pod_port start en p = Some port" for p port
  proof
    assume a: "snd (AssignHostPort (pod_NodeName p) s2) = Inr port"
    then have "pod_NodeName p \<noteq> ''''" by (auto simp: AssignHostPort_def)
    moreover have "\<exists>q. node_assign (pod_NodeName p) start s2 = Some (q, nat (port - start))"
      using a by (cases "AssignHostPort (pod_NodeName p) s2") (auto simp: node_assign_def)
    ultimately show False using node_ports.assign_Some nodes_ready_ok [OF s2(2)] s2(3) that by blast
  qed
  ultimately show ?thesis using run s2(7) by blast
qed

theorem restart_keeps_existing_ports_witness:
  "pod_port 40000 40100 ex_port_pod = Some 40003 \<and>
   (\<exists>s'. port_leader_elected (Some []) (Some [ex_port_pod]) ex_ports = Inr s' \<and> IsLeader s'
      \<and> snd (AssignHostPort ''n1'' s') \<noteq> Inr 40003)"
proof
  show p: "pod_port 40000 40100 ex_port_pod = Some 40003" by code_simp
  have n: "pod_NodeName ex_port_pod = ''n1''" by (simp add: ex_port_pod_def)
  show "\<exists>s'. port_leader_elected (Some []) (Some [ex_port_pod]) ex_ports = Inr s' \<and> IsLeader s'
      \<and> snd (AssignHostPort ''n1'' s') \<noteq> Inr 40003"
    using restart_keeps_existing_ports [OF ex_ports_eval(1) ex_ports_eval(2,3) _ _ _ ex_ports_eval(4,5),
        of "[]" "[ex_port_pod]" "''p''"] p n by auto
qed

text \<open>
  A release that waits for the pod is processed once: if the API server answers NotFound within
  the first hundred polls the port is freed exactly as by an immediate release, otherwise the item
  is dropped and the port stays taken for good.
\<close>

theorem queued_release_frees_or_leaks:
  assumes "nodeLevelPortReleaseQueue s = (node, podName, port) # rest" "port \<noteq> 0"
    and "map_of (BitmapPerNode s) node = Some bm"
  shows "releaseNodePortUntilPodDeleted polls s =
    (if \<exists>k < 100. polls k
     then ReleaseHostPort node podName port True (s\<lparr>nodeLevelPortReleaseQueue := rest\<rparr>)
     else (s\<lparr>nodeLevelPortReleaseQueue := rest\<rparr>, None))"
  using assms
  by (auto simp: releaseNodePortUntilPodDeleted_def ReleaseHostPort_def pod_gone_def RETRY_STEPS_def list_ex_iff Let_def)

theorem queued_release_frees_or_leaks_witness:
  "(let s = fst (ReleaseHostPort ''n1'' ''p'' 40000 False (fst (AssignHostPort ''n1'' ex_ports)))
    in releaseNodePortUntilPodDeleted (\<lambda>k. False) s = (s\<lparr>nodeLevelPortReleaseQueue := []\<rparr>, None))"
proof -
  define s where "s = fst (ReleaseHostPort ''n1'' ''p'' 40000 False (fst (AssignHostPort ''n1'' ex_ports)))"
  have "nodeLevelPortReleaseQueue s = [(''n1'', ''p'', 40000)]" "map_of (BitmapPerNode s) ''n1'' = Some [1, 0]"
    unfolding s_def by code_simp+
  then show ?thesis using queued_release_frees_or_leaks [of s "''n1''" "''p''" 40000 "[]" "[1, 0]" "\<lambda>k. False"]
    by (simp add: s_def)
qed

end
