(* ===== verification/IndexAllocator.thy ===== *)
theory IndexAllocator
  imports Prelude
begin

text \<open>
  The index allocator, \<^verbatim>\<open>internal/indexallocator/indexallocator.go\<close>: an atomic 64-bit counter from
  which temporary indices for the exchange between a pod and the device plugin are drawn round-robin.
\<close>

section \<open>State and operations\<close>

datatype index_error = IndexClientNil | NotLeader

record index_allocator =
  ia_IsLeader :: bool
  currentIndex :: int

definition IndexRangeStart :: int where
  "IndexRangeStart = 1"

definition IndexRangeEnd :: int where
  "IndexRangeEnd = 512"

definition NewIndexAllocator :: "bool \<Rightarrow> index_error + index_allocator" where
  "NewIndexAllocator clientNil =
     (if clientNil then Inl IndexClientNil else Inr \<lparr>ia_IsLeader = False, currentIndex = 0\<rparr>)"

definition index_leader_elected :: "index_allocator \<Rightarrow> index_allocator" where
  "index_leader_elected s = s\<lparr>ia_IsLeader := True\<rparr>"

definition AssignIndex :: "string \<Rightarrow> index_allocator \<Rightarrow> index_allocator \<times> (index_error + int)" where
  "AssignIndex podName s =
     (if \<not> ia_IsLeader s then (s, Inl NotLeader)
      else let nxt = s64 (currentIndex s + 1);
               index = s64 (go_mod (s64 (nxt - 1)) IndexRangeEnd + IndexRangeStart)
           in (s\<lparr>currentIndex := nxt\<rparr>, Inr index))"

text \<open>The results of assigning an index to each pod of a list, one after the other.\<close>

fun assign_indices :: "string list \<Rightarrow> index_allocator \<Rightarrow> index_allocator \<times> (index_error + int) list" where
  "assign_indices [] s = (s, [])"
| "assign_indices (p # ps) s =
     (let (s1, r) = AssignIndex p s; (s2, rs) = assign_indices ps s1 in (s2, r # rs))"

section \<open>Facts\<close>

lemma AssignIndex_leader:
  assumes "ia_IsLeader s" "0 \<le> currentIndex s" "currentIndex s < 2 ^ 63 - 1"
  shows "AssignIndex p s = (s\<lparr>currentIndex := currentIndex s + 1\<rparr>, Inr (currentIndex s mod 512 + 1))"
proof -
  have "0 \<le> currentIndex s mod 512" "currentIndex s mod 512 < 512" by simp_all
  then show ?thesis using assms
    by (simp add: AssignIndex_def Let_def s64_id go_mod_nonneg IndexRangeEnd_def IndexRangeStart_def)
qed

lemma assign_indices_leader:
  "ia_IsLeader s \<Longrightarrow> 0 \<le> currentIndex s \<Longrightarrow> currentIndex s + int (length ps) < 2 ^ 63 \<Longrightarrow>
   assign_indices ps s = (s\<lparr>currentIndex := currentIndex s + int (length ps)\<rparr>,
     map (\<lambda>k. Inr ((currentIndex s + int k) mod 512 + 1)) [0..<length ps])"
proof (induction ps arbitrary: s)
  case (Cons p ps)
  have a: "AssignIndex p s = (s\<lparr>currentIndex := currentIndex s + 1\<rparr>, Inr (currentIndex s mod 512 + 1))"
    using Cons.prems by (intro AssignIndex_leader) auto
  have ih: "assign_indices ps (s\<lparr>currentIndex := currentIndex s + 1\<rparr>) =
     (s\<lparr>currentIndex := currentIndex s + 1 + int (length ps)\<rparr>,
      map (\<lambda>k. Inr ((currentIndex s + 1 + int k) mod 512 + 1)) [0..<length ps])"
    using Cons.IH [of "s\<lparr>currentIndex := currentIndex s + 1\<rparr>"] Cons.prems by simp
  show ?case
    by (simp add: a ih map_upt_Suc comp_def add.assoc del: upt_Suc)
qed simp

section \<open>Properties\<close>

text \<open>
  The indices a leader hands out lie between 1 and 512, and any 512 consecutive ones are pairwise
  distinct, as long as the 64-bit counter has not reached its end.
\<close>

theorem indices_distinct_in_cycle:
  assumes "ia_IsLeader s" "0 \<le> currentIndex s" "currentIndex s + int (length ps) < 2 ^ 63" "length ps \<le> 512"
  shows "\<exists>is. snd (assign_indices ps s) = map Inr is \<and> length is = length ps \<and> distinct is
    \<and> (\<forall>i \<in> set is. 1 \<le> i \<and> i \<le> 512)"
proof -
  let ?is = "map (\<lambda>k. (currentIndex s + int k) mod 512 + 1) [0..<length ps]"
  have "inj_on (\<lambda>k. (currentIndex s + int k) mod 512 + 1) {0..<length ps}"
  proof (rule inj_onI)
    fix a b assume ab: "a \<in> {0..<length ps}" "b \<in> {0..<length ps}"
      and "(currentIndex s + int a) mod 512 + 1 = (currentIndex s + int b) mod 512 + 1"
    then have "512 dvd (currentIndex s + int a) - (currentIndex s + int b)" by (simp add: mod_eq_dvd_iff)
    then have "512 dvd int a - int b" by simp
    then show "a = b" using ab assms(4) dvd_imp_le_int [of "int a - int b" 512] by (cases "a = b") auto
  qed
  then have "distinct ?is" by (simp add: distinct_map)
  moreover have "\<forall>i \<in> set ?is. 1 \<le> i \<and> i \<le> 512"
  proof
    fix i assume "i \<in> set ?is"
    then obtain k where "i = (currentIndex s + int k) mod 512 + 1" by auto
    moreover have "0 \<le> (currentIndex s + int k) mod 512" "(currentIndex s + int k) mod 512 < 512" by simp_all
    ultimately show "1 \<le> i \<and> i \<le> 512" by linarith
  qed
  ultimately show ?thesis using assign_indices_leader [OF assms(1-3)]
    by (intro exI [of _ ?is]) (simp add: comp_def)
qed

theorem indices_distinct_in_cycle_witness:
  "snd (assign_indices [''a'', ''b''] (index_leader_elected \<lparr>ia_IsLeader = False, currentIndex = 511\<rparr>)) = [Inr 512, Inr 1]
   \<and> (\<exists>is. snd (assign_indices [''a'', ''b''] (index_leader_elected \<lparr>ia_IsLeader = False, currentIndex = 511\<rparr>)) = map Inr is
      \<and> distinct is)"
proof
  show "snd (assign_indices [''a'', ''b''] (index_leader_elected \<lparr>ia_IsLeader = False, currentIndex = 511\<rparr>)) = [Inr 512, Inr 1]"
    by code_simp
  show "\<exists>is. snd (assign_indices [''a'', ''b''] (index_leader_elected \<lparr>ia_IsLeader = False, currentIndex = 511\<rparr>)) = map Inr is
      \<and> distinct is"
    using indices_distinct_in_cycle [of "index_leader_elected \<lparr>ia_IsLeader = False, currentIndex = 511\<rparr>" "[''a'', ''b'']"]
    by (auto simp: index_leader_elected_def)
qed

end
