(* ===== verification/UsageMetrics.thy ===== *)
theory UsageMetrics
  imports GoStrings
begin

text \<open>
  Worker usage samples and their aggregation, \<^verbatim>\<open>internal/autoscaler/metrics\<close>
  (\<open>metrics_sampler.go\<close>, \<open>metrics_aggregator.go\<close>). The decaying histogram belongs to the vertical
  pod autoscaler library: a histogram is the list of operations made on it so far, latest last, and
  what the library computes from them is an argument of the code that asks (theory \<open>Autoscaler\<close>).
  A time is the number of nanoseconds since Go's zero time; a difference of times saturates at the
  bounds of \<^verbatim>\<open>int64\<close>.
\<close>

section \<open>State\<close>

datatype hist_op =
    HAdd float64 rat int  \<comment> \<open>value, weight, time\<close>
  | HSub float64 rat int

type_synonym histogram = "hist_op list"

record worker_usage =
  wu_Namespace :: string
  wu_WorkloadName :: string
  wu_WorkerName :: string
  wu_TflopsUsage :: float64
  wu_VramUsage :: nat
  wu_Timestamp :: int

record usage_aggregator =
  TflopsHistogram :: histogram
  VramHistogram :: histogram
  FirstSampleStart :: int
  LastSampleStart :: int
  TotalSamplesCount :: int

record usage_sampler =
  LastTflopsSampleTime :: int
  VramPeak :: nat
  LastVramSampleTime :: int
  VramWindowEnd :: int

definition DefaultAggregationInterval :: int where
  "DefaultAggregationInterval = 24 * 60 * 60 * 10 ^ 9"

definition minSampleWeight :: rat where
  "minSampleWeight = 1 / 10"

definition time_Sub :: "int \<Rightarrow> int \<Rightarrow> int" where
  "time_Sub a b = max (- (2 ^ 63)) (min (2 ^ 63 - 1) (a - b))"

definition Duration_Truncate :: "int \<Rightarrow> int \<Rightarrow> int" where
  "Duration_Truncate d m = (if m \<le> 0 then d else d - go_mod d m)"

definition NewWorkerUsageAggregator :: usage_aggregator where
  "NewWorkerUsageAggregator = \<lparr>TflopsHistogram = [], VramHistogram = [], FirstSampleStart = 0, LastSampleStart = 0,
     TotalSamplesCount = 0\<rparr>"

definition NewWorkerUsageSampler :: usage_sampler where
  "NewWorkerUsageSampler = \<lparr>LastTflopsSampleTime = 0, VramPeak = 0, LastVramSampleTime = 0, VramWindowEnd = 0\<rparr>"

section \<open>Aggregator\<close>

definition Aggregator_AddTflopsSample :: "worker_usage \<Rightarrow> usage_aggregator \<Rightarrow> usage_aggregator" where
  "Aggregator_AddTflopsSample sample w =
     (let ts = wu_Timestamp sample in
      w\<lparr>TflopsHistogram := TflopsHistogram w @ [HAdd (wu_TflopsUsage sample) minSampleWeight ts],
        LastSampleStart := (if LastSampleStart w < ts then ts else LastSampleStart w),
        FirstSampleStart := (if FirstSampleStart w = 0 \<or> ts < FirstSampleStart w then ts else FirstSampleStart w),
        TotalSamplesCount := s64 (TotalSamplesCount w + 1)\<rparr>)"

definition Aggregator_AddVramSample :: "worker_usage \<Rightarrow> usage_aggregator \<Rightarrow> usage_aggregator" where
  "Aggregator_AddVramSample sample w =
     w\<lparr>VramHistogram := VramHistogram w @ [HAdd (f64_of_int (int (wu_VramUsage sample))) 1 (wu_Timestamp sample)]\<rparr>"

definition SubtractVramSample :: "float64 \<Rightarrow> int \<Rightarrow> usage_aggregator \<Rightarrow> usage_aggregator" where
  "SubtractVramSample usage t w = w\<lparr>VramHistogram := VramHistogram w @ [HSub usage 1 t]\<rparr>"

section \<open>Sampler\<close>

definition Sampler_AddTflopsSample ::
  "worker_usage \<Rightarrow> usage_sampler \<times> usage_aggregator \<Rightarrow> (usage_sampler \<times> usage_aggregator) \<times> bool" where
  "Sampler_AddTflopsSample sample wa =
     (case wa of (w, a) \<Rightarrow>
        if f64_less (wu_TflopsUsage sample) (Fin 0) \<or> wu_Timestamp sample < LastTflopsSampleTime w then (wa, False)
        else ((w\<lparr>LastTflopsSampleTime := wu_Timestamp sample\<rparr>, Aggregator_AddTflopsSample sample a), True))"

definition Sampler_AddVramSample ::
  "worker_usage \<Rightarrow> usage_sampler \<times> usage_aggregator \<Rightarrow> (usage_sampler \<times> usage_aggregator) \<times> bool" where
  "Sampler_AddVramSample sample wa =
     (case wa of (w, a) \<Rightarrow>
        let ts = wu_Timestamp sample in
        if ts < LastVramSampleTime w then (wa, False)
        else let w1 = w\<lparr>LastVramSampleTime := ts, VramWindowEnd := (if VramWindowEnd w = 0 then ts else VramWindowEnd w)\<rparr>;
                 (w2, a2, addNewPeak) =
                   (if ts < VramWindowEnd w1
                    then if VramPeak w1 < wu_VramUsage sample
                         then (w1, SubtractVramSample (f64_of_int (int (VramPeak w1))) (VramWindowEnd w1) a, True)
                         else (w1, a, False)
                    else let shift = s64 (Duration_Truncate (time_Sub ts (VramWindowEnd w1)) DefaultAggregationInterval
                                          + DefaultAggregationInterval)
                         in (w1\<lparr>VramWindowEnd := VramWindowEnd w1 + shift, VramPeak := 0\<rparr>, a, True))
             in if addNewPeak then ((w2\<lparr>VramPeak := wu_VramUsage sample\<rparr>, Aggregator_AddVramSample sample a2), True)
                else ((w2, a2), True))"

definition Sampler_AddSample :: "worker_usage \<Rightarrow> usage_sampler \<times> usage_aggregator \<Rightarrow> usage_sampler \<times> usage_aggregator" where
  "Sampler_AddSample sample wa = fst (Sampler_AddVramSample sample (fst (Sampler_AddTflopsSample sample wa)))"

section \<open>Windows\<close>

text \<open>
  The memory samples of one worker, processed in order, with those accepted in the current window:
  from the last one on that opened a window.
\<close>

fun vram_run ::
  "worker_usage list \<Rightarrow> (usage_sampler \<times> usage_aggregator) \<times> worker_usage list
   \<Rightarrow> (usage_sampler \<times> usage_aggregator) \<times> worker_usage list" where
  "vram_run [] acc = acc"
| "vram_run (u # us) (wa, ws) =
     (case Sampler_AddVramSample u wa of
        (wa', False) \<Rightarrow> vram_run us (wa', ws)
      | (wa', True) \<Rightarrow> vram_run us (wa', if VramWindowEnd (fst wa') = VramWindowEnd (fst wa) then ws @ [u] else [u]))"

definition window_inv :: "(usage_sampler \<times> usage_aggregator) \<times> worker_usage list \<Rightarrow> bool" where
  "window_inv s \<longleftrightarrow> (case s of ((w, a), ws) \<Rightarrow>
     ws \<noteq> [] \<and> VramPeak w = Max (wu_VramUsage ` set ws) \<and> LastVramSampleTime w < 2 ^ 62
     \<and> 0 < VramWindowEnd w \<and> VramWindowEnd w - DefaultAggregationInterval \<le> LastVramSampleTime w
     \<and> LastVramSampleTime w < VramWindowEnd w
     \<and> (\<forall>u \<in> set ws. VramWindowEnd w - DefaultAggregationInterval \<le> wu_Timestamp u \<and> wu_Timestamp u < VramWindowEnd w)
     \<and> (\<forall>v k t. HAdd v k t \<in> set (VramHistogram a) \<longrightarrow> t < VramWindowEnd w))"

lemma window_shift:
  assumes "e \<le> ts" "0 < e" "ts < 2 ^ 62"
  shows "s64 (Duration_Truncate (time_Sub ts e) DefaultAggregationInterval + DefaultAggregationInterval)
     = (ts - e) div DefaultAggregationInterval * DefaultAggregationInterval + DefaultAggregationInterval"
proof -
  define D :: int where "D = DefaultAggregationInterval"
  have D: "0 < D" "D < 2 ^ 61" by (simp_all add: D_def DefaultAggregationInterval_def)
  have sub: "time_Sub ts e = ts - e" using assms by (simp add: time_Sub_def)
  have tr: "Duration_Truncate (ts - e) D = (ts - e) div D * D"
    using D assms by (simp add: Duration_Truncate_def go_mod_nonneg minus_mod_eq_div_mult)
  have "(ts - e) mod D \<le> ts - e" using assms by (intro zmod_le_nonneg_dividend) auto
  moreover have "0 \<le> (ts - e) mod D" using D by simp
  ultimately have "0 \<le> (ts - e) div D * D" "(ts - e) div D * D \<le> ts - e"
    by (simp_all add: minus_mod_eq_div_mult [symmetric])
  then show ?thesis unfolding sub D_def [symmetric] tr using D assms by (intro s64_id) auto
qed

lemma window_bounds:
  fixes D :: int
  assumes "0 < D" "e \<le> ts"
  shows "e + ((ts - e) div D * D + D) - D \<le> ts" "ts < e + ((ts - e) div D * D + D)" "e < e + ((ts - e) div D * D + D)"
proof -
  have m: "(ts - e) div D * D = (ts - e) - (ts - e) mod D" by (simp add: minus_mod_eq_div_mult)
  show "e + ((ts - e) div D * D + D) - D \<le> ts" using assms by (simp add: m)
  show "ts < e + ((ts - e) div D * D + D)" using assms pos_mod_bound [of D "ts - e"] by (simp add: m)
  have "(ts - e) mod D \<le> ts - e" using assms by (intro zmod_le_nonneg_dividend) auto
  then show "e < e + ((ts - e) div D * D + D)" using assms by (simp add: m)
qed

lemma interval_pos: "0 < DefaultAggregationInterval"
  by (simp add: DefaultAggregationInterval_def)

text \<open>A sample that opens a window, from the initial state or an older window.\<close>

lemma open_window:
  assumes "\<not> wu_Timestamp u < LastVramSampleTime w" "0 < wu_Timestamp u" "wu_Timestamp u < 2 ^ 62"
    and "VramWindowEnd w = 0 \<or> 0 < VramWindowEnd w \<and> VramWindowEnd w \<le> wu_Timestamp u"
    and "\<forall>v k t. HAdd v k t \<in> set (VramHistogram a) \<longrightarrow> t < VramWindowEnd w"
  shows "\<exists>w' a'. Sampler_AddVramSample u (w, a) = ((w', a'), True) \<and> VramWindowEnd w' \<noteq> VramWindowEnd w
    \<and> window_inv ((w', a'), [u])"
proof -
  let ?D = DefaultAggregationInterval and ?ts = "wu_Timestamp u"
  define e where "e = (if VramWindowEnd w = 0 then ?ts else VramWindowEnd w)"
  have e: "0 < e" "e \<le> ?ts" using assms by (auto simp: e_def)
  define E where "E = e + ((?ts - e) div ?D * ?D + ?D)"
  note b = window_bounds [OF interval_pos e(2), folded E_def]
  define w' where "w' = w\<lparr>LastVramSampleTime := ?ts, VramWindowEnd := E, VramPeak := wu_VramUsage u\<rparr>"
  have run: "Sampler_AddVramSample u (w, a) = ((w', Aggregator_AddVramSample u a), True)"
    using assms(1) e(2) window_shift [OF e(2,1) assms(3)]
    by (simp add: Sampler_AddVramSample_def Let_def e_def [symmetric] E_def w'_def)
  have "VramWindowEnd w < E" using b(3) e assms(4) by (auto simp: e_def)
  moreover from this have "\<forall>v k t. HAdd v k t \<in> set (VramHistogram a) \<longrightarrow> t < E" using assms(5) less_trans by blast
  then have "window_inv ((w', Aggregator_AddVramSample u a), [u])"
    using assms(3) b e by (auto simp: window_inv_def w'_def Aggregator_AddVramSample_def)
  ultimately show ?thesis using run by (intro exI [of _ w'] exI [of _ "Aggregator_AddVramSample u a"]) (simp add: w'_def)
qed

lemma window_step:
  assumes "window_inv ((w, a), ws)" "0 < wu_Timestamp u" "wu_Timestamp u < 2 ^ 62"
  shows "window_inv (vram_run [u] ((w, a), ws))"
proof (cases "wu_Timestamp u < LastVramSampleTime w")
  case True
  then show ?thesis using assms by (simp add: Sampler_AddVramSample_def Let_def)
next
  case acc: False
  show ?thesis
  proof (cases "wu_Timestamp u < VramWindowEnd w")
    case True
    have f: "Max (wu_VramUsage ` set ws) = VramPeak w" "ws \<noteq> []" "VramWindowEnd w - DefaultAggregationInterval \<le> LastVramSampleTime w"
      "0 < VramWindowEnd w"
      "\<forall>u \<in> set ws. VramWindowEnd w - DefaultAggregationInterval \<le> wu_Timestamp u \<and> wu_Timestamp u < VramWindowEnd w"
      "\<forall>v k t. HAdd v k t \<in> set (VramHistogram a) \<longrightarrow> t < VramWindowEnd w"
      using assms(1) by (auto simp: window_inv_def)
    show ?thesis using True acc assms(2,3) f
      by (auto simp: window_inv_def Sampler_AddVramSample_def SubtractVramSample_def Aggregator_AddVramSample_def
          Let_def max_def split: if_splits)
  next
    case False
    have "0 < VramWindowEnd w" "\<forall>v k t. HAdd v k t \<in> set (VramHistogram a) \<longrightarrow> t < VramWindowEnd w"
      using assms(1) by (auto simp: window_inv_def)
    then obtain w' a' where "Sampler_AddVramSample u (w, a) = ((w', a'), True)" "VramWindowEnd w' \<noteq> VramWindowEnd w"
      "window_inv ((w', a'), [u])"
      using open_window [OF acc assms(2,3), of a] False by (metis not_less)
    then show ?thesis by simp
  qed
qed

lemma vram_run_append: "vram_run (us @ vs) s = vram_run vs (vram_run us s)"
  by (induction us s rule: vram_run.induct) (auto split: prod.splits bool.splits)

lemma window_run:
  "window_inv s \<Longrightarrow> \<forall>u \<in> set us. 0 < wu_Timestamp u \<and> wu_Timestamp u < 2 ^ 62 \<Longrightarrow> window_inv (vram_run us s)"
proof (induction us arbitrary: s)
  case (Cons u us)
  obtain w a ws where s: "s = ((w, a), ws)" by (metis prod.exhaust)
  have "window_inv (vram_run [u] s)" using window_step Cons.prems s by auto
  then show ?case using Cons vram_run_append [of "[u]" us s] by simp
qed simp

section \<open>Properties\<close>

text \<open>
  Memory usage of a worker is kept as one peak per day. For any non-empty sequence of samples with
  positive times, the samples counted in the current window lie within one aggregation interval that
  ends at the recorded window end, the recorded peak is their largest usage, and every sample in the
  histogram was added at a time before the window end, the time at which a replaced peak is
  subtracted: the subtraction never carries the time of the addition it takes back.
\<close>

theorem vram_peak_of_window:
  assumes "us \<noteq> []" "\<forall>u \<in> set us. 0 < wu_Timestamp u \<and> wu_Timestamp u < 2 ^ 62"
  shows "case vram_run us ((NewWorkerUsageSampler, NewWorkerUsageAggregator), []) of ((w, a), ws) \<Rightarrow>
     ws \<noteq> [] \<and> VramPeak w = Max (wu_VramUsage ` set ws)
     \<and> (\<forall>u \<in> set ws. VramWindowEnd w - DefaultAggregationInterval \<le> wu_Timestamp u \<and> wu_Timestamp u < VramWindowEnd w)
     \<and> (\<forall>v k t. HAdd v k t \<in> set (VramHistogram a) \<longrightarrow> t < VramWindowEnd w)"
proof -
  obtain u vs where us: "us = u # vs" using assms(1) by (cases us) auto
  have "\<exists>w' a'. Sampler_AddVramSample u (NewWorkerUsageSampler, NewWorkerUsageAggregator) = ((w', a'), True)
      \<and> VramWindowEnd w' \<noteq> VramWindowEnd NewWorkerUsageSampler \<and> window_inv ((w', a'), [u])"
    by (rule open_window) (use assms(2) us in \<open>auto simp: NewWorkerUsageSampler_def NewWorkerUsageAggregator_def\<close>)
  then have "window_inv (vram_run us ((NewWorkerUsageSampler, NewWorkerUsageAggregator), []))"
    using window_run assms(2) us by auto
  then show ?thesis by (simp add: window_inv_def split: prod.splits)
qed

definition ex_usage :: "nat \<Rightarrow> int \<Rightarrow> worker_usage" where
  "ex_usage v t = \<lparr>wu_Namespace = ''ns'', wu_WorkloadName = ''wl'', wu_WorkerName = ''w'', wu_TflopsUsage = Fin 1,
     wu_VramUsage = v, wu_Timestamp = t\<rparr>"

theorem vram_peak_of_window_witness:
  "case vram_run [ex_usage 3 5, ex_usage 9 6, ex_usage 4 7] ((NewWorkerUsageSampler, NewWorkerUsageAggregator), []) of
     ((w, a), ws) \<Rightarrow> VramPeak w = 9 \<and> length ws = 3 \<and> VramPeak w = Max (wu_VramUsage ` set ws)"
proof -
  have "case vram_run [ex_usage 3 5, ex_usage 9 6, ex_usage 4 7] ((NewWorkerUsageSampler, NewWorkerUsageAggregator), []) of
     ((w, a), ws) \<Rightarrow> VramPeak w = 9 \<and> length ws = 3" by code_simp
  moreover have "\<forall>u \<in> set [ex_usage 3 5, ex_usage 9 6, ex_usage 4 7]. 0 < wu_Timestamp u \<and> wu_Timestamp u < 2 ^ 62"
    by (simp add: ex_usage_def)
  note vram_peak_of_window [OF _ this]
  ultimately show ?thesis by (simp add: case_prod_unfold del: vram_run.simps)
qed

end
