(* ===== verification/Autoscaler.thy ===== *)
theory Autoscaler
  imports UsageMetrics AllocatorOps PodUtils
begin

text \<open>
  The vertical autoscaler, \<^verbatim>\<open>internal/autoscaler\<close>: workload states (\<open>workload/workload.go\<close>),
  the estimators and the percentile and cron recommenders (\<open>recommender/*.go\<close>), the handler that
  applies a recommendation to the workers of a workload (\<open>workload/handler.go\<close>), and the loop
  (\<open>autoscaler.go\<close>). The record \<open>env\<close> adds to \<open>ext\<close> what this code calls: the histogram
  library, \<^verbatim>\<open>math.Pow\<close>, number, duration and cron parsing, quantity printing, the condition
  helpers of the Kubernetes API machinery, and the clock. A panic is an error value.
\<close>

section \<open>Environment\<close>

record env =
  e_ext :: ext
  e_show :: "quantity \<Rightarrow> string"
  e_quote :: "string \<Rightarrow> string"
  e_Percentile :: "histogram \<Rightarrow> float64 \<Rightarrow> float64"
  e_IsEmpty :: "histogram \<Rightarrow> bool"
  e_Pow :: "float64 \<Rightarrow> float64 \<Rightarrow> float64"
  e_ParseFloat :: "string \<Rightarrow> float64 option"
  e_ParseDuration :: "string \<Rightarrow> int option"
  e_cronNext :: "string \<Rightarrow> (int \<Rightarrow> int) option"  \<comment> \<open>a parsed schedule, as its \<^verbatim>\<open>Next\<close>\<close>
  e_now :: int
  e_SetStatusCondition :: "condition list \<Rightarrow> condition \<Rightarrow> condition list"
  e_FindStatusCondition :: "condition list \<Rightarrow> string \<Rightarrow> condition option"

abbreviation "e_val e \<equiv> x_val (e_ext e)"
abbreviation "e_impl e \<equiv> x_impl (e_ext e)"

section \<open>Workload state\<close>

record auto_set_resources =
  asr_Enable :: bool
  asr_TargetResource :: string
  asr_TargetTflopsPercentile :: string
  asr_LowerBoundTflopsPercentile :: string
  asr_UpperBoundTflopsPercentile :: string
  asr_TargetVramPercentile :: string
  asr_LowerBoundVramPercentile :: string
  asr_UpperBoundVramPercentile :: string
  asr_RequestMarginFraction :: string
  asr_ConfidenceInterval :: string

record cron_scaling_rule =
  csr_Enable :: bool
  csr_Name :: string
  csr_Start :: string
  csr_End :: string
  csr_DesiredResources :: resources

record workload_spec =
  wsp_Resources :: resources
  wsp_AutoSetResources :: auto_set_resources
  wsp_CronScalingRules :: "cron_scaling_rule list"

record workload_status =
  wst_Conditions :: "condition list"
  wst_Recommendation :: "resources option"
  wst_AppliedRecommendedReplicas :: int
  wst_ActiveCronScalingRule :: "cron_scaling_rule option"

record tf_workload =
  tfw_Namespace :: string
  tfw_Name :: string
  tfw_Deleting :: bool
  tfw_Spec :: workload_spec
  tfw_Status :: workload_status

record workload_state =
  ws_Namespace :: string
  ws_Name :: string
  ws_Spec :: workload_spec
  ws_Status :: workload_status
  CurrentActiveWorkers :: "(string, pod) gomap"
  WorkerUsageSamplers :: "(string, usage_sampler) gomap"
  ws_Aggregator :: usage_aggregator

definition empty_spec :: workload_spec where
  "empty_spec = \<lparr>wsp_Resources = zero_resources, wsp_AutoSetResources = \<lparr>asr_Enable = False, asr_TargetResource = '''',
     asr_TargetTflopsPercentile = '''', asr_LowerBoundTflopsPercentile = '''', asr_UpperBoundTflopsPercentile = '''',
     asr_TargetVramPercentile = '''', asr_LowerBoundVramPercentile = '''', asr_UpperBoundVramPercentile = '''',
     asr_RequestMarginFraction = '''', asr_ConfidenceInterval = ''''\<rparr>, wsp_CronScalingRules = []\<rparr>"

definition NewWorkloadState :: workload_state where
  "NewWorkloadState = \<lparr>ws_Namespace = '''', ws_Name = '''', ws_Spec = empty_spec,
     ws_Status = \<lparr>wst_Conditions = [], wst_Recommendation = None, wst_AppliedRecommendedReplicas = 0,
       wst_ActiveCronScalingRule = None\<rparr>,
     CurrentActiveWorkers = [], WorkerUsageSamplers = [], ws_Aggregator = NewWorkerUsageAggregator\<rparr>"

definition GetOriginalResourcesSpec :: "workload_state \<Rightarrow> resources" where
  "GetOriginalResourcesSpec w = wsp_Resources (ws_Spec w)"

definition GetCurrentResourcesSpec :: "workload_state \<Rightarrow> resources" where
  "GetCurrentResourcesSpec w =
     (case wst_Recommendation (ws_Status w) of Some r \<Rightarrow> r | None \<Rightarrow> GetOriginalResourcesSpec w)"

definition IsAutoSetResourcesEnabled :: "workload_state \<Rightarrow> bool" where
  "IsAutoSetResourcesEnabled w \<longleftrightarrow>
     asr_Enable (wsp_AutoSetResources (ws_Spec w)) \<and> asr_TargetResource (wsp_AutoSetResources (ws_Spec w)) \<noteq> ''''"

definition ShouldScaleResource :: "workload_state \<Rightarrow> string \<Rightarrow> bool" where
  "ShouldScaleResource w name \<longleftrightarrow>
     (let target = asr_TargetResource (wsp_AutoSetResources (ws_Spec w))
      in EqualFold target ''all'' \<or> EqualFold name target)"

definition DedicatedGPUAnnotation :: string where
  "DedicatedGPUAnnotation = ''tensor-fusion.ai/dedicated-gpu''"

definition isWorkerHasDedicatedGPU :: "pod \<Rightarrow> bool" where
  "isWorkerHasDedicatedGPU p \<longleftrightarrow> get_str (om_Annotations (pod_Meta p)) DedicatedGPUAnnotation = TrueStringValue"

definition worker_resources :: "env \<Rightarrow> pod \<Rightarrow> resources option" where
  "worker_resources e p =
     (case GPUResourcesFromAnnotations (x_parse (e_ext e)) (om_Annotations (pod_Meta p)) of
        Inl err \<Rightarrow> None | Inr r \<Rightarrow> Some r)"

definition IsRecommendationAppliedToAllWorkers :: "env \<Rightarrow> workload_state \<Rightarrow> bool" where
  "IsRecommendationAppliedToAllWorkers e w =
     (if wst_Recommendation (ws_Status w) = None then True
      else if s32 (int (length (CurrentActiveWorkers w))) \<noteq> wst_AppliedRecommendedReplicas (ws_Status w) then False
      else list_all (\<lambda>(n, p). isWorkerHasDedicatedGPU p
             \<or> Resources_Equal (GetCurrentResourcesSpec w) (worker_resources e p)) (CurrentActiveWorkers w))"

fun active_workers ::
  "pod list \<Rightarrow> (string, usage_sampler) gomap \<times> (string, pod) gomap \<Rightarrow> (string, usage_sampler) gomap \<times> (string, pod) gomap" where
  "active_workers [] acc = acc"
| "active_workers (p # ps) (samplers, active) =
     (if om_Deleting (pod_Meta p) then active_workers ps (samplers, active)
      else let n = om_Name (pod_Meta p) in
        active_workers ps
          (if map_of samplers n = None then AList.update n NewWorkerUsageSampler samplers else samplers,
           AList.update n p active))"

definition updateCurrentActiveWorkers :: "pod list \<Rightarrow> workload_state \<Rightarrow> workload_state" where
  "updateCurrentActiveWorkers podList w =
     (case active_workers podList (WorkerUsageSamplers w, []) of (samplers, active) \<Rightarrow>
        w\<lparr>CurrentActiveWorkers := active,
          WorkerUsageSamplers := filter (\<lambda>(k, s). map_of active k \<noteq> None) samplers\<rparr>)"

definition AddSample :: "worker_usage \<Rightarrow> workload_state \<Rightarrow> workload_state" where
  "AddSample sample w =
     (let sampler = (case map_of (WorkerUsageSamplers w) (wu_WorkerName sample) of
            None \<Rightarrow> NewWorkerUsageSampler | Some s \<Rightarrow> s);
          (sampler', a) = Sampler_AddSample sample (sampler, ws_Aggregator w)
      in w\<lparr>WorkerUsageSamplers := AList.update (wu_WorkerName sample) sampler' (WorkerUsageSamplers w),
           ws_Aggregator := a\<rparr>)"

section \<open>Estimators\<close>

definition MaxResourceAmount :: int where
  "MaxResourceAmount = 10 ^ 14"

definition resourceAmountFromFloat :: "env \<Rightarrow> float64 \<Rightarrow> int" where
  "resourceAmountFromFloat e amount =
     (if f64_less amount (Fin 0) then 0
      else if f64_less (f64_of_int MaxResourceAmount) amount then MaxResourceAmount
      else f64_to_int64 (e_impl e) amount)"

definition Duration_Minutes :: "int \<Rightarrow> float64" where
  "Duration_Minutes d = f64_add (f64_of_int (go_div d (60 * 10 ^ 9)))
     (f64_div (f64_of_int (go_mod d (60 * 10 ^ 9))) (Fin (60 * 10 ^ 9)))"

definition getConfidence :: "usage_aggregator \<Rightarrow> int \<Rightarrow> float64" where
  "getConfidence w confidenceInterval =
     (let lifespanInDays = f64_div (f64_of_int (time_Sub (LastSampleStart w) (FirstSampleStart w))) (f64_of_int confidenceInterval);
          samplesAmount = f64_div (f64_of_int (TotalSamplesCount w)) (Duration_Minutes confidenceInterval)
      in math_Min lifespanInDays samplesAmount)"

text \<open>The three estimators; the code has each twice, for compute and for memory.\<close>

datatype estimator =
    PercentileEstimator float64
  | MarginEstimator float64 estimator
  | ConfidenceMultiplier float64 float64 estimator int

fun estimate :: "env \<Rightarrow> (usage_aggregator \<Rightarrow> histogram) \<Rightarrow> usage_aggregator \<Rightarrow> estimator \<Rightarrow> int" where
  "estimate e hist w (PercentileEstimator percentile) =
     resourceAmountFromFloat e (e_Percentile e (hist w) percentile)"
| "estimate e hist w (MarginEstimator marginFraction base) =
     (let b = estimate e hist w base
      in s64 (b + resourceAmountFromFloat e (f64_mul (f64_of_int b) marginFraction)))"
| "estimate e hist w (ConfidenceMultiplier multiplier exponent base interval) =
     (let confidence = getConfidence w interval; b = estimate e hist w base
      in resourceAmountFromFloat e (f64_mul (f64_of_int b)
           (e_Pow e (f64_add (Fin 1) (f64_div multiplier confidence)) exponent)))"

definition GetTflopsEstimation :: "env \<Rightarrow> usage_aggregator \<Rightarrow> estimator \<Rightarrow> int" where
  "GetTflopsEstimation e w est = estimate e TflopsHistogram w est"

definition GetVramEstimation :: "env \<Rightarrow> usage_aggregator \<Rightarrow> estimator \<Rightarrow> int" where
  "GetVramEstimation e w est = estimate e VramHistogram w est"

record percentile_config =
  pc_TargetTflopsPercentile :: float64
  pc_LowerBoundTflopsPercentile :: float64
  pc_UpperBoundTflopsPercentile :: float64
  pc_TargetVramPercentile :: float64
  pc_LowerBoundVramPercentile :: float64
  pc_UpperBoundVramPercentile :: float64
  pc_RequestMarginFraction :: float64
  pc_ConfidenceInterval :: int

definition override :: "env \<Rightarrow> string \<Rightarrow> float64 \<Rightarrow> float64" where
  "override e v d = (if v = '''' then d else case e_ParseFloat e v of None \<Rightarrow> d | Some f \<Rightarrow> f)"

definition getPercentileConfig :: "env \<Rightarrow> auto_set_resources \<Rightarrow> percentile_config" where
  "getPercentileConfig e asr =
     \<lparr>pc_TargetTflopsPercentile = override e (asr_TargetTflopsPercentile asr) (fl64 (9 / 10)),
      pc_LowerBoundTflopsPercentile = override e (asr_LowerBoundTflopsPercentile asr) (fl64 (1 / 2)),
      pc_UpperBoundTflopsPercentile = override e (asr_UpperBoundTflopsPercentile asr) (fl64 (95 / 100)),
      pc_TargetVramPercentile = override e (asr_TargetVramPercentile asr) (fl64 (9 / 10)),
      pc_LowerBoundVramPercentile = override e (asr_LowerBoundVramPercentile asr) (fl64 (1 / 2)),
      pc_UpperBoundVramPercentile = override e (asr_UpperBoundVramPercentile asr) (fl64 (95 / 100)),
      pc_RequestMarginFraction = override e (asr_RequestMarginFraction asr) (fl64 (15 / 100)),
      pc_ConfidenceInterval =
        (if asr_ConfidenceInterval asr = '''' then 24 * 60 * 60 * 10 ^ 9
         else case e_ParseDuration e (asr_ConfidenceInterval asr) of None \<Rightarrow> 24 * 60 * 60 * 10 ^ 9 | Some d \<Rightarrow> d)\<rparr>"

record estimated_resources =
  er_LowerBoundTflops :: quantity
  er_TargetTflops :: quantity
  er_UpperBoundTflops :: quantity
  er_LowerBoundVram :: quantity
  er_TargetVram :: quantity
  er_UpperBoundVram :: quantity

text \<open>Target, lower and upper estimators of a percentile configuration.\<close>

definition createEstimators :: "float64 \<Rightarrow> int \<Rightarrow> float64 \<Rightarrow> float64 \<Rightarrow> float64 \<Rightarrow> estimator \<times> estimator \<times> estimator" where
  "createEstimators margin interval target lower upper =
     (MarginEstimator margin (PercentileEstimator target),
      ConfidenceMultiplier (fl64 (1 / 1000)) (Fin (- 2)) (MarginEstimator margin (PercentileEstimator lower)) interval,
      ConfidenceMultiplier (Fin 1) (Fin 1) (MarginEstimator margin (PercentileEstimator upper)) interval)"

definition GetResourcesEstimation :: "env \<Rightarrow> workload_state \<Rightarrow> estimated_resources option" where
  "GetResourcesEstimation e w =
     (let a = ws_Aggregator w in
      if e_IsEmpty e (TflopsHistogram a) \<and> e_IsEmpty e (VramHistogram a) then None
      else let cfg = getPercentileConfig e (wsp_AutoSetResources (ws_Spec w));
               (tt, tl, tu) = createEstimators (pc_RequestMarginFraction cfg) (pc_ConfidenceInterval cfg)
                  (pc_TargetTflopsPercentile cfg) (pc_LowerBoundTflopsPercentile cfg) (pc_UpperBoundTflopsPercentile cfg);
               (vt, vl, vu) = createEstimators (pc_RequestMarginFraction cfg) (pc_ConfidenceInterval cfg)
                  (pc_TargetVramPercentile cfg) (pc_LowerBoundVramPercentile cfg) (pc_UpperBoundVramPercentile cfg)
           in Some \<lparr>er_LowerBoundTflops = of_int (GetTflopsEstimation e a tl), er_TargetTflops = of_int (GetTflopsEstimation e a tt),
                    er_UpperBoundTflops = of_int (GetTflopsEstimation e a tu), er_LowerBoundVram = of_int (GetVramEstimation e a vl),
                    er_TargetVram = of_int (GetVramEstimation e a vt), er_UpperBoundVram = of_int (GetVramEstimation e a vu)\<rparr>)"

end
