(* ===== verification/Recommender.thy ===== *)
theory Recommender
  imports Autoscaler
begin

text \<open>
  Recommendations and what becomes of them: the recommendation processor, the percentile and the cron
  recommender, the merge of their results (\<^verbatim>\<open>internal/autoscaler/recommender\<close>), the handler that
  applies a recommendation to the workers (\<^verbatim>\<open>internal/autoscaler/workload/handler.go\<close>) and the
  autoscaler's loop (\<^verbatim>\<open>internal/autoscaler/autoscaler.go\<close>). Operations on a workload state return
  it updated, since the code mutates it through a pointer even where it returns an error.
\<close>

section \<open>Proportional limits\<close>

datatype rec_error =
    RecPanic
  | LimitUnavailable string
  | WorkerNotAllocated string
  | StoreGPUMissing string
  | GPUAvailableNil
  | StartEqualsEnd
  | CronParseFailed string
  | TooManyActiveRules
  | RecommenderFailed string rec_error

text \<open>\<^verbatim>\<open>big.Int.Div\<close> is Euclidean division; it panics on a zero divisor.\<close>

definition euclid_div :: "int \<Rightarrow> int \<Rightarrow> int" where
  "euclid_div a b = (if 0 \<le> b then a div b else - (a div - b))"

definition getProportionalLimit :: "(quantity \<Rightarrow> int) \<Rightarrow> quantity \<Rightarrow> quantity \<Rightarrow> quantity \<Rightarrow> rec_error + quantity option" where
  "getProportionalLimit val originalLimit originalRequest recommendedRequest =
     (if originalLimit = 0 \<or> originalRequest = 0 \<or> recommendedRequest = 0 then Inr None
      else if val originalRequest = 0 then Inl RecPanic
      else let scaledOriginal = euclid_div (val originalLimit * val recommendedRequest) (val originalRequest)
           in if - (2 ^ 63) \<le> scaledOriginal \<and> scaledOriginal < 2 ^ 63 then Inr (Some (of_int scaledOriginal))
              else Inr None)"

section \<open>Maximal resources of a workload\<close>

text \<open>The workers of the workload on each GPU, in the order they are met.\<close>

fun worker_gpus :: "allocator \<Rightarrow> pod \<Rightarrow> string list \<Rightarrow> (string, pod list) gomap \<Rightarrow> rec_error + (string, pod list) gomap" where
  "worker_gpus s p [] m = Inr m"
| "worker_gpus s p (n # ns) m =
     (if map_of (gpuStore s) n = None then Inl (StoreGPUMissing n)
      else worker_gpus s p ns (AList.update n ((case map_of m n of None \<Rightarrow> [] | Some ws \<Rightarrow> ws) @ [p]) m))"

fun gpu_workers :: "allocator \<Rightarrow> pod list \<Rightarrow> (string, pod list) gomap \<Rightarrow> rec_error + (string, pod list) gomap" where
  "gpu_workers s [] m = Inr m"
| "gpu_workers s (p # ps) m =
     (case map_of (uniqueAllocation s) (om_UID (pod_Meta p)) of
        None \<Rightarrow> Inl (WorkerNotAllocated (om_Name (pod_Meta p)))
      | Some allocated \<Rightarrow>
          (case worker_gpus s p (ar_GPUNames allocated) m of Inl e \<Rightarrow> Inl e | Inr m' \<Rightarrow> gpu_workers s ps m'))"

text \<open>What a GPU has left plus what the workers of the workload hold of it, and the share of one worker.\<close>

definition gpu_total :: "allocator \<Rightarrow> resource \<Rightarrow> pod list \<Rightarrow> quantity \<times> quantity" where
  "gpu_total s av workers =
     (let req = (\<lambda>p. case map_of (uniqueAllocation s) (om_UID (pod_Meta p)) of
                   None \<Rightarrow> zero_resource | Some r \<Rightarrow> ar_Request r)
      in (Tflops av + sum_list (map (\<lambda>p. Tflops (req p)) workers), Vram av + sum_list (map (\<lambda>p. Vram (req p)) workers)))"

definition per_worker :: "env \<Rightarrow> allocator \<Rightarrow> gpu \<Rightarrow> pod list \<Rightarrow> rec_error + int \<times> int" where
  "per_worker e s g workers =
     (case gpu_Available g of
        None \<Rightarrow> Inl GPUAvailableNil
      | Some av \<Rightarrow>
          (case gpu_total s av workers of (t, v) \<Rightarrow>
             Inr (go_div (f64_to_int64 (e_impl e) (x_approx (e_ext e) t)) (int (length workers)),
                  go_div (e_val e v) (int (length workers)))))"

fun max_allowed :: "env \<Rightarrow> allocator \<Rightarrow> (string, pod list) gomap \<Rightarrow> int \<times> int \<Rightarrow> rec_error + int \<times> int" where
  "max_allowed e s [] acc = Inr acc"
| "max_allowed e s ((n, ws) # rest) (maxTflops, maxVram) =
     (case per_worker e s (gpu_at s (the (map_of (gpuStore s) n))) ws of
        Inl err \<Rightarrow> Inl err
      | Inr (t, v) \<Rightarrow> max_allowed e s rest
          (if maxTflops = - 1 \<or> t < maxTflops then t else maxTflops, if maxVram = - 1 \<or> v < maxVram then v else maxVram))"

definition GetMaxAllowedResourcesSpec :: "env \<Rightarrow> allocator \<Rightarrow> workload_state \<Rightarrow> rec_error + resource option" where
  "GetMaxAllowedResourcesSpec e s w =
     (if CurrentActiveWorkers w = [] then Inr None
      else case gpu_workers s (map snd (CurrentActiveWorkers w)) [] of
             Inl err \<Rightarrow> Inl err
           | Inr m \<Rightarrow>
               (case max_allowed e s m (- 1, - 1) of
                  Inl err \<Rightarrow> Inl err
                | Inr (t, v) \<Rightarrow> Inr (Some \<lparr>Tflops = of_int t, ComputePercent = 0, Vram = of_int v\<rparr>)))"

section \<open>Recommendation processor\<close>

definition reduce_msg :: "env \<Rightarrow> string \<Rightarrow> quantity \<Rightarrow> quantity \<Rightarrow> string" where
  "reduce_msg e kind target allowed =
     kind @ '' reduced due to target ('' @ e_show e target @ '') exceed max allowed ('' @ e_show e allowed @ '')''"

definition Processor_Apply ::
  "env \<Rightarrow> allocator \<Rightarrow> workload_state \<Rightarrow> resources \<Rightarrow> rec_error + (resources \<times> string)" where
  "Processor_Apply e s w rec =
     (let curRes = GetCurrentResourcesSpec w;
          upT = (Tflops (Requests curRes) < Tflops (Requests rec));
          upV = (Vram (Requests curRes) < Vram (Requests rec)) in
      if \<not> upT \<and> \<not> upV then Inr (rec, '''')
      else case GetMaxAllowedResourcesSpec e s w of
        Inl err \<Rightarrow> Inl err
      | Inr None \<Rightarrow> Inr (rec, '''')
      | Inr (Some allowed) \<Rightarrow>
          (case (if upT \<and> Tflops allowed < Tflops (Requests rec)
                 then (case getProportionalLimit (e_val e) (Tflops (Limits rec)) (Tflops (Requests rec)) (Tflops allowed) of
                         Inl err \<Rightarrow> Inl err
                       | Inr None \<Rightarrow> Inl (LimitUnavailable ''tflops'')
                       | Inr (Some l) \<Rightarrow>
                           Inr (rec\<lparr>Requests := (Requests rec)\<lparr>Tflops := Tflops allowed\<rparr>,
                                    Limits := (Limits rec)\<lparr>Tflops := l\<rparr>\<rparr>,
                                reduce_msg e ''TFLOPS'' (Tflops (Requests rec)) (Tflops allowed)))
                 else Inr (rec, '''')) of
             Inl err \<Rightarrow> Inl err
           | Inr (res, msg) \<Rightarrow>
               if upV \<and> Vram allowed < Vram (Requests rec)
               then (case getProportionalLimit (e_val e) (Vram (Limits rec)) (Vram (Requests rec)) (Vram allowed) of
                       Inl err \<Rightarrow> Inl err
                     | Inr None \<Rightarrow> Inl (LimitUnavailable ''vram'')
                     | Inr (Some l) \<Rightarrow>
                         Inr (res\<lparr>Requests := (Requests res)\<lparr>Vram := Vram allowed\<rparr>, Limits := (Limits res)\<lparr>Vram := l\<rparr>\<rparr>,
                              (if msg = '''' then '''' else msg @ '', '')
                              @ reduce_msg e ''VRAM'' (Vram (Requests rec)) (Vram allowed)))
               else Inr (res, msg)))"

section \<open>Percentile recommender\<close>

record rec_result =
  rr_Resources :: resources
  rr_HasApplied :: bool
  rr_ScaleDownLocking :: bool

definition ConditionStatusTypeRecommendationProvided :: string where
  "ConditionStatusTypeRecommendationProvided = ''RecommendationProvided''"

definition set_rec_condition :: "env \<Rightarrow> string \<Rightarrow> string \<Rightarrow> workload_state \<Rightarrow> workload_state" where
  "set_rec_condition e reason message w =
     w\<lparr>ws_Status := (ws_Status w)\<lparr>wst_Conditions := e_SetStatusCondition e (wst_Conditions (ws_Status w))
        \<lparr>cond_Type = ConditionStatusTypeRecommendationProvided, cond_Status = True, cond_Reason = reason,
         cond_Message = message\<rparr>\<rparr>\<rparr>"

text \<open>Message, target request and target limit of a resource that is out of its bounds.\<close>

definition handleResourceScaling ::
  "env \<Rightarrow> string \<Rightarrow> quantity \<Rightarrow> quantity \<Rightarrow> quantity \<Rightarrow> quantity \<Rightarrow> quantity
   \<Rightarrow> rec_error + (string \<times> quantity \<times> quantity) option" where
  "handleResourceScaling e kind currentRequest currentLimit targetRequest lowerBound upperBound =
     (let isScaleUp = (currentRequest < lowerBound); isScaleDown = (upperBound < currentRequest) in
      if \<not> isScaleUp \<and> \<not> isScaleDown then Inr None
      else case getProportionalLimit (e_val e) currentLimit currentRequest targetRequest of
             Inl err \<Rightarrow> Inl err
           | Inr None \<Rightarrow> Inr None
           | Inr (Some targetLimit) \<Rightarrow>
               Inr (Some (if isScaleUp
                 then kind @ '' scaled up due to ('' @ e_show e currentRequest @ '') below lower bound ('' @ e_show e lowerBound @ '')''
                 else kind @ '' scaled down due to ('' @ e_show e currentRequest @ '') above upper bound ('' @ e_show e upperBound @ '')'',
                 targetRequest, targetLimit)))"

definition percentile_target ::
  "env \<Rightarrow> resources \<Rightarrow> estimated_resources \<Rightarrow> rec_error + resources \<times> string" where
  "percentile_target e cur est =
     (case handleResourceScaling e ''TFLOPS'' (Tflops (Requests cur)) (Tflops (Limits cur))
        (er_TargetTflops est) (er_LowerBoundTflops est) (er_UpperBoundTflops est) of
        Inl err \<Rightarrow> Inl err
      | Inr rt \<Rightarrow>
          (case handleResourceScaling e ''VRAM'' (Vram (Requests cur)) (Vram (Limits cur))
             (er_TargetVram est) (er_LowerBoundVram est) (er_UpperBoundVram est) of
             Inl err \<Rightarrow> Inl err
           | Inr rv \<Rightarrow>
               let msgT = (case rt of None \<Rightarrow> '''' | Some (m, _) \<Rightarrow> m);
                   q = (\<lambda>r f. case r of None \<Rightarrow> 0 | Some (m, rq, lm) \<Rightarrow> f rq lm);
                   msg = (case rv of None \<Rightarrow> msgT | Some (m, _) \<Rightarrow> if msgT = '''' then m else msgT @ '', '' @ m)
               in Inr (\<lparr>Requests = \<lparr>Tflops = q rt (\<lambda>rq lm. rq), ComputePercent = 0, Vram = q rv (\<lambda>rq lm. rq)\<rparr>,
                        Limits = \<lparr>Tflops = q rt (\<lambda>rq lm. lm), ComputePercent = 0, Vram = q rv (\<lambda>rq lm. lm)\<rparr>\<rparr>, msg)))"

definition Percentile_Recommend ::
  "env \<Rightarrow> allocator \<Rightarrow> workload_state \<Rightarrow> workload_state \<times> (rec_error + rec_result option)" where
  "Percentile_Recommend e s w =
     (case GetResourcesEstimation e w of
        None \<Rightarrow> (w, Inr None)
      | Some est \<Rightarrow>
          let cur = GetCurrentResourcesSpec w in
          (case percentile_target e cur est of
             Inl err \<Rightarrow> (w, Inl err)
           | Inr (rec0, message) \<Rightarrow>
               if Resources_IsZero rec0 then (w, Inr None)
               else (case Processor_Apply e s w rec0 of
                       Inl err \<Rightarrow> (w, Inl err)
                     | Inr (rec, msg) \<Rightarrow>
                         let message' = (if msg = '''' then message else message @ '', '' @ msg);
                             hasApplied = Resources_Equal rec (Some cur)
                         in (if hasApplied then w else set_rec_condition e ''OutOfEstimatedBound'' message' w,
                             Inr (Some \<lparr>rr_Resources = rec, rr_HasApplied = hasApplied, rr_ScaleDownLocking = False\<rparr>)))))"

section \<open>Cron recommender\<close>

definition rule_active :: "int \<Rightarrow> int \<Rightarrow> int \<Rightarrow> bool" where
  "rule_active currentTime nextStartTime nextEndTime =
     (if nextStartTime < nextEndTime then nextStartTime < currentTime \<and> currentTime < nextEndTime
      else nextStartTime < currentTime \<or> currentTime < nextEndTime)"

fun active_rules :: "env \<Rightarrow> cron_scaling_rule list \<Rightarrow> rec_error + cron_scaling_rule list" where
  "active_rules e [] = Inr []"
| "active_rules e (rule # rules) =
     (if \<not> csr_Enable rule \<or> csr_Name rule = '''' \<or> csr_Start rule = '''' \<or> csr_End rule = '''' then active_rules e rules
      else if csr_Start rule = csr_End rule then Inl StartEqualsEnd
      else case e_cronNext e (csr_Start rule) of
        None \<Rightarrow> Inl (CronParseFailed (csr_Name rule))
      | Some startNext \<Rightarrow>
          (case e_cronNext e (csr_End rule) of
             None \<Rightarrow> Inl (CronParseFailed (csr_Name rule))
           | Some endNext \<Rightarrow>
               (case active_rules e rules of
                  Inl err \<Rightarrow> Inl err
                | Inr rs \<Rightarrow> Inr (if rule_active (e_now e) (startNext (e_now e)) (endNext (e_now e)) then rule # rs else rs))))"

definition getActiveCronScalingRule :: "env \<Rightarrow> cron_scaling_rule list \<Rightarrow> rec_error + cron_scaling_rule option" where
  "getActiveCronScalingRule e rules =
     (case active_rules e rules of
        Inl err \<Rightarrow> Inl err
      | Inr [] \<Rightarrow> Inr None
      | Inr [r] \<Rightarrow> Inr (Some r)
      | Inr _ \<Rightarrow> Inl TooManyActiveRules)"

definition Cron_Recommend ::
  "env \<Rightarrow> allocator \<Rightarrow> workload_state \<Rightarrow> workload_state \<times> (rec_error + rec_result option)" where
  "Cron_Recommend e s w =
     (case getActiveCronScalingRule e (wsp_CronScalingRules (ws_Spec w)) of
        Inl err \<Rightarrow> (w, Inl err)
      | Inr active \<Rightarrow>
          let current = wst_ActiveCronScalingRule (ws_Status w);
              record_rule = (\<lambda>reason message w. set_rec_condition e reason message
                 (w\<lparr>ws_Status := (ws_Status w)\<lparr>wst_ActiveCronScalingRule := active\<rparr>\<rparr>))
          in (case (active, current) of
                (None, None) \<Rightarrow> (w, Inr None)
              | (None, Some cur) \<Rightarrow>
                  (record_rule ''RuleInactive'' (''Cron scaling rule '' @ e_quote e (csr_Name cur) @ '' is inactive'') w,
                   Inr (Some \<lparr>rr_Resources = GetOriginalResourcesSpec w, rr_HasApplied = False, rr_ScaleDownLocking = True\<rparr>))
              | (Some rule, _) \<Rightarrow>
                  if (case current of None \<Rightarrow> False
                      | Some cur \<Rightarrow> Resources_Equal (csr_DesiredResources rule) (Some (csr_DesiredResources cur)))
                  then (w, Inr (Some \<lparr>rr_Resources = csr_DesiredResources rule, rr_HasApplied = True, rr_ScaleDownLocking = True\<rparr>))
                  else (case Processor_Apply e s w (csr_DesiredResources rule) of
                          Inl err \<Rightarrow> (w, Inl err)
                        | Inr (rec, msg) \<Rightarrow>
                            (record_rule ''RuleActive''
                               (''Cron scaling rule '' @ e_quote e (csr_Name rule) @ '' is active'' @ (if msg = '''' then '''' else '', '' @ msg)) w,
                             Inr (Some \<lparr>rr_Resources = rec, rr_HasApplied = False, rr_ScaleDownLocking = True\<rparr>)))))"

section \<open>Merging\<close>

definition mergeResourcesByLargerRequests :: "resources \<Rightarrow> resources \<Rightarrow> resources" where
  "mergeResourcesByLargerRequests src target =
     (let s1 = (if Tflops (Requests src) < Tflops (Requests target)
                then src\<lparr>Requests := (Requests src)\<lparr>Tflops := Tflops (Requests target)\<rparr>,
                         Limits := (Limits src)\<lparr>Tflops := Tflops (Limits target)\<rparr>\<rparr> else src)
      in if Vram (Requests s1) < Vram (Requests target)
         then s1\<lparr>Requests := (Requests s1)\<lparr>Vram := Vram (Requests target)\<rparr>,
                 Limits := (Limits s1)\<lparr>Vram := Vram (Limits target)\<rparr>\<rparr> else s1)"

definition merge_all :: "resources list \<Rightarrow> resources" where
  "merge_all rs = foldl mergeResourcesByLargerRequests zero_resources rs"

text \<open>The results in the order the \<^verbatim>\<open>range\<close> over the map visits them.\<close>

definition generateRecommendation :: "rec_result list \<Rightarrow> resources option" where
  "generateRecommendation results =
     (if results = [] then None
      else let recommendation = merge_all (map rr_Resources (filter (\<lambda>r. \<not> rr_HasApplied r) results));
               minRes = merge_all (map rr_Resources (filter rr_ScaleDownLocking results))
           in if Resources_IsZero recommendation
                 \<or> Tflops (Requests recommendation) < Tflops (Requests minRes)
                   \<and> Vram (Requests recommendation) < Vram (Requests minRes)
              then None else Some recommendation)"

definition fill_zero :: "resources \<Rightarrow> resources \<Rightarrow> resources" where
  "fill_zero cur r =
     (let r1 = (if Tflops (Requests r) = 0 \<or> Tflops (Limits r) = 0
                then r\<lparr>Requests := (Requests r)\<lparr>Tflops := Tflops (Requests cur)\<rparr>,
                       Limits := (Limits r)\<lparr>Tflops := Tflops (Limits cur)\<rparr>\<rparr> else r)
      in if Vram (Requests r1) = 0 \<or> Vram (Limits r1) = 0
         then r1\<lparr>Requests := (Requests r1)\<lparr>Vram := Vram (Requests cur)\<rparr>,
                 Limits := (Limits r1)\<lparr>Vram := Vram (Limits cur)\<rparr>\<rparr> else r1)"

definition GetRecommendation ::
  "env \<Rightarrow> allocator \<Rightarrow> workload_state \<Rightarrow> workload_state \<times> (rec_error + resources option)" where
  "GetRecommendation e s w =
     (case Percentile_Recommend e s w of
        (w1, Inl err) \<Rightarrow> (w1, Inl (RecommenderFailed ''percentile'' err))
      | (w1, Inr r1) \<Rightarrow>
          (case Cron_Recommend e s w1 of
             (w2, Inl err) \<Rightarrow> (w2, Inl (RecommenderFailed ''cron'' err))
           | (w2, Inr r2) \<Rightarrow>
               let entries = (case r1 of None \<Rightarrow> [] | Some r \<Rightarrow> [(''percentile'', r)])
                          @ (case r2 of None \<Rightarrow> [] | Some r \<Rightarrow> [(''cron'', r)]);
                   results = map (\<lambda>n. the (map_of entries n)) (range_keys (e_ext e) (map fst entries))
               in (w2, Inr (map_option (fill_zero (GetCurrentResourcesSpec w2)) (generateRecommendation results)))))"

section \<open>Applying a recommendation\<close>

datatype worker_outcome =
    WorkerUpToDate
  | WorkerNothingToScale
  | WorkerPanic
  | WorkerAdjustFailed alloc_error
  | WorkerPatchFailed "(string, string) gomap"
  | WorkerPatched "(string, string) gomap"

definition annotations_to_update :: "env \<Rightarrow> workload_state \<Rightarrow> resources \<Rightarrow> (string, string) gomap" where
  "annotations_to_update e w rec =
     (let all = GPUResourcesToAnnotations (e_show e) rec;
          a1 = (if ShouldScaleResource w ''tflops'' then all
                else AList.delete TFLOPSRequestAnnotation (AList.delete TFLOPSLimitAnnotation all))
      in if ShouldScaleResource w ''vram'' then a1
         else AList.delete VRAMRequestAnnotation (AList.delete VRAMLimitAnnotation a1))"

text \<open>
  \<open>patchOK\<close> is the API server's answer. The annotations of the worker held in memory change before
  the patch is sent, so also when it fails. A nil map of annotations reads as an empty one.
\<close>

definition applyRecommendationToWorker ::
  "env \<Rightarrow> allocator \<Rightarrow> bool \<Rightarrow> workload_state \<Rightarrow> pod \<Rightarrow> resources \<Rightarrow> worker_outcome" where
  "applyRecommendationToWorker e s patchOK w p rec =
     (let curRes = worker_resources e p in
      if Resources_Equal rec curRes then WorkerUpToDate
      else let upd = annotations_to_update e w rec in
        if upd = [] then WorkerNothingToScale
        else case curRes of
          None \<Rightarrow> WorkerPanic
        | Some cur \<Rightarrow>
            let isScaleUp = (Tflops (Requests cur) < Tflops (Requests rec) \<or> Vram (Requests cur) < Vram (Requests rec))
            in (case AdjustAllocation (e_ext e) \<lparr>adj_PodUID = om_UID (pod_Meta p), adj_IsScaleUp = isScaleUp,
                  adj_NewRequest = Requests rec, adj_NewLimit = Limits rec\<rparr> True s of
                  (s', remain, Some err) \<Rightarrow> WorkerAdjustFailed err
                | (s', remain, None) \<Rightarrow>
                    let a = foldl (\<lambda>m (k, v). AList.update k v m) (om_Annotations (pod_Meta p)) upd
                    in if patchOK then WorkerPatched a else WorkerPatchFailed a))"

definition outcome_ok :: "worker_outcome \<Rightarrow> bool" where
  "outcome_ok o' \<longleftrightarrow> (case o' of WorkerUpToDate \<Rightarrow> True | WorkerNothingToScale \<Rightarrow> True | WorkerPatched a \<Rightarrow> True | _ \<Rightarrow> False)"

definition patched_worker :: "worker_outcome \<Rightarrow> pod \<Rightarrow> pod" where
  "patched_worker o' p = (case o' of WorkerPatched a \<Rightarrow> p\<lparr>pod_Meta := (pod_Meta p)\<lparr>om_Annotations := a\<rparr>\<rparr>
     | WorkerPatchFailed a \<Rightarrow> p\<lparr>pod_Meta := (pod_Meta p)\<lparr>om_Annotations := a\<rparr>\<rparr> | _ \<Rightarrow> p)"

fun apply_to_workers ::
  "env \<Rightarrow> allocator \<Rightarrow> (string \<Rightarrow> bool) \<Rightarrow> workload_state \<Rightarrow> resources \<Rightarrow> (string, pod) gomap \<Rightarrow> int
   \<Rightarrow> (rec_error + (string, pod) gomap \<times> int)" where
  "apply_to_workers e s patchOK w rec [] cnt = Inr ([], cnt)"
| "apply_to_workers e s patchOK w rec ((n, p) # ps) cnt =
     (if isWorkerHasDedicatedGPU p
      then map_sum id (\<lambda>(qs, c). ((n, p) # qs, c)) (apply_to_workers e s patchOK w rec ps cnt)
      else let out = applyRecommendationToWorker e s (patchOK n) w p rec in
        if out = WorkerPanic then Inl RecPanic
        else map_sum id (\<lambda>(qs, c). ((n, patched_worker out p) # qs, c))
          (apply_to_workers e s patchOK w rec ps (if outcome_ok out then s32 (cnt + 1) else cnt)))"

definition ApplyRecommendationToWorkload ::
  "env \<Rightarrow> allocator \<Rightarrow> (string \<Rightarrow> bool) \<Rightarrow> workload_state \<Rightarrow> resources option \<Rightarrow> rec_error + workload_state" where
  "ApplyRecommendationToWorkload e s patchOK w recommendation =
     (let rec = (if recommendation = None \<and> \<not> IsRecommendationAppliedToAllWorkers e w
                 then wst_Recommendation (ws_Status w) else recommendation)
      in case rec of
           None \<Rightarrow> Inr w
         | Some r \<Rightarrow> map_sum id (\<lambda>(ws, c).
               w\<lparr>CurrentActiveWorkers := ws, ws_Status := (ws_Status w)\<lparr>wst_AppliedRecommendedReplicas := c\<rparr>\<rparr>)
             (apply_to_workers e s patchOK w r (CurrentActiveWorkers w) 0))"

definition isRecommendationChanged :: "workload_status \<Rightarrow> resources option \<Rightarrow> bool" where
  "isRecommendationChanged status recommendation =
     (case recommendation of None \<Rightarrow> False
      | Some r \<Rightarrow> (case wst_Recommendation status of None \<Rightarrow> True | Some old \<Rightarrow> \<not> Resources_Equal old (Some r)))"

text \<open>The status that is written for the workload the API server returned, or \<open>None\<close> for no write.\<close>

definition UpdateWorkloadStatus :: "env \<Rightarrow> workload_state \<Rightarrow> resources option \<Rightarrow> workload_status \<Rightarrow> workload_status option" where
  "UpdateWorkloadStatus e st recommendation old =
     (if recommendation = None \<and> wst_AppliedRecommendedReplicas old = wst_AppliedRecommendedReplicas (ws_Status st) then None
      else let new = (if isRecommendationChanged old recommendation
                 then old\<lparr>wst_Recommendation := recommendation,
                          wst_ActiveCronScalingRule := wst_ActiveCronScalingRule (ws_Status st),
                          wst_Conditions := (case e_FindStatusCondition e (wst_Conditions (ws_Status st))
                              ConditionStatusTypeRecommendationProvided of
                                None \<Rightarrow> wst_Conditions old | Some c \<Rightarrow> e_SetStatusCondition e (wst_Conditions old) c)\<rparr>
                 else old)
           in Some (new\<lparr>wst_AppliedRecommendedReplicas := wst_AppliedRecommendedReplicas (ws_Status st)\<rparr>))"

section \<open>The loop\<close>

type_synonym workload_id = "string \<times> string"
type_synonym workload_map = "(workload_id, workload_state) gomap"

definition findOrCreateWorkloadState :: "workload_id \<Rightarrow> workload_map \<Rightarrow> workload_state" where
  "findOrCreateWorkloadState i m = (case map_of m i of None \<Rightarrow> NewWorkloadState | Some w \<Rightarrow> w)"

text \<open>\<open>pods\<close> is the answer to the list of a workload's workers, \<open>None\<close> for a failed call.\<close>

definition UpdateWorkloadState :: "tf_workload \<Rightarrow> pod list option \<Rightarrow> workload_state \<Rightarrow> workload_state" where
  "UpdateWorkloadState wl pods w =
     (let w1 = w\<lparr>ws_Namespace := tfw_Namespace wl, ws_Name := tfw_Name wl, ws_Spec := tfw_Spec wl, ws_Status := tfw_Status wl\<rparr>
      in case pods of None \<Rightarrow> w1 | Some ps \<Rightarrow> updateCurrentActiveWorkers ps w1)"

definition loadWorkloads :: "(workload_id \<Rightarrow> pod list option) \<Rightarrow> tf_workload list option \<Rightarrow> workload_map \<Rightarrow> workload_map" where
  "loadWorkloads podsOf workloadList m =
     (case workloadList of None \<Rightarrow> m
      | Some wls \<Rightarrow>
          let live = filter (\<lambda>wl. \<not> tfw_Deleting wl) wls;
              m1 = foldl (\<lambda>m wl. let i = (tfw_Namespace wl, tfw_Name wl)
                     in AList.update i (UpdateWorkloadState wl (podsOf i) (findOrCreateWorkloadState i m)) m) m live
          in filter (\<lambda>(i, w). i \<in> (\<lambda>wl. (tfw_Namespace wl, tfw_Name wl)) ` set live) m1)"

definition loadHistoryMetrics :: "worker_usage list \<Rightarrow> workload_map \<Rightarrow> workload_map" where
  "loadHistoryMetrics samples m =
     foldl (\<lambda>m u. let i = (wu_Namespace u, wu_WorkloadName u)
                  in AList.update i (AddSample u (findOrCreateWorkloadState i m)) m) m samples"

definition loadRealTimeMetrics :: "worker_usage list option \<Rightarrow> workload_map \<Rightarrow> workload_map" where
  "loadRealTimeMetrics samples m =
     (case samples of None \<Rightarrow> m
      | Some us \<Rightarrow> foldl (\<lambda>m u. let i = (wu_Namespace u, wu_WorkloadName u)
           in case map_of m i of None \<Rightarrow> m | Some w \<Rightarrow> AList.update i (AddSample u w) m) m us)"

text \<open>One workload: its state afterwards and the status written, if any; a panic ends the process.\<close>

definition process_workload ::
  "env \<Rightarrow> allocator \<Rightarrow> (string \<Rightarrow> bool) \<Rightarrow> workload_status option \<Rightarrow> workload_state
   \<Rightarrow> rec_error + workload_state \<times> workload_status option" where
  "process_workload e s patchOK cluster w =
     (case GetRecommendation e s w of
        (w1, Inl (RecommenderFailed n RecPanic)) \<Rightarrow> Inl RecPanic
      | (w1, Inl err) \<Rightarrow> Inr (w1, None)
      | (w1, Inr rec) \<Rightarrow>
          (case (if IsAutoSetResourcesEnabled w1 then ApplyRecommendationToWorkload e s patchOK w1 rec else Inr w1) of
             Inl err \<Rightarrow> Inl err
           | Inr w2 \<Rightarrow> Inr (w2, case cluster of None \<Rightarrow> None | Some st \<Rightarrow> UpdateWorkloadStatus e w2 rec st)))"

end
