(* ===== verification/RecommenderProps.thy ===== *)
theory RecommenderProps
  imports Recommender AllocatorProps
begin

text \<open>
  Properties of the autoscaler: the merge of recommendations, the cap by what the GPUs of a workload
  can give, when a cron rule is active, and what applying a recommendation does to the workers.
\<close>

section \<open>Merging\<close>

abbreviation "req_T r \<equiv> Tflops (Requests r)"
abbreviation "req_V r \<equiv> Vram (Requests r)"
abbreviation "lim_T r \<equiv> Tflops (Limits r)"
abbreviation "lim_V r \<equiv> Vram (Limits r)"

lemma merge_requests [simp]:
  "req_T (mergeResourcesByLargerRequests s t) = max (req_T s) (req_T t)"
  "req_V (mergeResourcesByLargerRequests s t) = max (req_V s) (req_V t)"
  by (auto simp: mergeResourcesByLargerRequests_def Let_def)

lemma Max_insert_swap: "finite A \<Longrightarrow> Max (insert a (insert b A)) = max (Max (insert a A)) b" for a b :: rat
  by (subst insert_commute, subst Max_insert) (auto simp: max.commute)

lemma foldl_merge_requests:
  "req_T (foldl mergeResourcesByLargerRequests a rs) = Max (insert (req_T a) (req_T ` set rs))"
  "req_V (foldl mergeResourcesByLargerRequests a rs) = Max (insert (req_V a) (req_V ` set rs))"
  by (induction rs rule: rev_induct) (simp_all add: Max_insert_swap del: Max_insert)

lemma merge_all_requests:
  "req_T (merge_all rs) = Max (insert 0 (req_T ` set rs))" "req_V (merge_all rs) = Max (insert 0 (req_V ` set rs))"
  by (simp_all only: merge_all_def foldl_merge_requests) (simp_all add: zero_resources_def zero_resource_def del: Max_insert)

text \<open>A limit of the merge is set only together with a positive request.\<close>

lemma merge_all_limits: "(req_T (merge_all rs) = 0 \<longrightarrow> lim_T (merge_all rs) = 0) \<and> (req_V (merge_all rs) = 0 \<longrightarrow> lim_V (merge_all rs) = 0)"
proof -
  let ?ok = "\<lambda>a. 0 \<le> req_T a \<and> 0 \<le> req_V a \<and> (req_T a = 0 \<longrightarrow> lim_T a = 0) \<and> (req_V a = 0 \<longrightarrow> lim_V a = 0)"
  have "?ok a \<Longrightarrow> ?ok (foldl mergeResourcesByLargerRequests a rs)" for a
  proof (induction rs arbitrary: a)
    case (Cons r rs)
    have "?ok (mergeResourcesByLargerRequests a r)" using Cons.prems
      by (auto simp: mergeResourcesByLargerRequests_def Let_def split: if_splits)
    then show ?case using Cons.IH by simp
  qed simp
  moreover have "?ok zero_resources" by (simp add: zero_resources_def zero_resource_def)
  ultimately show ?thesis unfolding merge_all_def by blast
qed

lemma merge_all_IsZero: "Resources_IsZero (merge_all rs) \<longleftrightarrow> req_T (merge_all rs) = 0 \<and> req_V (merge_all rs) = 0"
  using merge_all_limits [of rs] by (auto simp: Resources_IsZero_def)

section \<open>Limits in proportion\<close>

lemma proportional_limit:
  assumes "getProportionalLimit val l r q = Inr (Some n)" "0 < val r" "0 \<le> val q"
  shows "\<exists>k. n = of_int k \<and> k * val r \<le> val l * val q \<and> val l * val q < (k + 1) * val r \<and> (val r \<le> val l \<longrightarrow> val q \<le> k)"
proof -
  define k where "k = (val l * val q) div val r"
  have n: "n = of_int k" using assms by (auto simp: getProportionalLimit_def Let_def euclid_div_def k_def split: if_splits)
  have b: "k * val r \<le> val l * val q" "val l * val q < (k + 1) * val r"
  proof -
    have "val l * val q = k * val r + (val l * val q) mod val r" by (simp add: k_def)
    moreover have "0 \<le> (val l * val q) mod val r" "(val l * val q) mod val r < val r" using assms(2) by simp_all
    ultimately show "k * val r \<le> val l * val q" "val l * val q < (k + 1) * val r" by (auto simp: algebra_simps)
  qed
  have "val q \<le> k" if "val r \<le> val l"
  proof -
    have "val q * val r \<le> val l * val q" using that assms(3) mult_right_mono [of "val r" "val l" "val q"] by (simp add: mult.commute)
    then have "val q * val r < (k + 1) * val r" using b(2) by simp
    then show ?thesis using assms(2) by (simp add: mult_less_cancel_right)
  qed
  then show ?thesis using n b by blast
qed

section \<open>What the GPUs of a workload allow\<close>

lemma max_allowed_min:
  assumes "max_allowed e s m (a, b) = Inr (t, v)"
    and "\<forall>(n, ws) \<in> set m. \<forall>t v. per_worker e s (gpu_at s (the (map_of (gpuStore s) n))) ws = Inr (t, v) \<longrightarrow> 0 \<le> t \<and> 0 \<le> v"
    and "a = - 1 \<or> 0 \<le> a" "b = - 1 \<or> 0 \<le> b"
  shows "(a = - 1 \<or> t \<le> a \<and> 0 \<le> t) \<and> (b = - 1 \<or> v \<le> b \<and> 0 \<le> v)
    \<and> (\<forall>(n, ws) \<in> set m. \<exists>t' v'. per_worker e s (gpu_at s (the (map_of (gpuStore s) n))) ws = Inr (t', v') \<and> t \<le> t' \<and> v \<le> v')"
  using assms
proof (induction m arbitrary: a b)
  case (Cons nw m)
  obtain n ws where nw: "nw = (n, ws)" by (cases nw)
  obtain t0 v0 where p: "per_worker e s (gpu_at s (the (map_of (gpuStore s) n))) ws = Inr (t0, v0)"
    using Cons.prems(1) nw by (auto split: sum.splits)
  let ?a = "if a = - 1 \<or> t0 < a then t0 else a" and ?b = "if b = - 1 \<or> v0 < b then v0 else b"
  have nn: "0 \<le> t0" "0 \<le> v0" using Cons.prems(2) nw p by auto
  have ab: "0 \<le> ?a" "0 \<le> ?b" using nn Cons.prems(3,4) by auto
  have run: "max_allowed e s m (?a, ?b) = Inr (t, v)" using Cons.prems(1) nw p by simp
  have ih: "(?a = - 1 \<or> t \<le> ?a \<and> 0 \<le> t) \<and> (?b = - 1 \<or> v \<le> ?b \<and> 0 \<le> v)
    \<and> (\<forall>(n, ws) \<in> set m. \<exists>t' v'. per_worker e s (gpu_at s (the (map_of (gpuStore s) n))) ws = Inr (t', v') \<and> t \<le> t' \<and> v \<le> v')"
    by (rule Cons.IH [OF run]) (use Cons.prems(2) ab in auto)
  then have t: "t \<le> ?a" "0 \<le> t" "v \<le> ?b" "0 \<le> v" using ab by auto
  have "?a \<le> t0" "?b \<le> v0" "a = - 1 \<or> ?a \<le> a" "b = - 1 \<or> ?b \<le> b" by auto
  then show ?case using t ih p nw by fastforce
qed auto

lemma share_fits:
  fixes t n :: int
  assumes "0 \<le> t" "0 < n" "k \<le> go_div t n"
  shows "n * k \<le> t"
proof -
  have "n * k \<le> n * (t div n)" using assms by (simp add: go_div_nonneg)
  also have "\<dots> \<le> t" using mult_div_mod_eq [of n t] pos_mod_sign [OF assms(2), of t] by linarith
  finally show ?thesis .
qed

lemma worker_gpus_nonempty:
  "worker_gpus s p ns m = Inr m' \<Longrightarrow> \<forall>(n, ws) \<in> set m. ws \<noteq> [] \<Longrightarrow> \<forall>(n, ws) \<in> set m'. ws \<noteq> []"
proof (induction s p ns m rule: worker_gpus.induct)
  case (2 s p n ns m)
  have "\<forall>(k, ws) \<in> set (AList.update n (xs @ [p]) m). ws \<noteq> []" for xs
    using "2.prems"(2) by (induction m) auto
  then show ?case using 2 by (auto split: if_splits)
qed simp

lemma gpu_workers_nonempty:
  "gpu_workers s ps m = Inr m' \<Longrightarrow> \<forall>(n, ws) \<in> set m. ws \<noteq> [] \<Longrightarrow> \<forall>(n, ws) \<in> set m'. ws \<noteq> []"
proof (induction s ps m rule: gpu_workers.induct)
  case (2 s p ps m)
  obtain a m1 where a: "map_of (uniqueAllocation s) (om_UID (pod_Meta p)) = Some a"
    "worker_gpus s p (ar_GPUNames a) m = Inr m1" "gpu_workers s ps m1 = Inr m'"
    using "2.prems"(1) by (auto split: option.splits sum.splits)
  show ?case by (rule "2.IH" [OF a(1) a(2) a(3)]) (rule worker_gpus_nonempty [OF a(2) "2.prems"(2)])
qed simp

section \<open>Workers\<close>

lemma apply_to_workers_count:
  "apply_to_workers e s ok w r ps cnt = Inr (qs, c) \<Longrightarrow> 0 \<le> cnt \<Longrightarrow> cnt + int (length ps) < 2 ^ 31 \<Longrightarrow>
   c \<le> cnt + int (length (filter (\<lambda>(n, p). \<not> isWorkerHasDedicatedGPU p) ps)) \<and> length qs = length ps"
proof (induction ps arbitrary: cnt qs c)
  case (Cons np ps)
  obtain n p where np: "np = (n, p)" by (cases np)
  show ?case
  proof (cases "isWorkerHasDedicatedGPU p")
    case True
    obtain q' where "apply_to_workers e s ok w r ps cnt = Inr (q', c)" "qs = (n, p) # q'"
      using Cons.prems(1) np True by (cases "apply_to_workers e s ok w r ps cnt") auto
    then show ?thesis using Cons.IH [of cnt q' c] Cons.prems np True by auto
  next
    case False
    define out where "out = applyRecommendationToWorker e s (ok n) w p r"
    define c1 where "c1 = (if outcome_ok out then s32 (cnt + 1) else cnt)"
    have c1: "0 \<le> c1" "c1 \<le> cnt + 1" using Cons.prems by (auto simp: c1_def s32_id)
    obtain q' where "apply_to_workers e s ok w r ps c1 = Inr (q', c)" "qs = (n, patched_worker out p) # q'"
      using Cons.prems(1) np False
      by (cases "apply_to_workers e s ok w r ps c1") (auto simp: Let_def c1_def out_def split: if_splits)
    then show ?thesis using Cons.IH [of c1 q' c] Cons.prems np False c1 by auto
  qed
qed simp

lemma filter_shorter: "x \<in> set xs \<Longrightarrow> \<not> P x \<Longrightarrow> length (filter P xs) < length xs"
  by (rule length_filter_less)

section \<open>Sample workload\<close>

definition ex_as_ext :: ext where
  "ex_as_ext = \<lparr>x_val = (\<lambda>q. if 0 \<le> q then \<lceil>q\<rceil> else \<lfloor>q\<rfloor>), x_approx = (\<lambda>q. Fin q), x_impl = (\<lambda>_. - (2 ^ 63)),
     x_parse = (\<lambda>s. None), x_getNode = (\<lambda>_. NotFound), x_match = (\<lambda>_ _. None), x_getPool = (\<lambda>_. Found None),
     x_getTemplate = (\<lambda>_. NotFound), x_progressive = False, x_rank = length, x_tie = (\<lambda>_. 0)\<rparr>"

definition ex_env :: env where
  "ex_env = \<lparr>e_ext = ex_as_ext, e_show = (\<lambda>q. ''q''), e_quote = (\<lambda>s. s), e_Percentile = (\<lambda>h p. Fin 1), e_IsEmpty = (\<lambda>h. h = []),
     e_Pow = (\<lambda>a b. a), e_ParseFloat = (\<lambda>s. None), e_ParseDuration = (\<lambda>s. None),
     e_cronNext = (\<lambda>s. Some (\<lambda>t. t + int (length s))), e_now = 10, e_SetStatusCondition = (\<lambda>cs c. cs @ [c]),
     e_FindStatusCondition = (\<lambda>cs t. None)\<rparr>"

definition ex_res :: "rat \<Rightarrow> rat \<Rightarrow> resources" where
  "ex_res t v = \<lparr>Requests = \<lparr>Tflops = t, ComputePercent = 0, Vram = v\<rparr>, Limits = \<lparr>Tflops = 2 * t, ComputePercent = 0, Vram = 2 * v\<rparr>\<rparr>"

definition ex_as_pod :: "string \<Rightarrow> bool \<Rightarrow> pod" where
  "ex_as_pod n dedicated = \<lparr>pod_Meta = \<lparr>om_Name = n, om_Namespace = ''ns'', om_UID = n, om_Labels = [],
      om_Annotations = (if dedicated then [(DedicatedGPUAnnotation, TrueStringValue)] else []), om_Deleting = False,
      om_Finalizers = []\<rparr>, pod_NodeName = ''n1''\<rparr>"

definition ex_wl :: "(string, pod) gomap \<Rightarrow> workload_state" where
  "ex_wl ps = NewWorkloadState\<lparr>CurrentActiveWorkers := ps,
     ws_Spec := empty_spec\<lparr>wsp_Resources := ex_res 10 10,
       wsp_AutoSetResources := (wsp_AutoSetResources empty_spec)\<lparr>asr_Enable := True, asr_TargetResource := ''all''\<rparr>\<rparr>\<rparr>"

section \<open>Properties\<close>

text \<open>
  The recommendation made of several recommenders' results asks, for compute and for memory, for the
  largest request among the results not yet applied, and does not depend on the order in which the
  map of results is visited.
\<close>

theorem recommendation_takes_largest:
  assumes "mset results' = mset results"
  shows "map_option (\<lambda>r. (req_T r, req_V r)) (generateRecommendation results')
      = map_option (\<lambda>r. (req_T r, req_V r)) (generateRecommendation results)
    \<and> (\<forall>r. generateRecommendation results = Some r \<longrightarrow>
        req_T r = Max (insert 0 ((\<lambda>x. req_T (rr_Resources x)) ` {x \<in> set results. \<not> rr_HasApplied x}))
        \<and> req_V r = Max (insert 0 ((\<lambda>x. req_V (rr_Resources x)) ` {x \<in> set results. \<not> rr_HasApplied x})))"
proof -
  have s: "set results' = set results" using assms by (metis set_mset_mset)
  then have nil: "results' = [] \<longleftrightarrow> results = []" by auto
  have eq: "req_T (merge_all (map rr_Resources (filter P results'))) = req_T (merge_all (map rr_Resources (filter P results)))"
    "req_V (merge_all (map rr_Resources (filter P results'))) = req_V (merge_all (map rr_Resources (filter P results)))" for P
    by (simp_all only: merge_all_requests set_map set_filter s)
  have same: "map_option (\<lambda>r. (req_T r, req_V r)) (generateRecommendation results')
      = map_option (\<lambda>r. (req_T r, req_V r)) (generateRecommendation results)"
    by (simp add: generateRecommendation_def Let_def nil merge_all_IsZero eq)
  have rec: "r = merge_all (map rr_Resources (filter (\<lambda>r. \<not> rr_HasApplied r) results))"
    if "generateRecommendation results = Some r" for r
    using that by (simp add: generateRecommendation_def Let_def split: if_splits)
  have "req_T r = Max (insert 0 ((\<lambda>x. req_T (rr_Resources x)) ` {x \<in> set results. \<not> rr_HasApplied x}))
      \<and> req_V r = Max (insert 0 ((\<lambda>x. req_V (rr_Resources x)) ` {x \<in> set results. \<not> rr_HasApplied x}))"
    if "generateRecommendation results = Some r" for r
    by (simp only: rec [OF that] merge_all_requests set_map set_filter image_image)
  with same show ?thesis by blast
qed

theorem recommendation_takes_largest_witness:
  "map_option (\<lambda>r. (req_T r, req_V r)) (generateRecommendation
      [\<lparr>rr_Resources = ex_res 5 9, rr_HasApplied = False, rr_ScaleDownLocking = False\<rparr>,
       \<lparr>rr_Resources = ex_res 7 2, rr_HasApplied = False, rr_ScaleDownLocking = True\<rparr>]) = Some (7, 9)
   \<and> map_option (\<lambda>r. (req_T r, req_V r)) (generateRecommendation
      [\<lparr>rr_Resources = ex_res 7 2, rr_HasApplied = False, rr_ScaleDownLocking = True\<rparr>,
       \<lparr>rr_Resources = ex_res 5 9, rr_HasApplied = False, rr_ScaleDownLocking = False\<rparr>]) = Some (7, 9)"
  (is "?L = _ \<and> ?R = _")
proof -
  have "?R = Some (7, 9)" by code_simp
  moreover have "?L = ?R" by (rule recommendation_takes_largest [THEN conjunct1]) simp
  ultimately show ?thesis by simp
qed

text \<open>
  A scale-up is capped by what the GPUs of the workload can give. When the processor accepts a
  recommendation and the maximum is known, a request that grows becomes the smaller of the
  recommended and the allowed one, a request that does not grow is untouched, and a limit that was at
  least the request stays at least the request.
\<close>

theorem scale_up_capped:
  assumes "Processor_Apply e s w rec = Inr (res, msg)" "GetMaxAllowedResourcesSpec e s w = Inr (Some allowed)"
  shows "req_T res = (if req_T (GetCurrentResourcesSpec w) < req_T rec then min (req_T rec) (Tflops allowed) else req_T rec)
    \<and> req_V res = (if req_V (GetCurrentResourcesSpec w) < req_V rec then min (req_V rec) (Vram allowed) else req_V rec)
    \<and> (req_T res \<noteq> req_T rec \<longrightarrow> 0 < e_val e (req_T rec) \<longrightarrow> e_val e (req_T rec) \<le> e_val e (lim_T rec) \<longrightarrow>
         0 \<le> e_val e (Tflops allowed) \<longrightarrow> of_int (e_val e (Tflops allowed)) \<le> lim_T res)"
proof -
  let ?cur = "GetCurrentResourcesSpec w"
  have T: "req_T res = (if req_T ?cur < req_T rec then min (req_T rec) (Tflops allowed) else req_T rec)"
    and V: "req_V res = (if req_V ?cur < req_V rec then min (req_V rec) (Vram allowed) else req_V rec)"
    using assms by (auto simp: Processor_Apply_def Let_def min_def split: if_splits sum.splits option.splits)
  have "req_T res \<noteq> req_T rec \<Longrightarrow> getProportionalLimit (e_val e) (lim_T rec) (req_T rec) (Tflops allowed) = Inr (Some (lim_T res))"
    using assms by (auto simp: Processor_Apply_def Let_def split: if_splits sum.splits option.splits)
  then show ?thesis using T V proportional_limit [of "e_val e" "lim_T rec" "req_T rec" "Tflops allowed" "lim_T res"] by auto
qed

theorem scale_up_capped_witness:
  "map_sum id (\<lambda>(r, m). (req_T r, lim_T r, req_V r)) (Processor_Apply ex_env ex_s1 (ex_wl [(''p'', ex_as_pod ''p'' False)]) (ex_res 150 50))
     = Inr (100, 200, 50)"
proof -
  let ?w = "ex_wl [(''p'', ex_as_pod ''p'' False)]"
  have a: "GetMaxAllowedResourcesSpec ex_env ex_s1 ?w = Inr (Some \<lparr>Tflops = 100, ComputePercent = 0, Vram = 80\<rparr>)" by code_simp
  have l: "map_sum id (\<lambda>(r, m). lim_T r) (Processor_Apply ex_env ex_s1 ?w (ex_res 150 50)) = Inr 200" by code_simp
  then obtain r m where p: "Processor_Apply ex_env ex_s1 ?w (ex_res 150 50) = Inr (r, m)"
    by (cases "Processor_Apply ex_env ex_s1 ?w (ex_res 150 50)") auto
  have c: "GetCurrentResourcesSpec ?w = ex_res 10 10"
    by (simp add: GetCurrentResourcesSpec_def GetOriginalResourcesSpec_def ex_wl_def NewWorkloadState_def)
  have "req_T r = 100 \<and> req_V r = 50" using scale_up_capped [OF p a] c by (simp add: ex_res_def)
  then show ?thesis using p l by simp
qed

text \<open>
  C30: The maximum fits. If every worker of the workload were given the allowed compute on each GPU it
  runs on, the GPU's total (what is available plus what these workers hold) would not be exceeded,
  as long as the float conversion of the totals rounds down to a non-negative integer; for memory the
  same holds of the total rounded to an integer.
\<close>

theorem max_allowed_fits:
  assumes "GetMaxAllowedResourcesSpec e s w = Inr (Some allowed)"
    and "gpu_workers s (map snd (CurrentActiveWorkers w)) [] = Inr m"
    and "\<forall>(n, ws) \<in> set m. \<forall>av. gpu_Available (gpu_at s (the (map_of (gpuStore s) n))) = Some av \<longrightarrow>
       (case gpu_total s av ws of (t, v) \<Rightarrow> 0 \<le> f64_to_int64 (e_impl e) (x_approx (e_ext e) t)
          \<and> of_int (f64_to_int64 (e_impl e) (x_approx (e_ext e) t)) \<le> t \<and> 0 \<le> e_val e v)"
  shows "\<forall>(n, ws) \<in> set m. \<exists>av. gpu_Available (gpu_at s (the (map_of (gpuStore s) n))) = Some av
    \<and> (case gpu_total s av ws of (t, v) \<Rightarrow> of_nat (length ws) * Tflops allowed \<le> t
         \<and> of_nat (length ws) * Vram allowed \<le> of_int (e_val e v))"
proof (clarify)
  fix n ws assume nw: "(n, ws) \<in> set m"
  obtain t v where tv: "max_allowed e s m (- 1, - 1) = Inr (t, v)" "allowed = \<lparr>Tflops = of_int t, ComputePercent = 0, Vram = of_int v\<rparr>"
    using assms(1,2) by (auto simp: GetMaxAllowedResourcesSpec_def split: if_splits sum.splits)
  have ne: "ws' \<noteq> []" if "(n', ws') \<in> set m" for n' ws' using gpu_workers_nonempty [OF assms(2)] that by auto
  have div0: "0 \<le> go_div a (int (length ws'))" if "0 \<le> a" "ws' \<noteq> []" for a :: int and ws' :: "pod list"
    using that by (simp add: go_div_nonneg pos_imp_zdiv_nonneg_iff)
  have "\<forall>(n, ws) \<in> set m. \<forall>t v. per_worker e s (gpu_at s (the (map_of (gpuStore s) n))) ws = Inr (t, v) \<longrightarrow> 0 \<le> t \<and> 0 \<le> v"
    using assms(3) ne div0 by (fastforce simp: per_worker_def split: option.splits prod.splits)
  then obtain t' v' where p: "per_worker e s (gpu_at s (the (map_of (gpuStore s) n))) ws = Inr (t', v')" "t \<le> t'" "v \<le> v'"
    using max_allowed_min [OF tv(1)] nw by fastforce
  then obtain av where av: "gpu_Available (gpu_at s (the (map_of (gpuStore s) n))) = Some av"
    by (auto simp: per_worker_def split: option.splits)
  obtain T V where TV: "gpu_total s av ws = (T, V)" by (cases "gpu_total s av ws")
  let ?F = "f64_to_int64 (e_impl e) (x_approx (e_ext e) T)" and ?n = "int (length ws)"
  have h: "0 \<le> ?F" "of_int ?F \<le> T" "0 \<le> e_val e V" using assms(3) nw av TV by fastforce+
  have n: "0 < ?n" using ne [OF nw] by simp
  have "t' = go_div ?F ?n" "v' = go_div (e_val e V) ?n" using p(1) av TV by (auto simp: per_worker_def)
  then have "?n * t \<le> ?F" "?n * v \<le> e_val e V" using share_fits h n p(2,3) by auto
  then have "of_int (?n * t) \<le> (of_int ?F :: rat)" "of_int (?n * v) \<le> (of_int (e_val e V) :: rat)" by (simp_all only: of_int_le_iff)
  then have "of_nat (length ws) * Tflops allowed \<le> T \<and> of_nat (length ws) * Vram allowed \<le> of_int (e_val e V)"
    using h(2) tv(2) by simp
  then show "\<exists>av. gpu_Available (gpu_at s (the (map_of (gpuStore s) n))) = Some av
    \<and> (case gpu_total s av ws of (t, v) \<Rightarrow> of_nat (length ws) * Tflops allowed \<le> t
         \<and> of_nat (length ws) * Vram allowed \<le> of_int (e_val e v))"
    using av TV by auto
qed

theorem max_allowed_fits_witness:
  "GetMaxAllowedResourcesSpec ex_env ex_s1 (ex_wl [(''p'', ex_as_pod ''p'' False)])
     = Inr (Some \<lparr>Tflops = 100, ComputePercent = 0, Vram = 80\<rparr>)
   \<and> (\<exists>av. gpu_Available (gpu_at ex_s1 0) = Some av
      \<and> (case gpu_total ex_s1 av [ex_as_pod ''p'' False] of (t, v) \<Rightarrow> 1 * 100 \<le> t))"
proof -
  let ?w = "ex_wl [(''p'', ex_as_pod ''p'' False)]" and ?m = "[(''g1'', [ex_as_pod ''p'' False])]"
  have a: "GetMaxAllowedResourcesSpec ex_env ex_s1 ?w = Inr (Some \<lparr>Tflops = 100, ComputePercent = 0, Vram = 80\<rparr>)" by code_simp
  have m: "gpu_workers ex_s1 (map snd (CurrentActiveWorkers ?w)) [] = Inr ?m" by code_simp
  have g: "map_of (gpuStore ex_s1) ''g1'' = Some 0" by code_simp
  have av: "gpu_Available (gpu_at ex_s1 0) = Some \<lparr>Tflops = 98, ComputePercent = 0, Vram = 76\<rparr>" by code_simp
  have t: "gpu_total ex_s1 \<lparr>Tflops = 98, ComputePercent = 0, Vram = 76\<rparr> [ex_as_pod ''p'' False] = (100, 80)" by code_simp
  have f: "f64_to_int64 (e_impl ex_env) (x_approx (e_ext ex_env) 100) = 100" "e_val ex_env 80 = 80" by code_simp+
  have h: "\<forall>(n, ws) \<in> set ?m. \<forall>av. gpu_Available (gpu_at ex_s1 (the (map_of (gpuStore ex_s1) n))) = Some av \<longrightarrow>
       (case gpu_total ex_s1 av ws of (t, v) \<Rightarrow> 0 \<le> f64_to_int64 (e_impl ex_env) (x_approx (e_ext ex_env) t)
          \<and> of_int (f64_to_int64 (e_impl ex_env) (x_approx (e_ext ex_env) t)) \<le> t \<and> 0 \<le> e_val ex_env v)"
    using g av t f by auto
  show ?thesis using max_allowed_fits [OF a m h] a g by auto
qed

definition enabled_rule :: "cron_scaling_rule \<Rightarrow> bool" where
  "enabled_rule r \<longleftrightarrow> csr_Enable r \<and> csr_Name r \<noteq> '''' \<and> csr_Start r \<noteq> '''' \<and> csr_End r \<noteq> ''''"

definition ends_first :: "env \<Rightarrow> cron_scaling_rule \<Rightarrow> bool" where
  "ends_first e r \<longleftrightarrow> (\<exists>f g. e_cronNext e (csr_Start r) = Some f \<and> e_cronNext e (csr_End r) = Some g \<and> g (e_now e) \<le> f (e_now e))"

lemma active_rules_filter:
  assumes "\<forall>sched f t. e_cronNext e sched = Some f \<longrightarrow> t < f t"
  shows "active_rules e rules = Inr rs \<Longrightarrow> rs = filter (\<lambda>r. enabled_rule r \<and> ends_first e r) rules"
proof (induction rules arbitrary: rs)
  case (Cons r rules)
  show ?case
  proof (cases "enabled_rule r")
    case False
    then show ?thesis using Cons by (auto simp: enabled_rule_def)
  next
    case True
    obtain f g rs0 where fg: "e_cronNext e (csr_Start r) = Some f" "e_cronNext e (csr_End r) = Some g"
      "active_rules e rules = Inr rs0"
      "rs = (if rule_active (e_now e) (f (e_now e)) (g (e_now e)) then r # rs0 else rs0)"
      using Cons.prems True by (auto simp: enabled_rule_def split: if_splits option.splits sum.splits)
    have "e_now e < f (e_now e)" "e_now e < g (e_now e)" using assms fg(1,2) by auto
    then have "rule_active (e_now e) (f (e_now e)) (g (e_now e)) \<longleftrightarrow> ends_first e r"
      using fg(1,2) by (auto simp: rule_active_def ends_first_def)
    then show ?thesis using Cons.IH [OF fg(3)] fg(4) True by simp
  qed
qed simp

text \<open>
  When a cron rule is active. Since the next start and the next end of a schedule lie after the
  present, a rule counts as active exactly when its next end is not after its next start; the
  recommender follows the only such enabled rule, does nothing if there is none, and fails if there
  are several.
\<close>

theorem cron_rule_active_iff:
  assumes "\<forall>sched f t. e_cronNext e sched = Some f \<longrightarrow> t < f t"
    and "\<forall>r \<in> set rules. enabled_rule r \<longrightarrow> csr_Start r \<noteq> csr_End r
       \<and> e_cronNext e (csr_Start r) \<noteq> None \<and> e_cronNext e (csr_End r) \<noteq> None"
  shows "getActiveCronScalingRule e rules =
    (case filter (\<lambda>r. enabled_rule r \<and> ends_first e r) rules of
       [] \<Rightarrow> Inr None | [r] \<Rightarrow> Inr (Some r) | _ \<Rightarrow> Inl TooManyActiveRules)"
proof -
  have "\<exists>rs. active_rules e rules = Inr rs" using assms(2)
  proof (induction rules)
    case (Cons r rules)
    then obtain rs where "active_rules e rules = Inr rs" by auto
    then show ?case using Cons.prems by (cases "enabled_rule r") (auto simp: enabled_rule_def)
  qed simp
  then show ?thesis using active_rules_filter [OF assms(1)] by (auto simp: getActiveCronScalingRule_def split: list.split)
qed

definition ex_rule :: "string \<Rightarrow> string \<Rightarrow> string \<Rightarrow> cron_scaling_rule" where
  "ex_rule n st en = \<lparr>csr_Enable = True, csr_Name = n, csr_Start = st, csr_End = en, csr_DesiredResources = ex_res 1 1\<rparr>"

definition ex_cron_env :: env where
  "ex_cron_env = ex_env\<lparr>e_cronNext := (\<lambda>s. Some (\<lambda>t. t + 1 + int (length s)))\<rparr>"

theorem cron_rule_active_iff_witness:
  "getActiveCronScalingRule ex_cron_env [ex_rule ''night'' ''0 20'' ''0 8'', ex_rule ''day'' ''0 8'' ''0 20''] = Inr (Some (ex_rule ''night'' ''0 20'' ''0 8''))"
proof -
  have e: "e_cronNext ex_cron_env = (\<lambda>s. Some (\<lambda>t. t + 1 + int (length s)))" by (simp add: ex_cron_env_def)
  show ?thesis
    by (subst cron_rule_active_iff) (auto simp: e ends_first_def enabled_rule_def ex_rule_def)
qed

text \<open>
  A workload with a worker on a dedicated GPU never counts as fully adjusted: such a worker is
  skipped and not counted, but the number of workers it is compared with includes it, so the same
  recommendation is applied again in every round.
\<close>

theorem dedicated_worker_never_settles:
  assumes "ApplyRecommendationToWorkload e s patchOK w (Some r) = Inr w'"
    and "wst_Recommendation (ws_Status w) \<noteq> None" "(n, p) \<in> set (CurrentActiveWorkers w)" "isWorkerHasDedicatedGPU p"
    and "int (length (CurrentActiveWorkers w)) < 2 ^ 31"
  shows "\<not> IsRecommendationAppliedToAllWorkers e w'"
proof -
  let ?ps = "CurrentActiveWorkers w"
  obtain qs c where q: "apply_to_workers e s patchOK w r ?ps 0 = Inr (qs, c)"
    and w': "w' = w\<lparr>CurrentActiveWorkers := qs, ws_Status := (ws_Status w)\<lparr>wst_AppliedRecommendedReplicas := c\<rparr>\<rparr>"
    using assms(1) by (cases "apply_to_workers e s patchOK w r ?ps 0") (auto simp: ApplyRecommendationToWorkload_def)
  note b = assms(5)
  have c: "c \<le> int (length (filter (\<lambda>(n, p). \<not> isWorkerHasDedicatedGPU p) ?ps))" "length qs = length ?ps"
    using apply_to_workers_count [OF q] b by auto
  have "length (filter (\<lambda>(n, p). \<not> isWorkerHasDedicatedGPU p) ?ps) < length ?ps"
    using filter_shorter [OF assms(3), of "\<lambda>(n, p). \<not> isWorkerHasDedicatedGPU p"] assms(4) by simp
  then have "s32 (int (length qs)) \<noteq> c" using c b by (simp add: s32_id)
  then show ?thesis using assms(2) by (simp add: IsRecommendationAppliedToAllWorkers_def w')
qed

theorem dedicated_worker_never_settles_witness:
  "(let w = (ex_wl [(''d'', ex_as_pod ''d'' True)])\<lparr>ws_Status := (ws_Status NewWorkloadState)\<lparr>wst_Recommendation := Some (ex_res 5 5)\<rparr>\<rparr>
    in \<exists>w'. ApplyRecommendationToWorkload ex_env ex_s1 (\<lambda>_. True) w (Some (ex_res 5 5)) = Inr w'
       \<and> \<not> IsRecommendationAppliedToAllWorkers ex_env w')"
proof -
  define w where "w = (ex_wl [(''d'', ex_as_pod ''d'' True)])\<lparr>ws_Status := (ws_Status NewWorkloadState)\<lparr>wst_Recommendation := Some (ex_res 5 5)\<rparr>\<rparr>"
  have d: "isWorkerHasDedicatedGPU (ex_as_pod ''d'' True)"
    by (simp add: isWorkerHasDedicatedGPU_def ex_as_pod_def get_str_def)
  have a: "CurrentActiveWorkers w = [(''d'', ex_as_pod ''d'' True)]" "wst_Recommendation (ws_Status w) \<noteq> None"
    by (simp_all add: w_def ex_wl_def)
  obtain w' where r: "ApplyRecommendationToWorkload ex_env ex_s1 (\<lambda>_. True) w (Some (ex_res 5 5)) = Inr w'"
    using a(1) d by (simp add: ApplyRecommendationToWorkload_def)
  have "\<not> IsRecommendationAppliedToAllWorkers ex_env w'"
    by (rule dedicated_worker_never_settles [OF r a(2), of "''d''"]) (use a(1) d in auto)
  then show ?thesis using r by (auto simp: w_def Let_def)
qed

text \<open>
  A worker whose resource annotations are missing or unreadable brings the autoscaler down: the
  error is only logged, and the current resources, which are nil, are read next; this happens as
  soon as the workload scales compute or memory.
\<close>

theorem unreadable_worker_panics:
  assumes "worker_resources e p = None" "ShouldScaleResource w ''tflops'' \<or> ShouldScaleResource w ''vram''"
  shows "applyRecommendationToWorker e s patchOK w p r = WorkerPanic"
  using assms
  by (auto simp: applyRecommendationToWorker_def Resources_Equal_def annotations_to_update_def
      GPUResourcesToAnnotations_def annotation_defs Let_def)

theorem unreadable_worker_panics_witness:
  "applyRecommendationToWorker ex_env ex_s1 True (ex_wl []) (ex_as_pod ''p'' False) (ex_res 5 5) = WorkerPanic"
  by (rule unreadable_worker_panics) code_simp+

end
