(* ===== verification/Expander.thy ===== *)
theory Expander
  imports AllocatorSync PodUtils
begin

text \<open>
  Node expansion, \<^verbatim>\<open>internal/scheduler/expander\<close>: the queue of pods the scheduler rejected
  (\<open>unsched_queue.go\<close>) and the expander that provisions a node for them (\<open>handler.go\<close>). The
  simulated scheduling run, the API server's answers, the shuffle and the random names are arguments
  (record \<open>xenv\<close>). Timers and the buffering delay only decide when a step happens. A pointer to a
  snapshot of an in-flight GPU is its position in the list of snapshots.
\<close>

section \<open>State\<close>

record k_node =
  kn_Name :: string
  kn_Owners :: "owner_ref list"

record node_claim =
  nc_Name :: string
  nc_Labels :: "(string, string) gomap option"
  nc_Annotations :: "(string, string) gomap"
  nc_Owners :: "owner_ref list"
  nc_Deleting :: bool

record node_expander =
  inFlightNodes :: "(string, gpu list) gomap"
  inFlightNodeClaims :: "string list"
  preSchedulePods :: "(string, alloc_request) gomap"
  preScheduleTimers :: "string list"

record xenv =
  xe_ext :: ext
  xe_hasProfile :: "string \<Rightarrow> bool"
  xe_find :: "pod \<Rightarrow> k_node list \<times> bool"  \<comment> \<open>\<^verbatim>\<open>FindNodesThatFitPod\<close> and whether it returns an error\<close>
  xe_shuffle :: "k_node list \<Rightarrow> k_node list"
  xe_randNode :: string
  xe_randGPU :: "nat \<Rightarrow> string"
  xe_randClaim :: string
  xe_getNodeClaim :: "string \<Rightarrow> node_claim get_result"
  xe_getGPUNodeClaim :: "string \<Rightarrow> node_claim get_result"
  xe_createOK :: bool

definition MaxInFlightNodes :: nat where
  "MaxInFlightNodes = 15"

definition NewNodeExpander :: node_expander where
  "NewNodeExpander = \<lparr>inFlightNodes = [], inFlightNodeClaims = [], preSchedulePods = [], preScheduleTimers = []\<rparr>"

section \<open>Bookkeeping\<close>

definition addInFlightNode :: "string \<Rightarrow> gpu list \<Rightarrow> node_expander \<Rightarrow> node_expander" where
  "addInFlightNode node gpus e = e\<lparr>inFlightNodes := AList.update node gpus (inFlightNodes e)\<rparr>"

definition addPreSchedulePod :: "alloc_request \<Rightarrow> node_expander \<Rightarrow> node_expander" where
  "addPreSchedulePod req e =
     (let n = om_Name (ar_PodMeta req) in
      e\<lparr>preSchedulePods := AList.update n req (preSchedulePods e), preScheduleTimers := List.insert n (preScheduleTimers e)\<rparr>)"

definition RemoveInFlightNode :: "string \<Rightarrow> node_expander \<Rightarrow> node_expander" where
  "RemoveInFlightNode node e = e\<lparr>inFlightNodes := AList.delete node (inFlightNodes e)\<rparr>"

definition RemovePreSchedulePod :: "string \<Rightarrow> node_expander \<Rightarrow> node_expander \<times> bool" where
  "RemovePreSchedulePod podName e =
     (e\<lparr>preScheduleTimers := removeAll podName (preScheduleTimers e), preSchedulePods := AList.delete podName (preSchedulePods e)\<rparr>,
      map_of (preSchedulePods e) podName \<noteq> None)"

text \<open>
  The callbacks that shrink the state: a bound pod, a pre-scheduled pod whose timer fires (every branch
  of the timer function removes it), and one visit of the minute check of a node claim.
\<close>

definition expander_bind_handler :: "alloc_request \<Rightarrow> node_expander \<Rightarrow> node_expander" where
  "expander_bind_handler req e = fst (RemovePreSchedulePod (om_Name (ar_PodMeta req)) e)"

definition pre_schedule_timeout :: "string \<Rightarrow> node_expander \<Rightarrow> node_expander" where
  "pre_schedule_timeout podName e = fst (RemovePreSchedulePod podName e)"

definition check_node_claim :: "(string \<Rightarrow> node_claim get_result) \<Rightarrow> string \<Rightarrow> node_expander \<Rightarrow> node_expander" where
  "check_node_claim get key e =
     (let drop = e\<lparr>inFlightNodeClaims := removeAll key (inFlightNodeClaims e)\<rparr> in
      case get key of
        NotFound \<Rightarrow> RemoveInFlightNode key drop
      | GetFailed \<Rightarrow> e
      | Found c \<Rightarrow> if nc_Deleting c then RemoveInFlightNode key drop
                  else if map_of (inFlightNodes e) (nc_Name c) = None then drop else e)"

section \<open>Node claims\<close>

datatype claim_error =
    NoKnownProvisioner
  | GetNodeClaimFailed string
  | NoValidParent
  | GetGPUNodeClaimFailed string
  | ClaimWithoutLabels string
  | CreateClaimFailed

definition KarpenterNodeClaimKind :: string where
  "KarpenterNodeClaimKind = ''NodeClaim''"

definition KarpenterNodePoolKind :: string where
  "KarpenterNodePoolKind = ''NodePool''"

definition GPUNodeClaimKind :: string where
  "GPUNodeClaimKind = ''GPUNodeClaim''"

definition KarpenterExpansionLabel :: string where
  "KarpenterExpansionLabel = ''tensor-fusion.ai/expansion-source''"

definition isNotAutoAddedKarpenterKeys :: "string \<Rightarrow> bool" where
  "isNotAutoAddedKarpenterKeys k \<longleftrightarrow>
     (if HasPrefix k ''karpenter.'' then HasPrefix k ''karpenter.sh'' \<or> HasPrefix k ''karpenter.k8s.io'' else True)"

definition copy_keys :: "(string, string) gomap \<Rightarrow> (string, string) gomap \<Rightarrow> (string, string) gomap" where
  "copy_keys src dst = foldl (\<lambda>m (k, v). if isNotAutoAddedKarpenterKeys k then AList.update k v m else m) dst src"

text \<open>Each returns the object created or the error.\<close>

definition cloneGPUNodeClaim :: "xenv \<Rightarrow> string \<Rightarrow> owner_ref \<Rightarrow> claim_error + node_claim" where
  "cloneGPUNodeClaim x preparedNode owner =
     (case xe_getGPUNodeClaim x (or_Name owner) of
        Found orig \<Rightarrow>
          (case nc_Labels orig of
             None \<Rightarrow> Inl (ClaimWithoutLabels (or_Name owner))
           | Some ls \<Rightarrow>
               if xe_createOK x
               then Inr (orig\<lparr>nc_Labels := Some (AList.update KarpenterExpansionLabel preparedNode ls),
                              nc_Name := get_str ls LabelKeyOwner @ ''-'' @ xe_randClaim x\<rparr>)
               else Inl CreateClaimFailed)
      | _ \<Rightarrow> Inl (GetGPUNodeClaimFailed (or_Name owner)))"

definition createKarpenterNodeClaimDirect :: "xenv \<Rightarrow> string \<Rightarrow> node_claim \<Rightarrow> claim_error + node_claim" where
  "createKarpenterNodeClaimDirect x preparedNode claim =
     (let ls = (case nc_Labels claim of None \<Rightarrow> [] | Some ls \<Rightarrow> ls);
          new = \<lparr>nc_Name = preparedNode, nc_Labels = Some (copy_keys ls [(KarpenterExpansionLabel, preparedNode)]),
                 nc_Annotations = copy_keys (nc_Annotations claim) [], nc_Owners = nc_Owners claim, nc_Deleting = False\<rparr>
      in if xe_createOK x then Inr new else Inl CreateClaimFailed)"

text \<open>
  The parent loop stops at the first controller, so a node pool owner listed after it is not seen.
\<close>

fun claim_parent :: "owner_ref list \<Rightarrow> bool \<Rightarrow> owner_ref option \<times> bool" where
  "claim_parent [] hasNodePool = (None, hasNodePool)"
| "claim_parent (o' # os) hasNodePool =
     (let h = (hasNodePool \<or> or_Kind o' = KarpenterNodePoolKind)
      in if or_Controller o' then (Some o', h) else claim_parent os h)"

definition handleKarpenterNodeClaim :: "xenv \<Rightarrow> string \<Rightarrow> owner_ref \<Rightarrow> node_expander \<Rightarrow> node_expander \<times> (claim_error + node_claim)" where
  "handleKarpenterNodeClaim x preparedNode controlledBy e =
     (case xe_getNodeClaim x (or_Name controlledBy) of
        Found claim \<Rightarrow>
          (case claim_parent (nc_Owners claim) False of (parent, hasNodePool) \<Rightarrow>
             if (case parent of None \<Rightarrow> False | Some q \<Rightarrow> or_Kind q = GPUNodeClaimKind)
             then (e, cloneGPUNodeClaim x preparedNode (the parent))
             else if hasNodePool
             then (case createKarpenterNodeClaimDirect x preparedNode claim of
                     Inl err \<Rightarrow> (e, Inl err)
                   | Inr c \<Rightarrow> (e\<lparr>inFlightNodeClaims := List.insert (nc_Name c) (inFlightNodeClaims e)\<rparr>, Inr c))
             else (e, Inl NoValidParent))
      | _ \<Rightarrow> (e, Inl (GetNodeClaimFailed (or_Name controlledBy))))"

definition createGPUNodeClaim :: "xenv \<Rightarrow> string \<Rightarrow> owner_ref list \<Rightarrow> node_expander \<Rightarrow> node_expander \<times> (claim_error + node_claim)" where
  "createGPUNodeClaim x preparedNode owners e =
     (case find (\<lambda>o'. or_Kind o' = KarpenterNodeClaimKind \<or> or_Kind o' = GPUNodeClaimKind) owners of
        None \<Rightarrow> (e, Inl NoKnownProvisioner)
      | Some o' \<Rightarrow>
          if or_Kind o' = KarpenterNodeClaimKind then handleKarpenterNodeClaim x preparedNode o' e
          else (e, cloneGPUNodeClaim x preparedNode o'))"

section \<open>Fitting a pod\<close>

text \<open>
  A pre-scheduled pod is put on the first in-flight snapshot with room; \<open>Inl\<close> stands for a
  nil-pointer panic, \<open>Inr None\<close> for no room.
\<close>

fun pre_allocate :: "ext \<Rightarrow> alloc_request \<Rightarrow> nat list \<Rightarrow> gpu list \<Rightarrow> unit + gpu list option" where
  "pre_allocate x req [] snaps = Inr None"
| "pre_allocate x req (i # is) snaps =
     (case (request_tflops x (ar_Request req) (snaps ! i), gpu_Available (snaps ! i)) of
        (Some t, Some av) \<Rightarrow>
          if t \<le> Tflops av \<and> Vram (ar_Request req) \<le> Vram av
          then Inr (Some (snaps[i := (snaps ! i)\<lparr>gpu_Available :=
                 Some (av\<lparr>Tflops := Tflops av - t, Vram := Vram av - Vram (ar_Request req)\<rparr>)\<rparr>]))
          else pre_allocate x req is snaps
      | _ \<Rightarrow> Inl ())"

fun pre_allocate_all ::
  "ext \<Rightarrow> alloc_request list \<Rightarrow> nat list \<Rightarrow> gpu list \<Rightarrow> node_expander \<Rightarrow> unit + gpu list \<times> node_expander" where
  "pre_allocate_all x [] is snaps e = Inr (snaps, e)"
| "pre_allocate_all x (r # rs) is snaps e =
     (case pre_allocate x r is snaps of
        Inl _ \<Rightarrow> Inl ()
      | Inr (Some snaps') \<Rightarrow> pre_allocate_all x rs is snaps' e
      | Inr None \<Rightarrow> pre_allocate_all x rs is snaps (fst (RemovePreSchedulePod (om_Name (ar_PodMeta r)) e)))"

definition snapshot_index :: "gpu list \<Rightarrow> (string, nat) gomap" where
  "snapshot_index snaps = foldl (\<lambda>m i. AList.update (gpu_Name (snaps ! i)) i m) [] [0..<length snaps]"

definition pre_scheduled_usage :: "node_expander \<Rightarrow> gpu_resource_usage" where
  "pre_scheduled_usage e =
     foldl add_preempt_usage \<lparr>u_Requests = zero_resource, u_Limits = zero_resource,
       u_Workers = s32 (int (length (preSchedulePods e)))\<rparr> (map snd (preSchedulePods e))"

datatype fit_verdict = FitPanic | ComposeFailed | QuotaIssue | ResourceIssue | FitsInFlightOnly alloc_request | FitsNow

text \<open>\<open>existing\<close> are the GPUs of the nodes that passed the other filters, \<open>snaps\<close> the in-flight ones.\<close>

definition checkGPUFitWithInflightNodes ::
  "xenv \<Rightarrow> pod \<Rightarrow> gpu list \<Rightarrow> gpu list \<Rightarrow> allocator \<Rightarrow> node_expander \<Rightarrow> node_expander \<times> fit_verdict" where
  "checkGPUFitWithInflightNodes x p existing snaps s e =
     (let ext = xe_ext x; idx = snapshot_index snaps;
          is = map (\<lambda>n. the (map_of idx n)) (range_keys ext (map fst idx));
          pods = map (\<lambda>n. the (map_of (preSchedulePods e) n)) (range_keys ext (map fst (preSchedulePods e))) in
      case pre_allocate_all ext pods is snaps e of
        Inl _ \<Rightarrow> (e, FitPanic)
      | Inr (snaps', e1) \<Rightarrow>
          (case ComposeAllocationRequest (x_parse ext) p of
             (req, msg, True) \<Rightarrow> (e1, ComposeFailed)
           | (req, msg, False) \<Rightarrow>
               if CheckSingleQuotaAvailable (quotaStore s) req \<noteq> None then (e1, QuotaIssue)
               else if CheckTotalQuotaWithPreScheduled (x_val ext) (quotaStore s) req (pre_scheduled_usage e1) \<noteq> None
               then (e1, QuotaIssue)
               else (case Allocator_Filter ext req (existing @ snaps') False s of
                       Inl err \<Rightarrow> (e1, ResourceIssue)
                     | Inr (gs, ds) \<Rightarrow>
                         if gs = [] then (e1, ResourceIssue)
                         else (e1, if \<forall>g \<in> set gs. map_of idx (gpu_Name g) \<noteq> None then FitsInFlightOnly req else FitsNow))))"

definition checkGPUFitForNewNode :: "xenv \<Rightarrow> pod \<Rightarrow> gpu list \<Rightarrow> allocator \<Rightarrow> bool" where
  "checkGPUFitForNewNode x p gpus s =
     (case ComposeAllocationRequest (x_parse (xe_ext x)) p of
        (req, msg, True) \<Rightarrow> False
      | (req, msg, False) \<Rightarrow>
          (case Allocator_Filter (xe_ext x) req gpus False s of Inl err \<Rightarrow> False | Inr (gs, ds) \<Rightarrow> gs \<noteq> []))"

definition prepareNewNodesForScheduleAttempt :: "xenv \<Rightarrow> (string, gpu) gomap \<Rightarrow> string \<times> gpu list" where
  "prepareNewNodesForScheduleAttempt x templateGPUs =
     (''tensor-fusion-'' @ xe_randNode x,
      map (\<lambda>(i, g). g\<lparr>gpu_Name := ''gpu-'' @ xe_randGPU x i, gpu_Available := gpu_Capacity g\<rparr>)
        (enumerate 0 (map snd templateGPUs)))"

section \<open>Expansion\<close>

datatype expansion =
    AlreadyPreScheduled
  | TooManyInFlight
  | NotSchedulableAnywhere
  | NoFitNodes
  | NoGPUNodes
  | WaitsForInFlightNode
  | FitsExisting
  | NotAResourceIssue
  | Expanded string
  | ExpansionFailed claim_error
  | NoPotentialNode
  | ExpansionPanic

definition simulateSchedulingWithoutGPU :: "xenv \<Rightarrow> pod \<Rightarrow> pod_spec \<Rightarrow> k_node list option" where
  "simulateSchedulingWithoutGPU x p spec =
     (if \<not> xe_hasProfile x (ps_SchedulerName spec) then None
      else if om_Labels (pod_Meta p) = [] then None
      else if \<not> IsTensorFusionPod p then None
      else let p' = p\<lparr>pod_Meta := (pod_Meta p)\<lparr>om_Labels := AList.delete LabelComponent (om_Labels (pod_Meta p))\<rparr>\<rparr>;
               (nodes, failed) = xe_find x p'
           in if nodes = [] then (if failed then None else Some []) else Some nodes)"

fun try_expand ::
  "xenv \<Rightarrow> pod \<Rightarrow> k_node list \<Rightarrow> allocator \<Rightarrow> node_expander \<Rightarrow> node_expander \<times> expansion" where
  "try_expand x p [] s e = (e, NoPotentialNode)"
| "try_expand x p (n # ns) s e =
     (if kn_Owners n = [] then try_expand x p ns s e
      else let (newName, gpus) = prepareNewNodesForScheduleAttempt x
                 (case map_of (node_gpus s) (kn_Name n) of None \<Rightarrow> [] | Some m \<Rightarrow> m) in
        if \<not> checkGPUFitForNewNode x p gpus s then try_expand x p ns s e
        else (case createGPUNodeClaim x newName (kn_Owners n) e of
                (e1, Inl err) \<Rightarrow> (e1, ExpansionFailed err)
              | (e1, Inr claim) \<Rightarrow>
                  (case ComposeAllocationRequest (x_parse (xe_ext x)) p of (req, _, _) \<Rightarrow>
                     (addPreSchedulePod req (addInFlightNode newName gpus e1), Expanded newName))))"

definition ProcessExpansion ::
  "xenv \<Rightarrow> pod \<Rightarrow> pod_spec \<Rightarrow> allocator \<Rightarrow> node_expander \<Rightarrow> node_expander \<times> expansion" where
  "ProcessExpansion x p spec s e =
     (if map_of (preSchedulePods e) (om_Name (pod_Meta p)) \<noteq> None then (e, AlreadyPreScheduled)
      else if MaxInFlightNodes \<le> length (inFlightNodes e) then (e, TooManyInFlight)
      else case simulateSchedulingWithoutGPU x p spec of
        None \<Rightarrow> (e, NotSchedulableAnywhere)
      | Some nodes0 \<Rightarrow>
          if nodes0 = [] then (e, NoFitNodes)
          else let nodes = xe_shuffle x nodes0;
                   existing = concat (map (\<lambda>n. case map_of (node_gpus s) (kn_Name n) of None \<Rightarrow> [] | Some m \<Rightarrow> map snd m) nodes);
                   snaps = concat (map (\<lambda>n. the (map_of (inFlightNodes e) n)) (range_keys (xe_ext x) (map fst (inFlightNodes e)))) in
            if existing @ snaps = [] then (e, NoGPUNodes)
            else (case checkGPUFitWithInflightNodes x p existing snaps s e of
                    (e1, FitPanic) \<Rightarrow> (e1, ExpansionPanic)
                  | (e1, FitsInFlightOnly req) \<Rightarrow> (addPreSchedulePod req e1, WaitsForInFlightNode)
                  | (e1, FitsNow) \<Rightarrow> (e1, FitsExisting)
                  | (e1, QuotaIssue) \<Rightarrow> (e1, NotAResourceIssue)
                  | (e1, _) \<Rightarrow> try_expand x p nodes s e1))"

section \<open>The queue of rejected pods\<close>

record unsched_handler =
  pending :: "(string, pod) gomap"
  uq_queue :: "pod list"
  uq_processing :: "pod option"  \<comment> \<open>the pod the queue processor is working on\<close>

definition NewUnscheduledPodHandler :: "unsched_handler \<times> node_expander" where
  "NewUnscheduledPodHandler = (\<lparr>pending = [], uq_queue = [], uq_processing = None\<rparr>, NewNodeExpander)"

definition QUEUE_SIZE :: nat where
  "QUEUE_SIZE = 256"

text \<open>
  When the context is cancelled while the queue has room, Go picks either case of the \<^verbatim>\<open>select\<close>;
  \<open>takeDone\<close> is that choice.
\<close>

definition HandleRejectedPod :: "bool \<Rightarrow> pod \<Rightarrow> pod_spec \<Rightarrow> unsched_handler \<Rightarrow> unsched_handler" where
  "HandleRejectedPod takeDone p spec h =
     (if \<not> IsTensorFusionWorker p \<or> IsDesignatedNodePod p spec then h
      else let uid = om_UID (pod_Meta p) in
        if map_of (pending h) uid \<noteq> None then h
        else let h1 = h\<lparr>pending := AList.update uid p (pending h)\<rparr> in
          if \<not> takeDone \<and> length (uq_queue h) < QUEUE_SIZE then h1\<lparr>uq_queue := uq_queue h @ [p]\<rparr>
          else h1\<lparr>pending := AList.delete uid (pending h1)\<rparr>)"

definition removePendingPod :: "pod \<Rightarrow> unsched_handler \<Rightarrow> unsched_handler" where
  "removePendingPod p h = h\<lparr>pending := AList.delete (om_UID (pod_Meta p)) (pending h)\<rparr>"

text \<open>
  The processor takes a pod from the queue, buffers it, and then tries an expansion, unless it was
  \<open>cancelled\<close> meanwhile; other pods may be rejected in between.
\<close>

definition processQueue :: "unsched_handler \<Rightarrow> unsched_handler" where
  "processQueue h =
     (case (uq_processing h, uq_queue h) of
        (None, p # rest) \<Rightarrow> h\<lparr>uq_queue := rest, uq_processing := Some p\<rparr>
      | _ \<Rightarrow> h)"

definition processQueuedPod ::
  "xenv \<Rightarrow> pod_spec \<Rightarrow> bool \<Rightarrow> allocator \<Rightarrow> unsched_handler \<times> node_expander \<Rightarrow> (unsched_handler \<times> node_expander) \<times> expansion option" where
  "processQueuedPod x spec cancelled s he =
     (case he of (h, e) \<Rightarrow>
        (case uq_processing h of
           None \<Rightarrow> (he, None)
         | Some p \<Rightarrow>
             let h1 = removePendingPod p (h\<lparr>uq_processing := None\<rparr>) in
             if cancelled then ((h1, e), None)
             else (case ProcessExpansion x p spec s e of (e1, out) \<Rightarrow> ((h1, e1), Some out))))"

end
