(* ===== verification/ExpanderProps.thy ===== *)
theory ExpanderProps
  imports Expander
begin

text \<open>
  Properties of node expansion: a step relation over the queue of rejected pods and the expander, with
  the invariant that bounds the nodes being provisioned and keeps each pod queued at most once.
\<close>

section \<open>Steps\<close>

inductive expansion_step :: "unsched_handler \<times> node_expander \<Rightarrow> unsched_handler \<times> node_expander \<Rightarrow> bool" where
  reject: "expansion_step (h, e) (HandleRejectedPod takeDone p spec h, e)"
| take: "expansion_step (h, e) (processQueue h, e)"
| process: "processQueuedPod x spec cancelled s (h, e) = (he', out) \<Longrightarrow> expansion_step (h, e) he'"
| bound: "expansion_step (h, e) (h, expander_bind_handler req e)"
| timeout: "expansion_step (h, e) (h, pre_schedule_timeout podName e)"
| claim: "key \<in> set (inFlightNodeClaims e) \<Longrightarrow> expansion_step (h, e) (h, check_node_claim get key e)"
| provisioned: "expansion_step (h, e) (h, RemoveInFlightNode node e)"

inductive_cases expansion_stepE: "expansion_step s s'"

inductive expansion_reachable :: "unsched_handler \<times> node_expander \<Rightarrow> bool" where
  start: "expansion_reachable NewUnscheduledPodHandler"
| step: "expansion_reachable s \<Longrightarrow> expansion_step s s' \<Longrightarrow> expansion_reachable s'"

section \<open>The expander's part\<close>

lemma length_delete_le: "length (AList.delete k m) \<le> length m"
  by (induction m) auto

lemma length_update_le: "length (AList.update k v m) \<le> Suc (length m)"
  by (induction m) auto

lemma inFlight_simps [simp]:
  "inFlightNodes (addPreSchedulePod req e) = inFlightNodes e"
  "inFlightNodes (fst (RemovePreSchedulePod n e)) = inFlightNodes e"
  "inFlightNodes (addInFlightNode n gs e) = AList.update n gs (inFlightNodes e)"
  by (simp_all add: addPreSchedulePod_def RemovePreSchedulePod_def addInFlightNode_def Let_def)

lemma createGPUNodeClaim_inFlight: "createGPUNodeClaim x n os e = (e', r) \<Longrightarrow> inFlightNodes e' = inFlightNodes e"
  by (auto simp: createGPUNodeClaim_def handleKarpenterNodeClaim_def
      split: option.splits if_splits get_result.splits prod.splits sum.splits)

lemma try_expand_inFlight:
  "try_expand x p ns s e = (e', out) \<Longrightarrow> length (inFlightNodes e') \<le> Suc (length (inFlightNodes e))"
proof (induction x p ns s e rule: try_expand.induct)
  case (2 x p n ns s e)
  obtain newName gpus where pr: "prepareNewNodesForScheduleAttempt x
      (case map_of (node_gpus s) (kn_Name n) of None \<Rightarrow> [] | Some m \<Rightarrow> m) = (newName, gpus)" by fastforce
  obtain e1 r where cr: "createGPUNodeClaim x newName (kn_Owners n) e = (e1, r)" by fastforce
  show ?case
  proof (cases "kn_Owners n = [] \<or> \<not> checkGPUFitForNewNode x p gpus s")
    case True
    then show ?thesis using "2.prems" "2.IH"(1) "2.IH"(2) [OF _ pr [symmetric] refl] pr
      by (cases "kn_Owners n = []") simp_all
  next
    case False
    then show ?thesis
      using "2.prems" pr cr createGPUNodeClaim_inFlight [OF cr] length_update_le [of newName gpus "inFlightNodes e"]
      by (auto split: sum.splits prod.splits)
  qed
qed simp

lemma pre_allocate_all_inFlight:
  "pre_allocate_all x rs is snaps e = Inr (snaps', e') \<Longrightarrow> inFlightNodes e' = inFlightNodes e"
  by (induction x rs "is" snaps e rule: pre_allocate_all.induct) (auto split: sum.splits option.splits)

lemma checkFit_inFlight:
  assumes "checkGPUFitWithInflightNodes x p existing snaps s e = (e', v)"
  shows "inFlightNodes e' = inFlightNodes e"
  using assms pre_allocate_all_inFlight
  by (auto simp: checkGPUFitWithInflightNodes_def Let_def split: sum.splits prod.splits bool.splits if_splits)

lemma ProcessExpansion_bound:
  assumes "ProcessExpansion x p spec s e = (e', out)" "length (inFlightNodes e) \<le> MaxInFlightNodes"
  shows "length (inFlightNodes e') \<le> MaxInFlightNodes"
proof (cases "length (inFlightNodes e) < MaxInFlightNodes")
  case False
  then show ?thesis using assms by (auto simp: ProcessExpansion_def split: if_splits)
next
  case True
  have "length (inFlightNodes e') \<le> Suc (length (inFlightNodes e))"
  proof (cases "simulateSchedulingWithoutGPU x p spec")
    case None
    then show ?thesis using assms(1) by (auto simp: ProcessExpansion_def split: if_splits)
  next
    case (Some ns)
    let ?ns = "xe_shuffle x ns"
    let ?existing = "concat (map (\<lambda>n. case map_of (node_gpus s) (kn_Name n) of None \<Rightarrow> [] | Some m \<Rightarrow> map snd m) ?ns)"
    let ?snaps = "concat (map (\<lambda>n. the (map_of (inFlightNodes e) n)) (range_keys (xe_ext x) (map fst (inFlightNodes e))))"
    obtain e1 v where fit: "checkGPUFitWithInflightNodes x p ?existing ?snaps s e = (e1, v)" by fastforce
    note same = checkFit_inFlight [OF fit]
    have "e' = e \<or> e' = e1 \<or> (\<exists>req. e' = addPreSchedulePod req e1) \<or> (e', out) = try_expand x p ?ns s e1"
      using assms(1) Some fit unfolding ProcessExpansion_def Let_def
      by (cases v) (auto simp del: append_is_Nil_conv concat_eq_Nil_conv split: if_splits)
    then show ?thesis using same try_expand_inFlight [of x p ?ns s e1 e' out] by auto
  qed
  then show ?thesis using True assms(2) by auto
qed

lemma check_node_claim_le: "length (inFlightNodes (check_node_claim get key e)) \<le> length (inFlightNodes e)"
  by (auto simp: check_node_claim_def RemoveInFlightNode_def length_delete_le Let_def split: get_result.splits)

section \<open>The queue's part\<close>

definition queued_uids :: "unsched_handler \<Rightarrow> string list" where
  "queued_uids h = map (om_UID \<circ> pod_Meta) ((case uq_processing h of None \<Rightarrow> [] | Some p \<Rightarrow> [p]) @ uq_queue h)"

definition queue_inv :: "unsched_handler \<Rightarrow> bool" where
  "queue_inv h \<longleftrightarrow> distinct (queued_uids h) \<and> dom (map_of (pending h)) = set (queued_uids h) \<and> length (uq_queue h) \<le> QUEUE_SIZE"

lemma queue_inv_reject: "queue_inv h \<Longrightarrow> queue_inv (HandleRejectedPod takeDone p spec h)"
proof -
  assume inv: "queue_inv h"
  let ?uid = "om_UID (pod_Meta p)"
  show "queue_inv (HandleRejectedPod takeDone p spec h)"
  proof (cases "\<not> IsTensorFusionWorker p \<or> IsDesignatedNodePod p spec \<or> map_of (pending h) ?uid \<noteq> None")
    case True
    then show ?thesis using inv by (auto simp: HandleRejectedPod_def Let_def)
  next
    case False
    then have new: "?uid \<notin> set (queued_uids h)" using inv unfolding queue_inv_def by blast
    show ?thesis
    proof (cases "\<not> takeDone \<and> length (uq_queue h) < QUEUE_SIZE")
      case True
      let ?h = "h\<lparr>pending := AList.update ?uid p (pending h), uq_queue := uq_queue h @ [p]\<rparr>"
      have "HandleRejectedPod takeDone p spec h = ?h" using False True by (simp add: HandleRejectedPod_def Let_def)
      moreover have "queued_uids ?h = queued_uids h @ [?uid]" by (simp add: queued_uids_def)
      ultimately show ?thesis using inv new True by (auto simp: queue_inv_def AList.update_conv' dom_def)
    next
      case full: False
      have "map_of (AList.delete ?uid (AList.update ?uid p (pending h))) = map_of (pending h)"
        using False by (auto simp: AList.delete_conv' AList.update_conv')
      then show ?thesis using inv False full by (auto simp: HandleRejectedPod_def Let_def queue_inv_def queued_uids_def)
    qed
  qed
qed

lemma queue_inv_take: "queue_inv h \<Longrightarrow> queue_inv (processQueue h)"
  by (auto simp: processQueue_def queue_inv_def queued_uids_def split: option.splits list.splits)

lemma queue_inv_done:
  "queue_inv h \<Longrightarrow> uq_processing h = Some p \<Longrightarrow> queue_inv (removePendingPod p (h\<lparr>uq_processing := None\<rparr>))"
proof -
  assume inv: "queue_inv h" and p: "uq_processing h = Some p"
  let ?h = "removePendingPod p (h\<lparr>uq_processing := None\<rparr>)"
  have uids: "queued_uids h = om_UID (pod_Meta p) # queued_uids ?h"
    using p by (simp add: queued_uids_def removePendingPod_def)
  have "map_of (pending ?h) = (map_of (pending h))(om_UID (pod_Meta p) := None)"
    by (simp add: removePendingPod_def AList.delete_conv')
  then have "dom (map_of (pending ?h)) = dom (map_of (pending h)) - {om_UID (pod_Meta p)}" by simp
  then show "queue_inv ?h" using inv uids by (auto simp: queue_inv_def removePendingPod_def)
qed

definition expansion_inv :: "unsched_handler \<times> node_expander \<Rightarrow> bool" where
  "expansion_inv s \<longleftrightarrow> queue_inv (fst s) \<and> length (inFlightNodes (snd s)) \<le> MaxInFlightNodes"

lemma expansion_inv_step: "expansion_step s s' \<Longrightarrow> expansion_inv s \<Longrightarrow> expansion_inv s'"
proof (induction rule: expansion_step.induct)
  case (process x spec cancelled s h e he' out)
  show ?case
  proof (cases "uq_processing h")
    case None
    then show ?thesis using process by (auto simp: processQueuedPod_def)
  next
    case (Some p)
    then show ?thesis using process queue_inv_done ProcessExpansion_bound
      by (auto simp: processQueuedPod_def expansion_inv_def Let_def split: if_splits prod.splits)
  qed
next
  case (claim key e h get)
  then show ?case using check_node_claim_le [of get key e] by (auto simp: expansion_inv_def)
next
  case (provisioned h e node)
  then show ?case using length_delete_le [of node "inFlightNodes e"]
    by (auto simp: expansion_inv_def RemoveInFlightNode_def)
qed (auto simp: expansion_inv_def queue_inv_reject queue_inv_take expander_bind_handler_def pre_schedule_timeout_def)

section \<open>Properties\<close>

text \<open>
  C27: In every state the queue and the expander reach, at most fifteen nodes are being provisioned, the
  pods waiting or being processed have distinct UIDs, they are exactly the pods marked pending, and
  at most 256 of them wait.
\<close>

theorem expansion_invariant:
  assumes "expansion_reachable s"
  shows "length (inFlightNodes (snd s)) \<le> 15 \<and> distinct (queued_uids (fst s))
    \<and> dom (map_of (pending (fst s))) = set (queued_uids (fst s)) \<and> length (uq_queue (fst s)) \<le> 256"
proof -
  have "expansion_inv s" using assms
  proof induction
    case start
    then show ?case by (simp add: NewUnscheduledPodHandler_def NewNodeExpander_def expansion_inv_def queue_inv_def
          queued_uids_def MaxInFlightNodes_def QUEUE_SIZE_def)
  qed (rule expansion_inv_step)
  then show ?thesis by (simp add: expansion_inv_def queue_inv_def MaxInFlightNodes_def QUEUE_SIZE_def)
qed

theorem expansion_invariant_witness:
  "(let s = (HandleRejectedPod False \<lparr>pod_Meta = \<lparr>om_Name = ''w'', om_Namespace = ''ns'', om_UID = ''u'',
       om_Labels = [(LabelComponent, ComponentWorker)], om_Annotations = [], om_Deleting = False, om_Finalizers = []\<rparr>, pod_NodeName = ''''\<rparr>
       \<lparr>ps_Containers = [], ps_NodeSelector = [], ps_RequiredTerms = [], ps_SchedulerName = ''tf''\<rparr>
       (fst NewUnscheduledPodHandler), snd NewUnscheduledPodHandler)
    in queued_uids (fst s) = [''u''] \<and> length (inFlightNodes (snd s)) \<le> 15)"
proof -
  let ?h = "HandleRejectedPod False \<lparr>pod_Meta = \<lparr>om_Name = ''w'', om_Namespace = ''ns'', om_UID = ''u'',
       om_Labels = [(LabelComponent, ComponentWorker)], om_Annotations = [], om_Deleting = False, om_Finalizers = []\<rparr>, pod_NodeName = ''''\<rparr>
       \<lparr>ps_Containers = [], ps_NodeSelector = [], ps_RequiredTerms = [], ps_SchedulerName = ''tf''\<rparr>
       (fst NewUnscheduledPodHandler)"
  have "expansion_step NewUnscheduledPodHandler (?h, snd NewUnscheduledPodHandler)"
    using expansion_step.reject [of "fst NewUnscheduledPodHandler" "snd NewUnscheduledPodHandler"] by simp
  then have "expansion_reachable (?h, snd NewUnscheduledPodHandler)" by (rule expansion_reachable.step [OF expansion_reachable.start])
  moreover have "queued_uids ?h = [''u'']" by code_simp
  ultimately show ?thesis using expansion_invariant by fastforce
qed
end
