(* ===== verification/RollingUpdate.thy ===== *)
theory RollingUpdate
  imports PodUtils "HOL-Library.Char_ord" "HOL-Library.List_Lexorder"
begin

text \<open>
  Rolling updates of the pool components, \<^verbatim>\<open>internal/component\<close>: \<open>component.go\<close> with the batches, and
  the hypervisor, worker and client components. Configurations are their serialised bytes. The API
  server's answers, the clock and the time parser are arguments (record \<open>upd_env\<close>). The pool passed
  on is the object in memory, which the code changes before it sends a patch.
\<close>

section \<open>State\<close>

datatype comp = Hypervisor | Worker | Client

record pool_component_status =
  WorkerVersion :: string
  WorkerConfigSynced :: bool
  WorkerUpdateProgress :: int
  HypervisorVersion :: string
  HypervisorConfigSynced :: bool
  HyperVisorUpdateProgress :: int
  ClientVersion :: string
  ClientConfigSynced :: bool
  ClientUpdateProgress :: int

record rolling_policy =
  AutoUpdateHypervisor :: bool
  AutoUpdateWorker :: bool
  AutoUpdateClient :: bool
  BatchPercentage :: int
  BatchInterval :: string

record upd_pool =
  up_Annotations :: "(string, string) gomap"
  up_Policy :: "rolling_policy option option"  \<comment> \<open>the node manager configuration and its policy\<close>
  up_WorkerConfig :: string
  up_HypervisorConfig :: string
  up_ClientConfig :: string
  up_Status :: pool_component_status

text \<open>A GPU node, a workload or a client pod. \<open>ui_Hash\<close> is the hash in a workload's status or a pod's label.\<close>

record upd_item =
  ui_Name :: string
  ui_Created :: int
  ui_Deleting :: bool
  ui_Pending :: bool
  ui_Hash :: string
  ui_Spec :: string

record upd_env =
  ue_now :: int
  ue_parseTime :: "string \<Rightarrow> int option"
  ue_formatTime :: "int \<Rightarrow> string"
  ue_parseDuration :: "string \<Rightarrow> int option"
  ue_list :: "upd_item list option"  \<comment> \<open>the nodes, workloads or pods of the pool\<close>
  ue_hypervisorPod :: "string \<Rightarrow> string get_result"  \<comment> \<open>the hash label of a node's hypervisor pod\<close>
  ue_patchOK :: bool
  ue_statusOK :: bool
  ue_itemOK :: "string \<Rightarrow> bool"
  ue_f64_impl :: "float64 \<Rightarrow> int"

definition Domain :: string where
  "Domain = ''tensor-fusion.ai''"

definition PendingRequeueDuration :: int where
  "PendingRequeueDuration = 3000000000"

section \<open>The component interface\<close>

fun GetName :: "comp \<Rightarrow> string" where
  "GetName Hypervisor = ''hypervisor''"
| "GetName Worker = ''worker''"
| "GetName Client = ''client''"

fun comp_version :: "comp \<Rightarrow> pool_component_status \<Rightarrow> string" where
  "comp_version Hypervisor st = HypervisorVersion st"
| "comp_version Worker st = WorkerVersion st"
| "comp_version Client st = ClientVersion st"

fun comp_config :: "comp \<Rightarrow> upd_pool \<Rightarrow> string" where
  "comp_config Hypervisor p = up_HypervisorConfig p"
| "comp_config Worker p = up_WorkerConfig p"
| "comp_config Client p = up_ClientConfig p"

definition DetectConfigChange :: "comp \<Rightarrow> upd_pool \<Rightarrow> pool_component_status \<Rightarrow> bool \<times> string \<times> string" where
  "DetectConfigChange c p st =
     (let oldHash = comp_version c st; (changed, newHash) = CompareAndGetObjectHash oldHash [comp_config c p]
      in (changed, newHash, oldHash))"

fun SetConfigHash :: "comp \<Rightarrow> string \<Rightarrow> pool_component_status \<Rightarrow> pool_component_status" where
  "SetConfigHash Hypervisor h st = st\<lparr>HypervisorVersion := h\<rparr>"
| "SetConfigHash Worker h st = st\<lparr>WorkerVersion := h\<rparr>"
| "SetConfigHash Client h st = st\<lparr>ClientVersion := h\<rparr>"

definition UpdateInProgressAnnotation :: "comp \<Rightarrow> string" where
  "UpdateInProgressAnnotation c = Domain @ ''/'' @ GetName c @ ''-update-in-progress''"

definition BatchUpdateLastTimeAnnotation :: "comp \<Rightarrow> string" where
  "BatchUpdateLastTimeAnnotation c = Domain @ ''/'' @ GetName c @ ''-batch-update-last-time''"

definition GetUpdateInProgressInfo :: "comp \<Rightarrow> upd_pool \<Rightarrow> string" where
  "GetUpdateInProgressInfo c p = get_str (up_Annotations p) (UpdateInProgressAnnotation c)"

definition SetUpdateInProgressInfo :: "comp \<Rightarrow> string \<Rightarrow> upd_pool \<Rightarrow> upd_pool" where
  "SetUpdateInProgressInfo c h p = p\<lparr>up_Annotations := AList.update (UpdateInProgressAnnotation c) h (up_Annotations p)\<rparr>"

definition GetBatchUpdateLastTimeInfo :: "comp \<Rightarrow> upd_pool \<Rightarrow> string" where
  "GetBatchUpdateLastTimeInfo c p = get_str (up_Annotations p) (BatchUpdateLastTimeAnnotation c)"

definition SetBatchUpdateLastTimeInfo :: "comp \<Rightarrow> string \<Rightarrow> upd_pool \<Rightarrow> upd_pool" where
  "SetBatchUpdateLastTimeInfo c t p = p\<lparr>up_Annotations := AList.update (BatchUpdateLastTimeAnnotation c) t (up_Annotations p)\<rparr>"

fun GetUpdateProgress :: "comp \<Rightarrow> pool_component_status \<Rightarrow> int" where
  "GetUpdateProgress Hypervisor st = HyperVisorUpdateProgress st"
| "GetUpdateProgress Worker st = WorkerUpdateProgress st"
| "GetUpdateProgress Client st = ClientUpdateProgress st"

fun SetUpdateProgress :: "comp \<Rightarrow> int \<Rightarrow> pool_component_status \<Rightarrow> pool_component_status" where
  "SetUpdateProgress Hypervisor q st = st\<lparr>HyperVisorUpdateProgress := q, HypervisorConfigSynced := (q = 100)\<rparr>"
| "SetUpdateProgress Worker q st = st\<lparr>WorkerUpdateProgress := q, WorkerConfigSynced := (q = 100)\<rparr>"
| "SetUpdateProgress Client q st = st\<lparr>ClientUpdateProgress := q, ClientConfigSynced := (q = 100)\<rparr>"

fun ConfigSynced :: "comp \<Rightarrow> pool_component_status \<Rightarrow> bool" where
  "ConfigSynced Hypervisor st = HypervisorConfigSynced st"
| "ConfigSynced Worker st = WorkerConfigSynced st"
| "ConfigSynced Client st = ClientConfigSynced st"

text \<open>By creation time, then by name.\<close>

definition ByCreationTimestamp :: "upd_item list \<Rightarrow> upd_item list" where
  "ByCreationTimestamp xs = sort_key ui_Created (sort_key ui_Name xs)"

definition PodTemplateHash :: "string \<Rightarrow> string \<Rightarrow> string" where
  "PodTemplateHash workerConfig workloadSpec = GetObjectHash [workerConfig, workloadSpec]"

datatype resources_info = InfoError | Recheck | Info nat nat "upd_item list"

text \<open>
  The number of items, how many of them are up to date, and the outdated ones. An item that is still
  changing asks for a recheck. Nodes and workloads that are being deleted are left out.
\<close>

definition Hypervisor_GetResourcesInfo :: "upd_env \<Rightarrow> upd_pool \<Rightarrow> string \<Rightarrow> resources_info" where
  "Hypervisor_GetResourcesInfo e p configHash =
     (case ue_list e of
        None \<Rightarrow> InfoError
      | Some items \<Rightarrow>
          let live = filter (\<lambda>node. \<not> ui_Deleting node) items;
              nodesToUpdate = filter (\<lambda>node. case ue_hypervisorPod e (ui_Name node) of
                  Found label \<Rightarrow> label \<noteq> configHash | NotFound \<Rightarrow> True | GetFailed \<Rightarrow> '''' \<noteq> configHash) live
          in if list_ex ui_Pending live then Recheck
             else Info (length live) (length live - length nodesToUpdate) (ByCreationTimestamp nodesToUpdate))"

definition Worker_GetResourcesInfo :: "upd_env \<Rightarrow> upd_pool \<Rightarrow> string \<Rightarrow> resources_info" where
  "Worker_GetResourcesInfo e p configHash =
     (case ue_list e of
        None \<Rightarrow> InfoError
      | Some items \<Rightarrow>
          let live = filter (\<lambda>workload. \<not> ui_Deleting workload) items;
              workloadsToUpdate = filter (\<lambda>workload. ui_Hash workload \<noteq> PodTemplateHash (up_WorkerConfig p) (ui_Spec workload)) live
          in if list_ex (\<lambda>workload. ui_Hash workload = '''') live then Recheck
             else Info (length live) (length live - length workloadsToUpdate) (ByCreationTimestamp workloadsToUpdate))"

definition Client_GetResourcesInfo :: "upd_env \<Rightarrow> upd_pool \<Rightarrow> string \<Rightarrow> resources_info" where
  "Client_GetResourcesInfo e p configHash =
     (case ue_list e of
        None \<Rightarrow> InfoError
      | Some items \<Rightarrow>
          let podsToUpdate = filter (\<lambda>pod. ui_Hash pod \<noteq> configHash) items
          in if list_ex ui_Deleting items then Recheck
             else Info (length items) (length items - length podsToUpdate) (ByCreationTimestamp podsToUpdate))"

fun GetResourcesInfo :: "upd_env \<Rightarrow> comp \<Rightarrow> upd_pool \<Rightarrow> string \<Rightarrow> resources_info" where
  "GetResourcesInfo e Hypervisor p h = Hypervisor_GetResourcesInfo e p h"
| "GetResourcesInfo e Worker p h = Worker_GetResourcesInfo e p h"
| "GetResourcesInfo e Client p h = Client_GetResourcesInfo e p h"

text \<open>
  The first \<open>n\<close> items are changed in turn, up to the first that fails: the items that were changed and
  whether all went well; \<open>None\<close> for an index out of range. The operation skips an item (\<open>None\<close>) or
  tells whether it succeeded.
\<close>

fun batch_loop :: "(upd_item \<Rightarrow> bool option) \<Rightarrow> nat \<Rightarrow> upd_item list \<Rightarrow> (string list \<times> bool) option" where
  "batch_loop f 0 xs = Some ([], True)"
| "batch_loop f (Suc n) [] = None"
| "batch_loop f (Suc n) (x # xs) =
     (case f x of
        None \<Rightarrow> batch_loop f n xs
      | Some False \<Rightarrow> Some ([], False)
      | Some True \<Rightarrow> map_option (\<lambda>(ns, ok). (ui_Name x # ns, ok)) (batch_loop f n xs))"

text \<open>The changed items, whether to recheck, and whether all went well.\<close>

definition Hypervisor_PerformBatchUpdate :: "upd_env \<Rightarrow> nat \<Rightarrow> upd_item list \<Rightarrow> (string list \<times> bool \<times> bool) option" where
  "Hypervisor_PerformBatchUpdate e delta nodesToUpdate =
     map_option (\<lambda>(ns, ok). (ns, False, ok))
       (batch_loop (\<lambda>node. if ui_Pending node then None else Some (ue_itemOK e (ui_Name node))) delta nodesToUpdate)"

definition Worker_PerformBatchUpdate :: "upd_env \<Rightarrow> nat \<Rightarrow> upd_item list \<Rightarrow> (string list \<times> bool \<times> bool) option" where
  "Worker_PerformBatchUpdate e delta workloadsToUpdate =
     map_option (\<lambda>(ns, ok). (ns, True, ok)) (batch_loop (\<lambda>workload. Some (ue_itemOK e (ui_Name workload))) delta workloadsToUpdate)"

definition Client_PerformBatchUpdate :: "upd_env \<Rightarrow> nat \<Rightarrow> upd_item list \<Rightarrow> (string list \<times> bool \<times> bool) option" where
  "Client_PerformBatchUpdate e delta podsToUpdate =
     map_option (\<lambda>(ns, ok). (ns, True, ok)) (batch_loop (\<lambda>pod. Some (ue_itemOK e (ui_Name pod))) delta podsToUpdate)"

fun PerformBatchUpdate :: "upd_env \<Rightarrow> comp \<Rightarrow> nat \<Rightarrow> upd_item list \<Rightarrow> (string list \<times> bool \<times> bool) option" where
  "PerformBatchUpdate e Hypervisor n xs = Hypervisor_PerformBatchUpdate e n xs"
| "PerformBatchUpdate e Worker n xs = Worker_PerformBatchUpdate e n xs"
| "PerformBatchUpdate e Client n xs = Client_PerformBatchUpdate e n xs"

section \<open>Batches\<close>

definition getValueFromPercent :: "(float64 \<Rightarrow> int) \<Rightarrow> int \<Rightarrow> int \<Rightarrow> int" where
  "getValueFromPercent impl percent tot =
     f64_to_int64 impl (math_Ceil (f64_div (f64_mul (f64_of_int percent) (f64_of_int tot)) (Fin 100)))"

text \<open>
  The loop; it may run forever (\<open>None\<close>) and divides by the percentage (\<open>Inl\<close> for a division by
  zero). The arithmetic is on 32 bits.
\<close>

partial_function (option) delta_loop :: "int \<Rightarrow> int \<Rightarrow> int \<Rightarrow> int \<Rightarrow> int \<Rightarrow> (unit + int \<times> int \<times> int) option" where
  "delta_loop batchSize tot updatedSize pct progress =
     (if pct = 0 then Some (Inl ())
      else let idx = go_div progress pct;
               desired = min (s32 (s32 (idx + 1) * s32 batchSize)) (s32 tot);
               delta = s32 (desired - s32 updatedSize)
           in if delta < 0 then delta_loop batchSize tot updatedSize pct (min (s32 (progress + pct)) 100)
              else Some (Inr (delta, progress, idx)))"

definition calculateDesiredUpdatedDelta ::
  "(float64 \<Rightarrow> int) \<Rightarrow> int \<Rightarrow> int \<Rightarrow> int \<Rightarrow> int \<Rightarrow> (unit + int \<times> int \<times> int) option" where
  "calculateDesiredUpdatedDelta impl tot updatedSize batchPercentage updateProgress =
     delta_loop (getValueFromPercent impl batchPercentage tot) tot updatedSize batchPercentage updateProgress"

definition getBatchUpdatePolicy :: "upd_env \<Rightarrow> upd_pool \<Rightarrow> int \<times> int" where
  "getBatchUpdatePolicy e p =
     (case up_Policy p of
        Some (Some pol) \<Rightarrow>
          ((case ue_parseDuration e (BatchInterval pol) of Some d \<Rightarrow> d | None \<Rightarrow> 1000000000),
           if 0 \<le> BatchPercentage pol \<and> BatchPercentage pol \<le> 100 then BatchPercentage pol else 100)
      | _ \<Rightarrow> (1000000000, 100))"

text \<open>\<open>None\<close> stands for the nil policy that is dereferenced.\<close>

definition isAutoUpdateEnable :: "comp \<Rightarrow> upd_pool \<Rightarrow> bool option" where
  "isAutoUpdateEnable c p =
     (case up_Policy p of
        None \<Rightarrow> Some False
      | Some None \<Rightarrow> None
      | Some (Some pol) \<Rightarrow>
          Some (case c of Hypervisor \<Rightarrow> AutoUpdateHypervisor pol | Worker \<Rightarrow> AutoUpdateWorker pol
                        | Client \<Rightarrow> AutoUpdateClient pol))"

section \<open>One round\<close>

datatype update_result =
    UpdatePanic
  | UpdateError
  | UpdateDone "int option"  \<comment> \<open>when to come back\<close>

definition patchComponentStatus ::
  "upd_env \<Rightarrow> upd_pool \<Rightarrow> pool_component_status \<Rightarrow> int option \<Rightarrow> upd_pool \<times> update_result" where
  "patchComponentStatus e p st requeue =
     (p\<lparr>up_Status := st\<rparr>, if ue_statusOK e then UpdateDone requeue else UpdateError)"

text \<open>The second half, from the count of the resources on; \<open>None\<close> when the loop does not end.\<close>

definition update_batch ::
  "upd_env \<Rightarrow> comp \<Rightarrow> string \<Rightarrow> pool_component_status \<Rightarrow> upd_pool \<Rightarrow> (upd_pool \<times> string list \<times> update_result) option" where
  "update_batch e c configHash newStatus p =
     (let (batchInterval, batchPercentage) = getBatchUpdatePolicy e p in
      case GetResourcesInfo e c p configHash of
        InfoError \<Rightarrow> Some (p, [], UpdateError)
      | Recheck \<Rightarrow> Some (p, [], UpdateDone (Some PendingRequeueDuration))
      | Info tot updatedSize todo \<Rightarrow>
          if tot = 0 then Some (p, [], UpdateDone None)
          else (case calculateDesiredUpdatedDelta (ue_f64_impl e) (int tot) (int updatedSize) batchPercentage
                       (GetUpdateProgress c newStatus) of
                  None \<Rightarrow> None
                | Some (Inl _) \<Rightarrow> Some (p, [], UpdatePanic)
                | Some (Inr (delta, newProgress, idx)) \<Rightarrow>
                    let st = SetUpdateProgress c newProgress newStatus in
                    if delta = 0
                    then let q = min (s32 (s32 (idx + 1) * batchPercentage)) 100;
                             st' = SetUpdateProgress c q st;
                             p' = (if q \<noteq> 100 then SetBatchUpdateLastTimeInfo c (ue_formatTime e (ue_now e)) p
                                   else SetBatchUpdateLastTimeInfo c '''' (SetUpdateInProgressInfo c '''' p));
                             requeue = (if q \<noteq> 100 then Some (max batchInterval PendingRequeueDuration) else None)
                         in if ue_patchOK e then Some (case patchComponentStatus e p' st' requeue of (p'', r) \<Rightarrow> (p'', [], r))
                            else Some (p', [], UpdateError)
                    else (case PerformBatchUpdate e c (nat delta) todo of
                            None \<Rightarrow> Some (p, [], UpdatePanic)
                          | Some (ns, _, False) \<Rightarrow> Some (p, ns, UpdateError)
                          | Some (ns, recheck, True) \<Rightarrow>
                              Some (case patchComponentStatus e p st (if recheck then Some PendingRequeueDuration else None) of
                                      (p', r) \<Rightarrow> (p', ns, r)))))"

definition ManageUpdate :: "upd_env \<Rightarrow> comp \<Rightarrow> upd_pool \<Rightarrow> (upd_pool \<times> string list \<times> update_result) option" where
  "ManageUpdate e c p =
     (case isAutoUpdateEnable c p of
        None \<Rightarrow> Some (p, [], UpdatePanic)
      | Some autoUpdateEnabled \<Rightarrow>
          (case DetectConfigChange c p (up_Status p) of (changed, configHash, oldHash) \<Rightarrow>
             if changed
             then let newStatus = SetUpdateProgress c 0 (SetConfigHash c configHash (up_Status p)) in
               if oldHash = '''' \<or> \<not> autoUpdateEnabled
               then Some (case patchComponentStatus e p newStatus None of (p', r) \<Rightarrow> (p', [], r))
               else let p1 = SetBatchUpdateLastTimeInfo c '''' (SetUpdateInProgressInfo c configHash p)
                    in if ue_patchOK e then update_batch e c configHash newStatus p1 else Some (p1, [], UpdateError)
             else if \<not> autoUpdateEnabled \<or> GetUpdateInProgressInfo c p \<noteq> configHash then Some (p, [], UpdateDone None)
             else let timeInfo = GetBatchUpdateLastTimeInfo c p in
               if timeInfo = '''' then update_batch e c configHash (up_Status p) p
               else (case ue_parseTime e timeInfo of
                       None \<Rightarrow> Some (p, [], UpdateError)
                     | Some t \<Rightarrow>
                         let nxt = t + fst (getBatchUpdatePolicy e p) in
                         if ue_now e < nxt then Some (p, [], UpdateDone (Some (nxt - ue_now e)))
                         else update_batch e c configHash (up_Status p) p)))"

end
