(* ===== verification/RollingUpdateProps.thy ===== *)
theory RollingUpdateProps
  imports RollingUpdate
begin

text \<open>
  Properties of rolling updates: the size of a batch computed in floating point is the exact ceiling,
  the loop that looks for the current batch ends whenever the counts make sense, and a component counts
  as synced only when every live item is up to date.
\<close>

section \<open>The size of a batch\<close>

text \<open>The ceiling as integer division.\<close>

definition batch_of :: "int \<Rightarrow> int \<Rightarrow> int" where
  "batch_of pct tot = (pct * tot + 99) div 100"

lemma ceiling_batch: "\<lceil>of_int n / (100 :: rat)\<rceil> = (n + 99) div 100"
proof (rule ceiling_unique)
  have "100 * ((n + 99) div 100) \<le> n + 99" "n + 99 < 100 * ((n + 99) div 100) + 100" by linarith+
  then have "100 * ((n + 99) div 100) - 100 < n" "n \<le> 100 * ((n + 99) div 100)" by linarith+
  then have "of_int (100 * ((n + 99) div 100) - 100) < (of_int n :: rat)" "of_int n \<le> (of_int (100 * ((n + 99) div 100)) :: rat)"
    by (simp_all only: of_int_less_iff of_int_le_iff)
  then show "of_int ((n + 99) div 100) - 1 < of_int n / (100 :: rat)" "of_int n / (100 :: rat) \<le> of_int ((n + 99) div 100)"
    by simp_all
qed

lemma getValueFromPercent_exact:
  assumes "0 \<le> pct" "pct \<le> 100" "0 \<le> tot" "tot < 2 ^ 30"
  shows "getValueFromPercent impl pct tot = batch_of pct tot"
proof -
  have n: "0 \<le> pct * tot" "pct * tot < 2 ^ 37"
    using assms mult_mono [of pct 100 tot "2 ^ 30 - 1"] by auto
  have f: "f64_of_int pct = Fin (of_int pct)" "f64_of_int tot = Fin (of_int tot)"
    using assms fl64_small(1) [of "of_int pct"] fl64_small(1) [of "of_int tot"] round64_int [of pct] round64_int [of tot]
    by (auto simp: f64_of_int_def)
  have small: "(of_int (pct * tot) :: rat) \<le> of_int (2 ^ 37)" "0 \<le> (of_int (pct * tot) :: rat)"
    using n by (simp_all only: of_int_le_iff of_int_0_le_iff)
  then have "fl64 (of_int (pct * tot)) = Fin (of_int (pct * tot))"
    using n fl64_small(1) [of "of_int (pct * tot)"] round64_int [of "pct * tot"] by (simp del: of_int_mult)
  then have "fl64 (of_int pct * of_int tot) = Fin (of_int (pct * tot))" by simp
  moreover have "fl64 (of_int (pct * tot) / 100) = Fin (round64 (of_int (pct * tot) / 100))"
  proof (rule fl64_small(1))
    show "\<bar>of_int (pct * tot) / 100\<bar> \<le> (2 ^ 53 :: rat)" using small by (simp del: of_int_mult)
  qed
  moreover have "\<lceil>round64 (of_int (pct * tot) / 100)\<rceil> = batch_of pct tot"
    using ceiling_round64_quotient [of "pct * tot" 100] n ceiling_batch [of "pct * tot"] by (simp add: batch_of_def)
  moreover have "0 \<le> batch_of pct tot" "batch_of pct tot < 2 ^ 37" using n by (simp_all add: batch_of_def)
  ultimately show ?thesis unfolding getValueFromPercent_def f
    by (simp add: trunc_rat_def Let_def)
qed

section \<open>The loop over the batches\<close>

lemma batch_of_bounds:
  assumes "0 \<le> pct" "pct \<le> 100" "0 \<le> tot"
  shows "0 \<le> batch_of pct tot" "batch_of pct tot \<le> tot" "pct * tot \<le> 100 * batch_of pct tot"
proof -
  have "0 \<le> pct * tot" "pct * tot \<le> 100 * tot" using assms mult_right_mono by auto
  then show "0 \<le> batch_of pct tot" "batch_of pct tot \<le> tot" "pct * tot \<le> 100 * batch_of pct tot"
    unfolding batch_of_def by linarith+
qed

text \<open>The size that batch \<open>q div pct\<close> asks for.\<close>

definition batch_target :: "int \<Rightarrow> int \<Rightarrow> int \<Rightarrow> int" where
  "batch_target pct tot q = min ((q div pct + 1) * batch_of pct tot) tot"

lemma batch_target_last:
  assumes "0 < pct" "pct \<le> 100" "0 \<le> tot" "100 \<le> (q div pct + 1) * pct"
  shows "batch_target pct tot q = tot"
proof -
  let ?k = "q div pct + 1"
  have "0 \<le> ?k" using assms(1,4) by (metis zero_le_mult_iff order_trans zero_le_numeral not_less)
  have "100 * tot \<le> ?k * pct * tot" using assms by (intro mult_right_mono) auto
  also have "\<dots> \<le> ?k * (100 * batch_of pct tot)"
    using batch_of_bounds [of pct tot] assms \<open>0 \<le> ?k\<close> by (simp add: mult.assoc mult_left_mono)
  finally show ?thesis by (simp add: batch_target_def)
qed

text \<open>Nothing wraps around for pools of fewer than \<open>2 ^ 24\<close> items.\<close>

lemma desired_exact:
  assumes "0 < pct" "pct \<le> 100" "0 \<le> B" "B < 2 ^ 24" "0 \<le> q" "q \<le> 100"
  shows "go_div q pct = q div pct" "s32 (s32 (q div pct + 1) * s32 B) = (q div pct + 1) * B" "0 \<le> (q div pct + 1) * B"
    "s32 (q + pct) = q + pct"
proof -
  have k: "0 \<le> q div pct" "q div pct \<le> 100"
    using assms zdiv_mono2 [of q 1 pct] by (auto simp: pos_imp_zdiv_nonneg_iff)
  have m: "0 \<le> (q div pct + 1) * B" "(q div pct + 1) * B \<le> 101 * 2 ^ 24"
    using k assms mult_mono [of "q div pct + 1" 101 B "2 ^ 24"] by auto
  have "0 \<le> x \<Longrightarrow> x \<le> 101 * 2 ^ 24 \<Longrightarrow> s32 x = x" for x by (simp add: s32_id)
  then have "s32 ((q div pct + 1) * B) = (q div pct + 1) * B" using m by blast
  then show "s32 (s32 (q div pct + 1) * s32 B) = (q div pct + 1) * B" using k assms by (simp add: s32_id)
  show "0 \<le> (q div pct + 1) * B" by (rule m)
  show "go_div q pct = q div pct" "s32 (q + pct) = q + pct" using assms by (simp_all add: go_div_nonneg s32_id)
qed

lemma delta_loop_step:
  assumes "0 < pct" "pct \<le> 100" "0 \<le> tot" "tot < 2 ^ 24" "0 \<le> u" "u < 2 ^ 31" "0 \<le> q" "q \<le> 100"
  shows "delta_loop (batch_of pct tot) tot u pct q =
    (if batch_target pct tot q < u then delta_loop (batch_of pct tot) tot u pct (min (q + pct) 100)
     else Some (Inr (batch_target pct tot q - u, q, q div pct)))"
proof -
  have b: "0 \<le> batch_of pct tot" "batch_of pct tot < 2 ^ 24" using batch_of_bounds [of pct tot] assms by auto
  note d = desired_exact [OF assms(1,2) b assms(7,8)]
  have "s32 tot = tot" "s32 u = u" "s32 (batch_target pct tot q - u) = batch_target pct tot q - u"
    using assms d(3) by (auto simp: batch_target_def intro!: s32_id)
  then show ?thesis using assms(1)
    by (subst delta_loop.simps) (simp add: d Let_def batch_target_def)
qed

text \<open>The progress the loop ends with has every property that one turn of the loop keeps.\<close>

lemma delta_loop_returns:
  assumes "0 < pct" "pct \<le> 100" "0 \<le> tot" "tot < 2 ^ 24" "0 \<le> u" "u \<le> tot"
    and keeps: "\<forall>q. 0 \<le> q \<and> q \<le> 100 \<and> I q \<and> batch_target pct tot q < u \<longrightarrow> I (min (q + pct) 100)"
    and "0 \<le> q" "q \<le> 100" "I q"
  shows "\<exists>q' \<in> {q..100}. I q' \<and> u \<le> batch_target pct tot q'
    \<and> delta_loop (batch_of pct tot) tot u pct q = Some (Inr (batch_target pct tot q' - u, q', q' div pct))"
  using assms(8-10)
proof (induction "nat (100 - q)" arbitrary: q rule: less_induct)
  case less
  note step = delta_loop_step [OF assms(1-5) _ less.prems(1,2)]
  show ?case
  proof (cases "batch_target pct tot q < u")
    case False
    then show ?thesis using step assms less.prems by force
  next
    case True
    have "q \<noteq> 100"
    proof
      assume "q = 100"
      have "100 \<le> (100 div pct + 1) * pct"
        using assms(1) pos_mod_bound [of pct 100] div_mult_mod_eq [of 100 pct] unfolding distrib_right by linarith
      then show False using batch_target_last [of pct tot q] True assms \<open>q = 100\<close> by simp
    qed
    moreover have "I (min (q + pct) 100)" using keeps True less.prems by blast
    ultimately have "\<exists>q' \<in> {min (q + pct) 100..100}. I q' \<and> u \<le> batch_target pct tot q'
      \<and> delta_loop (batch_of pct tot) tot u pct (min (q + pct) 100) = Some (Inr (batch_target pct tot q' - u, q', q' div pct))"
      using less.prems assms(1) by (intro less.hyps) auto
    then show ?thesis using step True assms(1-6) less.prems by (fastforce simp: min_def split: if_splits)
  qed
qed

lemma delta_loop_diverges:
  "delta_loop B tot u pct q = Some r \<Longrightarrow>
    \<not> (0 < pct \<and> pct \<le> 100 \<and> 0 \<le> B \<and> B < 2 ^ 24 \<and> 0 \<le> tot \<and> tot < u \<and> u < 2 ^ 31 \<and> 0 \<le> q \<and> q \<le> 100)"
proof (rule delta_loop.raw_induct [where P = "\<lambda>B tot u pct q r. \<not> (0 < pct \<and> pct \<le> 100 \<and> 0 \<le> B \<and> B < 2 ^ 24
    \<and> 0 \<le> tot \<and> tot < u \<and> u < 2 ^ 31 \<and> 0 \<le> q \<and> q \<le> 100)"], goal_cases)
  case (1 f B tot u pct q r)
  show ?case
  proof
    assume a: "0 < pct \<and> pct \<le> 100 \<and> 0 \<le> B \<and> B < 2 ^ 24 \<and> 0 \<le> tot \<and> tot < u \<and> u < 2 ^ 31 \<and> 0 \<le> q \<and> q \<le> 100"
    then have d: "go_div q pct = q div pct" "s32 (s32 (q div pct + 1) * s32 B) = (q div pct + 1) * B" "0 \<le> (q div pct + 1) * B"
      "s32 (q + pct) = q + pct" using desired_exact [of pct B q] by blast+
    have "s32 tot = tot" "s32 u = u" using a by (simp_all add: s32_id)
    moreover have "s32 (min ((q div pct + 1) * B) tot - u) = min ((q div pct + 1) * B) tot - u"
      using a d(3) by (intro s32_id) auto
    moreover have "min ((q div pct + 1) * B) tot - u < 0" using a by auto
    ultimately have "f B tot u pct (min (q + pct) 100) = Some r" using 1(3) a by (simp add: d Let_def)
    then show False using 1(2) a by fastforce
  qed
qed

lemma calculateDesiredUpdatedDelta_loop:
  "0 \<le> pct \<Longrightarrow> pct \<le> 100 \<Longrightarrow> 0 \<le> tot \<Longrightarrow> tot < 2 ^ 24 \<Longrightarrow>
    calculateDesiredUpdatedDelta impl tot u pct q = delta_loop (batch_of pct tot) tot u pct q"
  by (simp add: calculateDesiredUpdatedDelta_def getValueFromPercent_exact)

text \<open>C39: The search for the current batch returns exactly when the percentage is zero (a division by
  zero) or no more items are up to date than there are; then the progress only grows, to at most 100,
  and the number of items to update fills the batch of that progress, whose size is the exact ceiling of
  the percentage, without overflow.\<close>

theorem batch_search_terminates_iff:
  assumes "0 \<le> pct" "pct \<le> 100" "0 \<le> tot" "tot < 2 ^ 24" "0 \<le> u" "u < 2 ^ 31" "0 \<le> q" "q \<le> 100"
  shows "((\<exists>r. calculateDesiredUpdatedDelta impl tot u pct q = Some r) \<longleftrightarrow> pct = 0 \<or> u \<le> tot)
    \<and> (pct = 0 \<longrightarrow> calculateDesiredUpdatedDelta impl tot u pct q = Some (Inl ()))
    \<and> (0 < pct \<and> u \<le> tot \<longrightarrow> (\<exists>q' \<in> {q..100}. u \<le> batch_target pct tot q' \<and>
         calculateDesiredUpdatedDelta impl tot u pct q = Some (Inr (batch_target pct tot q' - u, q', q' div pct))))"
proof -
  note c = calculateDesiredUpdatedDelta_loop [OF assms(1-4), of impl u q]
  have z: "pct = 0 \<Longrightarrow> calculateDesiredUpdatedDelta impl tot u pct q = Some (Inl ())"
    unfolding c by (subst delta_loop.simps) simp
  have r: "\<exists>q' \<in> {q..100}. u \<le> batch_target pct tot q' \<and>
      calculateDesiredUpdatedDelta impl tot u pct q = Some (Inr (batch_target pct tot q' - u, q', q' div pct))"
    if "0 < pct" "u \<le> tot"
    using delta_loop_returns [of pct tot u "\<lambda>_. True" q] that assms unfolding c by simp
  have "\<not> (0 < pct \<and> tot < u)" if "calculateDesiredUpdatedDelta impl tot u pct q = Some x" for x
    using that delta_loop_diverges [of "batch_of pct tot" tot u pct q x] batch_of_bounds [of pct tot] assms unfolding c by auto
  then show ?thesis using z r assms(1) by fastforce
qed

theorem batch_search_terminates_iff_witness:
  "\<exists>q' \<in> {0..100}. 4 \<le> batch_target 30 10 q' \<and>
     calculateDesiredUpdatedDelta (\<lambda>_. 0) 10 4 30 0 = Some (Inr (batch_target 30 10 q' - 4, q', q' div 30))"
  using batch_search_terminates_iff [of 30 10 4 0 "\<lambda>_. 0"] by simp

section \<open>One round\<close>

text \<open>
  What the three components have in common: which items are outdated, which make the component wait and
  which are left out.
\<close>

fun outdated :: "upd_env \<Rightarrow> comp \<Rightarrow> upd_pool \<Rightarrow> string \<Rightarrow> upd_item \<Rightarrow> bool" where
  "outdated e Hypervisor p h i \<longleftrightarrow>
     (case ue_hypervisorPod e (ui_Name i) of Found l \<Rightarrow> l \<noteq> h | NotFound \<Rightarrow> True | GetFailed \<Rightarrow> '''' \<noteq> h)"
| "outdated e Worker p h i \<longleftrightarrow> ui_Hash i \<noteq> PodTemplateHash (up_WorkerConfig p) (ui_Spec i)"
| "outdated e Client p h i \<longleftrightarrow> ui_Hash i \<noteq> h"

fun unsettled :: "comp \<Rightarrow> upd_item \<Rightarrow> bool" where
  "unsettled Hypervisor i \<longleftrightarrow> ui_Pending i"
| "unsettled Worker i \<longleftrightarrow> ui_Hash i = ''''"
| "unsettled Client i \<longleftrightarrow> ui_Deleting i"

definition skipped :: "comp \<Rightarrow> upd_item \<Rightarrow> bool" where
  "skipped c i \<longleftrightarrow> c \<noteq> Client \<and> ui_Deleting i"

lemma GetResourcesInfo_uniform:
  "GetResourcesInfo e c p h =
     (case ue_list e of
        None \<Rightarrow> InfoError
      | Some items \<Rightarrow>
          let live = filter (\<lambda>i. \<not> skipped c i) items; todo = filter (outdated e c p h) live
          in if list_ex (unsettled c) live then Recheck
             else Info (length live) (length live - length todo) (ByCreationTimestamp todo))"
proof (cases c)
  case Hypervisor
  have "unsettled Hypervisor = ui_Pending" "outdated e Hypervisor p h = (\<lambda>node. case ue_hypervisorPod e (ui_Name node) of
      Found l \<Rightarrow> l \<noteq> h | NotFound \<Rightarrow> True | GetFailed \<Rightarrow> '''' \<noteq> h)" by (rule ext, simp)+
  then show ?thesis
    by (simp add: Hypervisor Hypervisor_GetResourcesInfo_def skipped_def Let_def cong: option.case_cong)
next
  case Worker
  have "unsettled Worker = (\<lambda>w. ui_Hash w = '''')"
    "outdated e Worker p h = (\<lambda>w. ui_Hash w \<noteq> PodTemplateHash (up_WorkerConfig p) (ui_Spec w))" by (rule ext, simp)+
  then show ?thesis
    by (simp add: Worker Worker_GetResourcesInfo_def skipped_def Let_def cong: option.case_cong)
next
  case Client
  have "unsettled Client = ui_Deleting" "outdated e Client p h = (\<lambda>pod. ui_Hash pod \<noteq> h)" "(\<lambda>i. \<not> skipped Client i) = (\<lambda>_. True)" by (auto simp: skipped_def)
  then show ?thesis
    by (simp add: Client Client_GetResourcesInfo_def Let_def cong: option.case_cong)
qed

lemma GetResourcesInfo_counts:
  assumes "ue_list e = Some items" "GetResourcesInfo e c p h = Info tot u todo"
  shows "u \<le> tot" "length todo = tot - u" "tot \<le> length items"
    "set todo = {i \<in> set items. \<not> skipped c i \<and> outdated e c p h i}"
proof -
  define live where "live = filter (\<lambda>i. \<not> skipped c i) items"
  have e: "tot = length live" "u = length live - length (filter (outdated e c p h) live)"
    "todo = ByCreationTimestamp (filter (outdated e c p h) live)"
    using assms by (auto simp: GetResourcesInfo_uniform Let_def live_def split: if_splits)
  then show "u \<le> tot" "tot \<le> length items" "set todo = {i \<in> set items. \<not> skipped c i \<and> outdated e c p h i}"
    by (auto simp: live_def ByCreationTimestamp_def)
  show "length todo = tot - u"
    using length_filter_le [of "outdated e c p h" live] by (simp add: e ByCreationTimestamp_def)
qed

lemma batch_loop_in_range:
  "n \<le> length xs \<Longrightarrow> \<exists>ns ok. batch_loop f n xs = Some (ns, ok) \<and> set ns \<subseteq> ui_Name ` set xs \<and> length ns \<le> n"
proof (induction f n xs rule: batch_loop.induct)
  case (3 f n x xs)
  consider "f x = None" | "f x = Some False" | "f x = Some True" by (cases "f x") auto
  then show ?case
  proof cases
    case 3
    then obtain ns ok where "batch_loop f n xs = Some (ns, ok)" "set ns \<subseteq> ui_Name ` set xs" "length ns \<le> n"
      using \<open>Suc n \<le> length (x # xs)\<close> "3.IH"(2) [of True] by auto
    then show ?thesis using 3 by auto
  qed (use 3 in fastforce)+
qed auto

lemma PerformBatchUpdate_in_range:
  assumes "n \<le> length xs"
  obtains ns recheck ok where "PerformBatchUpdate e c n xs = Some (ns, recheck, ok)" "set ns \<subseteq> ui_Name ` set xs"
proof -
  have "\<exists>f. PerformBatchUpdate e c n xs = map_option (\<lambda>(ns, ok). (ns, c \<noteq> Hypervisor, ok)) (batch_loop f n xs)"
    by (cases c) (auto simp: Hypervisor_PerformBatchUpdate_def Worker_PerformBatchUpdate_def Client_PerformBatchUpdate_def)
  then show thesis using batch_loop_in_range [OF assms] that by fastforce
qed

lemma ConfigSynced_SetUpdateProgress [simp]: "ConfigSynced c (SetUpdateProgress c q st) \<longleftrightarrow> q = 100"
  by (cases c) simp_all

lemma GetUpdateProgress_SetUpdateProgress [simp]: "GetUpdateProgress c (SetUpdateProgress c q st) = q"
  by (cases c) simp_all

text \<open>
  The progress of a component is a multiple of the percentage until it is 100, and the component counts
  as synced at 100 only.
\<close>

definition progress_aligned :: "int \<Rightarrow> comp \<Rightarrow> pool_component_status \<Rightarrow> bool" where
  "progress_aligned pct c st \<longleftrightarrow>
     (let q = GetUpdateProgress c st
      in (ConfigSynced c st \<longleftrightarrow> q = 100) \<and> (q = 100 \<or> 0 \<le> q \<and> q < 100 \<and> pct dvd q))"

lemma progress_aligned_SetUpdateProgress [simp]:
  "progress_aligned pct c (SetUpdateProgress c q st) \<longleftrightarrow> q = 100 \<or> 0 \<le> q \<and> q < 100 \<and> pct dvd q"
  by (simp add: progress_aligned_def Let_def)

lemma aligned_next:
  assumes "0 < pct" "pct \<le> 100" "0 \<le> tot" "pct dvd q" "0 \<le> q" "q < 100"
  shows "(q div pct + 1) * pct = q + pct" "100 \<le> q + pct \<Longrightarrow> batch_target pct tot q = tot"
proof -
  show e: "(q div pct + 1) * pct = q + pct" using assms(4) by (simp add: distrib_right)
  show "100 \<le> q + pct \<Longrightarrow> batch_target pct tot q = tot" using batch_target_last [of pct tot q] assms e by simp
qed

lemma aligned_search:
  assumes "0 < pct" "pct \<le> 100" "0 \<le> tot" "tot < 2 ^ 24" "0 \<le> u" "u \<le> tot"
    and q: "q = 100 \<or> 0 \<le> q \<and> q < 100 \<and> pct dvd q"
  shows "\<exists>q'. (q' = 100 \<or> 0 \<le> q' \<and> q' < 100 \<and> pct dvd q') \<and> (q < 100 \<longrightarrow> q' < 100) \<and> u \<le> batch_target pct tot q'
    \<and> calculateDesiredUpdatedDelta impl tot u pct q = Some (Inr (batch_target pct tot q' - u, q', q' div pct))"
proof -
  let ?I = "\<lambda>q'. (q' = 100 \<or> 0 \<le> q' \<and> q' < 100 \<and> pct dvd q') \<and> (q < 100 \<longrightarrow> q' < 100)"
  have k: "\<forall>q. 0 \<le> q \<and> q \<le> 100 \<and> ?I q \<and> batch_target pct tot q < u \<longrightarrow> ?I (min (q + pct) 100)"
    using aligned_next(2) [OF assms(1-3)] assms(1,6) by (fastforce simp: min_def)
  have "0 \<le> q" "q \<le> 100" using q by auto
  then show ?thesis
    using delta_loop_returns [OF assms(1-6) k, of q] q calculateDesiredUpdatedDelta_loop [of pct tot impl u q] assms(1-4)
    by fastforce
qed

text \<open>What a round that found no outdated live item may report.\<close>

definition outdated_live :: "upd_env \<Rightarrow> comp \<Rightarrow> upd_pool \<Rightarrow> string \<Rightarrow> upd_item set" where
  "outdated_live e c p h = {i. \<exists>items. ue_list e = Some items \<and> i \<in> set items \<and> \<not> skipped c i \<and> outdated e c p h i}"

lemma completed_progress:
  assumes "0 < pct" "pct \<le> 100" "q = 100 \<or> 0 \<le> q \<and> q < 100 \<and> pct dvd q"
  shows "min (s32 (s32 (q div pct + 1) * pct)) 100 = min (q + pct) 100"
proof -
  have "s32 (s32 (q div pct + 1) * s32 pct) = (q div pct + 1) * pct"
    using desired_exact(2) [of pct pct q] assms by auto
  then have "s32 (s32 (q div pct + 1) * pct) = (q div pct + 1) * pct" using assms by (simp add: s32_id)
  moreover have "100 < (100 div pct + 1) * pct"
    using assms(1) pos_mod_bound [of pct 100] div_mult_mod_eq [of 100 pct] unfolding distrib_right by linarith
  ultimately show ?thesis using assms aligned_next(1) [of pct 0 q] by auto
qed

lemma update_batch_info:
  assumes pct: "snd (getBatchUpdatePolicy e p) = pct" "0 < pct" "pct \<le> 100"
    and items: "ue_list e = Some items" "length items < 2 ^ 24"
    and info: "GetResourcesInfo e c p h = Info tot u todo" "tot \<noteq> 0"
    and aligned: "progress_aligned pct c st"
  shows "\<exists>p' ns r. update_batch e c h st p = Some (p', ns, r) \<and> r \<noteq> UpdatePanic \<and> set ns \<subseteq> ui_Name ` set todo
    \<and> (up_Status p' = up_Status p \<or> progress_aligned pct c (up_Status p')
         \<and> (ConfigSynced c (up_Status p') \<and> GetUpdateProgress c st < 100 \<longrightarrow> todo = []))"
proof -
  note n = GetResourcesInfo_counts [OF items(1) info(1)]
  obtain iv where pol: "getBatchUpdatePolicy e p = (iv, pct)" using pct(1) by (cases "getBatchUpdatePolicy e p") auto
  obtain q where q: "q = 100 \<or> 0 \<le> q \<and> q < 100 \<and> pct dvd q" "GetUpdateProgress c st < 100 \<longrightarrow> q < 100"
      "int u \<le> batch_target pct (int tot) q"
      "calculateDesiredUpdatedDelta (ue_f64_impl e) (int tot) (int u) pct (GetUpdateProgress c st)
       = Some (Inr (batch_target pct (int tot) q - int u, q, q div pct))"
    using aligned_search [of pct "int tot" "int u" "GetUpdateProgress c st" "ue_f64_impl e"] pct n items aligned
    by (auto simp: progress_aligned_def Let_def)
  let ?d = "batch_target pct (int tot) q - int u"
  show ?thesis
  proof (cases "?d = 0")
    case True
    have "batch_target pct (int tot) q = int tot" if "100 \<le> q + pct" "GetUpdateProgress c st < 100"
      using that q aligned_next(2) [of pct "int tot" q] pct by auto
    then have "100 \<le> q + pct \<Longrightarrow> GetUpdateProgress c st < 100 \<Longrightarrow> todo = []" using True n(2) by auto
    moreover have "progress_aligned pct c (SetUpdateProgress c (min (q + pct) 100) (SetUpdateProgress c q st))"
      using q(1) pct by (auto simp: min_def)
    moreover have "\<exists>p' r. update_batch e c h st p = Some (p', [], r) \<and> r \<noteq> UpdatePanic \<and> (up_Status p' = up_Status p
      \<or> up_Status p' = SetUpdateProgress c (min (q + pct) 100) (SetUpdateProgress c q st))"
      using True info by (simp add: update_batch_def Let_def pol q(4) completed_progress [OF pct(2,3) q(1)]
          patchComponentStatus_def SetBatchUpdateLastTimeInfo_def SetUpdateInProgressInfo_def)
    ultimately show ?thesis by fastforce
  next
    case False
    have "nat ?d \<le> length todo" using n(1,2) by (auto simp: batch_target_def)
    then obtain ns recheck ok where b: "PerformBatchUpdate e c (nat ?d) todo = Some (ns, recheck, ok)"
        "set ns \<subseteq> ui_Name ` set todo"
      by (rule PerformBatchUpdate_in_range)
    then show ?thesis using False pol info q
      by (cases ok) (auto simp: update_batch_def Let_def patchComponentStatus_def)
  qed
qed

lemma update_batch_sound:
  assumes "snd (getBatchUpdatePolicy e p) = pct" "0 < pct" "pct \<le> 100"
    and "\<forall>items. ue_list e = Some items \<longrightarrow> length items < 2 ^ 24" and "progress_aligned pct c st"
  shows "\<exists>p' ns r. update_batch e c h st p = Some (p', ns, r) \<and> r \<noteq> UpdatePanic \<and> set ns \<subseteq> ui_Name ` outdated_live e c p h
    \<and> (up_Status p' = up_Status p \<or> progress_aligned pct c (up_Status p')
         \<and> (ConfigSynced c (up_Status p') \<and> GetUpdateProgress c st < 100 \<longrightarrow> outdated_live e c p h = {}))"
proof (cases "GetResourcesInfo e c p h")
  case (Info tot u todo)
  then obtain items where items: "ue_list e = Some items" by (auto simp: GetResourcesInfo_uniform split: option.splits)
  have "outdated_live e c p h = set todo"
    using GetResourcesInfo_counts(4) [OF items Info] items by (auto simp: outdated_live_def)
  then show ?thesis
  proof (cases "tot = 0")
    case True
    then show ?thesis using Info by (auto simp: update_batch_def split: prod.splits)
  next
    case False
    have "length items < 2 ^ 24" using assms(4) items by blast
    from update_batch_info [OF assms(1-3) items this Info False assms(5)] \<open>outdated_live e c p h = set todo\<close>
    show ?thesis by simp
  qed
qed (auto simp: update_batch_def split: prod.splits)

lemma outdated_live_annotations [simp]:
  "outdated_live e c (SetBatchUpdateLastTimeInfo c' t p) h = outdated_live e c p h"
  "outdated_live e c (SetUpdateInProgressInfo c' t p) h = outdated_live e c p h"
  by (cases c; simp add: outdated_live_def SetBatchUpdateLastTimeInfo_def SetUpdateInProgressInfo_def)+

lemma getBatchUpdatePolicy_annotations [simp]:
  "getBatchUpdatePolicy e (SetBatchUpdateLastTimeInfo c' t p) = getBatchUpdatePolicy e p"
  "getBatchUpdatePolicy e (SetUpdateInProgressInfo c' t p) = getBatchUpdatePolicy e p"
  by (simp_all add: getBatchUpdatePolicy_def SetBatchUpdateLastTimeInfo_def SetUpdateInProgressInfo_def)

lemma up_Status_annotations [simp]:
  "up_Status (SetBatchUpdateLastTimeInfo c' t p) = up_Status p"
  "up_Status (SetUpdateInProgressInfo c' t p) = up_Status p"
  by (simp_all add: SetBatchUpdateLastTimeInfo_def SetUpdateInProgressInfo_def)

lemma policy_percentage:
  assumes "up_Policy p = Some (Some pol)" "BatchPercentage pol \<noteq> 0"
  shows "0 < snd (getBatchUpdatePolicy e p)" "snd (getBatchUpdatePolicy e p) \<le> 100"
  using assms by (auto simp: getBatchUpdatePolicy_def)


text \<open>Four client pods of which two are outdated; the batches are of a quarter.\<close>

definition demo_env :: upd_env where
  "demo_env = \<lparr>ue_now = 10, ue_parseTime = (\<lambda>_. Some 0), ue_formatTime = (\<lambda>_. ''now''), ue_parseDuration = (\<lambda>_. Some 5),
     ue_list = Some (map (\<lambda>k. \<lparr>ui_Name = ''pod'' @ [char_of k], ui_Created = int k, ui_Deleting = False, ui_Pending = False,
       ui_Hash = (if k < 2 then GetObjectHash [''c2''] else ''old''), ui_Spec = ''''\<rparr>) [0..<4]),
     ue_hypervisorPod = (\<lambda>_. NotFound), ue_patchOK = True, ue_statusOK = True, ue_itemOK = (\<lambda>_. True),
     ue_f64_impl = (\<lambda>_. 0)\<rparr>"

definition demo_upd_pool :: "int \<Rightarrow> int \<Rightarrow> upd_pool" where
  "demo_upd_pool pct q = \<lparr>up_Annotations = [(UpdateInProgressAnnotation Client, GetObjectHash [''c2''])],
     up_Policy = Some (Some \<lparr>AutoUpdateHypervisor = False, AutoUpdateWorker = False, AutoUpdateClient = True,
       BatchPercentage = pct, BatchInterval = ''5s''\<rparr>),
     up_WorkerConfig = '''', up_HypervisorConfig = '''', up_ClientConfig = ''c2'',
     up_Status = \<lparr>WorkerVersion = '''', WorkerConfigSynced = False, WorkerUpdateProgress = 0, HypervisorVersion = '''',
       HypervisorConfigSynced = False, HyperVisorUpdateProgress = 0, ClientVersion = GetObjectHash [''c2''],
       ClientConfigSynced = False, ClientUpdateProgress = q\<rparr>\<rparr>"


text \<open>
  When the percentage changes during an update, the progress is no multiple of it and the search can stop
  at 100 before the last batch is done: with progress 75, percentage 40 and nine of ten items up to date,
  the component is reported as synced while one item is still outdated.
\<close>

lemma changed_percentage_syncs_early:
  "calculateDesiredUpdatedDelta impl 10 9 40 75 = Some (Inr (1, 100, 2))"
proof -
  have "batch_target 40 10 75 = 8" "batch_target 40 10 100 = 10" by (simp_all add: batch_target_def batch_of_def)
  then show ?thesis by (simp add: calculateDesiredUpdatedDelta_loop delta_loop_step)
qed

end
