(* ===== verification/PoolCapacity.thy ===== *)
theory PoolCapacity
  imports AllocatorOps RollingUpdate
begin

text \<open>
  GPU pools, their nodes and the state the pool controllers share
  (\<^verbatim>\<open>controller/gpupool_controller.go\<close>), and the compaction of idle nodes
  (\<^verbatim>\<open>controller/gpupool_compaction_controller.go\<close>). Times are nanoseconds. The answers of the API
  server and the clock are the record \<open>compaction_env\<close>.
\<close>

section \<open>Pools and nodes\<close>

record resource_unit =
  ru_TFlops :: quantity
  ru_VRAM :: quantity

record capacity_config =
  MinResources :: "resource_unit option"
  MaxResources :: "resource_unit option"
  WarmResources :: "resource_unit option"

record requirement =
  req_Key :: string
  req_Operator :: string
  req_Values :: "string list"

record group_kind_name =
  gkn_Group :: string
  gkn_Kind :: string
  gkn_Version :: string
  gkn_Name :: string

record node_provisioner =
  NodeClass :: string
  KarpenterNodeClassRef :: "group_kind_name option"
  GPURequirements :: "requirement list"

record node_manager_config =
  ProvisioningMode :: string
  NodeProvisioner :: "node_provisioner option"
  NodeSelector :: "string option"  \<comment> \<open>serialised\<close>
  NodeCompactionPeriod :: "string option"

definition ProvisioningModeProvisioned :: string where
  "ProvisioningModeProvisioned = ''Provisioned''"

definition ProvisioningModeAutoSelect :: string where
  "ProvisioningModeAutoSelect = ''AutoSelect''"

definition ProvisioningModeKarpenter :: string where
  "ProvisioningModeKarpenter = ''Karpenter''"

record pool_status =
  ps_Phase :: string
  ps_TotalNodes :: int
  ps_TotalGPUs :: int
  ps_ReadyNodes :: int
  ps_NotReadyNodes :: int
  ps_TotalTFlops :: quantity
  ps_TotalVRAM :: quantity
  ps_VirtualTFlops :: quantity
  ps_VirtualVRAM :: quantity
  ps_AvailableTFlops :: quantity
  ps_AvailableVRAM :: quantity
  ps_VirtualAvailableTFlops :: "quantity option"
  ps_VirtualAvailableVRAM :: "quantity option"
  ps_RunningAppsCnt :: int
  ps_ProvisioningPhase :: string

record gpu_pool =
  gp_Name :: string
  gp_Labels :: "(string, string) gomap"
  gp_Annotations :: "(string, string) gomap"
  gp_Deleting :: bool
  CapacityConfig :: "capacity_config option"
  NodeManagerConfig :: "node_manager_config option"
  gp_Status :: pool_status

record gpu_node_obj =
  no_Name :: string
  no_Labels :: "(string, string) gomap"
  no_Created :: int
  no_TotalGPUs :: int
  no_Status :: node_status

text \<open>The package variables of the controllers and the nodes the compaction has marked.\<close>

record pool_globals =
  ProvisioningToggle :: bool
  PendingGPUNodeClaim :: "(string, (string, resource) gomap) gomap"
  PendingDeletionGPUNodes :: "(string, string list) gomap"
  markDeletionNodes :: "string list"
  jobStarted :: "(string, int) gomap"
  provisioningInitializationMinTime :: "(string, int) gomap"
  poolSelectorChangeMap :: "(string, string) gomap"

definition pending_claims :: "pool_globals \<Rightarrow> string \<Rightarrow> (string, resource) gomap" where
  "pending_claims g pool = (case map_of (PendingGPUNodeClaim g) pool of None \<Rightarrow> [] | Some m \<Rightarrow> m)"

definition pending_deletions :: "pool_globals \<Rightarrow> string \<Rightarrow> string list" where
  "pending_deletions g pool = (case map_of (PendingDeletionGPUNodes g) pool of None \<Rightarrow> [] | Some ns \<Rightarrow> ns)"

definition defaultCompactionDuration :: int where
  "defaultCompactionDuration = 60000000000"

definition newNodeProtectionDuration :: int where
  "newNodeProtectionDuration = 300000000000"

definition manualCompactionReconcileMaxDelay :: int where
  "manualCompactionReconcileMaxDelay = 3000000000"

definition SchedulingDoNotDisruptLabel :: string where
  "SchedulingDoNotDisruptLabel = ''tensor-fusion.ai/do-not-disrupt''"

definition ProvisionerLabelKey :: string where
  "ProvisionerLabelKey = ''tensor-fusion.ai/node-provisioner''"

definition TensorFusionPoolManualCompaction :: string where
  "TensorFusionPoolManualCompaction = ''tensor-fusion.ai/manual-compaction''"

section \<open>Compaction\<close>

text \<open>How the write of the last-sync annotation ends: a pool without annotations is a nil map.\<close>

datatype refresh_outcome = Refreshed | PoolGone | RefreshFailed | NilAnnotations

record compaction_env =
  ce_ext :: ext
  ce_now :: int
  ce_gpuDeleting :: "string \<Rightarrow> bool"
  ce_getPool :: "string \<Rightarrow> gpu_pool get_result"
  ce_listNodes :: "gpu_node_obj list option"
  ce_getClaim :: "string \<Rightarrow> bool get_result"  \<comment> \<open>whether the claim is being deleted\<close>
  ce_patchNodeOK :: "string \<Rightarrow> bool"
  ce_refresh :: refresh_outcome
  ce_parseDuration :: "string \<Rightarrow> int option"
  ce_parseTime :: "string \<Rightarrow> int option"

definition GetAllocationInfo ::
  "allocator \<Rightarrow> gpu list \<times> (string, name_namespace list) gomap \<times> (string, alloc_request) gomap" where
  "GetAllocationInfo s = (map (\<lambda>(_, a). gpu_at s a) (gpuStore s), nodeWorkerStore s, uniqueAllocation s)"

record pool_sums =
  poolAvailableTFlops :: int
  poolAvailableVRAM :: int
  poolTotalTFlops :: int
  poolTotalVRAM :: int

definition compaction_counts :: "compaction_env \<Rightarrow> string \<Rightarrow> gpu \<Rightarrow> bool" where
  "compaction_counts e pool g \<longleftrightarrow>
     \<not> (ce_gpuDeleting e (gpu_Name g) \<or> get_str (gpu_Labels g) GpuPoolKey \<noteq> pool
        \<or> gpu_UsedBy g \<noteq> UsedByTensorFusion \<or> gpu_NodeSelector g = [])"

text \<open>\<open>None\<close> for a GPU without status resources, which is dereferenced.\<close>

fun compaction_sums :: "compaction_env \<Rightarrow> string \<Rightarrow> string list \<Rightarrow> gpu list \<Rightarrow> pool_sums \<Rightarrow> pool_sums option" where
  "compaction_sums e pool marks [] s = Some s"
| "compaction_sums e pool marks (g # gs) s =
     (if \<not> compaction_counts e pool g \<or> gpu_node g \<in> set marks then compaction_sums e pool marks gs s
      else case (gpu_Available g, gpu_Capacity g) of
             (Some av, Some cap) \<Rightarrow>
               let val = x_val (ce_ext e) in
               compaction_sums e pool marks gs
                 \<lparr>poolAvailableTFlops = s64 (poolAvailableTFlops s + val (Tflops av)),
                  poolAvailableVRAM = s64 (poolAvailableVRAM s + val (Vram av)),
                  poolTotalTFlops = s64 (poolTotalTFlops s + val (Tflops cap)),
                  poolTotalVRAM = s64 (poolTotalVRAM s + val (Vram cap))\<rparr>
           | _ \<Rightarrow> None)"

text \<open>A node that may be removed as far as the node itself is concerned.\<close>

definition compactable :: "compaction_env \<Rightarrow> (string, name_namespace list) gomap \<Rightarrow> gpu_node_obj \<Rightarrow> bool" where
  "compactable e nodeToWorker n \<longleftrightarrow>
     get_str (no_Labels n) SchedulingDoNotDisruptLabel \<noteq> TrueStringValue
     \<and> (case map_of nodeToWorker (no_Name n) of None \<Rightarrow> True | Some ws \<Rightarrow> ws = [])
     \<and> ns_Phase (no_Status n) = TensorFusionGPUPhaseRunning
     \<and> \<not> ce_now e - newNodeProtectionDuration < no_Created n
     \<and> \<not> (x_val (ce_ext e) (ns_TotalTFlops (no_Status n)) \<le> 0 \<or> x_val (ce_ext e) (ns_TotalVRAM (no_Status n)) \<le> 0)"

definition less_node :: "compaction_env \<Rightarrow> gpu_node_obj \<Rightarrow> pool_sums \<Rightarrow> pool_sums" where
  "less_node e n s =
     (let t = x_val (ce_ext e) (ns_TotalTFlops (no_Status n)); v = x_val (ce_ext e) (ns_TotalVRAM (no_Status n))
      in \<lparr>poolAvailableTFlops = s64 (poolAvailableTFlops s - t), poolAvailableVRAM = s64 (poolAvailableVRAM s - v),
          poolTotalTFlops = s64 (poolTotalTFlops s - t), poolTotalVRAM = s64 (poolTotalVRAM s - v)\<rparr>)"

text \<open>Whether what is left meets the warm-up and the minimum capacity.\<close>

definition match_constraints :: "ext \<Rightarrow> resource_unit \<Rightarrow> resource_unit \<Rightarrow> pool_sums \<Rightarrow> bool" where
  "match_constraints x warm lo s \<longleftrightarrow>
     (x_val x (ru_TFlops warm) \<le> poolAvailableTFlops s \<and> x_val x (ru_VRAM warm) \<le> poolAvailableVRAM s)
     \<and> (x_val x (ru_TFlops lo) \<le> poolTotalTFlops s \<and> x_val x (ru_VRAM lo) \<le> poolTotalVRAM s)"

text \<open>
  The loop over the nodes: the sums, the marked nodes, and the claims to delete. \<open>None\<close> when the node
  manager configuration is nil and dereferenced.
\<close>

fun compact_nodes ::
  "compaction_env \<Rightarrow> node_manager_config option \<Rightarrow> (string, name_namespace list) gomap \<Rightarrow> resource_unit \<Rightarrow> resource_unit
   \<Rightarrow> gpu_node_obj list \<Rightarrow> pool_sums \<Rightarrow> string list \<Rightarrow> string list \<Rightarrow> (pool_sums \<times> string list \<times> string list) option" where
  "compact_nodes e cfg ws warm lo [] s marks dels = Some (s, marks, dels)"
| "compact_nodes e cfg ws warm lo (n # ns) s marks dels =
     (if \<not> (compactable e ws n \<and> match_constraints (ce_ext e) warm lo (less_node e n s))
      then compact_nodes e cfg ws warm lo ns s marks dels
      else case cfg of
             None \<Rightarrow> None
           | Some c \<Rightarrow>
               if ProvisioningMode c \<noteq> ProvisioningModeAutoSelect
               then let claim = get_str (no_Labels n) ProvisionerLabelKey in
                    if claim = '''' \<or> ce_getClaim e claim \<noteq> Found False
                    then compact_nodes e cfg ws warm lo ns s marks dels
                    else compact_nodes e cfg ws warm lo ns (less_node e n s) (List.insert (no_Name n) marks) (dels @ [claim])
               else if \<not> ce_patchNodeOK e (no_Name n) then compact_nodes e cfg ws warm lo ns s marks dels
                    else compact_nodes e cfg ws warm lo ns (less_node e n s) (List.insert (no_Name n) marks) dels)"

datatype compaction_result = CompactionPanic | CompactionError | CompactionDone

definition checkNodeCompaction ::
  "compaction_env \<Rightarrow> allocator \<Rightarrow> gpu_pool \<Rightarrow> pool_globals \<Rightarrow> pool_globals \<times> compaction_result" where
  "checkNodeCompaction e al pool g =
     (case ce_listNodes e of
        None \<Rightarrow> (g, CompactionError)
      | Some allNodes \<Rightarrow>
          (case GetAllocationInfo al of (gpus, nodeToWorker, _) \<Rightarrow>
            (case compaction_sums e (gp_Name pool) (markDeletionNodes g) gpus
                    \<lparr>poolAvailableTFlops = 0, poolAvailableVRAM = 0, poolTotalTFlops = 0, poolTotalVRAM = 0\<rparr> of
               None \<Rightarrow> (g, CompactionPanic)
             | Some sm \<Rightarrow>
                 (case (map_option WarmResources (CapacityConfig pool), map_option MinResources (CapacityConfig pool)) of
                    (Some (Some warm), Some (Some lo)) \<Rightarrow>
                      (case compact_nodes e (NodeManagerConfig pool) nodeToWorker warm lo allNodes sm (markDeletionNodes g) [] of
                         None \<Rightarrow> (g, CompactionPanic)
                       | Some (_, marks, dels) \<Rightarrow>
                           let g' = g\<lparr>markDeletionNodes := marks\<rparr>;
                               pend = (\<lambda>ns. g'\<lparr>PendingDeletionGPUNodes := AList.update (gp_Name pool) ns (PendingDeletionGPUNodes g')\<rparr>)
                           in if dels = [] then (g', CompactionDone)
                              else (case ce_refresh e of
                                      RefreshFailed \<Rightarrow> (pend [], CompactionError)
                                    | NilAnnotations \<Rightarrow> (pend dels, CompactionPanic)
                                    | _ \<Rightarrow> (pend dels, CompactionDone)))
                  | _ \<Rightarrow> (g, CompactionPanic)))))"

definition getCompactionDuration :: "compaction_env \<Rightarrow> node_manager_config option \<Rightarrow> int" where
  "getCompactionDuration e config =
     (case Option.bind config NodeCompactionPeriod of
        None \<Rightarrow> defaultCompactionDuration
      | Some period \<Rightarrow>
          if period = '''' then defaultCompactionDuration
          else case ce_parseDuration e period of Some d \<Rightarrow> d | None \<Rightarrow> defaultCompactionDuration)"

datatype compaction_reconcile =
    CompactionRequeue int
  | CompactionStop
  | CompactionFailed
  | CompactionPanicked

text \<open>Whether a compaction is due: the period is over, or a manual one was asked for a moment ago.\<close>

definition compaction_due :: "compaction_env \<Rightarrow> gpu_pool \<Rightarrow> pool_globals \<Rightarrow> bool" where
  "compaction_due e pool g \<longleftrightarrow>
     (case map_of (jobStarted g) (gp_Name pool) of
        None \<Rightarrow> True
      | Some lastCompactionTime \<Rightarrow>
          if ce_now e < lastCompactionTime + getCompactionDuration e (NodeManagerConfig pool)
          then (case map_of (gp_Annotations pool) TensorFusionPoolManualCompaction of
                  None \<Rightarrow> False
                | Some v \<Rightarrow> (case ce_parseTime e v of
                               None \<Rightarrow> False
                             | Some t \<Rightarrow> ce_now e - manualCompactionReconcileMaxDelay < t))
          else True)"

definition compaction_Reconcile ::
  "compaction_env \<Rightarrow> allocator \<Rightarrow> string \<Rightarrow> pool_globals \<Rightarrow> pool_globals \<times> compaction_reconcile" where
  "compaction_Reconcile e al poolName g =
     (case ce_getPool e poolName of
        NotFound \<Rightarrow> (g, CompactionStop)
      | GetFailed \<Rightarrow> (g, CompactionFailed)
      | Found pool \<Rightarrow>
          if gp_Deleting pool then (g, CompactionStop)
          else let next = getCompactionDuration e (NodeManagerConfig pool) in
            if \<not> compaction_due e pool g \<or> pending_claims g (gp_Name pool) \<noteq> [] then (g, CompactionRequeue next)
            else if pending_deletions g (gp_Name pool) \<noteq> [] then (g, CompactionRequeue next)
            else case checkNodeCompaction e al pool (g\<lparr>jobStarted := AList.update (gp_Name pool) (ce_now e) (jobStarted g)\<rparr>) of
                   (g', CompactionDone) \<Rightarrow> (g', CompactionRequeue next)
                 | (g', CompactionError) \<Rightarrow> (g', CompactionFailed)
                 | (g', CompactionPanic) \<Rightarrow> (g', CompactionPanicked))"

end
