(* ===== verification/PoolProvision.thy ===== *)
theory PoolProvision
  imports PoolCapacity
begin

text \<open>
  Provisioning of nodes for a pool: \<^verbatim>\<open>controller/gpupool_node_provision.go\<close> and the choice of the
  instance type in \<^verbatim>\<open>cloudprovider/common/utils.go\<close>. The cloud provider's instance table and prices,
  random names and zones, and the API server's answers are the records \<open>provider\<close> and
  \<open>provision_env\<close>.
\<close>

section \<open>Instance types\<close>

record instance_info =
  InstanceType :: string
  FP16TFlopsPerGPU :: float64
  VRAMGigabytesPerGPU :: int
  GPUCount :: int
  CPUArchitecture :: string
  GPUVendor :: string

record provider =
  GetGPUNodeInstanceTypeInfo :: "string \<Rightarrow> instance_info list"
  GetInstancePricing :: "string \<Rightarrow> string \<Rightarrow> string \<Rightarrow> float64 option"
  pv_randIntn :: "nat \<Rightarrow> nat"
  pv_randName :: "nat \<Rightarrow> string"

record cluster =
  cl_Name :: string
  cl_DefaultRegion :: string
  cl_ExtraParams :: "(string, string) gomap"

record node_claim_spec =
  cs_NodeName :: string
  cs_Region :: string
  cs_Zone :: string
  cs_InstanceType :: string
  cs_NodeClassRef :: group_kind_name
  cs_CapacityType :: string
  cs_TFlopsOffered :: quantity
  cs_VRAMOffered :: quantity
  cs_GPUDeviceOffered :: int
  cs_ExtraParams :: "(string, string) gomap"

definition MAX_NODES_PER_RECONCILE_LOOP :: int where
  "MAX_NODES_PER_RECONCILE_LOOP = 100"

definition NodeRequirementKeyInstanceType :: string where
  "NodeRequirementKeyInstanceType = ''node.kubernetes.io/instance-type''"

definition NodeRequirementKeyArchitecture :: string where
  "NodeRequirementKeyArchitecture = ''kubernetes.io/arch''"

definition NodeRequirementKeyGPUVendor :: string where
  "NodeRequirementKeyGPUVendor = ''tensor-fusion.ai/gpu-vendor''"

definition NodeRequirementKeyRegion :: string where
  "NodeRequirementKeyRegion = ''topology.kubernetes.io/region''"

definition NodeRequirementKeyZone :: string where
  "NodeRequirementKeyZone = ''topology.kubernetes.io/zone''"

definition NodeRequirementKeyCapacityType :: string where
  "NodeRequirementKeyCapacityType = ''karpenter.sh/capacity-type''"

definition CapacityTypeOnDemand :: string where
  "CapacityTypeOnDemand = ''OnDemand''"

definition CapacityTypeSpot :: string where
  "CapacityTypeSpot = ''Spot''"

definition NodeSelectorOpIn :: string where
  "NodeSelectorOpIn = ''In''"

fun contains :: "string list \<Rightarrow> string \<Rightarrow> bool" where
  "contains [] x = False"
| "contains (s # ss) x = (s = x \<or> contains ss x)"

definition meets_requirement :: "instance_info \<Rightarrow> requirement \<Rightarrow> bool" where
  "meets_requirement i r \<longleftrightarrow>
     (if req_Key r = NodeRequirementKeyCapacityType then True
      else if req_Key r = NodeRequirementKeyInstanceType
      then req_Operator r = NodeSelectorOpIn \<longrightarrow> contains (req_Values r) (InstanceType i)
      else if req_Key r = NodeRequirementKeyArchitecture
      then req_Operator r = NodeSelectorOpIn \<longrightarrow> contains (req_Values r) (CPUArchitecture i)
      else if req_Key r = NodeRequirementKeyGPUVendor
      then req_Operator r = NodeSelectorOpIn \<longrightarrow> contains (req_Values r) (GPUVendor i)
      else True)"

definition getEligibleInstances :: "requirement list \<Rightarrow> string \<Rightarrow> provider \<Rightarrow> instance_info list" where
  "getEligibleInstances reqs region pv = filter (\<lambda>i. list_all (meets_requirement i) reqs) (GetGPUNodeInstanceTypeInfo pv region)"

section \<open>The cheapest nodes\<close>

datatype least_cost_error = LeastCostPanic | NoEligibleTypes | NoEligibleInstances | OfferParseFailed

text \<open>The first requirement on the region, whatever its operator; \<open>None\<close> when it has no values.\<close>

fun region_override :: "requirement list \<Rightarrow> string \<Rightarrow> string option" where
  "region_override [] region = Some region"
| "region_override (r # rs) region =
     (if req_Key r = NodeRequirementKeyRegion
      then (case req_Values r of [] \<Rightarrow> None | v # _ \<Rightarrow> Some v)
      else region_override rs region)"

text \<open>The second pass over the requirements: capacity type, region and zones.\<close>

fun read_requirements :: "requirement list \<Rightarrow> string \<Rightarrow> string \<Rightarrow> string list \<Rightarrow> (string \<times> string \<times> string list) option" where
  "read_requirements [] capacityType region zones = Some (capacityType, region, zones)"
| "read_requirements (r # rs) capacityType region zones =
     (if req_Key r = NodeRequirementKeyCapacityType \<and> req_Operator r = NodeSelectorOpIn
      then read_requirements rs (if CapacityTypeSpot \<in> set (req_Values r) then CapacityTypeSpot else capacityType) region zones
      else if req_Key r = NodeRequirementKeyRegion \<and> req_Operator r = NodeSelectorOpIn
      then (case req_Values r of [] \<Rightarrow> None | v # _ \<Rightarrow> read_requirements rs capacityType v zones)
      else if req_Key r = NodeRequirementKeyZone \<and> req_Operator r = NodeSelectorOpIn
      then read_requirements rs capacityType region (req_Values r)
      else read_requirements rs capacityType region zones)"

definition tflopsPerInstance :: "instance_info \<Rightarrow> float64" where
  "tflopsPerInstance i = f64_mul (FP16TFlopsPerGPU i) (f64_of_int (GPUCount i))"

definition vramPerInstance :: "instance_info \<Rightarrow> int" where
  "vramPerInstance i = s32 (VRAMGigabytesPerGPU i * GPUCount i)"

definition numInstances :: "ext \<Rightarrow> int \<Rightarrow> int \<Rightarrow> instance_info \<Rightarrow> int" where
  "numInstances x tflopsGap vramGap i =
     (let tflopsRequired = math_Ceil (f64_div (f64_of_int tflopsGap) (tflopsPerInstance i));
          vramRequired = math_Ceil (f64_div (f64_div (f64_of_int vramGap) (f64_of_int (vramPerInstance i))) (Fin 1073741824))
      in f64_to_int64 (x_impl x) (math_Max tflopsRequired vramRequired))"

definition MaxFloat64 :: float64 where
  "MaxFloat64 = Fin (of_int ((2 ^ 53 - 1) * 2 ^ 971))"

text \<open>The number of instances and their cost, unless the instance type is passed over.\<close>

definition instance_offer :: "ext \<Rightarrow> provider \<Rightarrow> string \<Rightarrow> string \<Rightarrow> int \<Rightarrow> int \<Rightarrow> instance_info \<Rightarrow> (int \<times> float64) option" where
  "instance_offer x pv capacityType region tflopsGap vramGap i =
     (case GetInstancePricing pv (InstanceType i) capacityType region of
        None \<Rightarrow> None
      | Some costPerHour \<Rightarrow>
          if f64_le (tflopsPerInstance i) (Fin 0) \<or> vramPerInstance i \<le> 0 then None
          else let n = numInstances x tflopsGap vramGap i in Some (n, f64_mul costPerHour (f64_of_int n)))"

fun best_instance ::
  "(instance_info \<Rightarrow> (int \<times> float64) option) \<Rightarrow> instance_info list \<Rightarrow> (instance_info \<times> int) option \<Rightarrow> float64 \<Rightarrow> (instance_info \<times> int) option" where
  "best_instance offer [] best minCost = best"
| "best_instance offer (i # is) best minCost =
     (case offer i of
        None \<Rightarrow> best_instance offer is best minCost
      | Some (n, totalCost) \<Rightarrow>
          if f64_less totalCost minCost then best_instance offer is (Some (i, n)) totalCost
          else best_instance offer is best minCost)"

definition CalculateLeastCostGPUNodes ::
  "ext \<Rightarrow> provider \<Rightarrow> cluster \<Rightarrow> string \<Rightarrow> requirement list \<Rightarrow> group_kind_name \<Rightarrow> int \<Rightarrow> int \<Rightarrow> least_cost_error + node_claim_spec list" where
  "CalculateLeastCostGPUNodes x pv cl poolName reqs nodeClassRef tflopsGap vramGap =
     (if tflopsGap \<le> 0 \<and> vramGap \<le> 0 then Inr []
      else case region_override reqs (cl_DefaultRegion cl) of
        None \<Rightarrow> Inl LeastCostPanic
      | Some region0 \<Rightarrow>
          let eligible = getEligibleInstances reqs region0 pv in
          if eligible = [] then Inl NoEligibleTypes
          else (case read_requirements reqs CapacityTypeOnDemand region0 [] of
                  None \<Rightarrow> Inl LeastCostPanic
                | Some (capacityType, region, zones) \<Rightarrow>
                    (case best_instance (instance_offer x pv capacityType region tflopsGap vramGap) eligible None MaxFloat64 of
                       None \<Rightarrow> Inl NoEligibleInstances
                     | Some (i, n) \<Rightarrow>
                         let num = min n MAX_NODES_PER_RECONCILE_LOOP;
                             zone = (if zones = [] then '''' else zones ! (pv_randIntn pv (length zones)));
                             tflops = x_parse x (FormatFloat6 (tflopsPerInstance i));
                             vram = x_parse x (show_int (vramPerInstance i) @ ''Gi'')
                         in if num < 0 then Inl LeastCostPanic
                            else if num = 0 then Inr []
                            else case (tflops, vram) of
                              (Some t, Some v) \<Rightarrow>
                                Inr (map (\<lambda>k. \<lparr>cs_NodeName = poolName @ ''-'' @ pv_randName pv k, cs_Region = region, cs_Zone = zone,
                                   cs_InstanceType = InstanceType i, cs_NodeClassRef = nodeClassRef, cs_CapacityType = capacityType,
                                   cs_TFlopsOffered = t, cs_VRAMOffered = v, cs_GPUDeviceOffered = GPUCount i,
                                   cs_ExtraParams = cl_ExtraParams cl\<rparr>) [0..<nat num])
                            | _ \<Rightarrow> Inl OfferParseFailed)))"

section \<open>Filling the gap of a pool\<close>

record claim_object =
  co_Name :: string
  co_Labels :: "(string, string) gomap"
  co_Annotations :: "(string, string) gomap"
  co_Spec :: node_claim_spec

record provision_env =
  pe_ext :: ext
  pe_getClaim :: "string \<Rightarrow> (quantity \<times> quantity) get_result"  \<comment> \<open>what a pending claim offers\<close>
  pe_getCluster :: "string \<Rightarrow> cluster option get_result"  \<comment> \<open>\<open>None\<close>: no computing vendor\<close>
  pe_getProvider :: "cluster \<Rightarrow> node_manager_config \<Rightarrow> provider option"
  pe_createOK :: "string \<Rightarrow> bool"

datatype provision_error =
    ProvisionPanic
  | ClaimLookupFailed
  | NoProvisionerConfig
  | NoClusterName
  | ClusterLookupFailed
  | NoComputingVendor
  | ProviderFailed
  | NoNodeClass
  | LeastCost least_cost_error
  | CreateFailed

definition LabelKeyClusterOwner :: string where
  "LabelKeyClusterOwner = Domain @ ''/cluster''"

definition LabelKeyNodeClass :: string where
  "LabelKeyNodeClass = Domain @ ''/node-class''"

definition PricingAnnotation :: string where
  "PricingAnnotation = Domain @ ''/hourly-pricing''"

definition TensorFusionPoolPhaseRunning :: string where
  "TensorFusionPoolPhaseRunning = ''Running''"

definition GPUNodeClassKind :: string where
  "GPUNodeClassKind = ''GPUNodeClass''"

definition createProvisionerAndQueryCluster :: "provision_env \<Rightarrow> gpu_pool \<Rightarrow> provision_error + provider \<times> cluster" where
  "createProvisionerAndQueryCluster e pool =
     (case NodeManagerConfig pool of
        None \<Rightarrow> Inl NoProvisionerConfig
      | Some cfg \<Rightarrow>
          if NodeProvisioner cfg = None then Inl NoProvisionerConfig
          else let clusterName = get_str (gp_Labels pool) LabelKeyOwner in
            if clusterName = '''' then Inl NoClusterName
            else (case pe_getCluster e clusterName of
                    Found (Some cl) \<Rightarrow>
                      (case pe_getProvider e cl cfg of None \<Rightarrow> Inl ProviderFailed | Some pv \<Rightarrow> Inr (pv, cl))
                  | Found None \<Rightarrow> Inl NoComputingVendor
                  | _ \<Rightarrow> Inl ClusterLookupFailed))"

text \<open>The capacity of the pending claims, in the order the map is ranged over.\<close>

fun assumed_resources :: "provision_env \<Rightarrow> string list \<Rightarrow> int \<times> int \<Rightarrow> (int \<times> int) option" where
  "assumed_resources e [] acc = Some acc"
| "assumed_resources e (c # cs) (t, v) =
     (case pe_getClaim e c of
        Found (ot, ov) \<Rightarrow> assumed_resources e cs (s64 (t + x_val (pe_ext e) ot), s64 (v + x_val (pe_ext e) ov))
      | _ \<Rightarrow> None)"

text \<open>
  Whether to scale up and by how much, given what the pending claims add: first the gap to the minimum,
  then, for a running pool, the gap of the available to the warm-up capacity; a pool at its maximum never
  grows.
\<close>

definition capacity_gap :: "ext \<Rightarrow> capacity_config \<Rightarrow> pool_status \<Rightarrow> int \<times> int \<Rightarrow> (int \<times> int) option" where
  "capacity_gap x cc st assumed =
     (let val = x_val x;
          totalTFlops = s64 (val (ps_TotalTFlops st) + fst assumed); totalVRAM = s64 (val (ps_TotalVRAM st) + snd assumed);
          warmUp = (case WarmResources cc of None \<Rightarrow> (0, 0) | Some w \<Rightarrow> (val (ru_TFlops w), val (ru_VRAM w)));
          minGap = (case MinResources cc of None \<Rightarrow> (0, 0)
                    | Some m \<Rightarrow> (s64 (val (ru_TFlops m) - totalTFlops), s64 (val (ru_VRAM m) - totalVRAM)));
          minScale = (MinResources cc \<noteq> None \<and> (0 < fst minGap \<or> 0 < snd minGap));
          warmGap = (s64 (fst warmUp - s64 (val (ps_AvailableTFlops st) + fst assumed)),
                     s64 (snd warmUp - s64 (val (ps_AvailableVRAM st) + snd assumed)));
          (gap, scale) = (if \<not> minScale \<and> ps_Phase st = TensorFusionPoolPhaseRunning
                          then (warmGap, 0 < fst warmGap \<or> 0 < snd warmGap) else (minGap, minScale));
          capped = (case MaxResources cc of None \<Rightarrow> False
                    | Some m \<Rightarrow> val (ru_TFlops m) \<le> totalTFlops \<or> val (ru_VRAM m) \<le> totalVRAM)
      in if scale \<and> \<not> capped then Some gap else None)"

definition node_class_ref :: "node_manager_config \<Rightarrow> provision_error + group_kind_name" where
  "node_class_ref cfg =
     (if ProvisioningMode cfg = ProvisioningModeProvisioned
      then (case NodeProvisioner cfg of
              None \<Rightarrow> Inl NoProvisionerConfig
            | Some np \<Rightarrow> if NodeClass np = '''' then Inl NoNodeClass
                         else Inr \<lparr>gkn_Group = Domain, gkn_Kind = GPUNodeClassKind, gkn_Version = ''v1'', gkn_Name = NodeClass np\<rparr>)
      else if ProvisioningMode cfg = ProvisioningModeKarpenter
      then (case NodeProvisioner cfg of
              None \<Rightarrow> Inl ProvisionPanic
            | Some np \<Rightarrow> (case KarpenterNodeClassRef np of None \<Rightarrow> Inl NoNodeClass | Some r \<Rightarrow> Inr r))
      else Inr \<lparr>gkn_Group = '''', gkn_Kind = '''', gkn_Version = '''', gkn_Name = ''''\<rparr>)"

text \<open>One goroutine: the claim it creates, unless the price or the creation fails.\<close>

definition create_claim ::
  "provision_env \<Rightarrow> provider \<Rightarrow> cluster \<Rightarrow> gpu_pool \<Rightarrow> group_kind_name \<Rightarrow> node_claim_spec \<Rightarrow> claim_object option" where
  "create_claim e pv cl pool ref spec =
     (case GetInstancePricing pv (cs_InstanceType spec) (cs_CapacityType spec) (cs_Region spec) of
        None \<Rightarrow> None
      | Some costPerHour \<Rightarrow>
          if pe_createOK e (cs_NodeName spec)
          then Some \<lparr>co_Name = cs_NodeName spec,
                     co_Labels = [(LabelKeyOwner, gp_Name pool), (LabelKeyClusterOwner, cl_Name cl), (LabelKeyNodeClass, gkn_Name ref),
                                  (GPUNodePoolIdentifierLabelPrefix @ gp_Name pool, TrueStringValue)],
                     co_Annotations = [(PricingAnnotation, FormatFloat6 costPerHour)], co_Spec = spec\<rparr>
          else None)"

text \<open>The claims created in the cluster, and the new nodes for the pending map or an error.\<close>

definition reconcilePoolCapacityWithProvisioner ::
  "provision_env \<Rightarrow> gpu_pool \<Rightarrow> pool_globals \<Rightarrow> claim_object list \<times> (provision_error + (string, resource) gomap)" where
  "reconcilePoolCapacityWithProvisioner e pool g =
     (if \<not> ProvisioningToggle g then ([], Inr [])
      else case assumed_resources e (range_keys (pe_ext e) (map fst (pending_claims g (gp_Name pool)))) (0, 0) of
        None \<Rightarrow> ([], Inl ClaimLookupFailed)
      | Some assumed \<Rightarrow>
          (case CapacityConfig pool of
             None \<Rightarrow> ([], Inl ProvisionPanic)
           | Some cc \<Rightarrow>
               (case capacity_gap (pe_ext e) cc (gp_Status pool) assumed of
                  None \<Rightarrow> ([], Inr [])
                | Some (tflopsGap, vramGap) \<Rightarrow>
                    (case createProvisionerAndQueryCluster e pool of
                       Inl err \<Rightarrow> ([], Inl err)
                     | Inr (pv, cl) \<Rightarrow>
                         let cfg = the (NodeManagerConfig pool); np = the (NodeProvisioner cfg) in
                         (case node_class_ref cfg of
                            Inl err \<Rightarrow> ([], Inl err)
                          | Inr ref \<Rightarrow>
                              (case CalculateLeastCostGPUNodes (pe_ext e) pv cl (gp_Name pool) (GPURequirements np) ref tflopsGap vramGap of
                                 Inl err \<Rightarrow> ([], Inl (LeastCost err))
                               | Inr specs \<Rightarrow>
                                   let made = List.map_filter (create_claim e pv cl pool ref) specs in
                                   if \<exists>s \<in> set specs. create_claim e pv cl pool ref s = None then (made, Inl CreateFailed)
                                   else (made, Inr (foldl (\<lambda>m c. AList.update (co_Name c)
                                           \<lparr>Tflops = cs_TFlopsOffered (co_Spec c), ComputePercent = 0, Vram = cs_VRAMOffered (co_Spec c)\<rparr> m)
                                         [] made))))))))"

end
