(* ===== verification/PoolController.thy ===== *)
theory PoolController
  imports PoolProvision
begin

text \<open>
  The pool controller, \<^verbatim>\<open>controller/gpupool_controller.go\<close>: the capacity and readiness of a pool, the
  claims and deletions that are pending, the node selector, the clean-up and the reconcile loop that calls
  the rolling update and the provisioner. What the API server answers is the record \<open>ctl_env\<close>; what the
  controller writes is returned.
\<close>

section \<open>Environment\<close>

record k8s_sel_node =
  sn_Name :: string
  sn_Labels :: "(string, string) gomap option"
  sn_Deleting :: bool

record claim_view =
  cv_Deleting :: bool
  cv_Phase :: string
  cv_TFlopsOffered :: quantity
  cv_VRAMOffered :: quantity

record ctl_env =
  ct_ext :: ext
  ct_now :: int
  ct_prov :: provision_env
  ct_upd :: "comp \<Rightarrow> upd_env"
  ct_getPool :: "(gpu_pool \<times> object_meta \<times> upd_pool option) get_result"  \<comment> \<open>\<open>None\<close>: no component configuration\<close>
  ct_finalizerOK :: bool
  ct_destroyingOK :: bool
  ct_ownedClaims :: "(string \<times> bool) list option"  \<comment> \<open>names, and whether they are being deleted\<close>
  ct_ownedNodes :: "gpu_node_obj list option"
  ct_statusOK :: bool
  ct_provStatusOK :: bool
  ct_k8sNodes :: "k8s_sel_node list option"
  ct_match :: "k8s_sel_node \<Rightarrow> bool option"
  ct_hashOK :: "string \<Rightarrow> bool"
  ct_nodesOfClaim :: "string \<Rightarrow> (string, string) gomap list get_result"  \<comment> \<open>the labels of the GPU nodes of a claim\<close>
  ct_getNodeClaim :: "string \<Rightarrow> claim_view get_result"
  ct_deleteOK :: "string \<Rightarrow> bool"

definition StatusCheckInterval :: int where
  "StatusCheckInterval = 6000000000"

definition GPUNodeClaimBound :: string where
  "GPUNodeClaimBound = ''Bound''"

definition TensorFusionPoolPhaseUpdating :: string where
  "TensorFusionPoolPhaseUpdating = ''Updating''"

definition TensorFusionPoolPhaseDestroying :: string where
  "TensorFusionPoolPhaseDestroying = ''Destroying''"

definition ProvisioningPhaseProvisioning :: string where
  "ProvisioningPhaseProvisioning = ''Provisioning''"

definition LabelNodeSelectorHash :: string where
  "LabelNodeSelectorHash = Domain @ ''/node-selector-hash''"

section \<open>Pending nodes\<close>

text \<open>The claims deleted, and those still to wait for, or \<open>None\<close> after an error.\<close>

fun deleting_nodes :: "ctl_env \<Rightarrow> string list \<Rightarrow> string list \<times> string list option" where
  "deleting_nodes e [] = ([], Some [])"
| "deleting_nodes e (n # ns) =
     (case ct_nodesOfClaim e n of
        NotFound \<Rightarrow> deleting_nodes e ns
      | GetFailed \<Rightarrow> ([], None)
      | Found [] \<Rightarrow> deleting_nodes e ns
      | Found (labels # _) \<Rightarrow>
          let claim = get_str labels ProvisionerLabelKey in
          if claim = '''' then deleting_nodes e ns
          else (case ct_getNodeClaim e claim of
                  Found c \<Rightarrow>
                    if cv_Deleting c then (case deleting_nodes e ns of (ds, r) \<Rightarrow> (ds, map_option ((#) n) r))
                    else if ct_deleteOK e claim then (case deleting_nodes e ns of (ds, r) \<Rightarrow> (claim # ds, map_option ((#) n) r))
                    else ([], None)
                | _ \<Rightarrow> ([], None)))"

definition reconcilePendingDeletingNodes :: "ctl_env \<Rightarrow> string \<Rightarrow> pool_globals \<Rightarrow> pool_globals \<times> string list \<times> bool" where
  "reconcilePendingDeletingNodes e pool g =
     (case deleting_nodes e (pending_deletions g pool) of
        (ds, None) \<Rightarrow> (g, ds, False)
      | (ds, Some remain) \<Rightarrow>
          (if length remain \<noteq> length (pending_deletions g pool)
           then g\<lparr>PendingDeletionGPUNodes := AList.update pool remain (PendingDeletionGPUNodes g)\<rparr> else g,
           ds, True))"

text \<open>The claims that are still pending and whether any was bound, or \<open>None\<close> when a claim cannot be read.\<close>

fun creating_nodes :: "ctl_env \<Rightarrow> string list \<Rightarrow> ((string, resource) gomap \<times> bool) option" where
  "creating_nodes e [] = Some ([], False)"
| "creating_nodes e (c # cs) =
     (case ct_getNodeClaim e c of
        Found v \<Rightarrow>
          map_option (\<lambda>(m, bound).
             if cv_Phase v = GPUNodeClaimBound then (m, True)
             else (AList.update c \<lparr>Tflops = cv_TFlopsOffered v, ComputePercent = 0, Vram = cv_VRAMOffered v\<rparr> m, bound))
           (creating_nodes e cs)
      | _ \<Rightarrow> None)"

definition reconcilePendingCreatingNodes :: "ctl_env \<Rightarrow> string \<Rightarrow> pool_globals \<Rightarrow> pool_globals \<times> bool" where
  "reconcilePendingCreatingNodes e pool g =
     (case creating_nodes e (range_keys (ct_ext e) (map fst (pending_claims g pool))) of
        None \<Rightarrow> (g, False)
      | Some (latest, bound) \<Rightarrow>
          (if bound then g\<lparr>PendingGPUNodeClaim := AList.update pool latest (PendingGPUNodeClaim g)\<rparr> else g, True))"

section \<open>Capacity and readiness\<close>

definition add_node_status :: "pool_status \<Rightarrow> gpu_node_obj \<Rightarrow> pool_status" where
  "add_node_status st n =
     (let s = no_Status n; add = (\<lambda>a b. Some (the a + (case b of None \<Rightarrow> 0 | Some q \<Rightarrow> q)))
      in st\<lparr>ps_TotalGPUs := s32 (ps_TotalGPUs st + no_TotalGPUs n),
            ps_TotalVRAM := ps_TotalVRAM st + ns_TotalVRAM s,
            ps_TotalTFlops := ps_TotalTFlops st + ns_TotalTFlops s,
            ps_ReadyNodes := (if ns_Phase s = TensorFusionGPUPhaseRunning then ps_ReadyNodes st + 1 else ps_ReadyNodes st),
            ps_VirtualVRAM := ps_VirtualVRAM st + ns_VirtualVRAM s,
            ps_VirtualTFlops := ps_VirtualTFlops st + ns_VirtualTFlops s,
            ps_AvailableVRAM := ps_AvailableVRAM st + ns_AvailableVRAM s,
            ps_AvailableTFlops := ps_AvailableTFlops st + ns_AvailableTFlops s,
            ps_RunningAppsCnt := s32 (ps_RunningAppsCnt st + ns_TotalGPUPods s),
            ps_VirtualAvailableVRAM := add (ps_VirtualAvailableVRAM st) (ns_VirtualAvailableVRAM s),
            ps_VirtualAvailableTFlops := add (ps_VirtualAvailableTFlops st) (ns_VirtualAvailableTFlops s)\<rparr>)"

definition pool_capacity :: "pool_status \<Rightarrow> gpu_node_obj list \<Rightarrow> pool_status" where
  "pool_capacity st nodes =
     (let st' = foldl add_node_status
            (st\<lparr>ps_TotalGPUs := 0, ps_TotalVRAM := 0, ps_TotalTFlops := 0, ps_ReadyNodes := 0, ps_VirtualVRAM := 0,
                ps_VirtualTFlops := 0, ps_AvailableVRAM := 0, ps_AvailableTFlops := 0, ps_RunningAppsCnt := 0,
                ps_VirtualAvailableVRAM := Some 0, ps_VirtualAvailableTFlops := Some 0\<rparr>) nodes
      in st'\<lparr>ps_TotalNodes := s32 (int (length nodes)), ps_ReadyNodes := s32 (ps_ReadyNodes st'),
             ps_NotReadyNodes := s32 (s32 (int (length nodes)) - s32 (ps_ReadyNodes st'))\<rparr>)"

definition allowScaleToZero :: "ext \<Rightarrow> gpu_pool \<Rightarrow> bool" where
  "allowScaleToZero x pool \<longleftrightarrow>
     (case Option.bind (CapacityConfig pool) MinResources of
        None \<Rightarrow> True
      | Some m \<Rightarrow> x_val x (ru_TFlops m) = 0 \<and> x_val x (ru_VRAM m) = 0)"

definition allNodesReady :: "ext \<Rightarrow> gpu_pool \<Rightarrow> gpu_node_obj list \<Rightarrow> bool" where
  "allNodesReady x pool nodes \<longleftrightarrow>
     (let readyNodes = length (filter (\<lambda>n. ns_Phase (no_Status n) = TensorFusionGPUPhaseRunning) nodes)
      in readyNodes = length nodes \<and> \<not> (readyNodes = 0 \<and> \<not> allowScaleToZero x pool))"

text \<open>\<open>None\<close> after an error; the pool is the object in memory. An unchanged status is not written.\<close>

definition reconcilePoolCurrentCapacityAndReadiness :: "ctl_env \<Rightarrow> gpu_pool \<Rightarrow> gpu_pool option" where
  "reconcilePoolCurrentCapacityAndReadiness e pool =
     (case ct_ownedNodes e of
        None \<Rightarrow> None
      | Some nodes \<Rightarrow>
          let st = (pool_capacity (gp_Status pool) nodes)\<lparr>ps_Phase :=
                (if allNodesReady (ct_ext e) pool nodes then TensorFusionPoolPhaseRunning else TensorFusionPoolPhaseUpdating)\<rparr>
          in if st = gp_Status pool \<or> ct_statusOK e then Some (pool\<lparr>gp_Status := st\<rparr>) else None)"

section \<open>Components, selector, clean-up\<close>

datatype components_result = ComponentsPanic | ComponentsError | ComponentsDone "int option"

text \<open>
  The three components in turn, each on the pool the previous one left: errors are collected and the
  shortest delay wins. \<open>None\<close> when an update does not end.
\<close>

fun manage_components ::
  "ctl_env \<Rightarrow> comp list \<Rightarrow> upd_pool \<Rightarrow> (upd_pool \<times> (comp \<times> string list) list \<times> bool \<times> bool \<times> int list) option" where
  "manage_components e [] p = Some (p, [], False, False, [])"
| "manage_components e (c # cs) p =
     (case ManageUpdate (ct_upd e c) c p of
        None \<Rightarrow> None
      | Some (p', ns, UpdatePanic) \<Rightarrow> Some (p', [(c, ns)], True, False, [])
      | Some (p', ns, r) \<Rightarrow>
          map_option (\<lambda>(p'', rest, panic, err, delays).
             (p'', (c, ns) # rest, panic, err \<or> r = UpdateError,
              (case r of UpdateDone (Some d) \<Rightarrow> d # delays | _ \<Rightarrow> delays))) (manage_components e cs p'))"

definition reconcilePoolComponents ::
  "ctl_env \<Rightarrow> upd_pool option \<Rightarrow> (upd_pool option \<times> (comp \<times> string list) list \<times> components_result) option" where
  "reconcilePoolComponents e upd =
     (case upd of
        None \<Rightarrow> Some (None, [], ComponentsError)
      | Some p \<Rightarrow>
          map_option (\<lambda>(p', touched, panic, err, delays).
             (Some p', touched,
              if panic then ComponentsPanic else if err then ComponentsError
              else ComponentsDone (if delays = [] then None else Some (Min (set delays)))))
           (manage_components e [Hypervisor, Worker, Client] p))"

text \<open>The nodes whose label is written, and whether all went well.\<close>

definition UpdateK8SNodeSelectorHash :: "ctl_env \<Rightarrow> k8s_sel_node \<Rightarrow> string \<Rightarrow> string list \<times> bool" where
  "UpdateK8SNodeSelectorHash e n hash =
     (if (case sn_Labels n of None \<Rightarrow> '''' | Some m \<Rightarrow> get_str m LabelNodeSelectorHash) = hash then ([], True)
      else if ct_hashOK e (sn_Name n) then ([sn_Name n], True) else ([], False))"

fun selector_nodes :: "ctl_env \<Rightarrow> string \<Rightarrow> k8s_sel_node list \<Rightarrow> string list \<times> bool" where
  "selector_nodes e hash [] = ([], True)"
| "selector_nodes e hash (n # ns) =
     (if sn_Labels n = None \<or> sn_Deleting n then selector_nodes e hash ns
      else case ct_match e n of
             None \<Rightarrow> ([], False)
           | Some False \<Rightarrow> selector_nodes e hash ns
           | Some True \<Rightarrow>
               (case UpdateK8SNodeSelectorHash e n hash of
                  (w, False) \<Rightarrow> (w, False)
                | (w, True) \<Rightarrow> (case selector_nodes e hash ns of (ws, ok) \<Rightarrow> (w @ ws, ok))))"

definition reconcilePoolSelectorChange :: "ctl_env \<Rightarrow> gpu_pool \<Rightarrow> pool_globals \<Rightarrow> pool_globals \<times> string list \<times> bool" where
  "reconcilePoolSelectorChange e pool g =
     (case Option.bind (NodeManagerConfig pool) NodeSelector of
        None \<Rightarrow> (g, [], True)
      | Some sel \<Rightarrow>
          let hash = GetObjectHash [sel] in
          if get_str (poolSelectorChangeMap g) (gp_Name pool) = hash then (g, [], True)
          else (case ct_k8sNodes e of
                  None \<Rightarrow> (g, [], False)
                | Some nodes \<Rightarrow>
                    (case selector_nodes e hash nodes of
                       (ws, False) \<Rightarrow> (g, ws, False)
                     | (ws, True) \<Rightarrow>
                         (g\<lparr>poolSelectorChangeMap := AList.update (gp_Name pool) hash (poolSelectorChangeMap g)\<rparr>, ws, True))))"

text \<open>The claims deleted, up to the first that cannot be.\<close>

fun delete_claims :: "ctl_env \<Rightarrow> (string \<times> bool) list \<Rightarrow> string list \<times> bool" where
  "delete_claims e [] = ([], True)"
| "delete_claims e ((c, deleting) # cs) =
     (if deleting then delete_claims e cs
      else if ct_deleteOK e c then (case delete_claims e cs of (ds, ok) \<Rightarrow> (c # ds, ok)) else ([], False))"

definition cleanUpPool :: "ctl_env \<Rightarrow> gpu_pool \<Rightarrow> string list \<times> bool option" where
  "cleanUpPool e pool =
     (if ps_Phase (gp_Status pool) \<noteq> TensorFusionPoolPhaseDestroying \<and> \<not> ct_destroyingOK e then ([], None)
      else case ct_ownedClaims e of
             None \<Rightarrow> ([], None)
           | Some claims \<Rightarrow>
               (case delete_claims e claims of
                  (ds, False) \<Rightarrow> (ds, None)
                | (ds, True) \<Rightarrow> (ds, map_option (\<lambda>nodes. nodes = []) (ct_ownedNodes e))))"

section \<open>Reconcile\<close>

record pool_effects =
  fx_created :: "claim_object list"
  fx_deleted :: "string list"
  fx_hashed :: "string list"
  fx_touched :: "(comp \<times> string list) list"

datatype pool_outcome = PoolStop | PoolRequeue int | PoolError | PoolPanic

definition no_effects :: pool_effects where
  "no_effects = \<lparr>fx_created = [], fx_deleted = [], fx_hashed = [], fx_touched = []\<rparr>"

text \<open>The last part, for the provisioning modes.\<close>

definition reconcile_provisioning ::
  "ctl_env \<Rightarrow> gpu_pool \<Rightarrow> pool_globals \<Rightarrow> pool_effects \<Rightarrow> pool_globals \<times> pool_effects \<times> pool_outcome" where
  "reconcile_provisioning e pool g fx =
     (let name = gp_Name pool in
      if ct_now e < the (map_of (provisioningInitializationMinTime g) name) then (g, fx, PoolRequeue StatusCheckInterval)
      else case reconcilePoolCapacityWithProvisioner (ct_prov e) pool g of
        (made, Inl err) \<Rightarrow> (g, fx\<lparr>fx_created := made\<rparr>, if err = ProvisionPanic \<or> err = LeastCost LeastCostPanic then PoolPanic else PoolError)
      | (made, Inr new) \<Rightarrow>
          if new \<noteq> []
          then (g\<lparr>PendingGPUNodeClaim := AList.update name (foldl (\<lambda>m (c, r). AList.update c r m) (pending_claims g name) new)
                    (PendingGPUNodeClaim g)\<rparr>,
                fx\<lparr>fx_created := made\<rparr>,
                if ct_provStatusOK e then PoolRequeue StatusCheckInterval else PoolError)
          else let (g1, ds, ok1) = (if pending_deletions g name \<noteq> [] then reconcilePendingDeletingNodes e name g else (g, [], True));
                   fx' = fx\<lparr>fx_created := made, fx_deleted := fx_deleted fx @ ds\<rparr>
               in if \<not> ok1 then (g1, fx', PoolError)
                  else let (g2, ok2) = (if pending_claims g1 name \<noteq> [] then reconcilePendingCreatingNodes e name g1 else (g1, True))
                       in (g2, fx', if ok2 then PoolStop else PoolError))"

text \<open>From the components on.\<close>

definition reconcile_components ::
  "ctl_env \<Rightarrow> gpu_pool \<Rightarrow> upd_pool option \<Rightarrow> pool_globals \<Rightarrow> pool_effects \<Rightarrow> (pool_globals \<times> pool_effects \<times> pool_outcome) option" where
  "reconcile_components e pool upd g fx =
     (case reconcilePoolComponents e upd of
        None \<Rightarrow> None
      | Some (_, touched, r) \<Rightarrow>
          let fx' = fx\<lparr>fx_touched := touched\<rparr> in
          (case r of
             ComponentsPanic \<Rightarrow> Some (g, fx', PoolPanic)
           | ComponentsError \<Rightarrow> Some (g, fx', PoolError)
           | ComponentsDone (Some d) \<Rightarrow> Some (g, fx', PoolRequeue d)
           | ComponentsDone None \<Rightarrow>
               (case NodeManagerConfig pool of
                  None \<Rightarrow> Some (g, fx', PoolPanic)
                | Some cfg \<Rightarrow>
                    if ProvisioningMode cfg = ProvisioningModeProvisioned \<or> ProvisioningMode cfg = ProvisioningModeKarpenter
                    then Some (reconcile_provisioning e pool g fx') else Some (g, fx', PoolStop))))"

text \<open>From the node selector on, for a pool that is not being deleted.\<close>

definition reconcile_pool ::
  "ctl_env \<Rightarrow> gpu_pool \<Rightarrow> upd_pool option \<Rightarrow> pool_globals \<Rightarrow> pool_effects \<Rightarrow> (pool_globals \<times> pool_effects \<times> pool_outcome) option" where
  "reconcile_pool e pool upd g fx =
     (case reconcilePoolSelectorChange e pool g of (g1, ws, ok) \<Rightarrow>
        let fx' = fx\<lparr>fx_hashed := ws\<rparr> in
        if \<not> ok then Some (g1, fx', PoolError)
        else (case reconcilePoolCurrentCapacityAndReadiness e pool of
                None \<Rightarrow> Some (g1, fx', PoolError)
              | Some pool1 \<Rightarrow>
                  reconcile_components e pool1 upd
                    (if map_of (provisioningInitializationMinTime g1) (gp_Name pool) = None
                     then g1\<lparr>provisioningInitializationMinTime := AList.update (gp_Name pool)
                            (ct_now e + StatusCheckInterval * 3) (provisioningInitializationMinTime g1)\<rparr>
                     else g1) fx'))"

definition gpupool_Reconcile :: "ctl_env \<Rightarrow> pool_globals \<Rightarrow> (pool_globals \<times> pool_effects \<times> pool_outcome) option" where
  "gpupool_Reconcile e g =
     (case ct_getPool e of
        NotFound \<Rightarrow> Some (g, no_effects, PoolStop)
      | GetFailed \<Rightarrow> Some (g, no_effects, PoolError)
      | Found (pool, meta, upd) \<Rightarrow>
          let (deleted, hook) = (if om_Deleting meta \<and> Finalizer \<in> set (om_Finalizers meta) then cleanUpPool e pool else ([], Some False));
              (meta', shouldReturn, err) = HandleFinalizer hook (ct_finalizerOK e) meta;
              fx = no_effects\<lparr>fx_deleted := deleted\<rparr>
          in if err \<noteq> None then Some (g, fx, PoolError)
             else if shouldReturn \<or> om_Deleting meta then Some (g, fx, PoolStop)
             else reconcile_pool e pool upd g fx)"

end
