(* ===== verification/LeastCost.thy ===== *)
theory LeastCost
  imports PoolProvision
begin

text \<open>
  The choice of the instance type for a gap in capacity: the cheapest eligible type, and enough instances
  of it.
\<close>

section \<open>The cheapest offer\<close>

lemma f64_less_trans_neg: "\<not> f64_less a m \<Longrightarrow> f64_less c m \<Longrightarrow> \<not> f64_less a c"
  by (cases a; cases m; cases c) auto

lemma best_instance_minimal:
  "best_instance offer is best m = Some (i, n) \<Longrightarrow>
    \<exists>c. (best = Some (i, n) \<and> c = m \<or> i \<in> set is \<and> offer i = Some (n, c) \<and> f64_less c m)
      \<and> (\<forall>j \<in> set is. \<forall>k c'. offer j = Some (k, c') \<longrightarrow> \<not> f64_less c' c)"
proof (induction "is" arbitrary: best m)
  case Nil
  then show ?case by simp
next
  case (Cons a as)
  show ?case
  proof (cases "\<exists>k c. offer a = Some (k, c) \<and> f64_less c m")
    case True
    then obtain k c where kc: "offer a = Some (k, c)" "f64_less c m" by blast
    then obtain d where d: "i = a \<and> n = k \<and> d = c \<or> i \<in> set as \<and> offer i = Some (n, d) \<and> f64_less d c"
        "\<forall>j \<in> set as. \<forall>k c'. offer j = Some (k, c') \<longrightarrow> \<not> f64_less c' d"
      using Cons.IH [of "Some (a, k)" c] Cons.prems by auto
    have "\<not> f64_less c d" using d(1) by (cases c; cases d) auto
    moreover have "f64_less d m"
      using d(1) kc(2) by (cases c; cases d; cases m) auto
    ultimately show ?thesis using d kc by (intro exI [of _ d]) auto
  next
    case False
    then have "best_instance offer (a # as) best m = best_instance offer as best m" by (auto split: option.splits)
    then obtain d where d: "best = Some (i, n) \<and> d = m \<or> i \<in> set as \<and> offer i = Some (n, d) \<and> f64_less d m"
        "\<forall>j \<in> set as. \<forall>k c'. offer j = Some (k, c') \<longrightarrow> \<not> f64_less c' d"
      using Cons.IH [of best m] Cons.prems by metis
    have "\<not> f64_less c' d" if "offer a = Some (k, c')" for k c'
      using d(1) False that f64_less_trans_neg by blast
    then show ?thesis using d by (intro exI [of _ d]) auto
  qed
qed

section \<open>Enough instances\<close>

lemma f64_div_ints:
  assumes "\<bar>g\<bar> < 2 ^ 51" "0 < v" "v < 2 ^ 53"
  shows "f64_div (f64_of_int g) (Fin (of_int v)) = Fin (round64 (of_int g / of_int v))"
    "\<bar>round64 (of_int g / of_int v)\<bar> \<le> 2 ^ 53"
proof -
  have "f64_of_int g = Fin (of_int g)"
    using assms(1) by (simp add: f64_of_int_def fl64_int)
  moreover have "\<bar>of_int g / of_int v\<bar> \<le> (2 ^ 53 :: rat)"
  proof -
    have "2 ^ 53 * 1 \<le> 2 ^ 53 * v" using assms(2) by (intro mult_left_mono) auto
    then have "\<bar>g\<bar> \<le> 2 ^ 53 * v" using assms(1) by simp
    then have "of_int \<bar>g\<bar> \<le> (of_int (2 ^ 53 * v) :: rat)" by (simp only: of_int_le_iff)
    then show ?thesis using assms(2) by (simp add: abs_divide pos_divide_le_eq)
  qed
  ultimately show "f64_div (f64_of_int g) (Fin (of_int v)) = Fin (round64 (of_int g / of_int v))"
    "\<bar>round64 (of_int g / of_int v)\<bar> \<le> 2 ^ 53"
    using assms(2) fl64_small by auto
qed

lemma ceiling_covers:
  assumes "\<bar>g\<bar> < 2 ^ 51" "0 < v" "v < 2 ^ 53"
  shows "g \<le> max 0 \<lceil>round64 (of_int g / of_int v)\<rceil> * v"
proof (cases "0 \<le> g")
  case True
  have "round64 (of_int g / of_int v) \<le> of_int \<lceil>round64 (of_int g / of_int v)\<rceil>" by simp
  then have "g \<le> \<lceil>round64 (of_int g / of_int v)\<rceil> * v"
    using round64_quotient_le_int [of g v "\<lceil>round64 (of_int g / of_int v)\<rceil>"] True assms by simp
  also have "\<dots> \<le> max 0 \<lceil>round64 (of_int g / of_int v)\<rceil> * v" using assms(2) by (intro mult_right_mono) auto
  finally show ?thesis .
next
  case False
  have "0 \<le> max 0 \<lceil>round64 (of_int g / of_int v)\<rceil> * v" using assms(2) by simp
  then show ?thesis using False by linarith
qed

lemma dyadic_above: "(of_int M :: rat) < of_int (M * 1073741824 * 2 ^ j + 1) / 2 ^ (j + 30)"
  by (simp add: power_add pos_less_divide_eq)

lemma positive_cover: "0 < g \<Longrightarrow> g \<le> max 0 a * v \<Longrightarrow> 0 < a" for g :: int
  by (cases "0 < a") auto

text \<open>The number of bytes is divided twice, by the size of an instance in GiB and by \<open>2 ^ 30\<close>.\<close>

lemma ceiling_covers_twice:
  assumes "\<bar>g\<bar> < 2 ^ 51" "0 < v" "v < 2 ^ 53"
  shows "g \<le> max 0 \<lceil>round64 (round64 (of_int g / of_int v) / 1073741824)\<rceil> * (v * 1073741824)"
proof -
  let ?y = "round64 (of_int g / of_int v)"
  let ?m = "\<lceil>round64 (?y / 1073741824)\<rceil>"
  let ?M = "max 0 ?m"
  show ?thesis
  proof (rule ccontr)
    assume "\<not> ?thesis"
    then have "?M * 1073741824 * v < g" by (simp add: mult.assoc mult.commute)
    moreover have "v < 2 ^ 62" "0 \<le> ?M * 1073741824" "g < 2 ^ 51" using assms by simp_all
    ultimately obtain j :: nat where j: "j \<le> 63" "?M * 1073741824 * 2 ^ j + 1 < 2 ^ 52"
        "of_int (?M * 1073741824 * 2 ^ j + 1) / 2 ^ j \<le> ?y"
      using round64_above_int [of v "?M * 1073741824" g] assms(2) by blast
    let ?z = "of_int (?M * 1073741824 * 2 ^ j + 1) / 2 ^ (j + 30) :: rat"
    have e: "?z = of_int (?M * 1073741824 * 2 ^ j + 1) / 2 ^ j / 1073741824" by (simp add: power_add)
    have "?z \<le> ?y / 1073741824" unfolding e by (rule divide_right_mono [OF j(3)]) simp
    then have "round64 ?z \<le> round64 (?y / 1073741824)" by (rule round64_mono)
    moreover have "round64 ?z = ?z"
    proof (rule round64_dyadic)
      have "0 \<le> ?M * 1073741824 * 2 ^ j" by simp
      then show "0 < ?M * 1073741824 * 2 ^ j + 1" by linarith
    qed (use j(1,2) in linarith)+
    ultimately have "?z \<le> round64 (?y / 1073741824)" by (rule ord_eq_le_trans [OF sym, rotated])
    also have "\<dots> \<le> of_int ?m" by (rule le_of_int_ceiling)
    also have "\<dots> \<le> of_int ?M" by (simp only: of_int_le_iff)
    finally show False using dyadic_above [of ?M j] by linarith
  qed
qed

lemma trunc_rat_int [simp]: "trunc_rat (of_int k) = k"
  by (simp add: trunc_rat_def)

lemma numInstances_covers:
  assumes t: "tflopsPerInstance i = Fin (of_int t)" "0 < t" "t < 2 ^ 53" and v: "0 < vramPerInstance i"
    and gaps: "\<bar>tgap\<bar> < 2 ^ 51" "\<bar>vgap\<bar> < 2 ^ 51" "0 < tgap \<or> 0 < vgap"
  shows "0 < numInstances x tgap vgap i" "tgap \<le> numInstances x tgap vgap i * t"
    "vgap \<le> numInstances x tgap vgap i * (vramPerInstance i * 1073741824)"
proof -
  let ?v = "vramPerInstance i"
  have v31: "?v < 2 ^ 53" using s32_range [of "VRAMGigabytesPerGPU i * GPUCount i"] by (simp add: vramPerInstance_def)
  let ?y = "round64 (of_int vgap / of_int ?v)"
  define a where "a = \<lceil>round64 (of_int tgap / of_int t)\<rceil>"
  define b where "b = \<lceil>round64 (?y / 1073741824)\<rceil>"
  note ya = f64_div_ints [OF gaps(1) t(2,3)] and yb = f64_div_ints [OF gaps(2) v v31]
  have fv: "f64_of_int ?v = Fin (of_int ?v)"
    using v v31 by (simp add: f64_of_int_def fl64_int)
  have "\<bar>?y / 1073741824\<bar> \<le> 2 ^ 53" using yb(2) by (simp add: abs_divide)
  then have zb: "f64_div (Fin ?y) (Fin 1073741824) = Fin (round64 (?y / 1073741824))" "\<bar>round64 (?y / 1073741824)\<bar> \<le> 2 ^ 53"
    using fl64_small [of "?y / 1073741824"] by auto
  have ab: "a \<le> 2 ^ 53" "b \<le> 2 ^ 53" using ya(2) zb(2) unfolding a_def b_def by (auto simp: ceiling_le_iff abs_le_iff)
  have ca: "tgap \<le> max 0 a * t" and cb: "vgap \<le> max 0 b * (?v * 1073741824)"
    using ceiling_covers [OF gaps(1) t(2,3)] ceiling_covers_twice [OF gaps(2) v v31] unfolding a_def b_def by auto
  then have "0 < tgap \<Longrightarrow> 0 < a" "0 < vgap \<Longrightarrow> 0 < b" using positive_cover by blast+
  then have pos: "0 < max a b" using gaps(3) by auto
  have c: "math_Ceil (f64_div (f64_of_int tgap) (Fin (of_int t))) = Fin (of_int a)"
    "math_Ceil (f64_div (f64_div (f64_of_int vgap) (f64_of_int ?v)) (Fin 1073741824)) = Fin (of_int b)"
    unfolding ya(1) fv yb(1) zb(1) a_def b_def by simp_all
  have "math_Max (Fin (of_int a)) (Fin (of_int b)) = Fin (of_int (max a b))" by (simp add: math_Max_def max_def)
  then have n: "numInstances x tgap vgap i = max a b"
    using pos ab by (simp add: numInstances_def t(1) c Let_def)
  show "0 < numInstances x tgap vgap i" unfolding n by (rule pos)
  have "max 0 a \<le> max a b" "max 0 b \<le> max a b" using pos by auto
  then have "max 0 a * t \<le> max a b * t" "max 0 b * (?v * 1073741824) \<le> max a b * (?v * 1073741824)"
    using t(2) v by (intro mult_right_mono; simp)+
  then show "tgap \<le> numInstances x tgap vgap i * t" "vgap \<le> numInstances x tgap vgap i * (?v * 1073741824)"
    unfolding n using ca cb by linarith+
qed

section \<open>The chosen nodes\<close>

text \<open>
  An instance type whose figures are whole numbers: the tflops of an instance are an integer and its VRAM is
  positive.
\<close>

definition whole_instance :: "instance_info \<Rightarrow> int \<Rightarrow> bool" where
  "whole_instance i t \<longleftrightarrow> tflopsPerInstance i = Fin (of_int t) \<and> 0 < t \<and> t < 2 ^ 53 \<and> 0 < vramPerInstance i"

lemma least_cost_choice:
  assumes "CalculateLeastCostGPUNodes x pv cl name reqs ref tgap vgap = Inr nodes" "0 < tgap \<or> 0 < vgap"
    and "region_override reqs (cl_DefaultRegion cl) = Some region0"
    and "read_requirements reqs CapacityTypeOnDemand region0 [] = Some (ctype, region, zones)"
  obtains i n c where "i \<in> set (getEligibleInstances reqs region0 pv)"
    "instance_offer x pv ctype region tgap vgap i = Some (n, c)" "int (length nodes) = min n 100"
    "\<forall>nd \<in> set nodes. cs_InstanceType nd = InstanceType i \<and> cs_GPUDeviceOffered nd = GPUCount i"
    "\<forall>j \<in> set (getEligibleInstances reqs region0 pv). \<forall>k c'.
       instance_offer x pv ctype region tgap vgap j = Some (k, c') \<longrightarrow> \<not> f64_less c' c"
proof -
  let ?E = "getEligibleInstances reqs region0 pv" and ?o = "instance_offer x pv ctype region tgap vgap"
  have gap: "\<not> (tgap \<le> 0 \<and> vgap \<le> 0)" and E: "?E \<noteq> []"
    using assms by (auto simp: CalculateLeastCostGPUNodes_def Let_def)
  then obtain i n where b: "best_instance ?o ?E None MaxFloat64 = Some (i, n)"
    using assms by (auto simp: CalculateLeastCostGPUNodes_def Let_def split: option.splits)
  then obtain c where c: "i \<in> set ?E" "?o i = Some (n, c)"
      "\<forall>j \<in> set ?E. \<forall>k c'. ?o j = Some (k, c') \<longrightarrow> \<not> f64_less c' c"
    using best_instance_minimal by fastforce
  have "int (length nodes) = min n 100 \<and>
      (\<forall>nd \<in> set nodes. cs_InstanceType nd = InstanceType i \<and> cs_GPUDeviceOffered nd = GPUCount i)"
    using assms gap E b
    by (auto simp: CalculateLeastCostGPUNodes_def MAX_NODES_PER_RECONCILE_LOOP_def Let_def split: if_splits option.splits)
  then show thesis using that [OF c(1,2)] c(3) by blast
qed

text \<open>C32: The nodes chosen to fill a gap in tflops and VRAM are at most 100, all of one eligible instance
  type with a price, and no other eligible type costs less in total for the gap. When the instance's tflops
  are a whole number and fewer than 100 nodes are chosen, they cover the gap: the divisions in floating
  point never round the number of nodes down too far.\<close>

theorem least_cost_nodes_cover_gap:
  assumes "CalculateLeastCostGPUNodes x pv cl name reqs ref tgap vgap = Inr nodes" "0 < tgap \<or> 0 < vgap"
    and "region_override reqs (cl_DefaultRegion cl) = Some region0"
    and "read_requirements reqs CapacityTypeOnDemand region0 [] = Some (ctype, region, zones)"
    and gaps: "\<bar>tgap\<bar> < 2 ^ 51" "\<bar>vgap\<bar> < 2 ^ 51"
  shows "length nodes \<le> 100 \<and>
    (\<exists>i n c. i \<in> set (getEligibleInstances reqs region0 pv)
      \<and> instance_offer x pv ctype region tgap vgap i = Some (n, c)
      \<and> (\<forall>nd \<in> set nodes. cs_InstanceType nd = InstanceType i \<and> cs_GPUDeviceOffered nd = GPUCount i)
      \<and> (\<forall>j \<in> set (getEligibleInstances reqs region0 pv). \<forall>k c'.
           instance_offer x pv ctype region tgap vgap j = Some (k, c') \<longrightarrow> \<not> f64_less c' c)
      \<and> (\<forall>t. whole_instance i t \<and> length nodes < 100 \<longrightarrow>
           nodes \<noteq> [] \<and> tgap \<le> int (length nodes) * t \<and> vgap \<le> int (length nodes) * (vramPerInstance i * 2 ^ 30)))"
proof -
  obtain i n c where i: "i \<in> set (getEligibleInstances reqs region0 pv)"
    "instance_offer x pv ctype region tgap vgap i = Some (n, c)" "int (length nodes) = min n 100"
    "\<forall>nd \<in> set nodes. cs_InstanceType nd = InstanceType i \<and> cs_GPUDeviceOffered nd = GPUCount i"
    "\<forall>j \<in> set (getEligibleInstances reqs region0 pv). \<forall>k c'.
       instance_offer x pv ctype region tgap vgap j = Some (k, c') \<longrightarrow> \<not> f64_less c' c"
    using least_cost_choice [OF assms(1-4)] .
  have n: "n = numInstances x tgap vgap i"
    using i(2) by (auto simp: instance_offer_def Let_def split: option.splits if_splits)
  have "nodes \<noteq> [] \<and> tgap \<le> int (length nodes) * t \<and> vgap \<le> int (length nodes) * (vramPerInstance i * 2 ^ 30)"
    if "whole_instance i t" "length nodes < 100" for t
  proof -
    have "int (length nodes) = n" using i(3) that(2) by linarith
    moreover from that(1) have w: "tflopsPerInstance i = Fin (of_int t)" "0 < t" "t < 2 ^ 53" "0 < vramPerInstance i"
      by (simp_all add: whole_instance_def)
    moreover have "0 < n" using numInstances_covers(1) [OF w gaps assms(2), of x] n by simp
    ultimately show ?thesis
      using numInstances_covers(2,3) [OF w gaps assms(2), of x] n by auto
  qed
  moreover have "length nodes \<le> 100" using i(3) by linarith
  ultimately show ?thesis using i(1,2,4,5) by blast
qed

text \<open>Two instance types; the gap of 1500 tflops takes two of the larger or four of the smaller.\<close>

definition demo_instance :: "string \<Rightarrow> rat \<Rightarrow> int \<Rightarrow> instance_info" where
  "demo_instance name t n = \<lparr>InstanceType = name, FP16TFlopsPerGPU = Fin t, VRAMGigabytesPerGPU = 40, GPUCount = n,
     CPUArchitecture = ''amd64'', GPUVendor = ''NVIDIA''\<rparr>"

definition demo_provider :: provider where
  "demo_provider = \<lparr>GetGPUNodeInstanceTypeInfo = (\<lambda>_. [demo_instance ''small'' 100 4, demo_instance ''large'' 100 8]),
     GetInstancePricing = (\<lambda>ty _ _. Some (if ty = ''small'' then Fin 4 else Fin 7)),
     pv_randIntn = (\<lambda>_. 0), pv_randName = show_nat\<rparr>"

definition demo_cluster :: cluster where
  "demo_cluster = \<lparr>cl_Name = ''c'', cl_DefaultRegion = ''r'', cl_ExtraParams = []\<rparr>"

definition demo_ref :: group_kind_name where
  "demo_ref = \<lparr>gkn_Group = '''', gkn_Kind = '''', gkn_Version = '''', gkn_Name = ''''\<rparr>"

definition demo_ext :: ext where
  "demo_ext = \<lparr>x_val = (\<lambda>q. \<lceil>q\<rceil>), x_approx = fl64, x_impl = (\<lambda>_. 0), x_parse = (\<lambda>_. Some 800), x_getNode = (\<lambda>_. NotFound),
     x_match = (\<lambda>_ _. None), x_getPool = (\<lambda>_. NotFound), x_getTemplate = (\<lambda>_. NotFound), x_progressive = False,
     x_rank = length, x_tie = (\<lambda>_. 0)\<rparr>"

lemma below_MaxFloat64: "r < 2 ^ 53 - 1 \<Longrightarrow> f64_less (Fin r) MaxFloat64"
proof -
  have "(2 ^ 53 - 1) * 1 \<le> (2 ^ 53 - 1) * (2 ^ 971 :: rat)" by (intro mult_left_mono one_le_power) auto
  then show "r < 2 ^ 53 - 1 \<Longrightarrow> f64_less (Fin r) MaxFloat64" unfolding MaxFloat64_def f64_less.simps by simp
qed

lemma demo_num:
  assumes "tflopsPerInstance i = Fin (of_int t)" "0 < t" "t < 2 ^ 53" "f64_of_int (vramPerInstance i) = Fin v"
    "0 < v" "\<lceil>1500 / (of_int t :: rat)\<rceil> = k" "0 < k" "k < 2 ^ 63"
  shows "numInstances x 1500 0 i = k"
proof -
  have "f64_div (f64_of_int 1500) (Fin (of_int t)) = Fin (round64 (1500 / of_int t))"
    using f64_div_ints(1) [of 1500 t] assms(2,3) by simp
  moreover have "\<lceil>round64 (1500 / of_int t)\<rceil> = k"
    using ceiling_round64_quotient [of 1500 t] assms(2,3,6) by simp
  moreover have "fl64 0 = Fin 0" "f64_of_int 0 = Fin 0" using fl64_int [of 0] by (simp_all add: f64_of_int_def)
  ultimately show ?thesis using assms by (simp add: numInstances_def Let_def math_Max_def)
qed

lemma demo_offers:
  "instance_offer demo_ext demo_provider CapacityTypeOnDemand ''r'' 1500 0 (demo_instance ''small'' 100 4) = Some (4, Fin 16)"
  "instance_offer demo_ext demo_provider CapacityTypeOnDemand ''r'' 1500 0 (demo_instance ''large'' 100 8) = Some (2, Fin 14)"
proof -
  have f: "fl64 4 = Fin 4" "fl64 8 = Fin 8" "fl64 400 = Fin 400" "fl64 800 = Fin 800" "fl64 160 = Fin 160" "fl64 320 = Fin 320"
    "fl64 2 = Fin 2" "fl64 16 = Fin 16" "fl64 14 = Fin 14"
    using fl64_int [of 4] fl64_int [of 8] fl64_int [of 400] fl64_int [of 800] fl64_int [of 160] fl64_int [of 320]
      fl64_int [of 2] fl64_int [of 16] fl64_int [of 14] by simp_all
  have t: "tflopsPerInstance (demo_instance ''small'' 100 4) = Fin (of_int 400)" "tflopsPerInstance (demo_instance ''large'' 100 8) = Fin (of_int 800)"
    by (simp_all add: tflopsPerInstance_def demo_instance_def f64_of_int_def f)
  have v: "vramPerInstance (demo_instance ''small'' 100 4) = 160" "vramPerInstance (demo_instance ''large'' 100 8) = 320"
    by (simp_all add: vramPerInstance_def demo_instance_def s32_def)
  have p: "GetInstancePricing demo_provider (InstanceType (demo_instance ''small'' 100 4)) c r = Some (Fin 4)"
    "GetInstancePricing demo_provider (InstanceType (demo_instance ''large'' 100 8)) c r = Some (Fin 7)" for c r
    by (simp_all add: demo_provider_def demo_instance_def)
  have "\<lceil>1500 / (400 :: rat)\<rceil> = 4" "\<lceil>1500 / (800 :: rat)\<rceil> = 2" by (simp_all add: ceiling_unique)
  then have "numInstances demo_ext 1500 0 (demo_instance ''small'' 100 4) = 4" "numInstances demo_ext 1500 0 (demo_instance ''large'' 100 8) = 2"
    using demo_num [OF t(1)] demo_num [OF t(2)] by (simp_all add: v f64_of_int_def f)
  then show "instance_offer demo_ext demo_provider CapacityTypeOnDemand ''r'' 1500 0 (demo_instance ''small'' 100 4) = Some (4, Fin 16)"
    "instance_offer demo_ext demo_provider CapacityTypeOnDemand ''r'' 1500 0 (demo_instance ''large'' 100 8) = Some (2, Fin 14)"
    using t v p by (simp_all add: instance_offer_def f64_le_def f64_of_int_def f)
qed

lemma demo_least_cost:
  "map_sum id (map cs_InstanceType)
     (CalculateLeastCostGPUNodes demo_ext demo_provider demo_cluster name [] ref 1500 0) = Inr [''large'', ''large'']"
proof -
  have "getEligibleInstances [] ''r'' demo_provider = [demo_instance ''small'' 100 4, demo_instance ''large'' 100 8]"
    by (simp add: getEligibleInstances_def demo_provider_def)
  moreover have "[0..<nat (2 :: int)] = [0, 1]" by code_simp
  ultimately show ?thesis
    by (simp add: CalculateLeastCostGPUNodes_def demo_cluster_def demo_offers below_MaxFloat64 MAX_NODES_PER_RECONCILE_LOOP_def Let_def)
      (simp add: demo_ext_def demo_instance_def)
qed

theorem least_cost_nodes_cover_gap_witness:
  "\<exists>nodes. CalculateLeastCostGPUNodes demo_ext demo_provider demo_cluster ''p'' [] demo_ref 1500 0 = Inr nodes
     \<and> map cs_InstanceType nodes = [''large'', ''large''] \<and> length nodes \<le> 100"
proof -
  obtain nodes where nodes: "CalculateLeastCostGPUNodes demo_ext demo_provider demo_cluster ''p'' [] demo_ref 1500 0 = Inr nodes"
      "map cs_InstanceType nodes = [''large'', ''large'']"
    using demo_least_cost [of "''p''" demo_ref] by (cases "CalculateLeastCostGPUNodes demo_ext demo_provider demo_cluster ''p'' [] demo_ref 1500 0") auto
  then show ?thesis using least_cost_nodes_cover_gap [OF nodes(1), of "''r''" CapacityTypeOnDemand "''r''" "[]"]
    by (auto simp: demo_cluster_def)
qed

end
