(* ===== verification/PoolProps.thy ===== *)
theory PoolProps
  imports PoolController LeastCost FilterProps RollingUpdateProps
begin

text \<open>
  Properties of pool capacity: the compaction removes only idle nodes and keeps the minimum and the warm-up
  capacity, provisioning stays within the limits of the pool, and a claim that is lost blocks it for good.
\<close>

section \<open>Sums over the GPUs of a pool\<close>

text \<open>What the GPUs of the pool provide that are not on the given nodes, and those of one node.\<close>

definition remaining :: "compaction_env \<Rightarrow> string \<Rightarrow> (gpu \<Rightarrow> int) \<Rightarrow> gpu list \<Rightarrow> string set \<Rightarrow> int" where
  "remaining e pool f gpus marks = (\<Sum>g\<leftarrow>filter (\<lambda>g. compaction_counts e pool g \<and> gpu_node g \<notin> marks) gpus. f g)"

definition on_node :: "compaction_env \<Rightarrow> string \<Rightarrow> (gpu \<Rightarrow> int) \<Rightarrow> gpu list \<Rightarrow> string \<Rightarrow> int" where
  "on_node e pool f gpus n = (\<Sum>g\<leftarrow>filter (\<lambda>g. compaction_counts e pool g \<and> gpu_node g = n) gpus. f g)"

lemma remaining_insert:
  "remaining e pool f gpus marks \<le> remaining e pool f gpus (insert n marks) + on_node e pool f gpus n"
  if "\<forall>g \<in> set gpus. compaction_counts e pool g \<longrightarrow> 0 \<le> f g"
  using that by (induction gpus) (auto simp: remaining_def on_node_def)

definition avail_t :: "compaction_env \<Rightarrow> gpu \<Rightarrow> int" where
  "avail_t e g = x_val (ce_ext e) (Tflops (the (gpu_Available g)))"

definition avail_v :: "compaction_env \<Rightarrow> gpu \<Rightarrow> int" where
  "avail_v e g = x_val (ce_ext e) (Vram (the (gpu_Available g)))"

definition cap_t :: "compaction_env \<Rightarrow> gpu \<Rightarrow> int" where
  "cap_t e g = x_val (ce_ext e) (Tflops (the (gpu_Capacity g)))"

definition cap_v :: "compaction_env \<Rightarrow> gpu \<Rightarrow> int" where
  "cap_v e g = x_val (ce_ext e) (Vram (the (gpu_Capacity g)))"

definition sums_of :: "compaction_env \<Rightarrow> string \<Rightarrow> gpu list \<Rightarrow> string set \<Rightarrow> pool_sums" where
  "sums_of e pool gpus marks =
     \<lparr>poolAvailableTFlops = remaining e pool (avail_t e) gpus marks, poolAvailableVRAM = remaining e pool (avail_v e) gpus marks,
      poolTotalTFlops = remaining e pool (cap_t e) gpus marks, poolTotalVRAM = remaining e pool (cap_v e) gpus marks\<rparr>"

text \<open>
  The GPUs of the pool have their status, with availability between zero and capacity, and the total
  capacity is in the range of the machine integers.
\<close>

definition gpus_sane :: "compaction_env \<Rightarrow> string \<Rightarrow> gpu list \<Rightarrow> bool" where
  "gpus_sane e pool gpus \<longleftrightarrow>
     (\<forall>g \<in> set gpus. compaction_counts e pool g \<longrightarrow> gpu_Available g \<noteq> None \<and> gpu_Capacity g \<noteq> None
        \<and> 0 \<le> avail_t e g \<and> avail_t e g \<le> cap_t e g \<and> 0 \<le> avail_v e g \<and> avail_v e g \<le> cap_v e g)
     \<and> remaining e pool (cap_t e) gpus {} < 2 ^ 63 \<and> remaining e pool (cap_v e) gpus {} < 2 ^ 63"

lemma compaction_sums_add:
  assumes "\<forall>g \<in> set gpus. compaction_counts e pool g \<longrightarrow> gpu_Available g \<noteq> None \<and> gpu_Capacity g \<noteq> None
      \<and> 0 \<le> avail_t e g \<and> 0 \<le> avail_v e g \<and> 0 \<le> cap_t e g \<and> 0 \<le> cap_v e g"
    and "0 \<le> a0" "0 \<le> b0" "0 \<le> c0" "0 \<le> d0"
    and "a0 + remaining e pool (avail_t e) gpus (set marks) < 2 ^ 63" "b0 + remaining e pool (avail_v e) gpus (set marks) < 2 ^ 63"
      "c0 + remaining e pool (cap_t e) gpus (set marks) < 2 ^ 63" "d0 + remaining e pool (cap_v e) gpus (set marks) < 2 ^ 63"
  shows "compaction_sums e pool marks gpus
      \<lparr>poolAvailableTFlops = a0, poolAvailableVRAM = b0, poolTotalTFlops = c0, poolTotalVRAM = d0\<rparr> =
    Some \<lparr>poolAvailableTFlops = a0 + remaining e pool (avail_t e) gpus (set marks),
      poolAvailableVRAM = b0 + remaining e pool (avail_v e) gpus (set marks),
      poolTotalTFlops = c0 + remaining e pool (cap_t e) gpus (set marks),
      poolTotalVRAM = d0 + remaining e pool (cap_v e) gpus (set marks)\<rparr>"
  using assms
proof (induction gpus arbitrary: a0 b0 c0 d0)
  case Nil
  then show ?case by (simp add: remaining_def)
next
  case (Cons g gs)
  let ?R = "\<lambda>f. remaining e pool f gs (set marks)"
  show ?case
  proof (cases "compaction_counts e pool g \<and> gpu_node g \<notin> set marks")
    case False
    then show ?thesis using Cons by (auto simp: remaining_def)
  next
    case True
    then obtain a c where ac: "gpu_Available g = Some a" "gpu_Capacity g = Some c" using Cons.prems(1) by auto
    have nn: "0 \<le> ?R (avail_t e)" "0 \<le> ?R (avail_v e)" "0 \<le> ?R (cap_t e)" "0 \<le> ?R (cap_v e)"
      using Cons.prems(1) by (auto simp: remaining_def intro!: sum_list_nonneg)
    have g0: "0 \<le> avail_t e g" "0 \<le> avail_v e g" "0 \<le> cap_t e g" "0 \<le> cap_v e g" using Cons.prems(1) True by auto
    have step: "remaining e pool f (g # gs) (set marks) = f g + ?R f" for f using True by (simp add: remaining_def)
    have s: "s64 (a0 + avail_t e g) = a0 + avail_t e g" "s64 (b0 + avail_v e g) = b0 + avail_v e g"
      "s64 (c0 + cap_t e g) = c0 + cap_t e g" "s64 (d0 + cap_v e g) = d0 + cap_v e g"
      using Cons.prems(2-9) nn g0 unfolding step by (simp_all add: s64_id)
    have "compaction_sums e pool marks (g # gs)
        \<lparr>poolAvailableTFlops = a0, poolAvailableVRAM = b0, poolTotalTFlops = c0, poolTotalVRAM = d0\<rparr> =
      compaction_sums e pool marks gs \<lparr>poolAvailableTFlops = a0 + avail_t e g, poolAvailableVRAM = b0 + avail_v e g,
        poolTotalTFlops = c0 + cap_t e g, poolTotalVRAM = d0 + cap_v e g\<rparr>"
      using True s by (simp add: ac avail_t_def avail_v_def cap_t_def cap_v_def Let_def)
    also have "\<dots> = Some \<lparr>poolAvailableTFlops = a0 + avail_t e g + ?R (avail_t e), poolAvailableVRAM = b0 + avail_v e g + ?R (avail_v e),
        poolTotalTFlops = c0 + cap_t e g + ?R (cap_t e), poolTotalVRAM = d0 + cap_v e g + ?R (cap_v e)\<rparr>"
      by (rule Cons.IH) (use Cons.prems g0 in \<open>auto simp: step\<close>)
    finally show ?thesis by (simp add: step)
  qed
qed

section \<open>Compaction\<close>

text \<open>The running sums are non-negative and at most what the GPUs outside the marked nodes provide.\<close>

definition sums_below :: "pool_sums \<Rightarrow> pool_sums \<Rightarrow> bool" where
  "sums_below s r \<longleftrightarrow>
     0 \<le> poolAvailableTFlops s \<and> poolAvailableTFlops s \<le> poolAvailableTFlops r
     \<and> 0 \<le> poolAvailableVRAM s \<and> poolAvailableVRAM s \<le> poolAvailableVRAM r
     \<and> 0 \<le> poolTotalTFlops s \<and> poolTotalTFlops s \<le> poolTotalTFlops r
     \<and> 0 \<le> poolTotalVRAM s \<and> poolTotalVRAM s \<le> poolTotalVRAM r"

text \<open>The capacity a node reports covers the GPUs the pool has there, and reads as 64-bit integers.\<close>

definition node_sane :: "compaction_env \<Rightarrow> string \<Rightarrow> gpu list \<Rightarrow> gpu_node_obj \<Rightarrow> bool" where
  "node_sane e pool gpus n \<longleftrightarrow>
     on_node e pool (cap_t e) gpus (no_Name n) \<le> x_val (ce_ext e) (ns_TotalTFlops (no_Status n))
     \<and> on_node e pool (cap_v e) gpus (no_Name n) \<le> x_val (ce_ext e) (ns_TotalVRAM (no_Status n))
     \<and> x_val (ce_ext e) (ns_TotalTFlops (no_Status n)) < 2 ^ 63 \<and> x_val (ce_ext e) (ns_TotalVRAM (no_Status n)) < 2 ^ 63"

definition unit_nonneg :: "ext \<Rightarrow> resource_unit \<Rightarrow> bool" where
  "unit_nonneg x u \<longleftrightarrow> 0 \<le> x_val x (ru_TFlops u) \<and> 0 \<le> x_val x (ru_VRAM u)"

lemma remaining_bounds:
  assumes "gpus_sane e pool gpus"
  shows "remaining e pool (avail_t e) gpus M \<le> remaining e pool (cap_t e) gpus M"
    "remaining e pool (avail_v e) gpus M \<le> remaining e pool (cap_v e) gpus M"
    "remaining e pool (cap_t e) gpus M \<le> remaining e pool (cap_t e) gpus {}"
    "remaining e pool (cap_v e) gpus M \<le> remaining e pool (cap_v e) gpus {}"
    "0 \<le> remaining e pool (avail_t e) gpus M" "0 \<le> remaining e pool (avail_v e) gpus M"
    "on_node e pool (avail_t e) gpus n \<le> on_node e pool (cap_t e) gpus n"
    "on_node e pool (avail_v e) gpus n \<le> on_node e pool (cap_v e) gpus n"
proof -
  have g: "\<forall>g \<in> set gpus. compaction_counts e pool g \<longrightarrow>
      0 \<le> avail_t e g \<and> avail_t e g \<le> cap_t e g \<and> 0 \<le> avail_v e g \<and> avail_v e g \<le> cap_v e g"
    using assms by (auto simp: gpus_sane_def)
  show "remaining e pool (avail_t e) gpus M \<le> remaining e pool (cap_t e) gpus M"
    "remaining e pool (avail_v e) gpus M \<le> remaining e pool (cap_v e) gpus M"
    "on_node e pool (avail_t e) gpus n \<le> on_node e pool (cap_t e) gpus n"
    "on_node e pool (avail_v e) gpus n \<le> on_node e pool (cap_v e) gpus n"
    using g unfolding remaining_def on_node_def by (auto intro!: sum_list_mono)
  show "0 \<le> remaining e pool (avail_t e) gpus M" "0 \<le> remaining e pool (avail_v e) gpus M"
    using g unfolding remaining_def by (auto intro!: sum_list_nonneg)
  have "\<forall>g \<in> set gpus. compaction_counts e pool g \<longrightarrow> 0 \<le> f g \<Longrightarrow> remaining e pool f gpus M \<le> remaining e pool f gpus {}" for f
    unfolding remaining_def by (induction gpus) auto
  then show "remaining e pool (cap_t e) gpus M \<le> remaining e pool (cap_t e) gpus {}"
    "remaining e pool (cap_v e) gpus M \<le> remaining e pool (cap_v e) gpus {}"
    using g order_trans by blast+
qed

lemma less_node_below:
  assumes sane: "gpus_sane e pool gpus" "node_sane e pool gpus n"
    and below: "sums_below s (sums_of e pool gpus (set marks))"
    and node: "compactable e ws n" "match_constraints (ce_ext e) warm lo (less_node e n s)"
    and "unit_nonneg (ce_ext e) warm" "unit_nonneg (ce_ext e) lo"
  shows "sums_below (less_node e n s) (sums_of e pool gpus (set (List.insert (no_Name n) marks)))"
proof -
  let ?t = "x_val (ce_ext e) (ns_TotalTFlops (no_Status n))" and ?v = "x_val (ce_ext e) (ns_TotalVRAM (no_Status n))"
  let ?M = "set marks" and ?M' = "insert (no_Name n) (set marks)"
  note b = remaining_bounds [OF sane(1)]
  have g: "\<forall>g \<in> set gpus. compaction_counts e pool g \<longrightarrow> 0 \<le> avail_t e g \<and> 0 \<le> cap_t e g \<and> 0 \<le> avail_v e g \<and> 0 \<le> cap_v e g"
    using sane(1) by (force simp: gpus_sane_def)
  have r: "remaining e pool (avail_t e) gpus ?M \<le> remaining e pool (avail_t e) gpus ?M' + ?t"
    "remaining e pool (cap_t e) gpus ?M \<le> remaining e pool (cap_t e) gpus ?M' + ?t"
    "remaining e pool (avail_v e) gpus ?M \<le> remaining e pool (avail_v e) gpus ?M' + ?v"
    "remaining e pool (cap_v e) gpus ?M \<le> remaining e pool (cap_v e) gpus ?M' + ?v"
    using remaining_insert [of gpus e pool "avail_t e" ?M "no_Name n"] remaining_insert [of gpus e pool "cap_t e" ?M "no_Name n"]
      remaining_insert [of gpus e pool "avail_v e" ?M "no_Name n"] remaining_insert [of gpus e pool "cap_v e" ?M "no_Name n"]
      g b(7,8) [of "no_Name n"] sane(2) unfolding node_sane_def by fastforce+
  have big: "remaining e pool (cap_t e) gpus ?M < 2 ^ 63" "remaining e pool (cap_v e) gpus ?M < 2 ^ 63"
    using b(3,4) [of ?M] sane(1) by (auto simp: gpus_sane_def)
  have tv: "0 < ?t" "0 < ?v" "?t < 2 ^ 63" "?v < 2 ^ 63" using node(1) sane(2) by (auto simp: compactable_def node_sane_def)
  have lo: "0 \<le> poolAvailableTFlops s" "0 \<le> poolAvailableVRAM s" "0 \<le> poolTotalTFlops s" "0 \<le> poolTotalVRAM s"
    and hi: "poolAvailableTFlops s \<le> remaining e pool (avail_t e) gpus ?M" "poolAvailableVRAM s \<le> remaining e pool (avail_v e) gpus ?M"
      "poolTotalTFlops s \<le> remaining e pool (cap_t e) gpus ?M" "poolTotalVRAM s \<le> remaining e pool (cap_v e) gpus ?M"
    using below by (simp_all add: sums_below_def sums_of_def)
  have ex: "s64 (poolAvailableTFlops s - ?t) = poolAvailableTFlops s - ?t" "s64 (poolAvailableVRAM s - ?v) = poolAvailableVRAM s - ?v"
    "s64 (poolTotalTFlops s - ?t) = poolTotalTFlops s - ?t" "s64 (poolTotalVRAM s - ?v) = poolTotalVRAM s - ?v"
    using lo hi tv big b(1,2) [of ?M] by (auto intro!: s64_id)
  show ?thesis
    using node(2) assms(6,7) hi r
    by (simp add: sums_below_def sums_of_def less_node_def Let_def ex match_constraints_def unit_nonneg_def)
qed

lemma compact_nodes_sound:
  assumes "gpus_sane e pool gpus" "unit_nonneg (ce_ext e) warm" "unit_nonneg (ce_ext e) lo" "cfg \<noteq> None"
    and "\<forall>n \<in> set ns. node_sane e pool gpus n" "sums_below s (sums_of e pool gpus (set marks))"
  shows "\<exists>s' marks' dels'. compact_nodes e cfg ws warm lo ns s marks dels = Some (s', marks', dels')
    \<and> sums_below s' (sums_of e pool gpus (set marks'))
    \<and> (marks' = marks \<and> s' = s \<or> match_constraints (ce_ext e) warm lo s')
    \<and> set marks \<subseteq> set marks' \<and> set marks' \<subseteq> set marks \<union> no_Name ` {n \<in> set ns. compactable e ws n}"
  using assms(5,6)
proof (induction ns arbitrary: s marks dels)
  case Nil
  then show ?case by simp
next
  case (Cons n ns)
  let ?take = "compactable e ws n \<and> match_constraints (ce_ext e) warm lo (less_node e n s)"
  let ?go = "\<lambda>s marks dels. \<exists>s' marks' dels'. compact_nodes e cfg ws warm lo ns s marks dels = Some (s', marks', dels')
    \<and> sums_below s' (sums_of e pool gpus (set marks'))
    \<and> (marks' = marks \<and> s' = s \<or> match_constraints (ce_ext e) warm lo s')
    \<and> set marks \<subseteq> set marks' \<and> set marks' \<subseteq> set marks \<union> no_Name ` {n \<in> set ns. compactable e ws n}"
  have skip: "?go s marks dels" using Cons by simp
  have take: "?go (less_node e n s) (List.insert (no_Name n) marks) dels'" if "?take" for dels'
  proof (rule Cons.IH)
    show "\<forall>n \<in> set ns. node_sane e pool gpus n" using Cons.prems(1) by simp
    show "sums_below (less_node e n s) (sums_of e pool gpus (set (List.insert (no_Name n) marks)))"
      using less_node_below [OF assms(1) _ Cons.prems(2) _ _ assms(2,3), where n = n and ws = ws] Cons.prems(1) that by simp
  qed
  obtain c where c: "cfg = Some c" using assms(4) by auto
  have "compact_nodes e cfg ws warm lo (n # ns) s marks dels = compact_nodes e cfg ws warm lo ns s marks dels
    \<or> ?take \<and> (\<exists>dels'. compact_nodes e cfg ws warm lo (n # ns) s marks dels =
        compact_nodes e cfg ws warm lo ns (less_node e n s) (List.insert (no_Name n) marks) dels')"
    by (auto simp: c Let_def)
  then consider "compact_nodes e cfg ws warm lo (n # ns) s marks dels = compact_nodes e cfg ws warm lo ns s marks dels"
    | dels' where ?take "compact_nodes e cfg ws warm lo (n # ns) s marks dels =
        compact_nodes e cfg ws warm lo ns (less_node e n s) (List.insert (no_Name n) marks) dels'"
    by blast
  then show ?case
  proof cases
    case 1
    then show ?thesis using skip by fastforce
  next
    case 2
    obtain s' marks' ds where r: "compact_nodes e cfg ws warm lo ns (less_node e n s) (List.insert (no_Name n) marks) dels' = Some (s', marks', ds)"
      "sums_below s' (sums_of e pool gpus (set marks'))"
      "marks' = List.insert (no_Name n) marks \<and> s' = less_node e n s \<or> match_constraints (ce_ext e) warm lo s'"
      "set (List.insert (no_Name n) marks) \<subseteq> set marks'"
      "set marks' \<subseteq> set (List.insert (no_Name n) marks) \<union> no_Name ` {n \<in> set ns. compactable e ws n}"
      using take [OF 2(1)] by blast
    have "match_constraints (ce_ext e) warm lo s'" using r(3) 2(1) by blast
    moreover have "set marks \<subseteq> set marks'" using r(4) by simp
    moreover have "set marks' \<subseteq> set marks \<union> no_Name ` {n' \<in> set (n # ns). compactable e ws n'}" using r(5) 2(1) by auto
    ultimately show ?thesis using 2(2) r(1,2) by simp
  qed
qed

lemma compaction_sums_sane:
  assumes "gpus_sane e pool gpus"
  shows "compaction_sums e pool marks gpus \<lparr>poolAvailableTFlops = 0, poolAvailableVRAM = 0, poolTotalTFlops = 0, poolTotalVRAM = 0\<rparr>
      = Some (sums_of e pool gpus (set marks))"
    and "sums_below (sums_of e pool gpus (set marks)) (sums_of e pool gpus (set marks))"
proof -
  note b = remaining_bounds(1-6) [OF assms, of "set marks"]
  have "remaining e pool (cap_t e) gpus (set marks) < 2 ^ 63" "remaining e pool (cap_v e) gpus (set marks) < 2 ^ 63"
    using b(3,4) assms by (auto simp: gpus_sane_def)
  then show "compaction_sums e pool marks gpus \<lparr>poolAvailableTFlops = 0, poolAvailableVRAM = 0, poolTotalTFlops = 0, poolTotalVRAM = 0\<rparr>
      = Some (sums_of e pool gpus (set marks))"
    using b(1,2) assms by (subst compaction_sums_add) (force simp: gpus_sane_def sums_of_def)+
  show "sums_below (sums_of e pool gpus (set marks)) (sums_of e pool gpus (set marks))"
    using b by (simp add: sums_below_def sums_of_def)
qed


text \<open>Pools of idle nodes whose GPUs have the given capacity; the node reports the exact sum.\<close>

definition demo_gpus :: "(string \<times> string \<times> quantity) list \<Rightarrow> gpu list" where
  "demo_gpus ps = map (\<lambda>(g, n, t). (ex_gpu g n t)\<lparr>gpu_Capacity := Some \<lparr>Tflops = t, ComputePercent = 0, Vram = 80\<rparr>\<rparr>) ps"

definition demo_alloc :: "gpu list \<Rightarrow> allocator" where
  "demo_alloc gs = NewGpuAllocator\<lparr>al_heap := gs, gpuStore := zip (map gpu_Name gs) [0..<length gs]\<rparr>"

definition demo_node :: "string \<Rightarrow> quantity \<Rightarrow> quantity \<Rightarrow> gpu_node_obj" where
  "demo_node n t v = \<lparr>no_Name = n, no_Labels = [], no_Created = 0, no_TotalGPUs = 1, no_Status = \<lparr>ns_TotalTFlops = t, ns_TotalVRAM = v,
     ns_AvailableTFlops = t, ns_AvailableVRAM = v, ns_VirtualTFlops = t, ns_VirtualVRAM = v, ns_VirtualAvailableTFlops = None,
     ns_VirtualAvailableVRAM = None, ns_AllocatedPods = [], ns_TotalGPUPods = 0, ns_Phase = TensorFusionGPUPhaseRunning,
     ns_DataDiskSize = 0, ns_RAMSize = 0\<rparr>\<rparr>"

definition demo_compaction_env :: "gpu_node_obj list \<Rightarrow> compaction_env" where
  "demo_compaction_env ns = \<lparr>ce_ext = ex_ext, ce_now = 10 ^ 12, ce_gpuDeleting = (\<lambda>_. False), ce_getPool = (\<lambda>_. NotFound),
     ce_listNodes = Some ns, ce_getClaim = (\<lambda>_. NotFound), ce_patchNodeOK = (\<lambda>_. True), ce_refresh = Refreshed,
     ce_parseDuration = (\<lambda>_. None), ce_parseTime = (\<lambda>_. None)\<rparr>"

definition demo_pool :: "quantity \<Rightarrow> gpu_pool" where
  "demo_pool t = \<lparr>gp_Name = ''pool'', gp_Labels = [], gp_Annotations = [], gp_Deleting = False,
     CapacityConfig = Some \<lparr>MinResources = Some \<lparr>ru_TFlops = t, ru_VRAM = 0\<rparr>, MaxResources = None,
       WarmResources = Some \<lparr>ru_TFlops = 0, ru_VRAM = 0\<rparr>\<rparr>,
     NodeManagerConfig = Some \<lparr>ProvisioningMode = ProvisioningModeAutoSelect, NodeProvisioner = None, NodeSelector = None,
       NodeCompactionPeriod = None\<rparr>,
     gp_Status = \<lparr>ps_Phase = '''', ps_TotalNodes = 0, ps_TotalGPUs = 0, ps_ReadyNodes = 0, ps_NotReadyNodes = 0, ps_TotalTFlops = 0,
       ps_TotalVRAM = 0, ps_VirtualTFlops = 0, ps_VirtualVRAM = 0, ps_AvailableTFlops = 0, ps_AvailableVRAM = 0,
       ps_VirtualAvailableTFlops = None, ps_VirtualAvailableVRAM = None, ps_RunningAppsCnt = 0, ps_ProvisioningPhase = ''''\<rparr>\<rparr>"

definition no_globals :: pool_globals where
  "no_globals = \<lparr>ProvisioningToggle = True, PendingGPUNodeClaim = [], PendingDeletionGPUNodes = [], markDeletionNodes = [],
     jobStarted = [], provisioningInitializationMinTime = [], poolSelectorChangeMap = []\<rparr>"

definition two_nodes :: "gpu_node_obj list" where
  "two_nodes = [demo_node ''n1'' 100 80, demo_node ''n2'' 100 80]"

definition two_gpus :: "gpu list" where
  "two_gpus = demo_gpus [(''g1'', ''n1'', 100), (''g2'', ''n2'', 100)]"

lemma two_nodes_sane:
  "gpus_sane (demo_compaction_env two_nodes) ''pool'' two_gpus"
  "\<forall>n \<in> set two_nodes. node_sane (demo_compaction_env two_nodes) ''pool'' two_gpus n"
  "GetAllocationInfo (demo_alloc two_gpus) = (two_gpus, [], [])"
  "checkNodeCompaction (demo_compaction_env two_nodes) (demo_alloc two_gpus) (demo_pool 100) no_globals =
     (no_globals\<lparr>markDeletionNodes := [''n1'']\<rparr>, CompactionDone)"
  by code_simp+


text \<open>
  Every GPU's capacity is rounded up to whole tflops, a node's capacity only once. With fractional
  capacities the compaction can remove the last node of a pool with a minimum: two GPUs of 1.5 tflops count
  as 4 and their node as 3, so a minimum of 1 seems kept.
\<close>

lemma compaction_rounding_loses_minimum:
  "checkNodeCompaction (demo_compaction_env [demo_node ''n1'' 3 160]) (demo_alloc (demo_gpus [(''g1'', ''n1'', 3/2), (''g2'', ''n1'', 3/2)]))
     (demo_pool 1) no_globals = (no_globals\<lparr>markDeletionNodes := [''n1'']\<rparr>, CompactionDone)"
  by code_simp

section \<open>Provisioning\<close>

lemma nat_min_100: "nat (min n 100) \<le> 100"
  by linarith

lemma least_cost_at_most:
  "CalculateLeastCostGPUNodes x pv cl name reqs ref tgap vgap = Inr nodes \<Longrightarrow> length nodes \<le> 100"
  by (auto simp: CalculateLeastCostGPUNodes_def MAX_NODES_PER_RECONCILE_LOOP_def nat_min_100 Let_def split: if_splits option.splits)

lemma capacity_gap_positive:
  assumes "capacity_gap x cc st assumed = Some (t, v)"
  shows "(0 < t \<or> 0 < v) \<and> (\<forall>m. MaxResources cc = Some m \<longrightarrow>
    s64 (x_val x (ps_TotalTFlops st) + fst assumed) < x_val x (ru_TFlops m)
    \<and> s64 (x_val x (ps_TotalVRAM st) + snd assumed) < x_val x (ru_VRAM m))"
proof -
  obtain minGap warmGap where
    "capacity_gap x cc st assumed = (let (gap, scale) = (if \<not> (MinResources cc \<noteq> None \<and> (0 < fst minGap \<or> 0 < snd minGap))
          \<and> ps_Phase st = TensorFusionPoolPhaseRunning
        then (warmGap, 0 < fst warmGap \<or> 0 < snd warmGap)
        else (minGap, MinResources cc \<noteq> None \<and> (0 < fst minGap \<or> 0 < snd minGap)));
      capped = (case MaxResources cc of None \<Rightarrow> False
        | Some m \<Rightarrow> x_val x (ru_TFlops m) \<le> s64 (x_val x (ps_TotalTFlops st) + fst assumed)
            \<or> x_val x (ru_VRAM m) \<le> s64 (x_val x (ps_TotalVRAM st) + snd assumed))
      in if scale \<and> \<not> capped then Some gap else None)"
    unfolding capacity_gap_def Let_def by blast
  then show ?thesis using assms by (auto simp: Let_def split: if_splits option.splits)
qed

lemma map_filter_length: "length (List.map_filter f xs) \<le> length xs"
  by (induction xs) (auto simp: List.map_filter_simps split: option.splits)


text \<open>A node that offers 100 tflops, for a pool with a minimum of 50 and nothing in it.\<close>

definition demo_provision_env :: provision_env where
  "demo_provision_env = \<lparr>pe_ext = demo_ext, pe_getClaim = (\<lambda>_. NotFound), pe_getCluster = (\<lambda>_. Found (Some demo_cluster)),
     pe_getProvider = (\<lambda>_ _. Some demo_provider), pe_createOK = (\<lambda>_. True)\<rparr>"

definition demo_provisioned_pool :: gpu_pool where
  "demo_provisioned_pool = (demo_pool 1500)\<lparr>gp_Labels := [(LabelKeyOwner, ''c'')],
     NodeManagerConfig := Some \<lparr>ProvisioningMode = ProvisioningModeProvisioned,
       NodeProvisioner = Some \<lparr>NodeClass = ''nc'', KarpenterNodeClassRef = None, GPURequirements = []\<rparr>, NodeSelector = None,
       NodeCompactionPeriod = None\<rparr>\<rparr>"

lemma demo_provisioning:
  "fst (reconcilePoolCapacityWithProvisioner demo_provision_env demo_provisioned_pool no_globals) \<noteq> []"
proof -
  let ?ref = "\<lparr>gkn_Group = Domain, gkn_Kind = GPUNodeClassKind, gkn_Version = ''v1'', gkn_Name = ''nc''\<rparr>"
  have r: "node_class_ref (the (NodeManagerConfig demo_provisioned_pool)) = Inr ?ref"
    and g: "capacity_gap demo_ext (the (CapacityConfig demo_provisioned_pool)) (gp_Status demo_provisioned_pool) (0, 0) = Some (1500, 0)"
    and z: "GPURequirements (the (NodeProvisioner (the (NodeManagerConfig demo_provisioned_pool)))) = []"
      "CapacityConfig demo_provisioned_pool \<noteq> None" "ProvisioningToggle no_globals"
      "assumed_resources demo_provision_env (range_keys demo_ext (map fst (pending_claims no_globals (gp_Name demo_provisioned_pool)))) (0, 0)
        = Some (0, 0)"
    by code_simp+
  have q: "createProvisionerAndQueryCluster demo_provision_env demo_provisioned_pool = Inr (demo_provider, demo_cluster)"
    by (simp add: createProvisionerAndQueryCluster_def demo_provisioned_pool_def demo_provision_env_def get_str_def)
  have z': "pe_ext demo_provision_env = demo_ext" by (simp add: demo_provision_env_def)
  obtain specs where s: "CalculateLeastCostGPUNodes demo_ext demo_provider demo_cluster (gp_Name demo_provisioned_pool) [] ?ref 1500 0 = Inr specs"
      "map cs_InstanceType specs = [''large'', ''large'']"
    using demo_least_cost [of "gp_Name demo_provisioned_pool" ?ref]
    by (cases "CalculateLeastCostGPUNodes demo_ext demo_provider demo_cluster (gp_Name demo_provisioned_pool) [] ?ref 1500 0") auto
  obtain a as where specs: "specs = a # as" using s(2) by (cases specs) auto
  obtain w where "create_claim demo_provision_env demo_provider demo_cluster demo_provisioned_pool ?ref a = Some w"
    by (simp add: create_claim_def demo_provider_def demo_provision_env_def)
  then have "List.map_filter (create_claim demo_provision_env demo_provider demo_cluster demo_provisioned_pool ?ref) specs \<noteq> []"
    by (simp add: specs List.map_filter_simps)
  then show ?thesis
    using r q g z z' s(1) by (auto simp: reconcilePoolCapacityWithProvisioner_def Let_def split: if_splits)
qed


section \<open>Lost claims\<close>

text \<open>Rounds of the pool controller, each in its own environment, and the claims they create.\<close>

fun pool_rounds :: "ctl_env list \<Rightarrow> pool_globals \<Rightarrow> (pool_globals \<times> claim_object list) option" where
  "pool_rounds [] g = Some (g, [])"
| "pool_rounds (e # es) g =
     (case gpupool_Reconcile e g of
        None \<Rightarrow> None
      | Some (g', fx, _) \<Rightarrow> map_option (\<lambda>(g'', made). (g'', fx_created fx @ made)) (pool_rounds es g'))"

lemma assumed_resources_lost:
  "c \<in> set cs \<Longrightarrow> (\<forall>w. pe_getClaim e c \<noteq> Found w) \<Longrightarrow> assumed_resources e cs acc = None"
  by (induction e cs acc rule: assumed_resources.induct) (auto split: get_result.splits)

lemma provisioning_lost_claim:
  assumes "ProvisioningToggle g" "c \<in> fst ` set (pending_claims g (gp_Name pool))" "\<forall>w. pe_getClaim e c \<noteq> Found w"
  shows "reconcilePoolCapacityWithProvisioner e pool g = ([], Inl ClaimLookupFailed)"
  using assms(1) assumed_resources_lost [OF _ assms(3), of "range_keys (pe_ext e) (map fst (pending_claims g (gp_Name pool)))"] assms(2)
  by (simp add: reconcilePoolCapacityWithProvisioner_def range_keys_def)

lemma reconcilePoolSelectorChange_frame:
  assumes "reconcilePoolSelectorChange e pool g = (g', ws, ok)"
  shows "PendingGPUNodeClaim g' = PendingGPUNodeClaim g" "ProvisioningToggle g' = ProvisioningToggle g"
  using assms by (auto simp: reconcilePoolSelectorChange_def Let_def split: option.splits if_splits prod.splits bool.splits)

lemma reconcile_provisioning_lost:
  assumes "ProvisioningToggle g" "c \<in> fst ` set (pending_claims g (gp_Name pool))" "\<forall>w. pe_getClaim (ct_prov e) c \<noteq> Found w"
    and "fx_created fx = []"
  obtains out where "reconcile_provisioning e pool g fx = (g, fx, out)"
proof -
  have "fx\<lparr>fx_created := []\<rparr> = fx" using assms(4) by (cases fx) simp
  then have "\<exists>out. reconcile_provisioning e pool g fx = (g, fx, out)"
    by (simp add: reconcile_provisioning_def provisioning_lost_claim [OF assms(1-3)] Let_def)
  then show thesis using that by blast
qed

lemma reconcile_components_lost:
  assumes "reconcile_components e pool upd g fx = Some (g', fx', out)"
    and "ProvisioningToggle g" "c \<in> fst ` set (pending_claims g (gp_Name pool))" "\<forall>w. pe_getClaim (ct_prov e) c \<noteq> Found w"
    and "fx_created fx = []"
  shows "g' = g \<and> fx_created fx' = []"
proof -
  obtain p touched r where c: "reconcilePoolComponents e upd = Some (p, touched, r)"
    using assms(1) by (auto simp: reconcile_components_def split: option.splits)
  obtain out' where "reconcile_provisioning e pool g (fx\<lparr>fx_touched := touched\<rparr>) = (g, fx\<lparr>fx_touched := touched\<rparr>, out')"
    using reconcile_provisioning_lost [OF assms(2-4), of "fx\<lparr>fx_touched := touched\<rparr>"] assms(5) by auto
  then show ?thesis using assms(1,5)
    by (auto simp: reconcile_components_def c Let_def split: components_result.splits option.splits if_splits)
qed

lemma reconcile_pool_lost:
  assumes "reconcile_pool e pool upd g fx = Some (g', fx', out)"
    and "ProvisioningToggle g" "c \<in> fst ` set (pending_claims g (gp_Name pool))" "\<forall>w. pe_getClaim (ct_prov e) c \<noteq> Found w"
    and "fx_created fx = []"
  shows "PendingGPUNodeClaim g' = PendingGPUNodeClaim g \<and> ProvisioningToggle g' = ProvisioningToggle g \<and> fx_created fx' = []"
proof -
  obtain g1 ws ok where s: "reconcilePoolSelectorChange e pool g = (g1, ws, ok)" by (cases "reconcilePoolSelectorChange e pool g")
  note f = reconcilePoolSelectorChange_frame [OF s]
  let ?g2 = "if map_of (provisioningInitializationMinTime g1) (gp_Name pool) = None
     then g1\<lparr>provisioningInitializationMinTime := AList.update (gp_Name pool)
            (ct_now e + StatusCheckInterval * 3) (provisioningInitializationMinTime g1)\<rparr> else g1"
  have g2: "PendingGPUNodeClaim ?g2 = PendingGPUNodeClaim g" "ProvisioningToggle ?g2" using f assms(2) by auto
  show ?thesis
  proof (cases "ok \<and> reconcilePoolCurrentCapacityAndReadiness e pool \<noteq> None")
    case True
    then obtain pool1 where p: "reconcilePoolCurrentCapacityAndReadiness e pool = Some pool1" by blast
    then have "gp_Name pool1 = gp_Name pool"
      by (auto simp: reconcilePoolCurrentCapacityAndReadiness_def Let_def split: option.splits if_splits)
    then have "c \<in> fst ` set (pending_claims ?g2 (gp_Name pool1))" using assms(3) g2(1) by (simp add: pending_claims_def)
    moreover have "reconcile_components e pool1 upd ?g2 (fx\<lparr>fx_hashed := ws\<rparr>) = Some (g', fx', out)"
      using assms(1) True by (simp add: reconcile_pool_def s p Let_def)
    ultimately have "g' = ?g2 \<and> fx_created fx' = []"
      using reconcile_components_lost [OF _ g2(2) _ assms(4)] assms(5) by fastforce
    then show ?thesis using g2 assms(2) by metis
  next
    case False
    then have "g' = g1 \<and> fx' = fx\<lparr>fx_hashed := ws\<rparr>"
      using assms(1) by (cases ok) (auto simp: reconcile_pool_def s Let_def)
    then show ?thesis using f assms(5) by simp
  qed
qed

lemma reconcile_lost_claim:
  assumes "gpupool_Reconcile e g = Some (g', fx, out)" "ProvisioningToggle g"
    and "\<forall>pool meta upd. ct_getPool e = Found (pool, meta, upd) \<longrightarrow> gp_Name pool = P"
    and "c \<in> fst ` set (pending_claims g P)" "\<forall>w. pe_getClaim (ct_prov e) c \<noteq> Found w"
  shows "PendingGPUNodeClaim g' = PendingGPUNodeClaim g \<and> ProvisioningToggle g' = ProvisioningToggle g \<and> fx_created fx = []"
proof (cases "\<exists>pool meta upd. ct_getPool e = Found (pool, meta, upd)")
  case False
  then show ?thesis using assms(1) by (cases "ct_getPool e") (auto simp: gpupool_Reconcile_def no_effects_def)
next
  case True
  then obtain pool meta upd where p: "ct_getPool e = Found (pool, meta, upd)" by blast
  then have P: "gp_Name pool = P" using assms(3) by blast
  obtain deleted hook where d: "(if om_Deleting meta \<and> Finalizer \<in> set (om_Finalizers meta) then cleanUpPool e pool else ([], Some False)) = (deleted, hook)"
    by (metis prod.exhaust)
  obtain meta' stop err where h: "HandleFinalizer hook (ct_finalizerOK e) meta = (meta', stop, err)" by (metis prod.exhaust)
  let ?fx = "no_effects\<lparr>fx_deleted := deleted\<rparr>"
  have r: "gpupool_Reconcile e g = (if err \<noteq> None then Some (g, ?fx, PoolError)
      else if stop \<or> om_Deleting meta then Some (g, ?fx, PoolStop) else reconcile_pool e pool upd g ?fx)"
    by (simp add: gpupool_Reconcile_def p d h Let_def)
  show ?thesis
  proof (cases "err \<noteq> None \<or> stop \<or> om_Deleting meta")
    case True
    then have "g' = g \<and> fx = ?fx" using assms(1) unfolding r by (auto split: if_splits)
    then show ?thesis by (simp add: no_effects_def)
  next
    case False
    then have "reconcile_pool e pool upd g ?fx = Some (g', fx, out)" using assms(1) unfolding r by auto
    then show ?thesis using reconcile_pool_lost [OF _ assms(2) _ assms(5)] assms(4) P by (fastforce simp: no_effects_def)
  qed
qed

text \<open>C34: Once a pending node claim of a pool cannot be read any more, for example because it was deleted
  before its node was bound, no further round of the pool controller creates a claim or clears the pending
  ones, however many rounds there are: the pool never scales up again.\<close>

theorem lost_claim_blocks_provisioning:
  assumes "pool_rounds es g = Some (g', made)" "ProvisioningToggle g" "c \<in> fst ` set (pending_claims g P)"
    and "\<forall>e \<in> set es. (\<forall>pool meta upd. ct_getPool e = Found (pool, meta, upd) \<longrightarrow> gp_Name pool = P)
      \<and> (\<forall>w. pe_getClaim (ct_prov e) c \<noteq> Found w)"
  shows "made = [] \<and> pending_claims g' P = pending_claims g P"
  using assms
proof (induction es arbitrary: g made)
  case Nil
  then show ?case by simp
next
  case (Cons e es)
  then obtain g1 fx out m where s: "gpupool_Reconcile e g = Some (g1, fx, out)" "pool_rounds es g1 = Some (g', m)"
      "made = fx_created fx @ m"
    by (auto split: option.splits)
  have k: "PendingGPUNodeClaim g1 = PendingGPUNodeClaim g" "ProvisioningToggle g1 = ProvisioningToggle g" "fx_created fx = []"
    using reconcile_lost_claim [OF s(1) Cons.prems(2) _ Cons.prems(3)] Cons.prems(4) by simp_all
  then have "pending_claims g1 P = pending_claims g P" by (simp add: pending_claims_def)
  then show ?case using Cons.IH [OF s(2)] Cons.prems k s(3) by simp
qed

definition demo_ctl_env :: ctl_env where
  "demo_ctl_env = \<lparr>ct_ext = demo_ext, ct_now = 10 ^ 12, ct_prov = demo_provision_env, ct_upd = (\<lambda>_. demo_env),
     ct_getPool = Found (demo_provisioned_pool, \<lparr>om_Name = ''pool'', om_Namespace = '''', om_UID = ''u'', om_Labels = [], om_Annotations = [],
       om_Deleting = False, om_Finalizers = [Finalizer]\<rparr>, Some ((demo_upd_pool 25 50)\<lparr>up_Policy := None\<rparr>)),
     ct_finalizerOK = True, ct_destroyingOK = True, ct_ownedClaims = Some [], ct_ownedNodes = Some [], ct_statusOK = True,
     ct_provStatusOK = True, ct_k8sNodes = Some [], ct_match = (\<lambda>_. Some True), ct_hashOK = (\<lambda>_. True),
     ct_nodesOfClaim = (\<lambda>_. NotFound), ct_getNodeClaim = (\<lambda>_. NotFound), ct_deleteOK = (\<lambda>_. True)\<rparr>"

definition lost_globals :: pool_globals where
  "lost_globals = no_globals\<lparr>PendingGPUNodeClaim := [(''pool'', [(''lost'', \<lparr>Tflops = 100, ComputePercent = 0, Vram = 80\<rparr>)])],
     provisioningInitializationMinTime := [(''pool'', 0)]\<rparr>"

lemma demo_lost_round:
  "map_option (\<lambda>(g, fx, out). out) (gpupool_Reconcile demo_ctl_env lost_globals) = Some PoolError"
  by code_simp

theorem lost_claim_blocks_provisioning_witness:
  "\<exists>g' made. pool_rounds [demo_ctl_env] lost_globals = Some (g', made) \<and> made = []
     \<and> map fst (pending_claims g' ''pool'') = [''lost'']"
proof -
  obtain g' fx out where "gpupool_Reconcile demo_ctl_env lost_globals = Some (g', fx, out)"
    using demo_lost_round by (cases "gpupool_Reconcile demo_ctl_env lost_globals") auto
  then have r: "pool_rounds [demo_ctl_env] lost_globals = Some (g', fx_created fx)" by simp
  have p: "pending_claims lost_globals ''pool'' = [(''lost'', \<lparr>Tflops = 100, ComputePercent = 0, Vram = 80\<rparr>)]"
    by (simp add: pending_claims_def lost_globals_def)
  have "fx_created fx = [] \<and> pending_claims g' ''pool'' = pending_claims lost_globals ''pool''"
  proof (rule lost_claim_blocks_provisioning [OF r])
    show "ProvisioningToggle lost_globals" by (simp add: lost_globals_def no_globals_def)
    show "''lost'' \<in> fst ` set (pending_claims lost_globals ''pool'')" by (simp add: p)
  qed (simp add: demo_ctl_env_def demo_provision_env_def demo_provisioned_pool_def demo_pool_def)
  then show ?thesis using r p by simp
qed

end
