(* ===== verification/Workers.thy ===== *)
theory Workers
  imports RollingUpdate
begin

text \<open>
  Workers and the connections to them: the choice of a worker (\<^verbatim>\<open>worker/worker.go\<close>), the workload
  controller that keeps the number of workers (\<^verbatim>\<open>controller/tensorfusionworkload_controller.go\<close>) and the
  connection controller (\<^verbatim>\<open>controller/tensorfusionconnection_controller.go\<close>). Pod templates are
  an answer of the environment here; \<^verbatim>\<open>Compose\<close> models how they are generated. The controllers' results are the objects as the API server stores them.
\<close>

section \<open>Workers\<close>

record worker_pod =
  wp_Name :: string
  wp_Labels :: "(string, string) gomap"
  wp_Annotations :: "(string, string) gomap"
  wp_Finalizers :: "string list"
  wp_Created :: int
  wp_Deleting :: bool
  wp_Phase :: string
  wp_Conditions :: "(string \<times> string) list"
  wp_PodIP :: string
  wp_ResourceVersion :: string

definition PodRunning :: string where
  "PodRunning = ''Running''"

definition PodFailed :: string where
  "PodFailed = ''Failed''"

definition PodUnknown :: string where
  "PodUnknown = ''Unknown''"

definition PodPending :: string where
  "PodPending = ''Pending''"

definition LabelKeyPodTemplateHash :: string where
  "LabelKeyPodTemplateHash = Domain @ ''/pod-template-hash''"

definition LabelWorkerName :: string where
  "LabelWorkerName = Domain @ ''/worker-name''"

definition DedicatedWorkerAnnotation :: string where
  "DedicatedWorkerAnnotation = Domain @ ''/dedicated-worker''"

section \<open>Choice of a worker\<close>

record worker_status =
  wk_WorkerPhase :: string
  wk_WorkerName :: string
  wk_WorkerIp :: string
  wk_ResourceVersion :: string

datatype select_worker_error = ListWorkersFailed | ListConnectionsFailed | ErrNoAvailableWorker

definition usageMapping :: "worker_pod list \<Rightarrow> string list \<Rightarrow> (string, int) gomap" where
  "usageMapping workers conns =
     foldl (\<lambda>m c. if c \<noteq> '''' then AList.update c ((case map_of m c of None \<Rightarrow> 0 | Some n \<Rightarrow> n) + 1) m else m)
       (foldl (\<lambda>m w. AList.update (wp_Name w) 0 m) [] workers) conns"

definition usage_of :: "(string, int) gomap \<Rightarrow> worker_pod \<Rightarrow> int" where
  "usage_of m w = (case map_of m (wp_Name w) of None \<Rightarrow> 0 | Some n \<Rightarrow> n)"

text \<open>\<^verbatim>\<open>lo.MinBy\<close> on a non-empty slice: the first of the smallest.\<close>

fun min_by :: "('a \<Rightarrow> int) \<Rightarrow> 'a \<Rightarrow> 'a list \<Rightarrow> 'a" where
  "min_by f m [] = m"
| "min_by f m (x # xs) = min_by f (if f x < f m then x else m) xs"

definition active_worker :: "worker_pod \<Rightarrow> bool" where
  "active_worker w \<longleftrightarrow> wp_Phase w \<noteq> PodFailed \<and> wp_Phase w \<noteq> PodUnknown \<and> wp_Phase w \<noteq> PodPending"

text \<open>The connections are the worker names in their status; \<open>None\<close> for a failed list.\<close>

definition SelectWorker ::
  "worker_pod list option \<Rightarrow> string list option \<Rightarrow> int \<Rightarrow> select_worker_error + worker_status" where
  "SelectWorker workerList connectionList maxSkew =
     (case workerList of
        None \<Rightarrow> Inl ListWorkersFailed
      | Some workers \<Rightarrow>
          (case connectionList of
             None \<Rightarrow> Inl ListConnectionsFailed
           | Some conns \<Rightarrow>
               let usage = usage_of (usageMapping workers conns); activeWorkers = filter active_worker workers in
               (case activeWorkers of
                  [] \<Rightarrow> Inl ErrNoAvailableWorker
                | a # as \<Rightarrow>
                    let minUsageValue = usage (min_by usage a as);
                        eligibleWorkers = filter (\<lambda>w. usage w \<le> minUsageValue + maxSkew) activeWorkers
                    in (case eligibleWorkers of
                          [] \<Rightarrow> Inr \<lparr>wk_WorkerPhase = '''', wk_WorkerName = '''', wk_WorkerIp = '''', wk_ResourceVersion = ''''\<rparr>
                        | b # bs \<Rightarrow>
                            let s = min_by usage b bs
                            in Inr \<lparr>wk_WorkerPhase = '''', wk_WorkerName = wp_Name s, wk_WorkerIp = wp_PodIP s,
                                    wk_ResourceVersion = wp_ResourceVersion s\<rparr>))))"

section \<open>The workload controller\<close>

record workload_obj =
  wo_Meta :: object_meta
  wo_Replicas :: "int option"
  wo_PoolName :: string
  wo_Spec :: string  \<comment> \<open>serialised\<close>
  wo_PodTemplateHash :: string
  wo_WorkerCount :: int
  wo_ReadyWorkers :: int
  wo_Phase :: string
  wo_Conditions :: "condition list"

definition IsDynamicReplica :: "workload_obj \<Rightarrow> bool" where
  "IsDynamicReplica w \<longleftrightarrow> wo_Replicas w = None"

record workload_env =
  we_get :: "workload_obj get_result"
  we_pods :: "worker_pod list option"
  we_finalizerOK :: bool
  we_pool :: "string \<Rightarrow> string option get_result"  \<comment> \<open>the worker configuration; \<open>None\<close>: no component configuration\<close>
  we_statusOK :: bool
  we_deleteOK :: "string \<Rightarrow> bool"
  we_updatePodOK :: "string \<Rightarrow> bool"
  we_generate :: "nat \<Rightarrow> worker_pod option"  \<comment> \<open>\<^verbatim>\<open>GenerateWorkerPod\<close>\<close>
  we_createOK :: "nat \<Rightarrow> bool"
  we_tie :: "worker_pod \<Rightarrow> nat"
  we_rank :: "worker_pod \<Rightarrow> nat"  \<comment> \<open>the order of \<^verbatim>\<open>controller.ActivePods\<close>\<close>
  we_setCondition :: "condition list \<Rightarrow> condition \<Rightarrow> condition list \<times> bool"  \<comment> \<open>\<^verbatim>\<open>meta.SetStatusCondition\<close>\<close>

record workload_effects =
  wf_created :: "worker_pod list"
  wf_deleted :: "string list"
  wf_unfinalized :: "string list"

definition no_workload_effects :: workload_effects where
  "no_workload_effects = \<lparr>wf_created = [], wf_deleted = [], wf_unfinalized = []\<rparr>"

definition filterActivePods :: "worker_pod list \<Rightarrow> worker_pod list" where
  "filterActivePods pods = filter (\<lambda>p. \<not> wp_Deleting p) pods"

text \<open>A pod that is already being deleted is left alone, but for a finalizer it should not have.\<close>

fun scaleDownWorkers :: "workload_env \<Rightarrow> worker_pod list \<Rightarrow> workload_effects \<Rightarrow> workload_effects \<times> bool" where
  "scaleDownWorkers e [] fx = (fx, True)"
| "scaleDownWorkers e (p # ps) fx =
     (if wp_Deleting p
      then if get_str (wp_Labels p) LabelComponent \<noteq> ComponentWorker \<and> Finalizer \<in> set (wp_Finalizers p)
           then if we_updatePodOK e (wp_Name p)
                then scaleDownWorkers e ps (fx\<lparr>wf_unfinalized := wf_unfinalized fx @ [wp_Name p]\<rparr>)
                else (fx, False)
           else scaleDownWorkers e ps fx
      else if we_deleteOK e (wp_Name p) then scaleDownWorkers e ps (fx\<lparr>wf_deleted := wf_deleted fx @ [wp_Name p]\<rparr>)
           else (fx, False))"

definition tryStartWorker :: "workload_env \<Rightarrow> string \<Rightarrow> string \<Rightarrow> nat \<Rightarrow> worker_pod option" where
  "tryStartWorker e workloadName hash k =
     (case we_generate e k of
        None \<Rightarrow> None
      | Some pod \<Rightarrow>
          if we_createOK e k
          then Some (pod\<lparr>wp_Labels := AList.update LabelKeyPodTemplateHash hash (AList.update WorkloadKey workloadName (wp_Labels pod)),
                         wp_Finalizers := wp_Finalizers pod @ [Finalizer]\<rparr>)
          else None)"

text \<open>The workers from number \<open>k\<close> on, up to the first that cannot be started.\<close>

fun scaleUpWorkers :: "workload_env \<Rightarrow> string \<Rightarrow> string \<Rightarrow> nat \<Rightarrow> nat \<Rightarrow> worker_pod list \<times> bool" where
  "scaleUpWorkers e workloadName hash k 0 = ([], True)"
| "scaleUpWorkers e workloadName hash k (Suc cnt) =
     (case tryStartWorker e workloadName hash k of
        None \<Rightarrow> ([], False)
      | Some p \<Rightarrow> (case scaleUpWorkers e workloadName hash (Suc k) cnt of (ps, ok) \<Rightarrow> (p # ps, ok)))"

datatype workload_outcome = WorkloadPanic | WorkloadError | WorkloadDone

text \<open>The stored workload, the pods changed and how it ended. A slice beyond the list is a panic.\<close>

definition reconcileScaling ::
  "workload_env \<Rightarrow> workload_obj \<Rightarrow> worker_pod list \<Rightarrow> string \<Rightarrow> workload_obj \<times> workload_effects \<times> workload_outcome" where
  "reconcileScaling e w pods podTemplateHash =
     (let activePods = sort_key wp_Created (sort_key (we_tie e) pods);
          outdatedPods = filter (\<lambda>p. get_str (wp_Labels p) LabelKeyPodTemplateHash \<noteq> podTemplateHash) activePods
      in if outdatedPods \<noteq> []
         then (case scaleDownWorkers e outdatedPods no_workload_effects of
                 (fx, ok) \<Rightarrow> (w, fx, if ok then WorkloadDone else WorkloadError))
         else
           let desiredReplicas = (case wo_Replicas w of None \<Rightarrow> 1 | Some n \<Rightarrow> n);
               currentReplicas = s32 (int (length activePods));
               w' = w\<lparr>wo_WorkerCount := currentReplicas\<rparr>;
               diff = s32 (currentReplicas - desiredReplicas)
           in if wo_WorkerCount w \<noteq> currentReplicas \<and> \<not> we_statusOK e then (w, no_workload_effects, WorkloadError)
              else if diff < 0
              then (case scaleUpWorkers e (om_Name (wo_Meta w)) podTemplateHash 0 (nat (- diff)) of
                      (ps, ok) \<Rightarrow> (w', no_workload_effects\<lparr>wf_created := ps\<rparr>, if ok then WorkloadDone else WorkloadError))
              else if 0 < diff
              then let ordered = (if diff < s32 (int (length activePods)) then sort_key (we_rank e) activePods else activePods)
                   in if length ordered < nat diff then (w', no_workload_effects, WorkloadPanic)
                      else (case scaleDownWorkers e (take (nat diff) ordered) no_workload_effects of
                              (fx, ok) \<Rightarrow> (w', fx, if ok then WorkloadDone else WorkloadError))
              else (w', no_workload_effects, WorkloadDone))"

definition ConditionStatusTypeReady :: string where
  "ConditionStatusTypeReady = ''Ready''"

definition readyReplicas :: "worker_pod list \<Rightarrow> int" where
  "readyReplicas pods = s32 (int (length (filter (\<lambda>p. \<not> wp_Deleting p \<and> wp_Phase p = PodRunning
     \<and> IsPodConditionTrue (wp_Conditions p) ConditionStatusTypeReady) pods)))"

definition failedWorkers :: "worker_pod list \<Rightarrow> nat" where
  "failedWorkers pods = length (filter (\<lambda>p. \<not> wp_Deleting p \<and> wp_Phase p = PodFailed) pods)"

definition workload_condition :: "workload_obj \<Rightarrow> worker_pod list \<Rightarrow> string \<times> bool \<times> string \<times> string" where
  "workload_condition w pods =
     (if failedWorkers pods > 0
      then (''Failed'', False, ''WorkerFailed'', ''Failed workers num: '' @ show_nat (failedWorkers pods))
      else case wo_Replicas w of
             None \<Rightarrow> (''Running'', True, ''WorkloadReady'', ''All dynamic worker replicas are running'')
           | Some n \<Rightarrow>
               if readyReplicas pods = n then (''Running'', True, ''WorkloadReady'', ''All workers are running'')
               else (''Pending'', False, ''WaitingForWorkers'',
                     ''Ready replicas: '' @ show_int (readyReplicas pods) @ ''/'' @ show_int n))"

definition updateStatus :: "workload_env \<Rightarrow> workload_obj \<Rightarrow> worker_pod list \<Rightarrow> workload_obj \<times> workload_outcome" where
  "updateStatus e w pods =
     (let (phase, status, reason, message) = workload_condition w pods;
          (conds, conditionsChanged) = we_setCondition e (wo_Conditions w)
            \<lparr>cond_Type = ConditionStatusTypeReady, cond_Status = status, cond_Reason = reason, cond_Message = message\<rparr>;
          totalReplicasChanged = (wo_WorkerCount w \<noteq> s32 (int (length pods)) \<and> IsDynamicReplica w);
          statusChanged = (totalReplicasChanged \<or> wo_ReadyWorkers w \<noteq> readyReplicas pods \<or> wo_Phase w \<noteq> phase \<or> conditionsChanged);
          w' = w\<lparr>wo_Conditions := conds, wo_Phase := phase, wo_ReadyWorkers := readyReplicas pods,
                 wo_WorkerCount := (if totalReplicasChanged then s32 (int (length pods)) else wo_WorkerCount w)\<rparr>
      in if \<not> statusChanged then (w, WorkloadDone)
         else if we_statusOK e then (w', WorkloadDone) else (w, WorkloadError))"

definition workload_Reconcile :: "workload_env \<Rightarrow> workload_obj option \<times> workload_effects \<times> workload_outcome" where
  "workload_Reconcile e =
     (case we_get e of
        NotFound \<Rightarrow> (None, no_workload_effects, WorkloadDone)
      | GetFailed \<Rightarrow> (None, no_workload_effects, WorkloadError)
      | Found w \<Rightarrow>
          (case we_pods e of
             None \<Rightarrow> (Some w, no_workload_effects, WorkloadError)
           | Some podList \<Rightarrow>
               let activePods = filterActivePods podList;
                   hooked = (om_Deleting (wo_Meta w) \<and> Finalizer \<in> set (om_Finalizers (wo_Meta w)));
                   (fx, hook) = (if \<not> hooked then (no_workload_effects, Some False)
                                 else if IsDynamicReplica w \<or> activePods = [] then (no_workload_effects, Some True)
                                 else (case scaleDownWorkers e activePods no_workload_effects of
                                         (fx, ok) \<Rightarrow> (fx, if ok then Some False else None)));
                   (meta', shouldReturn, err) = HandleFinalizer hook (we_finalizerOK e) (wo_Meta w);
                   w1 = w\<lparr>wo_Meta := meta'\<rparr>
               in if err \<noteq> None then (Some w1, fx, WorkloadError)
                  else if shouldReturn then (Some w1, fx, WorkloadDone)
                  else if om_Deleting (wo_Meta w) then (Some w1, fx, WorkloadDone)
                  else (case we_pool e (wo_PoolName w) of
                          Found (Some workerConfig) \<Rightarrow>
                            let podTemplateHash = PodTemplateHash workerConfig (wo_Spec w) in
                            if wo_PodTemplateHash w1 \<noteq> podTemplateHash
                            then if we_statusOK e then (Some (w1\<lparr>wo_PodTemplateHash := podTemplateHash\<rparr>), fx, WorkloadDone)
                                 else (Some w1, fx, WorkloadError)
                            else let (w2, fx2, out) = (if IsDynamicReplica w1 then (w1, fx, WorkloadDone)
                                                       else reconcileScaling e w1 activePods podTemplateHash)
                                 in if out \<noteq> WorkloadDone then (Some w2, fx2, out)
                                    else (case updateStatus e w2 activePods of (w3, out3) \<Rightarrow> (Some w3, fx2, out3))
                        | Found None \<Rightarrow> (Some w1, fx, WorkloadPanic)
                        | _ \<Rightarrow> (Some w1, fx, WorkloadError))))"

end
