(* ===== verification/Connections.thy ===== *)
theory Connections
  imports Workers
begin

text \<open>
  The connection controller, \<^verbatim>\<open>controller/tensorfusionconnection_controller.go\<close>. Results are the
  connection as it is stored after the round, the pods created and deleted, and how the round ended.
\<close>

record connection =
  cn_Name :: string
  cn_Labels :: "(string, string) gomap"
  cn_Deleting :: bool
  cn_Phase :: string
  cn_WorkerName :: string
  cn_ConnectionURL :: string

text \<open>
  Pods are looked up in the namespace of the connection; the workers and connections of a workload are
  listed in all namespaces. \<open>ke_mergeLabels\<close> is what the answer of a status update makes of the labels
  in memory, given the stored ones.
\<close>

record conn_env =
  ke_get :: "connection get_result"
  ke_workload :: "string \<Rightarrow> workload_obj get_result"
  ke_pool :: "string \<Rightarrow> string option get_result"
  ke_pod :: "string \<Rightarrow> worker_pod get_result"
  ke_workers :: "worker_pod list option"
  ke_connections :: "string list option"
  ke_statusOK :: bool
  ke_mergeLabels :: "(string, string) gomap \<Rightarrow> (string, string) gomap \<Rightarrow> (string, string) gomap"
  ke_patchOK :: bool
  ke_generate :: "worker_pod option"
  ke_createOK :: bool
  ke_deleteOK :: bool

datatype conn_outcome = ConnError | ConnDone | ConnRequeue int | ConnPanic

definition WorkerPending :: string where
  "WorkerPending = ''Pending''"

definition WorkerRunning :: string where
  "WorkerRunning = ''Running''"

definition WorkerFailed :: string where
  "WorkerFailed = ''Failed''"

definition TensorFusionRemoteWorkerPortNumber :: int where
  "TensorFusionRemoteWorkerPortNumber = 8000"

definition ConnStatusCheckInterval :: int where
  "ConnStatusCheckInterval = 6000000000"

definition setConnectionWorkerURL :: "connection \<Rightarrow> string \<Rightarrow> string \<Rightarrow> string \<Rightarrow> connection" where
  "setConnectionWorkerURL c podIp podName revision =
     c\<lparr>cn_ConnectionURL := ''native+'' @ podIp @ ''+'' @ show_int TensorFusionRemoteWorkerPortNumber @ ''+'' @ podName @ ''-'' @ revision\<rparr>"

definition revision_of :: "string \<Rightarrow> string" where
  "revision_of r = (if r = '''' then ''0'' else r)"

text \<open>The stored connection and whether a worker must be selected; \<open>None\<close> after an error.\<close>

definition shouldSelectWorker :: "conn_env \<Rightarrow> connection \<Rightarrow> connection \<times> bool option" where
  "shouldSelectWorker e c =
     (if cn_WorkerName c \<noteq> ''''
      then let running = (\<lambda>pod. wp_Phase pod = PodRunning);
               failed = c\<lparr>cn_WorkerName := '''', cn_Phase := WorkerFailed, cn_ConnectionURL := ''''\<rparr>
           in (case ke_pod e (cn_WorkerName c) of
                 GetFailed \<Rightarrow> (c, None)
               | NotFound \<Rightarrow> if ke_statusOK e then (failed, Some False) else (c, None)
               | Found pod \<Rightarrow>
                   if \<not> running pod then if ke_statusOK e then (failed, Some False) else (c, None)
                   else if cn_Phase c \<noteq> WorkerRunning
                   then if ke_statusOK e
                        then (setConnectionWorkerURL (c\<lparr>cn_Phase := WorkerRunning\<rparr>) (wp_PodIP pod) (wp_Name pod) (wp_ResourceVersion pod), Some False)
                        else (c, None)
                   else (c, Some False))
      else if cn_Phase c = ''''
      then if ke_statusOK e then (c\<lparr>cn_Phase := WorkerPending\<rparr>, Some True) else (c, None)
      else (c, Some True))"

definition syncDedicatedWorkerStatus :: "conn_env \<Rightarrow> connection \<Rightarrow> connection \<times> conn_outcome" where
  "syncDedicatedWorkerStatus e c =
     (case ke_pod e (cn_Name c) of
        Found pod \<Rightarrow>
          if wp_Phase pod \<noteq> PodRunning then (c, ConnDone)
          else if ke_statusOK e
          then (setConnectionWorkerURL (c\<lparr>cn_Phase := WorkerRunning, cn_WorkerName := wp_Name pod\<rparr>) (wp_PodIP pod) (wp_Name pod)
                  (revision_of (wp_ResourceVersion pod)), ConnDone)
          else (c, ConnError)
      | _ \<Rightarrow> (c, ConnError))"

text \<open>\<open>mem\<close> are the labels in memory; the patch writes the worker's name into the stored ones.\<close>

definition patchMatchedWorkerLabel :: "conn_env \<Rightarrow> (string, string) gomap \<Rightarrow> connection \<Rightarrow> string \<Rightarrow> connection \<times> bool" where
  "patchMatchedWorkerLabel e mem c latestWorkerName =
     (if map_of mem LabelWorkerName = Some latestWorkerName then (c, True)
      else if ke_patchOK e then (c\<lparr>cn_Labels := AList.update LabelWorkerName latestWorkerName (cn_Labels c)\<rparr>, True)
      else (c, False))"

definition selectWorkerAndSyncStatusFromWorkerPool :: "conn_env \<Rightarrow> connection \<Rightarrow> workload_obj \<Rightarrow> connection \<times> conn_outcome" where
  "selectWorkerAndSyncStatusFromWorkerPool e c w =
     (if (case wo_Replicas w of None \<Rightarrow> True | Some n \<Rightarrow> n \<le> 0) then (c, ConnError)
      else case map_of (cn_Labels c) WorkloadKey of
             None \<Rightarrow> (c, ConnError)
           | Some _ \<Rightarrow>
               (case SelectWorker (ke_workers e) (ke_connections e) 1 of
                  Inl ErrNoAvailableWorker \<Rightarrow> (c, ConnRequeue ConnStatusCheckInterval)
                | Inl _ \<Rightarrow> (c, ConnError)
                | Inr s \<Rightarrow>
                    if \<not> ke_statusOK e then (c, ConnError)
                    else let c1 = setConnectionWorkerURL (c\<lparr>cn_Phase := wk_WorkerPhase s, cn_WorkerName := wk_WorkerName s\<rparr>)
                               (wk_WorkerIp s) (wk_WorkerName s) (revision_of (wk_ResourceVersion s));
                             mem = ke_mergeLabels e (cn_Labels c) (AList.update LabelWorkerName (wk_WorkerName s) (cn_Labels c))
                         in (case patchMatchedWorkerLabel e mem c1 (wk_WorkerName s) of
                               (c2, ok) \<Rightarrow> (c2, if ok then ConnDone else ConnError))))"

definition startDedicatedWorkerPod :: "conn_env \<Rightarrow> connection \<Rightarrow> workload_obj \<Rightarrow> string \<Rightarrow> worker_pod option" where
  "startDedicatedWorkerPod e c w podTemplateHash =
     (case ke_generate e of
        None \<Rightarrow> None
      | Some pod \<Rightarrow>
          if ke_createOK e
          then Some (pod\<lparr>wp_Name := cn_Name c,
                 wp_Labels := AList.update LabelKeyPodTemplateHash podTemplateHash (AList.update WorkloadKey (om_Name (wo_Meta w)) (wp_Labels pod)),
                 wp_Annotations := AList.update DedicatedWorkerAnnotation TrueStringValue (wp_Annotations pod),
                 wp_Finalizers := wp_Finalizers pod @ [Finalizer]\<rparr>)
          else None)"

text \<open>The pods created and deleted, and how it ended.\<close>

definition createDedicatedWorker :: "conn_env \<Rightarrow> workload_obj \<Rightarrow> connection \<Rightarrow> worker_pod list \<times> string list \<times> conn_outcome" where
  "createDedicatedWorker e w c =
     (if cn_Deleting c then ([], [], ConnDone)
      else case ke_pool e (wo_PoolName w) of
             Found None \<Rightarrow> ([], [], ConnPanic)
           | Found (Some workerConfig) \<Rightarrow>
               let podTemplateHash = PodTemplateHash workerConfig (wo_Spec w) in
               (case ke_pod e (cn_Name c) of
                  NotFound \<Rightarrow>
                    (case startDedicatedWorkerPod e c w podTemplateHash of
                       None \<Rightarrow> ([], [], ConnError) | Some pod \<Rightarrow> ([pod], [], ConnDone))
                | GetFailed \<Rightarrow> ([], [], ConnError)
                | Found pod \<Rightarrow>
                    if wp_Deleting pod then ([], [], ConnError)
                    else if get_str (wp_Labels pod) LabelKeyPodTemplateHash \<noteq> podTemplateHash
                    then if ke_deleteOK e then ([], [wp_Name pod], ConnDone) else ([], [], ConnError)
                    else ([], [], ConnDone))
           | _ \<Rightarrow> ([], [], ConnError))"

definition connection_Reconcile :: "conn_env \<Rightarrow> connection option \<times> worker_pod list \<times> string list \<times> conn_outcome" where
  "connection_Reconcile e =
     (case ke_get e of
        NotFound \<Rightarrow> (None, [], [], ConnDone)
      | GetFailed \<Rightarrow> (None, [], [], ConnError)
      | Found c \<Rightarrow>
          (case ke_workload e (get_str (cn_Labels c) WorkloadKey) of
             Found w \<Rightarrow>
               let (made, gone, out) = (if IsDynamicReplica w then createDedicatedWorker e w c else ([], [], ConnDone))
               in if out \<noteq> ConnDone then (Some c, made, gone, out)
                  else (case shouldSelectWorker e c of
                          (c', None) \<Rightarrow> (Some c', made, gone, ConnError)
                        | (c', Some False) \<Rightarrow> (Some c', made, gone, ConnDone)
                        | (c', Some True) \<Rightarrow>
                            (case (if IsDynamicReplica w then syncDedicatedWorkerStatus e c'
                                   else selectWorkerAndSyncStatusFromWorkerPool e c' w) of
                               (c'', out') \<Rightarrow> (Some c'', made, gone, out')))
           | _ \<Rightarrow> (Some c, [], [], ConnError)))"

end
