(* ===== verification/WorkerProps.thy ===== *)
theory WorkerProps
  imports Connections
begin

text \<open>
  Properties of workers and connections: the least used active worker is selected, a workload reaches its
  number of replicas, and a connection may wait for ever behind a worker that has finished.
\<close>

section \<open>Choice of a worker\<close>

definition least :: "('a \<Rightarrow> int) \<Rightarrow> 'a list \<Rightarrow> 'a \<Rightarrow> bool" where
  "least f xs x \<longleftrightarrow> (\<forall>y \<in> set xs. f x \<le> f y)"

lemma min_by_first: "min_by f m xs = hd (filter (least f (m # xs)) (m # xs))"
proof (induction f m xs rule: min_by.induct)
  case (1 f m)
  then show ?case by (simp add: least_def)
next
  case (2 f m x xs)
  show ?case
  proof (cases "f x < f m")
    case True
    then have "\<not> least f (m # x # xs) m" by (auto simp: least_def)
    moreover have "y \<in> set (x # xs) \<Longrightarrow> least f (m # x # xs) y = least f (x # xs) y" for y
      using True by (auto simp: least_def)
    then have "filter (least f (m # x # xs)) (x # xs) = filter (least f (x # xs)) (x # xs)" by (rule filter_cong [OF refl])
    ultimately show ?thesis using 2 True by simp
  next
    case False
    then have m: "least f (m # x # xs) y = least f (m # xs) y" for y by (fastforce simp: least_def)
    show ?thesis
    proof (cases "least f (m # xs) m")
      case True
      then show ?thesis using 2 False by (simp add: m)
    next
      case nm: False
      then have "\<not> least f (m # xs) x" using False by (force simp: least_def)
      then show ?thesis using 2 False nm by (simp add: m)
    qed
  qed
qed

lemma least_exists: "xs \<noteq> [] \<Longrightarrow> \<exists>x \<in> set xs. least f xs x"
proof -
  assume "xs \<noteq> []"
  then obtain x where "x \<in> set xs" "\<forall>y \<in> set xs. f x \<le> f y"
    using ex_min_if_finite [of "f ` set xs"] by (auto simp: not_less)
  then show ?thesis by (auto simp: least_def)
qed

lemma min_by_least: "min_by f m xs \<in> set (m # xs) \<and> least f (m # xs) (min_by f m xs)"
proof -
  have "filter (least f (m # xs)) (m # xs) \<noteq> []" using least_exists [of "m # xs" f] by (auto simp: filter_empty_conv)
  then have "hd (filter (least f (m # xs)) (m # xs)) \<in> set (filter (least f (m # xs)) (m # xs))" by (rule hd_in_set)
  then show ?thesis unfolding min_by_first unfolding set_filter by blast
qed

text \<open>Leaving out elements that are not among the smallest does not change the choice.\<close>

lemma min_by_filter:
  assumes "\<forall>x \<in> set (m # xs). least f (m # xs) x \<longrightarrow> P x" "filter P (m # xs) = b # bs"
  shows "min_by f b bs = min_by f m xs"
proof -
  obtain z where z: "z \<in> set (m # xs)" "least f (m # xs) z" using least_exists [of "m # xs" f] by auto
  then have "z \<in> set (filter P (m # xs))" using assms(1) by auto
  have "least f (filter P (m # xs)) x = least f (m # xs) x" if "x \<in> set (filter P (m # xs))" for x
    using \<open>z \<in> set (filter P (m # xs))\<close> z(2) that unfolding least_def by (metis filter_is_subset in_mono order_trans)
  then have "filter (least f (filter P (m # xs))) (filter P (m # xs)) = filter (least f (m # xs)) (filter P (m # xs))"
    by (rule filter_cong [OF refl])
  also have "\<dots> = filter (least f (m # xs)) (m # xs)"
    using assms(1) unfolding filter_filter by (intro filter_cong [OF refl]) auto
  finally show ?thesis unfolding min_by_first using assms(2) by simp
qed

text \<open>The usage the code counts in a map is the number of connections of the worker.\<close>

lemma usage_count:
  assumes "wp_Name w \<noteq> ''''"
  shows "usage_of (usageMapping workers conns) w = int (count_list conns (wp_Name w))"
proof -
  let ?lk = "\<lambda>m k. case map_of m k of None \<Rightarrow> 0 | Some n \<Rightarrow> (n :: int)"
  let ?f = "\<lambda>m c. if c \<noteq> '''' then AList.update c (?lk m c + 1) m else m"
  have init: "?lk (foldl (\<lambda>m w. AList.update (wp_Name w) 0 m) m workers) k = ?lk m k" if "?lk m k = 0" for m :: "(string, int) gomap" and k
    using that by (induction workers arbitrary: m) (auto simp: AList.update_conv')
  have "k \<noteq> '''' \<Longrightarrow> ?lk (foldl ?f m conns) k = ?lk m k + int (count_list conns k)" for m k
    by (induction conns arbitrary: m) (auto simp: AList.update_conv')
  then show ?thesis using assms init [of "[]" "wp_Name w"] by (simp add: usage_of_def usageMapping_def)
qed

lemma selected_worker_first:
  assumes "0 \<le> maxSkew" "\<forall>w \<in> set workers. wp_Name w \<noteq> ''''"
  shows "SelectWorker (Some workers) (Some conns) maxSkew =
    (case filter (\<lambda>w. active_worker w \<and> (\<forall>v \<in> set workers. active_worker v \<longrightarrow>
             count_list conns (wp_Name w) \<le> count_list conns (wp_Name v))) workers of
       [] \<Rightarrow> Inl ErrNoAvailableWorker
     | w # _ \<Rightarrow> Inr \<lparr>wk_WorkerPhase = '''', wk_WorkerName = wp_Name w, wk_WorkerIp = wp_PodIP w,
                    wk_ResourceVersion = wp_ResourceVersion w\<rparr>)"
proof (cases "filter active_worker workers")
  case Nil
  then have "\<forall>w \<in> set workers. \<not> active_worker w" by (simp add: filter_empty_conv)
  then have "filter (\<lambda>w. active_worker w \<and> (\<forall>v \<in> set workers. active_worker v \<longrightarrow>
      count_list conns (wp_Name w) \<le> count_list conns (wp_Name v))) workers = []" by simp
  then show ?thesis using Nil by (simp add: SelectWorker_def Let_def)
next
  case (Cons a as)
  let ?u = "usage_of (usageMapping workers conns)"
  have act: "set (a # as) = {w \<in> set workers. active_worker w}" using Cons by (metis set_filter)
  have u: "?u w = int (count_list conns (wp_Name w))" if "w \<in> set workers" for w using that assms(2) by (simp add: usage_count)
  let ?P = "\<lambda>w. ?u w \<le> ?u (min_by ?u a as) + maxSkew"
  have "\<forall>x \<in> set (a # as). least ?u (a # as) x \<longrightarrow> ?P x"
    using min_by_least [of ?u a as] assms(1) by (force simp: least_def)
  moreover have "min_by ?u a as \<in> set (filter ?P (a # as))" using min_by_least [of ?u a as] assms(1) by auto
  then obtain b bs where b: "filter ?P (a # as) = b # bs" by (cases "filter ?P (a # as)") auto
  ultimately have m: "min_by ?u b bs = min_by ?u a as" by (rule min_by_filter)
  have l: "filter (least ?u (a # as)) (a # as) = filter (\<lambda>w. active_worker w \<and> (\<forall>v \<in> set workers. active_worker v \<longrightarrow>
      count_list conns (wp_Name w) \<le> count_list conns (wp_Name v))) workers"
    unfolding Cons [symmetric] filter_filter
    by (intro filter_cong [OF refl]) (auto simp: least_def u)
  have "filter (least ?u (a # as)) (a # as) \<noteq> []" using least_exists [of "a # as" ?u] unfolding filter_empty_conv by blast
  then obtain w ws where w: "filter (least ?u (a # as)) (a # as) = w # ws" unfolding neq_Nil_conv by blast
  then have "min_by ?u a as = w" by (simp only: min_by_first list.sel)
  then show ?thesis using b m w l by (simp add: SelectWorker_def Let_def Cons del: filter.simps)
qed

text \<open>C36: With a non-negative skew a worker is selected exactly when there is an active one, and the
  skew has no effect: the one selected is the first of the active workers with the fewest connections.\<close>

theorem selected_worker_least_used:
  assumes "0 \<le> maxSkew" "\<forall>w \<in> set workers. wp_Name w \<noteq> ''''"
  shows "SelectWorker (Some workers) (Some conns) maxSkew =
    (case filter (\<lambda>w. active_worker w \<and> (\<forall>v \<in> set workers. active_worker v \<longrightarrow>
             count_list conns (wp_Name w) \<le> count_list conns (wp_Name v))) workers of
       [] \<Rightarrow> Inl ErrNoAvailableWorker
     | w # _ \<Rightarrow> Inr \<lparr>wk_WorkerPhase = '''', wk_WorkerName = wp_Name w, wk_WorkerIp = wp_PodIP w,
                    wk_ResourceVersion = wp_ResourceVersion w\<rparr>)"
  using assms by (rule selected_worker_first)

definition demo_worker :: "string \<Rightarrow> string \<Rightarrow> worker_pod" where
  "demo_worker name phase = \<lparr>wp_Name = name, wp_Labels = [], wp_Annotations = [], wp_Finalizers = [], wp_Created = 0, wp_Deleting = False,
     wp_Phase = phase, wp_Conditions = [], wp_PodIP = ''10.0.0.1'', wp_ResourceVersion = ''7''\<rparr>"

theorem selected_worker_least_used_witness:
  "map_sum id wk_WorkerName (SelectWorker
     (Some [demo_worker ''a'' PodRunning, demo_worker ''b'' PodFailed, demo_worker ''c'' PodRunning, demo_worker ''d'' PodRunning])
     (Some [''a'', ''d'', ''c'', ''a'']) 1) = Inr ''c''"
  by (subst selected_worker_least_used) (simp_all add: demo_worker_def active_worker_def PodRunning_def PodFailed_def PodUnknown_def PodPending_def)

section \<open>Connections\<close>

text \<open>One round for a connection of a workload with the given workers and other connections.\<close>

definition conn_round :: "conn_env \<Rightarrow> string list \<Rightarrow> connection \<Rightarrow> connection" where
  "conn_round e others c =
     (case connection_Reconcile (e\<lparr>ke_get := Found c, ke_connections := Some (others @ [cn_WorkerName c])\<rparr>) of
        (Some c', _) \<Rightarrow> c' | (None, _) \<Rightarrow> c)"

definition not_running :: "conn_env \<Rightarrow> string \<Rightarrow> bool" where
  "not_running e name \<longleftrightarrow> (case ke_pod e name of Found p \<Rightarrow> wp_Phase p \<noteq> PodRunning | _ \<Rightarrow> True)"

lemma select_not_running:
  assumes workers: "ke_workers e = Some workers" "\<forall>w \<in> set workers. wp_Name w \<noteq> '''' \<and> ke_pod e (wp_Name w) = Found w"
    and s: "s \<in> set workers" "active_worker s"
      "\<forall>r \<in> set workers. wp_Phase r = PodRunning \<longrightarrow> count_list conns (wp_Name s) < count_list conns (wp_Name r)"
    and sel: "SelectWorker (ke_workers e) (Some conns) 1 = Inr st"
  shows "not_running e (wk_WorkerName st) \<and> wk_WorkerPhase st = ''''"
proof -
  let ?L = "filter (\<lambda>w. active_worker w \<and> (\<forall>v \<in> set workers. active_worker v \<longrightarrow>
      count_list conns (wp_Name w) \<le> count_list conns (wp_Name v))) workers"
  have n: "\<forall>w \<in> set workers. wp_Name w \<noteq> ''''" using workers(2) by blast
  have "SelectWorker (Some workers) (Some conns) 1 = Inr st" using sel workers(1) by simp
  then obtain w ws where w: "?L = w # ws" "wk_WorkerName st = wp_Name w" "wk_WorkerPhase st = ''''"
    using selected_worker_first [OF _ n, of 1 conns] by (auto split: list.splits)
  then have "w \<in> set ?L" by simp
  then have "w \<in> set workers" "count_list conns (wp_Name w) \<le> count_list conns (wp_Name s)" using s(1,2) by auto
  then have "wp_Phase w \<noteq> PodRunning" "ke_pod e (wp_Name w) = Found w" using s(3) workers(2) by fastforce+
  then show ?thesis using w(2,3) by (simp add: not_running_def)
qed

definition waiting :: "conn_env \<Rightarrow> connection \<Rightarrow> bool" where
  "waiting e c \<longleftrightarrow> cn_Phase c \<noteq> WorkerRunning \<and> (cn_WorkerName c \<noteq> '''' \<longrightarrow> not_running e (cn_WorkerName c))"

lemma shouldSelectWorker_waiting:
  assumes "waiting e c" "shouldSelectWorker e c = (c', r)"
  shows "waiting e c'" "r = Some True \<Longrightarrow> cn_WorkerName c' = '''' \<and> cn_WorkerName c = ''''"
  using assms
  by (auto simp: waiting_def shouldSelectWorker_def not_running_def WorkerFailed_def WorkerRunning_def WorkerPending_def Let_def
      split: if_splits get_result.splits)

lemma select_from_pool_waiting:
  assumes workers: "ke_workers e = Some workers" "\<forall>w \<in> set workers. wp_Name w \<noteq> '''' \<and> ke_pod e (wp_Name w) = Found w"
    and s: "s \<in> set workers" "active_worker s"
      "\<forall>r \<in> set workers. wp_Phase r = PodRunning \<longrightarrow> count_list conns (wp_Name s) < count_list conns (wp_Name r)"
    and c: "ke_connections e = Some conns" "waiting e c"
    and r: "selectWorkerAndSyncStatusFromWorkerPool e c w = (c', out)"
  shows "waiting e c'"
proof -
  have "c' = c \<or> (\<exists>st. SelectWorker (ke_workers e) (Some conns) 1 = Inr st
      \<and> cn_Phase c' = wk_WorkerPhase st \<and> cn_WorkerName c' = wk_WorkerName st)"
    using r c(1) by (auto simp: selectWorkerAndSyncStatusFromWorkerPool_def patchMatchedWorkerLabel_def setConnectionWorkerURL_def Let_def
        split: if_splits option.splits sum.splits select_worker_error.splits)
  then show ?thesis
    using c(2) select_not_running [OF workers s] by (auto simp: waiting_def WorkerRunning_def)
qed

lemma conn_round_waiting:
  assumes workers: "ke_workers e = Some workers" "\<forall>w \<in> set workers. wp_Name w \<noteq> '''' \<and> ke_pod e (wp_Name w) = Found w"
    and s: "s \<in> set workers" "active_worker s"
      "\<forall>r \<in> set workers. wp_Phase r = PodRunning \<longrightarrow> count_list others (wp_Name s) < count_list others (wp_Name r)"
    and fixed: "\<forall>name w. ke_workload e name = Found w \<longrightarrow> wo_Replicas w \<noteq> None" and c: "waiting e c"
  shows "waiting e (conn_round e others c)"
proof -
  let ?e = "e\<lparr>ke_get := Found c, ke_connections := Some (others @ [cn_WorkerName c])\<rparr>"
  have w: "waiting ?e d = waiting e d" for d by (simp add: waiting_def not_running_def)
  obtain c1 r where sel: "shouldSelectWorker ?e c = (c1, r)" by (cases "shouldSelectWorker ?e c")
  note c1 = shouldSelectWorker_waiting [of ?e c c1 r, OF _ sel, unfolded w, OF c]
  show ?thesis
  proof (cases "ke_workload e (get_str (cn_Labels c) WorkloadKey)")
    case (Found wl)
    then have nd: "\<not> IsDynamicReplica wl" using fixed by (simp add: IsDynamicReplica_def)
    show ?thesis
    proof (cases "r = Some True")
      case False
      then have "conn_round e others c = c1"
        using Found nd sel by (auto simp: conn_round_def connection_Reconcile_def split: option.splits bool.splits)
      then show ?thesis using c1(1) by simp
    next
      case True
      obtain c2 out where p: "selectWorkerAndSyncStatusFromWorkerPool ?e c1 wl = (c2, out)"
        by (cases "selectWorkerAndSyncStatusFromWorkerPool ?e c1 wl")
      have "waiting ?e c2"
      proof (rule select_from_pool_waiting [OF _ _ s(1,2) _ _ _ p])
        have "cn_WorkerName c = ''''" using c1(2) True by blast
        then have "count_list (others @ [cn_WorkerName c]) (wp_Name v) = count_list others (wp_Name v)" if "v \<in> set workers" for v
          using that workers(2) by auto
        then show "\<forall>r \<in> set workers. wp_Phase r = PodRunning \<longrightarrow>
            count_list (others @ [cn_WorkerName c]) (wp_Name s) < count_list (others @ [cn_WorkerName c]) (wp_Name r)"
          using s(1,3) by simp
      qed (use workers c1(1) w in simp_all)
      moreover have "conn_round e others c = c2"
        using Found nd sel True p by (simp add: conn_round_def connection_Reconcile_def)
      ultimately show ?thesis by (simp add: w)
    qed
  qed (use c in \<open>simp_all add: conn_round_def connection_Reconcile_def\<close>)
qed

text \<open>C37: A worker that has finished still counts as active. While one has fewer connections than every
  running worker, a connection that is not yet running is given such a worker, loses it in the next round
  because it does not run, and so never becomes running, however many rounds there are, although running
  workers may be there.\<close>

theorem finished_worker_starves_connections:
  assumes "ke_workers e = Some workers" "\<forall>w \<in> set workers. wp_Name w \<noteq> '''' \<and> ke_pod e (wp_Name w) = Found w"
    and "s \<in> set workers" "active_worker s"
      "\<forall>r \<in> set workers. wp_Phase r = PodRunning \<longrightarrow> count_list others (wp_Name s) < count_list others (wp_Name r)"
    and "\<forall>name w. ke_workload e name = Found w \<longrightarrow> wo_Replicas w \<noteq> None"
    and "cn_Phase c \<noteq> WorkerRunning" "cn_WorkerName c = ''''"
  shows "cn_Phase ((conn_round e others ^^ n) c) \<noteq> WorkerRunning"
proof -
  have "waiting e ((conn_round e others ^^ n) c)"
  proof (induction n)
    case 0
    then show ?case using assms(7,8) by (simp add: waiting_def)
  next
    case (Suc n)
    then show ?case using conn_round_waiting [OF assms(1-6)] by simp
  qed
  then show ?thesis by (simp add: waiting_def)
qed

definition demo_workload :: "string \<Rightarrow> workload_obj" where
  "demo_workload hash = \<lparr>wo_Meta = \<lparr>om_Name = ''w'', om_Namespace = ''ns'', om_UID = ''u'', om_Labels = [], om_Annotations = [],
     om_Deleting = False, om_Finalizers = [Finalizer]\<rparr>, wo_Replicas = Some 2, wo_PoolName = ''p'', wo_Spec = '''',
     wo_PodTemplateHash = hash, wo_WorkerCount = 0, wo_ReadyWorkers = 0, wo_Phase = '''', wo_Conditions = []\<rparr>"

definition demo_conn_env :: conn_env where
  "demo_conn_env = \<lparr>ke_get = NotFound, ke_workload = (\<lambda>_. Found (demo_workload ''h'')), ke_pool = (\<lambda>_. Found (Some '''')),
     ke_pod = (\<lambda>n. if n = ''run'' then Found (demo_worker ''run'' PodRunning) else if n = ''fin'' then Found (demo_worker ''fin'' ''Succeeded'') else NotFound),
     ke_workers = Some [demo_worker ''run'' PodRunning, demo_worker ''fin'' ''Succeeded''], ke_connections = Some [],
     ke_statusOK = True, ke_mergeLabels = (\<lambda>stored mem. stored), ke_patchOK = True, ke_generate = None, ke_createOK = True, ke_deleteOK = True\<rparr>"

definition demo_connection :: connection where
  "demo_connection = \<lparr>cn_Name = ''c'', cn_Labels = [(WorkloadKey, ''w'')], cn_Deleting = False, cn_Phase = '''', cn_WorkerName = '''',
     cn_ConnectionURL = ''''\<rparr>"

theorem finished_worker_starves_connections_witness:
  "(\<forall>n. cn_Phase ((conn_round demo_conn_env [''run''] ^^ n) demo_connection) \<noteq> WorkerRunning)
   \<and> demo_worker ''run'' PodRunning \<in> set (the (ke_workers demo_conn_env))"
proof -
  have "cn_Phase ((conn_round demo_conn_env [''run''] ^^ n) demo_connection) \<noteq> WorkerRunning" for n
    by (rule finished_worker_starves_connections [where s = "demo_worker ''fin'' ''Succeeded''"])
      (auto simp: demo_conn_env_def demo_worker_def demo_connection_def demo_workload_def active_worker_def
        PodRunning_def PodFailed_def PodUnknown_def PodPending_def WorkerRunning_def)
  then show ?thesis by (simp add: demo_conn_env_def)
qed

section \<open>Replicas\<close>

text \<open>The pods of the workload after a round: deleted ones are terminating, new ones are added.\<close>

definition apply_effects :: "workload_effects \<Rightarrow> worker_pod list \<Rightarrow> worker_pod list" where
  "apply_effects fx pods = map (\<lambda>p. if wp_Name p \<in> set (wf_deleted fx) then p\<lparr>wp_Deleting := True\<rparr> else p) pods @ wf_created fx"

definition workload_round :: "workload_env \<Rightarrow> workload_obj \<times> worker_pod list \<Rightarrow> workload_obj \<times> worker_pod list" where
  "workload_round e s = (case s of (w, pods) \<Rightarrow>
     case workload_Reconcile (e\<lparr>we_get := Found w, we_pods := Some pods\<rparr>) of
       (Some w', fx, _) \<Rightarrow> (w', apply_effects fx pods) | (None, fx, _) \<Rightarrow> s)"

text \<open>No request to the API server fails, and what is created is not being deleted.\<close>

definition healthy :: "workload_env \<Rightarrow> bool" where
  "healthy e \<longleftrightarrow> we_statusOK e \<and> (\<forall>n. we_deleteOK e n) \<and> (\<forall>k. we_createOK e k) \<and>
     (\<forall>k. \<exists>p. we_generate e k = Some p \<and> \<not> wp_Deleting p)"

definition replicas_settled :: "string \<Rightarrow> nat \<Rightarrow> worker_pod list \<Rightarrow> bool" where
  "replicas_settled hash n pods \<longleftrightarrow>
     length (filterActivePods pods) = n \<and> (\<forall>p \<in> set (filterActivePods pods). get_str (wp_Labels p) LabelKeyPodTemplateHash = hash)"

lemma scaleDownWorkers_active:
  "\<forall>n. we_deleteOK e n \<Longrightarrow> \<forall>p \<in> set ps. \<not> wp_Deleting p \<Longrightarrow>
    scaleDownWorkers e ps fx = (fx\<lparr>wf_deleted := wf_deleted fx @ map wp_Name ps\<rparr>, True)"
  by (induction e ps fx rule: scaleDownWorkers.induct) auto

lemma scaleUpWorkers_healthy:
  "healthy e \<Longrightarrow> \<exists>ps. scaleUpWorkers e name hash k n = (ps, True) \<and> length ps = n
    \<and> (\<forall>p \<in> set ps. \<not> wp_Deleting p \<and> get_str (wp_Labels p) LabelKeyPodTemplateHash = hash)"
proof (induction n arbitrary: k)
  case (Suc n)
  obtain p where p: "we_generate e k = Some p" "\<not> wp_Deleting p" "we_createOK e k" using Suc.prems unfolding healthy_def by blast
  obtain q where "tryStartWorker e name hash k = Some q" "\<not> wp_Deleting q" "get_str (wp_Labels q) LabelKeyPodTemplateHash = hash"
    using p by (auto simp: tryStartWorker_def get_str_def AList.update_conv')
  then show ?case using Suc.IH [OF Suc.prems, of "Suc k"] by auto
qed simp

lemma active_after_delete:
  assumes "distinct (map wp_Name pods)" "D \<subseteq> set (filterActivePods pods)"
  shows "filterActivePods (map (\<lambda>p. if wp_Name p \<in> wp_Name ` D then p\<lparr>wp_Deleting := True\<rparr> else p) pods) = filter (\<lambda>p. p \<notin> D) (filterActivePods pods)"
proof -
  have m: "wp_Name p \<in> wp_Name ` D \<longleftrightarrow> p \<in> D" if "p \<in> set pods" for p
    using assms that unfolding filterActivePods_def distinct_map by (auto dest: inj_onD)
  have "filter (\<lambda>p. \<not> wp_Deleting p) (map (\<lambda>p. if wp_Name p \<in> wp_Name ` D then p\<lparr>wp_Deleting := True\<rparr> else p) qs)
      = filter (\<lambda>p. p \<notin> D) (filter (\<lambda>p. \<not> wp_Deleting p) qs)" if "set qs \<subseteq> set pods" for qs
    using that by (induction qs) (auto simp: m)
  then show ?thesis by (simp add: filterActivePods_def)
qed

lemma length_without:
  assumes "distinct xs" "D \<subseteq> set xs"
  shows "length (filter (\<lambda>x. x \<notin> D) xs) = length xs - card D"
proof -
  have "{x. x \<notin> D} \<inter> set xs = set xs - D" by blast
  then show ?thesis
    using assms by (simp add: distinct_length_filter card_Diff_subset finite_subset distinct_card)
qed

text \<open>A workload with a fixed number of replicas whose template hash is up to date.\<close>

definition steady :: "string \<Rightarrow> string \<Rightarrow> nat \<Rightarrow> workload_obj \<Rightarrow> bool" where
  "steady cfg hash n w \<longleftrightarrow> \<not> om_Deleting (wo_Meta w) \<and> Finalizer \<in> set (om_Finalizers (wo_Meta w))
     \<and> wo_Replicas w = Some (int n) \<and> PodTemplateHash cfg (wo_Spec w) = hash \<and> wo_PodTemplateHash w = hash"

definition outdated_pods :: "string \<Rightarrow> worker_pod list \<Rightarrow> worker_pod set" where
  "outdated_pods hash pods = {p \<in> set pods. get_str (wp_Labels p) LabelKeyPodTemplateHash \<noteq> hash}"

lemma reconcileScaling_outdated:
  assumes "healthy e" "outdated_pods hash active \<noteq> {}" "\<forall>p \<in> set active. \<not> wp_Deleting p"
  shows "\<exists>fx. reconcileScaling e w active hash = (w, fx, WorkloadDone) \<and> wf_created fx = []
    \<and> set (wf_deleted fx) = wp_Name ` outdated_pods hash active"
proof -
  let ?o = "filter (\<lambda>p. get_str (wp_Labels p) LabelKeyPodTemplateHash \<noteq> hash) (sort_key wp_Created (sort_key (we_tie e) active))"
  have o: "set ?o = outdated_pods hash active" by (auto simp: outdated_pods_def)
  then have "?o \<noteq> []" using assms(2) by (metis list.set(1))
  moreover have "scaleDownWorkers e ?o no_workload_effects
      = (no_workload_effects\<lparr>wf_deleted := wf_deleted no_workload_effects @ map wp_Name ?o\<rparr>, True)"
    using assms(1,3) by (intro scaleDownWorkers_active) (auto simp: healthy_def)
  ultimately show ?thesis
    using o by (simp add: reconcileScaling_def Let_def no_workload_effects_def del: set_filter)
qed

lemma reconcileScaling_count:
  assumes "healthy e" "outdated_pods hash active = {}" "\<forall>p \<in> set active. \<not> wp_Deleting p"
    and "distinct active \<or> length active = n" "length active < 2 ^ 31" "n < 2 ^ 31" "wo_Replicas w = Some (int n)"
  shows "\<exists>c fx D. reconcileScaling e w active hash = (w\<lparr>wo_WorkerCount := c\<rparr>, fx, WorkloadDone)
    \<and> set (wf_deleted fx) = wp_Name ` D \<and> D \<subseteq> set active \<and> card D = length active - n
    \<and> length (wf_created fx) = n - length active
    \<and> (\<forall>p \<in> set (wf_created fx). \<not> wp_Deleting p \<and> get_str (wp_Labels p) LabelKeyPodTemplateHash = hash)"
proof -
  let ?a = "sort_key wp_Created (sort_key (we_tie e) active)"
  let ?len = "int (length active)"
  have o: "filter (\<lambda>p. get_str (wp_Labels p) LabelKeyPodTemplateHash \<noteq> hash) ?a = []"
    using assms(2) by (auto simp: filter_empty_conv outdated_pods_def)
  have s: "s32 ?len = ?len" "s32 (?len - int n) = ?len - int n" using assms(5,6) by (auto intro!: s32_id)
  have st: "we_statusOK e" using assms(1) by (simp add: healthy_def)
  consider "length active < n" | "length active = n" | "n < length active" by linarith
  then show ?thesis
  proof cases
    case 1
    then obtain ps where "scaleUpWorkers e (om_Name (wo_Meta w)) hash 0 (nat (- (?len - int n))) = (ps, True)" "length ps = n - length active"
        "\<forall>p \<in> set ps. \<not> wp_Deleting p \<and> get_str (wp_Labels p) LabelKeyPodTemplateHash = hash"
      using scaleUpWorkers_healthy [OF assms(1), of "om_Name (wo_Meta w)" hash 0 "n - length active"] by (auto simp: nat_diff_distrib)
    then show ?thesis using 1 o s st assms(7)
      by (intro exI [of _ ?len] exI [of _ "no_workload_effects\<lparr>wf_created := ps\<rparr>"] exI [of _ "{}"])
        (simp add: reconcileScaling_def Let_def no_workload_effects_def)
  next
    case 2
    then show ?thesis using o s st assms(7)
      by (intro exI [of _ ?len] exI [of _ no_workload_effects] exI [of _ "{}"])
        (simp add: reconcileScaling_def Let_def no_workload_effects_def)
  next
    case 3
    let ?ord = "if ?len - int n < ?len then sort_key (we_rank e) ?a else ?a"
    let ?t = "take (length active - n) ?ord"
    have ord: "set ?ord = set active" "length ?ord = length active" "distinct ?ord" using assms(4) 3 by auto
    have t: "set ?t \<subseteq> set active" "card (set ?t) = length active - n"
      using set_take_subset [of "length active - n" ?ord] ord by (auto simp: distinct_card)
    then have "scaleDownWorkers e ?t no_workload_effects
        = (no_workload_effects\<lparr>wf_deleted := wf_deleted no_workload_effects @ map wp_Name ?t\<rparr>, True)"
      using assms(1,3) by (intro scaleDownWorkers_active) (auto simp: healthy_def)
    moreover have "nat (?len - int n) = length active - n" using 3 by simp
    ultimately show ?thesis using 3 o s st assms(7) t ord(2)
      by (intro exI [of _ ?len] exI [of _ "no_workload_effects\<lparr>wf_deleted := map wp_Name ?t\<rparr>"] exI [of _ "set ?t"])
        (simp add: reconcileScaling_def Let_def no_workload_effects_def)
  qed
qed

lemma updateStatus_keeps:
  assumes "updateStatus e w pods = (w', out)"
  shows "steady cfg hash n w' = steady cfg hash n w" "wo_PoolName w' = wo_PoolName w"
  using assms by (auto simp: updateStatus_def steady_def Let_def split: prod.splits if_splits)

text \<open>A round of a steady workload is a scaling round on its active pods.\<close>

lemma workload_round_scaling:
  assumes "steady cfg hash n w" "we_pool e (wo_PoolName w) = Found (Some cfg)"
    and "reconcileScaling (e\<lparr>we_get := Found w, we_pods := Some pods\<rparr>) w (filterActivePods pods) hash = (w2, fx, WorkloadDone)"
    and "steady cfg hash n w2" "wo_PoolName w2 = wo_PoolName w"
  shows "\<exists>w'. workload_round e (w, pods) = (w', apply_effects fx pods) \<and> steady cfg hash n w' \<and> wo_PoolName w' = wo_PoolName w"
proof -
  let ?e = "e\<lparr>we_get := Found w, we_pods := Some pods\<rparr>"
  have "HandleFinalizer (Some False) (we_finalizerOK e) (wo_Meta w) = (wo_Meta w, False, None)"
    using assms(1) by (simp add: HandleFinalizer_def steady_def)
  moreover obtain w3 out where u: "updateStatus ?e w2 (filterActivePods pods) = (w3, out)" by (cases "updateStatus ?e w2 (filterActivePods pods)")
  ultimately have "workload_Reconcile ?e = (Some w3, fx, out)"
    using assms(1-3) by (simp add: workload_Reconcile_def steady_def IsDynamicReplica_def Let_def)
  then show ?thesis using updateStatus_keeps(1) [OF u, of cfg hash n] updateStatus_keeps(2) [OF u] assms(4,5) by (simp add: workload_round_def)
qed

lemma healthy_at [simp]: "healthy (e\<lparr>we_get := x, we_pods := y\<rparr>) = healthy e"
  by (simp add: healthy_def)

lemma active_not_deleting: "\<forall>p \<in> set (filterActivePods pods). \<not> wp_Deleting p"
  by (simp add: filterActivePods_def)

lemma round_outdated:
  assumes "healthy e" "steady cfg hash n w" "we_pool e (wo_PoolName w) = Found (Some cfg)"
    and "distinct (map wp_Name pods)" "outdated_pods hash (filterActivePods pods) \<noteq> {}"
  shows "\<exists>w' pods'. workload_round e (w, pods) = (w', pods') \<and> steady cfg hash n w' \<and> wo_PoolName w' = wo_PoolName w
    \<and> map wp_Name pods' = map wp_Name pods \<and> outdated_pods hash (filterActivePods pods') = {}"
proof -
  let ?e = "e\<lparr>we_get := Found w, we_pods := Some pods\<rparr>" and ?D = "outdated_pods hash (filterActivePods pods)"
  obtain fx where fx: "reconcileScaling ?e w (filterActivePods pods) hash = (w, fx, WorkloadDone)" "wf_created fx = []"
      "set (wf_deleted fx) = wp_Name ` ?D"
    using reconcileScaling_outdated [of ?e hash "filterActivePods pods" w] assms(1,5) active_not_deleting by auto
  have D: "?D \<subseteq> set (filterActivePods pods)" by (auto simp: outdated_pods_def)
  have "filterActivePods (apply_effects fx pods) = filter (\<lambda>p. p \<notin> ?D) (filterActivePods pods)"
    using active_after_delete [OF assms(4) D] fx(2,3) by (simp add: apply_effects_def)
  then have "outdated_pods hash (filterActivePods (apply_effects fx pods)) = {}" by (auto simp: outdated_pods_def)
  moreover have "map wp_Name (apply_effects fx pods) = map wp_Name pods" using fx(2) by (simp add: apply_effects_def)
  ultimately show ?thesis using workload_round_scaling [OF assms(2,3) fx(1) assms(2) refl] by blast
qed

lemma round_count:
  assumes "healthy e" "steady cfg hash n w" "we_pool e (wo_PoolName w) = Found (Some cfg)"
    and "distinct (map wp_Name pods)" "outdated_pods hash (filterActivePods pods) = {}"
    and "length pods < 2 ^ 31" "n < 2 ^ 31"
  shows "\<exists>w' pods'. workload_round e (w, pods) = (w', pods') \<and> steady cfg hash n w' \<and> wo_PoolName w' = wo_PoolName w
    \<and> replicas_settled hash n pods'"
proof -
  let ?e = "e\<lparr>we_get := Found w, we_pods := Some pods\<rparr>" and ?a = "filterActivePods pods"
  have len: "length ?a < 2 ^ 31" using assms(6) length_filter_le le_less_trans unfolding filterActivePods_def by blast
  have da: "distinct ?a" using assms(4) by (simp add: filterActivePods_def distinct_map)
  obtain c fx D where fx: "reconcileScaling ?e w ?a hash = (w\<lparr>wo_WorkerCount := c\<rparr>, fx, WorkloadDone)"
      "set (wf_deleted fx) = wp_Name ` D" "D \<subseteq> set ?a" "card D = length ?a - n" "length (wf_created fx) = n - length ?a"
      "\<forall>p \<in> set (wf_created fx). \<not> wp_Deleting p \<and> get_str (wp_Labels p) LabelKeyPodTemplateHash = hash"
    using reconcileScaling_count [of ?e hash ?a n w] assms(1,2,5,7) active_not_deleting da len by (auto simp: steady_def)
  have "filterActivePods (wf_created fx) = wf_created fx" using fx(6) by (simp add: filterActivePods_def)
  then have act: "filterActivePods (apply_effects fx pods) = filter (\<lambda>p. p \<notin> D) ?a @ wf_created fx"
    using active_after_delete [OF assms(4) fx(3)] fx(2) by (simp add: apply_effects_def filterActivePods_def)
  have "length (filter (\<lambda>p. p \<notin> D) ?a) = length ?a - card D" using da fx(3) by (rule length_without)
  then have "length (filterActivePods (apply_effects fx pods)) = n" using fx(4,5) by (simp add: act)
  moreover have "\<forall>p \<in> set (filterActivePods (apply_effects fx pods)). get_str (wp_Labels p) LabelKeyPodTemplateHash = hash"
    using assms(5) fx(6) by (auto simp: act outdated_pods_def)
  ultimately have "replicas_settled hash n (apply_effects fx pods)" by (simp add: replicas_settled_def)
  moreover have "steady cfg hash n (w\<lparr>wo_WorkerCount := c\<rparr>)" using assms(2) by (simp add: steady_def)
  ultimately show ?thesis using workload_round_scaling [OF assms(2,3) fx(1)] by auto
qed

lemma round_settled:
  assumes "healthy e" "steady cfg hash n w" "we_pool e (wo_PoolName w) = Found (Some cfg)" "replicas_settled hash n pods" "n < 2 ^ 31"
  shows "\<exists>w'. workload_round e (w, pods) = (w', pods) \<and> steady cfg hash n w' \<and> wo_PoolName w' = wo_PoolName w"
proof -
  let ?e = "e\<lparr>we_get := Found w, we_pods := Some pods\<rparr>" and ?a = "filterActivePods pods"
  have "outdated_pods hash ?a = {}" "length ?a = n" using assms(4) by (auto simp: outdated_pods_def replicas_settled_def)
  then obtain c fx D where fx: "reconcileScaling ?e w ?a hash = (w\<lparr>wo_WorkerCount := c\<rparr>, fx, WorkloadDone)"
      "set (wf_deleted fx) = wp_Name ` D" "D \<subseteq> set ?a" "card D = 0" "length (wf_created fx) = 0"
    using reconcileScaling_count [of ?e hash ?a n w] assms(1,2,5) active_not_deleting by (auto simp: steady_def)
  then have "D = {}" using finite_subset [OF fx(3)] by simp
  then have "apply_effects fx pods = pods" using fx(2,5) by (simp add: apply_effects_def)
  moreover have "steady cfg hash n (w\<lparr>wo_WorkerCount := c\<rparr>)" using assms(2) by (simp add: steady_def)
  ultimately show ?thesis using workload_round_scaling [OF assms(2,3) fx(1)] by auto
qed


definition demo_workload_env :: workload_env where
  "demo_workload_env = \<lparr>we_get = NotFound, we_pods = None, we_finalizerOK = True, we_pool = (\<lambda>_. Found (Some '''')), we_statusOK = True,
     we_deleteOK = (\<lambda>_. True), we_updatePodOK = (\<lambda>_. True), we_generate = (\<lambda>k. Some (demo_worker (''new'' @ show_nat k) PodPending)),
     we_createOK = (\<lambda>_. True), we_tie = (\<lambda>_. 0), we_rank = (\<lambda>_. 0), we_setCondition = (\<lambda>cs c. ([c], cs \<noteq> [c]))\<rparr>"


end
