(* ===== verification/Compose.thy ===== *)
theory Compose
  imports AllocatorSync Autoscaler Connections
begin

text \<open>
  The composition of pods, \<^verbatim>\<open>utils/compose.go\<close>: the annotations of client and worker pods, the
  injection of the client libraries into a user's pod, and the containers of the worker, hypervisor, vector
  and node discovery pods; and \<^verbatim>\<open>GenerateWorkerPod\<close> of \<^verbatim>\<open>worker/worker.go\<close>. Pods, containers and
  volumes are records with the fields this code reads or writes. The printer of quantities, their conversion
  to integers and the process environment are the record \<open>compose_env\<close>. A nil dereference or an index out of
  range is the value \<open>None\<close>.
\<close>

section \<open>Kubernetes objects\<close>

datatype env_source = Plain string | FieldRef string | OtherSource string

record env_var =
  ev_Name :: string
  ev_Source :: env_source

record volume_mount =
  vm_Name :: string
  vm_MountPath :: string
  vm_SubPath :: string
  vm_SubPathExpr :: string
  vm_ReadOnly :: bool
  vm_MountPropagation :: "string option"

datatype volume_source =
    EmptyDir string "quantity option"  \<comment> \<open>medium and size limit\<close>
  | HostPath string string  \<comment> \<open>path and type\<close>
  | ConfigMapVolume string
  | OtherVolume string

record volume =
  v_Name :: string
  v_Source :: volume_source

record container_port =
  cp_Name :: string
  cp_ContainerPort :: int
  cp_HostPort :: int
  cp_Protocol :: string

record security_context =
  sc_Privileged :: "bool option"
  sc_CapabilitiesAdd :: "string list"
  sc_AppArmorProfile :: "string option"

datatype probe_handler = HTTPGet string int | OtherProbe string

record probe =
  pr_Handler :: probe_handler
  pr_InitialDelaySeconds :: int
  pr_PeriodSeconds :: int
  pr_TimeoutSeconds :: int
  pr_FailureThreshold :: int

type_synonym resource_list = "(string, quantity) gomap"

record k_container =
  kc_Name :: string
  kc_Image :: string
  kc_Command :: "string list"
  kc_Args :: "string list"
  kc_Env :: "env_var list"
  kc_VolumeMounts :: "volume_mount list"
  kc_Ports :: "container_port list"
  kc_Requests :: "resource_list option"  \<comment> \<open>\<open>None\<close> for a nil map\<close>
  kc_Limits :: "resource_list option"
  kc_SecurityContext :: "security_context option"
  kc_LivenessProbe :: "probe option"
  kc_ReadinessProbe :: "probe option"

record toleration =
  tol_Key :: string
  tol_Operator :: string
  tol_Value :: string
  tol_Effect :: string

record k_spec =
  ks_Containers :: "k_container list"
  ks_InitContainers :: "k_container list"
  ks_Volumes :: "volume list"
  ks_Tolerations :: "toleration list"
  ks_SchedulerName :: string
  ks_PriorityClassName :: string
  ks_Priority :: "int option"
  ks_HostPID :: bool
  ks_HostNetwork :: bool
  ks_TerminationGracePeriodSeconds :: "int option"
  ks_ServiceAccountName :: string
  ks_RestartPolicy :: string
  ks_NodeName :: string
  ks_EnableServiceLinks :: "bool option"
  ks_DNSPolicy :: string

record k_pod =
  kp_Meta :: object_meta
  kp_GenerateName :: string
  kp_OwnerReferences :: "owner_ref list"
  kp_Spec :: k_spec

record pod_template =
  pt_Labels :: "(string, string) gomap"
  pt_Annotations :: "(string, string) gomap"
  pt_Spec :: k_spec

definition empty_container :: "string \<Rightarrow> k_container" where
  "empty_container n = \<lparr>kc_Name = n, kc_Image = '''', kc_Command = [], kc_Args = [], kc_Env = [], kc_VolumeMounts = [],
     kc_Ports = [], kc_Requests = None, kc_Limits = None, kc_SecurityContext = None, kc_LivenessProbe = None,
     kc_ReadinessProbe = None\<rparr>"

definition plain_env :: "string \<Rightarrow> string \<Rightarrow> env_var" where
  "plain_env n v = \<lparr>ev_Name = n, ev_Source = Plain v\<rparr>"

definition field_env :: "string \<Rightarrow> string \<Rightarrow> env_var" where
  "field_env n p = \<lparr>ev_Name = n, ev_Source = FieldRef p\<rparr>"

definition vol_mount :: "string \<Rightarrow> string \<Rightarrow> volume_mount" where
  "vol_mount n p = \<lparr>vm_Name = n, vm_MountPath = p, vm_SubPath = '''', vm_SubPathExpr = '''', vm_ReadOnly = False,
     vm_MountPropagation = None\<rparr>"

definition empty_dir_volume :: "string \<Rightarrow> volume" where
  "empty_dir_volume n = \<lparr>v_Name = n, v_Source = EmptyDir '''' None\<rparr>"

definition host_volume :: "string \<Rightarrow> string \<Rightarrow> volume" where
  "host_volume n p = \<lparr>v_Name = n, v_Source = HostPath p ''DirectoryOrCreate''\<rparr>"

definition config_volume :: "string \<Rightarrow> string \<Rightarrow> volume" where
  "config_volume n c = \<lparr>v_Name = n, v_Source = ConfigMapVolume c\<rparr>"

text \<open>\<^verbatim>\<open>lo.ContainsBy\<close> on the name of a variable, and append when it is missing.\<close>

definition has_env :: "string \<Rightarrow> env_var list \<Rightarrow> bool" where
  "has_env n es \<longleftrightarrow> list_ex (\<lambda>e. ev_Name e = n) es"

definition add_env_missing :: "env_var \<Rightarrow> env_var list \<Rightarrow> env_var list" where
  "add_env_missing e es = (if has_env (ev_Name e) es then es else es @ [e])"

definition add_env :: "env_var list \<Rightarrow> k_container \<Rightarrow> k_container" where
  "add_env es c = c\<lparr>kc_Env := kc_Env c @ es\<rparr>"

definition add_mounts :: "volume_mount list \<Rightarrow> k_container \<Rightarrow> k_container" where
  "add_mounts ms c = c\<lparr>kc_VolumeMounts := kc_VolumeMounts c @ ms\<rparr>"

definition add_volumes :: "volume list \<Rightarrow> k_spec \<Rightarrow> k_spec" where
  "add_volumes vs s = s\<lparr>ks_Volumes := ks_Volumes s @ vs\<rparr>"

definition update_container :: "nat \<Rightarrow> (k_container \<Rightarrow> k_container) \<Rightarrow> k_spec \<Rightarrow> k_spec" where
  "update_container i f s = s\<lparr>ks_Containers := (ks_Containers s)[i := f (ks_Containers s ! i)]\<rparr>"

definition len0 :: "'a list option \<Rightarrow> bool" where
  "len0 m \<longleftrightarrow> (case m of None \<Rightarrow> True | Some l \<Rightarrow> l = [])"

section \<open>Configuration and profiles\<close>

record auto_set_replicas =
  arp_Enable :: bool
  arp_TargetTFlopsOfLimits :: string
  arp_EvaluationPeriod :: string
  arp_ScaleUpStep :: string
  arp_ScaleDownStep :: string
  arp_ScaleUpCoolDownTime :: string
  arp_ScaleDownCoolDownTime :: string

record auto_scaling_config =
  asc_AutoSetResources :: auto_set_resources
  asc_AutoSetReplicas :: auto_set_replicas
  asc_CronScalingRules :: "cron_scaling_rule list"

record workload_profile =
  pf_Replicas :: "int option"
  pf_PoolName :: string
  pf_Resources :: resources
  pf_Qos :: string
  pf_IsLocalGPU :: bool
  pf_SidecarWorker :: bool
  pf_Isolation :: string
  pf_GPUModel :: string
  pf_GPUCount :: nat
  pf_GPUIndices :: "int list"
  pf_GPUVendor :: string
  pf_AutoScalingConfig :: auto_scaling_config
  pf_NodeAffinity :: "node_affinity option"
  pf_WorkerPodTemplate :: "string option"  \<comment> \<open>its bytes\<close>

abbreviation "pf_Requests p \<equiv> Requests (pf_Resources p)"
abbreviation "pf_Limits p \<equiv> Limits (pf_Resources p)"

record worker_config =
  wc_Image :: string
  wc_PodTemplate :: "string option"

record hypervisor_config =
  hc_Image :: string
  hc_VectorImage :: string
  hc_PortNumber :: "int option"
  hc_PodTemplate :: "string option"
  hc_EnableVector :: bool

record node_discovery_config =
  nd_Image :: string
  nd_PodTemplate :: "string option"

record client_config =
  cl_RemoteModeImage :: string
  cl_EmbeddedModeImage :: string
  cl_OperatorEndpoint :: string
  cl_PatchToPod :: "string option"
  cl_PatchToContainer :: "string option"
  cl_PatchToEmbeddedWorkerContainer :: "string option"
  cl_PatchEmbeddedWorkerToPod :: "string option"

record component_config =
  cfg_Worker :: "worker_config option"
  cfg_Hypervisor :: "hypervisor_config option"
  cfg_NodeDiscovery :: "node_discovery_config option"
  cfg_Client :: "client_config option"

record config_pool =
  cpl_Name :: string
  cpl_Annotations :: "(string, string) gomap"
  cpl_DefaultUsingLocalGPU :: "bool option"
  cpl_DefaultQoS :: "string option"  \<comment> \<open>\<open>None\<close> for a nil \<^verbatim>\<open>QosConfig\<close>\<close>
  cpl_ComponentConfig :: "component_config option"

record tf_info =
  tfi_Profile :: workload_profile
  tfi_EnabledReplicas :: "int option"
  tfi_WorkloadName :: string
  tfi_PodControllerRef :: "owner_ref option"
  tfi_ContainerNames :: "string list"

record profile_workload =
  pw_Name :: string
  pw_Namespace :: string
  pw_Labels :: "(string, string) gomap"
  pw_Annotations :: "(string, string) gomap"
  pw_OwnerReferences :: "owner_ref list"
  pw_Spec :: workload_profile

record compose_env =
  ce_print :: "quantity \<Rightarrow> string"
  ce_val :: "quantity \<Rightarrow> int"
  ce_licensed :: bool
  ce_progressive :: bool
  ce_kubeMinor :: string  \<comment> \<open>\<^verbatim>\<open>KUBE_API_VERSION_MINOR\<close>\<close>
  ce_selfServiceAccount :: string
  ce_unmarshalTemplate :: "string \<Rightarrow> pod_template option"
  ce_mergeTemplate :: "pod_template \<Rightarrow> string \<Rightarrow> pod_template option"

section \<open>Constants\<close>

definition QoSHigh :: string where "QoSHigh = ''high''"
definition QoSCritical :: string where "QoSCritical = ''critical''"
definition IsolationModeSoft :: string where "IsolationModeSoft = ''soft''"
definition IsolationModeHard :: string where "IsolationModeHard = ''hard''"
definition SelectedWorkloadAnnotation :: string where "SelectedWorkloadAnnotation = ''tensor-fusion.ai/selected-workload''"
definition IsLocalGPUAnnotation :: string where "IsLocalGPUAnnotation = ''tensor-fusion.ai/is-local-gpu''"
definition SidecarWorkerAnnotation :: string where "SidecarWorkerAnnotation = ''tensor-fusion.ai/sidecar-worker''"
definition InjectContainerAnnotation :: string where "InjectContainerAnnotation = ''tensor-fusion.ai/inject-container''"
definition IsolationModeAnnotation :: string where "IsolationModeAnnotation = ''tensor-fusion.ai/isolation''"
definition DisableFeaturesAnnotation :: string where "DisableFeaturesAnnotation = ''tensor-fusion.ai/disable-features''"
definition SchedulerName :: string where "SchedulerName = ''tensor-fusion-scheduler''"
definition NodeUsedByTaintKey :: string where "NodeUsedByTaintKey = ''tensor-fusion.ai/used-by''"
definition TensorFusionSystemName :: string where "TensorFusionSystemName = ''tensor-fusion''"

definition system_toleration :: toleration where
  "system_toleration = \<lparr>tol_Key = NodeUsedByTaintKey, tol_Operator = ''Equal'', tol_Value = TensorFusionSystemName,
     tol_Effect = ''NoSchedule''\<rparr>"

lemmas compose_keys = SelectedWorkloadAnnotation_def IsLocalGPUAnnotation_def SidecarWorkerAnnotation_def
  InjectContainerAnnotation_def IsolationModeAnnotation_def DisableFeaturesAnnotation_def
  GpuCountAnnotation_def GpuIndicesAnnotation_def GpuVendorAnnotation_def QoSLevelAnnotation_def
  GPUModelAnnotation_def GPUDeviceIDsAnnotation_def GpuPoolKey_def WorkloadKey_def LabelComponent_def annotation_defs

text \<open>The view of a pod the scheduler and the allocator have.\<close>

definition pod_of :: "k_pod \<Rightarrow> pod" where
  "pod_of p = \<lparr>pod_Meta = kp_Meta p, pod_NodeName = ks_NodeName (kp_Spec p)\<rparr>"

section \<open>Annotations of client and worker pods\<close>

definition put_if :: "bool \<Rightarrow> string \<Rightarrow> string \<Rightarrow> (string, string) gomap \<Rightarrow> (string, string) gomap" where
  "put_if b k v m = (if b then AList.update k v m else m)"

definition AddOrOverrideTFClientMissingAnnotationsBeforePatch :: "(quantity \<Rightarrow> string) \<Rightarrow> tf_info \<Rightarrow> k_pod \<Rightarrow> k_pod" where
  "AddOrOverrideTFClientMissingAnnotationsBeforePatch print info p =
     (let pr = tfi_Profile info; req = pf_Requests pr; lim = pf_Limits pr; meta = kp_Meta p;
          labels = put_if (pf_IsLocalGPU pr) WorkloadKey (tfi_WorkloadName info) (om_Labels meta);
          a0 = put_if (\<not> pf_IsLocalGPU pr) SelectedWorkloadAnnotation (tfi_WorkloadName info) (om_Annotations meta);
          a1 = put_if (Tflops lim \<noteq> 0) TFLOPSLimitAnnotation (print (Tflops lim)) a0;
          a2 = put_if (Vram lim \<noteq> 0) VRAMLimitAnnotation (print (Vram lim)) a1;
          a3 = put_if (Tflops req \<noteq> 0) TFLOPSRequestAnnotation (print (Tflops req)) a2;
          a4 = put_if (Vram req \<noteq> 0) VRAMRequestAnnotation (print (Vram req)) a3;
          a5 = put_if (ComputePercent req \<noteq> 0) ComputeRequestAnnotation (print (ComputePercent req)) a4;
          a6 = put_if (ComputePercent lim \<noteq> 0) ComputeLimitAnnotation (print (ComputePercent lim)) a5;
          a7 = AList.update QoSLevelAnnotation (if pf_Qos pr = '''' then QoSMedium else pf_Qos pr) a6;
          a8 = AList.update GpuCountAnnotation (show_nat (pf_GPUCount pr)) a7;
          a9 = AList.update GpuPoolKey (pf_PoolName pr) a8;
          a10 = put_if (pf_GPUModel pr \<noteq> '''') GPUModelAnnotation (pf_GPUModel pr) a9;
          a11 = put_if (pf_GPUVendor pr \<noteq> '''') GpuVendorAnnotation (pf_GPUVendor pr) a10;
          a12 = AList.update IsLocalGPUAnnotation (show_bool (pf_IsLocalGPU pr)) a11;
          a13 = AList.update SidecarWorkerAnnotation (show_bool (pf_SidecarWorker pr)) a12;
          a14 = AList.update InjectContainerAnnotation (join_with '','' (tfi_ContainerNames info)) a13;
          a15 = AList.update IsolationModeAnnotation (pf_Isolation pr) a14
      in p\<lparr>kp_Meta := meta\<lparr>om_Labels := labels, om_Annotations := a15\<rparr>\<rparr>)"

definition AppendTFWorkerLabelsAndAnnotationsAfterTemplate ::
  "(quantity \<Rightarrow> string) \<Rightarrow> pod_template \<Rightarrow> profile_workload \<Rightarrow> string \<Rightarrow> (string, string) gomap \<times> (string, string) gomap" where
  "AppendTFWorkerLabelsAndAnnotationsAfterTemplate print tmpl w containerName =
     (let pr = pw_Spec w; req = pf_Requests pr; lim = pf_Limits pr;
          a1 = put_if (Tflops lim \<noteq> 0) TFLOPSLimitAnnotation (print (Tflops lim)) (pt_Annotations tmpl);
          a2 = put_if (Tflops req \<noteq> 0) TFLOPSRequestAnnotation (print (Tflops req)) a1;
          a3 = put_if (ComputePercent req \<noteq> 0) ComputeRequestAnnotation (print (ComputePercent req)) a2;
          a4 = put_if (ComputePercent lim \<noteq> 0) ComputeLimitAnnotation (print (ComputePercent lim)) a3;
          a5 = AList.update VRAMLimitAnnotation (print (Vram lim)) a4;
          a6 = AList.update VRAMRequestAnnotation (print (Vram req)) a5;
          a7 = AList.update InjectContainerAnnotation containerName a6;
          a8 = AList.update QoSLevelAnnotation (if pf_Qos pr = '''' then QoSMedium else pf_Qos pr) a7;
          a9 = AList.update GpuCountAnnotation (if 0 < pf_GPUCount pr then show_nat (pf_GPUCount pr) else ''1'') a8;
          a10 = AList.update GpuPoolKey (pf_PoolName pr) a9;
          a11 = put_if (pf_GPUModel pr \<noteq> '''') GPUModelAnnotation (pf_GPUModel pr) a10;
          a12 = put_if (pf_GPUVendor pr \<noteq> '''') GpuVendorAnnotation (pf_GPUVendor pr) a11;
          a13 = put_if (pf_GPUIndices pr \<noteq> []) GpuIndicesAnnotation (join_with '','' (map show_int (pf_GPUIndices pr))) a12;
          a14 = AList.update IsolationModeAnnotation (pf_Isolation pr) a13
      in (AList.update LabelComponent ComponentWorker (pt_Labels tmpl), a14))"

section \<open>Switched-off features\<close>

text \<open>\<^verbatim>\<open>strings.Contains\<close>.\<close>

definition str_contains :: "string \<Rightarrow> string \<Rightarrow> bool" where
  "str_contains s t \<longleftrightarrow> list_ex (\<lambda>i. HasPrefix (drop i s) t) [0..<Suc (length s)]"

definition featureShortcutMap :: "(string, string \<times> string) gomap" where
  "featureShortcutMap =
     [(''gpu-limiter'', ''DISABLE_GPU_LIMITER'', ''true''),
      (''gpu-opt'', ''TF_ENABLE_DISPATCH_FORWARD'', ''1''),
      (''mem-manager'', ''TF_DISABLE_MEMORY_MANAGER'', ''1'')]"

definition convertDisabledFeaturesToEnvs :: "string \<Rightarrow> env_var list \<Rightarrow> env_var list" where
  "convertDisabledFeaturesToEnvs disabledFeatures envList =
     foldl (\<lambda>es feature. case map_of featureShortcutMap feature of
              None \<Rightarrow> es | Some (n, v) \<Rightarrow> add_env_missing (plain_env n v) es)
       envList (split_on (CHR '','') disabledFeatures)"

definition configureFeatures4InjectLib :: "bool \<Rightarrow> string \<Rightarrow> env_var list" where
  "configureFeatures4InjectLib isLocalGPU disabledFeatures =
     (if isLocalGPU then [plain_env ''RUN_INSIDE_GPU_NODE'' TrueStringValue]
      else if disabledFeatures = '''' then []
      else map (\<lambda>_. plain_env ''DISABLE_GPU_LIMITER'' ''true'')
             (filter (\<lambda>f. f = ''gpu-limiter'') (split_on (CHR '','') disabledFeatures)))"

section \<open>The worker container\<close>

definition HypervisorDefaultPortNumber :: int where
  "HypervisorDefaultPortNumber = 8000"

definition getHypervisorPortNumber :: "hypervisor_config option \<Rightarrow> int" where
  "getHypervisorPortNumber c =
     (case c of None \<Rightarrow> HypervisorDefaultPortNumber
      | Some h \<Rightarrow> (case hc_PortNumber h of None \<Rightarrow> HypervisorDefaultPortNumber | Some p \<Rightarrow> p))"

definition small_resources :: "quantity \<Rightarrow> quantity \<Rightarrow> resource_list" where
  "small_resources milliCPU mebibytes = [(''cpu'', milliCPU / 1000), (''memory'', mebibytes * 1048576)]"

definition injectLibResource :: resource_list where "injectLibResource = small_resources 20 64"
definition nodeDiscoveryDefaultRequests :: resource_list where "nodeDiscoveryDefaultRequests = small_resources 20 64"
definition nodeDiscoveryDefaultLimits :: resource_list where "nodeDiscoveryDefaultLimits = small_resources 500 128"
definition hypervisorDefaultRequests :: resource_list where "hypervisorDefaultRequests = small_resources 50 128"
definition hypervisorDefaultLimits :: resource_list where "hypervisorDefaultLimits = small_resources 1000 256"
definition vectorDefaultRequests :: resource_list where "vectorDefaultRequests = small_resources 20 64"
definition vectorDefaultLimits :: resource_list where "vectorDefaultLimits = small_resources 1000 256"
definition workerDefaultRequests :: resource_list where "workerDefaultRequests = small_resources 50 128"
definition sharedMemMaxSize :: quantity where "sharedMemMaxSize = 512 * 1024 * 1024"

definition TFDataPath :: string where "TFDataPath = ''/run/tensor-fusion''"
definition DataVolumeName :: string where "DataVolumeName = ''tf-data''"
definition TransportShmVolumeName :: string where "TransportShmVolumeName = ''tf-transport-shm''"
definition TransportShmPath :: string where "TransportShmPath = ''/dev/shm''"
definition TFLibsVolumeName :: string where "TFLibsVolumeName = ''tf-libs''"
definition TFConfVolumeName :: string where "TFConfVolumeName = ''tf-conf-lib-paths''"
definition TFContainerNameWorker :: string where "TFContainerNameWorker = ''tensorfusion-worker''"

definition worker_data_mount :: volume_mount where
  "worker_data_mount = (vol_mount DataVolumeName (TFDataPath @ ''/shm''))
     \<lparr>vm_SubPathExpr := ''shm/$(POD_NAMESPACE)/$(POD_NAME)'', vm_MountPropagation := Some ''HostToContainer''\<rparr>"

definition worker_command :: "string \<Rightarrow> bool \<Rightarrow> string list" where
  "worker_command disabledFeatures sharedMemMode =
     (if str_contains disabledFeatures ''start-worker'' then [''sleep'', ''infinity'']
      else if sharedMemMode then [''./tensor-fusion-worker'', ''-n'', ''shmem'', ''-m'', ''tf_shm'', ''-M'', ''256'']
      else [''./tensor-fusion-worker'', ''-p'', show_int TensorFusionRemoteWorkerPortNumber])"

definition worker_envs :: "compose_env \<Rightarrow> workload_profile \<Rightarrow> hypervisor_config option \<Rightarrow> string \<Rightarrow> env_var list \<Rightarrow> env_var list" where
  "worker_envs x pr hyp disabledFeatures es =
     (let e0 = es @
            [plain_env ''NVIDIA_VISIBLE_DEVICES'' ''all'', field_env ''HYPERVISOR_IP'' ''status.hostIP'',
             plain_env ''HYPERVISOR_PORT'' (show_int (getHypervisorPortNumber hyp)),
             field_env ''POD_NAME'' ''metadata.name'', plain_env ''CONTAINER_NAME'' TFContainerNameWorker,
             plain_env ''TF_ENABLE_LOG'' ''1'', field_env ''POD_NAMESPACE'' ''metadata.namespace''];
          e1 = (if \<not> str_contains disabledFeatures ''gpu-limiter'' \<and> pf_Isolation pr \<noteq> IsolationModeHard
                then e0 @ [plain_env ''LD_PRELOAD'' ''/home/app/libcuda_limiter.so''] else e0);
          e2 = (if disabledFeatures \<noteq> '''' then convertDisabledFeaturesToEnvs disabledFeatures e1 else e1)
      in if pf_Isolation pr = IsolationModeHard
         then e2 @ [plain_env ''TF_CUDA_SM_PERCENT_LIMIT'' (ce_print x (ComputePercent (pf_Limits pr))),
                    plain_env ''TF_CUDA_MEMORY_LIMIT'' (show_int (go_div (ce_val x (Vram (pf_Limits pr))) 1048576))]
         else e2)"

definition SetWorkerContainerSpec ::
  "compose_env \<Rightarrow> workload_profile \<Rightarrow> worker_config \<Rightarrow> hypervisor_config option \<Rightarrow> string \<Rightarrow> bool \<Rightarrow> k_container \<Rightarrow> k_container" where
  "SetWorkerContainerSpec x pr cfg hyp disabledFeatures sharedMemMode c =
     c\<lparr>kc_Name := TFContainerNameWorker,
       kc_Image := (if wc_Image cfg \<noteq> '''' then wc_Image cfg else kc_Image c),
       kc_VolumeMounts := kc_VolumeMounts c @ [worker_data_mount],
       kc_Env := worker_envs x pr hyp disabledFeatures (kc_Env c),
       kc_Ports := kc_Ports c @ [\<lparr>cp_Name = ''remote-vgpu'', cp_ContainerPort = TensorFusionRemoteWorkerPortNumber,
                                  cp_HostPort = 0, cp_Protocol = ''TCP''\<rparr>],
       kc_Command := (if kc_Command c = [] then worker_command disabledFeatures sharedMemMode else kc_Command c),
       kc_Requests := (if len0 (kc_Requests c) then Some workerDefaultRequests else kc_Requests c)\<rparr>"

definition GracefulPeriodSeconds :: int where "GracefulPeriodSeconds = 5"

definition AddWorkerConfAfterTemplate ::
  "compose_env \<Rightarrow> worker_config option \<Rightarrow> hypervisor_config option \<Rightarrow> profile_workload \<Rightarrow> k_spec \<Rightarrow> (k_spec \<times> string) option" where
  "AddWorkerConfAfterTemplate x cfg hyp w spec =
     (case (cfg, ks_Containers spec) of
        (Some cfg', c # cs) \<Rightarrow>
          let c' = SetWorkerContainerSpec x (pw_Spec w) cfg' hyp (get_str (pw_Annotations w) DisableFeaturesAnnotation) False c
          in Some ((add_volumes [host_volume DataVolumeName TFDataPath] spec)
                     \<lparr>ks_Containers := c' # cs, ks_TerminationGracePeriodSeconds := Some GracefulPeriodSeconds\<rparr>, kc_Name c')
      | _ \<Rightarrow> None)"

text \<open>
  \<^verbatim>\<open>WorkerGenerator.GenerateWorkerPod\<close>. A nil configuration or template, or a template without containers,
  is a panic; a template that cannot be decoded or merged is an error.
\<close>

datatype generate_error = GeneratePanic | UnmarshalTemplateFailed | MergeTemplateFailed

definition GenerateWorkerPod ::
  "compose_env \<Rightarrow> worker_config option \<Rightarrow> hypervisor_config option \<Rightarrow> profile_workload \<Rightarrow> generate_error + k_pod" where
  "GenerateWorkerPod x cfg hyp w =
     (case Option.bind cfg wc_PodTemplate of
        None \<Rightarrow> Inl GeneratePanic
      | Some raw \<Rightarrow>
          (case ce_unmarshalTemplate x raw of
             None \<Rightarrow> Inl UnmarshalTemplateFailed
           | Some tmpl0 \<Rightarrow>
               (case (case pf_WorkerPodTemplate (pw_Spec w) of None \<Rightarrow> Some tmpl0 | Some ov \<Rightarrow> ce_mergeTemplate x tmpl0 ov) of
                  None \<Rightarrow> Inl MergeTemplateFailed
                | Some tmpl \<Rightarrow>
                    (case AddWorkerConfAfterTemplate x cfg hyp w (pt_Spec tmpl) of
                       None \<Rightarrow> Inl GeneratePanic
                     | Some (spec, containerName) \<Rightarrow>
                         let (labels, annotations) =
                               AppendTFWorkerLabelsAndAnnotationsAfterTemplate (ce_print x) tmpl w containerName
                         in Inr \<lparr>kp_Meta = \<lparr>om_Name = '''', om_Namespace = pw_Namespace w, om_UID = '''', om_Labels = labels,
                                   om_Annotations = annotations, om_Deleting = False, om_Finalizers = []\<rparr>,
                                 kp_GenerateName = pw_Name w @ ''-tf-worker-'', kp_OwnerReferences = [],
                                 kp_Spec = spec\<lparr>ks_EnableServiceLinks := Some False, ks_SchedulerName := SchedulerName,
                                   ks_Tolerations := ks_Tolerations spec @ [system_toleration]\<rparr>\<rparr>))))"

section \<open>Injection into a client pod\<close>

definition TFLibsVolumeMountPath :: string where "TFLibsVolumeMountPath = ''/tensor-fusion''"

definition inject_lib_container :: "string \<Rightarrow> env_var list \<Rightarrow> k_container" where
  "inject_lib_container img es = (empty_container ''inject-lib'')
     \<lparr>kc_Image := img,
      kc_VolumeMounts := [vol_mount TFLibsVolumeName TFLibsVolumeMountPath, vol_mount TFConfVolumeName ''/tensor-fusion-conf''],
      kc_Requests := Some injectLibResource, kc_Limits := Some injectLibResource, kc_Env := es\<rparr>"

definition inject_libs :: "k_container \<Rightarrow> k_container" where
  "inject_libs c =
     add_mounts
       [(vol_mount TFConfVolumeName ''/etc/ld.so.preload'')\<lparr>vm_SubPath := ''ld.so.preload'', vm_ReadOnly := True\<rparr>,
        (vol_mount TFConfVolumeName ''/etc/ld.so.conf.d/zz_tensor-fusion.conf'')
          \<lparr>vm_SubPath := ''zz_tensor-fusion.conf'', vm_ReadOnly := True\<rparr>,
        vol_mount TFLibsVolumeName TFLibsVolumeMountPath]
       (add_env [plain_env ''TF_PREPEND_PATH'' TFLibsVolumeMountPath, plain_env ''TF_LD_LIBRARY_PATH'' TFLibsVolumeMountPath] c)"

definition local_client_envs :: "compose_env \<Rightarrow> hypervisor_config option \<Rightarrow> string \<Rightarrow> string \<Rightarrow> env_var list \<Rightarrow> env_var list" where
  "local_client_envs x hyp disabledFeatures containerName es =
     (let e0 = foldl (\<lambda>es e. add_env_missing e es) es
            [field_env ''POD_NAMESPACE'' ''metadata.namespace'', field_env ''POD_NAME'' ''metadata.name'',
             plain_env ''CONTAINER_NAME'' containerName, plain_env ''NVIDIA_VISIBLE_DEVICES'' ''all''];
          e1 = e0 @ [field_env ''HYPERVISOR_IP'' ''status.hostIP'',
                     plain_env ''HYPERVISOR_PORT'' (show_int (getHypervisorPortNumber hyp))];
          e2 = (if ce_licensed x then e1 @ [plain_env ''TENSOR_FUSION_NGPU_PATH'' (TFLibsVolumeMountPath @ ''/libcuda.so'')] else e1)
      in if disabledFeatures \<noteq> '''' then convertDisabledFeaturesToEnvs disabledFeatures e2 else e2)"

definition inject_local :: "compose_env \<Rightarrow> hypervisor_config option \<Rightarrow> string \<Rightarrow> bool \<Rightarrow> k_container \<Rightarrow> k_container" where
  "inject_local x hyp disabledFeatures sidecar c =
     (if sidecar then add_mounts [vol_mount TransportShmVolumeName TransportShmPath] c
      else (add_mounts [worker_data_mount] c)\<lparr>kc_Env := local_client_envs x hyp disabledFeatures (kc_Name c) (kc_Env c)\<rparr>)"

definition update_containers :: "nat list \<Rightarrow> (k_container \<Rightarrow> k_container) \<Rightarrow> k_spec \<Rightarrow> k_spec" where
  "update_containers idx f s = foldl (\<lambda>s i. update_container i f s) s idx"

definition AddTFDefaultClientConfBeforePatch ::
  "compose_env \<Rightarrow> config_pool \<Rightarrow> tf_info \<Rightarrow> nat list \<Rightarrow> k_pod \<Rightarrow> k_pod option" where
  "AddTFDefaultClientConfBeforePatch x pool info idx p =
     (case cpl_ComponentConfig pool of None \<Rightarrow> None
      | Some cfg \<Rightarrow> (case cfg_Client cfg of None \<Rightarrow> None
      | Some client \<Rightarrow>
          let pr = tfi_Profile info; sidecar = pf_SidecarWorker pr; loc = pf_IsLocalGPU pr;
              disabled = get_str (om_Annotations (kp_Meta p)) DisableFeaturesAnnotation;
              img = (if loc \<and> \<not> sidecar then cl_EmbeddedModeImage client else cl_RemoteModeImage client);
              s0 = kp_Spec p;
              s1 = s0\<lparr>ks_InitContainers := ks_InitContainers s0 @
                     [inject_lib_container img (configureFeatures4InjectLib loc disabled)]\<rparr>;
              s2 = add_volumes [empty_dir_volume TFLibsVolumeName, empty_dir_volume TFConfVolumeName] s1
          in if \<not> list_all (\<lambda>i. i < length (ks_Containers s0)) idx then None
             else let s3 = update_containers idx inject_libs s2 in
               if \<not> loc then Some (p\<lparr>kp_Spec := s3\<rparr>)
               else let s4 = add_volumes [host_volume DataVolumeName TFDataPath] s3 in
                 if sidecar
                 then (case cfg_Worker cfg of None \<Rightarrow> None
                       | Some wcfg \<Rightarrow>
                           let shm = \<lparr>v_Name = TransportShmVolumeName, v_Source = EmptyDir ''Memory'' (Some sharedMemMaxSize)\<rparr>;
                               wk = SetWorkerContainerSpec x pr wcfg (cfg_Hypervisor cfg) disabled True
                                      (add_mounts [vol_mount TransportShmVolumeName TransportShmPath]
                                        (empty_container TFContainerNameWorker));
                               s5 = (add_volumes [shm] s4)\<lparr>ks_Containers := ks_Containers s4 @ [wk]\<rparr>
                           in Some (p\<lparr>kp_Spec := update_containers idx (inject_local x (cfg_Hypervisor cfg) disabled True) s5\<rparr>))
                 else Some (p\<lparr>kp_Spec := update_containers idx (inject_local x (cfg_Hypervisor cfg) disabled False) s4\<rparr>)))"

section \<open>The hypervisor pod\<close>

definition TFContainerNameHypervisor :: string where "TFContainerNameHypervisor = ''tensorfusion-hypervisor''"
definition LogsVolumeName :: string where "LogsVolumeName = ''logs''"
definition GPUInfoVolumeName :: string where "GPUInfoVolumeName = ''gpu-info''"
definition GPUInfoMountPath :: string where "GPUInfoMountPath = ''/etc/tensor-fusion/gpu-info.yaml''"
definition GPUInfoConfigName :: string where "GPUInfoConfigName = ''tensor-fusion-sys-public-gpu-info''"
definition VectorConfigVolumeName :: string where "VectorConfigVolumeName = ''vector-config''"
definition DevicePluginVolumeName :: string where "DevicePluginVolumeName = ''device-plugin''"
definition DevicePluginPath :: string where "DevicePluginPath = ''/var/lib/kubelet/device-plugins''"
definition PodResourcesVolumeName :: string where "PodResourcesVolumeName = ''pod-resources''"
definition PodResourcesPath :: string where "PodResourcesPath = ''/var/lib/kubelet/pod-resources''"

lemmas volume_names = DataVolumeName_def TransportShmVolumeName_def TFLibsVolumeName_def TFConfVolumeName_def
  LogsVolumeName_def GPUInfoVolumeName_def VectorConfigVolumeName_def DevicePluginVolumeName_def PodResourcesVolumeName_def

definition hypervisor_volumes :: "volume list" where
  "hypervisor_volumes =
     [host_volume DataVolumeName TFDataPath,
      config_volume VectorConfigVolumeName ''tensor-fusion-sys-vector-config'',
      empty_dir_volume LogsVolumeName,
      host_volume ''kubernetes-logs'' ''/var/log/pods'',
      config_volume GPUInfoVolumeName GPUInfoConfigName,
      host_volume DevicePluginVolumeName DevicePluginPath,
      host_volume PodResourcesVolumeName PodResourcesPath]"

definition composeHypervisorInitContainer :: "hypervisor_config \<Rightarrow> k_spec \<Rightarrow> k_spec" where
  "composeHypervisorInitContainer h spec =
     spec\<lparr>ks_InitContainers := ks_InitContainers spec @
       [(empty_container ''init-shm'')\<lparr>kc_Image := hc_Image h, kc_Command := [''hypervisor'', ''mount-shm''],
          kc_SecurityContext := Some \<lparr>sc_Privileged = Some True, sc_CapabilitiesAdd = [], sc_AppArmorProfile = None\<rparr>,
          kc_VolumeMounts := [(vol_mount DataVolumeName TFDataPath)\<lparr>vm_MountPropagation := Some ''Bidirectional''\<rparr>]\<rparr>]\<rparr>"

definition http_probe :: "string \<Rightarrow> int \<Rightarrow> int \<Rightarrow> int \<Rightarrow> int \<Rightarrow> probe" where
  "http_probe path port initial period failures =
     \<lparr>pr_Handler = HTTPGet path port, pr_InitialDelaySeconds = initial, pr_PeriodSeconds = period,
      pr_TimeoutSeconds = 5, pr_FailureThreshold = failures\<rparr>"

definition app_armor :: "string \<Rightarrow> string option" where
  "app_armor minorVersionStr =
     (if minorVersionStr = '''' then None
      else let (minorVersion, err) = Atoi minorVersionStr
           in if err \<or> 30 \<le> minorVersion then Some ''Unconfined'' else None)"

definition hypervisor_envs :: "compose_env \<Rightarrow> string \<Rightarrow> int \<Rightarrow> env_var list" where
  "hypervisor_envs x poolName port =
     [plain_env ''TENSOR_FUSION_POOL_NAME'' poolName, plain_env ''NVIDIA_VISIBLE_DEVICES'' ''all'',
      plain_env ''TENSOR_FUSION_GPU_INFO_PATH'' GPUInfoMountPath,
      plain_env ''API_LISTEN_ADDR'' (''0.0.0.0:'' @ show_int port),
      field_env ''POD_NAME'' ''metadata.name'', field_env ''GPU_NODE_NAME'' ''spec.nodeName'',
      plain_env ''DETECT_IN_USED_GPUS'' (show_bool (ce_progressive x)),
      plain_env ''DEVICE_PLUGIN_PATH'' DevicePluginPath]"

definition hypervisor_container :: "compose_env \<Rightarrow> string \<Rightarrow> hypervisor_config \<Rightarrow> bool \<Rightarrow> k_container \<Rightarrow> k_container" where
  "hypervisor_container x poolName h enableVector c =
     (let port = getHypervisorPortNumber (Some h) in
      c\<lparr>kc_VolumeMounts := kc_VolumeMounts c @
          [vol_mount DataVolumeName TFDataPath,
           (vol_mount GPUInfoVolumeName GPUInfoMountPath)\<lparr>vm_SubPath := ''gpu-info.yaml''\<rparr>,
           vol_mount DevicePluginVolumeName DevicePluginPath, vol_mount PodResourcesVolumeName PodResourcesPath]
          @ (if enableVector then [vol_mount LogsVolumeName ''/logs''] else []),
        kc_SecurityContext := Some \<lparr>sc_Privileged = None, sc_CapabilitiesAdd = [''SYS_PTRACE''],
          sc_AppArmorProfile = app_armor (ce_kubeMinor x)\<rparr>,
        kc_Env := kc_Env c @ hypervisor_envs x poolName port,
        kc_Image := (if hc_Image h \<noteq> '''' then hc_Image h else kc_Image c),
        kc_Requests := (if len0 (kc_Requests c) then Some hypervisorDefaultRequests else kc_Requests c),
        kc_Limits := (if len0 (kc_Limits c) then Some hypervisorDefaultLimits else kc_Limits c),
        kc_LivenessProbe := (case kc_LivenessProbe c of None \<Rightarrow> Some (http_probe ''/healthz'' port 15 20 5) | Some p \<Rightarrow> Some p),
        kc_ReadinessProbe := (case kc_ReadinessProbe c of None \<Rightarrow> Some (http_probe ''/readyz'' port 5 15 2) | Some p \<Rightarrow> Some p)\<rparr>)"

definition composeHypervisorContainer :: "compose_env \<Rightarrow> string \<Rightarrow> hypervisor_config \<Rightarrow> bool \<Rightarrow> k_spec \<Rightarrow> k_spec" where
  "composeHypervisorContainer x poolName h enableVector spec =
     update_container 0 (hypervisor_container x poolName h enableVector)
       (spec\<lparr>ks_HostNetwork := True, ks_ServiceAccountName := ''tensor-fusion-hypervisor-sa''\<rparr>)"

definition vector_container :: "hypervisor_config \<Rightarrow> k_container \<Rightarrow> k_container" where
  "vector_container h c =
     c\<lparr>kc_Image := (if hc_VectorImage h \<noteq> '''' then hc_VectorImage h else kc_Image c),
       kc_VolumeMounts := kc_VolumeMounts c @
         [(vol_mount VectorConfigVolumeName ''/etc/vector/vector.yaml'')
            \<lparr>vm_ReadOnly := True, vm_SubPath := ''vector-hypervisor.yaml''\<rparr>,
          vol_mount LogsVolumeName ''/logs''],
       kc_Env := kc_Env c @ [field_env ''NODE_NAME'' ''spec.nodeName''],
       kc_Requests := (if len0 (kc_Requests c) then Some vectorDefaultRequests else kc_Requests c),
       kc_Limits := (if len0 (kc_Limits c) then Some vectorDefaultLimits else kc_Limits c)\<rparr>"

definition composeVectorContainer :: "hypervisor_config \<Rightarrow> k_spec \<Rightarrow> k_spec" where
  "composeVectorContainer h spec = update_container 1 (vector_container h) spec"

definition AddTFHypervisorConfAfterTemplate :: "compose_env \<Rightarrow> config_pool \<Rightarrow> k_spec \<Rightarrow> k_spec option" where
  "AddTFHypervisorConfAfterTemplate x pool spec =
     (case cpl_ComponentConfig pool of None \<Rightarrow> None
      | Some cfg \<Rightarrow> (case cfg_Hypervisor cfg of None \<Rightarrow> None
      | Some h \<Rightarrow>
          let enableVector = hc_EnableVector h;
              s0 = spec\<lparr>ks_HostPID := True, ks_TerminationGracePeriodSeconds := Some GracefulPeriodSeconds,
                        ks_PriorityClassName := ''system-node-critical''\<rparr>;
              s1 = (if enableVector \<and> length (ks_Containers s0) \<noteq> 2
                    then s0\<lparr>ks_Containers := [empty_container TFContainerNameHypervisor, empty_container ''vector'']\<rparr>
                    else if \<not> enableVector \<and> length (ks_Containers s0) \<noteq> 1
                    then s0\<lparr>ks_Containers := [empty_container TFContainerNameHypervisor]\<rparr> else s0);
              s2 = composeHypervisorInitContainer h (add_volumes hypervisor_volumes s1);
              s3 = composeHypervisorContainer x (cpl_Name pool) h enableVector s2
          in Some (if enableVector then composeVectorContainer h s3 else s3)))"

section \<open>The node discovery pod\<close>

definition NamespaceDefaultVal :: string where "NamespaceDefaultVal = ''tensor-fusion-sys''"

definition GetSelfServiceAccountNameShort :: "string \<Rightarrow> string" where
  "GetSelfServiceAccountNameShort self = last (split_on (CHR '':'') self)"

definition toolkit_container :: "string \<Rightarrow> k_container" where
  "toolkit_container img = (empty_container ''toolkit-validation'')
     \<lparr>kc_Image := img, kc_Command := [''sh'', ''-c''],
      kc_Args := [''until [ -f /run/nvidia/validations/toolkit-ready ]; do echo waiting for nvidia container stack to be setup; sleep 5; done''],
      kc_SecurityContext := Some \<lparr>sc_Privileged = Some True, sc_CapabilitiesAdd = [], sc_AppArmorProfile = None\<rparr>,
      kc_VolumeMounts := [(vol_mount ''run-nvidia-validations'' ''/run/nvidia/validations'')
        \<lparr>vm_MountPropagation := Some ''HostToContainer''\<rparr>]\<rparr>"

definition AddTFNodeDiscoveryConfAfterTemplate :: "compose_env \<Rightarrow> config_pool \<Rightarrow> string \<Rightarrow> bool \<Rightarrow> k_spec \<Rightarrow> k_spec option" where
  "AddTFNodeDiscoveryConfAfterTemplate x pool gpuNodeName toolkit spec =
     (case Option.bind (cpl_ComponentConfig pool) cfg_NodeDiscovery of None \<Rightarrow> None
      | Some nd \<Rightarrow>
          let sa = GetSelfServiceAccountNameShort (ce_selfServiceAccount x);
              s0 = spec\<lparr>ks_RestartPolicy := ''OnFailure'',
                        ks_ServiceAccountName := (if sa = '''' then NamespaceDefaultVal else sa),
                        ks_TerminationGracePeriodSeconds := Some GracefulPeriodSeconds,
                        ks_Containers := (if ks_Containers spec = [] then [empty_container ''tensorfusion-node-discovery'']
                                          else ks_Containers spec)\<rparr>;
              s1 = update_container 0 (\<lambda>c. if nd_Image nd \<noteq> '''' then c\<lparr>kc_Image := nd_Image nd\<rparr> else c) s0;
              img = (if nd_Image nd = '''' then kc_Image (ks_Containers s1 ! 0) else nd_Image nd);
              s2 = (if toolkit
                    then add_volumes [host_volume ''run-nvidia-validations'' ''/run/nvidia/validations'']
                           (s1\<lparr>ks_InitContainers := ks_InitContainers s1 @ [toolkit_container img]\<rparr>)
                    else s1);
              s3 = update_container 0 (\<lambda>c. add_mounts [(vol_mount GPUInfoVolumeName GPUInfoMountPath)\<lparr>vm_SubPath := ''gpu-info.yaml''\<rparr>]
                     (add_env [plain_env ''NODE_DISCOVERY_REPORT_GPU_NODE'' gpuNodeName,
                               field_env ''HOSTNAME'' ''spec.nodeName'', plain_env ''NVIDIA_VISIBLE_DEVICES'' ''all''] c)) s2;
              s4 = add_volumes [config_volume GPUInfoVolumeName GPUInfoConfigName] s3
          in Some (update_container 0
               (\<lambda>c. c\<lparr>kc_Limits := (if len0 (kc_Limits c) then Some nodeDiscoveryDefaultLimits else kc_Limits c),
                      kc_Requests := (if len0 (kc_Requests c) then Some nodeDiscoveryDefaultRequests else kc_Requests c)\<rparr>) s4))"

section \<open>Facts on annotations\<close>

lemma get_str_update: "get_str (AList.update k v m) k' = (if k = k' then v else get_str m k')"
  by (simp add: get_str_def update_conv)

lemma get_str_delete: "get_str (AList.delete k m) k' = (if k = k' then '''' else get_str m k')"
  by (simp add: get_str_def delete_conv)

lemma get_str_put_if: "get_str (put_if b k v m) k' = (if b \<and> k = k' then v else get_str m k')"
  by (simp add: put_if_def get_str_def update_conv)

lemma map_of_put_if: "map_of (put_if b k v m) k' = (if b \<and> k = k' then Some v else map_of m k')"
  by (simp add: put_if_def update_conv)

end
