(* ===== verification/TfParser.thy ===== *)
theory TfParser
  imports Compose
begin

text \<open>
  The reading of a pod's annotations by the admission webhook, \<^verbatim>\<open>webhook/v1/tf_parser.go\<close>: the workload
  profile of a pod is put together from a profile object, the pool, the namespace's quota defaults and the
  annotations, in this order. Answers of the API server, the quantity parser and printer, the random short
  identifier, the table of GPU capacities and the conversion of a worker template from YAML to JSON are the
  record \<open>parse_env\<close>. The function also writes one annotation of the pod.
\<close>

section \<open>Environment, errors and keys\<close>

record parse_env =
  pe_parse :: "string \<Rightarrow> quantity option"
  pe_print :: "quantity \<Rightarrow> string"
  pe_shortID :: string
  pe_getOwner :: "owner_ref \<Rightarrow> owned get_result"
  pe_getProfile :: "string \<Rightarrow> string \<Rightarrow> workload_profile option"  \<comment> \<open>by name and namespace\<close>
  pe_pools :: "config_pool list option"
  pe_quotas :: "string \<Rightarrow> quota_single list option"  \<comment> \<open>of a namespace\<close>
  pe_capacity :: "(string, resource) gomap"
  pe_template :: "string \<Rightarrow> string option"

datatype parse_error =
    InvalidEnabledReplicas | ControllerRefFailed | GetProfileFailed | ListPoolsFailed | PoolNotFound
  | TemplateInLocalMode | TemplateInSidecarMode | TemplateInvalid | InvalidGPUCount
  | RequestsMutuallyExclusive | IndicesInvalid | InjectContainerMissing | DedicatedWithoutModel
  | UnknownCapacity | NoContainerPanic

definition NvidiaGPUKey :: string where "NvidiaGPUKey = ''nvidia.com/gpu''"
definition FalseStringValue :: string where "FalseStringValue = ''false''"
definition EnabledReplicasAnnotation :: string where "EnabledReplicasAnnotation = ''tensor-fusion.ai/enabled-replicas''"
definition WorkloadProfileAnnotation :: string where "WorkloadProfileAnnotation = ''tensor-fusion.ai/workload-profile''"
definition WorkerPodTemplateAnnotation :: string where "WorkerPodTemplateAnnotation = ''tensor-fusion.ai/worker-pod-template''"
definition DefaultPoolKeyAnnotation :: string where "DefaultPoolKeyAnnotation = ''tensor-fusion.ai/is-default-pool''"
definition AutoScaleResourcesAnnotation :: string where "AutoScaleResourcesAnnotation = ''tensor-fusion.ai/auto-resources''"
definition AutoScaleReplicasAnnotation :: string where "AutoScaleReplicasAnnotation = ''tensor-fusion.ai/auto-replicas''"
definition AutoScaleTargetResourceAnnotation :: string where
  "AutoScaleTargetResourceAnnotation = ''tensor-fusion.ai/auto-scale-target-resource''"

definition zero_profile :: workload_profile where
  "zero_profile = \<lparr>pf_Replicas = None, pf_PoolName = '''', pf_Resources = zero_resources, pf_Qos = '''', pf_IsLocalGPU = False,
     pf_SidecarWorker = False, pf_Isolation = '''', pf_GPUModel = '''', pf_GPUCount = 0, pf_GPUIndices = [], pf_GPUVendor = '''',
     pf_AutoScalingConfig = \<lparr>asc_AutoSetResources = \<lparr>asr_Enable = False, asr_TargetResource = '''',
         asr_TargetTflopsPercentile = '''', asr_LowerBoundTflopsPercentile = '''', asr_UpperBoundTflopsPercentile = '''',
         asr_TargetVramPercentile = '''', asr_LowerBoundVramPercentile = '''', asr_UpperBoundVramPercentile = '''',
         asr_RequestMarginFraction = '''', asr_ConfidenceInterval = ''''\<rparr>,
       asc_AutoSetReplicas = \<lparr>arp_Enable = False, arp_TargetTFlopsOfLimits = '''', arp_EvaluationPeriod = '''',
         arp_ScaleUpStep = '''', arp_ScaleDownStep = '''', arp_ScaleUpCoolDownTime = '''', arp_ScaleDownCoolDownTime = ''''\<rparr>,
       asc_CronScalingRules = []\<rparr>,
     pf_NodeAffinity = None, pf_WorkerPodTemplate = None\<rparr>"

text \<open>\<^verbatim>\<open>strconv.ParseInt(s, 10, 32)\<close>, \<open>None\<close> for an error.\<close>

definition ParseInt32 :: "string \<Rightarrow> int option" where
  "ParseInt32 s = (let (n, err) = ParseInt s in if err \<or> n < - (2 ^ 31) \<or> 2 ^ 31 - 1 < n then None else Some n)"

definition to_uint32 :: "int \<Rightarrow> nat" where
  "to_uint32 n = nat (n mod 2 ^ 32)"

section \<open>The parts\<close>

definition parseResourceQuantity :: "(string \<Rightarrow> quantity option) \<Rightarrow> (string, string) gomap \<Rightarrow> string \<Rightarrow> quantity option" where
  "parseResourceQuantity parse ann key = (if get_str ann key = '''' then None else parse (get_str ann key))"

fun select_pool :: "string option \<Rightarrow> config_pool list \<Rightarrow> config_pool option" where
  "select_pool name [] = None"
| "select_pool name (p # ps) =
     (case name of
        None \<Rightarrow> if get_str (cpl_Annotations p) DefaultPoolKeyAnnotation = TrueStringValue then Some p else select_pool name ps
      | Some n \<Rightarrow> if cpl_Name p = n then Some p else select_pool name ps)"

definition checkAndGetValidGPUPool :: "parse_env \<Rightarrow> (string, string) gomap \<Rightarrow> parse_error + config_pool" where
  "checkAndGetValidGPUPool x ann =
     (case pe_pools x of None \<Rightarrow> Inl ListPoolsFailed
      | Some pools \<Rightarrow>
          (case select_pool (map_of ann GpuPoolKey) pools of
             None \<Rightarrow> Inl PoolNotFound
           | Some p \<Rightarrow> if cpl_Name p = '''' then Inl PoolNotFound else Inr p))"

definition default_resource :: "resource option \<Rightarrow> resource \<Rightarrow> resource" where
  "default_resource d r =
     (case d of None \<Rightarrow> r
      | Some d' \<Rightarrow> r\<lparr>Tflops := (if Tflops r = 0 then Tflops d' else Tflops r), Vram := (if Vram r = 0 then Vram d' else Vram r)\<rparr>)"

definition setDefaultQuotasIfExists :: "quota_single \<Rightarrow> workload_profile \<Rightarrow> workload_profile" where
  "setDefaultQuotasIfExists q pr =
     pr\<lparr>pf_Resources := \<lparr>Requests = default_resource (qs_DefaultRequests q) (pf_Requests pr),
                         Limits = default_resource (qs_DefaultLimits q) (pf_Limits pr)\<rparr>\<rparr>"

definition parseAutoScalingAnnotations :: "(string, string) gomap \<Rightarrow> workload_profile \<Rightarrow> workload_profile" where
  "parseAutoScalingAnnotations ann pr =
     (let c0 = pf_AutoScalingConfig pr; r0 = asc_AutoSetResources c0;
          r1 = (if map_of ann AutoScaleResourcesAnnotation = Some TrueStringValue then r0\<lparr>asr_Enable := True\<rparr> else r0);
          r2 = (case map_of ann AutoScaleTargetResourceAnnotation of None \<Rightarrow> r1 | Some t \<Rightarrow> r1\<lparr>asr_TargetResource := t\<rparr>);
          p1 = (if map_of ann AutoScaleReplicasAnnotation = Some TrueStringValue
                then (asc_AutoSetReplicas c0)\<lparr>arp_Enable := True\<rparr> else asc_AutoSetReplicas c0)
      in pr\<lparr>pf_AutoScalingConfig := c0\<lparr>asc_AutoSetResources := r2, asc_AutoSetReplicas := p1\<rparr>\<rparr>)"

text \<open>The first container with a readable positive number of native GPUs: that number and its name.\<close>

fun native_gpus :: "(quantity \<Rightarrow> string) \<Rightarrow> k_container list \<Rightarrow> (int \<times> string) option" where
  "native_gpus print [] = None"
| "native_gpus print (c # cs) =
     (case Option.bind (kc_Limits c) (\<lambda>l. map_of l NvidiaGPUKey) of
        None \<Rightarrow> native_gpus print cs
      | Some q \<Rightarrow> (case Atoi (print q) of (n, err) \<Rightarrow> if err \<or> n \<le> 0 then native_gpus print cs else Some (n, kc_Name c)))"

text \<open>The GPU count: the profile, whether it comes from native limits, and the pod's annotations.\<close>

definition parse_gpu_count ::
  "parse_env \<Rightarrow> k_container list \<Rightarrow> (string, string) gomap \<Rightarrow> workload_profile
     \<Rightarrow> parse_error + workload_profile \<times> bool \<times> (string, string) gomap" where
  "parse_gpu_count x cs ann pr =
     (case map_of ann GpuCountAnnotation of
        Some s \<Rightarrow> (case ParseInt32 s of None \<Rightarrow> Inl InvalidGPUCount
                   | Some n \<Rightarrow> Inr (pr\<lparr>pf_GPUCount := to_uint32 n\<rparr>, False, ann))
      | None \<Rightarrow>
          if pf_GPUCount pr \<noteq> 0 then Inr (pr, False, ann)
          else case native_gpus (pe_print x) cs of
                 None \<Rightarrow> Inr (pr, False, ann)
               | Some (n, name) \<Rightarrow>
                   Inr (pr\<lparr>pf_GPUCount := to_uint32 n,
                           pf_Resources := (pf_Resources pr)\<lparr>Limits := (pf_Limits pr)\<lparr>ComputePercent := 100\<rparr>\<rparr>\<rparr>, True,
                        put_if (get_str ann InjectContainerAnnotation = '''') InjectContainerAnnotation name ann))"

definition parse_amounts :: "(string \<Rightarrow> quantity option) \<Rightarrow> (string, string) gomap \<Rightarrow> bool \<Rightarrow> resources \<Rightarrow> resources" where
  "parse_amounts parse ann migrated r =
     (let get = (\<lambda>key. parseResourceQuantity parse ann key);
          or_else = (\<lambda>q d. case q of None \<Rightarrow> d | Some v \<Rightarrow> v);
          lim = Limits r; req = Requests r;
          limT = or_else (get TFLOPSLimitAnnotation) (Tflops lim);
          limC0 = (if get TFLOPSLimitAnnotation \<noteq> None \<and> migrated then 0 else ComputePercent lim);
          limV = or_else (get VRAMLimitAnnotation) (Vram lim);
          reqT = or_else (get TFLOPSRequestAnnotation) (if Tflops req = 0 then limT else Tflops req);
          reqV = or_else (get VRAMRequestAnnotation) (if Vram req = 0 then limV else Vram req);
          limC = or_else (get ComputeLimitAnnotation) limC0;
          reqC = or_else (get ComputeRequestAnnotation)
                   (if reqT = 0 \<and> ComputePercent req = 0 then limC else ComputePercent req)
      in \<lparr>Requests = \<lparr>Tflops = reqT, ComputePercent = reqC, Vram = reqV\<rparr>,
          Limits = \<lparr>Tflops = limT, ComputePercent = limC, Vram = limV\<rparr>\<rparr>)"

definition parseGPUResourcesAnnotations ::
  "parse_env \<Rightarrow> k_container list \<Rightarrow> (string, string) gomap \<Rightarrow> workload_profile
     \<Rightarrow> parse_error + workload_profile \<times> (string, string) gomap" where
  "parseGPUResourcesAnnotations x cs ann pr =
     (case parse_gpu_count x cs ann pr of
        Inl e \<Rightarrow> Inl e
      | Inr (pr1, migrated, ann1) \<Rightarrow>
          let res = parse_amounts (pe_parse x) ann1 migrated (pf_Resources pr1);
              pr2 = pr1\<lparr>pf_Resources := res\<rparr>
          in if Tflops (Requests res) \<noteq> 0 \<and> ComputePercent (Requests res) \<noteq> 0 then Inl RequestsMutuallyExclusive
             else let pr3 = (case map_of ann1 QoSLevelAnnotation of None \<Rightarrow> pr2 | Some q \<Rightarrow> pr2\<lparr>pf_Qos := q\<rparr>);
                      pr4 = (case map_of ann1 GpuVendorAnnotation of None \<Rightarrow> pr3 | Some v \<Rightarrow> pr3\<lparr>pf_GPUVendor := v\<rparr>);
                      (indices, hasError) = ParseIndicesAnnotation (get_str ann1 GpuIndicesAnnotation)
                  in if hasError then Inl IndicesInvalid
                     else let pr5 = pr4\<lparr>pf_GPUIndices := indices\<rparr>;
                              pr6 = (if indices \<noteq> [] then pr5\<lparr>pf_GPUCount := to_uint32 (int (length indices))\<rparr> else pr5)
                          in Inr (if pf_GPUCount pr6 = 0 then pr6\<lparr>pf_GPUCount := 1\<rparr> else pr6, ann1))"

definition handleDedicatedGPU :: "parse_env \<Rightarrow> (string, string) gomap \<Rightarrow> workload_profile \<Rightarrow> parse_error + workload_profile" where
  "handleDedicatedGPU x ann pr =
     (if map_of ann DedicatedGPUAnnotation \<noteq> Some TrueStringValue then Inr pr
      else if pf_GPUModel pr = '''' then Inl DedicatedWithoutModel
      else case map_of (pe_capacity x) (pf_GPUModel pr) of
             None \<Rightarrow> Inl UnknownCapacity
           | Some c \<Rightarrow>
               let full = (\<lambda>r. r\<lparr>Tflops := Tflops c, Vram := Vram c\<rparr>)
               in Inr (pr\<lparr>pf_Resources := \<lparr>Requests = full (pf_Requests pr), Limits = full (pf_Limits pr)\<rparr>\<rparr>))"

section \<open>ParseTensorFusionInfo\<close>

definition owned_of :: "k_pod \<Rightarrow> owned" where
  "owned_of p = \<lparr>ow_APIVersion = ''v1'', ow_Kind = ''Pod'', ow_Name = om_Name (kp_Meta p), ow_UID = om_UID (kp_Meta p),
     ow_Owners = kp_OwnerReferences p\<rparr>"

definition parse_replicas :: "(string, string) gomap \<Rightarrow> parse_error + int option" where
  "parse_replicas ann =
     (case map_of ann EnabledReplicasAnnotation of None \<Rightarrow> Inr None
      | Some s \<Rightarrow> (case ParseInt32 s of None \<Rightarrow> Inl InvalidEnabledReplicas | Some n \<Rightarrow> Inr (Some n)))"

definition workload_identity :: "parse_env \<Rightarrow> k_pod \<Rightarrow> parse_error + string \<times> owner_ref option" where
  "workload_identity x p =
     (case GetPodControllerRef (pe_getOwner x) (owned_of p) of
        OwnerLookupFailed \<Rightarrow> Inl ControllerRefFailed
      | OwnerIs r \<Rightarrow> Inr (or_Name r, Some r)
      | NoOwner \<Rightarrow> Inr (if om_Name (kp_Meta p) = '''' then kp_GenerateName p @ ''-'' @ pe_shortID x else om_Name (kp_Meta p), None))"

definition base_profile :: "parse_env \<Rightarrow> string \<Rightarrow> (string, string) gomap \<Rightarrow> parse_error + workload_profile" where
  "base_profile x namespace ann =
     (case map_of ann WorkloadProfileAnnotation of None \<Rightarrow> Inr zero_profile
      | Some n \<Rightarrow> (case pe_getProfile x n namespace of None \<Rightarrow> Inl GetProfileFailed | Some pr \<Rightarrow> Inr pr))"

definition set_modes :: "config_pool \<Rightarrow> (string, string) gomap \<Rightarrow> workload_profile \<Rightarrow> workload_profile" where
  "set_modes pool ann pr =
     (let loc = (case map_of ann IsLocalGPUAnnotation of
                   Some v \<Rightarrow> if v = TrueStringValue then True else if v = FalseStringValue then False
                             else cpl_DefaultUsingLocalGPU pool \<noteq> Some False
                 | None \<Rightarrow> cpl_DefaultUsingLocalGPU pool \<noteq> Some False);
          pr1 = pr\<lparr>pf_PoolName := cpl_Name pool, pf_IsLocalGPU := loc\<rparr>;
          pr2 = (if map_of ann SidecarWorkerAnnotation = Some TrueStringValue
                 then pr1\<lparr>pf_IsLocalGPU := True, pf_SidecarWorker := True\<rparr> else pr1)
      in pr2\<lparr>pf_Isolation := (case map_of ann IsolationModeAnnotation of Some m \<Rightarrow> m | None \<Rightarrow> IsolationModeSoft)\<rparr>)"

definition set_worker_template :: "parse_env \<Rightarrow> (string, string) gomap \<Rightarrow> workload_profile \<Rightarrow> parse_error + workload_profile" where
  "set_worker_template x ann pr =
     (if get_str ann WorkerPodTemplateAnnotation = '''' then Inr pr
      else if pf_IsLocalGPU pr then Inl TemplateInLocalMode
      else if pf_SidecarWorker pr then Inl TemplateInSidecarMode
      else case pe_template x (get_str ann WorkerPodTemplateAnnotation) of
             None \<Rightarrow> Inl TemplateInvalid
           | Some raw \<Rightarrow> Inr (pr\<lparr>pf_WorkerPodTemplate := Some raw\<rparr>))"

definition inject_containers :: "k_container list \<Rightarrow> (string, string) gomap \<Rightarrow> parse_error + string list" where
  "inject_containers cs ann =
     (if 1 < length cs
      then (case map_of ann InjectContainerAnnotation of
              None \<Rightarrow> Inl InjectContainerMissing
            | Some s \<Rightarrow> Inr (split_on (CHR '','') s))
      else case cs of [] \<Rightarrow> Inl NoContainerPanic | c # _ \<Rightarrow> Inr [kc_Name c])"

definition ParseTensorFusionInfo :: "parse_env \<Rightarrow> k_pod \<Rightarrow> parse_error + tf_info \<times> k_pod" where
  "ParseTensorFusionInfo x p =
     (let ann = om_Annotations (kp_Meta p); cs = ks_Containers (kp_Spec p); namespace = om_Namespace (kp_Meta p) in
      case parse_replicas ann of Inl e \<Rightarrow> Inl e
      | Inr replicas \<Rightarrow> (case workload_identity x p of Inl e \<Rightarrow> Inl e
      | Inr (name, ref) \<Rightarrow> (case base_profile x namespace ann of Inl e \<Rightarrow> Inl e
      | Inr pr0 \<Rightarrow> (case checkAndGetValidGPUPool x ann of Inl e \<Rightarrow> Inl e
      | Inr pool \<Rightarrow> (case set_worker_template x ann (set_modes pool ann pr0) of Inl e \<Rightarrow> Inl e
      | Inr pr1 \<Rightarrow>
          let pr2 = (case pe_quotas x namespace of Some (q # _) \<Rightarrow> setDefaultQuotasIfExists q pr1 | _ \<Rightarrow> pr1) in
          (case parseGPUResourcesAnnotations x cs ann pr2 of Inl e \<Rightarrow> Inl e
      | Inr (pr3, ann1) \<Rightarrow>
          let pr4 = parseAutoScalingAnnotations ann1 pr3 in
          (case inject_containers cs ann1 of Inl e \<Rightarrow> Inl e
      | Inr names \<Rightarrow>
          let pr5 = (case map_of ann1 GPUModelAnnotation of None \<Rightarrow> pr4 | Some m \<Rightarrow> pr4\<lparr>pf_GPUModel := m\<rparr>) in
          (case handleDedicatedGPU x ann1 pr5 of Inl e \<Rightarrow> Inl e
      | Inr pr6 \<Rightarrow>
          Inr (\<lparr>tfi_Profile = pr6, tfi_EnabledReplicas = replicas, tfi_WorkloadName = name, tfi_PodControllerRef = ref,
                 tfi_ContainerNames = names\<rparr>,
               p\<lparr>kp_Meta := (kp_Meta p)\<lparr>om_Annotations := ann1\<rparr>\<rparr>)))))))))"

end
