(* ===== verification/PodCounter.thy ===== *)
theory PodCounter
  imports TfParser
begin

text \<open>
  The counter of injected pods for gradual roll-outs, \<^verbatim>\<open>webhook/v1/pod_counter.go\<close>. A count is an
  annotation of the object that owns the pods; the owner objects of the API server are a map from API version,
  kind, namespace and name to annotations. \<open>counter_env\<close> holds whether reads and updates succeed and the JSON
  encoding of a pod.
\<close>

type_synonym owner_key = "string \<times> string \<times> string \<times> string"
type_synonym owner_objects = "(owner_key, (string, string) gomap) gomap"

record counter_env =
  cte_getOK :: bool
  cte_updateOK :: bool
  cte_podJSON :: "k_pod \<Rightarrow> string"

datatype counter_error = NoControllerOwner | GetOwnerFailed | InvalidCount | UpdateOwnerFailed

definition PodCounterKeyAnnotation :: string where
  "PodCounterKeyAnnotation = ''tensor-fusion.ai/pod-counter-key''"

definition getOrGenerateKey :: "(k_pod \<Rightarrow> string) \<Rightarrow> k_pod \<Rightarrow> string" where
  "getOrGenerateKey json p =
     (let key = get_str (om_Annotations (kp_Meta p)) PodCounterKeyAnnotation;
          hash = get_str (om_Labels (kp_Meta p)) ''pod-template-hash''
      in if key \<noteq> '''' then key
         else if hash \<noteq> '''' then Domain @ ''/tf-counter-'' @ hash
         else Domain @ ''/tf-counter-'' @ GetObjectHash [json p])"

definition getControllerOwnerRef :: "k_pod \<Rightarrow> owner_ref option" where
  "getControllerOwnerRef p = find or_Controller (kp_OwnerReferences p)"

definition owner_key_of :: "owner_ref \<Rightarrow> k_pod \<Rightarrow> owner_key" where
  "owner_key_of r p = (or_APIVersion r, or_Kind r, om_Namespace (kp_Meta p), or_Name r)"

definition get_owner :: "counter_env \<Rightarrow> owner_objects \<Rightarrow> owner_key \<Rightarrow> (string, string) gomap get_result" where
  "get_owner x os k = (if \<not> cte_getOK x then GetFailed else case map_of os k of None \<Rightarrow> NotFound | Some a \<Rightarrow> Found a)"

definition counter_Get :: "counter_env \<Rightarrow> owner_objects \<Rightarrow> k_pod \<Rightarrow> counter_error + int \<times> string" where
  "counter_Get x os p =
     (case getControllerOwnerRef p of
        None \<Rightarrow> Inl NoControllerOwner
      | Some r \<Rightarrow>
          let key = getOrGenerateKey (cte_podJSON x) p in
          (case get_owner x os (owner_key_of r p) of
             Found ann \<Rightarrow>
               if get_str ann key = '''' then Inr (0, key)
               else (case ParseInt32 (get_str ann key) of None \<Rightarrow> Inl InvalidCount | Some n \<Rightarrow> Inr (n, key))
           | _ \<Rightarrow> Inl GetOwnerFailed))"

definition counter_Increase :: "counter_env \<Rightarrow> k_pod \<Rightarrow> owner_objects \<Rightarrow> owner_objects \<times> counter_error option" where
  "counter_Increase x p os =
     (case getControllerOwnerRef p of
        None \<Rightarrow> (os, Some NoControllerOwner)
      | Some r \<Rightarrow>
          let key = getOrGenerateKey (cte_podJSON x) p; k = owner_key_of r p in
          (case get_owner x os k of
             Found ann \<Rightarrow>
               (case ParseInt32 (if get_str ann key = '''' then ''0'' else get_str ann key) of
                  None \<Rightarrow> (os, Some InvalidCount)
                | Some n \<Rightarrow>
                    if cte_updateOK x then (AList.update k (AList.update key (show_int (n + 1)) ann) os, None)
                    else (os, Some UpdateOwnerFailed))
           | _ \<Rightarrow> (os, Some GetOwnerFailed)))"

definition counter_Decrease :: "counter_env \<Rightarrow> k_pod \<Rightarrow> owner_objects \<Rightarrow> owner_objects \<times> counter_error option" where
  "counter_Decrease x p os =
     (case getControllerOwnerRef p of
        None \<Rightarrow> (os, None)
      | Some r \<Rightarrow>
          let key = getOrGenerateKey (cte_podJSON x) p; k = owner_key_of r p in
          (case get_owner x os k of
             Found ann \<Rightarrow>
               (case ParseInt32 (if get_str ann key = '''' then ''0'' else get_str ann key) of
                  None \<Rightarrow> (os, None)
                | Some n \<Rightarrow>
                    let ann' = (if n - 1 \<le> 0 then AList.delete key ann else AList.update key (show_int (n - 1)) ann)
                    in if cte_updateOK x then (AList.update k ann' os, None) else (os, Some UpdateOwnerFailed))
           | _ \<Rightarrow> (os, None)))"

section \<open>What the operations do to the count\<close>

text \<open>The count under a key of an owner, as \<^verbatim>\<open>Get\<close> reads it.\<close>

definition count_of :: "owner_objects \<Rightarrow> owner_key \<Rightarrow> string \<Rightarrow> int option" where
  "count_of os k key =
     (case map_of os k of None \<Rightarrow> None
      | Some ann \<Rightarrow> if get_str ann key = '''' then Some 0 else ParseInt32 (get_str ann key))"

lemma ParseInt32_show_int: "- (2 ^ 31) \<le> n \<Longrightarrow> n < 2 ^ 31 \<Longrightarrow> ParseInt32 (show_int n) = Some n"
  using Atoi_show_int [of n] by (simp add: ParseInt32_def Atoi_def)

lemma ParseInt32_range: "ParseInt32 s = Some n \<Longrightarrow> - (2 ^ 31) \<le> n \<and> n < 2 ^ 31"
  by (auto simp: ParseInt32_def split: prod.splits if_splits)

lemma ParseInt32_zero [simp]: "ParseInt32 ''0'' = Some 0"
  by code_simp

lemma counter_Get_ok_iff:
  "counter_Get x os p = Inr (n, key) \<longleftrightarrow>
     (\<exists>r. getControllerOwnerRef p = Some r \<and> cte_getOK x \<and> key = getOrGenerateKey (cte_podJSON x) p
        \<and> count_of os (owner_key_of r p) key = Some n)"
  by (auto simp: counter_Get_def count_of_def get_owner_def Let_def split: option.splits get_result.splits if_splits)

lemma counter_Increase_ok:
  assumes "counter_Increase x p os = (os', None)"
  obtains r n where "getControllerOwnerRef p = Some r" and
    "count_of os (owner_key_of r p) (getOrGenerateKey (cte_podJSON x) p) = Some n" and
    "n + 1 < 2 ^ 31 \<Longrightarrow> count_of os' (owner_key_of r p) (getOrGenerateKey (cte_podJSON x) p) = Some (n + 1)" and
    "\<And>k' key'. (k', key') \<noteq> (owner_key_of r p, getOrGenerateKey (cte_podJSON x) p) \<Longrightarrow> count_of os' k' key' = count_of os k' key'"
proof -
  from assms obtain r ann n where r: "getControllerOwnerRef p = Some r" and ann: "map_of os (owner_key_of r p) = Some ann"
    and n: "ParseInt32 (if get_str ann (getOrGenerateKey (cte_podJSON x) p) = '''' then ''0''
              else get_str ann (getOrGenerateKey (cte_podJSON x) p)) = Some n"
    and os': "os' = AList.update (owner_key_of r p)
              (AList.update (getOrGenerateKey (cte_podJSON x) p) (show_int (n + 1)) ann) os"
    by (auto simp: counter_Increase_def get_owner_def Let_def split: option.splits get_result.splits if_splits)
  show thesis
  proof (rule that [OF r])
    show "count_of os (owner_key_of r p) (getOrGenerateKey (cte_podJSON x) p) = Some n"
      using ann n by (auto simp: count_of_def split: if_splits)
    show "count_of os' (owner_key_of r p) (getOrGenerateKey (cte_podJSON x) p) = Some (n + 1)" if "n + 1 < 2 ^ 31"
      using that ParseInt32_range [OF n]
      by (simp add: count_of_def os' update_conv get_str_update show_int_not_Nil ParseInt32_show_int)
    show "count_of os' k' key' = count_of os k' key'"
      if "(k', key') \<noteq> (owner_key_of r p, getOrGenerateKey (cte_podJSON x) p)" for k' key'
      using that ann by (auto simp: count_of_def os' update_conv get_str_update)
  qed
qed

text \<open>\<^verbatim>\<open>Decrease\<close> undoes \<^verbatim>\<open>Increase\<close> of the same pod.\<close>

lemma counter_Decrease_Increase:
  assumes "counter_Increase x p os = (os1, None)"
    and "getControllerOwnerRef p = Some r" "key = getOrGenerateKey (cte_podJSON x) p"
    and "count_of os (owner_key_of r p) key = Some n" "0 \<le> n" "n + 1 < 2 ^ 31"
  shows "\<exists>os2. counter_Decrease x p os1 = (os2, None) \<and> count_of os2 (owner_key_of r p) key = Some n"
proof -
  from assms obtain ann where ann: "map_of os (owner_key_of r p) = Some ann" "cte_getOK x" "cte_updateOK x"
    and os1: "os1 = AList.update (owner_key_of r p) (AList.update key (show_int (n + 1)) ann) os"
    by (auto simp: counter_Increase_def get_owner_def count_of_def Let_def split: option.splits get_result.splits if_splits)
  then show ?thesis
    using assms(2-6) by (auto simp: counter_Decrease_def get_owner_def update_conv get_str_update get_str_delete
        count_of_def show_int_not_Nil ParseInt32_show_int Let_def)
qed

end
