(* ===== verification/PodWebhook.thy ===== *)
theory PodWebhook
  imports PodCounter PortAllocator
begin

text \<open>
  The mutating admission webhook for pods, \<^verbatim>\<open>webhook/v1/pod_webhook.go\<close>, and the automatic migration of
  native GPU pods, \<^verbatim>\<open>webhook/v1/auto_migration.go\<close>. The state a request may change (owner objects,
  workloads, the port allocator) is the record \<open>webhook_world\<close>; the answers of the API server and of the leader,
  label selectors, strategic merges and JSON diffs are \<open>webhook_env\<close>. A JSON encoding of a pod is the pod, and
  encoding one does not fail. The unused assignment of device indexes is left out.
\<close>

section \<open>Automatic migration\<close>

record auto_migration_rules =
  amr_NamespaceNames :: "string list"
  amr_NamespaceSelector :: "string option"
  amr_PodSelector :: "string option"

record auto_migration_scope =
  ams_Includes :: "auto_migration_rules option"
  ams_Excludes :: "auto_migration_rules option"

record auto_migration_config =
  amc_Enable :: bool
  amc_Scope :: "auto_migration_scope option"

record json_op =
  jo_Operation :: string
  jo_Path :: string
  jo_Value :: string

record webhook_env =
  we_parse :: parse_env
  we_compose :: compose_env
  we_counter :: counter_env
  we_autoMigration :: "auto_migration_config option"
  we_selector :: "string \<Rightarrow> ((string, string) gomap \<Rightarrow> bool) option"
  we_namespaceLabels :: "string \<Rightarrow> (string, string) gomap option"
  we_getPool :: "string \<Rightarrow> config_pool option"
  we_workloadGetOK :: bool
  we_workloadCreateOK :: bool
  we_workloadPatchOK :: bool
  we_mergeContainer :: "string option \<Rightarrow> k_container \<Rightarrow> k_container option"
  we_createPatch :: "k_pod \<Rightarrow> k_pod \<Rightarrow> json_op list option"
  we_podPatch :: "string option \<Rightarrow> k_pod \<Rightarrow> k_pod \<Rightarrow> (json_op list \<times> k_pod) option"
    \<comment> \<open>merge into the original pod: the difference, and the result decoded into the pod at hand\<close>
  we_clientJSON :: "client_config \<Rightarrow> string"
  we_connectionID :: "nat \<Rightarrow> string"
  we_leaderIP :: string
  we_operatorPort :: string
  we_http :: "string \<Rightarrow> (int \<times> string) option"  \<comment> \<open>status and body of a GET\<close>

record webhook_world =
  ww_owners :: owner_objects
  ww_workloads :: "(string \<times> string, profile_workload) gomap"  \<comment> \<open>by namespace and name\<close>
  ww_ports :: port_allocator

definition matchesRules :: "webhook_env \<Rightarrow> k_pod \<Rightarrow> auto_migration_rules \<Rightarrow> bool option" where
  "matchesRules x p rules =
     (let by_pod = (case amr_PodSelector rules of None \<Rightarrow> Some False
           | Some s \<Rightarrow> map_option (\<lambda>m. m (om_Labels (kp_Meta p))) (we_selector x s))
      in if List.member (amr_NamespaceNames rules) (om_Namespace (kp_Meta p)) then Some True
         else case amr_NamespaceSelector rules of
                None \<Rightarrow> by_pod
              | Some s \<Rightarrow>
                  (case we_namespaceLabels x (om_Namespace (kp_Meta p)) of None \<Rightarrow> None
                   | Some ls \<Rightarrow> (case we_selector x s of None \<Rightarrow> None
                   | Some m \<Rightarrow> if m ls then Some True else by_pod)))"

text \<open>\<open>None\<close> is an error.\<close>

definition ShouldAutoMigrateGPUPod :: "webhook_env \<Rightarrow> k_pod \<Rightarrow> bool option" where
  "ShouldAutoMigrateGPUPod x p =
     (case we_autoMigration x of None \<Rightarrow> Some False
      | Some cfg \<Rightarrow>
          if \<not> amc_Enable cfg then Some False
          else (case amc_Scope cfg of None \<Rightarrow> Some True
                | Some scope \<Rightarrow>
                    (case (case ams_Excludes scope of None \<Rightarrow> Some False | Some r \<Rightarrow> matchesRules x p r) of
                       None \<Rightarrow> None
                     | Some True \<Rightarrow> Some False
                     | Some False \<Rightarrow> (case ams_Includes scope of None \<Rightarrow> Some True | Some r \<Rightarrow> matchesRules x p r))))"

section \<open>QoS and the workload\<close>

definition calculateQoSLevel :: "workload_profile \<Rightarrow> config_pool \<Rightarrow> string" where
  "calculateQoSLevel pr pool =
     (if pf_Qos pr \<noteq> '''' then pf_Qos pr
      else if Tflops (pf_Limits pr) = Tflops (pf_Requests pr) \<and> Vram (pf_Limits pr) = Vram (pf_Requests pr) then QoSHigh
      else case cpl_DefaultQoS pool of None \<Rightarrow> QoSMedium | Some q \<Rightarrow> if q = '''' then QoSMedium else q)"

definition WorkloadModeAnnotation :: string where "WorkloadModeAnnotation = ''tensor-fusion.ai/workload-mode''"

definition new_workload :: "k_pod \<Rightarrow> tf_info \<Rightarrow> profile_workload" where
  "new_workload p info =
     \<lparr>pw_Name = tfi_WorkloadName info, pw_Namespace = om_Namespace (kp_Meta p),
      pw_Labels = [(GpuPoolKey, pf_PoolName (tfi_Profile info))],
      pw_Annotations = put_if (get_str (om_Labels (kp_Meta p)) DisableFeaturesAnnotation \<noteq> '''')
        DisableFeaturesAnnotation (get_str (om_Labels (kp_Meta p)) DisableFeaturesAnnotation)
        [(WorkloadModeAnnotation, ''dynamic'')],
      pw_OwnerReferences = (case tfi_PodControllerRef info of None \<Rightarrow> [] | Some r \<Rightarrow> [r]),
      pw_Spec = tfi_Profile info\<rparr>"

definition createOrUpdateWorkload ::
  "webhook_env \<Rightarrow> k_pod \<Rightarrow> tf_info \<Rightarrow> (string \<times> string, profile_workload) gomap
     \<Rightarrow> (string \<times> string, profile_workload) gomap \<times> profile_workload option" where
  "createOrUpdateWorkload x p info ws =
     (let k = (om_Namespace (kp_Meta p), tfi_WorkloadName info) in
      if \<not> we_workloadGetOK x then (ws, None)
      else case map_of ws k of
        None \<Rightarrow>
          if we_workloadCreateOK x then (AList.update k (new_workload p info) ws, Some (new_workload p info)) else (ws, None)
      | Some w \<Rightarrow>
          if pw_Spec w = tfi_Profile info then (ws, Some w)
          else if we_workloadPatchOK x
          then (AList.update k (w\<lparr>pw_Spec := tfi_Profile info\<rparr>) ws, Some (w\<lparr>pw_Spec := tfi_Profile info\<rparr>))
          else (ws, None))"

section \<open>Patching the containers\<close>

definition ComponentClient :: string where "ComponentClient = ''client''"
definition EmbeddedWorkerAnnotation :: string where "EmbeddedWorkerAnnotation = ''tensor-fusion.ai/embedded-worker''"
definition PodIndexAnnotation :: string where "PodIndexAnnotation = ''tensor-fusion.ai/index''"
definition GenHostPortLabel :: string where "GenHostPortLabel = ''tensor-fusion.ai/host-port''"
definition GenHostPortNameLabel :: string where "GenHostPortNameLabel = ''tensor-fusion.ai/port-name''"
definition PendingOwnedWorkloadAnnotation :: string where
  "PendingOwnedWorkloadAnnotation = ''tensor-fusion.ai/pending-owned-workload''"

definition put_label :: "string \<Rightarrow> string \<Rightarrow> k_pod \<Rightarrow> k_pod" where
  "put_label k v p = p\<lparr>kp_Meta := (kp_Meta p)\<lparr>om_Labels := AList.update k v (om_Labels (kp_Meta p))\<rparr>\<rparr>"

definition put_annotation :: "string \<Rightarrow> string \<Rightarrow> k_pod \<Rightarrow> k_pod" where
  "put_annotation k v p = p\<lparr>kp_Meta := (kp_Meta p)\<lparr>om_Annotations := AList.update k v (om_Annotations (kp_Meta p))\<rparr>\<rparr>"

definition assignPodLabelsAndAnnotations :: "bool \<Rightarrow> config_pool \<Rightarrow> k_pod \<Rightarrow> k_pod" where
  "assignPodLabelsAndAnnotations isLocalGPU pool p =
     put_label GpuPoolKey (cpl_Name pool)
       (if isLocalGPU
        then let p1 = put_annotation EmbeddedWorkerAnnotation TrueStringValue (put_label LabelComponent ComponentWorker p)
             in p1\<lparr>kp_Spec := (kp_Spec p1)\<lparr>ks_Tolerations := ks_Tolerations (kp_Spec p1) @ [system_toleration]\<rparr>\<rparr>
        else put_label LabelComponent ComponentClient p)"

definition serializeContainerInjectionPatchJson :: "client_config \<Rightarrow> bool \<Rightarrow> string option" where
  "serializeContainerInjectionPatchJson c isLocalGPU =
     (if isLocalGPU then cl_PatchToEmbeddedWorkerContainer c else cl_PatchToContainer c)"

definition removeNativeGPULimits :: "k_container \<Rightarrow> k_container" where
  "removeNativeGPULimits c =
     c\<lparr>kc_Requests := map_option (AList.delete NvidiaGPUKey) (kc_Requests c),
       kc_Limits := map_option (AList.delete NvidiaGPUKey) (kc_Limits c)\<rparr>"

definition add_index_resource :: "k_container \<Rightarrow> k_container" where
  "add_index_resource c =
     c\<lparr>kc_Requests := Some (case kc_Requests c of None \<Rightarrow> [] | Some r \<Rightarrow> r),
       kc_Limits := Some (AList.update PodIndexAnnotation 1 (case kc_Limits c of None \<Rightarrow> [] | Some l \<Rightarrow> l))\<rparr>"

definition addConnectionForRemoteFixedReplicaVirtualGPU :: "string \<Rightarrow> client_config \<Rightarrow> k_pod \<Rightarrow> k_container \<Rightarrow> k_container" where
  "addConnectionForRemoteFixedReplicaVirtualGPU shortID client p c =
     (let name = om_Name (kp_Meta p); namespace = om_Namespace (kp_Meta p);
          prefix = (if kp_GenerateName p = '''' \<and> name \<noteq> '''' then name @ ''-tf-vgpu-'' else kp_GenerateName p @ ''tf-vgpu-'');
          conn = prefix @ shortID
      in add_env [plain_env ''TENSOR_FUSION_CONNECTION_NAME'' conn,
                  plain_env ''TENSOR_FUSION_CONNECTION_NAMESPACE'' namespace,
                  plain_env ''TENSOR_FUSION_OPERATOR_GET_CONNECTION_URL''
                    (cl_OperatorEndpoint client @ ''/api/connection?name='' @ conn @ ''&namespace='' @ namespace)] c)"

definition patch_container :: "webhook_env \<Rightarrow> client_config \<Rightarrow> bool \<Rightarrow> bool \<Rightarrow> k_pod \<Rightarrow> nat \<Rightarrow> k_pod option" where
  "patch_container x client isLocalGPU isSidecarWorker p i =
     (case we_mergeContainer x (serializeContainerInjectionPatchJson client isLocalGPU) (ks_Containers (kp_Spec p) ! i) of
        None \<Rightarrow> None
      | Some c0 \<Rightarrow>
          let c1 = add_index_resource (removeNativeGPULimits c0);
              c2 = (if \<not> isLocalGPU then addConnectionForRemoteFixedReplicaVirtualGPU (we_connectionID x i) client p c1
                    else if isSidecarWorker
                    then add_env [plain_env ''TENSOR_FUSION_OPERATOR_CONNECTION_INFO'' ''shmem+tf_shm+256+1'',
                                  plain_env ''TF_USE_IVSHMEM'' ''0''] c1
                    else c1)
          in Some (p\<lparr>kp_Spec := update_container i (\<lambda>_. c2) (kp_Spec p)\<rparr>))"

fun patch_containers :: "webhook_env \<Rightarrow> client_config \<Rightarrow> bool \<Rightarrow> bool \<Rightarrow> nat list \<Rightarrow> k_pod \<Rightarrow> k_pod option" where
  "patch_containers x client loc sidecar [] p = Some p"
| "patch_containers x client loc sidecar (i # is) p =
     (case patch_container x client loc sidecar p i of None \<Rightarrow> None | Some p' \<Rightarrow> patch_containers x client loc sidecar is p')"

section \<open>Host ports\<close>

text \<open>The position of the last port with the name: the loops do not stop at the first.\<close>

definition find_port :: "string \<Rightarrow> k_container list \<Rightarrow> (nat \<times> nat) option" where
  "find_port name cs =
     (let ms = concat (map (\<lambda>(i, c). map (\<lambda>(j, q). (i, j)) (filter (\<lambda>(j, q). cp_Name q = name) (enumerate 0 (kc_Ports c))))
                 (enumerate 0 cs))
      in if ms = [] then None else Some (last ms))"

definition assignClusterHostPortFromLeader :: "webhook_env \<Rightarrow> k_pod \<Rightarrow> int option" where
  "assignClusterHostPortFromLeader x p =
     (if we_leaderIP x = '''' then None
      else case we_http x (''http://'' @ we_leaderIP x @ '':'' @ we_operatorPort x @ ''/api/assign-host-port?podName=''
                @ om_Name (kp_Meta p)) of
             None \<Rightarrow> None
           | Some (status, body) \<Rightarrow>
               if status \<noteq> 200 then None else (case Atoi body of (n, err) \<Rightarrow> if err then None else Some n))"

definition getPortNumber :: "k_pod \<Rightarrow> int" where
  "getPortNumber p = fst (Atoi (get_str (om_Annotations (kp_Meta p)) GenPortNumberAnnotation))"

definition set_host_port :: "nat \<Rightarrow> nat \<Rightarrow> int \<Rightarrow> k_pod \<Rightarrow> k_pod" where
  "set_host_port i j n p =
     p\<lparr>kp_Spec := update_container i (\<lambda>c. c\<lparr>kc_Ports := (kc_Ports c)[j := (kc_Ports c ! j)\<lparr>cp_HostPort := n\<rparr>]\<rparr>) (kp_Spec p)\<rparr>"

datatype patch_error = MergeContainerFailed | PortNameNotFound | PortFromLeaderFailed | NoClusterPort port_error
  | CreatePatchFailed | PodPatchFailed

definition generateHostPort ::
  "webhook_env \<Rightarrow> string \<Rightarrow> k_pod \<Rightarrow> port_allocator \<Rightarrow> port_allocator \<times> (patch_error + k_pod)" where
  "generateHostPort x portName p s =
     (case find_port portName (ks_Containers (kp_Spec p)) of
        None \<Rightarrow> (s, Inl PortNameNotFound)
      | Some (i, j) \<Rightarrow>
          let assign = (\<lambda>port. let p1 = put_annotation GenPortNumberAnnotation (show_int port) p
                               in set_host_port i j (s32 (getPortNumber p1)) p1)
          in if \<not> IsLeader s
             then (s, case assignClusterHostPortFromLeader x p of None \<Rightarrow> Inl PortFromLeaderFailed | Some n \<Rightarrow> Inr (assign n))
             else (case AssignClusterLevelHostPort (om_Name (kp_Meta p)) s of
                     (s', Inl e) \<Rightarrow> (s', Inl (NoClusterPort e))
                   | (s', Inr n) \<Rightarrow> (s', Inr (assign n))))"

section \<open>The patch\<close>

definition calculatePodPatch :: "webhook_env \<Rightarrow> client_config \<Rightarrow> bool \<Rightarrow> k_pod \<Rightarrow> k_pod \<Rightarrow> (json_op list \<times> k_pod) option" where
  "calculatePodPatch x client isLocalGPU current p =
     we_podPatch x (if isLocalGPU then cl_PatchEmbeddedWorkerToPod client else cl_PatchToPod client) current p"

definition client_hash :: "webhook_env \<Rightarrow> client_config \<Rightarrow> string" where
  "client_hash x client = GetObjectHash [we_clientJSON x client]"

definition finish_patch :: "webhook_env \<Rightarrow> client_config \<Rightarrow> bool \<Rightarrow> k_pod \<Rightarrow> k_pod \<Rightarrow> patch_error + json_op list \<times> k_pod" where
  "finish_patch x client isLocalGPU current p =
     (case we_createPatch x current p of
        None \<Rightarrow> Inl CreatePatchFailed
      | Some patches \<Rightarrow>
          (case calculatePodPatch x client isLocalGPU current p of
             None \<Rightarrow> Inl PodPatchFailed
           | Some (extra, p') \<Rightarrow> Inr (patches @ extra, p')))"

definition patchTFClient ::
  "webhook_env \<Rightarrow> config_pool \<Rightarrow> client_config \<Rightarrow> bool \<Rightarrow> k_pod \<Rightarrow> nat list \<Rightarrow> bool \<Rightarrow> k_pod \<Rightarrow> port_allocator
     \<Rightarrow> port_allocator \<times> (patch_error + json_op list \<times> k_pod)" where
  "patchTFClient x pool client isLocalGPU current idx isSidecarWorker p s =
     (let p1 = assignPodLabelsAndAnnotations isLocalGPU pool
                 (put_label LabelKeyPodTemplateHash (client_hash x client) p) in
      case patch_containers x client isLocalGPU isSidecarWorker idx p1 of
        None \<Rightarrow> (s, Inl MergeContainerFailed)
      | Some p2 \<Rightarrow>
          if get_str (om_Labels (kp_Meta p2)) GenHostPortLabel = ''auto''
          then (case generateHostPort x (get_str (om_Labels (kp_Meta p2)) GenHostPortNameLabel) p2 s of
                  (s', Inl e) \<Rightarrow> (s', Inl e)
                | (s', Inr p3) \<Rightarrow> (s', finish_patch x client isLocalGPU current p3))
          else (s, finish_patch x client isLocalGPU current p2))"

section \<open>The handler\<close>

datatype admission_error = DecodeFailed | ParseInfoFailed parse_error | GetCountFailed counter_error | GetPoolFailed
  | WorkloadFailed | RequestNotSet | PatchFailed patch_error | IncreaseCountFailed counter_error

datatype admission = Allowed string | Errored admission_error | Patched "json_op list" | AdmissionPanic

definition spec_of :: "k_pod \<Rightarrow> pod_spec" where
  "spec_of p = \<lparr>ps_Containers = map (\<lambda>c. \<lparr>ctr_Requests = map_option (map fst) (kc_Requests c),
       ctr_Limits = (case kc_Limits c of None \<Rightarrow> [] | Some l \<Rightarrow> map fst l)\<rparr>) (ks_Containers (kp_Spec p)),
     ps_NodeSelector = [], ps_RequiredTerms = [], ps_SchedulerName = ks_SchedulerName (kp_Spec p)\<rparr>"

text \<open>The pod to inject and the original it is compared with, or an early answer.\<close>

definition admit_pod :: "webhook_env \<Rightarrow> k_pod \<Rightarrow> admission + k_pod \<times> k_pod" where
  "admit_pod x p =
     (if IsTensorFusionPod (pod_of p) then Inr (p, p)
      else if \<not> HasGPUResourceRequest (spec_of p)
      then Inl (Allowed ''non tensor fusion pod nor GPU resource request, skipped'')
      else case ShouldAutoMigrateGPUPod x p of
             None \<Rightarrow> Inl (Allowed ''non tensor fusion pod and invalid migration rule, skipped'')
           | Some True \<Rightarrow> Inr (put_label TensorFusionEnabledLabelKey TrueStringValue p, p)
           | Some False \<Rightarrow>
               if ce_progressive (we_compose x)
               then Inl (Patched [\<lparr>jo_Operation = ''replace'', jo_Path = ''/spec/schedulerName'', jo_Value = SchedulerName\<rparr>])
               else Inl (Allowed ''GPU pod found, skip since NVIDIA_OPERATOR_PROGRESSIVE_MIGRATION not set''))"

fun container_indices :: "k_container list \<Rightarrow> string list \<Rightarrow> nat list" where
  "container_indices cs [] = []"
| "container_indices cs (n # ns) =
     (case find (\<lambda>i. kc_Name (cs ! i) = n) [0..<length cs] of None \<Rightarrow> container_indices cs ns
      | Some i \<Rightarrow> i # container_indices cs ns)"

definition EscapeJSONPointer :: "string \<Rightarrow> string" where
  "EscapeJSONPointer s =
     concat (map (\<lambda>c. if c = CHR ''/'' then ''~1'' else [c])
       (concat (map (\<lambda>c. if c = CHR ''~'' then ''~0'' else [c]) s)))"

definition counter_patch :: "string \<Rightarrow> json_op" where
  "counter_patch key = \<lparr>jo_Operation = ''add'',
     jo_Path = ''/metadata/annotations/'' @ EscapeJSONPointer PodCounterKeyAnnotation, jo_Value = key\<rparr>"

definition set_priority :: "workload_profile \<Rightarrow> k_pod \<Rightarrow> k_pod" where
  "set_priority pr p =
     (if ks_PriorityClassName (kp_Spec p) = '''' \<and> (pf_Qos pr = QoSHigh \<or> pf_Qos pr = QoSCritical)
      then p\<lparr>kp_Spec := (kp_Spec p)\<lparr>ks_PriorityClassName := TensorFusionSystemName @ ''-'' @ pf_Qos pr, ks_Priority := None\<rparr>\<rparr>
      else p)"

text \<open>From the composed pod on: the patch and the counter.\<close>

definition inject_and_count ::
  "webhook_env \<Rightarrow> config_pool \<Rightarrow> tf_info \<Rightarrow> string \<Rightarrow> k_pod \<Rightarrow> nat list \<Rightarrow> k_pod \<Rightarrow> webhook_world \<Rightarrow> webhook_world \<times> admission" where
  "inject_and_count x pool info counterKey current idx p w =
     (let p1 = AddOrOverrideTFClientMissingAnnotationsBeforePatch (ce_print (we_compose x)) info p in
      case AddTFDefaultClientConfBeforePatch (we_compose x) pool info idx p1 of
        None \<Rightarrow> (w, AdmissionPanic)
      | Some p2 \<Rightarrow>
          let client = the (cfg_Client (the (cpl_ComponentConfig pool)));
              (s', r) = patchTFClient x pool client (pf_IsLocalGPU (tfi_Profile info)) current idx
                          (pf_SidecarWorker (tfi_Profile info)) (set_priority (tfi_Profile info) p2) (ww_ports w);
              w1 = w\<lparr>ww_ports := s'\<rparr>
          in case r of
               Inl e \<Rightarrow> (w1, Errored (PatchFailed e))
             | Inr (patches, p4) \<Rightarrow>
                 if counterKey = '''' then (w1, Patched patches)
                 else case counter_Increase (we_counter x) p4 (ww_owners w1) of
                        (os, Some e) \<Rightarrow> (w1, Errored (IncreaseCountFailed e))
                      | (os, None) \<Rightarrow> (w1\<lparr>ww_owners := os\<rparr>, Patched (patches @ [counter_patch counterKey])))"

definition prepare_pod :: "tf_info \<Rightarrow> profile_workload \<Rightarrow> k_pod \<Rightarrow> k_pod" where
  "prepare_pod info wl p =
     (let p1 = (if find or_Controller (pw_OwnerReferences wl) = None
                then put_annotation PendingOwnedWorkloadAnnotation (tfi_WorkloadName info) p else p)
      in if pf_IsLocalGPU (tfi_Profile info) then p1\<lparr>kp_Spec := (kp_Spec p1)\<lparr>ks_SchedulerName := SchedulerName\<rparr>\<rparr> else p1)"

definition handle_injection ::
  "webhook_env \<Rightarrow> config_pool \<Rightarrow> tf_info \<Rightarrow> string \<Rightarrow> k_pod \<Rightarrow> k_pod \<Rightarrow> webhook_world \<Rightarrow> webhook_world \<times> admission" where
  "handle_injection x pool info counterKey current p w =
     (case createOrUpdateWorkload x p info (ww_workloads w) of
        (ws, None) \<Rightarrow> (w\<lparr>ww_workloads := ws\<rparr>, Errored WorkloadFailed)
      | (ws, Some wl) \<Rightarrow>
          let w1 = w\<lparr>ww_workloads := ws\<rparr>; pr = tfi_Profile info; p2 = prepare_pod info wl p;
              idx = container_indices (ks_Containers (kp_Spec p2)) (tfi_ContainerNames info)
          in if idx = [] then (w1, Allowed ''no valid container to inject tensor-fusion, skipped'')
             else if Tflops (pf_Requests pr) = 0 \<and> ComputePercent (pf_Requests pr) = 0 \<and> Vram (pf_Requests pr) = 0
             then (w1, Errored RequestNotSet)
             else inject_and_count x pool info counterKey current idx p2 w1)"

text \<open>The grey-release gate: the key to count under, or an early answer.\<close>

definition replica_gate :: "webhook_env \<Rightarrow> tf_info \<Rightarrow> k_pod \<Rightarrow> webhook_world \<Rightarrow> admission + string" where
  "replica_gate x info p w =
     (case tfi_EnabledReplicas info of None \<Rightarrow> Inr ''''
      | Some n \<Rightarrow>
          (case counter_Get (we_counter x) (ww_owners w) p of
             Inl e \<Rightarrow> Inl (Errored (GetCountFailed e))
           | Inr (podCount, key) \<Rightarrow>
               if n \<le> podCount
               then Inl (Allowed ''tensor fusion pod count reached, keep original Pod for tensor fusion grey releasing'')
               else Inr key))"

definition with_qos :: "config_pool \<Rightarrow> tf_info \<Rightarrow> tf_info" where
  "with_qos pool info = info\<lparr>tfi_Profile := (tfi_Profile info)\<lparr>pf_Qos := calculateQoSLevel (tfi_Profile info) pool\<rparr>\<rparr>"

definition webhook_Handle :: "webhook_env \<Rightarrow> string \<Rightarrow> k_pod option \<Rightarrow> webhook_world \<Rightarrow> webhook_world \<times> admission" where
  "webhook_Handle x reqNamespace req w =
     (case req of None \<Rightarrow> (w, Errored DecodeFailed)
      | Some p0 \<Rightarrow>
          let p = (if om_Namespace (kp_Meta p0) = '''' then p0\<lparr>kp_Meta := (kp_Meta p0)\<lparr>om_Namespace := reqNamespace\<rparr>\<rparr> else p0) in
          (case admit_pod x p of Inl a \<Rightarrow> (w, a)
      | Inr (p1, current) \<Rightarrow>
          (case ParseTensorFusionInfo (we_parse x) p1 of
             Inl e \<Rightarrow> (w, if e = NoContainerPanic then AdmissionPanic else Errored (ParseInfoFailed e))
           | Inr (info, p2) \<Rightarrow>
               (case replica_gate x info p2 w of Inl a \<Rightarrow> (w, a)
                | Inr key \<Rightarrow>
                    (case we_getPool x (pf_PoolName (tfi_Profile info)) of
                       None \<Rightarrow> (w, Errored GetPoolFailed)
                     | Some pool \<Rightarrow> handle_injection x pool (with_qos pool info) key current p2 w)))))"

end
