(* ===== verification/ComposeProps.thy ===== *)
theory ComposeProps
  imports Compose FilterProps
begin

text \<open>
  Properties of the composed pods: every volume a container mounts is declared by its pod, and the annotations
  of a worker pod are read back by the allocator as the workload's profile.
\<close>

section \<open>Declared volumes\<close>

definition mounts_in :: "string set \<Rightarrow> k_container \<Rightarrow> bool" where
  "mounts_in V c \<longleftrightarrow> vm_Name ` set (kc_VolumeMounts c) \<subseteq> V"

definition volume_names_of :: "k_spec \<Rightarrow> string set" where
  "volume_names_of s = v_Name ` set (ks_Volumes s)"

definition mounts_declared :: "k_spec \<Rightarrow> bool" where
  "mounts_declared s \<longleftrightarrow> (\<forall>c \<in> set (ks_Containers s) \<union> set (ks_InitContainers s). mounts_in (volume_names_of s) c)"

lemma mounts_declared_add_volumes [intro]: "mounts_declared s \<Longrightarrow> mounts_declared (add_volumes vs s)"
  by (auto simp: mounts_declared_def mounts_in_def volume_names_of_def add_volumes_def)

lemma volume_names_simps [simp]:
  "volume_names_of (add_volumes vs s) = volume_names_of s \<union> v_Name ` set vs"
  "volume_names_of (update_container i f s) = volume_names_of s"
  "volume_names_of (update_containers idx f s) = volume_names_of s"
  "volume_names_of (s\<lparr>ks_Containers := cs\<rparr>) = volume_names_of s"
  "volume_names_of (s\<lparr>ks_InitContainers := cs\<rparr>) = volume_names_of s"
proof -
  show "volume_names_of (update_containers idx f s) = volume_names_of s"
    by (induction idx arbitrary: s)
       (auto simp: update_containers_def update_container_def volume_names_of_def)
qed (auto simp: volume_names_of_def add_volumes_def update_container_def)

lemma mounts_declared_update:
  assumes "mounts_declared s" and "\<And>c. mounts_in (volume_names_of s) c \<Longrightarrow> mounts_in (volume_names_of s) (f c)"
  shows "mounts_declared (update_container i f s)"
proof (cases "i < length (ks_Containers s)")
  case True
  then show ?thesis
    using assms set_update_subset_insert [of "ks_Containers s" i "f (ks_Containers s ! i)"]
    unfolding mounts_declared_def volume_names_simps by (fastforce simp: update_container_def)
next
  case False
  then show ?thesis using assms(1) by (simp add: update_container_def list_update_beyond)
qed

lemma mounts_declared_updates:
  assumes "mounts_declared s" and "\<And>c. mounts_in (volume_names_of s) c \<Longrightarrow> mounts_in (volume_names_of s) (f c)"
  shows "mounts_declared (update_containers idx f s)"
  using assms
proof (induction idx arbitrary: s)
  case Nil
  then show ?case by (simp add: update_containers_def)
next
  case (Cons i idx)
  then have "mounts_declared (update_containers idx f (update_container i f s))"
    by (intro Cons.IH mounts_declared_update) auto
  then show ?case by (simp add: update_containers_def)
qed

lemma mounts_declared_containers:
  "mounts_declared s \<Longrightarrow> \<forall>c \<in> set cs. mounts_in (volume_names_of s) c \<Longrightarrow> mounts_declared (s\<lparr>ks_Containers := cs\<rparr>)"
  by (auto simp: mounts_declared_def)

lemma mounts_declared_init:
  "mounts_declared s \<Longrightarrow> mounts_in (volume_names_of s) c \<Longrightarrow> mounts_declared (s\<lparr>ks_InitContainers := ks_InitContainers s @ [c]\<rparr>)"
  by (auto simp: mounts_declared_def)

text \<open>Fields that play no role for mounts.\<close>

lemma mounts_declared_fields [simp]:
  "mounts_declared (s\<lparr>ks_HostPID := a\<rparr>) = mounts_declared s"
  "mounts_declared (s\<lparr>ks_HostNetwork := a\<rparr>) = mounts_declared s"
  "mounts_declared (s\<lparr>ks_TerminationGracePeriodSeconds := b\<rparr>) = mounts_declared s"
  "mounts_declared (s\<lparr>ks_PriorityClassName := d\<rparr>) = mounts_declared s"
  "mounts_declared (s\<lparr>ks_ServiceAccountName := d\<rparr>) = mounts_declared s"
  "mounts_declared (s\<lparr>ks_RestartPolicy := d\<rparr>) = mounts_declared s"
  "mounts_declared (s\<lparr>ks_EnableServiceLinks := e\<rparr>) = mounts_declared s"
  "mounts_declared (s\<lparr>ks_SchedulerName := d\<rparr>) = mounts_declared s"
  "mounts_declared (s\<lparr>ks_Tolerations := t\<rparr>) = mounts_declared s"
  "volume_names_of (s\<lparr>ks_HostPID := a\<rparr>) = volume_names_of s"
  "volume_names_of (s\<lparr>ks_HostNetwork := a\<rparr>) = volume_names_of s"
  "volume_names_of (s\<lparr>ks_TerminationGracePeriodSeconds := b\<rparr>) = volume_names_of s"
  "volume_names_of (s\<lparr>ks_PriorityClassName := d\<rparr>) = volume_names_of s"
  "volume_names_of (s\<lparr>ks_ServiceAccountName := d\<rparr>) = volume_names_of s"
  "volume_names_of (s\<lparr>ks_RestartPolicy := d\<rparr>) = volume_names_of s"
  by (auto simp: mounts_declared_def volume_names_of_def)

lemma mounts_in_simps [simp]:
  "mounts_in V (add_mounts ms c) \<longleftrightarrow> mounts_in V c \<and> vm_Name ` set ms \<subseteq> V"
  "mounts_in V (add_env es c) \<longleftrightarrow> mounts_in V c"
  "mounts_in V (c\<lparr>kc_Env := es\<rparr>) \<longleftrightarrow> mounts_in V c"
  "mounts_in V (c\<lparr>kc_Image := img\<rparr>) \<longleftrightarrow> mounts_in V c"
  "mounts_in V (c\<lparr>kc_Limits := l\<rparr>) \<longleftrightarrow> mounts_in V c"
  "mounts_in V (c\<lparr>kc_Requests := l\<rparr>) \<longleftrightarrow> mounts_in V c"
  "mounts_in V (empty_container n)"
  by (auto simp: mounts_in_def add_mounts_def add_env_def empty_container_def)

lemma mounts_in_inject_libs:
  "TFConfVolumeName \<in> V \<Longrightarrow> TFLibsVolumeName \<in> V \<Longrightarrow> mounts_in V c \<Longrightarrow> mounts_in V (inject_libs c)"
  by (simp add: inject_libs_def vol_mount_def)

lemma mounts_in_worker:
  "DataVolumeName \<in> V \<Longrightarrow> mounts_in V c \<Longrightarrow> mounts_in V (SetWorkerContainerSpec x pr cfg hyp disabled shm c)"
  by (simp add: SetWorkerContainerSpec_def mounts_in_def worker_data_mount_def vol_mount_def)

lemma mounts_in_inject_local:
  "(if sidecar then TransportShmVolumeName else DataVolumeName) \<in> V \<Longrightarrow> mounts_in V c
     \<Longrightarrow> mounts_in V (inject_local x hyp disabled sidecar c)"
  by (auto simp: inject_local_def worker_data_mount_def vol_mount_def split: if_splits)

lemma mounts_in_inject_lib_container:
  "TFConfVolumeName \<in> V \<Longrightarrow> TFLibsVolumeName \<in> V \<Longrightarrow> mounts_in V (inject_lib_container img es)"
  by (simp add: inject_lib_container_def mounts_in_def vol_mount_def)

lemma hypervisor_volume_names:
  "v_Name ` set hypervisor_volumes =
     {DataVolumeName, VectorConfigVolumeName, LogsVolumeName, ''kubernetes-logs'', GPUInfoVolumeName,
      DevicePluginVolumeName, PodResourcesVolumeName}"
  by (auto simp: hypervisor_volumes_def host_volume_def config_volume_def empty_dir_volume_def)

section \<open>The four composed pods\<close>

lemma hypervisor_mounts_declared:
  assumes "mounts_declared s" "AddTFHypervisorConfAfterTemplate x pool s = Some s'"
  shows "mounts_declared s'"
proof -
  from assms(2) obtain cfg h where cfg: "cpl_ComponentConfig pool = Some cfg" "cfg_Hypervisor cfg = Some h"
    by (auto simp: AddTFHypervisorConfAfterTemplate_def split: option.splits)
  define s0 where "s0 = s\<lparr>ks_HostPID := True, ks_TerminationGracePeriodSeconds := Some GracefulPeriodSeconds,
    ks_PriorityClassName := ''system-node-critical''\<rparr>"
  define s1 where "s1 = (if hc_EnableVector h \<and> length (ks_Containers s0) \<noteq> 2
      then s0\<lparr>ks_Containers := [empty_container TFContainerNameHypervisor, empty_container ''vector'']\<rparr>
      else if \<not> hc_EnableVector h \<and> length (ks_Containers s0) \<noteq> 1
      then s0\<lparr>ks_Containers := [empty_container TFContainerNameHypervisor]\<rparr> else s0)"
  define s2 where "s2 = composeHypervisorInitContainer h (add_volumes hypervisor_volumes s1)"
  define s3 where "s3 = composeHypervisorContainer x (cpl_Name pool) h (hc_EnableVector h) s2"
  have s': "s' = (if hc_EnableVector h then composeVectorContainer h s3 else s3)"
  proof -
    have "AddTFHypervisorConfAfterTemplate x pool s = Some (if hc_EnableVector h then composeVectorContainer h s3 else s3)"
      unfolding AddTFHypervisorConfAfterTemplate_def s3_def s2_def s1_def s0_def cfg option.case Let_def ..
    with assms(2) show ?thesis by simp
  qed
  have "mounts_declared s0" using assms(1) by (simp add: s0_def)
  then have "mounts_declared s1" by (auto simp: s1_def intro!: mounts_declared_containers)
  then have d2: "mounts_declared s2"
    unfolding s2_def composeHypervisorInitContainer_def
    by (intro mounts_declared_init) (auto simp: hypervisor_volume_names mounts_in_def vol_mount_def)
  have V2: "{DataVolumeName, VectorConfigVolumeName, LogsVolumeName, GPUInfoVolumeName,
      DevicePluginVolumeName, PodResourcesVolumeName} \<subseteq> volume_names_of s2"
    by (auto simp: s2_def composeHypervisorInitContainer_def hypervisor_volume_names)
  have d3: "mounts_declared s3" unfolding s3_def composeHypervisorContainer_def
    using d2 V2 by (intro mounts_declared_update)
      (auto simp: hypervisor_container_def Let_def mounts_in_def vol_mount_def)
  have V3: "volume_names_of s3 = volume_names_of s2" by (simp add: s3_def composeHypervisorContainer_def)
  have "mounts_declared (composeVectorContainer h s3)" unfolding composeVectorContainer_def
    using d3 V2 V3 by (intro mounts_declared_update) (auto simp: vector_container_def mounts_in_def vol_mount_def)
  with d3 show ?thesis by (simp add: s')
qed

lemma discovery_mounts_declared:
  assumes "mounts_declared s" "AddTFNodeDiscoveryConfAfterTemplate x pool node toolkit s = Some s'"
  shows "mounts_declared s'"
proof -
  have fields: "mounts_declared (s\<lparr>ks_RestartPolicy := r, ks_ServiceAccountName := a, ks_TerminationGracePeriodSeconds := g,
      ks_Containers := (if ks_Containers s = [] then [empty_container n] else ks_Containers s)\<rparr>)" for r a g n
    using assms(1) by (auto simp: mounts_declared_def volume_names_of_def)
  have tk: "mounts_declared (add_volumes [host_volume ''run-nvidia-validations'' d] (t\<lparr>ks_InitContainers := ks_InitContainers t @ [toolkit_container img]\<rparr>))"
    if "mounts_declared t" for t d img
    using that by (auto simp: mounts_declared_def volume_names_of_def add_volumes_def mounts_in_def toolkit_container_def
        vol_mount_def host_volume_def)
  have info: "mounts_declared (add_volumes [config_volume GPUInfoVolumeName c] (update_container 0 (\<lambda>c. add_mounts
        [(vol_mount GPUInfoVolumeName m)\<lparr>vm_SubPath := sp\<rparr>] (add_env es c)) t))" if "mounts_declared t" for t c m sp es
  proof -
    have "mounts_declared (update_container 0 (\<lambda>c. add_mounts [(vol_mount GPUInfoVolumeName m)\<lparr>vm_SubPath := sp\<rparr>] (add_env es c))
            (add_volumes [config_volume GPUInfoVolumeName c] t))"
      using that by (intro mounts_declared_update) (auto simp: config_volume_def vol_mount_def)
    then show ?thesis by (simp add: update_container_def add_volumes_def mounts_declared_def volume_names_of_def)
  qed
  have img: "mounts_declared (update_container 0 (\<lambda>c. if b then c\<lparr>kc_Image := i\<rparr> else c) t)" if "mounts_declared t" for t b i
    using that by (intro mounts_declared_update) auto
  have lim: "mounts_declared (update_container 0 (\<lambda>c. c\<lparr>kc_Limits := l c, kc_Requests := r c\<rparr>) t)"
    if "mounts_declared t" for t l r
    using that by (intro mounts_declared_update) auto
  have tk': "mounts_declared (if toolkit then add_volumes [host_volume ''run-nvidia-validations'' d]
      (t\<lparr>ks_InitContainers := ks_InitContainers t @ [toolkit_container img]\<rparr>) else t)" if "mounts_declared t" for t d img
    using that tk [OF that] by simp
  obtain nd where nd: "Option.bind (cpl_ComponentConfig pool) cfg_NodeDiscovery = Some nd"
    using assms(2) by (auto simp: AddTFNodeDiscoveryConfAfterTemplate_def split: option.splits)
  show ?thesis using assms(2) unfolding AddTFNodeDiscoveryConfAfterTemplate_def nd option.case Let_def option.inject
    by (elim subst) (intro lim info tk' img fields)
qed

lemma worker_mounts_declared:
  assumes "mounts_declared s" "AddWorkerConfAfterTemplate x cfg hyp w s = Some (s', n)"
  shows "mounts_declared s'"
proof -
  from assms(2) obtain cfg' c cs where c: "ks_Containers s = c # cs"
    and s': "s' = (add_volumes [host_volume DataVolumeName TFDataPath] s)\<lparr>ks_Containers :=
      SetWorkerContainerSpec x (pw_Spec w) cfg' hyp (get_str (pw_Annotations w) DisableFeaturesAnnotation) False c # cs,
      ks_TerminationGracePeriodSeconds := Some GracefulPeriodSeconds\<rparr>"
    by (auto simp: AddWorkerConfAfterTemplate_def Let_def split: option.splits list.splits)
  have "mounts_declared (add_volumes [host_volume DataVolumeName TFDataPath] s)" using assms(1) by blast
  moreover have "DataVolumeName \<in> volume_names_of (add_volumes [host_volume DataVolumeName TFDataPath] s)"
    by (simp add: host_volume_def)
  ultimately show ?thesis unfolding s'
    by (auto simp: c mounts_declared_def add_volumes_def volume_names_of_def intro!: mounts_in_worker)
qed

lemma client_mounts_declared:
  assumes "mounts_declared (kp_Spec p)" "AddTFDefaultClientConfBeforePatch x pool info idx p = Some p'"
  shows "mounts_declared (kp_Spec p')"
proof -
  have libs: "mounts_declared (update_containers idx inject_libs (add_volumes [empty_dir_volume TFLibsVolumeName, empty_dir_volume TFConfVolumeName]
      (s\<lparr>ks_InitContainers := ks_InitContainers s @ [inject_lib_container img es]\<rparr>)))" if "mounts_declared s" for s img es
  proof -
    have "mounts_declared (add_volumes [empty_dir_volume TFLibsVolumeName, empty_dir_volume TFConfVolumeName]
      (s\<lparr>ks_InitContainers := ks_InitContainers s @ [inject_lib_container img es]\<rparr>))"
      using that by (auto simp: mounts_declared_def volume_names_of_def add_volumes_def empty_dir_volume_def
          mounts_in_def inject_lib_container_def vol_mount_def)
    then show ?thesis by (intro mounts_declared_updates mounts_in_inject_libs) (auto simp: empty_dir_volume_def)
  qed
  have loc: "mounts_declared (update_containers idx (inject_local x hyp dis False) (add_volumes [host_volume DataVolumeName d] s))"
    if "mounts_declared s" for s hyp dis d
    using that by (intro mounts_declared_updates mounts_in_inject_local) (auto simp: host_volume_def)
  have side: "mounts_declared (update_containers idx (inject_local x hyp dis True)
      ((add_volumes [\<lparr>v_Name = TransportShmVolumeName, v_Source = src\<rparr>] (add_volumes [host_volume DataVolumeName d] s))
        \<lparr>ks_Containers := ks_Containers (add_volumes [host_volume DataVolumeName d] s) @
          [SetWorkerContainerSpec x pr wcfg hyp dis True (add_mounts [vol_mount TransportShmVolumeName pa] (empty_container n))]\<rparr>))"
    if "mounts_declared s" for s hyp dis d src wcfg pr pa n
  proof -
    let ?t = "add_volumes [\<lparr>v_Name = TransportShmVolumeName, v_Source = src\<rparr>] (add_volumes [host_volume DataVolumeName d] s)"
    have d: "mounts_declared ?t" using that by blast
    have V: "DataVolumeName \<in> volume_names_of ?t" "TransportShmVolumeName \<in> volume_names_of ?t" by (auto simp: host_volume_def)
    have "mounts_in (volume_names_of ?t) (SetWorkerContainerSpec x pr wcfg hyp dis True
        (add_mounts [vol_mount TransportShmVolumeName pa] (empty_container n)))"
      using V by (intro mounts_in_worker) (auto simp: vol_mount_def)
    then have "mounts_declared (?t\<lparr>ks_Containers := ks_Containers ?t @ [SetWorkerContainerSpec x pr wcfg hyp dis True
        (add_mounts [vol_mount TransportShmVolumeName pa] (empty_container n))]\<rparr>)"
      using d by (intro mounts_declared_containers) (auto simp: mounts_declared_def)
    then have "mounts_declared (update_containers idx (inject_local x hyp dis True)
        (?t\<lparr>ks_Containers := ks_Containers ?t @ [SetWorkerContainerSpec x pr wcfg hyp dis True
        (add_mounts [vol_mount TransportShmVolumeName pa] (empty_container n))]\<rparr>))"
      using V by (intro mounts_declared_updates mounts_in_inject_local) auto
    then show ?thesis by (simp add: add_volumes_def)
  qed
  show ?thesis using assms(2) libs [OF assms(1)]
    by (auto simp: AddTFDefaultClientConfBeforePatch_def Let_def split: option.splits if_splits intro!: loc side)
qed

text \<open>
  C16: The pods the control plane composes declare every volume their containers mount: from templates that
  do, the hypervisor pod (with or without the log collector), the node discovery job (with or without the wait
  for the container toolkit), the worker pod and the injected client pod (remote, embedded or with a sidecar
  worker) are built without a panic when their configuration is present, and no container or init container
  refers to an undeclared volume.
\<close>
theorem composed_mounts_declared:
  assumes "mounts_declared s" "ks_Containers s \<noteq> []"
    and "cpl_ComponentConfig pool = Some cfg" "cfg_Hypervisor cfg = Some h" "cfg_NodeDiscovery cfg = Some nd"
    and "cfg_Client cfg = Some cl" "cfg_Worker cfg = Some wc"
    and "kp_Spec p = s" "\<forall>i \<in> set idx. i < length (ks_Containers s)"
  shows "(\<exists>s'. AddTFHypervisorConfAfterTemplate x pool s = Some s' \<and> mounts_declared s')
    \<and> (\<exists>s'. AddTFNodeDiscoveryConfAfterTemplate x pool node toolkit s = Some s' \<and> mounts_declared s')
    \<and> (\<exists>s' n. AddWorkerConfAfterTemplate x (cfg_Worker cfg) (cfg_Hypervisor cfg) w s = Some (s', n) \<and> mounts_declared s')
    \<and> (\<exists>p'. AddTFDefaultClientConfBeforePatch x pool info idx p = Some p' \<and> mounts_declared (kp_Spec p'))"
proof -
  have "\<exists>s'. AddTFHypervisorConfAfterTemplate x pool s = Some s'"
    using assms(3,4) by (simp add: AddTFHypervisorConfAfterTemplate_def Let_def)
  moreover have "\<exists>s'. AddTFNodeDiscoveryConfAfterTemplate x pool node toolkit s = Some s'"
    using assms(3,5) by (simp add: AddTFNodeDiscoveryConfAfterTemplate_def Let_def)
  moreover have "\<exists>s' n. AddWorkerConfAfterTemplate x (cfg_Worker cfg) (cfg_Hypervisor cfg) w s = Some (s', n)"
    using assms(2,7) by (cases "ks_Containers s") (simp_all add: AddWorkerConfAfterTemplate_def Let_def)
  moreover have "\<exists>p'. AddTFDefaultClientConfBeforePatch x pool info idx p = Some p'"
    using assms by (simp add: AddTFDefaultClientConfBeforePatch_def Let_def list_all_iff)
  ultimately show ?thesis
    using hypervisor_mounts_declared discovery_mounts_declared worker_mounts_declared client_mounts_declared assms(1,8)
    by metis
qed

definition ex_spec0 :: k_spec where
  "ex_spec0 = \<lparr>ks_Containers = [empty_container ''app''], ks_InitContainers = [], ks_Volumes = [], ks_Tolerations = [],
     ks_SchedulerName = '''', ks_PriorityClassName = '''', ks_Priority = None, ks_HostPID = False, ks_HostNetwork = False,
     ks_TerminationGracePeriodSeconds = None, ks_ServiceAccountName = '''', ks_RestartPolicy = '''', ks_NodeName = '''',
     ks_EnableServiceLinks = None, ks_DNSPolicy = ''''\<rparr>"

definition ex_pod_meta :: "(string, string) gomap \<Rightarrow> (string, string) gomap \<Rightarrow> object_meta" where
  "ex_pod_meta labels ann = \<lparr>om_Name = ''app-1'', om_Namespace = ''default'', om_UID = '''', om_Labels = labels,
     om_Annotations = ann, om_Deleting = False, om_Finalizers = []\<rparr>"

definition ex_kpod :: "(string, string) gomap \<Rightarrow> (string, string) gomap \<Rightarrow> k_pod" where
  "ex_kpod labels ann = \<lparr>kp_Meta = ex_pod_meta labels ann, kp_GenerateName = '''', kp_OwnerReferences = [], kp_Spec = ex_spec0\<rparr>"

definition ex_components :: component_config where
  "ex_components = \<lparr>cfg_Worker = Some \<lparr>wc_Image = ''worker'', wc_PodTemplate = Some ''{}''\<rparr>,
     cfg_Hypervisor = Some \<lparr>hc_Image = ''hypervisor'', hc_VectorImage = ''vector'', hc_PortNumber = None, hc_PodTemplate = None,
       hc_EnableVector = True\<rparr>,
     cfg_NodeDiscovery = Some \<lparr>nd_Image = ''discovery'', nd_PodTemplate = None\<rparr>,
     cfg_Client = Some \<lparr>cl_RemoteModeImage = ''remote'', cl_EmbeddedModeImage = ''embedded'', cl_OperatorEndpoint = '''',
       cl_PatchToPod = None, cl_PatchToContainer = None, cl_PatchToEmbeddedWorkerContainer = None,
       cl_PatchEmbeddedWorkerToPod = None\<rparr>\<rparr>"

definition ex_pool0 :: config_pool where
  "ex_pool0 = \<lparr>cpl_Name = ''pool'', cpl_Annotations = [], cpl_DefaultUsingLocalGPU = None, cpl_DefaultQoS = None,
     cpl_ComponentConfig = Some ex_components\<rparr>"

definition ex_compose :: compose_env where
  "ex_compose = \<lparr>ce_print = ex_print, ce_val = floor, ce_licensed = False, ce_progressive = False, ce_kubeMinor = ''31'',
     ce_selfServiceAccount = '''', ce_unmarshalTemplate = (\<lambda>_. Some \<lparr>pt_Labels = [], pt_Annotations = [], pt_Spec = ex_spec0\<rparr>),
     ce_mergeTemplate = (\<lambda>t _. Some t)\<rparr>"

theorem composed_mounts_declared_witness:
  "\<exists>s'. AddTFHypervisorConfAfterTemplate ex_compose ex_pool0 ex_spec0 = Some s' \<and> mounts_declared s'"
  using composed_mounts_declared [of ex_spec0 ex_pool0 ex_components, where p = "ex_kpod [] []" and idx = "[0]" and x = ex_compose]
  by (simp add: ex_spec0_def ex_components_def ex_pool0_def ex_kpod_def mounts_declared_def)

section \<open>Worker pods and the allocator\<close>

text \<open>An annotation spells an amount: it parses to it, or it does not parse and the amount is zero.\<close>

definition spells :: "(string \<Rightarrow> quantity option) \<Rightarrow> (string, string) gomap \<Rightarrow> string \<Rightarrow> quantity \<Rightarrow> bool" where
  "spells parse ann key v \<longleftrightarrow> (case parse (get_str ann key) of None \<Rightarrow> v = 0 | Some q \<Rightarrow> q = v)"

definition request_keys :: "bool \<Rightarrow> string \<times> string \<times> string" where
  "request_keys isRequest =
     (if isRequest then (TFLOPSRequestAnnotation, ComputeRequestAnnotation, VRAMRequestAnnotation)
      else (TFLOPSLimitAnnotation, ComputeLimitAnnotation, VRAMLimitAnnotation))"

definition resource_spelled :: "(string \<Rightarrow> quantity option) \<Rightarrow> (string, string) gomap \<Rightarrow> bool \<Rightarrow> resource \<Rightarrow> bool" where
  "resource_spelled parse ann isRequest r \<longleftrightarrow>
     (case request_keys isRequest of (t, c, v) \<Rightarrow>
        spells parse ann t (Tflops r) \<and> spells parse ann c (ComputePercent r) \<and> spells parse ann v (Vram r)
        \<and> \<not> (parse (get_str ann t) \<noteq> None \<and> parse (get_str ann c) \<noteq> None))"

lemma GetGPUResource_spelled:
  "resource_spelled parse (om_Annotations (pod_Meta p)) b r \<Longrightarrow> GetGPUResource parse p b = Inr r"
  by (cases b) (auto simp: resource_spelled_def request_keys_def spells_def GetGPUResource_def Let_def split: option.splits)

lemma Atoi_show_nat: "n < 2 ^ 63 \<Longrightarrow> Atoi (show_nat n) = (int n, False)"
  using Atoi_show_int [of "int n"] by (simp add: show_int_def)

text \<open>What the allocator reads from the annotations of a pod whose annotations spell a profile.\<close>

lemma ComposeAllocationRequest_spelled:
  assumes "resource_spelled parse ann True (pf_Requests pr)" "resource_spelled parse ann False (pf_Limits pr)"
    and "map_of ann GpuCountAnnotation = Some (show_nat n)" "int n \<le> MaxGPUCounterPerAllocation"
    and "ParseIndicesAnnotation (get_str ann GpuIndicesAnnotation) = (indices, False)" "ann = om_Annotations (pod_Meta p)"
  shows "\<exists>req. ComposeAllocationRequest parse p = (req, '''', False)
    \<and> ar_Request req = pf_Requests pr \<and> ar_Limit req = pf_Limits pr \<and> ar_Count req = n \<and> ar_GPUIndices req = indices
    \<and> ar_PoolName req = get_str ann GpuPoolKey \<and> ar_GPUModel req = get_str ann GPUModelAnnotation
    \<and> ar_GPUVendor req = get_str ann GpuVendorAnnotation
    \<and> ar_QoS req = (if get_str ann QoSLevelAnnotation = '''' then QoSMedium else get_str ann QoSLevelAnnotation)
    \<and> ar_Workload req = \<lparr>nn_Name = get_str (om_Labels (pod_Meta p)) WorkloadKey, nn_Namespace = om_Namespace (pod_Meta p)\<rparr>"
  using assms GetGPUResource_spelled [of parse p True "pf_Requests pr"] GetGPUResource_spelled [of parse p False "pf_Limits pr"]
  by (auto simp: ComposeAllocationRequest_def Let_def Atoi_show_nat to_uint_id MaxGPUCounterPerAllocation_def)

text \<open>The annotation keys of a request that a template must leave alone.\<close>

definition owned_keys :: "string list" where
  "owned_keys = [TFLOPSRequestAnnotation, ComputeRequestAnnotation, TFLOPSLimitAnnotation,
     ComputeLimitAnnotation, GPUModelAnnotation, GpuVendorAnnotation, GpuIndicesAnnotation]"

definition exclusive :: "resource \<Rightarrow> bool" where
  "exclusive r \<longleftrightarrow> Tflops r = 0 \<or> ComputePercent r = 0"

text \<open>The annotations of a worker pod, one by one.\<close>

definition worker_annotations :: "(quantity \<Rightarrow> string) \<Rightarrow> pod_template \<Rightarrow> profile_workload \<Rightarrow> string \<Rightarrow> (string, string) gomap" where
  "worker_annotations print tmpl w n = snd (AppendTFWorkerLabelsAndAnnotationsAfterTemplate print tmpl w n)"

lemma worker_annotation_strings:
  fixes print tmpl w n
  defines "ann \<equiv> worker_annotations print tmpl w n" and "pr \<equiv> pw_Spec w"
  assumes "\<forall>k \<in> set owned_keys. map_of (pt_Annotations tmpl) k = None"
  shows "get_str ann TFLOPSRequestAnnotation = (if Tflops (pf_Requests pr) \<noteq> 0 then print (Tflops (pf_Requests pr)) else '''')"
    "get_str ann ComputeRequestAnnotation = (if ComputePercent (pf_Requests pr) \<noteq> 0 then print (ComputePercent (pf_Requests pr)) else '''')"
    "get_str ann VRAMRequestAnnotation = print (Vram (pf_Requests pr))"
    "get_str ann TFLOPSLimitAnnotation = (if Tflops (pf_Limits pr) \<noteq> 0 then print (Tflops (pf_Limits pr)) else '''')"
    "get_str ann ComputeLimitAnnotation = (if ComputePercent (pf_Limits pr) \<noteq> 0 then print (ComputePercent (pf_Limits pr)) else '''')"
    "get_str ann VRAMLimitAnnotation = print (Vram (pf_Limits pr))"
    "get_str ann GPUModelAnnotation = pf_GPUModel pr" "get_str ann GpuVendorAnnotation = pf_GPUVendor pr"
    "get_str ann GpuPoolKey = pf_PoolName pr"
    "get_str ann QoSLevelAnnotation = (if pf_Qos pr = '''' then QoSMedium else pf_Qos pr)"
    "get_str ann GpuIndicesAnnotation = (if pf_GPUIndices pr \<noteq> [] then join_with '','' (map show_int (pf_GPUIndices pr)) else '''')"
    "map_of ann GpuCountAnnotation = Some (show_nat (max 1 (pf_GPUCount pr)))"
proof -
  have one: "show_nat (Suc 0) = ''1''" by code_simp
  show "map_of ann GpuCountAnnotation = Some (show_nat (max 1 (pf_GPUCount pr)))"
    by (simp add: assms(1,2) worker_annotations_def AppendTFWorkerLabelsAndAnnotationsAfterTemplate_def Let_def update_conv
        map_of_put_if compose_keys max_def Suc_le_eq one)
qed (use assms(3) in \<open>simp_all add: assms(1,2) worker_annotations_def AppendTFWorkerLabelsAndAnnotationsAfterTemplate_def Let_def
      get_str_update get_str_put_if compose_keys owned_keys_def get_str_def update_conv map_of_put_if\<close>)

text \<open>
  C15: The worker pod generated for a workload asks the allocator for exactly what the workload's profile
  says: if the template leaves the request annotations alone, no resource gives both tflops and percent, at most
  128 GPUs are asked for and the quantity parser inverts the printer, the allocation request composed from the
  pod has the requests and limits, the number, indices, model and vendor of GPUs, the pool and the QoS of the
  profile, and the pod is recognised as a worker.
\<close>
theorem worker_request_roundtrip:
  assumes "\<And>q. parse (ce_print x q) = Some q" "parse '''' = None"
    and "GenerateWorkerPod x (Some wc) hyp w = Inr p" "pf_WorkerPodTemplate (pw_Spec w) = None"
    and "wc_PodTemplate wc = Some raw" "ce_unmarshalTemplate x raw = Some tmpl"
    and "\<forall>k \<in> set owned_keys. map_of (pt_Annotations tmpl) k = None"
    and "exclusive (pf_Requests (pw_Spec w))" "exclusive (pf_Limits (pw_Spec w))"
    and "int (pf_GPUCount (pw_Spec w)) \<le> MaxGPUCounterPerAllocation"
    and "\<forall>i \<in> set (pf_GPUIndices (pw_Spec w)). - (2 ^ 31) \<le> i \<and> i < 2 ^ 31"
  shows "IsTensorFusionWorker (pod_of p) \<and> (\<exists>req. ComposeAllocationRequest parse (pod_of p) = (req, '''', False)
    \<and> ar_Request req = pf_Requests (pw_Spec w) \<and> ar_Limit req = pf_Limits (pw_Spec w)
    \<and> ar_Count req = max 1 (pf_GPUCount (pw_Spec w)) \<and> ar_GPUIndices req = pf_GPUIndices (pw_Spec w)
    \<and> ar_PoolName req = pf_PoolName (pw_Spec w) \<and> ar_GPUModel req = pf_GPUModel (pw_Spec w)
    \<and> ar_GPUVendor req = pf_GPUVendor (pw_Spec w)
    \<and> ar_QoS req = (if pf_Qos (pw_Spec w) = '''' then QoSMedium else pf_Qos (pw_Spec w)))"
proof -
  let ?pr = "pw_Spec w"
  obtain n where p: "om_Annotations (kp_Meta p) = snd (AppendTFWorkerLabelsAndAnnotationsAfterTemplate (ce_print x) tmpl w n)"
    "om_Labels (kp_Meta p) = fst (AppendTFWorkerLabelsAndAnnotationsAfterTemplate (ce_print x) tmpl w n)"
    using assms(3-6) by (auto simp: GenerateWorkerPod_def Let_def split: option.splits prod.splits) (metis fst_conv snd_conv)
  let ?ann = "om_Annotations (kp_Meta p)"
  have ann: "?ann = worker_annotations (ce_print x) tmpl w n" by (simp add: p worker_annotations_def)
  note strs = worker_annotation_strings [OF assms(7), of "ce_print x" w n, folded ann]
  have res: "resource_spelled parse ?ann True (pf_Requests ?pr)" "resource_spelled parse ?ann False (pf_Limits ?pr)"
    using assms(1,2,8,9) strs by (auto simp: resource_spelled_def request_keys_def spells_def exclusive_def)
  have idx: "ParseIndicesAnnotation (get_str ?ann GpuIndicesAnnotation) = (pf_GPUIndices ?pr, False)"
    using ParseIndices_join [OF _ assms(11)] unfolding strs by (auto simp: ParseIndicesAnnotation_def)
  have "IsTensorFusionWorker (pod_of p)"
    by (simp add: IsTensorFusionWorker_def pod_of_def p AppendTFWorkerLabelsAndAnnotationsAfterTemplate_def Let_def get_str_update)
  moreover have "int (max 1 (pf_GPUCount ?pr)) \<le> MaxGPUCounterPerAllocation" using assms(10) by (simp add: MaxGPUCounterPerAllocation_def)
  ultimately show ?thesis
    using ComposeAllocationRequest_spelled [OF res strs(12) _ idx, of "pod_of p"] strs by (auto simp: pod_of_def QoSMedium_def)
qed

definition ex_profile :: workload_profile where
  "ex_profile = \<lparr>pf_Replicas = None, pf_PoolName = ''pool'',
     pf_Resources = \<lparr>Requests = \<lparr>Tflops = 10, ComputePercent = 0, Vram = 8\<rparr>, Limits = \<lparr>Tflops = 20, ComputePercent = 0, Vram = 8\<rparr>\<rparr>,
     pf_Qos = '''', pf_IsLocalGPU = False, pf_SidecarWorker = False, pf_Isolation = ''soft'', pf_GPUModel = ''A100'',
     pf_GPUCount = 2, pf_GPUIndices = [0, 1], pf_GPUVendor = '''',
     pf_AutoScalingConfig = \<lparr>asc_AutoSetResources = \<lparr>asr_Enable = False, asr_TargetResource = '''',
         asr_TargetTflopsPercentile = '''', asr_LowerBoundTflopsPercentile = '''', asr_UpperBoundTflopsPercentile = '''',
         asr_TargetVramPercentile = '''', asr_LowerBoundVramPercentile = '''', asr_UpperBoundVramPercentile = '''',
         asr_RequestMarginFraction = '''', asr_ConfidenceInterval = ''''\<rparr>,
       asc_AutoSetReplicas = \<lparr>arp_Enable = False, arp_TargetTFlopsOfLimits = '''', arp_EvaluationPeriod = '''',
         arp_ScaleUpStep = '''', arp_ScaleDownStep = '''', arp_ScaleUpCoolDownTime = '''', arp_ScaleDownCoolDownTime = ''''\<rparr>,
       asc_CronScalingRules = []\<rparr>,
     pf_NodeAffinity = None, pf_WorkerPodTemplate = None\<rparr>"

definition ex_workload :: profile_workload where
  "ex_workload = \<lparr>pw_Name = ''wl'', pw_Namespace = ''default'', pw_Labels = [], pw_Annotations = [], pw_OwnerReferences = [],
     pw_Spec = ex_profile\<rparr>"

definition ex_worker_pod :: k_pod where
  "ex_worker_pod = (case GenerateWorkerPod ex_compose (cfg_Worker ex_components) None ex_workload of Inr p \<Rightarrow> p | Inl _ \<Rightarrow> ex_kpod [] [])"

lemma ex_worker_pod_generated:
  "GenerateWorkerPod ex_compose (Some \<lparr>wc_Image = ''worker'', wc_PodTemplate = Some ''{}''\<rparr>) None ex_workload = Inr ex_worker_pod"
  by (simp add: ex_worker_pod_def GenerateWorkerPod_def ex_compose_def ex_components_def ex_workload_def ex_profile_def
      AddWorkerConfAfterTemplate_def ex_spec0_def Let_def split: prod.splits)

lemma ex_parse_empty: "ex_parse '''' = None"
  by (simp add: ex_parse_def)

theorem worker_request_roundtrip_witness:
  "\<exists>req. ComposeAllocationRequest ex_parse (pod_of ex_worker_pod) = (req, '''', False)
     \<and> ar_Request req = \<lparr>Tflops = 10, ComputePercent = 0, Vram = 8\<rparr> \<and> ar_Count req = 2 \<and> ar_GPUIndices req = [0, 1]"
proof -
  have pr: "pw_Spec ex_workload = ex_profile" by (simp add: ex_workload_def)
  have "IsTensorFusionWorker (pod_of ex_worker_pod) \<and> (\<exists>req. ComposeAllocationRequest ex_parse (pod_of ex_worker_pod) = (req, '''', False)
    \<and> ar_Request req = pf_Requests ex_profile \<and> ar_Limit req = pf_Limits ex_profile
    \<and> ar_Count req = max 1 (pf_GPUCount ex_profile) \<and> ar_GPUIndices req = pf_GPUIndices ex_profile
    \<and> ar_PoolName req = pf_PoolName ex_profile \<and> ar_GPUModel req = pf_GPUModel ex_profile
    \<and> ar_GPUVendor req = pf_GPUVendor ex_profile
    \<and> ar_QoS req = (if pf_Qos ex_profile = '''' then QoSMedium else pf_Qos ex_profile))"
    by (rule worker_request_roundtrip [where parse = ex_parse and x = ex_compose, OF _ ex_parse_empty ex_worker_pod_generated,
      where raw = "''{}''" and tmpl = "\<lparr>pt_Labels = [], pt_Annotations = [], pt_Spec = ex_spec0\<rparr>", unfolded pr])
      (simp_all add: ex_compose_def ex_parse_print ex_profile_def exclusive_def MaxGPUCounterPerAllocation_def)
  then obtain req where "ComposeAllocationRequest ex_parse (pod_of ex_worker_pod) = (req, '''', False)"
    "ar_Request req = pf_Requests ex_profile" "ar_Count req = max 1 (pf_GPUCount ex_profile)"
    "ar_GPUIndices req = pf_GPUIndices ex_profile" by blast
  then show ?thesis by (intro exI [of _ req]) (simp add: ex_profile_def)
qed

end
