(* ===== verification/ParserProps.thy ===== *)
theory ParserProps
  imports TfParser ComposeProps
begin

text \<open>
  What \<^verbatim>\<open>ParseTensorFusionInfo\<close> returns: the stages of a successful run, the well-formedness of the
  profile, and how its amounts relate to the annotations of the pod.
\<close>

section \<open>The stages of a successful parse\<close>

definition quota_defaults :: "parse_env \<Rightarrow> string \<Rightarrow> workload_profile \<Rightarrow> workload_profile" where
  "quota_defaults x namespace pr = (case pe_quotas x namespace of Some (q # _) \<Rightarrow> setDefaultQuotasIfExists q pr | _ \<Rightarrow> pr)"

definition set_model :: "(string, string) gomap \<Rightarrow> workload_profile \<Rightarrow> workload_profile" where
  "set_model ann pr = (case map_of ann GPUModelAnnotation of None \<Rightarrow> pr | Some m \<Rightarrow> pr\<lparr>pf_GPUModel := m\<rparr>)"

lemma ParseTensorFusionInfo_ok:
  assumes "ParseTensorFusionInfo x p = Inr (info, p1)"
  obtains pr0 pool pr1 pr3 ann1 where
    "checkAndGetValidGPUPool x (om_Annotations (kp_Meta p)) = Inr pool"
    "set_worker_template x (om_Annotations (kp_Meta p)) (set_modes pool (om_Annotations (kp_Meta p)) pr0) = Inr pr1"
    "parseGPUResourcesAnnotations x (ks_Containers (kp_Spec p)) (om_Annotations (kp_Meta p))
       (quota_defaults x (om_Namespace (kp_Meta p)) pr1) = Inr (pr3, ann1)"
    "inject_containers (ks_Containers (kp_Spec p)) ann1 = Inr (tfi_ContainerNames info)"
    "handleDedicatedGPU x ann1 (set_model ann1 (parseAutoScalingAnnotations ann1 pr3)) = Inr (tfi_Profile info)"
    "p1 = p\<lparr>kp_Meta := (kp_Meta p)\<lparr>om_Annotations := ann1\<rparr>\<rparr>"
    "parse_replicas (om_Annotations (kp_Meta p)) = Inr (tfi_EnabledReplicas info)"
proof -
  let ?ann = "om_Annotations (kp_Meta p)"
  from assms obtain r where r: "parse_replicas ?ann = Inr r"
    by (auto simp: ParseTensorFusionInfo_def Let_def split: sum.splits)
  note s = assms [unfolded ParseTensorFusionInfo_def Let_def r sum.case]
  from s obtain n ref where w: "workload_identity x p = Inr (n, ref)" by (auto split: sum.splits)
  note s = s [unfolded w sum.case prod.case]
  from s obtain pr0 where b: "base_profile x (om_Namespace (kp_Meta p)) ?ann = Inr pr0" by (auto split: sum.splits)
  note s = s [unfolded b sum.case]
  from s obtain pool where c: "checkAndGetValidGPUPool x ?ann = Inr pool" by (auto split: sum.splits)
  note s = s [unfolded c sum.case]
  from s obtain pr1 where t: "set_worker_template x ?ann (set_modes pool ?ann pr0) = Inr pr1" by (auto split: sum.splits)
  note s = s [unfolded t sum.case, folded quota_defaults_def]
  from s obtain pr3 ann1 where g: "parseGPUResourcesAnnotations x (ks_Containers (kp_Spec p)) ?ann
       (quota_defaults x (om_Namespace (kp_Meta p)) pr1) = Inr (pr3, ann1)" by (auto split: sum.splits)
  note s = s [unfolded g sum.case prod.case, folded set_model_def]
  from s obtain names where i: "inject_containers (ks_Containers (kp_Spec p)) ann1 = Inr names" by (auto split: sum.splits)
  note s = s [unfolded i sum.case]
  from s obtain pr6 where h: "handleDedicatedGPU x ann1 (set_model ann1 (parseAutoScalingAnnotations ann1 pr3)) = Inr pr6"
    by (auto split: sum.splits)
  note s = s [unfolded h sum.case]
  show thesis by (rule that [OF c t g]) (use s i h r in auto)
qed

lemma parseGPUResourcesAnnotations_ok:
  assumes "parseGPUResourcesAnnotations x cs ann pr = Inr (pr3, ann1)"
  obtains pr1 migrated where "parse_gpu_count x cs ann pr = Inr (pr1, migrated, ann1)"
    "pf_Resources pr3 = parse_amounts (pe_parse x) ann1 migrated (pf_Resources pr1)"
    "exclusive (Requests (pf_Resources pr3))" "1 \<le> pf_GPUCount pr3"
    "pf_GPUIndices pr3 = fst (ParseIndicesAnnotation (get_str ann1 GpuIndicesAnnotation))"
    "pf_GPUIndices pr3 \<noteq> [] \<Longrightarrow> length (pf_GPUIndices pr3) < 2 ^ 32 \<Longrightarrow> pf_GPUCount pr3 = length (pf_GPUIndices pr3)"
    "map_of ann1 GpuVendorAnnotation = Some v \<Longrightarrow> pf_GPUVendor pr3 = v" "pf_PoolName pr3 = pf_PoolName pr1"
    "pf_IsLocalGPU pr3 = pf_IsLocalGPU pr1" "pf_SidecarWorker pr3 = pf_SidecarWorker pr1"
proof -
  from assms obtain pr1 migrated where c: "parse_gpu_count x cs ann pr = Inr (pr1, migrated, ann1)"
    by (auto simp: parseGPUResourcesAnnotations_def Let_def split: sum.splits prod.splits if_splits)
  show thesis using assms
    by (intro that [OF c])
       (auto simp: parseGPUResourcesAnnotations_def c Let_def exclusive_def to_uint32_def
          split: prod.splits if_splits option.splits)
qed

lemma parse_gpu_count_keeps:
  assumes "parse_gpu_count x cs ann pr = Inr (pr1, migrated, ann1)"
  shows "pf_PoolName pr1 = pf_PoolName pr \<and> pf_IsLocalGPU pr1 = pf_IsLocalGPU pr \<and> pf_SidecarWorker pr1 = pf_SidecarWorker pr
    \<and> (\<forall>k. k \<noteq> InjectContainerAnnotation \<longrightarrow> map_of ann1 k = map_of ann k)"
  using assms by (auto simp: parse_gpu_count_def map_of_put_if split: option.splits if_splits)

lemma set_worker_template_keeps:
  "set_worker_template x ann pr = Inr pr1 \<Longrightarrow>
     pf_PoolName pr1 = pf_PoolName pr \<and> pf_IsLocalGPU pr1 = pf_IsLocalGPU pr \<and> pf_SidecarWorker pr1 = pf_SidecarWorker pr"
  by (auto simp: set_worker_template_def split: if_splits option.splits)

lemma quota_defaults_keeps [simp]:
  "pf_PoolName (quota_defaults x ns pr) = pf_PoolName pr" "pf_IsLocalGPU (quota_defaults x ns pr) = pf_IsLocalGPU pr"
  "pf_SidecarWorker (quota_defaults x ns pr) = pf_SidecarWorker pr"
  by (auto simp: quota_defaults_def setDefaultQuotasIfExists_def split: option.splits list.splits)

lemma set_model_keeps [simp]:
  "pf_PoolName (set_model ann pr) = pf_PoolName pr" "pf_IsLocalGPU (set_model ann pr) = pf_IsLocalGPU pr"
  "pf_GPUCount (set_model ann pr) = pf_GPUCount pr" "pf_GPUIndices (set_model ann pr) = pf_GPUIndices pr"
  "pf_Resources (set_model ann pr) = pf_Resources pr" "pf_GPUVendor (set_model ann pr) = pf_GPUVendor pr"
  by (auto simp: set_model_def split: option.splits)

lemma parseAutoScaling_keeps [simp]:
  "pf_PoolName (parseAutoScalingAnnotations ann pr) = pf_PoolName pr"
  "pf_IsLocalGPU (parseAutoScalingAnnotations ann pr) = pf_IsLocalGPU pr"
  "pf_GPUCount (parseAutoScalingAnnotations ann pr) = pf_GPUCount pr"
  "pf_GPUIndices (parseAutoScalingAnnotations ann pr) = pf_GPUIndices pr"
  "pf_Resources (parseAutoScalingAnnotations ann pr) = pf_Resources pr"
  "pf_GPUVendor (parseAutoScalingAnnotations ann pr) = pf_GPUVendor pr"
  by (auto simp: parseAutoScalingAnnotations_def Let_def)

lemma handleDedicatedGPU_ok:
  assumes "handleDedicatedGPU x ann pr = Inr pr'"
  shows "pf_PoolName pr' = pf_PoolName pr \<and> pf_IsLocalGPU pr' = pf_IsLocalGPU pr \<and> pf_GPUCount pr' = pf_GPUCount pr
    \<and> pf_GPUIndices pr' = pf_GPUIndices pr \<and> pf_GPUModel pr' = pf_GPUModel pr \<and> pf_GPUVendor pr' = pf_GPUVendor pr
    \<and> ComputePercent (pf_Requests pr') = ComputePercent (pf_Requests pr)
    \<and> ComputePercent (pf_Limits pr') = ComputePercent (pf_Limits pr)
    \<and> (map_of ann DedicatedGPUAnnotation \<noteq> Some TrueStringValue \<longrightarrow> pr' = pr)
    \<and> (map_of ann DedicatedGPUAnnotation = Some TrueStringValue \<longrightarrow>
        (\<exists>c. map_of (pe_capacity x) (pf_GPUModel pr') = Some c \<and> Tflops (pf_Requests pr') = Tflops c \<and> Vram (pf_Requests pr') = Vram c
          \<and> Tflops (pf_Limits pr') = Tflops c \<and> Vram (pf_Limits pr') = Vram c))"
  using assms by (auto simp: handleDedicatedGPU_def Let_def split: if_splits option.splits)

lemma select_pool_in: "select_pool name ps = Some p \<Longrightarrow> p \<in> set ps"
  by (induction name ps rule: select_pool.induct) (auto split: option.splits if_splits)

lemma checkAndGetValidGPUPool_ok:
  "checkAndGetValidGPUPool x ann = Inr pool \<Longrightarrow> \<exists>ps. pe_pools x = Some ps \<and> pool \<in> set ps \<and> cpl_Name pool \<noteq> ''''"
  by (auto simp: checkAndGetValidGPUPool_def split: option.splits if_splits dest: select_pool_in)

lemma inject_containers_not_Nil: "inject_containers cs ann = Inr ns \<Longrightarrow> ns \<noteq> []"
  by (auto simp: inject_containers_def split: if_splits option.splits list.splits)

text \<open>
  C14: A profile the webhook accepts is well formed: it names an existing pool, asks for at least one GPU, and
  for as many as there are indices when indices are given; containers to inject are named; a pod marked as
  sidecar worker is local; a dedicated pod gets the full capacity of its GPU model as request and limit, and
  any other pod does not request both tflops and a percentage.
\<close>
theorem parsed_profile_wellformed:
  assumes "ParseTensorFusionInfo x p = Inr (info, p1)"
  defines "pr \<equiv> tfi_Profile info" and "ann \<equiv> om_Annotations (kp_Meta p)"
  shows "(\<exists>ps. \<exists>pool \<in> set ps. pe_pools x = Some ps \<and> pf_PoolName pr = cpl_Name pool \<and> cpl_Name pool \<noteq> '''')
    \<and> 1 \<le> pf_GPUCount pr \<and> tfi_ContainerNames info \<noteq> []
    \<and> (pf_GPUIndices pr \<noteq> [] \<and> length (pf_GPUIndices pr) < 2 ^ 32 \<longrightarrow> pf_GPUCount pr = length (pf_GPUIndices pr))
    \<and> (map_of ann SidecarWorkerAnnotation = Some TrueStringValue \<longrightarrow> pf_IsLocalGPU pr)
    \<and> (map_of ann DedicatedGPUAnnotation = Some TrueStringValue \<longrightarrow>
        (\<exists>c. map_of (pe_capacity x) (pf_GPUModel pr) = Some c \<and> Tflops (pf_Requests pr) = Tflops c \<and> Vram (pf_Requests pr) = Vram c
          \<and> Tflops (pf_Limits pr) = Tflops c \<and> Vram (pf_Limits pr) = Vram c))
    \<and> (map_of ann DedicatedGPUAnnotation \<noteq> Some TrueStringValue \<longrightarrow> exclusive (pf_Requests pr))"
proof -
  obtain pr0 pool pr1 pr3 ann1 where c: "checkAndGetValidGPUPool x ann = Inr pool"
    and t: "set_worker_template x ann (set_modes pool ann pr0) = Inr pr1"
    and g: "parseGPUResourcesAnnotations x (ks_Containers (kp_Spec p)) ann (quota_defaults x (om_Namespace (kp_Meta p)) pr1) = Inr (pr3, ann1)"
    and i: "inject_containers (ks_Containers (kp_Spec p)) ann1 = Inr (tfi_ContainerNames info)"
    and h: "handleDedicatedGPU x ann1 (set_model ann1 (parseAutoScalingAnnotations ann1 pr3)) = Inr pr"
    using ParseTensorFusionInfo_ok [OF assms(1)] unfolding pr_def ann_def by metis
  obtain pr2 migrated where n: "parse_gpu_count x (ks_Containers (kp_Spec p)) ann (quota_defaults x (om_Namespace (kp_Meta p)) pr1) = Inr (pr2, migrated, ann1)"
    and r: "exclusive (Requests (pf_Resources pr3))" "1 \<le> pf_GPUCount pr3"
      "pf_GPUIndices pr3 \<noteq> [] \<Longrightarrow> length (pf_GPUIndices pr3) < 2 ^ 32 \<Longrightarrow> pf_GPUCount pr3 = length (pf_GPUIndices pr3)"
      "pf_PoolName pr3 = pf_PoolName pr2" "pf_IsLocalGPU pr3 = pf_IsLocalGPU pr2"
    using parseGPUResourcesAnnotations_ok [OF g] by metis
  have modes: "pf_PoolName (set_modes pool ann pr0) = cpl_Name pool"
    "map_of ann SidecarWorkerAnnotation = Some TrueStringValue \<Longrightarrow> pf_IsLocalGPU (set_modes pool ann pr0)"
    by (simp_all add: set_modes_def Let_def)
  note k = parse_gpu_count_keeps [OF n] set_worker_template_keeps [OF t] handleDedicatedGPU_ok [OF h]
  have ded: "map_of ann1 DedicatedGPUAnnotation = map_of ann DedicatedGPUAnnotation"
    using k(1) by (simp add: DedicatedGPUAnnotation_def InjectContainerAnnotation_def)
  have "\<exists>ps. \<exists>pool \<in> set ps. pe_pools x = Some ps \<and> pf_PoolName pr = cpl_Name pool \<and> cpl_Name pool \<noteq> ''''"
    using checkAndGetValidGPUPool_ok [OF c] k r(4) modes(1) by auto
  moreover have "1 \<le> pf_GPUCount pr" using k(3) r(2) by simp
  moreover have "pf_GPUIndices pr \<noteq> [] \<and> length (pf_GPUIndices pr) < 2 ^ 32 \<longrightarrow> pf_GPUCount pr = length (pf_GPUIndices pr)"
    using k(3) r(3) by simp
  moreover have "map_of ann SidecarWorkerAnnotation = Some TrueStringValue \<longrightarrow> pf_IsLocalGPU pr"
    using k r(5) modes(2) by simp
  moreover have "map_of ann DedicatedGPUAnnotation \<noteq> Some TrueStringValue \<longrightarrow> exclusive (pf_Requests pr)"
    using k(3) r(1) ded by simp
  moreover have "map_of ann DedicatedGPUAnnotation = Some TrueStringValue \<longrightarrow>
        (\<exists>c. map_of (pe_capacity x) (pf_GPUModel pr) = Some c \<and> Tflops (pf_Requests pr) = Tflops c \<and> Vram (pf_Requests pr) = Vram c
          \<and> Tflops (pf_Limits pr) = Tflops c \<and> Vram (pf_Limits pr) = Vram c)" using k(3) unfolding ded by (elim conjE)
  ultimately show ?thesis using inject_containers_not_Nil [OF i] by (intro conjI)
qed

section \<open>Annotations and amounts\<close>

definition amount_keys :: "string list" where
  "amount_keys = [TFLOPSRequestAnnotation, ComputeRequestAnnotation, VRAMRequestAnnotation,
     TFLOPSLimitAnnotation, ComputeLimitAnnotation, VRAMLimitAnnotation]"

definition amount_of :: "resources \<Rightarrow> string \<Rightarrow> quantity" where
  "amount_of r k =
     (if k = TFLOPSRequestAnnotation then Tflops (Requests r) else if k = ComputeRequestAnnotation then ComputePercent (Requests r)
      else if k = VRAMRequestAnnotation then Vram (Requests r) else if k = TFLOPSLimitAnnotation then Tflops (Limits r)
      else if k = ComputeLimitAnnotation then ComputePercent (Limits r) else Vram (Limits r))"

lemma amount_of_simps [simp]:
  "amount_of r TFLOPSRequestAnnotation = Tflops (Requests r)" "amount_of r ComputeRequestAnnotation = ComputePercent (Requests r)"
  "amount_of r VRAMRequestAnnotation = Vram (Requests r)" "amount_of r TFLOPSLimitAnnotation = Tflops (Limits r)"
  "amount_of r ComputeLimitAnnotation = ComputePercent (Limits r)" "amount_of r VRAMLimitAnnotation = Vram (Limits r)"
  by (simp_all add: amount_of_def annotation_defs)

lemma amount_key_cases:
  assumes "k \<in> set amount_keys"
  obtains "k = TFLOPSRequestAnnotation" | "k = ComputeRequestAnnotation" | "k = VRAMRequestAnnotation"
    | "k = TFLOPSLimitAnnotation" | "k = ComputeLimitAnnotation" | "k = VRAMLimitAnnotation"
  using assms by (auto simp: amount_keys_def)

lemma parse_amounts_reads:
  assumes "parse '''' = None" "k \<in> set amount_keys" "parse (get_str ann k) = Some v"
  shows "amount_of (parse_amounts parse ann migrated r) k = v"
proof -
  have q: "parseResourceQuantity parse ann j = parse (get_str ann j)" for j
    using assms(1) by (simp add: parseResourceQuantity_def)
  show ?thesis using assms(2)
    by (rule amount_key_cases) (use assms(3) in \<open>simp_all add: parse_amounts_def q Let_def\<close>)
qed

text \<open>An amount of the profile that is zero is not spelled by any annotation of the pod.\<close>

lemma zero_amount_not_spelled:
  assumes "ParseTensorFusionInfo x p = Inr (info, p1)" "pe_parse x = parse" "parse '''' = None"
    and "\<forall>k \<in> set amount_keys. parse (get_str (om_Annotations (kp_Meta p)) k) \<noteq> Some 0"
    and "\<forall>c \<in> snd ` set (pe_capacity x). Tflops c \<noteq> 0 \<and> Vram c \<noteq> 0"
    and "k \<in> set amount_keys" "amount_of (pf_Resources (tfi_Profile info)) k = 0"
  shows "parse (get_str (om_Annotations (kp_Meta p1)) k) = None"
proof -
  let ?ann = "om_Annotations (kp_Meta p)"
  obtain pr1 pr3 ann1 where g: "parseGPUResourcesAnnotations x (ks_Containers (kp_Spec p)) ?ann (quota_defaults x (om_Namespace (kp_Meta p)) pr1) = Inr (pr3, ann1)"
    and h: "handleDedicatedGPU x ann1 (set_model ann1 (parseAutoScalingAnnotations ann1 pr3)) = Inr (tfi_Profile info)"
    and p1: "p1 = p\<lparr>kp_Meta := (kp_Meta p)\<lparr>om_Annotations := ann1\<rparr>\<rparr>"
    using ParseTensorFusionInfo_ok [OF assms(1)] by metis
  obtain pr2 migrated where n: "parse_gpu_count x (ks_Containers (kp_Spec p)) ?ann (quota_defaults x (om_Namespace (kp_Meta p)) pr1) = Inr (pr2, migrated, ann1)"
    and r: "pf_Resources pr3 = parse_amounts parse ann1 migrated (pf_Resources pr2)"
    using parseGPUResourcesAnnotations_ok [OF g] assms(2) by metis
  have "k \<noteq> InjectContainerAnnotation" using assms(6) by (auto simp: amount_keys_def compose_keys)
  then have same: "get_str ann1 k = get_str ?ann k" using parse_gpu_count_keeps [OF n] by (simp add: get_str_def)
  have "False" if q: "parse (get_str ann1 k) = Some q" for q
  proof (cases "map_of ann1 DedicatedGPUAnnotation = Some TrueStringValue")
    case False
    then have "pf_Resources (tfi_Profile info) = pf_Resources pr3" using handleDedicatedGPU_ok [OF h] by simp
    then have "q = 0" using parse_amounts_reads [OF assms(3,6) q] assms(7) r by simp
    then show False using assms(4,6) q same by simp
  next
    case True
    then obtain c where c: "map_of (pe_capacity x) (pf_GPUModel (tfi_Profile info)) = Some c"
      "Tflops (pf_Requests (tfi_Profile info)) = Tflops c" "Vram (pf_Requests (tfi_Profile info)) = Vram c"
      "Tflops (pf_Limits (tfi_Profile info)) = Tflops c" "Vram (pf_Limits (tfi_Profile info)) = Vram c"
      using handleDedicatedGPU_ok [OF h] by auto
    have "Tflops c \<noteq> 0 \<and> Vram c \<noteq> 0" using c(1) assms(5) by (force dest: map_of_SomeD)
    with assms(6) have "k = ComputeRequestAnnotation \<or> k = ComputeLimitAnnotation"
      by (cases rule: amount_key_cases) (use assms(7) c in auto)
    then have "amount_of (pf_Resources pr3) k = 0" using assms(7) handleDedicatedGPU_ok [OF h]
      by auto
    then have "q = 0" using parse_amounts_reads [OF assms(3,6) q] r by simp
    then show False using assms(4,6) q same by simp
  qed
  then show ?thesis by (cases "parse (get_str ann1 k)") (auto simp: p1)
qed

text \<open>The annotations of a client pod after the defaults are written.\<close>

lemma client_annotations:
  fixes print info p
  defines "q \<equiv> AddOrOverrideTFClientMissingAnnotationsBeforePatch print info p" and "pr \<equiv> tfi_Profile info"
  shows "k \<in> set amount_keys \<Longrightarrow> get_str (om_Annotations (kp_Meta q)) k =
      (if amount_of (pf_Resources pr) k \<noteq> 0 then print (amount_of (pf_Resources pr) k) else get_str (om_Annotations (kp_Meta p)) k)"
    and "get_str (om_Annotations (kp_Meta q)) QoSLevelAnnotation = (if pf_Qos pr = '''' then QoSMedium else pf_Qos pr)"
    and "map_of (om_Annotations (kp_Meta q)) GpuCountAnnotation = Some (show_nat (pf_GPUCount pr))"
    and "get_str (om_Annotations (kp_Meta q)) GpuPoolKey = pf_PoolName pr"
    and "get_str (om_Annotations (kp_Meta q)) GPUModelAnnotation =
      (if pf_GPUModel pr \<noteq> '''' then pf_GPUModel pr else get_str (om_Annotations (kp_Meta p)) GPUModelAnnotation)"
    and "get_str (om_Annotations (kp_Meta q)) GpuVendorAnnotation =
      (if pf_GPUVendor pr \<noteq> '''' then pf_GPUVendor pr else get_str (om_Annotations (kp_Meta p)) GpuVendorAnnotation)"
    and "get_str (om_Annotations (kp_Meta q)) GpuIndicesAnnotation = get_str (om_Annotations (kp_Meta p)) GpuIndicesAnnotation"
proof -
  show "k \<in> set amount_keys \<Longrightarrow> get_str (om_Annotations (kp_Meta q)) k =
      (if amount_of (pf_Resources pr) k \<noteq> 0 then print (amount_of (pf_Resources pr) k) else get_str (om_Annotations (kp_Meta p)) k)"
    by (erule amount_key_cases; simp only: amount_of_simps; simp add: q_def pr_def
        AddOrOverrideTFClientMissingAnnotationsBeforePatch_def Let_def get_str_update get_str_put_if compose_keys)
qed (simp_all add: q_def pr_def AddOrOverrideTFClientMissingAnnotationsBeforePatch_def Let_def get_str_update get_str_put_if
    update_conv map_of_put_if compose_keys)

lemma parsed_profile_strings:
  assumes "ParseTensorFusionInfo x p = Inr (info, p1)"
  shows "ParseIndicesAnnotation (get_str (om_Annotations (kp_Meta p1)) GpuIndicesAnnotation) = (pf_GPUIndices (tfi_Profile info), False)"
    and "map_of (om_Annotations (kp_Meta p1)) GPUModelAnnotation = Some m \<Longrightarrow> pf_GPUModel (tfi_Profile info) = m"
    and "map_of (om_Annotations (kp_Meta p1)) GpuVendorAnnotation = Some v \<Longrightarrow> pf_GPUVendor (tfi_Profile info) = v"
proof -
  obtain pr1 pr3 ann1 where g: "parseGPUResourcesAnnotations x (ks_Containers (kp_Spec p)) (om_Annotations (kp_Meta p))
      (quota_defaults x (om_Namespace (kp_Meta p)) pr1) = Inr (pr3, ann1)"
    and h: "handleDedicatedGPU x ann1 (set_model ann1 (parseAutoScalingAnnotations ann1 pr3)) = Inr (tfi_Profile info)"
    and p1: "p1 = p\<lparr>kp_Meta := (kp_Meta p)\<lparr>om_Annotations := ann1\<rparr>\<rparr>"
    using ParseTensorFusionInfo_ok [OF assms] by metis
  note k = handleDedicatedGPU_ok [OF h]
  have "snd (ParseIndicesAnnotation s) = False" for s by (simp add: ParseIndicesAnnotation_def)
  moreover have "pf_GPUIndices pr3 = fst (ParseIndicesAnnotation (get_str ann1 GpuIndicesAnnotation))"
    by (rule parseGPUResourcesAnnotations_ok [OF g])
  ultimately show "ParseIndicesAnnotation (get_str (om_Annotations (kp_Meta p1)) GpuIndicesAnnotation) = (pf_GPUIndices (tfi_Profile info), False)"
    using k by (simp add: p1 prod_eq_iff)
  show "map_of (om_Annotations (kp_Meta p1)) GPUModelAnnotation = Some m \<Longrightarrow> pf_GPUModel (tfi_Profile info) = m"
    using k by (simp add: p1 set_model_def)
  show "map_of (om_Annotations (kp_Meta p1)) GpuVendorAnnotation = Some v \<Longrightarrow> pf_GPUVendor (tfi_Profile info) = v"
    using k by (auto simp: p1 intro: parseGPUResourcesAnnotations_ok [OF g])
qed

section \<open>A concrete pod\<close>

definition ex_parse_env :: parse_env where
  "ex_parse_env = \<lparr>pe_parse = ex_parse, pe_print = ex_print, pe_shortID = ''id'', pe_getOwner = (\<lambda>_. NotFound),
     pe_getProfile = (\<lambda>_ _. None), pe_pools = Some [ex_pool0\<lparr>cpl_Annotations := [(DefaultPoolKeyAnnotation, ''true'')]\<rparr>],
     pe_quotas = (\<lambda>_. None), pe_capacity = [(''A100'', \<lparr>Tflops = 312, ComputePercent = 0, Vram = 80\<rparr>)], pe_template = (\<lambda>_. None)\<rparr>"

definition ex_client :: "(string, string) gomap \<Rightarrow> k_pod" where
  "ex_client ann = (ex_kpod [(TensorFusionEnabledLabelKey, ''true''), (''pod-template-hash'', ''abc'')] ann)
     \<lparr>kp_OwnerReferences := [\<lparr>or_APIVersion = ''apps/v1'', or_Kind = ''ReplicaSet'', or_Name = ''rs'', or_UID = ''u'', or_Controller = True\<rparr>]\<rparr>"

definition ex_plain :: "(string, string) gomap" where
  "ex_plain = [(TFLOPSRequestAnnotation, ''10,1''), (VRAMRequestAnnotation, ''8,1'')]"

lemma ex_client_parsed:
  "\<exists>info p1. ParseTensorFusionInfo ex_parse_env (ex_client ex_plain) = Inr (info, p1) \<and> tfi_EnabledReplicas info = None
     \<and> pf_PoolName (tfi_Profile info) = ''pool'' \<and> \<not> pf_SidecarWorker (tfi_Profile info) \<and> tfi_ContainerNames info = [''app'']
     \<and> pf_Resources (tfi_Profile info) = \<lparr>Requests = \<lparr>Tflops = 10, ComputePercent = 0, Vram = 8\<rparr>, Limits = zero_resource\<rparr>
     \<and> pf_GPUCount (tfi_Profile info) = 1 \<and> tfi_WorkloadName info = ''rs''"
proof -
  have "case ParseTensorFusionInfo ex_parse_env (ex_client ex_plain) of Inl _ \<Rightarrow> False
     | Inr (info, p1) \<Rightarrow> tfi_EnabledReplicas info = None
     \<and> pf_PoolName (tfi_Profile info) = ''pool'' \<and> \<not> pf_SidecarWorker (tfi_Profile info) \<and> tfi_ContainerNames info = [''app'']
     \<and> pf_Resources (tfi_Profile info) = \<lparr>Requests = \<lparr>Tflops = 10, ComputePercent = 0, Vram = 8\<rparr>, Limits = zero_resource\<rparr>
     \<and> pf_GPUCount (tfi_Profile info) = 1 \<and> tfi_WorkloadName info = ''rs''"
    by code_simp
  then show ?thesis by (auto split: sum.splits)
qed

theorem parsed_profile_wellformed_witness:
  "\<exists>info p1. ParseTensorFusionInfo ex_parse_env (ex_client ex_plain) = Inr (info, p1)
     \<and> 1 \<le> pf_GPUCount (tfi_Profile info) \<and> tfi_ContainerNames info \<noteq> [] \<and> exclusive (pf_Requests (tfi_Profile info))"
proof -
  obtain info p1 where "ParseTensorFusionInfo ex_parse_env (ex_client ex_plain) = Inr (info, p1)" using ex_client_parsed by blast
  moreover have "map_of (om_Annotations (kp_Meta (ex_client ex_plain))) DedicatedGPUAnnotation \<noteq> Some TrueStringValue"
    by (simp add: ex_client_def ex_kpod_def ex_pod_meta_def ex_plain_def DedicatedGPUAnnotation_def annotation_defs)
  ultimately show ?thesis using parsed_profile_wellformed [of ex_parse_env "ex_client ex_plain" info p1] by blast
qed

end
