(* ===== verification/WebhookProps.thy ===== *)
theory WebhookProps
  imports PodWebhook ParserProps
begin

text \<open>
  Properties of the admission webhook: what a parsed profile is, that the pod a patch leads to asks the
  allocator for its profile, that an injected pod has a workload, and the bound of a gradual roll-out.
\<close>

section \<open>What a request may change of a pod\<close>

text \<open>Two pods agree on the given annotations and labels, and on namespace and owners.\<close>

definition agree :: "string set \<Rightarrow> string set \<Rightarrow> k_pod \<Rightarrow> k_pod \<Rightarrow> bool" where
  "agree A L p q \<longleftrightarrow>
     (\<forall>k \<in> A. map_of (om_Annotations (kp_Meta q)) k = map_of (om_Annotations (kp_Meta p)) k)
     \<and> (\<forall>k \<in> L. map_of (om_Labels (kp_Meta q)) k = map_of (om_Labels (kp_Meta p)) k)
     \<and> om_Namespace (kp_Meta q) = om_Namespace (kp_Meta p) \<and> kp_OwnerReferences q = kp_OwnerReferences p"

named_theorems agree_intros \<open>pods that agree\<close>

lemma agree_refl [agree_intros]: "agree A L p p"
  by (simp add: agree_def)

lemma agree_trans [trans]: "agree A L p q \<Longrightarrow> agree A L q r \<Longrightarrow> agree A L p r"
  by (simp add: agree_def)

lemma agree_mono: "agree A L p q \<Longrightarrow> A' \<subseteq> A \<Longrightarrow> L' \<subseteq> L \<Longrightarrow> agree A' L' p q"
  by (auto simp: agree_def)

lemma agree_put_annotation [agree_intros]: "agree A L p q \<Longrightarrow> k \<notin> A \<Longrightarrow> agree A L p (put_annotation k v q)"
  by (auto simp: agree_def put_annotation_def update_conv)

lemma agree_put_label [agree_intros]: "agree A L p q \<Longrightarrow> k \<notin> L \<Longrightarrow> agree A L p (put_label k v q)"
  by (auto simp: agree_def put_label_def update_conv)

lemma agree_spec [agree_intros]: "agree A L p q \<Longrightarrow> agree A L p (q\<lparr>kp_Spec := s\<rparr>)"
  by (simp add: agree_def)

lemma agree_get_str: "agree A L p q \<Longrightarrow> k \<in> A \<Longrightarrow> get_str (om_Annotations (kp_Meta q)) k = get_str (om_Annotations (kp_Meta p)) k"
  by (simp add: agree_def get_str_def)

lemma agree_label: "agree A L p q \<Longrightarrow> k \<in> L \<Longrightarrow> get_str (om_Labels (kp_Meta q)) k = get_str (om_Labels (kp_Meta p)) k"
  by (simp add: agree_def get_str_def)

lemma AddTFDefaultClientConf_agree:
  "AddTFDefaultClientConfBeforePatch x pool info idx p = Some q \<Longrightarrow> agree A L p q"
  by (auto simp: AddTFDefaultClientConfBeforePatch_def Let_def split: option.splits if_splits intro!: agree_intros)

lemma set_priority_agree [agree_intros]: "agree A L p q \<Longrightarrow> agree A L p (set_priority pr q)"
  by (simp add: set_priority_def agree_intros)

lemma assignPodLabels_agree [agree_intros]:
  "agree A L p q \<Longrightarrow> EmbeddedWorkerAnnotation \<notin> A \<Longrightarrow> GpuPoolKey \<notin> L \<Longrightarrow> LabelComponent \<notin> L
     \<Longrightarrow> agree A L p (assignPodLabelsAndAnnotations loc pool q)"
  by (simp add: assignPodLabelsAndAnnotations_def Let_def agree_intros)

lemma patch_containers_agree: "patch_containers x client loc sidecar is p = Some q \<Longrightarrow> agree A L p q"
proof (induction x client loc sidecar "is" p rule: patch_containers.induct)
  case (2 x client loc sidecar i "is" p)
  then obtain p' where "patch_container x client loc sidecar p i = Some p'" "agree A L p' q"
    by (auto split: option.splits)
  moreover from this(1) have "agree A L p p'"
    by (auto simp: patch_container_def Let_def split: option.splits intro!: agree_intros)
  ultimately show ?case using agree_trans by blast
qed (simp add: agree_refl)

lemma generateHostPort_agree:
  "generateHostPort x name p s = (s', Inr q) \<Longrightarrow> GenPortNumberAnnotation \<notin> A \<Longrightarrow> agree A L p q"
  by (auto simp: generateHostPort_def set_host_port_def Let_def split: option.splits prod.splits if_splits sum.splits
      intro!: agree_intros)

lemma finish_patch_ok:
  assumes "finish_patch x client loc current p = Inr (ps, q)"
  obtains ops rest pt where "we_createPatch x current p = Some ops" "ps = ops @ rest" "we_podPatch x pt current p = Some (rest, q)"
  using assms that by (auto simp: finish_patch_def calculatePodPatch_def split: option.splits)

text \<open>The pod a successful patch leads to.\<close>

lemma patchTFClient_ok:
  assumes "patchTFClient x pool client loc current idx sidecar p s = (s', Inr (ps, q))"
    and "EmbeddedWorkerAnnotation \<notin> A" "GenPortNumberAnnotation \<notin> A"
    and "LabelKeyPodTemplateHash \<notin> L" "GpuPoolKey \<notin> L" "LabelComponent \<notin> L"
  obtains final ops rest pt where "agree A L p final" "we_createPatch x current final = Some ops" "ps = ops @ rest"
    "we_podPatch x pt current final = Some (rest, q)"
proof -
  let ?p1 = "assignPodLabelsAndAnnotations loc pool (put_label LabelKeyPodTemplateHash (client_hash x client) p)"
  from assms(1) obtain p2 where p2: "patch_containers x client loc sidecar idx ?p1 = Some p2"
    by (auto simp: patchTFClient_def Let_def split: option.splits)
  have a1: "agree A L p ?p1" using assms(2-) by (intro agree_intros)
  have a2: "agree A L p p2" using agree_trans [OF a1 patch_containers_agree [OF p2]] .
  obtain final where f: "agree A L p2 final" "finish_patch x client loc current final = Inr (ps, q)"
  proof (cases "get_str (om_Labels (kp_Meta p2)) GenHostPortLabel = ''auto''")
    case True
    with assms(1) p2 obtain final where "generateHostPort x (get_str (om_Labels (kp_Meta p2)) GenHostPortNameLabel) p2 s = (s', Inr final)"
      "finish_patch x client loc current final = Inr (ps, q)"
      by (auto simp: patchTFClient_def Let_def split: prod.splits sum.splits)
    then show thesis using that generateHostPort_agree assms(3) by blast
  next
    case False
    with assms(1) p2 show thesis using that agree_refl by (auto simp: patchTFClient_def Let_def)
  qed
  from f(2) show thesis using that [OF agree_trans [OF a2 f(1)]] by (auto elim: finish_patch_ok)
qed

section \<open>The stages of a patched request\<close>

lemma webhook_Handle_patched:
  assumes "webhook_Handle x ns (Some p) w = (w', Patched ps)" "om_Namespace (kp_Meta p) \<noteq> ''''" "IsTensorFusionPod (pod_of p)"
  obtains info p1 key pool where "ParseTensorFusionInfo (we_parse x) p = Inr (info, p1)" "replica_gate x info p1 w = Inr key"
    "we_getPool x (pf_PoolName (tfi_Profile info)) = Some pool"
    "handle_injection x pool (with_qos pool info) key p p1 w = (w', Patched ps)"
proof -
  have "admit_pod x p = Inr (p, p)" using assms(3) by (simp add: admit_pod_def)
  with assms(1,2) have *: "(case ParseTensorFusionInfo (we_parse x) p of
             Inl e \<Rightarrow> (w, if e = NoContainerPanic then AdmissionPanic else Errored (ParseInfoFailed e))
           | Inr (info, p2) \<Rightarrow>
               (case replica_gate x info p2 w of Inl a \<Rightarrow> (w, a)
                | Inr key \<Rightarrow>
                    (case we_getPool x (pf_PoolName (tfi_Profile info)) of
                       None \<Rightarrow> (w, Errored GetPoolFailed)
                     | Some pool \<Rightarrow> handle_injection x pool (with_qos pool info) key p p2 w))) = (w', Patched ps)"
    by (simp add: webhook_Handle_def Let_def)
  then obtain info p1 where i: "ParseTensorFusionInfo (we_parse x) p = Inr (info, p1)"
    by (auto split: sum.splits if_splits)
  with * have **: "(case replica_gate x info p1 w of Inl a \<Rightarrow> (w, a)
                | Inr key \<Rightarrow>
                    (case we_getPool x (pf_PoolName (tfi_Profile info)) of
                       None \<Rightarrow> (w, Errored GetPoolFailed)
                     | Some pool \<Rightarrow> handle_injection x pool (with_qos pool info) key p p1 w)) = (w', Patched ps)" by simp
  show thesis
  proof (cases "replica_gate x info p1 w")
    case (Inl a)
    then have "a = Patched ps" using ** by simp
    then show thesis using Inl by (auto simp: replica_gate_def split: option.splits sum.splits prod.splits if_splits)
  next
    case (Inr key)
    then show thesis using ** that [OF i Inr] by (auto split: option.splits)
  qed
qed

lemma handle_injection_patched:
  assumes "handle_injection x pool info key current p w = (w', Patched ps)" "PendingOwnedWorkloadAnnotation \<notin> A"
  obtains ws wl p2 idx where "createOrUpdateWorkload x p info (ww_workloads w) = (ws, Some wl)" "agree A L p p2"
    "inject_and_count x pool info key current idx p2 (w\<lparr>ww_workloads := ws\<rparr>) = (w', Patched ps)"
proof -
  from assms(1) obtain ws wl where c: "createOrUpdateWorkload x p info (ww_workloads w) = (ws, Some wl)"
    by (auto simp: handle_injection_def split: prod.splits option.splits)
  have a: "agree A L p (prepare_pod info wl p)" using assms(2) by (simp add: prepare_pod_def Let_def agree_intros)
  show thesis using assms(1) c by (intro that [OF c a]) (simp add: handle_injection_def Let_def split: if_splits)
qed

lemma inject_and_count_patched:
  assumes "inject_and_count x pool info key current idx p w = (w', Patched ps)"
    and "EmbeddedWorkerAnnotation \<notin> A" "GenPortNumberAnnotation \<notin> A"
    and "LabelKeyPodTemplateHash \<notin> L" "GpuPoolKey \<notin> L" "LabelComponent \<notin> L"
  obtains final ops rest q pt where
    "agree A L (AddOrOverrideTFClientMissingAnnotationsBeforePatch (ce_print (we_compose x)) info p) final"
    "we_createPatch x current final = Some ops" "\<exists>rest'. ps = ops @ rest'"
    "we_podPatch x pt current final = Some (rest, q)" "ww_workloads w' = ww_workloads w"
    "if key = '''' then ww_owners w' = ww_owners w else counter_Increase (we_counter x) q (ww_owners w) = (ww_owners w', None)"
proof -
  let ?p1 = "AddOrOverrideTFClientMissingAnnotationsBeforePatch (ce_print (we_compose x)) info p"
  from assms(1) obtain p2 where p2: "AddTFDefaultClientConfBeforePatch (we_compose x) pool info idx ?p1 = Some p2"
    by (auto simp: inject_and_count_def Let_def split: option.splits)
  let ?p3 = "set_priority (tfi_Profile info) p2"
  have a: "agree A L ?p1 ?p3" using AddTFDefaultClientConf_agree [OF p2] by (intro agree_intros)
  obtain s' r where pt: "patchTFClient x pool (the (cfg_Client (the (cpl_ComponentConfig pool)))) (pf_IsLocalGPU (tfi_Profile info))
      current idx (pf_SidecarWorker (tfi_Profile info)) ?p3 (ww_ports w) = (s', r)" by fastforce
  with assms(1) p2 obtain patches q where r: "r = Inr (patches, q)"
    by (auto simp: inject_and_count_def Let_def split: sum.splits)
  from pt obtain final ops rest t where f: "agree A L ?p3 final" "we_createPatch x current final = Some ops" "patches = ops @ rest"
    "we_podPatch x t current final = Some (rest, q)"
    unfolding r by (rule patchTFClient_ok [OF _ assms(2-)])
  show thesis
  proof (rule that [OF agree_trans [OF a f(1)] f(2) _ f(4)])
    show "\<exists>rest'. ps = ops @ rest'" "ww_workloads w' = ww_workloads w"
      "if key = '''' then ww_owners w' = ww_owners w else counter_Increase (we_counter x) q (ww_owners w) = (ww_owners w', None)"
      using assms(1) p2 pt r f(3) by (auto simp: inject_and_count_def Let_def split: if_splits prod.splits option.splits)
  qed
qed

section \<open>The pod a patch leads to\<close>

definition request_annotations :: "string list" where
  "request_annotations = amount_keys @ [QoSLevelAnnotation, GpuCountAnnotation, GpuPoolKey, GPUModelAnnotation,
     GpuVendorAnnotation, GpuIndicesAnnotation]"

lemma request_annotations_untouched:
  "EmbeddedWorkerAnnotation \<notin> set request_annotations" "GenPortNumberAnnotation \<notin> set request_annotations"
  "PendingOwnedWorkloadAnnotation \<notin> set request_annotations"
  by (simp_all add: request_annotations_def amount_keys_def compose_keys EmbeddedWorkerAnnotation_def
      GenPortNumberAnnotation_def PendingOwnedWorkloadAnnotation_def)

lemma amount_keys_request: "k \<in> set amount_keys \<Longrightarrow> k \<in> set request_annotations"
  by (simp add: request_annotations_def)

text \<open>Amounts written by the printer, and zero amounts without annotation, are spelled.\<close>

lemma resource_spelledI:
  assumes "\<And>q. parse (print q) = Some q"
    and "\<And>k. k \<in> set amount_keys \<Longrightarrow> get_str ann k = (if amount_of r k \<noteq> 0 then print (amount_of r k) else s k)"
    and "\<And>k. k \<in> set amount_keys \<Longrightarrow> amount_of r k = 0 \<Longrightarrow> parse (s k) = None"
    and "exclusive (Requests r)" "exclusive (Limits r)"
  shows "resource_spelled parse ann True (Requests r)" "resource_spelled parse ann False (Limits r)"
proof -
  have sp: "spells parse ann k (amount_of r k)" "parse (get_str ann k) \<noteq> None \<longleftrightarrow> amount_of r k \<noteq> 0" if "k \<in> set amount_keys" for k
    using that assms(1-3) by (auto simp: spells_def)
  show "resource_spelled parse ann True (Requests r)"
    using sp [of TFLOPSRequestAnnotation] sp [of ComputeRequestAnnotation] sp [of VRAMRequestAnnotation] assms(4)
    by (auto simp: resource_spelled_def request_keys_def exclusive_def amount_keys_def)
  show "resource_spelled parse ann False (Limits r)"
    using sp [of TFLOPSLimitAnnotation] sp [of ComputeLimitAnnotation] sp [of VRAMLimitAnnotation] assms(5)
    by (auto simp: resource_spelled_def request_keys_def exclusive_def amount_keys_def)
qed


definition ex_webhook :: webhook_env where
  "ex_webhook = \<lparr>we_parse = ex_parse_env, we_compose = ex_compose,
     we_counter = \<lparr>cte_getOK = True, cte_updateOK = True, cte_podJSON = (\<lambda>_. ''{}'')\<rparr>, we_autoMigration = None,
     we_selector = (\<lambda>_. None), we_namespaceLabels = (\<lambda>_. None), we_getPool = (\<lambda>n. if n = ''pool'' then Some ex_pool0 else None),
     we_workloadGetOK = True, we_workloadCreateOK = True, we_workloadPatchOK = True, we_mergeContainer = (\<lambda>_ c. Some c),
     we_createPatch = (\<lambda>_ _. Some []), we_podPatch = (\<lambda>_ _ p. Some ([], p)), we_clientJSON = (\<lambda>_. ''''),
     we_connectionID = (\<lambda>_. ''id''), we_leaderIP = '''', we_operatorPort = ''8080'', we_http = (\<lambda>_. None)\<rparr>"

definition ex_world :: webhook_world where
  "ex_world = \<lparr>ww_owners = [((''apps/v1'', ''ReplicaSet'', ''default'', ''rs''), [])], ww_workloads = [],
     ww_ports = \<lparr>PortRangeStartNode = 40000, PortRangeEndNode = 42000, PortRangeStartCluster = 42000, PortRangeEndCluster = 62000,
       IsLeader = True, BitmapPerNode = [], BitmapCluster = [0], clusterLevelPortReleaseQueue = [], nodeLevelPortReleaseQueue = []\<rparr>\<rparr>"

definition ex_annotations :: "(string, string) gomap" where
  "ex_annotations = [(TFLOPSRequestAnnotation, ''10,1''), (VRAMRequestAnnotation, ''8,1''), (EnabledReplicasAnnotation, ''1'')]"

section \<open>Progress\<close>

lemma container_indices_valid: "i \<in> set (container_indices cs ns) \<Longrightarrow> i < length cs"
  by (induction cs ns rule: container_indices.induct) (auto split: option.splits simp: find_Some_iff)

lemma container_indices_found:
  assumes "c \<in> set cs" "kc_Name c \<in> set ns"
  shows "container_indices cs ns \<noteq> []"
  using assms(2)
proof (induction ns)
  case (Cons n ns)
  show ?case
  proof (cases "kc_Name c = n")
    case True
    obtain i where "i < length cs" "cs ! i = c" using assms(1) by (auto simp: in_set_conv_nth)
    then have "find (\<lambda>i. kc_Name (cs ! i) = n) [0..<length cs] \<noteq> None" using True by (auto simp: find_None_iff)
    then show ?thesis by auto
  next
    case False
    then show ?thesis using Cons by (auto split: option.splits)
  qed
qed simp

lemma AddTFDefaultClientConf_total:
  assumes "cpl_ComponentConfig pool = Some cfg" "cfg_Client cfg = Some cl" "pf_SidecarWorker (tfi_Profile info) \<longrightarrow> cfg_Worker cfg \<noteq> None"
    and "\<forall>i \<in> set idx. i < length (ks_Containers (kp_Spec p))"
  shows "\<exists>q. AddTFDefaultClientConfBeforePatch x pool info idx p = Some q"
  using assms by (auto simp: AddTFDefaultClientConfBeforePatch_def Let_def list_all_iff split: option.splits)

lemma patch_containers_total:
  "\<forall>pt c. we_mergeContainer x pt c \<noteq> None \<Longrightarrow> \<exists>q. patch_containers x cl loc sidecar is p = Some q"
proof (induction x cl loc sidecar "is" p rule: patch_containers.induct)
  case (2 x client loc sidecar i "is" p)
  have "\<exists>p'. patch_container x client loc sidecar p i = Some p'"
    using 2(2) by (auto simp: patch_container_def Let_def split: option.splits)
  then show ?case using 2 by auto
qed simp

lemma patchTFClient_total:
  assumes "\<forall>pt c. we_mergeContainer x pt c \<noteq> None" "\<forall>q. we_createPatch x current q \<noteq> None" "\<forall>pt q. we_podPatch x pt current q \<noteq> None"
    and "get_str (om_Labels (kp_Meta p)) GenHostPortLabel \<noteq> ''auto''"
  shows "\<exists>ps q. patchTFClient x pool client loc current idx sidecar p s = (s, Inr (ps, q))"
proof -
  let ?p1 = "assignPodLabelsAndAnnotations loc pool (put_label LabelKeyPodTemplateHash (client_hash x client) p)"
  obtain p2 where p2: "patch_containers x client loc sidecar idx ?p1 = Some p2" using patch_containers_total [OF assms(1)] by blast
  have "agree {} {GenHostPortLabel} p ?p1"
    by (intro agree_intros) (simp_all add: GenHostPortLabel_def LabelKeyPodTemplateHash_def Domain_def GpuPoolKey_def LabelComponent_def)
  then have "agree {} {GenHostPortLabel} p p2" using patch_containers_agree [OF p2] agree_trans by blast
  then have "get_str (om_Labels (kp_Meta p2)) GenHostPortLabel \<noteq> ''auto''" using agree_label assms(4) by fastforce
  moreover obtain ops where "we_createPatch x current p2 = Some ops" using assms(2) by blast
  moreover obtain rest q where "we_podPatch x (if loc then cl_PatchEmbeddedWorkerToPod client else cl_PatchToPod client) current p2 = Some (rest, q)"
    using assms(3) by (metis option.exhaust prod.exhaust)
  ultimately show ?thesis using p2 by (simp add: patchTFClient_def Let_def finish_patch_def calculatePodPatch_def)
qed

lemma createOrUpdateWorkload_ok:
  assumes "createOrUpdateWorkload x p info ws = (ws', Some wl)"
  shows "map_of ws' (om_Namespace (kp_Meta p), tfi_WorkloadName info) = Some wl \<and> pw_Spec wl = tfi_Profile info"
  using assms by (auto simp: createOrUpdateWorkload_def Let_def new_workload_def update_conv split: if_splits option.splits)

lemma createOrUpdateWorkload_total:
  "we_workloadGetOK x \<Longrightarrow> we_workloadCreateOK x \<Longrightarrow> we_workloadPatchOK x \<Longrightarrow> \<exists>ws' wl. createOrUpdateWorkload x p info ws = (ws', Some wl)"
  by (auto simp: createOrUpdateWorkload_def Let_def split: option.splits)

lemma prepare_pod_keeps [simp]:
  "ks_Containers (kp_Spec (prepare_pod info wl p)) = ks_Containers (kp_Spec p)" "om_Labels (kp_Meta (prepare_pod info wl p)) = om_Labels (kp_Meta p)"
  by (simp_all add: prepare_pod_def Let_def put_annotation_def)

lemma AddOrOverride_label:
  "get_str (om_Labels (kp_Meta (AddOrOverrideTFClientMissingAnnotationsBeforePatch print info p))) GenHostPortLabel
     = get_str (om_Labels (kp_Meta p)) GenHostPortLabel"
  by (simp add: AddOrOverrideTFClientMissingAnnotationsBeforePatch_def Let_def get_str_put_if WorkloadKey_def GenHostPortLabel_def)

lemma ParseTensorFusionInfo_keeps:
  "ParseTensorFusionInfo x p = Inr (info, p1) \<Longrightarrow> om_Namespace (kp_Meta p1) = om_Namespace (kp_Meta p)
     \<and> om_Labels (kp_Meta p1) = om_Labels (kp_Meta p) \<and> kp_Spec p1 = kp_Spec p \<and> kp_OwnerReferences p1 = kp_OwnerReferences p"
  by (erule ParseTensorFusionInfo_ok) simp

lemma inject_and_count_total:
  assumes "cpl_ComponentConfig pool = Some cfg" "cfg_Client cfg = Some cl" "pf_SidecarWorker (tfi_Profile info) \<longrightarrow> cfg_Worker cfg \<noteq> None"
    and "\<forall>i \<in> set idx. i < length (ks_Containers (kp_Spec p))" "get_str (om_Labels (kp_Meta p)) GenHostPortLabel \<noteq> ''auto''"
    and "\<forall>pt c. we_mergeContainer x pt c \<noteq> None" "\<forall>q. we_createPatch x current q \<noteq> None" "\<forall>pt q. we_podPatch x pt current q \<noteq> None"
  shows "\<exists>w' ps. inject_and_count x pool info '''' current idx p w = (w', Patched ps)"
proof -
  let ?p1 = "AddOrOverrideTFClientMissingAnnotationsBeforePatch (ce_print (we_compose x)) info p"
  have "kp_Spec ?p1 = kp_Spec p" by (simp add: AddOrOverrideTFClientMissingAnnotationsBeforePatch_def Let_def)
  then obtain p2 where p2: "AddTFDefaultClientConfBeforePatch (we_compose x) pool info idx ?p1 = Some p2"
    using AddTFDefaultClientConf_total [OF assms(1-3)] assms(4) by metis
  have "agree {} {GenHostPortLabel} ?p1 (set_priority (tfi_Profile info) p2)"
    using AddTFDefaultClientConf_agree [OF p2] by (intro agree_intros)
  then have "get_str (om_Labels (kp_Meta (set_priority (tfi_Profile info) p2))) GenHostPortLabel \<noteq> ''auto''"
    using agree_label assms(5) AddOrOverride_label by fastforce
  then obtain ps q where "patchTFClient x pool (the (cfg_Client (the (cpl_ComponentConfig pool)))) (pf_IsLocalGPU (tfi_Profile info))
      current idx (pf_SidecarWorker (tfi_Profile info)) (set_priority (tfi_Profile info) p2) (ww_ports w) = (ww_ports w, Inr (ps, q))"
    using patchTFClient_total [OF assms(6-8)] by blast
  then show ?thesis by (simp add: inject_and_count_def p2 Let_def)
qed

lemma enabled_pod_injected:
  assumes "IsTensorFusionPod (pod_of p)" "om_Namespace (kp_Meta p) \<noteq> ''''"
    and "ParseTensorFusionInfo (we_parse x) p = Inr (info, p1)" "tfi_EnabledReplicas info = None"
    and "we_getPool x (pf_PoolName (tfi_Profile info)) = Some pool" "cpl_ComponentConfig pool = Some cfg" "cfg_Client cfg = Some cl"
    and "pf_SidecarWorker (tfi_Profile info) \<longrightarrow> cfg_Worker cfg \<noteq> None"
    and "we_workloadGetOK x" "we_workloadCreateOK x" "we_workloadPatchOK x"
    and "c \<in> set (ks_Containers (kp_Spec p))" "kc_Name c \<in> set (tfi_ContainerNames info)"
    and "pf_Requests (tfi_Profile info) \<noteq> zero_resource" "get_str (om_Labels (kp_Meta p)) GenHostPortLabel \<noteq> ''auto''"
    and "\<forall>pt c. we_mergeContainer x pt c \<noteq> None" "\<forall>q. we_createPatch x p q \<noteq> None" "\<forall>pt q. we_podPatch x pt p q \<noteq> None"
  shows "\<exists>w' ps wl. webhook_Handle x ns (Some p) w = (w', Patched ps)
    \<and> map_of (ww_workloads w') (om_Namespace (kp_Meta p), tfi_WorkloadName info) = Some wl
    \<and> pw_Spec wl = (tfi_Profile info)\<lparr>pf_Qos := calculateQoSLevel (tfi_Profile info) pool\<rparr>"
proof -
  let ?i = "with_qos pool info"
  note k = ParseTensorFusionInfo_keeps [OF assms(3)]
  obtain ws wl where ws: "createOrUpdateWorkload x p1 ?i (ww_workloads w) = (ws, Some wl)"
    using createOrUpdateWorkload_total [OF assms(9-11)] by blast
  let ?p2 = "prepare_pod ?i wl p1" and ?w1 = "w\<lparr>ww_workloads := ws\<rparr>"
  let ?idx = "container_indices (ks_Containers (kp_Spec ?p2)) (tfi_ContainerNames ?i)"
  have idx: "?idx \<noteq> []" "\<forall>i \<in> set ?idx. i < length (ks_Containers (kp_Spec ?p2))"
    using container_indices_found [of c "ks_Containers (kp_Spec p)"] assms(12,13) k container_indices_valid by (auto simp: with_qos_def)
  have side: "pf_SidecarWorker (tfi_Profile ?i) \<longrightarrow> cfg_Worker cfg \<noteq> None" using assms(8) by (simp add: with_qos_def)
  obtain w' ps where i: "inject_and_count x pool ?i '''' p ?idx ?p2 ?w1 = (w', Patched ps)"
    using inject_and_count_total [OF assms(6,7) side idx(2) _ assms(16-18)] assms(15) k by fastforce
  have "Tflops (pf_Requests (tfi_Profile ?i)) \<noteq> 0 \<or> ComputePercent (pf_Requests (tfi_Profile ?i)) \<noteq> 0 \<or> Vram (pf_Requests (tfi_Profile ?i)) \<noteq> 0"
    using assms(14) by (auto simp: with_qos_def zero_resource_def intro: resource.equality)
  then have "handle_injection x pool ?i '''' p p1 w = (w', Patched ps)"
    using i idx(1) unfolding handle_injection_def ws Let_def by auto
  then have "webhook_Handle x ns (Some p) w = (w', Patched ps)"
    using assms(1-5) by (simp add: webhook_Handle_def admit_pod_def replica_gate_def)
  moreover have "ww_workloads w' = ww_workloads ?w1" by (rule inject_and_count_patched [OF i, of "{}" "{}"]) simp_all
  ultimately show ?thesis using createOrUpdateWorkload_ok [OF ws] k by (auto simp: with_qos_def)
qed


lemma ex_client_facts:
  "IsTensorFusionPod (pod_of (ex_client ann))" "om_Namespace (kp_Meta (ex_client ann)) = ''default''"
  "om_Annotations (kp_Meta (ex_client ann)) = ann" "get_str (om_Labels (kp_Meta (ex_client ann))) GenHostPortLabel = ''''"
  "ks_Containers (kp_Spec (ex_client ann)) = [empty_container ''app'']"
  by (simp_all add: ex_client_def ex_kpod_def ex_pod_meta_def ex_spec0_def IsTensorFusionPod_def pod_of_def get_str_def
      TrueStringValue_def TensorFusionEnabledLabelKey_def GenHostPortLabel_def)

lemma ex_webhook_facts:
  "we_parse ex_webhook = ex_parse_env" "we_compose ex_webhook = ex_compose" "we_getPool ex_webhook ''pool'' = Some ex_pool0"
  "we_workloadGetOK ex_webhook" "we_workloadCreateOK ex_webhook" "we_workloadPatchOK ex_webhook"
  "we_mergeContainer ex_webhook pt c \<noteq> None" "we_createPatch ex_webhook p q \<noteq> None" "we_podPatch ex_webhook pt p q \<noteq> None"
  "cpl_ComponentConfig ex_pool0 = Some ex_components" "cfg_Client ex_components \<noteq> None"
  by (simp_all add: ex_webhook_def ex_pool0_def ex_components_def)

lemma ex_client_injected:
  "\<exists>w' ps wl. webhook_Handle ex_webhook ''default'' (Some (ex_client ex_plain)) ex_world = (w', Patched ps)
     \<and> map_of (ww_workloads w') (''default'', ''rs'') = Some wl"
proof -
  obtain info p1 where i: "ParseTensorFusionInfo ex_parse_env (ex_client ex_plain) = Inr (info, p1)" "tfi_EnabledReplicas info = None"
     "pf_PoolName (tfi_Profile info) = ''pool''" "\<not> pf_SidecarWorker (tfi_Profile info)" "tfi_ContainerNames info = [''app'']"
     "pf_Resources (tfi_Profile info) = \<lparr>Requests = \<lparr>Tflops = 10, ComputePercent = 0, Vram = 8\<rparr>, Limits = zero_resource\<rparr>"
     "tfi_WorkloadName info = ''rs''"
    using ex_client_parsed by blast
  obtain cl where "cfg_Client ex_components = Some cl" using ex_webhook_facts(11) by blast
  then show ?thesis
    using enabled_pod_injected [of "ex_client ex_plain" ex_webhook info p1 ex_pool0 ex_components cl "empty_container ''app''" "''default''" ex_world]
      i ex_client_facts ex_webhook_facts by (auto simp: zero_resource_def empty_container_def)
qed



section \<open>Gradual roll-out\<close>

abbreviation "counter_keys \<equiv> {PodCounterKeyAnnotation}"
abbreviation "counter_labels \<equiv> {''pod-template-hash''}"

lemma counter_keys_untouched:
  "EmbeddedWorkerAnnotation \<notin> counter_keys" "GenPortNumberAnnotation \<notin> counter_keys" "PendingOwnedWorkloadAnnotation \<notin> counter_keys"
  "LabelKeyPodTemplateHash \<notin> counter_labels" "GpuPoolKey \<notin> counter_labels" "LabelComponent \<notin> counter_labels"
  by (simp_all add: PodCounterKeyAnnotation_def EmbeddedWorkerAnnotation_def GenPortNumberAnnotation_def
      PendingOwnedWorkloadAnnotation_def LabelKeyPodTemplateHash_def Domain_def GpuPoolKey_def LabelComponent_def)

lemma AddOrOverride_agree: "agree counter_keys counter_labels p (AddOrOverrideTFClientMissingAnnotationsBeforePatch print info p)"
  by (simp add: agree_def AddOrOverrideTFClientMissingAnnotationsBeforePatch_def Let_def update_conv map_of_put_if compose_keys
      PodCounterKeyAnnotation_def)

lemma Parse_agree:
  assumes "ParseTensorFusionInfo x p = Inr (info, p1)"
  shows "agree counter_keys counter_labels p p1"
proof -
  obtain pr1 pr3 ann1 where g: "parseGPUResourcesAnnotations x (ks_Containers (kp_Spec p)) (om_Annotations (kp_Meta p))
      (quota_defaults x (om_Namespace (kp_Meta p)) pr1) = Inr (pr3, ann1)"
    and p1: "p1 = p\<lparr>kp_Meta := (kp_Meta p)\<lparr>om_Annotations := ann1\<rparr>\<rparr>"
    using ParseTensorFusionInfo_ok [OF assms] by metis
  obtain pr2 m where n: "parse_gpu_count x (ks_Containers (kp_Spec p)) (om_Annotations (kp_Meta p))
      (quota_defaults x (om_Namespace (kp_Meta p)) pr1) = Inr (pr2, m, ann1)"
    using parseGPUResourcesAnnotations_ok [OF g] by metis
  show ?thesis using parse_gpu_count_keeps [OF n]
    by (simp add: agree_def p1 PodCounterKeyAnnotation_def InjectContainerAnnotation_def)
qed

text \<open>The counter key comes from an annotation or from the label of the template, not from a hash of the pod.\<close>

definition stable_key :: "k_pod \<Rightarrow> bool" where
  "stable_key p \<longleftrightarrow> get_str (om_Annotations (kp_Meta p)) PodCounterKeyAnnotation \<noteq> '''' \<or> get_str (om_Labels (kp_Meta p)) ''pod-template-hash'' \<noteq> ''''"

lemma stable_key_agree:
  assumes "agree counter_keys counter_labels p q" "stable_key p"
  shows "getOrGenerateKey json q = getOrGenerateKey json p" "getControllerOwnerRef q = getControllerOwnerRef p"
    "owner_key_of r q = owner_key_of r p"
proof -
  have "get_str (om_Annotations (kp_Meta q)) PodCounterKeyAnnotation = get_str (om_Annotations (kp_Meta p)) PodCounterKeyAnnotation"
    "get_str (om_Labels (kp_Meta q)) ''pod-template-hash'' = get_str (om_Labels (kp_Meta p)) ''pod-template-hash''"
    using agree_get_str [OF assms(1)] agree_label [OF assms(1)] by auto
  then show "getOrGenerateKey json q = getOrGenerateKey json p"
    using assms(2) by (auto simp: getOrGenerateKey_def stable_key_def Let_def)
qed (use assms(1) in \<open>simp_all add: agree_def getControllerOwnerRef_def owner_key_of_def\<close>)

lemma getOrGenerateKey_not_Nil: "getOrGenerateKey json p \<noteq> ''''"
  by (simp add: getOrGenerateKey_def Let_def Domain_def)

text \<open>
  A request under roll-out: an enabled pod with a stable key and a limit. Merging the configured patch into the pod
  keeps its namespace, owners, counter annotation and template label.
\<close>

definition counted :: "webhook_env \<Rightarrow> k_pod \<Rightarrow> int \<Rightarrow> bool" where
  "counted x p n \<longleftrightarrow> IsTensorFusionPod (pod_of p) \<and> om_Namespace (kp_Meta p) \<noteq> '''' \<and> stable_key p
     \<and> parse_replicas (om_Annotations (kp_Meta p)) = Inr (Some n)
     \<and> (\<forall>pt cur r rest q. we_podPatch x pt cur r = Some (rest, q) \<longrightarrow> agree counter_keys counter_labels r q)"

definition rollout_group :: "webhook_env \<Rightarrow> k_pod \<Rightarrow> (owner_key \<times> string) option" where
  "rollout_group x p = map_option (\<lambda>r. (owner_key_of r p, getOrGenerateKey (cte_podJSON (we_counter x)) p)) (getControllerOwnerRef p)"

fun is_patched :: "admission \<Rightarrow> bool" where
  "is_patched (Patched ps) = True"
| "is_patched _ = False"

lemma inject_and_count_owners: "inject_and_count x pool info key current idx p w = (w', a) \<Longrightarrow> \<not> is_patched a \<Longrightarrow> ww_owners w' = ww_owners w"
  by (auto simp: inject_and_count_def Let_def split: option.splits prod.splits sum.splits if_splits)

lemma handle_injection_owners: "handle_injection x pool info key current p w = (w', a) \<Longrightarrow> \<not> is_patched a \<Longrightarrow> ww_owners w' = ww_owners w"
  by (auto simp: handle_injection_def Let_def split: prod.splits option.splits if_splits dest: inject_and_count_owners)

lemma webhook_Handle_owners: "webhook_Handle x ns req w = (w', a) \<Longrightarrow> \<not> is_patched a \<Longrightarrow> ww_owners w' = ww_owners w"
  by (auto simp: webhook_Handle_def Let_def split: option.splits sum.splits prod.splits if_splits dest: handle_injection_owners)

lemma counted_request_patched:
  assumes "webhook_Handle x ns (Some p) w = (w', Patched ps)" "counted x p n"
  obtains k key c where "rollout_group x p = Some (k, key)" "count_of (ww_owners w) k key = Some c" "c < n"
    "count_of (ww_owners w') k key = Some (c + 1)"
    "\<And>k' key'. (k', key') \<noteq> (k, key) \<Longrightarrow> count_of (ww_owners w') k' key' = count_of (ww_owners w) k' key'"
proof -
  note cd = assms(2) [unfolded counted_def]
  have stable: "stable_key p" using cd by blast
  let ?key = "getOrGenerateKey (cte_podJSON (we_counter x)) p"
  obtain info p1 key pool where P: "ParseTensorFusionInfo (we_parse x) p = Inr (info, p1)" and g: "replica_gate x info p1 w = Inr key"
    and h: "handle_injection x pool (with_qos pool info) key p p1 w = (w', Patched ps)"
    using webhook_Handle_patched [OF assms(1)] cd by metis
  have n: "tfi_EnabledReplicas info = Some n" using ParseTensorFusionInfo_ok [OF P] cd by (metis Inr_inject)
  note a1 = Parse_agree [OF P]
  obtain c r where c: "getControllerOwnerRef p = Some r" "key = ?key" "count_of (ww_owners w) (owner_key_of r p) ?key = Some c" "c < n"
    using g n stable_key_agree [OF a1] cd
    by (auto simp: replica_gate_def counter_Get_ok_iff split: sum.splits prod.splits if_splits)
  obtain ws p2 idx where a2: "agree counter_keys counter_labels p1 p2"
    and i: "inject_and_count x pool (with_qos pool info) key p idx p2 (w\<lparr>ww_workloads := ws\<rparr>) = (w', Patched ps)"
    using handle_injection_patched [OF h counter_keys_untouched(3)] by metis
  obtain final ops rest q pt where f: "agree counter_keys counter_labels (AddOrOverrideTFClientMissingAnnotationsBeforePatch (ce_print (we_compose x)) (with_qos pool info) p2) final"
    "we_createPatch x p final = Some ops" "\<exists>rest'. ps = ops @ rest'" "we_podPatch x pt p final = Some (rest, q)"
    "ww_workloads w' = ww_workloads (w\<lparr>ww_workloads := ws\<rparr>)"
    "if key = '''' then ww_owners w' = ww_owners (w\<lparr>ww_workloads := ws\<rparr>)
     else counter_Increase (we_counter x) q (ww_owners (w\<lparr>ww_workloads := ws\<rparr>)) = (ww_owners w', None)"
    by (rule inject_and_count_patched [OF i counter_keys_untouched(1,2,4-6)])
  have "agree counter_keys counter_labels p q"
    using agree_trans [OF agree_trans [OF agree_trans [OF a1 a2] AddOrOverride_agree] f(1)] cd f(4) agree_trans by blast
  note same = stable_key_agree [OF this stable]
  have inc: "counter_Increase (we_counter x) q (ww_owners w) = (ww_owners w', None)" using f(6) c(2) getOrGenerateKey_not_Nil by simp
  have lim: "n < 2 ^ 31" using cd ParseInt32_range by (auto simp: parse_replicas_def split: option.splits)
  show thesis
  proof (rule counter_Increase_ok [OF inc], unfold same(1), goal_cases)
    case (1 r' m)
    then have r': "r' = r" "m = c" using same c cd by auto
    show thesis
      by (rule that [of "owner_key_of r p" ?key c]) (use 1 c cd lim same r' in \<open>auto simp: rollout_group_def\<close>)
  qed
qed

text \<open>Admission requests served one after the other, each with the answers of its own environment.\<close>

fun serve :: "(webhook_env \<times> k_pod) list \<Rightarrow> webhook_world \<Rightarrow> admission list" where
  "serve [] w = []"
| "serve ((x, p) # rs) w = (case webhook_Handle x '''' (Some p) w of (w', a) \<Rightarrow> a # serve rs w')"

definition injected_in :: "owner_key \<times> string \<Rightarrow> (webhook_env \<times> k_pod) list \<Rightarrow> admission list \<Rightarrow> nat" where
  "injected_in g rs as = length (filter (\<lambda>((x, p), a). rollout_group x p = Some g \<and> is_patched a) (zip rs as))"


lemma ex_counted: "counted ex_webhook (ex_client ex_annotations) 1"
proof -
  have "parse_replicas ex_annotations = Inr (Some 1)" by code_simp
  then show ?thesis using agree_refl
    by (auto simp: counted_def stable_key_def ex_webhook_def ex_client_def ex_kpod_def ex_pod_meta_def get_str_def
        TensorFusionEnabledLabelKey_def IsTensorFusionPod_def pod_of_def TrueStringValue_def)
qed

lemma ex_group: "rollout_group ex_webhook (ex_client ann) = Some ((''apps/v1'', ''ReplicaSet'', ''default'', ''rs''), ''tensor-fusion.ai/tf-counter-abc'')"
  if "map_of ann PodCounterKeyAnnotation = None"
  using that by (simp add: rollout_group_def getControllerOwnerRef_def ex_client_def ex_kpod_def ex_pod_meta_def owner_key_of_def
      getOrGenerateKey_def get_str_def Let_def Domain_def TensorFusionEnabledLabelKey_def)


text \<open>
  Without a stable key the pod is counted under the hash of its JSON, which the webhook itself changes between
  reading and increasing the count: the count it reads then never grows.
\<close>

lemma counter_key_drift:
  assumes "counter_Increase x q os = (os', None)" "kp_OwnerReferences q = kp_OwnerReferences p"
    and "om_Namespace (kp_Meta q) = om_Namespace (kp_Meta p)" "getOrGenerateKey (cte_podJSON x) q \<noteq> getOrGenerateKey (cte_podJSON x) p"
  shows "counter_Get x os' p = counter_Get x os p"
proof -
  have same: "owner_key_of r q = owner_key_of r p" "getControllerOwnerRef q = getControllerOwnerRef p" for r
    using assms(2,3) by (simp_all add: owner_key_of_def getControllerOwnerRef_def)
  show ?thesis using assms(1,4)
    by (auto simp: counter_Increase_def counter_Get_def get_owner_def Let_def same update_conv get_str_update
        split: option.splits get_result.splits if_splits)
qed

section \<open>Contradicting amounts\<close>

text \<open>
  A pod with a dedicated GPU that also asks for a percentage is accepted by the webhook with the full capacity
  of its GPU model as request, and is scheduled as if it asked for nothing: the annotations then carry both tflops
  and percent, the allocator refuses to read them, and the allocation request it composes, without an error, is for
  no tflops and no memory.
\<close>
theorem dedicated_percent_pod_requests_nothing:
  assumes "\<And>q. pe_parse x (print q) = Some q" "ParseTensorFusionInfo x p = Inr (info, p1)"
    and "map_of (om_Annotations (kp_Meta p)) DedicatedGPUAnnotation = Some TrueStringValue"
    and "map_of (pe_capacity x) (pf_GPUModel (tfi_Profile info)) = Some c" "Tflops c \<noteq> 0"
    and "ComputePercent (pf_Requests (tfi_Profile info)) \<noteq> 0" "int (pf_GPUCount (tfi_Profile info)) \<le> MaxGPUCounterPerAllocation"
  shows "Tflops (pf_Requests (tfi_Profile info)) = Tflops c \<and> Vram (pf_Requests (tfi_Profile info)) = Vram c
    \<and> (\<exists>req. ComposeAllocationRequest (pe_parse x) (pod_of (AddOrOverrideTFClientMissingAnnotationsBeforePatch print info p1)) = (req, '''', False)
        \<and> ar_Request req = zero_resource \<and> ar_Count req = pf_GPUCount (tfi_Profile info))"
proof -
  let ?q = "AddOrOverrideTFClientMissingAnnotationsBeforePatch print info p1"
  obtain pr1 pr3 ann1 where g: "parseGPUResourcesAnnotations x (ks_Containers (kp_Spec p)) (om_Annotations (kp_Meta p))
      (quota_defaults x (om_Namespace (kp_Meta p)) pr1) = Inr (pr3, ann1)"
    and h: "handleDedicatedGPU x ann1 (set_model ann1 (parseAutoScalingAnnotations ann1 pr3)) = Inr (tfi_Profile info)"
    using ParseTensorFusionInfo_ok [OF assms(2)] by metis
  obtain pr2 m where n: "parse_gpu_count x (ks_Containers (kp_Spec p)) (om_Annotations (kp_Meta p))
      (quota_defaults x (om_Namespace (kp_Meta p)) pr1) = Inr (pr2, m, ann1)"
    using parseGPUResourcesAnnotations_ok [OF g] by metis
  have "map_of ann1 DedicatedGPUAnnotation = Some TrueStringValue"
    using parse_gpu_count_keeps [OF n] assms(3) by (simp add: DedicatedGPUAnnotation_def InjectContainerAnnotation_def)
  then have full: "Tflops (pf_Requests (tfi_Profile info)) = Tflops c" "Vram (pf_Requests (tfi_Profile info)) = Vram c"
    using handleDedicatedGPU_ok [OF h] assms(4) by auto
  note ca = client_annotations [where print = print and info = info and p = p1]
  have "GetGPUResource (pe_parse x) (pod_of ?q) True = Inl MutuallyExclusive"
    using ca(1) [of TFLOPSRequestAnnotation] ca(1) [of ComputeRequestAnnotation] full assms(1,5,6)
    by (simp add: GetGPUResource_def pod_of_def amount_keys_def Let_def)
  moreover have "snd (ParseIndicesAnnotation s) = False" for s by (simp add: ParseIndicesAnnotation_def)
  ultimately show ?thesis using full ca(3) assms(7)
    by (auto simp: ComposeAllocationRequest_def pod_of_def Let_def Atoi_show_nat to_uint_id MaxGPUCounterPerAllocation_def split: prod.splits)
      (metis snd_conv)
qed

definition ex_dedicated :: "(string, string) gomap" where
  "ex_dedicated = [(DedicatedGPUAnnotation, ''true''), (GPUModelAnnotation, ''A100''), (ComputeRequestAnnotation, ''50,1'')]"

theorem dedicated_percent_pod_requests_nothing_witness:
  "\<exists>info p1 req. ParseTensorFusionInfo ex_parse_env (ex_client ex_dedicated) = Inr (info, p1)
     \<and> Tflops (pf_Requests (tfi_Profile info)) = 312
     \<and> ComposeAllocationRequest ex_parse (pod_of (AddOrOverrideTFClientMissingAnnotationsBeforePatch ex_print info p1)) = (req, '''', False)
     \<and> ar_Request req = zero_resource"
proof -
  have "case ParseTensorFusionInfo ex_parse_env (ex_client ex_dedicated) of Inl _ \<Rightarrow> False
     | Inr (info, p1) \<Rightarrow> pf_GPUModel (tfi_Profile info) = ''A100'' \<and> ComputePercent (pf_Requests (tfi_Profile info)) = 50
         \<and> pf_GPUCount (tfi_Profile info) = 1"
    by code_simp
  then obtain info p1 where i: "ParseTensorFusionInfo ex_parse_env (ex_client ex_dedicated) = Inr (info, p1)"
    "pf_GPUModel (tfi_Profile info) = ''A100''" "ComputePercent (pf_Requests (tfi_Profile info)) = 50" "pf_GPUCount (tfi_Profile info) = 1"
    by (auto split: sum.splits)
  have "pe_parse ex_parse_env = ex_parse" by (simp add: ex_parse_env_def)
  with i show ?thesis
    using dedicated_percent_pod_requests_nothing [of ex_parse_env ex_print "ex_client ex_dedicated" info p1 "\<lparr>Tflops = 312, ComputePercent = 0, Vram = 80\<rparr>"]
    by (auto simp: ex_parse_print ex_client_facts ex_dedicated_def ex_parse_env_def TrueStringValue_def MaxGPUCounterPerAllocation_def)
qed

end
