(* ===== verification/PodController.thy ===== *)
theory PodController
  imports PodWebhook Expander
begin

text \<open>
  The pod controller, \<^verbatim>\<open>controller/pod_controller.go\<close>: what a finished or vanished pod held is given back,
  finalizers are kept on workers, and a client pod gets its connection. The stored objects and the allocators a
  round may change are the record \<open>pod_world\<close>; \<open>pod_env\<close> holds the answers of the API server and
  \<^verbatim>\<open>controllerutil.SetControllerReference\<close>. A pod is stored with its phase.
\<close>

section \<open>State\<close>

record tf_connection =
  tc_Name :: string
  tc_Namespace :: string
  tc_Labels :: "(string, string) gomap"
  tc_OwnerReferences :: "owner_ref list"
  tc_WorkloadName :: string
  tc_ClientPod :: string

record pod_world =
  pd_pods :: "(string \<times> string, k_pod \<times> string) gomap"  \<comment> \<open>by namespace and name\<close>
  pd_workloads :: "(string \<times> string, profile_workload) gomap"
  pd_connections :: "(string \<times> string, tf_connection) gomap"
  pd_owners :: owner_objects
  pd_allocator :: allocator
  pd_expander :: node_expander
  pd_ports :: port_allocator

record pod_env =
  pv_ext :: ext
  pv_getOK :: bool
  pv_counter :: counter_env
  pv_workloadGetOK :: bool
  pv_setController :: "k_pod \<Rightarrow> owner_ref list \<Rightarrow> owner_ref list option"
  pv_workloadUpdateOK :: bool
  pv_annotationUpdateOK :: bool
  pv_finalizerUpdateOK :: bool
  pv_connectionGetOK :: bool
  pv_connectionCreateOK :: bool

datatype pod_outcome = PodDone | PodError

section \<open>Connections\<close>

definition ConnectionNameEnv :: string where "ConnectionNameEnv = ''TENSOR_FUSION_CONNECTION_NAME''"
definition ConnectionNamespaceEnv :: string where "ConnectionNamespaceEnv = ''TENSOR_FUSION_CONNECTION_NAMESPACE''"

text \<open>The field \<^verbatim>\<open>Value\<close> of a variable, empty for one that is filled from elsewhere.\<close>

definition env_value :: "env_var \<Rightarrow> string" where
  "env_value v = (case ev_Source v of Plain s \<Rightarrow> s | _ \<Rightarrow> '''')"

definition find_env :: "string \<Rightarrow> env_var list \<Rightarrow> string option" where
  "find_env n vs = map_option env_value (find (\<lambda>v. ev_Name v = n) vs)"

text \<open>Name and namespace of the first container that has both variables, else empty.\<close>

fun findConnectionNameNamespace :: "k_container list \<Rightarrow> string \<times> string" where
  "findConnectionNameNamespace [] = ('''', '''')"
| "findConnectionNameNamespace (c # cs) =
     (case (find_env ConnectionNameEnv (kc_Env c), find_env ConnectionNamespaceEnv (kc_Env c)) of
        (Some name, Some namespace) \<Rightarrow> (name, namespace)
      | _ \<Rightarrow> findConnectionNameNamespace cs)"

definition buildTensorFusionConnectionObj :: "k_pod \<Rightarrow> tf_connection option" where
  "buildTensorFusionConnectionObj p =
     (case map_of (om_Annotations (kp_Meta p)) SelectedWorkloadAnnotation of
        None \<Rightarrow> None
      | Some workloadName \<Rightarrow>
          let (name, namespace) = findConnectionNameNamespace (ks_Containers (kp_Spec p)) in
          if name = '''' \<or> namespace = '''' then None
          else Some \<lparr>tc_Name = name, tc_Namespace = namespace, tc_Labels = [(WorkloadKey, workloadName)],
                 tc_OwnerReferences = [\<lparr>or_APIVersion = ''v1'', or_Kind = ''Pod'', or_Name = om_Name (kp_Meta p),
                                        or_UID = om_UID (kp_Meta p), or_Controller = False\<rparr>],
                 tc_WorkloadName = workloadName, tc_ClientPod = om_Name (kp_Meta p)\<rparr>)"

section \<open>Steps of a round\<close>

definition pod_id :: "k_pod \<Rightarrow> string \<times> string" where
  "pod_id p = (om_Namespace (kp_Meta p), om_Name (kp_Meta p))"

definition store_pod :: "k_pod \<Rightarrow> string \<Rightarrow> pod_world \<Rightarrow> pod_world" where
  "store_pod p phase w = w\<lparr>pd_pods := AList.update (pod_id p) (p, phase) (pd_pods w)\<rparr>"

text \<open>What a pod that is gone or has stopped gives back.\<close>

definition release_pod :: "pod_env \<Rightarrow> string \<times> string \<Rightarrow> pod_world \<Rightarrow> pod_world" where
  "release_pod x k w =
     w\<lparr>pd_expander := fst (RemovePreSchedulePod (snd k) (pd_expander w)),
       pd_allocator := DeallocByPodIdentifier (pv_ext x) \<lparr>nn_Name = snd k, nn_Namespace = fst k\<rparr> (pd_allocator w)\<rparr>"

datatype pending_result = OwnerSet | OwnerNotFound | OwnerFailed

definition setPendingOwnedWorkload :: "pod_env \<Rightarrow> k_pod \<Rightarrow> string \<Rightarrow> pod_world \<Rightarrow> pod_world \<times> pending_result" where
  "setPendingOwnedWorkload x p ownedWorkloadName w =
     (let k = (om_Namespace (kp_Meta p), ownedWorkloadName) in
      if \<not> pv_workloadGetOK x then (w, OwnerFailed)
      else case map_of (pd_workloads w) k of
             None \<Rightarrow> (w, OwnerNotFound)
           | Some wl \<Rightarrow>
               (case pv_setController x p (pw_OwnerReferences wl) of
                  None \<Rightarrow> (w, OwnerFailed)
                | Some refs \<Rightarrow>
                    if pv_workloadUpdateOK x
                    then (w\<lparr>pd_workloads := AList.update k (wl\<lparr>pw_OwnerReferences := refs\<rparr>) (pd_workloads w)\<rparr>, OwnerSet)
                    else (w, OwnerFailed)))"

text \<open>The pod without the annotation, or how the round ends.\<close>

definition pending_owner_step :: "pod_env \<Rightarrow> k_pod \<Rightarrow> string \<Rightarrow> pod_world \<Rightarrow> pod_world \<times> (pod_outcome + k_pod)" where
  "pending_owner_step x p phase w =
     (case map_of (om_Annotations (kp_Meta p)) PendingOwnedWorkloadAnnotation of
        None \<Rightarrow> (w, Inr p)
      | Some name \<Rightarrow>
          (case setPendingOwnedWorkload x p name w of
             (w1, OwnerNotFound) \<Rightarrow> (w1, Inl PodDone)
           | (w1, OwnerFailed) \<Rightarrow> (w1, Inl PodError)
           | (w1, OwnerSet) \<Rightarrow>
               let p1 = p\<lparr>kp_Meta := (kp_Meta p)\<lparr>om_Annotations :=
                          AList.delete PendingOwnedWorkloadAnnotation (om_Annotations (kp_Meta p))\<rparr>\<rparr>
               in if pv_annotationUpdateOK x then (store_pod p1 phase w1, Inr p1) else (w1, Inl PodError)))"

definition release_port_step :: "k_pod \<Rightarrow> pod_world \<Rightarrow> pod_world" where
  "release_port_step p w =
     (let ann = om_Annotations (kp_Meta p) in
      if om_Deleting (kp_Meta p) \<and> get_str ann GenHostPortLabel = ''auto''
      then w\<lparr>pd_ports := fst (ReleaseClusterLevelHostPort (om_Name (kp_Meta p)) (fst (Atoi (get_str ann GenPortNumberAnnotation)))
                                False (pd_ports w))\<rparr>
      else w)"

definition handleWorkerPodFinalizer :: "pod_env \<Rightarrow> k_pod \<Rightarrow> string \<Rightarrow> pod_world \<Rightarrow> pod_world \<times> bool \<times> bool" where
  "handleWorkerPodFinalizer x p phase w =
     (let hooked = (om_Deleting (kp_Meta p) \<and> Finalizer \<in> set (om_Finalizers (kp_Meta p)));
          (os, err) = (if hooked then counter_Decrease (pv_counter x) p (pd_owners w) else (pd_owners w, None));
          (meta, shouldReturn, ferr) =
            HandleFinalizer (if err = None then Some True else None) (pv_finalizerUpdateOK x) (kp_Meta p);
          w1 = w\<lparr>pd_owners := os\<rparr>
      in (if meta = kp_Meta p then w1 else store_pod (p\<lparr>kp_Meta := meta\<rparr>) phase w1, shouldReturn, ferr \<noteq> None))"

definition connection_step :: "pod_env \<Rightarrow> k_pod \<Rightarrow> string \<Rightarrow> pod_world \<Rightarrow> pod_world \<times> pod_outcome" where
  "connection_step x p phase w =
     (if Finalizer \<in> set (om_Finalizers (kp_Meta p))
      then if pv_finalizerUpdateOK x
           then (store_pod (p\<lparr>kp_Meta := (kp_Meta p)\<lparr>om_Finalizers := removeAll Finalizer (om_Finalizers (kp_Meta p))\<rparr>\<rparr>) phase w,
                 PodDone)
           else (w, PodError)
      else case buildTensorFusionConnectionObj p of
             None \<Rightarrow> (w, PodDone)
           | Some c \<Rightarrow>
               let k = (tc_Namespace c, tc_Name c) in
               if pv_connectionGetOK x \<and> map_of (pd_connections w) k = None
               then if pv_connectionCreateOK x
                    then (w\<lparr>pd_connections := AList.update k c (pd_connections w)\<rparr>, PodDone)
                    else (w, PodError)
               else (w, PodDone))"

section \<open>The round\<close>

definition pod_Reconcile :: "pod_env \<Rightarrow> string \<times> string \<Rightarrow> pod_world \<Rightarrow> pod_world \<times> pod_outcome" where
  "pod_Reconcile x k w =
     (if \<not> pv_getOK x then (w, PodError)
      else case map_of (pd_pods w) k of
        None \<Rightarrow> (release_pod x k w, PodDone)
      | Some (p, phase) \<Rightarrow>
          let comp = get_str (om_Labels (kp_Meta p)) LabelComponent in
          if comp = ComponentWorker \<and> IsPodStopped phase then (release_pod x k w, PodDone)
          else (case pending_owner_step x p phase w of
                  (w1, Inl out) \<Rightarrow> (w1, out)
                | (w1, Inr p1) \<Rightarrow>
                    let w2 = release_port_step p1 w1 in
                    if comp = ComponentWorker
                    then (case handleWorkerPodFinalizer x p1 phase w2 of
                            (w3, shouldReturn, failed) \<Rightarrow> (w3, if failed then PodError else PodDone))
                    else if comp = ComponentClient then connection_step x p1 phase w2
                    else (w2, PodDone)))"

text \<open>Rounds one after the other, each with its own answers of the API server.\<close>

definition pod_rounds :: "(pod_env \<times> string \<times> string) list \<Rightarrow> pod_world \<Rightarrow> pod_world" where
  "pod_rounds rs w = foldl (\<lambda>w (x, k). fst (pod_Reconcile x k w)) w rs"

end
