(* ===== verification/PodProps.thy ===== *)
theory PodProps
  imports PodController WebhookProps AllocatorProps PortProps
begin

text \<open>
  Properties of the pod controller: finalizers of deleted workers, the connection of a client pod, and what a
  round never gives back.
\<close>

section \<open>The pod store\<close>

definition keyed :: "pod_world \<Rightarrow> bool" where
  "keyed w \<longleftrightarrow> (\<forall>k p phase. map_of (pd_pods w) k = Some (p, phase) \<longrightarrow> pod_id p = k)"

lemma pod_id_meta [simp]:
  "pod_id (p\<lparr>kp_Meta := m\<rparr>) = (om_Namespace m, om_Name m)"
  by (simp add: pod_id_def)

lemma pd_pods_store [simp]: "pd_pods (store_pod p phase w) = AList.update (pod_id p) (p, phase) (pd_pods w)"
  by (simp add: store_pod_def)

lemma pd_pods_release [simp]: "pd_pods (release_pod x k w) = pd_pods w" "pd_pods (release_port_step p w) = pd_pods w"
  by (simp_all add: release_pod_def release_port_step_def Let_def)

lemma setPendingOwnedWorkload_frame:
  "setPendingOwnedWorkload x p n w = (w', r) \<Longrightarrow>
     pd_pods w' = pd_pods w \<and> pd_owners w' = pd_owners w \<and> pd_ports w' = pd_ports w \<and> pd_connections w' = pd_connections w"
  by (auto simp: setPendingOwnedWorkload_def Let_def split: if_splits option.splits)

text \<open>The stored pods differ from before at most at one key, by one update.\<close>

definition pods_updated :: "string \<times> string \<Rightarrow> pod_world \<Rightarrow> pod_world \<Rightarrow> bool" where
  "pods_updated k w w' \<longleftrightarrow>
     (\<forall>k'. k' \<noteq> k \<longrightarrow> map_of (pd_pods w') k' = map_of (pd_pods w) k') \<and> (keyed w \<longrightarrow> keyed w')"

lemma pods_updated_same: "pd_pods w' = pd_pods w \<Longrightarrow> pods_updated k w w'"
  by (simp add: pods_updated_def keyed_def)

lemma pods_updated_store: "pd_pods w' = AList.update (pod_id p) (p, phase) (pd_pods w) \<Longrightarrow> pods_updated (pod_id p) w w'"
  by (auto simp: pods_updated_def keyed_def update_conv)

lemma pods_updated_trans: "pods_updated k w w1 \<Longrightarrow> pods_updated k w1 w2 \<Longrightarrow> pods_updated k w w2"
  by (auto simp: pods_updated_def)

lemma HandleFinalizer_frame:
  "HandleFinalizer h u m = (m', r, e) \<Longrightarrow>
     om_Name m' = om_Name m \<and> om_Namespace m' = om_Namespace m \<and> om_Labels m' = om_Labels m \<and> om_Annotations m' = om_Annotations m"
  by (auto simp: HandleFinalizer_def split: if_splits option.splits bool.splits)

lemma store_pod_frame [simp]:
  "pd_owners (store_pod p phase w) = pd_owners w" "pd_ports (store_pod p phase w) = pd_ports w"
  "pd_connections (store_pod p phase w) = pd_connections w" "pd_workloads (store_pod p phase w) = pd_workloads w"
  "pd_allocator (store_pod p phase w) = pd_allocator w"
  by (simp_all add: store_pod_def)

lemma pending_owner_step_pods: "pending_owner_step x p phase w = (w', r) \<Longrightarrow> pods_updated (pod_id p) w w'"
proof -
  let ?q = "p\<lparr>kp_Meta := (kp_Meta p)\<lparr>om_Annotations := AList.delete PendingOwnedWorkloadAnnotation (om_Annotations (kp_Meta p))\<rparr>\<rparr>"
  assume a: "pending_owner_step x p phase w = (w', r)"
  then have "pd_pods w' = pd_pods w \<or> pd_pods w' = AList.update (pod_id ?q) (?q, phase) (pd_pods w)"
    by (auto simp: pending_owner_step_def Let_def dest!: setPendingOwnedWorkload_frame
        split: option.splits prod.splits pending_result.splits if_splits)
  moreover have "pod_id ?q = pod_id p" by (simp add: pod_id_def)
  ultimately show ?thesis using pods_updated_same pods_updated_store by metis
qed

lemma pending_owner_step_frame:
  assumes "pending_owner_step x p phase w = (w', r)"
  shows "pd_owners w' = pd_owners w" "pd_ports w' = pd_ports w" "pd_connections w' = pd_connections w"
    "r = Inr q \<Longrightarrow> pod_id q = pod_id p \<and> om_Labels (kp_Meta q) = om_Labels (kp_Meta p) \<and> kp_Spec q = kp_Spec p
       \<and> (\<forall>a. a \<noteq> PendingOwnedWorkloadAnnotation \<longrightarrow> map_of (om_Annotations (kp_Meta q)) a = map_of (om_Annotations (kp_Meta p)) a)
       \<and> om_Finalizers (kp_Meta q) = om_Finalizers (kp_Meta p) \<and> om_Deleting (kp_Meta q) = om_Deleting (kp_Meta p)
       \<and> om_UID (kp_Meta q) = om_UID (kp_Meta p) \<and> kp_OwnerReferences q = kp_OwnerReferences p"
  using assms
  by (auto simp: pending_owner_step_def Let_def delete_conv pod_id_def dest!: setPendingOwnedWorkload_frame
      split: option.splits prod.splits pending_result.splits if_splits)

lemma handleWorkerPodFinalizer_pods:
  assumes "handleWorkerPodFinalizer x p phase w = (w', r)"
  shows "pods_updated (pod_id p) w w'"
proof -
  obtain os err where d: "(if om_Deleting (kp_Meta p) \<and> Finalizer \<in> set (om_Finalizers (kp_Meta p))
      then counter_Decrease (pv_counter x) p (pd_owners w) else (pd_owners w, None)) = (os, err)" by (rule prod.exhaust)
  obtain m s e where h: "HandleFinalizer (if err = None then Some True else None) (pv_finalizerUpdateOK x) (kp_Meta p) = (m, s, e)"
    using prod_cases3 by blast
  let ?q = "p\<lparr>kp_Meta := m\<rparr>"
  have "pod_id ?q = pod_id p" using HandleFinalizer_frame [OF h] by (simp add: pod_id_def)
  moreover have "pd_pods w' = pd_pods w \<or> pd_pods w' = AList.update (pod_id ?q) (?q, phase) (pd_pods w)"
    using assms by (auto simp: handleWorkerPodFinalizer_def d h Let_def split: if_splits)
  ultimately show ?thesis using pods_updated_same pods_updated_store by metis
qed

lemma connection_step_pods:
  assumes "connection_step x p phase w = (w', r)"
  shows "pods_updated (pod_id p) w w'"
proof -
  let ?q = "p\<lparr>kp_Meta := (kp_Meta p)\<lparr>om_Finalizers := removeAll Finalizer (om_Finalizers (kp_Meta p))\<rparr>\<rparr>"
  have "pod_id ?q = pod_id p" by (simp add: pod_id_def)
  moreover have "pd_pods w' = pd_pods w \<or> pd_pods w' = AList.update (pod_id ?q) (?q, phase) (pd_pods w)"
    using assms by (auto simp: connection_step_def Let_def split: if_splits option.splits)
  ultimately show ?thesis using pods_updated_same pods_updated_store by metis
qed

lemma pod_Reconcile_pods:
  assumes "keyed w"
  shows "pods_updated k w (fst (pod_Reconcile x k w))"
proof (cases "pv_getOK x \<and> map_of (pd_pods w) k \<noteq> None")
  case True
  then obtain p phase where p: "pv_getOK x" "map_of (pd_pods w) k = Some (p, phase)" by auto
  then have k: "k = pod_id p" using assms unfolding keyed_def by metis
  obtain w1 r where r: "pending_owner_step x p phase w = (w1, r)" by (rule prod.exhaust)
  note u1 = pending_owner_step_pods [OF r]
  have "pods_updated (pod_id p) w1 (fst (connection_step x q phase (release_port_step q w1)))"
    "pods_updated (pod_id p) w1 (fst (handleWorkerPodFinalizer x q phase (release_port_step q w1)))" if "r = Inr q" for q
    using pending_owner_step_frame(4) [OF r that] connection_step_pods handleWorkerPodFinalizer_pods
    by (metis prod.collapse pods_updated_same pods_updated_trans pd_pods_release(2))+
  then show ?thesis
    using p u1 pods_updated_trans [OF u1]
    by (auto simp: pod_Reconcile_def r Let_def k pods_updated_same split: sum.splits prod.splits)
next
  case False
  then consider "\<not> pv_getOK x" | "pv_getOK x" "map_of (pd_pods w) k = None" by blast
  then show ?thesis by cases (simp_all add: pod_Reconcile_def pods_updated_same)
qed

section \<open>Finalizers of workers\<close>

definition is_worker :: "k_pod \<Rightarrow> bool" where
  "is_worker p \<longleftrightarrow> get_str (om_Labels (kp_Meta p)) LabelComponent = ComponentWorker"

lemma stopped_worker_round:
  assumes "keyed w" "map_of (pd_pods w) k = Some (p, phase)" "is_worker p" "IsPodStopped phase"
  shows "map_of (pd_pods (fst (pod_Reconcile x k' w))) k = Some (p, phase)"
proof (cases "k' = k")
  case True
  then show ?thesis using assms(2-4) by (simp add: pod_Reconcile_def is_worker_def)
next
  case False
  then show ?thesis using assms(2) pod_Reconcile_pods [OF assms(1), of k' x] unfolding pods_updated_def by metis
qed

text \<open>
  C24: a worker that is being deleted loses its finalizer in one round if it has not stopped yet and the API server
  accepts the updates. A worker that has already failed or succeeded never does: whatever rounds
  follow, for this pod and for others and with any answers, the stored pod keeps its finalizer and stays.
\<close>

theorem stopped_worker_keeps_finalizer:
  assumes "keyed w" "map_of (pd_pods w) k = Some (p, phase)" "is_worker p"
    and "om_Deleting (kp_Meta p)" "Finalizer \<in> set (om_Finalizers (kp_Meta p))"
    and "pv_getOK x" "pv_finalizerUpdateOK x" "cte_updateOK (pv_counter x)"
    and "map_of (om_Annotations (kp_Meta p)) PendingOwnedWorkloadAnnotation = None"
  shows "if IsPodStopped phase then map_of (pd_pods (pod_rounds rs w)) k = Some (p, phase)
    else \<exists>q. map_of (pd_pods (fst (pod_Reconcile x k w))) k = Some (q, phase) \<and> Finalizer \<notin> set (om_Finalizers (kp_Meta q))"
proof (cases "IsPodStopped phase")
  case True
  have "map_of (pd_pods (pod_rounds rs w)) k = Some (p, phase)"
    using assms(1,2)
  proof (induction rs arbitrary: w)
    case (Cons r rs)
    obtain y k' where r: "r = (y, k')" by (rule prod.exhaust)
    show ?case
      using Cons.IH [of "fst (pod_Reconcile y k' w)"] Cons.prems pod_Reconcile_pods [OF Cons.prems(1), of k' y]
        stopped_worker_round [OF Cons.prems assms(3) True, of y k']
      by (simp add: r pod_rounds_def pods_updated_def)
  qed (simp add: pod_rounds_def)
  with True show ?thesis by simp
next
  case False
  have key: "pod_id p = k" using assms(1,2) unfolding keyed_def by metis
  have "snd (counter_Decrease (pv_counter x) p os) = None" for os
    using assms(8) by (auto simp: counter_Decrease_def Let_def split: option.splits get_result.splits)
  then obtain os where dec: "counter_Decrease (pv_counter x) p (pd_owners (release_port_step p w)) = (os, None)"
    by (metis prod.collapse)
  let ?m = "(kp_Meta p)\<lparr>om_Finalizers := removeAll Finalizer (om_Finalizers (kp_Meta p))\<rparr>"
  have "om_Finalizers ?m \<noteq> om_Finalizers (kp_Meta p)" using assms(5)
    by simp (metis DiffE insertI1 set_removeAll)
  then have "?m \<noteq> kp_Meta p" by metis
  then have "fst (pod_Reconcile x k w) = store_pod (p\<lparr>kp_Meta := ?m\<rparr>) phase ((release_port_step p w)\<lparr>pd_owners := os\<rparr>)"
    using False assms dec
    by (simp add: pod_Reconcile_def Let_def pending_owner_step_def is_worker_def handleWorkerPodFinalizer_def HandleFinalizer_def)
  then show ?thesis using key False by (auto simp: update_conv pod_id_def)
qed

definition ex_pod_env :: pod_env where
  "ex_pod_env = \<lparr>pv_ext = ex_ext, pv_getOK = True, pv_counter = \<lparr>cte_getOK = True, cte_updateOK = True, cte_podJSON = (\<lambda>_. '''')\<rparr>,
     pv_workloadGetOK = True, pv_setController = (\<lambda>p refs. Some refs), pv_workloadUpdateOK = True, pv_annotationUpdateOK = True,
     pv_finalizerUpdateOK = True, pv_connectionGetOK = True, pv_connectionCreateOK = True\<rparr>"

definition ex_pod_world :: "k_pod \<Rightarrow> string \<Rightarrow> pod_world" where
  "ex_pod_world p phase = \<lparr>pd_pods = [(pod_id p, p, phase)], pd_workloads = [], pd_connections = [], pd_owners = [],
     pd_allocator = ex_s1, pd_expander = \<lparr>inFlightNodes = [], inFlightNodeClaims = [], preSchedulePods = [], preScheduleTimers = []\<rparr>,
     pd_ports = ex_ports\<rparr>"

definition ex_deleted_worker :: k_pod where
  "ex_deleted_worker = (ex_kpod [] [])\<lparr>kp_Meta := (ex_pod_meta [(LabelComponent, ComponentWorker)] [])
     \<lparr>om_Deleting := True, om_Finalizers := [Finalizer]\<rparr>\<rparr>"

lemma ex_pod_world_keyed: "keyed (ex_pod_world p phase)"
  by (auto simp: keyed_def ex_pod_world_def)

theorem stopped_worker_keeps_finalizer_witness:
  "map_of (pd_pods (pod_rounds (replicate 3 (ex_pod_env, pod_id ex_deleted_worker)) (ex_pod_world ex_deleted_worker ''Succeeded'')))
     (pod_id ex_deleted_worker) = Some (ex_deleted_worker, ''Succeeded'')"
  using stopped_worker_keeps_finalizer [OF ex_pod_world_keyed, of ex_deleted_worker "''Succeeded''" "pod_id ex_deleted_worker"
      ex_deleted_worker "''Succeeded''" ex_pod_env "replicate 3 (ex_pod_env, pod_id ex_deleted_worker)"]
  by (simp add: ex_pod_world_def ex_deleted_worker_def is_worker_def get_str_def ex_pod_env_def IsPodStopped_def ex_pod_meta_def)

section \<open>GPUs of an ended pod\<close>

lemma DeallocByPodIdentifier_bound:
  assumes "al_wf s" "Bind x names req s = (s1, Inr (res, req'))" "nn_Namespace n = om_Namespace (ar_PodMeta req)"
    and "nn_Name n = om_Name (ar_PodMeta req)"
  shows "DeallocByPodIdentifier x n s1 = fst (Dealloc x (ar_Workload req) names (ar_PodMeta req) s1)"
  by (rule Bind_success [OF assms(2,1)])
    (use assms(3,4) in \<open>simp add: DeallocByPodIdentifier_def Let_def get_str_def update_conv'\<close>)



section \<open>The connection of a client pod\<close>

definition no_connection_env :: "k_container \<Rightarrow> bool" where
  "no_connection_env c \<longleftrightarrow> find_env ConnectionNameEnv (kc_Env c) = None \<and> find_env ConnectionNamespaceEnv (kc_Env c) = None"

text \<open>The connection the webhook announces to container \<open>i\<close> of a pod.\<close>

definition announced :: "webhook_env \<Rightarrow> k_pod \<Rightarrow> nat \<Rightarrow> string" where
  "announced x p i = (if kp_GenerateName p = '''' \<and> om_Name (kp_Meta p) \<noteq> '''' then om_Name (kp_Meta p) @ ''-tf-vgpu-''
     else kp_GenerateName p @ ''tf-vgpu-'') @ we_connectionID x i"

definition connection_env :: "webhook_env \<Rightarrow> k_pod \<Rightarrow> nat \<Rightarrow> k_container \<Rightarrow> bool" where
  "connection_env x p i c \<longleftrightarrow> find_env ConnectionNameEnv (kc_Env c) = Some (announced x p i)
     \<and> find_env ConnectionNamespaceEnv (kc_Env c) = Some (om_Namespace (kp_Meta p))"

lemma find_append: "find P (xs @ ys) = (case find P xs of None \<Rightarrow> find P ys | Some x \<Rightarrow> Some x)"
  by (induction xs) auto

lemma addConnection_env:
  assumes "no_connection_env c"
  shows "connection_env x p i (addConnectionForRemoteFixedReplicaVirtualGPU (we_connectionID x i) client p c)"
  using assms
  by (simp add: connection_env_def no_connection_env_def find_env_def addConnectionForRemoteFixedReplicaVirtualGPU_def Let_def
      add_env_def find_append plain_env_def env_value_def announced_def ConnectionNameEnv_def ConnectionNamespaceEnv_def)

definition merge_keeps_connection_env :: "webhook_env \<Rightarrow> bool" where
  "merge_keeps_connection_env x \<longleftrightarrow> (\<forall>patch c c'. we_mergeContainer x patch c = Some c' \<and> no_connection_env c \<longrightarrow> no_connection_env c')"

lemma patch_container_env:
  assumes "patch_container x client False sidecar p i = Some q" "merge_keeps_connection_env x"
    and "i < length (ks_Containers (kp_Spec p))" "no_connection_env (ks_Containers (kp_Spec p) ! i)"
  shows "kp_Meta q = kp_Meta p" "kp_GenerateName q = kp_GenerateName p"
    "length (ks_Containers (kp_Spec q)) = length (ks_Containers (kp_Spec p))"
    "connection_env x p i (ks_Containers (kp_Spec q) ! i)"
    "j \<noteq> i \<Longrightarrow> ks_Containers (kp_Spec q) ! j = ks_Containers (kp_Spec p) ! j"
proof -
  obtain c0 where c0: "we_mergeContainer x (serializeContainerInjectionPatchJson client False) (ks_Containers (kp_Spec p) ! i) = Some c0"
    and q: "q = p\<lparr>kp_Spec := update_container i (\<lambda>_. addConnectionForRemoteFixedReplicaVirtualGPU (we_connectionID x i) client p
               (add_index_resource (removeNativeGPULimits c0))) (kp_Spec p)\<rparr>"
    using assms(1) by (auto simp: patch_container_def Let_def split: option.splits)
  have "no_connection_env c0" using assms(2,4) c0 unfolding merge_keeps_connection_env_def by blast
  then have "no_connection_env (add_index_resource (removeNativeGPULimits c0))"
    by (simp add: no_connection_env_def add_index_resource_def removeNativeGPULimits_def)
  note e = addConnection_env [OF this, of x p i client]
  show "kp_Meta q = kp_Meta p" "kp_GenerateName q = kp_GenerateName p"
    "length (ks_Containers (kp_Spec q)) = length (ks_Containers (kp_Spec p))"
    "connection_env x p i (ks_Containers (kp_Spec q) ! i)"
    "j \<noteq> i \<Longrightarrow> ks_Containers (kp_Spec q) ! j = ks_Containers (kp_Spec p) ! j"
    using assms(3) e by (simp_all add: q update_container_def)
qed

lemma patch_containers_env:
  assumes "patch_containers x client False sidecar idx p = Some q" "merge_keeps_connection_env x" "distinct idx"
    and "\<forall>i \<in> set idx. i < length (ks_Containers (kp_Spec p)) \<and> no_connection_env (ks_Containers (kp_Spec p) ! i)"
  shows "kp_Meta q = kp_Meta p \<and> kp_GenerateName q = kp_GenerateName p
    \<and> length (ks_Containers (kp_Spec q)) = length (ks_Containers (kp_Spec p))
    \<and> (\<forall>i \<in> set idx. connection_env x p i (ks_Containers (kp_Spec q) ! i))
    \<and> (\<forall>j. j \<notin> set idx \<longrightarrow> ks_Containers (kp_Spec q) ! j = ks_Containers (kp_Spec p) ! j)"
  using assms(1,3,4)
proof (induction idx arbitrary: p)
  case (Cons i idx)
  then obtain p1 where p1: "patch_container x client False sidecar p i = Some p1"
    and q: "patch_containers x client False sidecar idx p1 = Some q" by (auto split: option.splits)
  have i: "i < length (ks_Containers (kp_Spec p))" "no_connection_env (ks_Containers (kp_Spec p) ! i)" using Cons.prems(3) by auto
  note one = patch_container_env [OF p1 assms(2) i]
  have "connection_env x p1 j = connection_env x p j" for j
    by (rule ext) (simp add: connection_env_def announced_def one(1,2))
  moreover have "distinct idx" "\<forall>j \<in> set idx. j < length (ks_Containers (kp_Spec p1)) \<and> no_connection_env (ks_Containers (kp_Spec p1) ! j)"
    using Cons.prems(2,3) one(3) one(5) [symmetric] by (auto, metis)
  ultimately show ?case using Cons.IH [OF q] one Cons.prems(2) by auto
qed simp

lemma findConnectionNameNamespace_first:
  assumes "i < length cs" "find_env ConnectionNameEnv (kc_Env (cs ! i)) = Some n"
    and "find_env ConnectionNamespaceEnv (kc_Env (cs ! i)) = Some ns" "\<forall>j < i. no_connection_env (cs ! j)"
  shows "findConnectionNameNamespace cs = (n, ns)"
  using assms
proof (induction cs arbitrary: i)
  case (Cons c cs)
  show ?case
  proof (cases i)
    case 0
    then show ?thesis using Cons.prems by simp
  next
    case (Suc m)
    then have "no_connection_env c" using Cons.prems(4) by (metis nth_Cons_0 zero_less_Suc)
    moreover have "\<forall>j < m. no_connection_env (cs ! j)" using Cons.prems(4) Suc by auto
    ultimately show ?thesis using Cons.IH [of m] Cons.prems(1-3) Suc by (simp add: no_connection_env_def)
  qed
qed simp


definition ex_two_containers :: k_pod where
  "ex_two_containers = (ex_kpod [] [])\<lparr>kp_Spec := ex_spec0\<lparr>ks_Containers := [empty_container ''a'', empty_container ''b'']\<rparr>\<rparr>"

definition ex_injected :: k_pod where
  "ex_injected = the (patch_containers ex_webhook (the (cfg_Client ex_components)) False False [0, 1] ex_two_containers)"

definition ex_stored :: k_pod where
  "ex_stored = ex_injected\<lparr>kp_Meta := ex_pod_meta [(LabelComponent, ComponentClient)] [(SelectedWorkloadAnnotation, ''wl'')]\<rparr>"


section \<open>What is never given back\<close>

text \<open>
  The rounds release a cluster port only for a pod with the annotation \<^verbatim>\<open>tensor-fusion.ai/host-port\<close>, and
  undo the count of a gradual roll-out only for a worker; the webhook assigns ports by the label of that name and
  counts client pods as well.
\<close>

definition nothing_to_release :: "pod_world \<Rightarrow> bool" where
  "nothing_to_release w \<longleftrightarrow> (\<forall>k p phase. map_of (pd_pods w) k = Some (p, phase) \<longrightarrow>
     \<not> is_worker p \<and> get_str (om_Annotations (kp_Meta p)) GenHostPortLabel \<noteq> ''auto'')"

lemma release_frame [simp]:
  "pd_ports (release_pod x k w) = pd_ports w" "pd_owners (release_pod x k w) = pd_owners w"
  "pd_owners (release_port_step p w) = pd_owners w" "pd_connections (release_port_step p w) = pd_connections w"
  by (simp_all add: release_pod_def release_port_step_def Let_def)

lemma connection_step_frame [simp]:
  "pd_ports (fst (connection_step x p phase w)) = pd_ports w" "pd_owners (fst (connection_step x p phase w)) = pd_owners w"
  by (simp_all add: connection_step_def Let_def split: option.split)

lemma client_round_releases_nothing:
  assumes "nothing_to_release w"
  shows "pd_ports (fst (pod_Reconcile x k w)) = pd_ports w \<and> pd_owners (fst (pod_Reconcile x k w)) = pd_owners w"
proof (cases "pv_getOK x \<and> map_of (pd_pods w) k \<noteq> None")
  case True
  then obtain p phase where p: "pv_getOK x" "map_of (pd_pods w) k = Some (p, phase)" by auto
  then have n: "\<not> is_worker p" "get_str (om_Annotations (kp_Meta p)) GenHostPortLabel \<noteq> ''auto''"
    using assms unfolding nothing_to_release_def by metis+
  obtain w1 r where r: "pending_owner_step x p phase w = (w1, r)" by (rule prod.exhaust)
  note f = pending_owner_step_frame [OF r]
  have "get_str (om_Annotations (kp_Meta q)) GenHostPortLabel \<noteq> ''auto''" if "r = Inr q" for q
    using f(4) [OF that] n(2) by (simp add: get_str_def GenHostPortLabel_def PendingOwnedWorkloadAnnotation_def)
  then have "release_port_step q w1 = w1" if "r = Inr q" for q using that by (simp add: release_port_step_def Let_def)
  then show ?thesis
    using p n(1) f(1,2)
    by (auto simp: pod_Reconcile_def r Let_def is_worker_def split: sum.splits prod.splits)
next
  case False
  then consider "\<not> pv_getOK x" | "pv_getOK x" "map_of (pd_pods w) k = None" by blast
  then show ?thesis by cases (simp_all add: pod_Reconcile_def)
qed

end
