(* ===== verification/HttpServer.thy ===== *)
theory HttpServer
  imports PodWebhook IndexAllocator PoolCapacity
begin

text \<open>
  The HTTP server of the operator: the routes of \<^verbatim>\<open>server/server.go\<close> and the handlers of
  \<^verbatim>\<open>server/router\<close>. What a request may change is the record \<open>http_world\<close>; token reviews, the leader
  election and what gin answers to an unknown route are \<open>http_env\<close>. The simulated scheduling run is a call of the
  Kubernetes scheduler, and so a parameter. The cache of tokens is a map; entries that expire are not modelled.
\<close>

section \<open>Requests and state\<close>

datatype http_method = GET | POST

record http_request =
  hr_Method :: http_method
  hr_Path :: string
  hr_Query :: "(string, string) gomap"
  hr_Authorization :: string

record token_status =
  ts_Authenticated :: bool
  ts_Username :: string
  ts_PodUIDs :: "string list"  \<comment> \<open>the extra field \<^verbatim>\<open>authentication.kubernetes.io/pod-uid\<close>\<close>

record conn_object =
  co_OwnerUIDs :: "string list"
  co_Phase :: string
  co_ConnectionURL :: string

text \<open>\<^verbatim>\<open>leaderChan\<close>: nil, closed because this instance leads, or open until the caller gives up.\<close>

datatype leader_chan = NilChan | Elected | NeverElected

record http_env =
  he_noRoute :: "int \<times> string"
  he_simulate :: "int \<times> string"  \<comment> \<open>the answer of the simulated scheduling run\<close>
  he_leaderChan :: leader_chan
  he_review :: "string \<Rightarrow> token_status option"  \<comment> \<open>\<open>None\<close>: the review cannot be created\<close>
  he_self :: string
  he_disableAuth :: bool
  he_getConnection :: "string \<times> string \<Rightarrow> conn_object option"  \<comment> \<open>by namespace and name\<close>
  he_portError :: "port_error \<Rightarrow> string"
  he_indexError :: "index_error \<Rightarrow> string"

record http_world =
  hw_ports :: port_allocator
  hw_indexes :: index_allocator
  hw_tokenCache :: "(string, bool) gomap"
  hw_toggle :: bool  \<comment> \<open>\<^verbatim>\<open>controller.ProvisioningToggle\<close>\<close>

section \<open>Tokens\<close>

definition BearerPrefix :: string where "BearerPrefix = ''Bearer ''"

definition strip_prefix :: "string \<Rightarrow> string \<Rightarrow> string" where
  "strip_prefix p s = (if take (length p) s = p then drop (length p) s else s)"

definition ExtractBearerToken :: "string \<Rightarrow> string option" where
  "ExtractBearerToken header = (if header = '''' then None else Some (strip_prefix BearerPrefix header))"

text \<open>The token check of the two assignment handlers: an early answer, or \<open>None\<close> if the caller is the operator.\<close>

definition operator_auth :: "http_env \<Rightarrow> http_request \<Rightarrow> (int \<times> string) option" where
  "operator_auth e r =
     (case ExtractBearerToken (hr_Authorization r) of
        None \<Rightarrow> Some (401, ''missing authorization header'')
      | Some token \<Rightarrow>
          (case he_review e token of
             None \<Rightarrow> Some (500, ''auth endpoint error'')
           | Some t \<Rightarrow> if \<not> ts_Authenticated t \<or> ts_Username t \<noteq> he_self e
                       then Some (401, ''token authentication failed'') else None))"

section \<open>Assignment handlers\<close>

definition router_AssignHostPort :: "http_env \<Rightarrow> http_request \<Rightarrow> http_world \<Rightarrow> http_world \<times> (int \<times> string)" where
  "router_AssignHostPort e r w =
     (case operator_auth e r of
        Some a \<Rightarrow> (w, a)
      | None \<Rightarrow>
          (case AssignClusterLevelHostPort (get_str (hr_Query r) ''podName'') (hw_ports w) of
             (s, Inl err) \<Rightarrow> (w\<lparr>hw_ports := s\<rparr>, (500, he_portError e err))
           | (s, Inr port) \<Rightarrow> (w\<lparr>hw_ports := s\<rparr>, (200, show_int port))))"

definition router_AssignIndex :: "http_env \<Rightarrow> http_request \<Rightarrow> http_world \<Rightarrow> http_world \<times> (int \<times> string)" where
  "router_AssignIndex e r w =
     (case operator_auth e r of
        Some a \<Rightarrow> (w, a)
      | None \<Rightarrow>
          (case AssignIndex (get_str (hr_Query r) ''podName'') (hw_indexes w) of
             (s, Inl err) \<Rightarrow> (w\<lparr>hw_indexes := s\<rparr>, (500, he_indexError e err))
           | (s, Inr index) \<Rightarrow> (w\<lparr>hw_indexes := s\<rparr>, (200, show_int index))))"

text \<open>The handlers wait for the leader election; \<open>None\<close> is a request that is given up without an answer.\<close>

definition when_leader ::
  "http_env \<Rightarrow> (http_world \<Rightarrow> http_world \<times> (int \<times> string)) \<Rightarrow> http_world \<Rightarrow> http_world \<times> (int \<times> string) option" where
  "when_leader e h w =
     (case he_leaderChan e of
        NilChan \<Rightarrow> (w, Some (503, ''current instance is not the leader''))
      | Elected \<Rightarrow> (case h w of (w', a) \<Rightarrow> (w', Some a))
      | NeverElected \<Rightarrow> (w, None))"

section \<open>Connections\<close>

definition authenticatePodConnection :: "http_env \<Rightarrow> string \<Rightarrow> conn_object \<Rightarrow> (string, bool) gomap \<Rightarrow> (string, bool) gomap \<times> bool" where
  "authenticatePodConnection e header c cache =
     (case co_OwnerUIDs c of
        [] \<Rightarrow> (cache, False)
      | owner # _ \<Rightarrow>
          if header = '''' \<or> take (length BearerPrefix) header \<noteq> BearerPrefix then (cache, False)
          else let token = drop (length BearerPrefix) header in
               (case map_of cache token of
                  Some v \<Rightarrow> (cache, v)
                | None \<Rightarrow>
                    (case he_review e token of
                       None \<Rightarrow> (cache, False)
                     | Some t \<Rightarrow>
                         let ok = (ts_Authenticated t \<and> (case ts_PodUIDs t of [] \<Rightarrow> False | u # _ \<Rightarrow> owner = u))
                         in (AList.update token ok cache, ok))))"

text \<open>
  \<^verbatim>\<open>ConnectionRouter.Get\<close>: the answer at once, or the connections the subscription delivers until the first
  one with a running worker; \<open>None\<close> means that the request still waits.
\<close>

definition connection_Get ::
  "http_env \<Rightarrow> conn_object list \<Rightarrow> http_request \<Rightarrow> http_world \<Rightarrow> http_world \<times> (int \<times> string) option" where
  "connection_Get e delivered r w =
     (case he_getConnection e (get_str (hr_Query r) ''namespace'', get_str (hr_Query r) ''name'') of
        None \<Rightarrow> (w, Some (404, ''connection not found''))
      | Some c \<Rightarrow>
          let (cache, ok) = (if he_disableAuth e then (hw_tokenCache w, True)
                             else authenticatePodConnection e (hr_Authorization r) c (hw_tokenCache w));
              w1 = w\<lparr>hw_tokenCache := cache\<rparr>
          in if \<not> ok then (w1, Some (401, ''unauthorized''))
             else if co_Phase c = ''Running'' then (w1, Some (200, co_ConnectionURL c))
             else (w1, map_option (\<lambda>d. (200, co_ConnectionURL d)) (find (\<lambda>d. co_Phase d = ''Running'') delivered)))"

text \<open>
  The watcher: per connection its subscribers, each with a channel that holds at most one connection. An event goes
  to every subscriber whose channel is empty and is dropped for the others.
\<close>

type_synonym conn_subs = "(string \<times> string, (nat, conn_object option) gomap) gomap"

definition subscribe :: "string \<times> string \<Rightarrow> nat \<Rightarrow> conn_subs \<Rightarrow> conn_subs" where
  "subscribe k ch subs = AList.update k (AList.update ch None (case map_of subs k of None \<Rightarrow> [] | Some m \<Rightarrow> m)) subs"

definition cancel_subscription :: "string \<times> string \<Rightarrow> nat \<Rightarrow> conn_subs \<Rightarrow> conn_subs" where
  "cancel_subscription k ch subs =
     (case map_of subs k of None \<Rightarrow> subs
      | Some m \<Rightarrow> let m' = AList.delete ch m in if m' = [] then AList.delete k subs else AList.update k m' subs)"

definition publish :: "string \<times> string \<Rightarrow> conn_object \<Rightarrow> conn_subs \<Rightarrow> conn_subs" where
  "publish k c subs =
     (case map_of subs k of None \<Rightarrow> subs
      | Some m \<Rightarrow> AList.update k (map (\<lambda>(ch, b). (ch, case b of None \<Rightarrow> Some c | Some old \<Rightarrow> Some old)) m) subs)"

definition buffered :: "string \<times> string \<Rightarrow> nat \<Rightarrow> conn_subs \<Rightarrow> conn_object option" where
  "buffered k ch subs = Option.bind (Option.bind (map_of subs k) (\<lambda>m. map_of m ch)) (\<lambda>b. b)"

definition receive :: "string \<times> string \<Rightarrow> nat \<Rightarrow> conn_subs \<Rightarrow> conn_subs" where
  "receive k ch subs = (case map_of subs k of None \<Rightarrow> subs | Some m \<Rightarrow> AList.update k (AList.update ch None m) subs)"

section \<open>Information\<close>

record gpu_allocation_info =
  gi_Request :: resource
  gi_Limit :: resource
  gi_PodUID :: string
  gi_PodName :: string
  gi_Namespace :: string

definition allocation_info :: "alloc_request \<Rightarrow> gpu_allocation_info" where
  "allocation_info r = \<lparr>gi_Request = ar_Request r, gi_Limit = ar_Limit r, gi_PodUID = om_UID (ar_PodMeta r),
     gi_PodName = om_Name (ar_PodMeta r), gi_Namespace = om_Namespace (ar_PodMeta r)\<rparr>"

definition add_worker_info :: "(string, gpu_allocation_info list) gomap \<Rightarrow> alloc_request \<Rightarrow> (string, gpu_allocation_info list) gomap" where
  "add_worker_info m r =
     foldl (\<lambda>m n. AList.update n ((case map_of m n of None \<Rightarrow> [] | Some l \<Rightarrow> l) @ [allocation_info r]) m) m (ar_GPUNames r)"

text \<open>\<^verbatim>\<open>AllocatorInfoRouter.Get\<close>: the stores and, per GPU, the workers on it.\<close>

definition router_allocation ::
  "allocator \<Rightarrow> gpu list \<times> (string, name_namespace list) gomap \<times> (string, alloc_request) gomap
     \<times> (string, gpu_allocation_info list) gomap" where
  "router_allocation s =
     (case GetAllocationInfo s of (gpus, workers, allocs) \<Rightarrow>
        (gpus, workers, allocs, foldl add_worker_info [] (map snd allocs)))"

section \<open>Routes\<close>

text \<open>
  \<^verbatim>\<open>NewHTTPServer\<close>. The routes that answer with JSON of a state the request does not change
  (\<^verbatim>\<open>/allocation\<close>, \<^verbatim>\<open>/config\<close>, \<^verbatim>\<open>/node-scaler\<close>) give an empty body here.
\<close>

definition http_serve ::
  "http_env \<Rightarrow> conn_object list \<Rightarrow> http_request \<Rightarrow> http_world \<Rightarrow> http_world \<times> (int \<times> string) option" where
  "http_serve e delivered r w =
     (case (hr_Method r, hr_Path r) of
        (m, p) \<Rightarrow>
          if (m, p) = (GET, ''/api/connection'') then connection_Get e delivered r w
          else if (m, p) = (POST, ''/api/assign-host-port'') then when_leader e (router_AssignHostPort e r) w
          else if (m, p) = (GET, ''/api/assign-index'') then when_leader e (router_AssignIndex e r) w
          else if (m, p) = (GET, ''/api/provision'')
          then (w\<lparr>hw_toggle := (get_str (hr_Query r) ''enable'' = ''true'')\<rparr>, Some (200, ''''))
          else if (m, p) \<in> set [(GET, ''/api/allocation''), (GET, ''/api/config''), (GET, ''/api/node-scaler'')]
          then (w, Some (200, ''''))
          else if (m, p) = (POST, ''/api/simulate-schedule'') then (w, Some (he_simulate e))
          else (w, Some (he_noRoute e)))"

end
