(* ===== verification/HttpProps.thy ===== *)
theory HttpProps
  imports HttpServer WebhookProps AllocatorProps
begin

text \<open>
  Properties of the HTTP server: the token check of a connection, the port a webhook asks the leader for, the
  events of the connection watcher and the allocation report.
\<close>

section \<open>Host ports from the leader\<close>

text \<open>
  The answers the webhook gets from the leader come from the routes of the server, for the request it sends; an unknown
  route is not answered with 200.
\<close>

definition leader_serves :: "webhook_env \<Rightarrow> bool" where
  "leader_serves x \<longleftrightarrow> (\<forall>podName. let url = ''http://'' @ we_leaderIP x @ '':'' @ we_operatorPort x
       @ ''/api/assign-host-port?podName='' @ podName in
     we_http x url = None \<or>
     (\<exists>e delivered auth w. fst (he_noRoute e) \<noteq> 200 \<and>
        we_http x url = snd (http_serve e delivered \<lparr>hr_Method = GET, hr_Path = ''/api/assign-host-port'',
          hr_Query = [(''podName'', podName)], hr_Authorization = auth\<rparr> w)))"

lemma get_assign_host_port:
  "snd (http_serve e d \<lparr>hr_Method = GET, hr_Path = ''/api/assign-host-port'', hr_Query = q, hr_Authorization = a\<rparr> w)
     = Some (he_noRoute e)"
  by (simp add: http_serve_def)

lemma assignClusterHostPortFromLeader_fails:
  assumes "leader_serves x"
  shows "assignClusterHostPortFromLeader x p = None"
  using assms [unfolded leader_serves_def Let_def get_assign_host_port, rule_format, of "om_Name (kp_Meta p)"]
  by (auto simp: assignClusterHostPortFromLeader_def split: prod.splits)

lemma patchTFClient_host_port:
  assumes "leader_serves x" "\<not> IsLeader s" "get_str (om_Labels (kp_Meta p)) GenHostPortLabel = ''auto''"
  shows "snd (patchTFClient x pool client loc current idx sidecar p s) \<noteq> Inr r"
proof -
  let ?L = "{GenHostPortLabel}"
  let ?p1 = "assignPodLabelsAndAnnotations loc pool (put_label LabelKeyPodTemplateHash (client_hash x client) p)"
  have a1: "agree {} ?L p ?p1"
    by (intro agree_intros) (simp_all add: GenHostPortLabel_def LabelKeyPodTemplateHash_def Domain_def GpuPoolKey_def LabelComponent_def)
  have "get_str (om_Labels (kp_Meta q)) GenHostPortLabel = ''auto''" if "patch_containers x client loc sidecar idx ?p1 = Some q" for q
    using agree_trans [OF a1 patch_containers_agree [OF that]] assms(3) by (simp add: agree_def get_str_def)
  moreover have "\<exists>err. generateHostPort x name q s = (s, Inl err)" for name q
    using assms(1,2) by (auto simp: generateHostPort_def Let_def assignClusterHostPortFromLeader_fails split: option.split)
  ultimately show ?thesis
    by (auto simp: patchTFClient_def Let_def split: option.splits prod.splits sum.splits) (metis Inl_Inr_False prod.inject)+
qed

text \<open>
  C22: a webhook that does not run on the leader asks the leader for a host port with a GET request, but the
  server routes only POST requests to the assignment. So no pod with the label \<^verbatim>\<open>tensor-fusion.ai/host-port: auto\<close>
  is ever injected there: whatever the pod and the state of the cluster, the webhook does not answer with a patch.
\<close>

theorem non_leader_never_assigns_port:
  assumes "leader_serves x" "\<not> IsLeader (ww_ports w)" "IsTensorFusionPod (pod_of p)" "om_Namespace (kp_Meta p) \<noteq> ''''"
    and "get_str (om_Labels (kp_Meta p)) GenHostPortLabel = ''auto''"
  shows "snd (webhook_Handle x ns (Some p) w) \<noteq> Patched ps"
proof
  assume "snd (webhook_Handle x ns (Some p) w) = Patched ps"
  then obtain w' where H: "webhook_Handle x ns (Some p) w = (w', Patched ps)" by (metis prod.collapse)
  obtain info p1 key pool where P: "ParseTensorFusionInfo (we_parse x) p = Inr (info, p1)"
    and h: "handle_injection x pool (with_qos pool info) key p p1 w = (w', Patched ps)"
    using webhook_Handle_patched [OF H assms(4,3)] by metis
  have l1: "om_Labels (kp_Meta p1) = om_Labels (kp_Meta p)" by (rule ParseTensorFusionInfo_ok [OF P]) simp
  obtain ws p2 idx where a2: "agree {} {GenHostPortLabel} p1 p2"
    and i: "inject_and_count x pool (with_qos pool info) key p idx p2 (w\<lparr>ww_workloads := ws\<rparr>) = (w', Patched ps)"
    using handle_injection_patched [OF h, of "{}"] by (metis empty_iff)
  let ?info = "with_qos pool info"
  let ?p3 = "AddOrOverrideTFClientMissingAnnotationsBeforePatch (ce_print (we_compose x)) ?info p2"
  from i obtain p4 where p4: "AddTFDefaultClientConfBeforePatch (we_compose x) pool ?info idx ?p3 = Some p4"
    by (auto simp: inject_and_count_def Let_def split: option.splits)
  have "agree {} {GenHostPortLabel} p2 ?p3"
    by (simp add: agree_def AddOrOverrideTFClientMissingAnnotationsBeforePatch_def Let_def update_conv map_of_put_if compose_keys
        GenHostPortLabel_def)
  moreover have "agree {} {GenHostPortLabel} ?p3 (set_priority (tfi_Profile ?info) p4)"
    using AddTFDefaultClientConf_agree [OF p4] by (intro agree_intros)
  ultimately have "agree {} {GenHostPortLabel} p1 (set_priority (tfi_Profile ?info) p4)" using a2 agree_trans by blast
  then have "get_str (om_Labels (kp_Meta (set_priority (tfi_Profile ?info) p4))) GenHostPortLabel = ''auto''"
    using l1 assms(5) by (simp add: agree_def get_str_def)
  from patchTFClient_host_port [OF assms(1) _ this, of "ww_ports w"] assms(2)
  show False using i p4
    by (auto simp: inject_and_count_def Let_def split: prod.splits sum.splits) (metis snd_conv)
qed

definition ex_follower :: webhook_env where
  "ex_follower = ex_webhook\<lparr>we_leaderIP := ''10.0.0.1'', we_http := (\<lambda>_. Some (404, ''404 page not found''))\<rparr>"

definition ex_http_env :: http_env where
  "ex_http_env = \<lparr>he_noRoute = (404, ''404 page not found''), he_simulate = (200, ''''), he_leaderChan = Elected,
     he_review = (\<lambda>t. if t = ''t1'' then Some \<lparr>ts_Authenticated = True, ts_Username = ''sa'', ts_PodUIDs = [''u1'']\<rparr> else None),
     he_self = ''operator'', he_disableAuth = False,
     he_getConnection = (\<lambda>k. if snd k = ''a'' then Some \<lparr>co_OwnerUIDs = [''u1''], co_Phase = ''Running'', co_ConnectionURL = ''url-a''\<rparr>
        else Some \<lparr>co_OwnerUIDs = [''u2''], co_Phase = ''Running'', co_ConnectionURL = ''url-b''\<rparr>),
     he_portError = (\<lambda>_. ''''), he_indexError = (\<lambda>_. '''')\<rparr>"

definition ex_http_world :: http_world where
  "ex_http_world = \<lparr>hw_ports = ww_ports ex_world, hw_indexes = \<lparr>ia_IsLeader = True, currentIndex = 0\<rparr>, hw_tokenCache = [], hw_toggle = True\<rparr>"

definition ex_port_client :: k_pod where
  "ex_port_client = put_label GenHostPortLabel ''auto'' (ex_client ex_plain)"

lemma ex_follower_served: "leader_serves ex_follower"
  unfolding leader_serves_def Let_def get_assign_host_port
  by (auto simp: ex_follower_def intro!: exI [of _ ex_http_env]) (simp_all add: ex_http_env_def)

theorem non_leader_never_assigns_port_witness:
  "\<nexists>ps. snd (webhook_Handle ex_follower ''default'' (Some ex_port_client)
      (ex_world\<lparr>ww_ports := (ww_ports ex_world)\<lparr>IsLeader := False\<rparr>\<rparr>)) = Patched ps"
proof -
  have "IsTensorFusionPod (pod_of ex_port_client)" "om_Namespace (kp_Meta ex_port_client) \<noteq> ''''"
    "get_str (om_Labels (kp_Meta ex_port_client)) GenHostPortLabel = ''auto''"
    by (simp_all add: ex_port_client_def put_label_def ex_client_def ex_kpod_def ex_pod_meta_def IsTensorFusionPod_def pod_of_def
        get_str_def update_conv TensorFusionEnabledLabelKey_def GenHostPortLabel_def TrueStringValue_def)
  then show ?thesis using non_leader_never_assigns_port [OF ex_follower_served] by auto
qed

section \<open>The token check of a connection\<close>

definition connection_request :: "string \<Rightarrow> string \<Rightarrow> string \<Rightarrow> http_request" where
  "connection_request namespace name token = \<lparr>hr_Method = GET, hr_Path = ''/api/connection'',
     hr_Query = [(''name'', name), (''namespace'', namespace)], hr_Authorization = BearerPrefix @ token\<rparr>"

lemma serve_connection:
  "http_serve e d (connection_request ns n t) w =
     (case he_getConnection e (ns, n) of None \<Rightarrow> (w, Some (404, ''connection not found''))
      | Some c \<Rightarrow>
          let (cache, ok) = (if he_disableAuth e then (hw_tokenCache w, True)
                             else authenticatePodConnection e (BearerPrefix @ t) c (hw_tokenCache w));
              w1 = w\<lparr>hw_tokenCache := cache\<rparr>
          in if \<not> ok then (w1, Some (401, ''unauthorized''))
             else if co_Phase c = ''Running'' then (w1, Some (200, co_ConnectionURL c))
             else (w1, map_option (\<lambda>d. (200, co_ConnectionURL d)) (find (\<lambda>d. co_Phase d = ''Running'') d)))"
  by (simp add: http_serve_def connection_request_def connection_Get_def get_str_def split: option.split)

definition owner_token :: "http_env \<Rightarrow> string \<Rightarrow> conn_object \<Rightarrow> bool" where
  "owner_token e t c \<longleftrightarrow> (\<exists>s u us vs. he_review e t = Some s \<and> ts_Authenticated s \<and> ts_PodUIDs s = u # us \<and> co_OwnerUIDs c = u # vs)"

lemma authenticate_fresh:
  assumes "map_of cache t = None"
  shows "snd (authenticatePodConnection e (BearerPrefix @ t) c cache) \<longleftrightarrow> owner_token e t c"
    and "owner_token e t c \<Longrightarrow> map_of (fst (authenticatePodConnection e (BearerPrefix @ t) c cache)) t = Some True"
  using assms
  by (auto simp: authenticatePodConnection_def owner_token_def BearerPrefix_def Let_def update_conv
      split: list.splits option.splits)

lemma authenticate_cached:
  assumes "map_of cache t = Some True" "co_OwnerUIDs c \<noteq> []"
  shows "authenticatePodConnection e (BearerPrefix @ t) c cache = (cache, True)"
  using assms by (cases "co_OwnerUIDs c") (simp_all add: authenticatePodConnection_def BearerPrefix_def)

text \<open>
  C20: a token the server has not seen yet gives the address of a running connection exactly to the pod that owns it.
  But the verdict is cached for the token alone: once a token has been accepted for one connection, it is accepted
  for every other connection that has an owner, whoever the owner is.
\<close>

theorem connection_token_check:
  assumes "\<not> he_disableAuth e" "he_getConnection e (ns, n) = Some c" "co_Phase c = ''Running''" "map_of (hw_tokenCache w) t = None"
    and "he_getConnection e (ns', n') = Some c'" "co_Phase c' = ''Running''" "co_OwnerUIDs c' \<noteq> []"
    and "http_serve e d (connection_request ns n t) w = (w1, answer)"
  shows "(answer = Some (200, co_ConnectionURL c) \<longleftrightarrow> owner_token e t c)
    \<and> (owner_token e t c \<longrightarrow> snd (http_serve e d (connection_request ns' n' t) w1) = Some (200, co_ConnectionURL c'))"
proof -
  obtain cache ok where a: "authenticatePodConnection e (BearerPrefix @ t) c (hw_tokenCache w) = (cache, ok)" by (rule prod.exhaust)
  note f = authenticate_fresh [OF assms(4), of e c, unfolded a]
  have w1: "w1 = w\<lparr>hw_tokenCache := cache\<rparr>" "answer = (if ok then Some (200, co_ConnectionURL c) else Some (401, ''unauthorized''))"
    using assms(1-3,8) a by (auto simp: serve_connection Let_def split: if_splits)
  have "snd (http_serve e d (connection_request ns' n' t) w1) = Some (200, co_ConnectionURL c')" if "owner_token e t c"
    using f(2) that authenticate_cached [OF _ assms(7), of cache t e] assms(1,5,6) w1(1) by (simp add: serve_connection)
  then show ?thesis using f(1) w1(2) by auto
qed

theorem connection_token_check_witness:
  "snd (http_serve ex_http_env [] (connection_request ''ns'' ''b'' ''t1'')
      (fst (http_serve ex_http_env [] (connection_request ''ns'' ''a'' ''t1'') ex_http_world))) = Some (200, ''url-b'')"
proof -
  obtain w1 r where s: "http_serve ex_http_env [] (connection_request ''ns'' ''a'' ''t1'') ex_http_world = (w1, r)" by (rule prod.exhaust)
  let ?a = "\<lparr>co_OwnerUIDs = [''u1''], co_Phase = ''Running'', co_ConnectionURL = ''url-a''\<rparr>"
  let ?b = "\<lparr>co_OwnerUIDs = [''u2''], co_Phase = ''Running'', co_ConnectionURL = ''url-b''\<rparr>"
  have e: "\<not> he_disableAuth ex_http_env" "he_getConnection ex_http_env (''ns'', ''a'') = Some ?a"
    "he_getConnection ex_http_env (''ns'', ''b'') = Some ?b" "owner_token ex_http_env ''t1'' ?a"
    "map_of (hw_tokenCache ex_http_world) ''t1'' = None"
    by (simp_all add: ex_http_env_def owner_token_def ex_http_world_def)
  show ?thesis using connection_token_check [OF e(1,2) _ e(5,3) _ _ s] e(4) s by simp
qed

section \<open>Events of the watcher\<close>

text \<open>
  A subscriber that has not received yet keeps the oldest event and loses all later ones, also the one that says
  that the worker is running.
\<close>

lemma buffered_subscribe [simp]: "buffered k ch (subscribe k ch subs) = None"
  by (simp add: buffered_def subscribe_def update_conv)

lemma publish_buffered:
  "map_of subs k = Some m \<Longrightarrow> map_of m ch = Some b \<Longrightarrow>
     map_of (publish k c subs) k = Some (map (\<lambda>(ch, b). (ch, case b of None \<Rightarrow> Some c | Some old \<Rightarrow> Some old)) m)
     \<and> buffered k ch (publish k c subs) = (case b of None \<Rightarrow> Some c | Some old \<Rightarrow> Some old)"
  by (simp add: publish_def buffered_def update_conv map_of_map)

lemma unread_events_lost:
  assumes "map_of subs k = Some m" "map_of m ch = Some None"
  shows "buffered k ch (foldl (\<lambda>s c. publish k c s) subs (c # cs)) = Some c"
proof -
  have "buffered k ch (foldl (\<lambda>s c. publish k c s) s cs) = Some c" if "map_of s k = Some m'" "map_of m' ch = Some (Some c)" for s m'
    using that
  proof (induction cs arbitrary: s m')
    case (Cons d ds)
    let ?m = "map (\<lambda>(ch, b). (ch, case b of None \<Rightarrow> Some d | Some old \<Rightarrow> Some old)) m'"
    have "map_of (publish k d s) k = Some ?m" "map_of ?m ch = Some (Some c)"
      using publish_buffered [OF Cons.prems] Cons.prems(2) by (simp_all add: map_of_map)
    then show ?case using Cons.IH by simp
  qed (simp add: buffered_def)
  moreover have "map_of (publish k c subs) k = Some (map (\<lambda>(ch, b). (ch, case b of None \<Rightarrow> Some c | Some old \<Rightarrow> Some old)) m)"
    "map_of (map (\<lambda>(ch, b). (ch, case b of None \<Rightarrow> Some c | Some old \<Rightarrow> Some old)) m) ch = Some (Some c)"
    using publish_buffered [OF assms] assms(2) by (simp_all add: map_of_map)
  ultimately show ?thesis by simp
qed

section \<open>The allocation report\<close>

lemma add_worker_info_map:
  "(case map_of (add_worker_info m r) n of None \<Rightarrow> [] | Some l \<Rightarrow> l)
     = (case map_of m n of None \<Rightarrow> [] | Some l \<Rightarrow> l) @ replicate (count_list (ar_GPUNames r) n) (allocation_info r)"
proof -
  have "(case map_of (foldl (\<lambda>m n. AList.update n ((case map_of m n of None \<Rightarrow> [] | Some l \<Rightarrow> l) @ [i]) m) m ns) n of None \<Rightarrow> [] | Some l \<Rightarrow> l)
     = (case map_of m n of None \<Rightarrow> [] | Some l \<Rightarrow> l) @ replicate (count_list ns n) i" for i ns
    by (induction ns arbitrary: m) (auto simp: update_conv replicate_app_Cons_same)
  then show ?thesis by (simp add: add_worker_info_def)
qed

lemma reported_workers:
  "(case map_of (foldl add_worker_info m rs) n of None \<Rightarrow> [] | Some l \<Rightarrow> l)
     = (case map_of m n of None \<Rightarrow> [] | Some l \<Rightarrow> l) @ concat (map (\<lambda>r. replicate (count_list (ar_GPUNames r) n) (allocation_info r)) rs)"
  by (induction rs arbitrary: m) (simp_all add: add_worker_info_map)

definition workers_on :: "allocator \<Rightarrow> string \<Rightarrow> gpu_allocation_info list" where
  "workers_on s n = (case router_allocation s of (_, _, _, m) \<Rightarrow> (case map_of m n of None \<Rightarrow> [] | Some l \<Rightarrow> l))"

lemma workers_on_eq:
  "workers_on s n = concat (map (\<lambda>(u, r). replicate (count_list (ar_GPUNames r) n) (allocation_info r)) (uniqueAllocation s))"
  by (simp add: workers_on_def router_allocation_def GetAllocationInfo_def reported_workers [where m = "[]", simplified] comp_def
      split_def)

lemma sum_workers:
  "sum_list (map (\<lambda>i. f (gi_Request i)) (concat (map (\<lambda>(u, r). replicate (count_list (ar_GPUNames r) n) (allocation_info r)) m)))
     = sum_list (map (\<lambda>(u, r). occ (ar_GPUNames r) n * f (ar_Request r)) m)"
proof (induction m)
  case (Cons p m)
  then show ?case by (cases p) (simp add: occ_def allocation_info_def sum_list_replicate)
qed simp



end
