(* ===== verification/GpuNode.thy ===== *)
theory GpuNode
  imports Compose Expander PoolController
begin

text \<open>
  The controller of GPU nodes, \<^verbatim>\<open>controller/gpunode_controller.go\<close>: it starts the discovery job of a node,
  keeps its hypervisor pod, and derives the phases of the node, of its GPUs and of its claim from that pod. The
  stored objects of one node are the record \<open>node_world\<close>; \<open>node_env\<close> holds the answers of the API server and
  the configuration. Metrics are left out.
\<close>

section \<open>State\<close>

record managed_node =
  gn_Meta :: object_meta
  gn_TotalGPUs :: int
  gn_Status :: node_status

record core_node =
  cor_Deleting :: bool
  cor_Labels :: "(string, string) gomap"
  cor_Allocatable :: "string list"
  cor_Tainted :: bool

record discovery_job =
  dj_Name :: string
  dj_Labels :: "(string, string) gomap"
  dj_Annotations :: "(string, string) gomap"
  dj_Spec :: k_spec
  dj_Failed :: int

record hypervisor_pod =
  hp_Pod :: k_pod
  hp_Phase :: string
  hp_Conditions :: "(string \<times> string) list"

record node_pool =
  np_Config :: config_pool
  np_Oversubscription :: "oversubscription option"
  np_SchedulingTemplate :: "string option"

record node_world =
  nw_node :: "managed_node option"
  nw_core :: "core_node option"
  nw_job :: "discovery_job option"
  nw_hypervisor :: "hypervisor_pod option"
  nw_gpus :: "gpu list"  \<comment> \<open>with the owner label of the node\<close>
  nw_claims :: "(string, string) gomap"  \<comment> \<open>the phase by name\<close>
  nw_expander :: node_expander

datatype create_result = Created | AlreadyExists | CreateFailed

record node_env =
  nv_ext :: ext
  nv_compose :: compose_env
  nv_allocator :: allocator
  nv_namespace :: string
  nv_pool :: "string \<Rightarrow> node_pool option"
  nv_waitAllocatable :: bool  \<comment> \<open>\<^verbatim>\<open>RUN_HYPERVISOR_UTIL_GPU_ALLOCATABLE\<close>\<close>
  nv_toolkit :: bool
  nv_hypervisorJSON :: "hypervisor_config \<Rightarrow> string"
  nv_schedulingHypervisor :: "string \<Rightarrow> string option"  \<comment> \<open>JSON of the hypervisor part of a scheduling template\<close>
  nv_extraLabels :: "string option"
  nv_metricsFormat :: string
  nv_getOK :: bool
  nv_finalizerOK :: bool
  nv_destroyOK :: bool
  nv_coreGetOK :: bool
  nv_deleteOK :: bool
  nv_jobGetOK :: bool
  nv_jobOwnerOK :: bool
  nv_jobCreateOK :: bool
  nv_failedOK :: bool
  nv_podGetOK :: bool
  nv_podDeleteOK :: bool
  nv_podOwnerOK :: bool
  nv_podCreate :: create_result
  nv_podCheck :: bool  \<comment> \<open>the second read of the hypervisor pod succeeds\<close>
  nv_pendingOK :: bool
  nv_capacityOK :: bool
  nv_coreUpdateOK :: bool
  nv_listOK :: bool
  nv_gpuPatchOK :: "string \<Rightarrow> bool"
  nv_claimGetOK :: bool
  nv_claimUpdateOK :: bool

datatype node_outcome = NodeDone | NodeRequeue int | NodeError | NodePanic

definition TensorFusionGPUNodePhaseDestroying :: string where "TensorFusionGPUNodePhaseDestroying = ''Destroying''"
definition TensorFusionGPUNodePhaseFailed :: string where "TensorFusionGPUNodePhaseFailed = ''Failed''"
definition ComponentHypervisor :: string where "ComponentHypervisor = ''hypervisor''"
definition ComponentNodeDiscovery :: string where "ComponentNodeDiscovery = ''node-discovery''"

definition set_phase :: "string \<Rightarrow> managed_node \<Rightarrow> managed_node" where
  "set_phase ph n = n\<lparr>gn_Status := (gn_Status n)\<lparr>ns_Phase := ph\<rparr>\<rparr>"

abbreviation "node_phase n \<equiv> ns_Phase (gn_Status n)"
abbreviation "node_name n \<equiv> om_Name (gn_Meta n)"

definition empty_core_node :: core_node where
  "empty_core_node = \<lparr>cor_Deleting = False, cor_Labels = [], cor_Allocatable = [], cor_Tainted = False\<rparr>"

text \<open>A toleration of a taint with the key \<^verbatim>\<open>NoSchedule\<close>, whatever its effect.\<close>

definition no_schedule_toleration :: toleration where
  "no_schedule_toleration = \<lparr>tol_Key = ''NoSchedule'', tol_Operator = ''Exists'', tol_Value = '''', tol_Effect = ''''\<rparr>"

section \<open>The discovery job\<close>

definition getDiscoveryJobName :: "string \<Rightarrow> string" where
  "getDiscoveryJobName gpunodeName = ''node-discovery-'' @ gpunodeName"

text \<open>The job to create, \<open>Inl\<close> with whether it is a panic.\<close>

definition discovery_job_of :: "node_env \<Rightarrow> node_pool \<Rightarrow> string \<Rightarrow> bool + discovery_job" where
  "discovery_job_of e pool nodeName =
     (case cpl_ComponentConfig (np_Config pool) of
        None \<Rightarrow> Inl False
      | Some cfg \<Rightarrow>
          (case cfg_NodeDiscovery cfg of
             None \<Rightarrow> Inl True
           | Some nd \<Rightarrow>
               (case nd_PodTemplate nd of
                  None \<Rightarrow> Inl False
                | Some raw \<Rightarrow>
                    (case ce_unmarshalTemplate (nv_compose e) raw of
                       None \<Rightarrow> Inl False
                     | Some tmpl \<Rightarrow>
                         (case AddTFNodeDiscoveryConfAfterTemplate (nv_compose e) (np_Config pool) nodeName (nv_toolkit e)
                                 ((pt_Spec tmpl)\<lparr>ks_NodeName := nodeName, ks_EnableServiceLinks := Some False,
                                    ks_Tolerations := ks_Tolerations (pt_Spec tmpl) @ [no_schedule_toleration]\<rparr>) of
                            None \<Rightarrow> Inl True
                          | Some spec \<Rightarrow>
                              Inr \<lparr>dj_Name = getDiscoveryJobName nodeName,
                                   dj_Labels = AList.update LabelComponent ComponentNodeDiscovery (pt_Labels tmpl),
                                   dj_Annotations = pt_Annotations tmpl, dj_Spec = spec, dj_Failed = 0\<rparr>)))))"

definition reconcileNodeDiscoveryJob ::
  "node_env \<Rightarrow> node_pool \<Rightarrow> managed_node \<Rightarrow> node_world \<Rightarrow> node_world \<times> (node_outcome + managed_node)" where
  "reconcileNodeDiscoveryJob e pool n w =
     (case discovery_job_of e pool (node_name n) of
        Inl panic \<Rightarrow> (w, Inl (if panic then NodePanic else NodeError))
      | Inr new \<Rightarrow>
          if \<not> nv_jobGetOK e then (w, Inl NodeError)
          else (case nw_job w of
             None \<Rightarrow>
               if nv_jobOwnerOK e \<and> nv_jobCreateOK e then (w\<lparr>nw_job := Some new\<rparr>, Inr n) else (w, Inl NodeError)
           | Some job \<Rightarrow>
               if dj_Failed job > 0
               then let n' = set_phase TensorFusionGPUNodePhaseFailed n in
                    if nv_failedOK e then (w\<lparr>nw_node := Some n'\<rparr>, Inr n') else (w, Inl NodeError)
               else (w, Inr n)))"

section \<open>The hypervisor pod\<close>

definition hypervisor_name :: "managed_node \<Rightarrow> string" where
  "hypervisor_name n = ''hypervisor-'' @ node_name n"

definition hypervisor_hash :: "node_env \<Rightarrow> hypervisor_config \<Rightarrow> string" where
  "hypervisor_hash e h = GetObjectHash [nv_hypervisorJSON e h]"

definition scheduling_envs :: "node_env \<Rightarrow> node_pool \<Rightarrow> k_spec \<Rightarrow> k_spec option" where
  "scheduling_envs e pool spec =
     (case Option.bind (np_SchedulingTemplate pool) (nv_schedulingHypervisor e) of
        None \<Rightarrow> Some spec
      | Some cfg \<Rightarrow>
          (case nv_extraLabels e of
             None \<Rightarrow> None
           | Some labels \<Rightarrow>
               Some (update_container 0 (add_env [plain_env ''TF_HYPERVISOR_SCHEDULING_CONFIG'' cfg,
                       plain_env ''TF_HYPERVISOR_METRICS_FORMAT'' (nv_metricsFormat e),
                       plain_env ''TF_HYPERVISOR_METRICS_EXTRA_LABELS'' labels]) spec)))"

datatype hypervisor_error = HypervisorPanic | HypervisorError | HypervisorExists

definition createHypervisorPod ::
  "node_env \<Rightarrow> node_pool \<Rightarrow> hypervisor_config \<Rightarrow> managed_node \<Rightarrow> hypervisor_error + hypervisor_pod" where
  "createHypervisorPod e pool h n =
     (case hc_PodTemplate h of
        None \<Rightarrow> Inl HypervisorPanic
      | Some raw \<Rightarrow>
          (case ce_unmarshalTemplate (nv_compose e) raw of
             None \<Rightarrow> Inl HypervisorError
           | Some tmpl \<Rightarrow>
               (case AddTFHypervisorConfAfterTemplate (nv_compose e) (np_Config pool)
                       ((pt_Spec tmpl)\<lparr>ks_EnableServiceLinks := Some False, ks_NodeName := node_name n,
                          ks_DNSPolicy := ''ClusterFirstWithHostNet''\<rparr>) of
                  None \<Rightarrow> Inl HypervisorPanic
                | Some spec0 \<Rightarrow>
                    (case scheduling_envs e pool spec0 of
                       None \<Rightarrow> Inl HypervisorError
                     | Some spec \<Rightarrow>
                         let labels = AList.update LabelComponent ComponentHypervisor
                               (AList.update LabelKeyPodTemplateHash (hypervisor_hash e h)
                                 (AList.update (GPUNodePoolIdentifierLabelPrefix @ cpl_Name (np_Config pool)) ''true'' (pt_Labels tmpl)));
                             pod = \<lparr>kp_Meta = \<lparr>om_Name = hypervisor_name n, om_Namespace = nv_namespace e, om_UID = '''',
                                     om_Labels = labels, om_Annotations = pt_Annotations tmpl, om_Deleting = False, om_Finalizers = []\<rparr>,
                                    kp_GenerateName = '''', kp_OwnerReferences = [],
                                    kp_Spec = spec\<lparr>ks_Tolerations := ks_Tolerations spec @ [no_schedule_toleration]\<rparr>\<rparr>
                         in if \<not> nv_podOwnerOK e then Inl HypervisorError
                            else (case nv_podCreate e of
                                    Created \<Rightarrow> Inr \<lparr>hp_Pod = pod, hp_Phase = '''', hp_Conditions = []\<rparr>
                                  | AlreadyExists \<Rightarrow> Inl HypervisorExists
                                  | CreateFailed \<Rightarrow> Inl HypervisorError)))))"

text \<open>A deleted pod stays until its node has stopped it.\<close>

definition mark_deleting :: "hypervisor_pod \<Rightarrow> hypervisor_pod" where
  "mark_deleting h = h\<lparr>hp_Pod := (hp_Pod h)\<lparr>kp_Meta := (kp_Meta (hp_Pod h))\<lparr>om_Deleting := True\<rparr>\<rparr>\<rparr>"

text \<open>\<open>Inr True\<close>: the pod is there; \<open>Inr False\<close>: wait for the next round.\<close>

definition reconcileHypervisorPod ::
  "node_env \<Rightarrow> node_pool \<Rightarrow> managed_node \<Rightarrow> node_world \<Rightarrow> node_world \<times> (node_outcome + bool)" where
  "reconcileHypervisorPod e pool n w =
     (case Option.bind (cpl_ComponentConfig (np_Config pool)) cfg_Hypervisor of
        None \<Rightarrow> (w, Inl NodeError)
      | Some h \<Rightarrow>
          if \<not> nv_podGetOK e then (w, Inl NodeError)
          else (case nw_hypervisor w of
             Some cur \<Rightarrow>
               if node_phase n = TensorFusionGPUPhaseRunning then (w, Inr True)
               else if om_Deleting (kp_Meta (hp_Pod cur)) then (w, Inr False)
               else if IsPodStopped (hp_Phase cur)
                       \<or> get_str (om_Labels (kp_Meta (hp_Pod cur))) LabelKeyPodTemplateHash \<noteq> hypervisor_hash e h
               then if nv_podDeleteOK e then (w\<lparr>nw_hypervisor := Some (mark_deleting cur)\<rparr>, Inr False) else (w, Inl NodeError)
               else (w, Inr True)
           | None \<Rightarrow>
               (case createHypervisorPod e pool h n of
                  Inr p \<Rightarrow> (w\<lparr>nw_hypervisor := Some p\<rparr>, Inr True)
                | Inl HypervisorPanic \<Rightarrow> (w, Inl NodePanic)
                | Inl HypervisorExists \<Rightarrow> (w, Inr False)
                | Inl HypervisorError \<Rightarrow> (w, Inl NodeError))))"

section \<open>Phases\<close>

fun sync_gpu_phases :: "node_env \<Rightarrow> string \<Rightarrow> gpu list \<Rightarrow> gpu list \<times> bool" where
  "sync_gpu_phases e state [] = ([], True)"
| "sync_gpu_phases e state (g # gs) =
     (if gpu_Phase g \<noteq> state \<and> \<not> nv_gpuPatchOK e (gpu_Name g) then (g # gs, False)
      else (case sync_gpu_phases e state gs of (gs', ok) \<Rightarrow> (g\<lparr>gpu_Phase := state\<rparr> # gs', ok)))"

definition syncStatusToGPUDevices :: "node_env \<Rightarrow> string \<Rightarrow> node_world \<Rightarrow> node_world \<times> bool" where
  "syncStatusToGPUDevices e state w =
     (if \<not> nv_listOK e then (w, False)
      else (case sync_gpu_phases e state (nw_gpus w) of (gs, ok) \<Rightarrow> (w\<lparr>nw_gpus := gs\<rparr>, ok)))"

definition bind_claim :: "node_env \<Rightarrow> managed_node \<Rightarrow> node_world \<Rightarrow> node_world \<times> node_outcome option" where
  "bind_claim e n w =
     (let name = get_str (om_Labels (gn_Meta n)) ProvisionerLabelKey in
      if name = '''' then (w, None)
      else if \<not> nv_claimGetOK e then (w, Some NodeError)
      else (case map_of (nw_claims w) name of
              None \<Rightarrow> (w, Some NodeDone)
            | Some phase \<Rightarrow>
                if phase = GPUNodeClaimBound then (w, None)
                else if nv_claimUpdateOK e then (w\<lparr>nw_claims := AList.update name GPUNodeClaimBound (nw_claims w)\<rparr>, None)
                else (w, Some NodeError)))"

text \<open>The status and the taint \<^verbatim>\<open>RefreshGPUNodeCapacity\<close> writes, and the GPU models.\<close>

definition refresh_capacity ::
  "node_env \<Rightarrow> node_pool \<Rightarrow> managed_node \<Rightarrow> core_node \<Rightarrow> node_world \<Rightarrow> node_world \<times> (string list \<times> managed_node) option" where
  "refresh_capacity e pool n core w =
     (if \<not> nv_listOK e then (w, None)
      else case RefreshGPUNodeCapacity (nv_ext e) (node_name n) (nw_gpus w) (np_Oversubscription pool) (nv_allocator e)
                  (Some (cor_Tainted core)) (gn_Status n) of
             None \<Rightarrow> (w, Some ([], n))
           | Some (st, models, action) \<Rightarrow>
               if \<not> nv_capacityOK e then (w, None)
               else let n' = n\<lparr>gn_Status := st\<rparr>; w1 = w\<lparr>nw_node := Some n'\<rparr>;
                        taint = (case action of AddTaint \<Rightarrow> True | RemoveTaint \<Rightarrow> False | KeepTaint \<Rightarrow> cor_Tainted core)
                    in if taint = cor_Tainted core then (w1, Some (models, n'))
                       else if nv_coreUpdateOK e
                       then (w1\<lparr>nw_core := Some (core\<lparr>cor_Tainted := taint\<rparr>)\<rparr>, Some (models, n'))
                       else (w1, None))"

definition checkStatusAndUpdateVirtualCapacity ::
  "node_env \<Rightarrow> node_pool \<Rightarrow> managed_node \<Rightarrow> core_node \<Rightarrow> node_world \<Rightarrow> node_world \<times> node_outcome" where
  "checkStatusAndUpdateVirtualCapacity e pool n core w =
     (if \<not> nv_podCheck e then (w, NodeError)
      else case nw_hypervisor w of
        None \<Rightarrow> (w, NodeRequeue 0)
      | Some pod \<Rightarrow>
          if hp_Phase pod \<noteq> ''Running'' \<or> \<not> IsPodConditionTrue (hp_Conditions pod) ''Ready''
          then if node_phase n \<noteq> TensorFusionGPUPhasePending \<and> \<not> nv_pendingOK e then (w, NodeError)
               else (case syncStatusToGPUDevices e TensorFusionGPUPhasePending
                            (w\<lparr>nw_node := Some (set_phase TensorFusionGPUPhasePending n)\<rparr>) of
                       (w1, ok) \<Rightarrow> (w1, if ok then NodeDone else NodeError))
          else (case refresh_capacity e pool n core w of
                  (w1, None) \<Rightarrow> (w1, NodeError)
                | (w1, Some (models, n1)) \<Rightarrow>
                    if models = [] then (w1, NodeDone)
                    else (case bind_claim e n1 w1 of
                            (w2, Some out) \<Rightarrow> (w2, out)
                          | (w2, None) \<Rightarrow>
                              (case syncStatusToGPUDevices e TensorFusionGPUPhaseRunning w2 of
                                 (w3, False) \<Rightarrow> (w3, NodeError)
                               | (w3, True) \<Rightarrow>
                                   let source = get_str (cor_Labels core) KarpenterExpansionLabel in
                                   (if source = '''' then w3 else w3\<lparr>nw_expander := RemoveInFlightNode source (nw_expander w3)\<rparr>,
                                    NodeDone)))))"

section \<open>The round\<close>

definition wait_allocatable :: "node_env \<Rightarrow> core_node \<Rightarrow> bool" where
  "wait_allocatable e core \<longleftrightarrow> nv_waitAllocatable e \<and> ''nvidia.com/gpu'' \<notin> set (cor_Allocatable core)"

definition reconcile_live_node :: "node_env \<Rightarrow> node_pool \<Rightarrow> managed_node \<Rightarrow> core_node \<Rightarrow> node_world \<Rightarrow> node_world \<times> node_outcome" where
  "reconcile_live_node e pool n core w =
     (if wait_allocatable e core then (w, NodeRequeue StatusCheckInterval)
      else case reconcileNodeDiscoveryJob e pool n w of
        (w1, Inl out) \<Rightarrow> (w1, out)
      | (w1, Inr n1) \<Rightarrow>
          if gn_TotalGPUs n1 = 0 then (w1, NodeDone)
          else (case reconcileHypervisorPod e pool n1 w1 of
                  (w2, Inl out) \<Rightarrow> (w2, out)
                | (w2, Inr False) \<Rightarrow> (w2, NodeRequeue PendingRequeueDuration)
                | (w2, Inr True) \<Rightarrow> checkStatusAndUpdateVirtualCapacity e pool n1 core w2))"

definition gpunode_Reconcile :: "node_env \<Rightarrow> node_world \<Rightarrow> node_world \<times> node_outcome" where
  "gpunode_Reconcile e w =
     (if \<not> nv_getOK e then (w, NodeError)
      else case nw_node w of
        None \<Rightarrow> (w, NodeDone)
      | Some n \<Rightarrow>
          let hooked = (om_Deleting (gn_Meta n) \<and> Finalizer \<in> set (om_Finalizers (gn_Meta n)));
              n0 = (if hooked \<and> node_phase n \<noteq> TensorFusionGPUNodePhaseDestroying \<and> nv_destroyOK e
                    then set_phase TensorFusionGPUNodePhaseDestroying n else n);
              hook = (if node_phase n \<noteq> TensorFusionGPUNodePhaseDestroying \<and> \<not> nv_destroyOK e then None else Some True);
              (meta, shouldReturn, err) = HandleFinalizer hook (nv_finalizerOK e) (gn_Meta n0);
              n1 = n0\<lparr>gn_Meta := meta\<rparr>; w1 = w\<lparr>nw_node := Some n1\<rparr>
          in if err \<noteq> None then (w1, NodeError)
             else if shouldReturn \<or> om_Deleting (gn_Meta n) then (w1, NodeDone)
             else let poolName = ExtractPoolNameFromNodeLabel (om_Labels (gn_Meta n1)) in
                  if poolName = '''' then (w1, NodeDone)
                  else (case nv_pool e poolName of
                          None \<Rightarrow> (w1, NodeError)
                        | Some pool \<Rightarrow>
                            let core = (if nv_coreGetOK e then nw_core w else Some empty_core_node) in
                            (case core of
                               None \<Rightarrow> if nv_deleteOK e then (w1\<lparr>nw_node := Some (n1\<lparr>gn_Meta := meta\<lparr>om_Deleting := True\<rparr>\<rparr>)\<rparr>, NodeDone)
                                       else (w1, NodeError)
                             | Some c \<Rightarrow>
                                 if cor_Deleting c
                                 then if nv_deleteOK e then (w1\<lparr>nw_node := Some (n1\<lparr>gn_Meta := meta\<lparr>om_Deleting := True\<rparr>\<rparr>)\<rparr>, NodeDone)
                                      else (w1, NodeError)
                                 else reconcile_live_node e pool n1 c w1)))"

end
