(* ===== verification/GpuNodeProps.thy ===== *)
theory GpuNodeProps
  imports GpuNode ComposeProps AllocatorProps
begin

text \<open>
  Properties of the controller of GPU nodes: a node becomes running only with a current hypervisor, and it does
  become running when nothing disturbs it.
\<close>

section \<open>Steps of a round\<close>

abbreviation "pod_hash p \<equiv> get_str (om_Labels (kp_Meta (hp_Pod p))) LabelKeyPodTemplateHash"
abbreviation "pod_deleting p \<equiv> om_Deleting (kp_Meta (hp_Pod p))"

definition pool_hypervisor :: "node_pool \<Rightarrow> hypervisor_config option" where
  "pool_hypervisor pool = Option.bind (cpl_ComponentConfig (np_Config pool)) cfg_Hypervisor"

definition pod_ready :: "hypervisor_pod \<Rightarrow> bool" where
  "pod_ready p \<longleftrightarrow> hp_Phase p = ''Running'' \<and> IsPodConditionTrue (hp_Conditions p) ''Ready''"

text \<open>A hypervisor pod of the current template that is neither stopped nor being deleted.\<close>

definition pod_current :: "node_env \<Rightarrow> hypervisor_config \<Rightarrow> hypervisor_pod \<Rightarrow> bool" where
  "pod_current e h p \<longleftrightarrow> \<not> pod_deleting p \<and> \<not> IsPodStopped (hp_Phase p) \<and> pod_hash p = hypervisor_hash e h"

lemma createHypervisorPod_current:
  assumes "createHypervisorPod e pool h n = Inr p"
  shows "pod_current e h p \<and> hp_Phase p = ''''"
  using assms
  by (auto simp: createHypervisorPod_def pod_current_def IsPodStopped_def get_str_def update_conv LabelComponent_def
      LabelKeyPodTemplateHash_def Let_def split: option.splits if_splits create_result.splits)

lemma reconcileNodeDiscoveryJob_ok:
  assumes "reconcileNodeDiscoveryJob e pool n w = (w1, Inr n1)" "nw_node w = Some n"
  shows "nw_node w1 = Some n1" "gn_Meta n1 = gn_Meta n" "gn_TotalGPUs n1 = gn_TotalGPUs n"
    "node_phase n1 = node_phase n \<or> node_phase n1 = TensorFusionGPUNodePhaseFailed"
    "nw_hypervisor w1 = nw_hypervisor w" "nw_gpus w1 = nw_gpus w" "nw_claims w1 = nw_claims w" "nw_core w1 = nw_core w"
  using assms by (auto simp: reconcileNodeDiscoveryJob_def set_phase_def Let_def split: sum.splits if_splits option.splits)

lemma reconcileHypervisorPod_ok:
  assumes "reconcileHypervisorPod e pool n w = (w1, Inr True)" "node_phase n \<noteq> TensorFusionGPUPhaseRunning"
  obtains h p where "pool_hypervisor pool = Some h" "nw_hypervisor w1 = Some p" "pod_current e h p"
    "nw_hypervisor w = Some p \<or> nw_hypervisor w = None \<and> hp_Phase p = ''''" "w1 = w\<lparr>nw_hypervisor := Some p\<rparr>"
proof -
  obtain h where h: "pool_hypervisor pool = Some h"
    using assms(1) by (auto simp: reconcileHypervisorPod_def pool_hypervisor_def split: option.splits)
  show thesis
  proof (cases "nw_hypervisor w")
    case None
    with assms h obtain p where p: "createHypervisorPod e pool h n = Inr p" "w1 = w\<lparr>nw_hypervisor := Some p\<rparr>"
      by (auto simp: reconcileHypervisorPod_def pool_hypervisor_def split: if_splits sum.splits hypervisor_error.splits)
    then show thesis using that [OF h] createHypervisorPod_current [OF p(1)] None by simp
  next
    case (Some p)
    with assms h have "w1 = w" "pod_current e h p"
      by (auto simp: reconcileHypervisorPod_def pool_hypervisor_def pod_current_def split: if_splits)
    then show thesis using that [OF h, of p] Some by simp
  qed
qed

lemma syncStatus_frame:
  assumes "syncStatusToGPUDevices e st w = (w1, ok)"
  shows "nw_node w1 = nw_node w" "nw_hypervisor w1 = nw_hypervisor w" "nw_claims w1 = nw_claims w" "nw_core w1 = nw_core w"
    "nw_job w1 = nw_job w"
  using assms by (auto simp: syncStatusToGPUDevices_def split: if_splits prod.splits)

lemma sync_gpu_phases_all: "sync_gpu_phases e st gs = (gs', True) \<Longrightarrow> gs' = map (\<lambda>g. g\<lparr>gpu_Phase := st\<rparr>) gs"
  by (induction gs arbitrary: gs') (auto split: if_splits prod.splits)

lemma sync_gpu_phases_ok: "(\<And>n. nv_gpuPatchOK e n) \<Longrightarrow> sync_gpu_phases e st gs = (map (\<lambda>g. g\<lparr>gpu_Phase := st\<rparr>) gs, True)"
  by (induction gs) simp_all

lemma bind_claim_frame:
  assumes "bind_claim e n w = (w1, r)"
  shows "nw_node w1 = nw_node w" "nw_hypervisor w1 = nw_hypervisor w" "nw_gpus w1 = nw_gpus w" "nw_core w1 = nw_core w"
    "nw_job w1 = nw_job w"
  using assms by (auto simp: bind_claim_def Let_def split: if_splits option.splits)

lemma refresh_capacity_frame:
  assumes "refresh_capacity e pool n core w = (w1, r)"
  shows "nw_hypervisor w1 = nw_hypervisor w" "nw_gpus w1 = nw_gpus w" "nw_job w1 = nw_job w" "nw_claims w1 = nw_claims w"
  using assms by (auto simp: refresh_capacity_def Let_def split: if_splits option.splits)

lemma checkStatus_running:
  assumes "checkStatusAndUpdateVirtualCapacity e pool n core w = (w1, out)" "nw_node w = Some n"
    and "node_phase n \<noteq> TensorFusionGPUPhaseRunning" "nw_node w1 = Some n1" "node_phase n1 = TensorFusionGPUPhaseRunning"
  obtains p where "nw_hypervisor w = Some p" "pod_ready p" "nw_hypervisor w1 = Some p"
proof (cases "nw_hypervisor w")
  case None
  then show thesis using assms by (auto simp: checkStatusAndUpdateVirtualCapacity_def split: if_splits)
next
  case (Some p)
  have "pod_ready p"
  proof (rule ccontr)
    assume "\<not> pod_ready p"
    then have "nw_node w1 = Some n \<or> nw_node w1 = Some (set_phase TensorFusionGPUPhasePending n)"
      using assms(1,2) Some
      by (auto simp: checkStatusAndUpdateVirtualCapacity_def pod_ready_def split: if_splits prod.splits dest: syncStatus_frame(1))
    then show False using assms(3-5) by (auto simp: set_phase_def TensorFusionGPUPhasePending_def TensorFusionGPUPhaseRunning_def)
  qed
  moreover from this have "nw_hypervisor w1 = Some p"
    using assms(1) Some
    by (auto simp: checkStatusAndUpdateVirtualCapacity_def pod_ready_def Let_def split: if_splits prod.splits option.splits bool.splits
        dest!: refresh_capacity_frame(1) bind_claim_frame(2) syncStatus_frame(2))
  ultimately show thesis using that Some by blast
qed

section \<open>Running nodes have a current hypervisor\<close>

lemma reconcile_live_node_running:
  assumes "reconcile_live_node e pool n core w = (w1, out)" "nw_node w = Some n"
    and "node_phase n \<noteq> TensorFusionGPUPhaseRunning" "nw_node w1 = Some n1" "node_phase n1 = TensorFusionGPUPhaseRunning"
  obtains h p where "pool_hypervisor pool = Some h" "nw_hypervisor w = Some p" "nw_hypervisor w1 = Some p" "pod_current e h p"
    "pod_ready p"
proof -
  obtain v1 r1 where j: "reconcileNodeDiscoveryJob e pool n w = (v1, r1)" by (rule prod.exhaust)
  have notrun: "node_phase m \<noteq> TensorFusionGPUPhaseRunning" if "r1 = Inr m" for m
    using reconcileNodeDiscoveryJob_ok(4) [OF j [unfolded that] assms(2)] assms(3)
    by (auto simp: TensorFusionGPUNodePhaseFailed_def TensorFusionGPUPhaseRunning_def)
  have same: "nw_node v1 = Some n \<or> (\<exists>m. r1 = Inr m)" using j assms(2)
    by (auto simp: reconcileNodeDiscoveryJob_def Let_def split: sum.splits if_splits option.splits)
  note case1 = assms(1) [unfolded reconcile_live_node_def j prod.case]
  from case1 assms(2-5) same obtain m where m: "r1 = Inr m"
    by (auto split: if_splits sum.splits)
  note jn = reconcileNodeDiscoveryJob_ok [OF j [unfolded m] assms(2)]
  obtain v2 r2 where hp: "reconcileHypervisorPod e pool m v1 = (v2, r2)" by (rule prod.exhaust)
  have n2: "nw_node v2 = Some m" using hp jn(1)
    by (auto simp: reconcileHypervisorPod_def split: if_splits option.splits sum.splits hypervisor_error.splits)
  from case1 assms(2-5) m jn(1) notrun [OF m] n2 have r2: "r2 = Inr True"
    by (auto simp: hp split: if_splits sum.splits bool.splits)
  from case1 assms(2-5) m jn(1) notrun [OF m] have chk: "checkStatusAndUpdateVirtualCapacity e pool m core v2 = (w1, out)"
    by (auto simp: hp r2 split: if_splits)
  obtain h p where h: "pool_hypervisor pool = Some h" "nw_hypervisor v2 = Some p" "pod_current e h p"
    "nw_hypervisor v1 = Some p \<or> nw_hypervisor v1 = None \<and> hp_Phase p = ''''"
    by (rule reconcileHypervisorPod_ok [OF hp [unfolded r2] notrun [OF m]]) blast
  obtain p' where p': "nw_hypervisor v2 = Some p'" "pod_ready p'" "nw_hypervisor w1 = Some p'"
    by (rule checkStatus_running [OF chk n2 notrun [OF m] assms(4,5)])
  have "nw_hypervisor w = Some p" using h(2,4) p' jn(5) by (auto simp: pod_ready_def)
  then show thesis using that h p' by simp
qed

text \<open>
  C19: a round of the node controller moves a node to the phase Running only if its hypervisor pod is running and
  ready, is not being deleted, and was made from the template the pool has now.
\<close>

theorem node_runs_with_current_hypervisor:
  assumes "gpunode_Reconcile e w = (w', out)" "nw_node w = Some n" "node_phase n \<noteq> TensorFusionGPUPhaseRunning"
    and "nw_node w' = Some n'" "node_phase n' = TensorFusionGPUPhaseRunning"
  shows "\<exists>pool h p. nv_pool e (ExtractPoolNameFromNodeLabel (om_Labels (gn_Meta n))) = Some pool \<and> pool_hypervisor pool = Some h
    \<and> nw_hypervisor w' = Some p \<and> pod_ready p \<and> \<not> pod_deleting p \<and> pod_hash p = hypervisor_hash e h"
proof -
  let ?hooked = "om_Deleting (gn_Meta n) \<and> Finalizer \<in> set (om_Finalizers (gn_Meta n))"
  let ?n0 = "if ?hooked \<and> node_phase n \<noteq> TensorFusionGPUNodePhaseDestroying \<and> nv_destroyOK e
             then set_phase TensorFusionGPUNodePhaseDestroying n else n"
  let ?hook = "if node_phase n \<noteq> TensorFusionGPUNodePhaseDestroying \<and> \<not> nv_destroyOK e then None else Some True"
  obtain meta ret err where f: "HandleFinalizer ?hook (nv_finalizerOK e) (gn_Meta ?n0) = (meta, ret, err)" using prod_cases3 by blast
  let ?n1 = "?n0\<lparr>gn_Meta := meta\<rparr>"
  have ph: "node_phase ?n1 \<noteq> TensorFusionGPUPhaseRunning"
    using assms(3) by (simp add: set_phase_def TensorFusionGPUNodePhaseDestroying_def TensorFusionGPUPhaseRunning_def)
  have labels: "om_Labels meta = om_Labels (gn_Meta n)"
    using f by (auto simp: HandleFinalizer_def set_phase_def split: if_splits option.splits)
  note R = assms(1) [unfolded gpunode_Reconcile_def assms(2) option.case Let_def f prod.case]
  obtain pool core where pool: "nv_pool e (ExtractPoolNameFromNodeLabel (om_Labels meta)) = Some pool"
    and live: "reconcile_live_node e pool ?n1 core (w\<lparr>nw_node := Some ?n1\<rparr>) = (w', out)"
    using R assms(2-5) ph by (auto split: if_splits option.splits)
  show ?thesis
    by (rule reconcile_live_node_running [OF live _ ph assms(4,5)]) (use pool labels in \<open>auto simp: pod_current_def\<close>)
qed

section \<open>A node becomes running\<close>

text \<open>
  What the Kubernetes node does between two rounds: a pod that is being deleted goes away, a stopped one stays as it
  is, and any other one becomes running and ready.
\<close>

definition kubelet :: "node_world \<Rightarrow> node_world" where
  "kubelet w =
     (case nw_hypervisor w of None \<Rightarrow> w
      | Some p \<Rightarrow> if pod_deleting p then w\<lparr>nw_hypervisor := None\<rparr>
                  else if IsPodStopped (hp_Phase p) then w
                  else w\<lparr>nw_hypervisor := Some (p\<lparr>hp_Phase := ''Running'', hp_Conditions := [(''Ready'', ''True'')]\<rparr>)\<rparr>)"

definition node_step :: "node_env \<Rightarrow> node_world \<Rightarrow> node_world" where
  "node_step e w = kubelet (fst (gpunode_Reconcile e w))"

definition undisturbed :: "node_env \<Rightarrow> bool" where
  "undisturbed e \<longleftrightarrow> nv_getOK e \<and> nv_finalizerOK e \<and> nv_coreGetOK e \<and> nv_jobGetOK e \<and> nv_jobOwnerOK e \<and> nv_jobCreateOK e
     \<and> nv_podGetOK e \<and> nv_podDeleteOK e \<and> nv_podCheck e \<and> nv_pendingOK e \<and> nv_capacityOK e \<and> nv_coreUpdateOK e \<and> nv_listOK e
     \<and> (\<forall>g. nv_gpuPatchOK e g) \<and> nv_claimGetOK e \<and> nv_claimUpdateOK e \<and> \<not> nv_waitAllocatable e"

definition known_gpu :: "gpu \<Rightarrow> bool" where
  "known_gpu g \<longleftrightarrow> gpu_Available g \<noteq> None \<and> gpu_Capacity g \<noteq> None"

text \<open>
  The node, its Kubernetes node and its pool exist, the GPUs are discovered, the templates can be used, and the claim
  it was made for, if any, exists.
\<close>

definition healthy_node :: "node_env \<Rightarrow> node_pool \<Rightarrow> hypervisor_config \<Rightarrow> managed_node \<Rightarrow> bool" where
  "healthy_node e pool h n \<longleftrightarrow> \<not> om_Deleting (gn_Meta n) \<and> ExtractPoolNameFromNodeLabel (om_Labels (gn_Meta n)) \<noteq> ''''
     \<and> nv_pool e (ExtractPoolNameFromNodeLabel (om_Labels (gn_Meta n))) = Some pool \<and> gn_TotalGPUs n \<noteq> 0
     \<and> (\<exists>j. discovery_job_of e pool (node_name n) = Inr j) \<and> (\<exists>p. createHypervisorPod e pool h n = Inr p)"

definition healthy :: "node_env \<Rightarrow> node_pool \<Rightarrow> hypervisor_config \<Rightarrow> managed_node \<Rightarrow> core_node \<Rightarrow> node_world \<Rightarrow> bool" where
  "healthy e pool h n core w \<longleftrightarrow> nw_node w = Some n \<and> healthy_node e pool h n \<and> nw_core w = Some core \<and> \<not> cor_Deleting core
     \<and> (case nw_job w of None \<Rightarrow> True | Some j \<Rightarrow> dj_Failed j \<le> 0) \<and> (\<exists>g \<in> set (nw_gpus w). known_gpu g)
     \<and> (let c = get_str (om_Labels (gn_Meta n)) ProvisionerLabelKey in c = '''' \<or> map_of (nw_claims w) c \<noteq> None)"

definition has_finalizer :: "managed_node \<Rightarrow> bool" where
  "has_finalizer n \<longleftrightarrow> Finalizer \<in> set (om_Finalizers (gn_Meta n))"

text \<open>A running node with an outdated or stopped hypervisor is left to the rolling update.\<close>

definition hypervisor_ok :: "node_env \<Rightarrow> hypervisor_config \<Rightarrow> hypervisor_pod option \<Rightarrow> bool" where
  "hypervisor_ok e h p \<longleftrightarrow> (case p of None \<Rightarrow> True | Some p \<Rightarrow> pod_current e h p)"

definition stage :: "node_env \<Rightarrow> node_pool \<Rightarrow> hypervisor_config \<Rightarrow> nat \<Rightarrow> node_world \<Rightarrow> bool" where
  "stage e pool h k w \<longleftrightarrow> (\<exists>n core. healthy e pool h n core w
     \<and> (node_phase n \<noteq> TensorFusionGPUPhaseRunning \<or> hypervisor_ok e h (nw_hypervisor w))
     \<and> (k \<le> 3 \<longrightarrow> has_finalizer n) \<and> (k \<le> 2 \<longrightarrow> hypervisor_ok e h (nw_hypervisor w))
     \<and> (k \<le> 1 \<longrightarrow> (\<exists>p. nw_hypervisor w = Some p \<and> pod_ready p))
     \<and> (k = 0 \<longrightarrow> node_phase n = TensorFusionGPUPhaseRunning \<and> (\<forall>g \<in> set (nw_gpus w). gpu_Phase g = TensorFusionGPUPhaseRunning)
          \<and> (let c = get_str (om_Labels (gn_Meta n)) ProvisionerLabelKey in c = '''' \<or> map_of (nw_claims w) c = Some GPUNodeClaimBound)))"

lemma kubelet_frame [simp]:
  "nw_node (kubelet w) = nw_node w" "nw_core (kubelet w) = nw_core w" "nw_job (kubelet w) = nw_job w"
  "nw_gpus (kubelet w) = nw_gpus w" "nw_claims (kubelet w) = nw_claims w"
  by (simp_all add: kubelet_def split: option.split)

lemma healthy_kubelet [simp]: "healthy e pool h n core (kubelet w) = healthy e pool h n core w"
  by (simp add: healthy_def)

lemma kubelet_hypervisor:
  "hypervisor_ok e h (nw_hypervisor w) \<Longrightarrow> hypervisor_ok e h (nw_hypervisor (kubelet w))"
  "nw_hypervisor w = Some p \<Longrightarrow> pod_current e h p \<Longrightarrow> \<exists>q. nw_hypervisor (kubelet w) = Some q \<and> pod_ready q \<and> pod_current e h q"
  by (auto simp: hypervisor_ok_def kubelet_def pod_current_def pod_ready_def IsPodStopped_def split: option.splits)

lemma createHypervisorPod_name:
  assumes "node_name m = node_name n"
  shows "createHypervisorPod e pool h m = createHypervisorPod e pool h n"
  unfolding createHypervisorPod_def hypervisor_name_def assms ..

text \<open>Only the phase and the finalizers of the node may change for it to stay healthy.\<close>

lemma healthy_node_cong:
  assumes "healthy_node e pool h n" "node_name m = node_name n" "om_Labels (gn_Meta m) = om_Labels (gn_Meta n)"
    and "om_Deleting (gn_Meta m) = om_Deleting (gn_Meta n)" "gn_TotalGPUs m = gn_TotalGPUs n"
  shows "healthy_node e pool h m"
  using assms createHypervisorPod_name [OF assms(2)] by (simp add: healthy_node_def)

lemma round_adds_finalizer:
  assumes "undisturbed e" "healthy e pool h n core w" "\<not> has_finalizer n"
  shows "fst (gpunode_Reconcile e w) = w\<lparr>nw_node := Some (n\<lparr>gn_Meta := (gn_Meta n)\<lparr>om_Finalizers := om_Finalizers (gn_Meta n) @ [Finalizer]\<rparr>\<rparr>)\<rparr>"
  using assms by (simp add: gpunode_Reconcile_def undisturbed_def healthy_def healthy_node_def has_finalizer_def HandleFinalizer_def)

lemma round_live:
  assumes "undisturbed e" "healthy e pool h n core w" "has_finalizer n"
  shows "gpunode_Reconcile e w = reconcile_live_node e pool n core w"
proof -
  have "w\<lparr>nw_node := Some n\<rparr> = w" using assms(2) by (simp add: healthy_def)
  moreover have "gpunode_Reconcile e w = reconcile_live_node e pool n core (w\<lparr>nw_node := Some n\<rparr>)"
    using assms by (simp add: gpunode_Reconcile_def undisturbed_def healthy_def healthy_node_def has_finalizer_def HandleFinalizer_def)
  ultimately show ?thesis by (simp only:)
qed

lemma job_round:
  assumes "undisturbed e" "healthy e pool h n core w"
  obtains j where "reconcileNodeDiscoveryJob e pool n w = (w\<lparr>nw_job := Some j\<rparr>, Inr n)" "dj_Failed j \<le> 0"
proof -
  obtain new where new: "discovery_job_of e pool (node_name n) = Inr new" using assms(2) by (auto simp: healthy_def healthy_node_def)
  then have "dj_Failed new = 0" by (auto simp: discovery_job_of_def split: option.splits)
  then show thesis
  proof (cases "nw_job w")
    case None
    then show thesis using that [of new] new assms(1) \<open>dj_Failed new = 0\<close> by (simp add: reconcileNodeDiscoveryJob_def undisturbed_def)
  next
    case (Some j)
    then have "w\<lparr>nw_job := Some j\<rparr> = w" by simp
    moreover have "dj_Failed j \<le> 0" using assms(2) Some by (simp add: healthy_def)
    ultimately show thesis using that [of j] new assms(1) Some by (simp add: reconcileNodeDiscoveryJob_def undisturbed_def)
  qed
qed

lemma capacity_models:
  assumes "foldl capacity_step acc gs = (st, pods, models)" "(\<exists>g \<in> set gs. known_gpu g) \<or> snd (snd acc) \<noteq> []"
  shows "models \<noteq> []"
  using assms
proof (induction gs arbitrary: acc)
  case (Cons g gs)
  obtain st0 p0 m0 where acc: "acc = (st0, p0, m0)" using prod_cases3 by blast
  have "snd (snd (capacity_step acc g)) \<noteq> []" if "known_gpu g \<or> m0 \<noteq> []"
    using that by (auto simp: capacity_step_def acc known_gpu_def split: option.splits)
  then show ?case using Cons.IH [of "capacity_step acc g"] Cons.prems by (auto simp: acc)
qed auto

lemma refresh_round:
  assumes "undisturbed e" "\<exists>g \<in> set (nw_gpus w). known_gpu g" "nw_node w = Some n" "nw_core w = Some core"
  obtains n' core' models where "refresh_capacity e pool n core w = (w\<lparr>nw_node := Some n', nw_core := Some core'\<rparr>, Some (models, n'))"
    "models \<noteq> []" "node_phase n' = TensorFusionGPUPhaseRunning" "gn_Meta n' = gn_Meta n" "gn_TotalGPUs n' = gn_TotalGPUs n"
    "cor_Deleting core' = cor_Deleting core" "cor_Labels core' = cor_Labels core"
proof -
  let ?st0 = "(gn_Status n)\<lparr>ns_AvailableVRAM := 0, ns_AvailableTFlops := 0, ns_TotalTFlops := 0, ns_TotalVRAM := 0, ns_AllocatedPods := []\<rparr>"
  obtain st2 pods models where f: "foldl capacity_step (?st0, [], []) (nw_gpus w) = (st2, pods, models)" using prod_cases3 by blast
  obtain v t where v: "calculateVirtualCapacity (nv_ext e) st2 (np_Oversubscription pool) = (v, t)" by (rule prod.exhaust)
  have "nw_gpus w \<noteq> []" using assms(2) by auto
  then obtain st action where r: "RefreshGPUNodeCapacity (nv_ext e) (node_name n) (nw_gpus w) (np_Oversubscription pool) (nv_allocator e)
      (Some (cor_Tainted core)) (gn_Status n) = Some (st, models, action)" and st1: "ns_Phase st = TensorFusionGPUPhaseRunning"
    by (simp add: RefreshGPUNodeCapacity_def f v Let_def)
  note st = st1 capacity_models [OF f disjI1 [OF assms(2)]]
  let ?n = "n\<lparr>gn_Status := st\<rparr>"
  let ?t = "case action of AddTaint \<Rightarrow> True | RemoveTaint \<Rightarrow> False | KeepTaint \<Rightarrow> cor_Tainted core"
  have "refresh_capacity e pool n core w = (w\<lparr>nw_node := Some ?n, nw_core := Some (core\<lparr>cor_Tainted := ?t\<rparr>)\<rparr>, Some (models, ?n))"
  proof (cases "?t = cor_Tainted core")
    case True
    then have "core\<lparr>cor_Tainted := ?t\<rparr> = core" by simp
    moreover have "w\<lparr>nw_node := Some ?n, nw_core := Some core\<rparr> = w\<lparr>nw_node := Some ?n\<rparr>" using assms(4) by simp
    ultimately show ?thesis using assms(1) r True by (simp add: refresh_capacity_def undisturbed_def Let_def)
  next
    case False
    then show ?thesis using assms(1) r by (simp add: refresh_capacity_def undisturbed_def Let_def)
  qed
  then show thesis using that st by simp
qed

text \<open>The round once the hypervisor pod is known: a pod that is not ready leaves the node pending.\<close>

lemma check_pending:
  assumes "undisturbed e" "nw_hypervisor w = Some p" "\<not> pod_ready p"
  shows "fst (checkStatusAndUpdateVirtualCapacity e pool n core w) =
    w\<lparr>nw_node := Some (set_phase TensorFusionGPUPhasePending n), nw_gpus := map (\<lambda>g. g\<lparr>gpu_Phase := TensorFusionGPUPhasePending\<rparr>) (nw_gpus w)\<rparr>"
  using assms
  by (auto simp: checkStatusAndUpdateVirtualCapacity_def pod_ready_def undisturbed_def syncStatusToGPUDevices_def sync_gpu_phases_ok)

lemma bind_claim_ok:
  assumes "undisturbed e" "c = get_str (om_Labels (gn_Meta n)) ProvisionerLabelKey" "c = '''' \<or> map_of (nw_claims w) c \<noteq> None"
  obtains cl where "bind_claim e n w = (w\<lparr>nw_claims := cl\<rparr>, None)" "c = '''' \<or> map_of cl c = Some GPUNodeClaimBound"
proof (cases "c = '''' \<or> map_of (nw_claims w) c = Some GPUNodeClaimBound")
  case True
  then have "bind_claim e n w = (w, None)" using assms(1,2) by (auto simp: bind_claim_def undisturbed_def Let_def)
  then show thesis using that [of "nw_claims w"] True by simp
next
  case False
  then obtain ph where "map_of (nw_claims w) c = Some ph" "ph \<noteq> GPUNodeClaimBound" "c \<noteq> ''''" using assms(3) by auto
  then have "bind_claim e n w = (w\<lparr>nw_claims := AList.update c GPUNodeClaimBound (nw_claims w)\<rparr>, None)"
    using assms(1,2) by (simp add: bind_claim_def undisturbed_def Let_def)
  then show thesis by (rule that) (simp add: update_conv)
qed

lemma check_running:
  assumes "undisturbed e" "nw_hypervisor w = Some p" "pod_ready p" "healthy e pool h n core w"
  obtains w' n' core' where "fst (checkStatusAndUpdateVirtualCapacity e pool n core w) = w'" "healthy e pool h n' core' w'"
    "gn_Meta n' = gn_Meta n" "node_phase n' = TensorFusionGPUPhaseRunning" "nw_hypervisor w' = nw_hypervisor w"
    "\<forall>g \<in> set (nw_gpus w'). gpu_Phase g = TensorFusionGPUPhaseRunning"
    "let c = get_str (om_Labels (gn_Meta n')) ProvisionerLabelKey in c = '''' \<or> map_of (nw_claims w') c = Some GPUNodeClaimBound"
proof -
  note hw = assms(4) [unfolded healthy_def]
  obtain n' core' models where r: "refresh_capacity e pool n core w = (w\<lparr>nw_node := Some n', nw_core := Some core'\<rparr>, Some (models, n'))"
    "models \<noteq> []" "node_phase n' = TensorFusionGPUPhaseRunning" "gn_Meta n' = gn_Meta n" "gn_TotalGPUs n' = gn_TotalGPUs n"
    "cor_Deleting core' = cor_Deleting core" "cor_Labels core' = cor_Labels core"
    by (rule refresh_round [OF assms(1)]) (use hw in blast)+
  let ?w1 = "w\<lparr>nw_node := Some n', nw_core := Some core'\<rparr>"
  let ?c = "get_str (om_Labels (gn_Meta n')) ProvisionerLabelKey"
  have c: "?c = '''' \<or> map_of (nw_claims ?w1) ?c \<noteq> None" using hw r(4) by (auto simp: Let_def)
  obtain cl where b: "bind_claim e n' ?w1 = (?w1\<lparr>nw_claims := cl\<rparr>, None)" "?c = '''' \<or> map_of cl ?c = Some GPUNodeClaimBound"
    by (rule bind_claim_ok [OF assms(1) refl c])
  let ?gs = "map (\<lambda>g. g\<lparr>gpu_Phase := TensorFusionGPUPhaseRunning\<rparr>) (nw_gpus w)"
  let ?w3 = "?w1\<lparr>nw_claims := cl, nw_gpus := ?gs\<rparr>"
  let ?s = "get_str (cor_Labels core) KarpenterExpansionLabel"
  define w4 where "w4 = (if ?s = '''' then ?w3 else ?w3\<lparr>nw_expander := RemoveInFlightNode ?s (nw_expander ?w3)\<rparr>)"
  have f: "nw_node w4 = Some n'" "nw_core w4 = Some core'" "nw_job w4 = nw_job w" "nw_gpus w4 = ?gs" "nw_claims w4 = cl"
    "nw_hypervisor w4 = nw_hypervisor w" by (simp_all add: w4_def)
  have "fst (checkStatusAndUpdateVirtualCapacity e pool n core w) = w4"
    using assms(1-3) r(1,2) b(1)
    by (simp add: checkStatusAndUpdateVirtualCapacity_def pod_ready_def undisturbed_def syncStatusToGPUDevices_def sync_gpu_phases_ok Let_def w4_def)
  moreover have "healthy_node e pool h n"  using assms(4) by (simp add: healthy_def)
  then have "healthy_node e pool h n'" by (rule healthy_node_cong) (simp_all add: r(4,5))
  then have "healthy e pool h n' core' w4"
    unfolding healthy_def f Let_def using hw r(6) b(2) by (auto simp: known_gpu_def)
  ultimately show thesis by (rule that) (use b(2) r(3,4) f in \<open>simp_all add: Let_def\<close>)
qed

lemma live_round:
  assumes "undisturbed e" "healthy e pool h n core w" "has_finalizer n"
  obtains j where "dj_Failed j \<le> 0" "healthy e pool h n core (w\<lparr>nw_job := Some j\<rparr>)"
    "fst (gpunode_Reconcile e w) = (case reconcileHypervisorPod e pool n (w\<lparr>nw_job := Some j\<rparr>) of
       (w2, Inr True) \<Rightarrow> fst (checkStatusAndUpdateVirtualCapacity e pool n core w2) | (w2, _) \<Rightarrow> w2)"
proof -
  obtain j where j: "reconcileNodeDiscoveryJob e pool n w = (w\<lparr>nw_job := Some j\<rparr>, Inr n)" "dj_Failed j \<le> 0"
    by (rule job_round [OF assms(1,2)])
  have "healthy e pool h n core (w\<lparr>nw_job := Some j\<rparr>)" using assms(2) j(2) by (simp add: healthy_def)
  moreover have "\<not> wait_allocatable e core" "gn_TotalGPUs n \<noteq> 0"
    using assms(1,2) by (simp_all add: wait_allocatable_def undisturbed_def healthy_def healthy_node_def)
  then have "fst (gpunode_Reconcile e w) = (case reconcileHypervisorPod e pool n (w\<lparr>nw_job := Some j\<rparr>) of
       (w2, Inr True) \<Rightarrow> fst (checkStatusAndUpdateVirtualCapacity e pool n core w2) | (w2, _) \<Rightarrow> w2)"
    by (simp add: round_live [OF assms] reconcile_live_node_def j(1) split: prod.split sum.split bool.split)
  ultimately show thesis using that j(2) by blast
qed

lemma hypervisor_round:
  assumes "undisturbed e" "healthy e pool h n core w" "pool_hypervisor pool = Some h"
    and "node_phase n \<noteq> TensorFusionGPUPhaseRunning \<or> hypervisor_ok e h (nw_hypervisor w)"
  shows "if hypervisor_ok e h (nw_hypervisor w)
    then \<exists>p. reconcileHypervisorPod e pool n w = (w\<lparr>nw_hypervisor := Some p\<rparr>, Inr True) \<and> pod_current e h p
           \<and> (nw_hypervisor w = Some p \<or> nw_hypervisor w = None \<and> \<not> pod_ready p)
    else \<exists>p. reconcileHypervisorPod e pool n w = (w\<lparr>nw_hypervisor := Some p\<rparr>, Inr False) \<and> pod_deleting p"
proof (cases "nw_hypervisor w")
  case None
  obtain p where p: "createHypervisorPod e pool h n = Inr p" using assms(2) by (auto simp: healthy_def healthy_node_def)
  then show ?thesis using None assms(1,3) createHypervisorPod_current [OF p]
    by (auto simp: hypervisor_ok_def reconcileHypervisorPod_def undisturbed_def pool_hypervisor_def pod_ready_def intro!: exI [of _ p])
next
  case (Some p)
  then have same: "w\<lparr>nw_hypervisor := Some p\<rparr> = w" by simp
  show ?thesis
  proof (cases "pod_current e h p")
    case True
    then have "reconcileHypervisorPod e pool n w = (w, Inr True)" using Some assms(1,3)
      by (auto simp: reconcileHypervisorPod_def undisturbed_def pool_hypervisor_def pod_current_def)
    then show ?thesis using True Some same by (auto simp: hypervisor_ok_def)
  next
    case False
    then have ph: "node_phase n \<noteq> TensorFusionGPUPhaseRunning" using assms(4) Some by (simp add: hypervisor_ok_def)
    have "reconcileHypervisorPod e pool n w = (w\<lparr>nw_hypervisor := Some (if pod_deleting p then p else mark_deleting p)\<rparr>, Inr False)"
      using Some assms(1,3) ph False same
      by (auto simp: reconcileHypervisorPod_def undisturbed_def pool_hypervisor_def pod_current_def)
    moreover have "pod_deleting (if pod_deleting p then p else mark_deleting p)" by (simp add: mark_deleting_def)
    ultimately show ?thesis using False Some by (simp only: hypervisor_ok_def option.case if_False) blast
  qed
qed

lemma healthy_hypervisor [simp]: "healthy e pool h n core (w\<lparr>nw_hypervisor := p\<rparr>) = healthy e pool h n core w"
  by (simp add: healthy_def)

lemma healthy_pending:
  assumes "healthy e pool h n core w"
  shows "healthy e pool h (set_phase ph n) core
    (w\<lparr>nw_node := Some (set_phase ph n), nw_gpus := map (\<lambda>g. g\<lparr>gpu_Phase := ph\<rparr>) (nw_gpus w)\<rparr>)"
proof -
  have "healthy_node e pool h n" using assms by (simp add: healthy_def)
  then have "healthy_node e pool h (set_phase ph n)" by (rule healthy_node_cong) (simp_all add: set_phase_def)
  then show ?thesis using assms by (simp add: healthy_def known_gpu_def set_phase_def)
qed

text \<open>One stage per step.\<close>

lemma stage_usable:
  assumes "undisturbed e" "healthy e pool h n core w" "has_finalizer n" "pool_hypervisor pool = Some h"
    and "hypervisor_ok e h (nw_hypervisor w)"
  shows "stage e pool h (if \<exists>p. nw_hypervisor w = Some p \<and> pod_ready p then 0 else 1) (node_step e w)"
proof -
  obtain j where h1: "healthy e pool h n core (w\<lparr>nw_job := Some j\<rparr>)"
    and R: "fst (gpunode_Reconcile e w) = (case reconcileHypervisorPod e pool n (w\<lparr>nw_job := Some j\<rparr>) of
       (w2, Inr True) \<Rightarrow> fst (checkStatusAndUpdateVirtualCapacity e pool n core w2) | (w2, _) \<Rightarrow> w2)"
    by (rule live_round [OF assms(1-3)])
  let ?w1 = "w\<lparr>nw_job := Some j\<rparr>"
  obtain p where p: "reconcileHypervisorPod e pool n ?w1 = (?w1\<lparr>nw_hypervisor := Some p\<rparr>, Inr True)" "pod_current e h p"
    "nw_hypervisor w = Some p \<or> nw_hypervisor w = None \<and> \<not> pod_ready p"
  proof -
    have ok: "hypervisor_ok e h (nw_hypervisor ?w1)" using assms(5) by simp
    have "\<exists>p. reconcileHypervisorPod e pool n ?w1 = (?w1\<lparr>nw_hypervisor := Some p\<rparr>, Inr True) \<and> pod_current e h p
        \<and> (nw_hypervisor ?w1 = Some p \<or> nw_hypervisor ?w1 = None \<and> \<not> pod_ready p)"
      using hypervisor_round [OF assms(1) h1 assms(4) disjI2 [OF ok]] by (simp only: ok if_True)
    then show thesis using that by auto
  qed
  let ?w2 = "?w1\<lparr>nw_hypervisor := Some p\<rparr>"
  have h2: "healthy e pool h n core ?w2" using h1 by simp
  note R2 = R [unfolded p(1) prod.case sum.case bool.case]
  show ?thesis
  proof (cases "pod_ready p")
    case True
    obtain w' n' core' where c: "fst (checkStatusAndUpdateVirtualCapacity e pool n core ?w2) = w'" "healthy e pool h n' core' w'"
      "gn_Meta n' = gn_Meta n" "node_phase n' = TensorFusionGPUPhaseRunning" "nw_hypervisor w' = Some p"
      "\<forall>g \<in> set (nw_gpus w'). gpu_Phase g = TensorFusionGPUPhaseRunning"
      "let c = get_str (om_Labels (gn_Meta n')) ProvisionerLabelKey in c = '''' \<or> map_of (nw_claims w') c = Some GPUNodeClaimBound"
      by (rule check_running [OF assms(1) _ True h2]) simp_all
    obtain q where q: "nw_hypervisor (kubelet w') = Some q" "pod_ready q" "pod_current e h q"
      using kubelet_hypervisor(2) [OF c(5) p(2)] by blast
    have "stage e pool h 0 (kubelet w')"
      unfolding stage_def using c q assms(3)
      by (intro exI [of _ n'] exI [of _ core']) (simp add: hypervisor_ok_def has_finalizer_def)
    moreover have "\<exists>p. nw_hypervisor w = Some p \<and> pod_ready p" using p(3) True by auto
    ultimately show ?thesis using R2 c(1) by (simp add: node_step_def)
  next
    case False
    let ?w3 = "fst (checkStatusAndUpdateVirtualCapacity e pool n core ?w2)"
    have w3: "?w3 = ?w2\<lparr>nw_node := Some (set_phase TensorFusionGPUPhasePending n),
        nw_gpus := map (\<lambda>g. g\<lparr>gpu_Phase := TensorFusionGPUPhasePending\<rparr>) (nw_gpus ?w2)\<rparr>"
      by (rule check_pending [OF assms(1) _ False]) simp
    have h3: "healthy e pool h (set_phase TensorFusionGPUPhasePending n) core ?w3" unfolding w3 by (rule healthy_pending [OF h2])
    have "nw_hypervisor ?w3 = Some p" unfolding w3 by simp
    then obtain q where q: "nw_hypervisor (kubelet ?w3) = Some q" "pod_ready q" "pod_current e h q"
      using kubelet_hypervisor(2) [OF _ p(2)] by blast
    have "stage e pool h 1 (kubelet ?w3)"
      unfolding stage_def using h3 q assms(3)
      by (intro exI [of _ "set_phase TensorFusionGPUPhasePending n"] exI [of _ core]) (simp add: hypervisor_ok_def has_finalizer_def set_phase_def)
    moreover have "\<not> (\<exists>p. nw_hypervisor w = Some p \<and> pod_ready p)" using p(3) False by auto
    ultimately show ?thesis using R2 by (auto simp: node_step_def)
  qed
qed

lemma stage_mono:
  assumes "stage e pool h k w" "k \<le> k'"
  shows "stage e pool h k' w"
proof -
  have le: "k' \<le> m \<Longrightarrow> k \<le> m" "k' = 0 \<Longrightarrow> k = 0" for m using assms(2) by simp_all
  show ?thesis using assms(1) unfolding stage_def by (elim ex_forward conj_forward imp_forward le) assumption+
qed

lemma stage_unusable:
  assumes "undisturbed e" "healthy e pool h n core w" "has_finalizer n" "pool_hypervisor pool = Some h"
    and "node_phase n \<noteq> TensorFusionGPUPhaseRunning" "\<not> hypervisor_ok e h (nw_hypervisor w)"
  shows "stage e pool h 2 (node_step e w)"
proof -
  obtain j where h1: "healthy e pool h n core (w\<lparr>nw_job := Some j\<rparr>)"
    and R: "fst (gpunode_Reconcile e w) = (case reconcileHypervisorPod e pool n (w\<lparr>nw_job := Some j\<rparr>) of
       (w2, Inr True) \<Rightarrow> fst (checkStatusAndUpdateVirtualCapacity e pool n core w2) | (w2, _) \<Rightarrow> w2)"
    by (rule live_round [OF assms(1-3)])
  let ?w1 = "w\<lparr>nw_job := Some j\<rparr>"
  have no: "\<not> hypervisor_ok e h (nw_hypervisor ?w1)" using assms(6) by simp
  have "\<exists>p. reconcileHypervisorPod e pool n ?w1 = (?w1\<lparr>nw_hypervisor := Some p\<rparr>, Inr False) \<and> pod_deleting p"
    using hypervisor_round [OF assms(1) h1 assms(4) disjI1 [OF assms(5)]] by (simp only: no if_False)
  then obtain p where p: "reconcileHypervisorPod e pool n ?w1 = (?w1\<lparr>nw_hypervisor := Some p\<rparr>, Inr False)" "pod_deleting p" by blast
  have w2: "node_step e w = ?w1\<lparr>nw_hypervisor := None\<rparr>"
    using R p by (simp add: node_step_def kubelet_def)
  have "healthy e pool h n core (node_step e w)" unfolding w2 using h1 by simp
  moreover have "nw_hypervisor (node_step e w) = None" unfolding w2 by simp
  ultimately show ?thesis
    unfolding stage_def using assms(3,5) by (intro exI [of _ n] exI [of _ core]) (simp add: hypervisor_ok_def)
qed

lemma stage_step:
  assumes "undisturbed e" "pool_hypervisor pool = Some h" "stage e pool h k w" "k \<le> 4"
  shows "stage e pool h (k - 1) (node_step e w)"
proof -
  obtain n core where s: "healthy e pool h n core w"
    "node_phase n \<noteq> TensorFusionGPUPhaseRunning \<or> hypervisor_ok e h (nw_hypervisor w)"
    "k \<le> 3 \<longrightarrow> has_finalizer n" "k \<le> 2 \<longrightarrow> hypervisor_ok e h (nw_hypervisor w)"
    "k \<le> 1 \<longrightarrow> (\<exists>p. nw_hypervisor w = Some p \<and> pod_ready p)"
    using assms(3) unfolding stage_def by blast
  show ?thesis
  proof (cases "has_finalizer n")
    case fin: True
    show ?thesis
    proof (cases "hypervisor_ok e h (nw_hypervisor w)")
      case True
      note u = stage_usable [OF assms(1) s(1) fin assms(2) True]
      show ?thesis
      proof (cases "k \<le> 1")
        case True
        then show ?thesis using u s(5) by auto
      next
        case False
        then have "(if \<exists>p. nw_hypervisor w = Some p \<and> pod_ready p then 0 else 1) \<le> k - 1" by (cases k) auto
        then show ?thesis by (rule stage_mono [OF u])
      qed
    next
      case False
      then have "node_phase n \<noteq> TensorFusionGPUPhaseRunning" "3 \<le> k" using s(2,4) by auto
      then show ?thesis using stage_mono [OF stage_unusable [OF assms(1) s(1) fin assms(2) _ False], of "k - 1"] by simp
    qed
  next
    case False
    let ?n = "n\<lparr>gn_Meta := (gn_Meta n)\<lparr>om_Finalizers := om_Finalizers (gn_Meta n) @ [Finalizer]\<rparr>\<rparr>"
    let ?w = "w\<lparr>nw_node := Some ?n\<rparr>"
    have k: "k = 4" using False s(3) assms(4) by linarith
    have step: "node_step e w = kubelet ?w" by (simp add: node_step_def round_adds_finalizer [OF assms(1) s(1) False])
    have "healthy_node e pool h n" using s(1) by (simp add: healthy_def)
    then have "healthy_node e pool h ?n" by (rule healthy_node_cong) simp_all
    then have "healthy e pool h ?n core ?w" using s(1) by (simp add: healthy_def)
    moreover have "hypervisor_ok e h (nw_hypervisor w) \<Longrightarrow> hypervisor_ok e h (nw_hypervisor (kubelet ?w))"
      using kubelet_hypervisor(1) [of e h ?w] by simp
    ultimately show ?thesis
      unfolding stage_def step k using s(2) by (intro exI [of _ ?n] exI [of _ core]) (auto simp: has_finalizer_def)
  qed
qed

text \<open>
  C18: a node whose GPUs are discovered becomes running. If the API server accepts every request and the
  templates of the pool are usable, then whatever state its hypervisor pod is in (missing, stopped, outdated, being
  deleted, starting), after at most four rounds with the Kubernetes node working in between, and for ever after, the
  node and all its GPUs are in the phase Running, its claim is bound, and its hypervisor pod is ready and current.
\<close>

theorem node_becomes_running:
  assumes "undisturbed e" "pool_hypervisor pool = Some h" "healthy e pool h n core w" "node_phase n \<noteq> TensorFusionGPUPhaseRunning"
    and "4 \<le> k" "w' = (node_step e ^^ k) w"
  shows "\<exists>n' p. nw_node w' = Some n' \<and> node_phase n' = TensorFusionGPUPhaseRunning
    \<and> nw_hypervisor w' = Some p \<and> pod_ready p \<and> pod_current e h p
    \<and> (\<forall>g \<in> set (nw_gpus w'). gpu_Phase g = TensorFusionGPUPhaseRunning)
    \<and> (let c = get_str (om_Labels (gn_Meta n')) ProvisionerLabelKey in c = '''' \<or> map_of (nw_claims w') c = Some GPUNodeClaimBound)"
proof -
  have "stage e pool h 4 w" unfolding stage_def using assms(3,4) by (intro exI [of _ n] exI [of _ core]) simp
  then have "stage e pool h (4 - k) ((node_step e ^^ k) w)" for k
  proof (induction k)
    case (Suc k)
    have "stage e pool h (4 - k - 1) (node_step e ((node_step e ^^ k) w))"
      by (rule stage_step [OF assms(1,2) Suc.IH [OF Suc.prems]]) simp
    then show ?case by simp
  qed simp
  from this [of k] have "stage e pool h 0 w'" using assms(5,6) by simp
  then show ?thesis unfolding stage_def by (auto simp: healthy_def hypervisor_ok_def)
qed

section \<open>A sample node\<close>

definition ex_template :: pod_template where
  "ex_template = \<lparr>pt_Labels = [], pt_Annotations = [], pt_Spec = ex_spec0\<rparr>"

definition ex_hypervisor :: hypervisor_config where
  "ex_hypervisor = \<lparr>hc_Image = ''hypervisor'', hc_VectorImage = ''vector'', hc_PortNumber = None, hc_PodTemplate = Some ''{}'',
     hc_EnableVector = False\<rparr>"

definition ex_node_pool :: node_pool where
  "ex_node_pool = \<lparr>np_Config = ex_pool0\<lparr>cpl_ComponentConfig := Some (ex_components\<lparr>cfg_Hypervisor := Some ex_hypervisor,
       cfg_NodeDiscovery := Some \<lparr>nd_Image = ''discovery'', nd_PodTemplate = Some ''{}''\<rparr>\<rparr>)\<rparr>,
     np_Oversubscription = None, np_SchedulingTemplate = None\<rparr>"

definition ex_node_env :: node_env where
  "ex_node_env = \<lparr>nv_ext = ex_ext, nv_compose = ex_compose\<lparr>ce_unmarshalTemplate := (\<lambda>_. Some ex_template)\<rparr>, nv_allocator = ex_s0,
     nv_namespace = ''sys'', nv_pool = (\<lambda>n. if n = ''pool'' then Some ex_node_pool else None), nv_waitAllocatable = False,
     nv_toolkit = False, nv_hypervisorJSON = (\<lambda>_. ''{}''), nv_schedulingHypervisor = (\<lambda>_. None), nv_extraLabels = None,
     nv_metricsFormat = '''', nv_getOK = True, nv_finalizerOK = True, nv_destroyOK = True, nv_coreGetOK = True, nv_deleteOK = True,
     nv_jobGetOK = True, nv_jobOwnerOK = True, nv_jobCreateOK = True, nv_failedOK = True, nv_podGetOK = True, nv_podDeleteOK = True,
     nv_podOwnerOK = True, nv_podCreate = Created, nv_podCheck = True, nv_pendingOK = True, nv_capacityOK = True,
     nv_coreUpdateOK = True, nv_listOK = True, nv_gpuPatchOK = (\<lambda>_. True), nv_claimGetOK = True, nv_claimUpdateOK = True\<rparr>"

definition ex_managed_node :: managed_node where
  "ex_managed_node = \<lparr>gn_Meta = \<lparr>om_Name = ''n1'', om_Namespace = '''', om_UID = ''u'', om_Labels = [(''tensor-fusion.ai/pool-pool'', ''true''),
       (ProvisionerLabelKey, ''claim'')], om_Annotations = [], om_Deleting = False, om_Finalizers = []\<rparr>, gn_TotalGPUs = 1,
     gn_Status = \<lparr>ns_TotalTFlops = 0, ns_TotalVRAM = 0, ns_AvailableTFlops = 0, ns_AvailableVRAM = 0, ns_VirtualTFlops = 0, ns_VirtualVRAM = 0,
       ns_VirtualAvailableTFlops = None, ns_VirtualAvailableVRAM = None, ns_AllocatedPods = [], ns_TotalGPUPods = 0, ns_Phase = ''Pending'',
       ns_DataDiskSize = 0, ns_RAMSize = 0\<rparr>\<rparr>"

definition ex_node_world :: node_world where
  "ex_node_world = \<lparr>nw_node = Some ex_managed_node, nw_core = Some empty_core_node, nw_job = None,
     nw_hypervisor = Some \<lparr>hp_Pod = ex_kpod [(LabelKeyPodTemplateHash, ''old'')] [], hp_Phase = ''Failed'', hp_Conditions = []\<rparr>,
     nw_gpus = [ex_gpu ''g1'' ''n1'' 100], nw_claims = [(''claim'', ''Creating'')],
     nw_expander = \<lparr>inFlightNodes = [], inFlightNodeClaims = [], preSchedulePods = [], preScheduleTimers = []\<rparr>\<rparr>"

lemma ex_node_templates:
  "\<exists>j. discovery_job_of ex_node_env ex_node_pool n = Inr j" "\<exists>p. createHypervisorPod ex_node_env ex_node_pool ex_hypervisor m = Inr p"
proof -
  have "AddTFNodeDiscoveryConfAfterTemplate c (np_Config ex_node_pool) n t s \<noteq> None"
    "AddTFHypervisorConfAfterTemplate c (np_Config ex_node_pool) s \<noteq> None" for c n t s
    by (simp_all add: AddTFNodeDiscoveryConfAfterTemplate_def AddTFHypervisorConfAfterTemplate_def ex_node_pool_def ex_components_def
        ex_hypervisor_def Let_def)
  moreover obtain cc nd where "cpl_ComponentConfig (np_Config ex_node_pool) = Some cc" "cfg_NodeDiscovery cc = Some nd"
    "nd_PodTemplate nd = Some ''{}''" "np_SchedulingTemplate ex_node_pool = None"
    by (simp add: ex_node_pool_def)
  moreover have "ce_unmarshalTemplate (nv_compose ex_node_env) r = Some ex_template" "nv_podOwnerOK ex_node_env"
    "nv_podCreate ex_node_env = Created" "hc_PodTemplate ex_hypervisor = Some ''{}''" for r
    by (simp_all add: ex_node_env_def ex_hypervisor_def)
  ultimately show "\<exists>j. discovery_job_of ex_node_env ex_node_pool n = Inr j"
    "\<exists>p. createHypervisorPod ex_node_env ex_node_pool ex_hypervisor m = Inr p"
    by (auto simp: discovery_job_of_def createHypervisorPod_def scheduling_envs_def Let_def split: option.split)
qed

lemma ex_node_healthy: "healthy ex_node_env ex_node_pool ex_hypervisor ex_managed_node empty_core_node ex_node_world"
  using ex_node_templates
  by (simp add: healthy_def healthy_node_def ex_node_world_def ex_managed_node_def ex_node_env_def empty_core_node_def known_gpu_def
      ex_gpu_def get_str_def ProvisionerLabelKey_def GPUNodePoolIdentifierLabelPrefix_def)

theorem node_becomes_running_witness:
  "\<exists>n' p. nw_node ((node_step ex_node_env ^^ 4) ex_node_world) = Some n' \<and> node_phase n' = TensorFusionGPUPhaseRunning
     \<and> nw_hypervisor ((node_step ex_node_env ^^ 4) ex_node_world) = Some p \<and> pod_ready p"
proof -
  have "undisturbed ex_node_env" "pool_hypervisor ex_node_pool = Some ex_hypervisor" "node_phase ex_managed_node \<noteq> TensorFusionGPUPhaseRunning"
    by (simp_all add: undisturbed_def ex_node_env_def pool_hypervisor_def ex_node_pool_def ex_managed_node_def TensorFusionGPUPhaseRunning_def)
  from node_becomes_running [OF this(1,2) ex_node_healthy this(3) order_refl refl] show ?thesis by blast
qed

definition ex_ready_world :: node_world where
  "ex_ready_world = ex_node_world\<lparr>nw_node := Some (ex_managed_node\<lparr>gn_Meta := (gn_Meta ex_managed_node)\<lparr>om_Finalizers := [Finalizer]\<rparr>\<rparr>),
     nw_hypervisor := Some \<lparr>hp_Pod = ex_kpod [(LabelKeyPodTemplateHash, hypervisor_hash ex_node_env ex_hypervisor)] [],
       hp_Phase = ''Running'', hp_Conditions = [(''Ready'', ''True'')]\<rparr>\<rparr>"

theorem node_runs_with_current_hypervisor_witness:
  "\<exists>h p. pool_hypervisor ex_node_pool = Some h \<and> nw_hypervisor (fst (gpunode_Reconcile ex_node_env ex_ready_world)) = Some p
     \<and> pod_ready p \<and> \<not> pod_deleting p \<and> pod_hash p = hypervisor_hash ex_node_env h"
proof -
  let ?n = "ex_managed_node\<lparr>gn_Meta := (gn_Meta ex_managed_node)\<lparr>om_Finalizers := [Finalizer]\<rparr>\<rparr>"
  let ?p = "\<lparr>hp_Pod = ex_kpod [(LabelKeyPodTemplateHash, hypervisor_hash ex_node_env ex_hypervisor)] [], hp_Phase = ''Running'',
    hp_Conditions = [(''Ready'', ''True'')]\<rparr>"
  have u: "undisturbed ex_node_env" by (simp add: undisturbed_def ex_node_env_def)
  have f: "has_finalizer ?n" by (simp add: has_finalizer_def)
  have "healthy_node ex_node_env ex_node_pool ex_hypervisor ex_managed_node" using ex_node_healthy by (simp add: healthy_def)
  then have "healthy_node ex_node_env ex_node_pool ex_hypervisor ?n" by (rule healthy_node_cong) simp_all
  then have h: "healthy ex_node_env ex_node_pool ex_hypervisor ?n empty_core_node ex_ready_world"
    using ex_node_healthy by (simp add: healthy_def ex_ready_world_def)
  have p: "pool_hypervisor ex_node_pool = Some ex_hypervisor" by (simp add: pool_hypervisor_def ex_node_pool_def)
  have c: "pod_current ex_node_env ex_hypervisor ?p" "pod_ready ?p"
    by (simp_all add: pod_current_def pod_ready_def ex_kpod_def ex_pod_meta_def IsPodStopped_def get_str_def)
  then have "hypervisor_ok ex_node_env ex_hypervisor (nw_hypervisor ex_ready_world)" by (simp add: hypervisor_ok_def ex_ready_world_def)
  from stage_usable [OF u h f p this] c(2) have "stage ex_node_env ex_node_pool ex_hypervisor 0 (node_step ex_node_env ex_ready_world)"
    by (simp add: ex_ready_world_def)
  then obtain n' where n': "nw_node (fst (gpunode_Reconcile ex_node_env ex_ready_world)) = Some n'" "node_phase n' = TensorFusionGPUPhaseRunning"
    by (auto simp: stage_def node_step_def healthy_def)
  obtain w' out where R: "gpunode_Reconcile ex_node_env ex_ready_world = (w', out)" by (rule prod.exhaust)
  have n: "nw_node ex_ready_world = Some ?n" "node_phase ?n \<noteq> TensorFusionGPUPhaseRunning"
    by (simp_all add: ex_ready_world_def ex_managed_node_def TensorFusionGPUPhaseRunning_def)
  have "nv_pool ex_node_env (ExtractPoolNameFromNodeLabel (om_Labels (gn_Meta ?n))) = Some ex_node_pool"
    using ex_node_healthy by (simp add: healthy_def healthy_node_def)
  with node_runs_with_current_hypervisor [OF R n] n' R show ?thesis by auto
qed

end
