(* ===== verification/NodeControllers.thy ===== *)
theory NodeControllers
  imports GpuNode
begin

text \<open>
  The controllers of Kubernetes nodes (\<^verbatim>\<open>controller/node_controller.go\<close>), of node claims
  (\<^verbatim>\<open>controller/gpunodeclaim_controller.go\<close>) and of GPUs (\<^verbatim>\<open>controller/gpu_controller.go\<close>). The first
  makes a GPU node for every node a pool selects, the second a cloud instance for every claim. The node selector of
  a pool, \<^verbatim>\<open>SetControllerReference\<close> and the cloud provider are parameters.
\<close>

section \<open>Kubernetes nodes\<close>

record kube_node =
  ku_Name :: string
  ku_Labels :: "(string, string) gomap"
  ku_Unschedulable :: bool
  ku_Deleting :: bool
  ku_Owner :: "string option"  \<comment> \<open>the controlling claim\<close>

record selecting_pool =
  sp_Name :: string
  sp_Selector :: string  \<comment> \<open>serialised\<close>
  sp_Mode :: string  \<comment> \<open>the provisioning mode\<close>

record kube_world =
  kw_node :: "kube_node option"
  kw_gpunode :: "managed_node option"
  kw_manageMode :: string  \<comment> \<open>of the GPU node\<close>

record kube_env =
  kv_getOK :: bool
  kv_pools :: "selecting_pool list option"
  kv_matches :: "kube_node \<Rightarrow> string \<Rightarrow> bool option"  \<comment> \<open>\<^verbatim>\<open>MatchNodeSelectorTerms\<close>\<close>
  kv_gpunodeGetOK :: bool
  kv_gpunodeDeleteOK :: bool
  kv_gpunodeCreateOK :: bool
  kv_destroyOK :: bool
  kv_hashOK :: bool
  kv_gpunodeUpdateOK :: bool
  kv_claim :: "string \<Rightarrow> unit get_result"
  kv_orphanOK :: bool
  kv_ownerOK :: bool
  kv_canOwn :: "kube_node \<Rightarrow> string \<Rightarrow> bool"

definition ProvisionerMissingLabel :: string where "ProvisionerMissingLabel = ''tensor-fusion.ai/orphan''"

text \<open>\<open>None\<close> if a selector is invalid; else the first pool that matches.\<close>

fun getMatchedPoolName :: "kube_env \<Rightarrow> kube_node \<Rightarrow> selecting_pool list \<Rightarrow> selecting_pool option option" where
  "getMatchedPoolName e node [] = Some None"
| "getMatchedPoolName e node (p # ps) =
     (case kv_matches e node (sp_Selector p) of
        None \<Rightarrow> None
      | Some True \<Rightarrow> Some (Some p)
      | Some False \<Rightarrow> getMatchedPoolName e node ps)"

definition empty_node_status :: node_status where
  "empty_node_status = \<lparr>ns_TotalTFlops = 0, ns_TotalVRAM = 0, ns_AvailableTFlops = 0, ns_AvailableVRAM = 0, ns_VirtualTFlops = 0,
     ns_VirtualVRAM = 0, ns_VirtualAvailableTFlops = None, ns_VirtualAvailableVRAM = None, ns_AllocatedPods = [], ns_TotalGPUPods = 0,
     ns_Phase = '''', ns_DataDiskSize = 0, ns_RAMSize = 0\<rparr>"

definition generateGPUNode :: "kube_node \<Rightarrow> selecting_pool \<Rightarrow> string \<Rightarrow> managed_node \<times> string" where
  "generateGPUNode node pool provisioner =
     (let labels = [(LabelKeyOwner, sp_Name pool), (GPUNodePoolIdentifierLabelPrefix @ sp_Name pool, ''true'')] in
      (\<lparr>gn_Meta = \<lparr>om_Name = ku_Name node, om_Namespace = '''', om_UID = '''',
          om_Labels = (if provisioner \<noteq> '''' then AList.update ProvisionerLabelKey provisioner labels else labels),
          om_Annotations = [], om_Deleting = False, om_Finalizers = []\<rparr>, gn_TotalGPUs = 0, gn_Status = empty_node_status\<rparr>,
       if provisioner \<noteq> '''' then ''Provisioned'' else ''AutoSelect''))"

datatype kube_outcome = KubeDone | KubeError

text \<open>A GPU node no pool selects any more is deleted.\<close>

definition unmatched_node :: "kube_env \<Rightarrow> kube_world \<Rightarrow> kube_world \<times> kube_outcome" where
  "unmatched_node e w =
     (if \<not> kv_gpunodeGetOK e then (w, KubeError)
      else case kw_gpunode w of
             None \<Rightarrow> (w, KubeDone)
           | Some g \<Rightarrow>
               if kv_gpunodeDeleteOK e
               then (w\<lparr>kw_gpunode := Some (g\<lparr>gn_Meta := (gn_Meta g)\<lparr>om_Deleting := True\<rparr>\<rparr>)\<rparr>, KubeDone)
               else (w, KubeError))"

text \<open>
  The links of a managed node to its claim. A claim that is missing makes the node an orphan. An update of the node is
  accepted only if \<open>fresh\<close>: not if this round has already changed the stored node.
\<close>

definition link_claim :: "kube_env \<Rightarrow> bool \<Rightarrow> selecting_pool \<Rightarrow> kube_node \<Rightarrow> managed_node \<Rightarrow> kube_world \<Rightarrow> kube_world \<times> kube_outcome" where
  "link_claim e fresh pool node g w =
     (let provisioner = get_str (ku_Labels node) ProvisionerLabelKey;
          relabel = (om_Labels (gn_Meta g) \<noteq> [] \<and> provisioner \<noteq> '''' \<and> get_str (om_Labels (gn_Meta g)) ProvisionerLabelKey \<noteq> provisioner);
          g' = g\<lparr>gn_Meta := (gn_Meta g)\<lparr>om_Labels := AList.update ProvisionerLabelKey provisioner (om_Labels (gn_Meta g))\<rparr>\<rparr>;
          w1 = (if relabel then w\<lparr>kw_gpunode := Some g'\<rparr> else w)
      in if relabel \<and> \<not> kv_gpunodeUpdateOK e then (w, KubeError)
         else if provisioner = '''' then (w1, KubeDone)
         else (case kv_claim e provisioner of
                 GetFailed \<Rightarrow> (w1, KubeError)
               | NotFound \<Rightarrow>
                   if get_str (ku_Labels node) ProvisionerMissingLabel = TrueStringValue then (w1, KubeDone)
                   else if kv_orphanOK e \<and> fresh
                   then (w1\<lparr>kw_node := Some (node\<lparr>ku_Labels := AList.update ProvisionerMissingLabel TrueStringValue (ku_Labels node)\<rparr>)\<rparr>, KubeDone)
                   else (w1, KubeError)
               | Found _ \<Rightarrow>
                   if sp_Mode pool \<noteq> ProvisioningModeProvisioned then (w1, KubeDone)
                   else if kv_ownerOK e \<and> fresh
                   then (w1\<lparr>kw_node := Some (if kv_canOwn e node provisioner then node\<lparr>ku_Owner := Some provisioner\<rparr> else node)\<rparr>, KubeDone)
                   else (w1, KubeError)))"

text \<open>
  A read of the GPU node that fails with something else than "not found" is ignored: the round goes on with an
  empty object.
\<close>

definition ensure_gpunode :: "kube_env \<Rightarrow> selecting_pool \<Rightarrow> kube_node \<Rightarrow> kube_world \<Rightarrow> kube_world \<times> managed_node option" where
  "ensure_gpunode e pool node w =
     (if \<not> kv_gpunodeGetOK e
      then (w, Some \<lparr>gn_Meta = \<lparr>om_Name = '''', om_Namespace = '''', om_UID = '''', om_Labels = [], om_Annotations = [],
                 om_Deleting = False, om_Finalizers = []\<rparr>, gn_TotalGPUs = 0, gn_Status = empty_node_status\<rparr>)
      else case kw_gpunode w of
             Some g \<Rightarrow> (w, Some g)
           | None \<Rightarrow>
               let (g, mode) = generateGPUNode node pool (get_str (ku_Labels node) ProvisionerLabelKey) in
               if kv_gpunodeCreateOK e then (w\<lparr>kw_gpunode := Some g, kw_manageMode := mode\<rparr>, Some g) else (w, None))"

definition update_selector_hash :: "kube_env \<Rightarrow> string \<Rightarrow> kube_node \<Rightarrow> kube_world \<Rightarrow> kube_world \<times> bool" where
  "update_selector_hash e hash node w =
     (if get_str (ku_Labels node) LabelNodeSelectorHash = hash then (w, True)
      else if kv_hashOK e
      then (w\<lparr>kw_node := map_option (\<lambda>n. n\<lparr>ku_Labels := AList.update LabelNodeSelectorHash hash (ku_Labels n)\<rparr>) (kw_node w)\<rparr>, True)
      else (w, False))"

definition node_Reconcile :: "kube_env \<Rightarrow> kube_world \<Rightarrow> kube_world \<times> kube_outcome" where
  "node_Reconcile e w =
     (if \<not> kv_getOK e then (w, KubeError)
      else case kw_node w of
        None \<Rightarrow> (w, KubeDone)
      | Some node \<Rightarrow>
          if ku_Unschedulable node then (w, KubeDone)
          else (case kv_pools e of
             None \<Rightarrow> (w, KubeError)
           | Some pools \<Rightarrow>
               (case getMatchedPoolName e node pools of
                  None \<Rightarrow> (w, KubeError)
                | Some None \<Rightarrow> unmatched_node e w
                | Some (Some pool) \<Rightarrow>
                    (case ensure_gpunode e pool node w of
                       (w1, None) \<Rightarrow> (w1, KubeError)
                     | (w1, Some g) \<Rightarrow>
                         if ku_Deleting node
                         then if kv_destroyOK e \<and> kv_gpunodeGetOK e
                              then (w1\<lparr>kw_gpunode := Some (set_phase TensorFusionGPUNodePhaseDestroying g)\<rparr>, KubeDone)
                              else (w1, KubeError)
                         else (case update_selector_hash e (GetObjectHash [sp_Selector pool]) node w1 of
                                 (w2, False) \<Rightarrow> (w2, KubeError)
                               | (w2, True) \<Rightarrow>
                                   if sp_Mode pool = ProvisioningModeProvisioned \<or> sp_Mode pool = ProvisioningModeKarpenter
                                   then link_claim e (kw_node w2 = Some node) pool node g w2 else (w2, KubeDone))))))"

section \<open>GPUs\<close>

datatype gpu_outcome = GpuDone | GpuError

definition gpu_Reconcile :: "bool \<Rightarrow> bool \<Rightarrow> gpu get_result \<Rightarrow> gpu option \<times> gpu_outcome" where
  "gpu_Reconcile nodeGetOK patchOK r =
     (case r of
        NotFound \<Rightarrow> (None, GpuDone)
      | GetFailed \<Rightarrow> (None, GpuError)
      | Found g \<Rightarrow>
          if \<not> nodeGetOK then (Some g, GpuError)
          else if gpu_UsedBy g = '''' \<and> gpu_UUID g \<noteq> ''''
          then if patchOK then (Some (g\<lparr>gpu_UsedBy := UsedByTensorFusion\<rparr>), GpuDone) else (Some g, GpuError)
          else (Some g, GpuDone))"

section \<open>Node claims\<close>

record cloud_claim =
  cc_Meta :: object_meta
  cc_Region :: string
  cc_InstanceID :: string
  cc_Phase :: string

record claim_world =
  cw_claim :: "cloud_claim option"
  cw_expander :: node_expander
  cw_created :: nat  \<comment> \<open>instances the provider was asked to create, successfully\<close>
  cw_terminated :: "string list"  \<comment> \<open>instances the provider was asked to terminate\<close>

text \<open>\<open>cv_query\<close>: \<^verbatim>\<open>createProvisionerAndQueryCluster\<close>, \<open>None\<close> for an error.\<close>

record claim_env =
  cv_getOK :: bool
  cv_pool :: "string \<Rightarrow> string option get_result"  \<comment> \<open>the provisioning mode, \<open>None\<close> without a node manager configuration\<close>
  cv_query :: bool
  cv_nodes :: "bool list option"  \<comment> \<open>whether each node with the label of the claim is being deleted\<close>
  cv_terminateOK :: bool
  cv_finalizerOK :: bool
  cv_create :: "string option"  \<comment> \<open>the instance identifier\<close>
  cv_statusOK :: bool

datatype claim_outcome = ClaimDone | ClaimRequeue | ClaimError | ClaimPanic

text \<open>One call of the provider per node that is not being deleted, up to the first that fails.\<close>

definition terminate_nodes :: "claim_env \<Rightarrow> string \<Rightarrow> bool list \<Rightarrow> string list \<times> bool" where
  "terminate_nodes e instance nodes =
     (let live = filter (\<lambda>d. \<not> d) nodes in
      if live = [] then ([], True)
      else if cv_terminateOK e then (replicate (length live) instance, True) else ([], False))"

definition reconcileCloudVendorNode :: "claim_env \<Rightarrow> cloud_claim \<Rightarrow> claim_world \<Rightarrow> claim_world \<times> claim_outcome" where
  "reconcileCloudVendorNode e c w =
     (case cv_create e of
        None \<Rightarrow> (w, ClaimError)
      | Some instance \<Rightarrow>
          let w1 = w\<lparr>cw_created := cw_created w + 1\<rparr> in
          if cv_statusOK e
          then (w1\<lparr>cw_claim := Some (c\<lparr>cc_InstanceID := instance,
                  cc_Phase := (if cc_Phase c = ''Pending'' then ''Creating'' else cc_Phase c)\<rparr>)\<rparr>, ClaimDone)
          else (w1, ClaimError))"

text \<open>The hook: what was terminated, whether to check again, and the result (\<open>None\<close>: an error).\<close>

definition claim_hook :: "claim_env \<Rightarrow> cloud_claim \<Rightarrow> string list \<times> bool \<times> bool option" where
  "claim_hook e c =
     (case cv_nodes e of
        None \<Rightarrow> ([], False, None)
      | Some [] \<Rightarrow> ([], False, Some True)
      | Some nodes \<Rightarrow> (case terminate_nodes e (cc_InstanceID c) nodes of (t, ok) \<Rightarrow> (t, True, if ok then Some False else None)))"

text \<open>
  The error of the provider query is overwritten before it is looked at, so that a failed query dereferences a nil
  cluster.
\<close>

definition claim_Reconcile :: "claim_env \<Rightarrow> claim_world \<Rightarrow> claim_world \<times> claim_outcome" where
  "claim_Reconcile e w =
     (if \<not> cv_getOK e then (w, ClaimError)
      else case cw_claim w of
        None \<Rightarrow> (w, ClaimDone)
      | Some c \<Rightarrow>
          (case cv_pool e (get_str (om_Labels (cc_Meta c)) LabelKeyOwner) of
             NotFound \<Rightarrow> (w, ClaimDone)
           | GetFailed \<Rightarrow> (w, ClaimError)
           | Found m \<Rightarrow>
               if \<not> cv_query e then (w, ClaimPanic)
               else case m of None \<Rightarrow> (w, ClaimPanic)
             | Some mode \<Rightarrow>
                 let w0 = (if om_Labels (cc_Meta c) \<noteq> [] \<and> cc_Phase c = GPUNodeClaimBound
                           then w\<lparr>cw_expander := RemoveInFlightNode (get_str (om_Labels (cc_Meta c)) KarpenterExpansionLabel) (cw_expander w)\<rparr>
                           else w)
                 in if mode = ProvisioningModeAutoSelect then (w0, ClaimDone)
                    else let hooked = (om_Deleting (cc_Meta c) \<and> Finalizer \<in> set (om_Finalizers (cc_Meta c)));
                             (terminated, again, hook) = (if hooked then claim_hook e c else ([], False, Some True));
                             (meta, shouldReturn, err) = HandleFinalizer hook (cv_finalizerOK e) (cc_Meta c);
                             w1 = (if hooked then w0\<lparr>cw_expander := RemoveInFlightNode (om_Name (cc_Meta c)) (cw_expander w0),
                                                      cw_terminated := cw_terminated w0 @ terminated\<rparr> else w0)
                                  \<lparr>cw_claim := Some (c\<lparr>cc_Meta := meta\<rparr>)\<rparr>
                         in if err \<noteq> None then (w1, ClaimError)
                            else if shouldReturn then (w1, ClaimDone)
                            else if again then (w1, ClaimRequeue)
                            else if cc_InstanceID c = '''' then reconcileCloudVendorNode e (c\<lparr>cc_Meta := meta\<rparr>) w1
                            else (w1, ClaimDone)))"

end
