(* ===== verification/NodeProps.thy ===== *)
theory NodeProps
  imports NodeControllers ComposeProps
begin

text \<open>
  Properties of the controllers of Kubernetes nodes and of node claims: the pool a new GPU node belongs to, and how
  many cloud instances a claim creates.
\<close>

section \<open>The pool of a GPU node\<close>

lemma ExtractPoolName_unique:
  assumes "\<forall>(k, v) \<in> set ls. HasPrefix k GPUNodePoolIdentifierLabelPrefix \<longrightarrow> k = GPUNodePoolIdentifierLabelPrefix @ n"
    and "GPUNodePoolIdentifierLabelPrefix @ n \<in> fst ` set ls"
  shows "ExtractPoolNameFromNodeLabel ls = n"
  using assms
proof (induction ls)
  case (Cons l ls)
  obtain k v where l: "l = (k, v)" by (rule prod.exhaust)
  have "HasPrefix (p @ m) p" for p m by (induction p) simp_all
  then show ?case using Cons l by (auto split: if_splits)
qed simp

lemma generateGPUNode_labels:
  assumes "generateGPUNode node pool provisioner = (g, mode)" "mset ls = mset (om_Labels (gn_Meta g))"
  shows "ExtractPoolNameFromNodeLabel ls = sp_Name pool"
proof -
  have s: "set ls = set (om_Labels (gn_Meta g))" using assms(2) by (metis mset_eq_setD)
  have p: "HasPrefix (''tensor-fusion.ai/pool-'' @ x) ''tensor-fusion.ai/pool-''" for x by simp
  show ?thesis
    by (rule ExtractPoolName_unique)
      (use assms(1) p in \<open>auto simp: s generateGPUNode_def Let_def LabelKeyOwner_def ProvisionerLabelKey_def
        GPUNodePoolIdentifierLabelPrefix_def update_triv split: if_splits\<close>)
qed

text \<open>
  A schedulable node that no GPU node stands for yet and that a pool selects gets a GPU node of its name in one round.
  It belongs to the first pool whose selector matches: whatever order its labels are read in, the pool name the node
  controller extracts from them is that pool's, and it carries the provisioner of the node, if any.
\<close>

theorem node_joins_selecting_pool:
  assumes "kv_getOK e" "kv_gpunodeGetOK e" "kv_gpunodeCreateOK e" "kw_node w = Some node" "\<not> ku_Unschedulable node" "\<not> ku_Deleting node"
    and "kw_gpunode w = None" "kv_pools e = Some (xs @ pool # ys)" "\<forall>p \<in> set xs. kv_matches e node (sp_Selector p) = Some False"
    and "kv_matches e node (sp_Selector pool) = Some True"
  shows "\<exists>g. kw_gpunode (fst (node_Reconcile e w)) = Some g \<and> node_name g = ku_Name node
    \<and> (\<forall>ls. mset ls = mset (om_Labels (gn_Meta g)) \<longrightarrow> ExtractPoolNameFromNodeLabel ls = sp_Name pool)
    \<and> get_str (om_Labels (gn_Meta g)) LabelKeyOwner = sp_Name pool
    \<and> get_str (om_Labels (gn_Meta g)) ProvisionerLabelKey = get_str (ku_Labels node) ProvisionerLabelKey"
proof -
  have m: "getMatchedPoolName e node (xs @ pool # ys) = Some (Some pool)"
    using assms(9,10) by (induction xs) simp_all
  obtain g mode where g: "generateGPUNode node pool (get_str (ku_Labels node) ProvisionerLabelKey) = (g, mode)" by (rule prod.exhaust)
  have G: "node_name g = ku_Name node" "get_str (om_Labels (gn_Meta g)) LabelKeyOwner = sp_Name pool"
    "get_str (om_Labels (gn_Meta g)) ProvisionerLabelKey = get_str (ku_Labels node) ProvisionerLabelKey"
    using g by (auto simp: generateGPUNode_def Let_def get_str_def update_conv LabelKeyOwner_def ProvisionerLabelKey_def
        GPUNodePoolIdentifierLabelPrefix_def split: if_splits option.splits)
  let ?w1 = "w\<lparr>kw_gpunode := Some g, kw_manageMode := mode\<rparr>"
  have relabel: "get_str (om_Labels (gn_Meta g)) ProvisionerLabelKey = get_str (ku_Labels node) ProvisionerLabelKey" by (rule G(3))
  have frame: "kw_gpunode (fst (update_selector_hash e hash node ?w1)) = Some g" for hash
    by (simp add: update_selector_hash_def)
  have link: "kw_gpunode (fst (link_claim e fresh pool node g w2)) = kw_gpunode w2" for fresh w2
    by (simp add: link_claim_def Let_def relabel split: get_result.split)
  have "kw_gpunode (fst (node_Reconcile e w)) = Some g"
    using assms(1-8) m g frame link
    by (auto simp: node_Reconcile_def ensure_gpunode_def split: prod.split bool.split) (metis fst_conv)+
  then show ?thesis using G generateGPUNode_labels [OF g] by blast
qed

definition ex_kube_node :: kube_node where
  "ex_kube_node = \<lparr>ku_Name = ''n1'', ku_Labels = [(ProvisionerLabelKey, ''claim'')], ku_Unschedulable = False, ku_Deleting = False, ku_Owner = None\<rparr>"

definition ex_selecting :: "string \<Rightarrow> selecting_pool" where
  "ex_selecting n = \<lparr>sp_Name = n, sp_Selector = n, sp_Mode = ProvisioningModeProvisioned\<rparr>"

definition ex_kube_env :: kube_env where
  "ex_kube_env = \<lparr>kv_getOK = True, kv_pools = Some [ex_selecting ''a'', ex_selecting ''b''],
     kv_matches = (\<lambda>_ s. Some (s = ''b'')), kv_gpunodeGetOK = True, kv_gpunodeDeleteOK = True, kv_gpunodeCreateOK = True, kv_destroyOK = True,
     kv_hashOK = True, kv_gpunodeUpdateOK = True, kv_claim = (\<lambda>_. NotFound), kv_orphanOK = True, kv_ownerOK = True, kv_canOwn = (\<lambda>_ _. True)\<rparr>"

theorem node_joins_selecting_pool_witness:
  "\<exists>g. kw_gpunode (fst (node_Reconcile ex_kube_env \<lparr>kw_node = Some ex_kube_node, kw_gpunode = None, kw_manageMode = ''''\<rparr>)) = Some g
     \<and> ExtractPoolNameFromNodeLabel (om_Labels (gn_Meta g)) = ''b''"
  using node_joins_selecting_pool [of ex_kube_env "\<lparr>kw_node = Some ex_kube_node, kw_gpunode = None, kw_manageMode = ''''\<rparr>" ex_kube_node
      "[ex_selecting ''a'']" "ex_selecting ''b''" "[]"]
  by (auto simp: ex_kube_env_def ex_kube_node_def ex_selecting_def)

text \<open>
  A GPU node stays with the pool it was made for: a round in which another pool selects the node changes none of the labels
  that name its pool.
\<close>

lemma existing_gpunode_keeps_pool:
  assumes "kw_gpunode w = Some g" "kv_gpunodeGetOK e" "kw_node w = Some node" "kv_pools e = Some pools"
    and "getMatchedPoolName e node pools = Some (Some pool)" "k \<noteq> ProvisionerLabelKey"
  shows "\<exists>g'. kw_gpunode (fst (node_Reconcile e w)) = Some g' \<and> map_of (om_Labels (gn_Meta g')) k = map_of (om_Labels (gn_Meta g)) k"
proof -
  have "\<exists>g'. kw_gpunode (fst (link_claim e fresh pool node g w2)) = Some g' \<and> map_of (om_Labels (gn_Meta g')) k = map_of (om_Labels (gn_Meta g)) k"
    if "kw_gpunode w2 = Some g" for fresh w2
    using that assms(6) by (auto simp: link_claim_def Let_def update_conv split: get_result.split)
  then show ?thesis
    using assms by (auto simp: node_Reconcile_def ensure_gpunode_def update_selector_hash_def set_phase_def)
qed

section \<open>Instances of a claim\<close>

definition claim_rounds :: "claim_env list \<Rightarrow> claim_world \<Rightarrow> claim_world" where
  "claim_rounds es w = foldl (\<lambda>w e. fst (claim_Reconcile e w)) w es"

text \<open>How a round can change the number of instances and the identifier.\<close>

lemma claim_round_created:
  "(cw_created (fst (claim_Reconcile e w)) = cw_created w
      \<and> map_option cc_InstanceID (cw_claim (fst (claim_Reconcile e w))) = map_option cc_InstanceID (cw_claim w))
   \<or> (\<exists>i c. cv_create e = Some i \<and> cw_claim w = Some c \<and> cc_InstanceID c = ''''
      \<and> cw_created (fst (claim_Reconcile e w)) = cw_created w + 1
      \<and> (cv_statusOK e \<longrightarrow> map_option cc_InstanceID (cw_claim (fst (claim_Reconcile e w))) = Some i))"
proof (cases "cv_getOK e \<and> cw_claim w \<noteq> None")
  case True
  then obtain c where c: "cv_getOK e" "cw_claim w = Some c" by auto
  show ?thesis
  proof (cases "\<exists>mode. cv_pool e (get_str (om_Labels (cc_Meta c)) LabelKeyOwner) = Found (Some mode) \<and> cv_query e
      \<and> mode \<noteq> ProvisioningModeAutoSelect")
    case True
    then obtain mode where m: "cv_pool e (get_str (om_Labels (cc_Meta c)) LabelKeyOwner) = Found (Some mode)" "cv_query e"
      "mode \<noteq> ProvisioningModeAutoSelect" by blast
    define hooked where "hooked = (om_Deleting (cc_Meta c) \<and> Finalizer \<in> set (om_Finalizers (cc_Meta c)))"
    obtain t again hook where hk: "(if hooked then claim_hook e c else ([], False, Some True)) = (t, again, hook)" using prod_cases3 by blast
    obtain meta ret err where f: "HandleFinalizer hook (cv_finalizerOK e) (cc_Meta c) = (meta, ret, err)" using prod_cases3 by blast
    show ?thesis using c m f hk
      by (auto simp: claim_Reconcile_def Let_def reconcileCloudVendorNode_def hooked_def [symmetric] split: option.split)
  next
    case False
    then show ?thesis using c
      by (auto simp: claim_Reconcile_def Let_def split: get_result.splits option.splits)
  qed
qed (auto simp: claim_Reconcile_def)

lemma claim_rounds_bound:
  assumes "\<forall>e \<in> set es. cv_statusOK e \<and> cv_create e \<noteq> Some ''''"
  shows "cw_created (claim_rounds es w) \<le> cw_created w + (if map_option cc_InstanceID (cw_claim w) = Some '''' then 1 else 0)"
  using assms
proof (induction es arbitrary: w)
  case (Cons e es)
  let ?w = "fst (claim_Reconcile e w)"
  have ih: "cw_created (claim_rounds es ?w) \<le> cw_created ?w + (if map_option cc_InstanceID (cw_claim ?w) = Some '''' then 1 else 0)"
    using Cons by simp
  have "claim_rounds (e # es) w = claim_rounds es ?w" by (simp add: claim_rounds_def)
  moreover have "cw_created ?w + (if map_option cc_InstanceID (cw_claim ?w) = Some '''' then 1 else 0)
      \<le> cw_created w + (if map_option cc_InstanceID (cw_claim w) = Some '''' then 1 else 0)"
    using claim_round_created [of e w]
  proof (elim disjE exE conjE)
    fix i c
    assume a: "cv_create e = Some i" "cw_claim w = Some c" "cc_InstanceID c = ''''" "cw_created ?w = cw_created w + 1"
      "cv_statusOK e \<longrightarrow> map_option cc_InstanceID (cw_claim ?w) = Some i"
    then show ?thesis using Cons.prems by auto
  qed simp
  ultimately show ?case using ih by simp
qed (simp add: claim_rounds_def)

text \<open>A claim the controller will create an instance for.\<close>

definition pending_claim :: "claim_env \<Rightarrow> cloud_claim \<Rightarrow> bool" where
  "pending_claim e c \<longleftrightarrow> cv_getOK e \<and> cv_query e \<and> (\<exists>i. cv_create e = Some i) \<and> cc_InstanceID c = '''' \<and> \<not> om_Deleting (cc_Meta c)
     \<and> Finalizer \<in> set (om_Finalizers (cc_Meta c))
     \<and> (\<exists>mode. cv_pool e (get_str (om_Labels (cc_Meta c)) LabelKeyOwner) = Found (Some mode) \<and> mode \<noteq> ProvisioningModeAutoSelect)"

lemma lost_status_round:
  assumes "cw_claim w = Some c" "pending_claim e c" "\<not> cv_statusOK e"
  shows "cw_created (fst (claim_Reconcile e w)) = cw_created w + 1" "cw_claim (fst (claim_Reconcile e w)) = Some c"
  using assms by (auto simp: claim_Reconcile_def pending_claim_def HandleFinalizer_def reconcileCloudVendorNode_def Let_def)

text \<open>
  C25: a claim creates one cloud instance, if its status can be written. Over any rounds whose status updates succeed and
  in which the provider returns an identifier, at most one instance is created, and none if the claim has one. But
  the instance is created before its identifier is stored: each round in which the provider succeeds and the status update
  does not creates a further instance, which no object refers to.
\<close>

theorem claim_creates_one_instance:
  assumes "\<forall>e \<in> set es. cv_statusOK e \<and> cv_create e \<noteq> Some ''''"
    and "cw_claim v = Some c" "pending_claim e' c" "\<not> cv_statusOK e'"
  shows "cw_created (claim_rounds es w) \<le> cw_created w + (if map_option cc_InstanceID (cw_claim w) = Some '''' then 1 else 0)
    \<and> cw_created (claim_rounds (replicate n e') v) = cw_created v + n"
proof -
  have "cw_created (claim_rounds (replicate n e') v) = cw_created v + n"
    using assms(2)
  proof (induction n arbitrary: v)
    case (Suc n)
    note r = lost_status_round [OF Suc.prems assms(3,4)]
    have "claim_rounds (replicate (Suc n) e') v = claim_rounds (replicate n e') (fst (claim_Reconcile e' v))"
      by (simp add: claim_rounds_def)
    then show ?case using Suc.IH [OF r(2)] r(1) by simp
  qed (simp add: claim_rounds_def)
  then show ?thesis using claim_rounds_bound [OF assms(1)] by blast
qed

definition ex_claim_env :: "bool \<Rightarrow> claim_env" where
  "ex_claim_env ok = \<lparr>cv_getOK = True, cv_pool = (\<lambda>_. Found (Some ProvisioningModeProvisioned)), cv_query = True, cv_nodes = Some [],
     cv_terminateOK = True, cv_finalizerOK = True, cv_create = Some ''i-1'', cv_statusOK = ok\<rparr>"

definition ex_claim_world :: claim_world where
  "ex_claim_world = \<lparr>cw_claim = Some \<lparr>cc_Meta = (ex_pod_meta [] [])\<lparr>om_Finalizers := [Finalizer]\<rparr>, cc_Region = '''', cc_InstanceID = '''',
       cc_Phase = ''Pending''\<rparr>,
     cw_expander = \<lparr>inFlightNodes = [], inFlightNodeClaims = [], preSchedulePods = [], preScheduleTimers = []\<rparr>, cw_created = 0, cw_terminated = []\<rparr>"

theorem claim_creates_one_instance_witness:
  "cw_created (claim_rounds [ex_claim_env True, ex_claim_env True] ex_claim_world) \<le> 1
   \<and> cw_created (claim_rounds (replicate 3 (ex_claim_env False)) ex_claim_world) = 3"
proof -
  have "pending_claim (ex_claim_env False) (the (cw_claim ex_claim_world))"
    by (simp add: pending_claim_def ex_claim_env_def ex_claim_world_def ex_pod_meta_def ProvisioningModeProvisioned_def ProvisioningModeAutoSelect_def)
  then show ?thesis
    using claim_creates_one_instance [of "[ex_claim_env True, ex_claim_env True]" ex_claim_world "the (cw_claim ex_claim_world)"
        "ex_claim_env False" ex_claim_world 3]
    by (simp add: ex_claim_env_def) (simp add: ex_claim_world_def)
qed

end
