(* ===== verification/Spec2Isabelle.thy ===== *)
theory Spec2Isabelle
  imports QuotaProps FilterProps StrategyProps AllocatorProps SchedulerProps PortProps IndexAllocator
    RecommenderProps ExpanderProps RollingUpdateProps PoolProps WorkerProps WebhookProps
    PodProps HttpProps GpuNodeProps NodeProps
begin

text \<open>
  A verification library for the control plane of TensorFusion, the Kubernetes operator and scheduler
  plugin that shares GPUs among pods (Go sources under \<^verbatim>\<open>src/internal\<close> and \<^verbatim>\<open>src/api/v1\<close>).

  \<^bold>\<open>The program.\<close> The GPU allocator keeps the GPUs of the cluster, what is available on each, and which
  pod holds what. It is driven by the scheduler plugin (filter, score, reserve, unreserve), by informers
  that report changed GPUs and quotas, and by the autoscaler, which changes the resources of running
  workers. The quota store accounts usage per namespace. Pods the scheduler rejects go to the node
  expander, which provisions nodes. Two further allocators hand out host ports and pod indexes. The pool
  controllers keep the capacity of a pool within its limits by claiming and compacting nodes, a workload
  controller keeps the workers of a workload, a connection controller assigns clients to workers, and
  component updates are rolled out in batches. A pod enters the system through the admission webhook,
  which parses its workload profile, creates the workload and injects the client; the pods of workers,
  hypervisors and node discovery are composed from the configuration of the pool. The pod controller gives
  clients their connections and releases what ended workers held; the node controllers turn claims into
  cloud instances, Kubernetes nodes into GPU nodes, and start discovery and hypervisor on each. The HTTP
  server answers hypervisors and clients that ask for workers, connections, ports and allocations.

  \<^bold>\<open>Theories and sources.\<close>
  \<^item> \<open>Prelude\<close>, \<open>GoFloat\<close>, \<open>GoStrings\<close>: wrap-around of Go's integers, binary64
    arithmetic with one rounding per operation, and the functions of \<^verbatim>\<open>strconv\<close> and
    \<^verbatim>\<open>strings\<close> the code calls.
  \<^item> \<open>ApiTypes\<close>: the custom resources as records (\<^verbatim>\<open>api/v1\<close>). A resource quantity is a
    rational number, a Go map an association list, a nil pointer the value \<open>None\<close>.
  \<^item> \<open>Ledger\<close>, \<open>Quota\<close>, \<open>QuotaProps\<close>: \<^verbatim>\<open>quota/calculator.go\<close> and
    \<^verbatim>\<open>quota/quota_store.go\<close>. \<open>Ledger\<close> states what a usage ledger is (locale
    \<open>usage_ledger\<close>); the calculator interprets it.
  \<^item> \<open>ResourceUtils\<close>, \<open>Filters\<close>, \<open>FilterProps\<close>: \<^verbatim>\<open>utils/resource.go\<close> and
    \<^verbatim>\<open>gpuallocator/filter\<close>. The locale \<open>filter_chain\<close> is the contract of a filter, interpreted by
    the five filters of the code.
  \<^item> \<open>Strategy\<close>, \<open>StrategyProps\<close>: the placement strategies and the GPU selector; the locale
    \<open>scoring\<close> is the interface \<^verbatim>\<open>Strategy\<close> of \<^verbatim>\<open>gpuallocator.go\<close>.
  \<^item> \<open>Allocator\<close>, \<open>AllocatorOps\<close>, \<open>AllocatorSync\<close>: \<^verbatim>\<open>gpuallocator/gpuallocator.go\<close>
    and \<^verbatim>\<open>node_capacity.go\<close>. The stores share GPU pointers, which are positions in a heap of GPUs.
    \<open>AllocatorInv\<close> and \<open>AllocatorSteps\<close> hold the invariant and a step relation over all
    operations, \<open>AllocatorProps\<close> the properties.
  \<^item> \<open>SchedulerPlugin\<close>, \<open>SchedulerProps\<close>: \<^verbatim>\<open>scheduler/gpuresources/gpuresources.go\<close>, the
    extension points of the plugin over a cycle state.
  \<^item> \<open>SlotPool\<close>, \<open>PortAllocator\<close>, \<open>PortProps\<close>, \<open>IndexAllocator\<close>:
    \<^verbatim>\<open>portallocator/portallocator.go\<close> with its bitmaps of 64-bit words, and
    \<^verbatim>\<open>indexallocator/indexallocator.go\<close>. The locale \<open>slot_pool\<close> is interpreted twice, for the
    ports of a node and of the cluster.
  \<^item> \<open>PodUtils\<close>: \<^verbatim>\<open>utils/reconcile.go\<close> and \<^verbatim>\<open>utils/owner_ref_utils.go\<close>.
  \<^item> \<open>UsageMetrics\<close>, \<open>Autoscaler\<close>, \<open>Recommender\<close>, \<open>RecommenderProps\<close>:
    \<^verbatim>\<open>autoscaler\<close> with its samplers, estimators, recommenders and workload handler.
  \<^item> \<open>Expander\<close>, \<open>ExpanderProps\<close>: \<^verbatim>\<open>scheduler/expander\<close>, the queue of rejected pods and
    the node expander.
  \<^item> \<open>RollingUpdate\<close>, \<open>RollingUpdateProps\<close>: \<^verbatim>\<open>component\<close>, rolling updates of the
    hypervisor, the workers and the clients in batches.
  \<^item> \<open>PoolCapacity\<close>, \<open>PoolProvision\<close>, \<open>PoolController\<close>, \<open>LeastCost\<close>,
    \<open>PoolProps\<close>: the capacity gap of a pool and the claims that close it
    (\<^verbatim>\<open>controller/gpupool_node_provision.go\<close>), the reconcilers of
    \<^verbatim>\<open>gpupool_controller.go\<close> and \<^verbatim>\<open>gpupool_compaction_controller.go\<close>, and the choice of the
    cheapest instance type (\<^verbatim>\<open>cloudprovider/common/utils.go\<close>).
  \<^item> \<open>Workers\<close>, \<open>Connections\<close>, \<open>WorkerProps\<close>: \<^verbatim>\<open>worker/worker.go\<close>,
    \<^verbatim>\<open>tensorfusionworkload_controller.go\<close> and
    \<^verbatim>\<open>tensorfusionconnection_controller.go\<close>.
  \<^item> \<open>Compose\<close>, \<open>ComposeProps\<close>: \<^verbatim>\<open>utils/compose.go\<close> and \<^verbatim>\<open>GenerateWorkerPod\<close> of
    \<^verbatim>\<open>worker/worker.go\<close>. Pods are records of labels, annotations, containers and volumes;
    \<open>pod_of\<close> is what the allocator sees of one.
  \<^item> \<open>TfParser\<close>, \<open>ParserProps\<close>, \<open>PodCounter\<close>, \<open>PodWebhook\<close>, \<open>WebhookProps\<close>:
    \<^verbatim>\<open>webhook/v1\<close> with the profile parser, the counter of a gradual roll-out, the migration rules and
    the whole admission handler.
  \<^item> \<open>PodController\<close>, \<open>PodProps\<close>: \<^verbatim>\<open>controller/pod_controller.go\<close>, the round over
    worker and client pods.
  \<^item> \<open>GpuNode\<close>, \<open>GpuNodeProps\<close>: \<^verbatim>\<open>controller/gpunode_controller.go\<close>, discovery,
    hypervisor and status of a GPU node.
  \<^item> \<open>NodeControllers\<close>, \<open>NodeProps\<close>: \<^verbatim>\<open>node_controller.go\<close>,
    \<^verbatim>\<open>gpunodeclaim_controller.go\<close> and \<^verbatim>\<open>gpu_controller.go\<close>.
  \<^item> \<open>HttpServer\<close>, \<open>HttpProps\<close>: \<^verbatim>\<open>server/server.go\<close>, the handlers of
    \<^verbatim>\<open>server/router\<close> and \<^verbatim>\<open>utils/svr.go\<close>.

  \<^bold>\<open>What is shown.\<close> For the allocator: no \<^verbatim>\<open>Bind\<close> of a request in tflops makes availability
  negative; in every reachable state availability is capacity less the recorded requests; binding and
  releasing cancel. For quotas: a request that passes the check keeps the totals, releasing
  incrementally refines rebuilding from scratch, and usage stays non-negative. For filters and
  strategies: what passes meets the criteria and nothing that meets them is lost, scores are within 0 and
  100, the selector takes the best node. For the plugin: a node accepted by Filter has enough candidates,
  Reserve is safe whatever happened since PreFilter, and Unreserve undoes it. For ports and indexes: held
  ones are distinct and in range, and the lowest free port is assigned. For the
  autoscaler: merged recommendations are maximal and capped so that they fit on the GPUs. For the
  expander: at most fifteen nodes are in flight and no pod is queued twice. For pools: provisioning stays
  within the limits, the chosen nodes cover the gap at least cost, compaction keeps the capacity of the
  pool, a round of a rolling update moves only whole batches. For workers: reconciling a workload reaches
  its number of replicas, and a connection gets a least used worker. For the webhook: a parsed profile is
  well formed, the allocator reads from the admitted pod exactly that profile, a pod marked for injection
  is injected, and over any sequence of requests a gradual roll-out never exceeds its limit. For composed
  pods: every mount has its volume, and a worker pod asks for the profile of its workload. For pods
  and nodes: a pod that ended frees its GPUs, a client pod gets its connection, a node runs after four
  rounds and never with an outdated hypervisor, a claim creates one instance. For the server: a connection
  is shown to its owner only, a replica that is not the leader assigns no port, and the allocation report
  balances. Further theorems state
  behaviour the code has and its authors may not intend, such as an alert that is always raised or a
  release that is given up.

  \<^bold>\<open>Parameters.\<close> The record \<open>ext\<close> of \<open>ResourceUtils\<close> holds what lies outside the sources:
  the quantity parser and printer, the conversions of quantities to integers and floats, the API server's
  answers, the node-selector matcher, the order in which Go ranges over a map and breaks ties when sorting.
  The records \<open>env\<close> of \<open>Autoscaler\<close> and \<open>xenv\<close> of \<open>Expander\<close> add cron schedules, the
  histogram percentile, the clock, the simulated scheduling run and random names; \<open>upd_env\<close>,
  \<open>compaction_env\<close>, \<open>provider\<close>, \<open>provision_env\<close>, \<open>ctl_env\<close>, \<open>workload_env\<close> and \<open>conn_env\<close>
  hold the answers of the API server and of the cloud provider to the controllers; \<open>compose_env\<close>,
  \<open>parse_env\<close>, \<open>counter_env\<close> and \<open>webhook_env\<close> the printers and decoders, JSON patches and stored
  objects of pod composition and of the webhook; \<open>pod_env\<close>, \<open>node_env\<close>, \<open>kube_env\<close>,
  \<open>claim_env\<close> and \<open>http_env\<close> the answers to the pod and node controllers and to the server. Theorems that rely on a
  law of a parameter state it as a hypothesis, and their witnesses use a concrete one.

  \<^bold>\<open>Termination.\<close> Loops are structural recursions over the list they traverse. The walks up the owner
  references and the search for the batch of a rolling update may not end; they are partial functions, and
  one theorem for each says exactly when they return. The
  polling of a queued port release is bounded by the 100 steps of \<^verbatim>\<open>RETRY_CONFIG\<close>. No fuel is used.

  \<^bold>\<open>Concurrency.\<close> Operations that hold the store mutex are single steps; sequences of steps interleave
  them. The few reads outside the mutex are treated as part of the step.

  \<^bold>\<open>Not modelled.\<close> The remaining controllers (GPU, node, node claim, node class, cluster and pod), cloud SDK calls, metric encoders and the HTTP server translate between
  cluster objects and other systems; the deep copies are generated; \<^verbatim>\<open>gputopo\<close> is a stub; the entry
  points only wire components together. Logging, events and metrics of the modelled components are left out.
\<close>

end
